(* ===== verification/Prelude.thy ===== *)
theory Prelude
  imports Complex_Main "HOL-Library.List_Lexorder" "HOL-Library.Char_ord" "HOL-Library.Sublist"
begin

section \<open>Shared vocabulary: errors, results, list and lookup lemmas\<close>

text \<open>
  The Python code reports failure by raising. Every operation of the model returns
  \<open>py_error + 'a\<close>: \<open>Inl\<close> is the exception (its class and its message), \<open>Inr\<close> the value. A state
  changing operation that raises inside a SQLite transaction leaves the state alone (the
  connection is closed without a commit), so its \<open>Inl\<close> carries no state.

  This theory holds the sequencing combinators for that type with the rules the component
  proofs use (the collection \<open>res_simps\<close>), and the generic lemmas on association lists,
  running sums and list prefixes that several components share.
\<close>

datatype py_error =
    ValueError string
  | RuntimeError string
  | TypeError string
  | KeyError string
  | AttributeError string
  | OverflowError string
  | IntegrityError string
  | InvalidOperation string
  | CodedError string
  | CustomError string string

type_synonym 'a res = "py_error + 'a"

named_theorems res_simps \<open>rewriting results of sequenced operations\<close>

subsection \<open>Sequencing\<close>

definition res_bind :: "'e + 'a \<Rightarrow> ('a \<Rightarrow> 'e + 'b) \<Rightarrow> 'e + 'b" where
  "res_bind m f = (case m of Inl e \<Rightarrow> Inl e | Inr x \<Rightarrow> f x)"

definition require :: "bool \<Rightarrow> 'e \<Rightarrow> 'e + unit" where
  "require c e = (if c then Inr () else Inl e)"

lemma res_bind_Inl [simp]: "res_bind (Inl e) f = Inl e"
  by (simp add: res_bind_def)

lemma res_bind_Inr [simp]: "res_bind (Inr x) f = f x"
  by (simp add: res_bind_def)

lemma res_bind_eq_Inr [res_simps]:
  "res_bind m f = Inr y \<longleftrightarrow> (\<exists>x. m = Inr x \<and> f x = Inr y)"
  by (cases m) auto

lemma res_bindE [elim!]:
  assumes "res_bind m f = Inr y"
  obtains x where "m = Inr x" "f x = Inr y"
  using assms by (cases m) auto

lemma res_bind_eq_Inl [res_simps]:
  "res_bind m f = Inl e \<longleftrightarrow> m = Inl e \<or> (\<exists>x. m = Inr x \<and> f x = Inl e)"
  by (cases m) auto

lemma res_bind_assoc: "res_bind (res_bind first second) third = res_bind first (\<lambda>v. res_bind (second v) third)"
  by (simp add: res_bind_def split: sum.splits)

lemma res_bind_cong [fundef_cong]:
  assumes "step = step'" and "\<And>v. step' = Inr v \<Longrightarrow> rest v = rest' v"
  shows "res_bind step rest = res_bind step' rest'"
  using assms by (simp add: res_bind_def split: sum.split)

lemma require_eq_Inr [res_simps, simp]: "require c e = Inr u \<longleftrightarrow> c"
  by (simp add: require_def)

lemma require_eq_Inl [res_simps, simp]: "require c e = Inl e' \<longleftrightarrow> \<not> c \<and> e' = e"
  by (auto simp: require_def)

lemma require_True [simp]: "require True e = Inr ()"
  by (simp add: require_def)

lemma require_False [simp]: "require False e = Inl e"
  by (simp add: require_def)

text \<open>A \<open>for\<close> loop that may raise, collecting its results, and one that threads a state.\<close>

fun res_map :: "('a \<Rightarrow> 'e + 'b) \<Rightarrow> 'a list \<Rightarrow> 'e + 'b list" where
  "res_map f [] = Inr []"
| "res_map f (x # xs) = res_bind (f x) (\<lambda>y. res_bind (res_map f xs) (\<lambda>ys. Inr (y # ys)))"

fun res_fold :: "('s \<Rightarrow> 'a \<Rightarrow> 'e + 's) \<Rightarrow> 's \<Rightarrow> 'a list \<Rightarrow> 'e + 's" where
  "res_fold f s [] = Inr s"
| "res_fold f s (x # xs) = res_bind (f s x) (\<lambda>s'. res_fold f s' xs)"

lemma res_map_Inr_length: "res_map f xs = Inr ys \<Longrightarrow> length ys = length xs"
  by (induction xs arbitrary: ys) (auto simp: res_simps)

lemma res_map_Inr_iff: "res_map f xs = Inr ys \<longleftrightarrow> list_all2 (\<lambda>x y. f x = Inr y) xs ys"
proof (induction xs arbitrary: ys)
  case Nil
  then show ?case by auto
next
  case (Cons x xs)
  then show ?case by (cases ys) (auto simp: res_simps)
qed

lemma res_map_total: "(\<And>x. x \<in> set xs \<Longrightarrow> f x = Inr (g x)) \<Longrightarrow> res_map f xs = Inr (map g xs)"
  by (induction xs) auto

lemma res_fold_append: "res_fold f s (xs @ ys) = res_bind (res_fold f s xs) (\<lambda>s'. res_fold f s' ys)"
  by (induction xs arbitrary: s) (auto simp: res_bind_assoc)

text \<open>The invariant rule of a raising loop.\<close>

lemma res_fold_invariant:
  assumes "res_fold f s xs = Inr s'" and "P s"
    and "\<And>s x s'. x \<in> set xs \<Longrightarrow> P s \<Longrightarrow> f s x = Inr s' \<Longrightarrow> P s'"
  shows "P s'"
  using assms
proof (induction xs arbitrary: s)
  case Nil
  then show ?case by simp
next
  case (Cons x xs)
  then obtain t where t: "f s x = Inr t" "res_fold f t xs = Inr s'"
    by (auto simp: res_simps)
  have "P t" using Cons.prems t by auto
  then show ?case using Cons.IH [of t] Cons.prems t by auto
qed

lemma res_fold_total:
  assumes "P s" and "\<And>s x. x \<in> set xs \<Longrightarrow> P s \<Longrightarrow> \<exists>s'. f s x = Inr s' \<and> P s'"
  shows "\<exists>s'. res_fold f s xs = Inr s' \<and> P s'"
  using assms
proof (induction xs arbitrary: s)
  case Nil
  then show ?case by simp
next
  case (Cons x xs)
  then obtain t where t: "f s x = Inr t" "P t"
    by (meson list.set_intros(1))
  with Cons.IH [of t] Cons.prems show ?case by auto
qed

subsection \<open>Association lists: Python dicts in insertion order\<close>

text \<open>
  A dict is an association list in insertion order: an update of a present key keeps its
  place, a new key goes to the end, as Python's dicts do.
\<close>

fun assoc_put :: "'k \<Rightarrow> 'v \<Rightarrow> ('k \<times> 'v) list \<Rightarrow> ('k \<times> 'v) list" where
  "assoc_put k v [] = [(k, v)]"
| "assoc_put k v ((k', v') # kvs) = (if k' = k then (k, v) # kvs else (k', v') # assoc_put k v kvs)"

definition assoc_get :: "'v \<Rightarrow> ('k \<times> 'v) list \<Rightarrow> 'k \<Rightarrow> 'v" where
  "assoc_get d kvs k = (case map_of kvs k of None \<Rightarrow> d | Some v \<Rightarrow> v)"

lemma map_of_assoc_put [simp]: "map_of (assoc_put k v kvs) = (map_of kvs)(k \<mapsto> v)"
  by (induction kvs) (auto simp: fun_eq_iff)

lemma assoc_get_Nil [simp]: "assoc_get d [] k = d"
  by (simp add: assoc_get_def)

lemma assoc_get_Cons [simp]:
  "assoc_get d ((k', v) # kvs) k = (if k' = k then v else assoc_get d kvs k)"
  by (simp add: assoc_get_def)

lemma assoc_get_put [simp]:
  "assoc_get d (assoc_put k v kvs) k' = (if k' = k then v else assoc_get d kvs k')"
  by (simp add: assoc_get_def)

lemma map_fst_assoc_put:
  "map fst (assoc_put k v kvs)
     = (if k \<in> fst ` set kvs then map fst kvs else map fst kvs @ [k])"
  by (induction k v kvs rule: assoc_put.induct) auto

lemma keys_assoc_put [simp]: "fst ` set (assoc_put k v kvs) = insert k (fst ` set kvs)"
  using arg_cong [OF map_fst_assoc_put, of set k v kvs] by auto

lemma distinct_assoc_put: "distinct (map fst kvs) \<Longrightarrow> distinct (map fst (assoc_put k v kvs))"
  by (simp add: map_fst_assoc_put)

lemma assoc_get_default: "k \<notin> fst ` set kvs \<Longrightarrow> assoc_get d kvs k = d"
  by (induction kvs) auto

lemma map_of_Some_assoc_get: "map_of kvs k = Some v \<Longrightarrow> assoc_get d kvs k = v"
  by (simp add: assoc_get_def)

lemma assoc_get_mem:
  "distinct (map fst kvs) \<Longrightarrow> (k, v) \<in> set kvs \<Longrightarrow> assoc_get d kvs k = v"
  by (simp add: assoc_get_def)

subsection \<open>Lists\<close>

lemma find_Some_mem: "find P xs = Some x \<Longrightarrow> x \<in> set xs \<and> P x"
  by (induction xs) (auto split: if_splits)

lemma find_append: "find P (xs @ ys) = (case find P xs of Some x \<Rightarrow> Some x | None \<Rightarrow> find P ys)"
  by (induction xs) auto

lemma sum_list_map_filter_split:
  fixes f :: "'a \<Rightarrow> 'b::comm_monoid_add"
  shows "sum_list (map f xs) = sum_list (map f (filter P xs)) + sum_list (map f (filter (\<lambda>x. \<not> P x) xs))"
  by (induction xs) (auto simp: algebra_simps)

lemma sum_list_zero_all:
  fixes f :: "'a \<Rightarrow> 'b::comm_monoid_add"
  shows "(\<And>x. x \<in> set xs \<Longrightarrow> f x = 0) \<Longrightarrow> sum_list (map f xs) = 0"
  by (induction xs) auto

text \<open>\<open>ORDER BY key DESC LIMIT 1\<close>: a row with the greatest key, the first of them in table order.\<close>

fun newest :: "('a \<Rightarrow> 'k::linorder) \<Rightarrow> 'a list \<Rightarrow> 'a option" where
  "newest key [] = None"
| "newest key (x # xs) =
     (case newest key xs of None \<Rightarrow> Some x | Some y \<Rightarrow> Some (if key x < key y then y else x))"

lemma newest_None [simp]: "newest key xs = None \<longleftrightarrow> xs = []"
  by (cases xs) (auto split: option.splits)

lemma newest_Some:
  "newest key xs = Some x \<Longrightarrow> x \<in> set xs \<and> (\<forall>y \<in> set xs. key y \<le> key x)"
proof (induction xs arbitrary: x)
  case (Cons a xs)
  show ?case
  proof (cases "newest key xs")
    case None
    with Cons.prems show ?thesis by simp
  next
    case (Some b)
    with Cons.IH [of b] Cons.prems show ?thesis by (auto split: if_splits)
  qed
qed simp

lemma newest_snoc:
  assumes "\<And>y. y \<in> set xs \<Longrightarrow> key y < key x"
  shows "newest key (xs @ [x]) = Some x"
  using assms by (induction xs) auto

lemma prefix_map_filter: "prefix xs ys \<Longrightarrow> prefix (filter P xs) (filter P ys)"
  by (auto simp: prefix_def)

lemma last_filter_append:
  "filter P ys \<noteq> [] \<Longrightarrow> last (filter P (xs @ ys)) = last (filter P ys)"
  by simp

end
