(* ===== verification/Py_Value.thy ===== *)
theory Py_Value
  imports Py_Text
begin

section \<open>Python values and canonical JSON\<close>

text \<open>
  The values that reach the modelled code dynamically typed (\<open>Any\<close>, rows, payloads decoded from
  JSON) are \<open>pyval\<close>. A float is represented by its \<open>repr\<close>, which is all the code looks at
  (truth value, \<open>str\<close>, \<open>json.dumps\<close>). A dict keeps its insertion order.

  \<open>canonical_json\<close> is \<open>json.dumps(value, ensure_ascii=False, sort_keys=True,
  separators=(",", ":"))\<close>, the text every seal of the program is computed from. The main result
  is that it is injective: two values with the same canonical text are the same value up to the
  order of dict entries (\<open>canonical_json_inj\<close>). \<open>canon\<close>, which sorts the entries at
  every level, is also what Python's \<open>==\<close> on decoded payloads compares.
\<close>

datatype pyval =
    PNone
  | PBool bool
  | PInt int
  | PFloat string
  | PStr string
  | PList "pyval list"
  | PDict "(string \<times> pyval) list"

type_synonym pydict = "(string \<times> pyval) list"

subsection \<open>Truth value, \<open>str\<close>, \<open>dict.get\<close>\<close>

fun truthy :: "pyval \<Rightarrow> bool" where
  "truthy PNone = False"
| "truthy (PBool b) = b"
| "truthy (PInt i) = (i \<noteq> 0)"
| "truthy (PFloat r) = (r \<noteq> ''0.0'' \<and> r \<noteq> ''-0.0'')"
| "truthy (PStr s) = (s \<noteq> [])"
| "truthy (PList xs) = (xs \<noteq> [])"
| "truthy (PDict kvs) = (kvs \<noteq> [])"

definition py_or :: "pyval \<Rightarrow> pyval \<Rightarrow> pyval" where
  "py_or v w = (if truthy v then v else w)"

definition hex_char :: "nat \<Rightarrow> char" where
  "hex_char d = (if d < 10 then char_of (48 + d) else char_of (87 + d))"

definition hex_byte :: "nat \<Rightarrow> string" where
  "hex_byte n = [hex_char (n div 16), hex_char (n mod 16)]"

definition repr_char :: "char \<Rightarrow> char \<Rightarrow> string" where
  "repr_char q c =
     (if c = q \<or> c = CHR 0x5C then [CHR 0x5C, c]
      else if c = CHR 0x0A then [CHR 0x5C, CHR ''n'']
      else if c = CHR 0x0D then [CHR 0x5C, CHR ''r'']
      else if c = CHR 0x09 then [CHR 0x5C, CHR ''t'']
      else if code c < 32 \<or> code c = 127 then CHR 0x5C # CHR ''x'' # hex_byte (code c)
      else [c])"

definition repr_string :: "string \<Rightarrow> string" where
  "repr_string s =
     (let q = (if CHR 0x27 \<in> set s \<and> CHR 0x22 \<notin> set s then CHR 0x22 else CHR 0x27)
      in q # concat (map (repr_char q) s) @ [q])"

fun py_repr :: "pyval \<Rightarrow> string"
  and repr_items :: "pyval list \<Rightarrow> string"
  and repr_entries :: "pydict \<Rightarrow> string" where
  "py_repr PNone = ''None''"
| "py_repr (PBool b) = (if b then ''True'' else ''False'')"
| "py_repr (PInt i) = int_text i"
| "py_repr (PFloat r) = r"
| "py_repr (PStr s) = repr_string s"
| "py_repr (PList xs) = ''['' @ repr_items xs @ '']''"
| "py_repr (PDict kvs) = ''{'' @ repr_entries kvs @ ''}''"
| "repr_items [] = []"
| "repr_items (x # xs) = py_repr x @ (if xs = [] then [] else '', '' @ repr_items xs)"
| "repr_entries [] = []"
| "repr_entries ((k, v) # kvs) =
     repr_string k @ '': '' @ py_repr v @ (if kvs = [] then [] else '', '' @ repr_entries kvs)"

definition py_str :: "pyval \<Rightarrow> string" where
  "py_str v = (case v of PStr s \<Rightarrow> s | _ \<Rightarrow> py_repr v)"

definition dict_get :: "pydict \<Rightarrow> string \<Rightarrow> pyval" where
  "dict_get d k = assoc_get PNone d k"

fun is_dict :: "pyval \<Rightarrow> bool" where
  "is_dict (PDict d) = True"
| "is_dict _ = False"

text \<open>\<open>payload if isinstance(payload, Mapping) else {}\<close>\<close>

fun as_dict :: "pyval \<Rightarrow> pydict" where
  "as_dict (PDict d) = d"
| "as_dict _ = []"

lemma py_str_simps [simp]:
  "py_str (PStr s) = s" "py_str PNone = ''None''" "py_str (PInt i) = int_text i"
  by (simp_all add: py_str_def)

lemma dict_get_simps [simp]:
  "dict_get [] k = PNone"
  "dict_get ((k', v) # d) k = (if k' = k then v else dict_get d k)"
  by (simp_all add: dict_get_def)

lemma py_or_simps [simp]:
  "py_or PNone w = w"
  "py_or (PStr s) w = (if s = [] then w else PStr s)"
  "py_or (PInt i) w = (if i = 0 then w else PInt i)"
  by (simp_all add: py_or_def)

text \<open>\<open>str(value or "").strip()\<close> of a text is its stripped text.\<close>

lemma py_or_empty_text [simp]: "py_str (py_or (PStr s) (PStr [])) = s"
  by simp

subsection \<open>Canonical JSON text\<close>

definition json_escape :: "char \<Rightarrow> string" where
  "json_escape c =
     (if c = CHR 0x22 \<or> c = CHR 0x5C then [CHR 0x5C, c]
      else if c = CHR 0x0A then [CHR 0x5C, CHR ''n'']
      else if c = CHR 0x0D then [CHR 0x5C, CHR ''r'']
      else if c = CHR 0x09 then [CHR 0x5C, CHR ''t'']
      else if c = CHR 0x0C then [CHR 0x5C, CHR ''f'']
      else if c = CHR 0x08 then [CHR 0x5C, CHR ''b'']
      else if code c < 32 then CHR 0x5C # CHR ''u'' # CHR ''0'' # CHR ''0'' # hex_byte (code c)
      else [c])"

definition json_quote :: "string \<Rightarrow> string" where
  "json_quote s = CHR 0x22 # concat (map json_escape s) @ [CHR 0x22]"

fun json_text :: "pyval \<Rightarrow> string"
  and json_items :: "pyval list \<Rightarrow> string"
  and json_entries :: "pydict \<Rightarrow> string" where
  "json_text PNone = ''null''"
| "json_text (PBool b) = (if b then ''true'' else ''false'')"
| "json_text (PInt i) = int_text i"
| "json_text (PFloat r) = r"
| "json_text (PStr s) = json_quote s"
| "json_text (PList xs) = ''['' @ json_items xs @ '']''"
| "json_text (PDict kvs) = ''{'' @ json_entries kvs @ ''}''"
| "json_items [] = []"
| "json_items (x # xs) = json_text x @ (if xs = [] then [] else '','' @ json_items xs)"
| "json_entries [] = []"
| "json_entries ((k, v) # kvs) =
     json_quote k @ '':'' @ json_text v @ (if kvs = [] then [] else '','' @ json_entries kvs)"

fun canon :: "pyval \<Rightarrow> pyval"
  and canon_list :: "pyval list \<Rightarrow> pyval list"
  and canon_entries :: "pydict \<Rightarrow> pydict" where
  "canon (PList xs) = PList (canon_list xs)"
| "canon (PDict kvs) = PDict (canon_entries kvs)"
| "canon v = v"
| "canon_list [] = []"
| "canon_list (x # xs) = canon x # canon_list xs"
| "canon_entries [] = []"
| "canon_entries ((k, v) # kvs) = insort_key fst (k, canon v) (canon_entries kvs)"

definition canonical_json :: "pyval \<Rightarrow> string" where
  "canonical_json v = json_text (canon v)"

text \<open>Values without floats: what the sealed payloads of the program are built from.\<close>

fun plain :: "pyval \<Rightarrow> bool"
  and plain_list :: "pyval list \<Rightarrow> bool"
  and plain_entries :: "pydict \<Rightarrow> bool" where
  "plain (PFloat r) = False"
| "plain (PList xs) = plain_list xs"
| "plain (PDict kvs) = plain_entries kvs"
| "plain v = True"
| "plain_list [] = True"
| "plain_list (x # xs) = (plain x \<and> plain_list xs)"
| "plain_entries [] = True"
| "plain_entries ((k, v) # kvs) = (plain v \<and> plain_entries kvs)"

subsection \<open>The canonical text determines the value\<close>

definition delimited :: "string \<Rightarrow> bool" where
  "delimited r \<longleftrightarrow> (case r of [] \<Rightarrow> True | c # _ \<Rightarrow> \<not> is_digit c)"

lemma delimited_simps [simp]: "delimited []" "delimited (c # r) = (\<not> is_digit c)"
  by (simp_all add: delimited_def)

lemma hex_char_inj: "m < 16 \<Longrightarrow> n < 16 \<Longrightarrow> hex_char m = hex_char n \<longleftrightarrow> m = n"
  by (auto simp: hex_char_def dest: arg_cong [where f = code])

lemma hex_byte_inj: "m < 256 \<Longrightarrow> n < 256 \<Longrightarrow> hex_byte m = hex_byte n \<longleftrightarrow> m = n"
proof -
  assume a: "m < 256" "n < 256"
  have "m = n" if "m div 16 = n div 16" "m mod 16 = n mod 16"
    using that by (metis div_mult_mod_eq)
  with a show ?thesis by (auto simp: hex_byte_def hex_char_inj less_mult_imp_div_less)
qed

lemma hex_code_inj:
  "hex_char (code c div 16) = hex_char (code d div 16) \<Longrightarrow>
   hex_char (code c mod 16) = hex_char (code d mod 16) \<Longrightarrow> c = d"
  using hex_byte_inj [of "code c" "code d"] by (simp add: hex_byte_def)

lemma json_escape_append_inj:
  "json_escape c @ x = json_escape d @ y \<Longrightarrow> c = d \<and> x = y"
  by (auto simp: json_escape_def hex_byte_def split: if_splits intro: hex_code_inj)

lemma json_escape_hd: "\<exists>e t. json_escape c = e # t \<and> e \<noteq> CHR 0x22"
  by (auto simp: json_escape_def)

lemma json_body_inj:
  "concat (map json_escape s) @ CHR 0x22 # x = concat (map json_escape t) @ CHR 0x22 # y
   \<Longrightarrow> s = t \<and> x = y"
proof (induction s arbitrary: t)
  case Nil
  then show ?case using json_escape_hd [of "hd t"] by (cases t) auto
next
  case (Cons c s)
  show ?case
  proof (cases t)
    case Nil
    with Cons.prems json_escape_hd [of c] show ?thesis by auto
  next
    case (Cons d t')
    from Cons.prems [unfolded Cons] have
      "json_escape c @ (concat (map json_escape s) @ CHR 0x22 # x)
        = json_escape d @ (concat (map json_escape t') @ CHR 0x22 # y)" by simp
    from json_escape_append_inj [OF this] Cons.IH show ?thesis by (auto simp: Cons)
  qed
qed

lemma json_quote_append_inj: "json_quote s @ x = json_quote t @ y \<Longrightarrow> s = t \<and> x = y"
  by (auto simp: json_quote_def dest: json_body_inj)

lemma digits_append_inj:
  assumes "list_all is_digit s" "list_all is_digit t" "delimited x" "delimited y"
    and "s @ x = t @ y"
  shows "s = t \<and> x = y"
proof -
  have t: "takeWhile is_digit (u @ z) = u" if "list_all is_digit u" "delimited z" for u z
    using that by (cases z) (auto simp: list_all_iff takeWhile_append)
  have "s = t" using t [OF assms(1,3)] t [OF assms(2,4)] assms(5) by simp
  with assms(5) show ?thesis by simp
qed

lemma nat_text_hd: "\<exists>c t. nat_text n = c # t \<and> is_digit c"
  using nat_text_digits [of n] nat_text_nonempty [of n] by (cases "nat_text n") auto

lemma nat_text_append_inj:
  "nat_text m @ x = nat_text n @ y \<Longrightarrow> delimited x \<Longrightarrow> delimited y \<Longrightarrow> m = n \<and> x = y"
  using digits_append_inj [OF nat_text_digits nat_text_digits] nat_text_inj by blast

lemma minus_nat_text: "CHR ''-'' # u \<noteq> nat_text n @ v" "nat_text n @ v \<noteq> CHR ''-'' # u"
  using nat_text_hd [of n] by (auto simp: is_digit_def)

lemma int_text_append_inj:
  assumes eq: "int_text i @ x = int_text j @ y" and d: "delimited x" "delimited y"
  shows "i = j \<and> x = y"
proof (cases "i < 0")
  case True
  with eq minus_nat_text(1) have j: "j < 0" by (force simp: int_text_def split: if_splits)
  with True eq have "nat_text (nat (- i)) @ x = nat_text (nat (- j)) @ y"
    by (simp add: int_text_def)
  from nat_text_append_inj [OF this d] True j show ?thesis by (simp add: eq_nat_nat_iff)
next
  case False
  with eq minus_nat_text(2) have j: "\<not> j < 0" by (force simp: int_text_def split: if_splits)
  with False eq have "nat_text (nat i) @ x = nat_text (nat j) @ y"
    by (simp add: int_text_def)
  from nat_text_append_inj [OF this d] False j show ?thesis by (simp add: eq_nat_nat_iff)
qed

text \<open>The first character of a text tells the kind of value it starts.\<close>

fun kind_char :: "pyval \<Rightarrow> char \<Rightarrow> bool" where
  "kind_char PNone c = (c = CHR ''n'')"
| "kind_char (PBool b) c = (c = (if b then CHR ''t'' else CHR ''f''))"
| "kind_char (PInt i) c = (is_digit c \<or> c = CHR ''-'')"
| "kind_char (PFloat r) c = True"
| "kind_char (PStr s) c = (c = CHR 0x22)"
| "kind_char (PList xs) c = (c = CHR ''['')"
| "kind_char (PDict d) c = (c = CHR ''{'')"

lemma json_text_kind: "plain v \<Longrightarrow> \<exists>c t. json_text v = c # t \<and> kind_char v c"
  using nat_text_hd [of "case v of PInt i \<Rightarrow> nat i | _ \<Rightarrow> 0"]
  by (cases v) (auto simp: int_text_def json_quote_def)

definition prefix_free :: "pyval \<Rightarrow> bool" where
  "prefix_free v \<longleftrightarrow> (\<forall>w x y. plain w \<longrightarrow> delimited x \<longrightarrow> delimited y \<longrightarrow>
     json_text v @ x = json_text w @ y \<longrightarrow> v = w \<and> x = y)"

lemma prefix_freeD:
  "prefix_free v \<Longrightarrow> json_text v @ x = json_text w @ y \<Longrightarrow> plain w \<Longrightarrow>
   delimited x \<Longrightarrow> delimited y \<Longrightarrow> v = w \<and> x = y"
  by (simp add: prefix_free_def)

lemma not_digit_punct [simp]:
  "\<not> is_digit (CHR '','')" "\<not> is_digit (CHR '']'')" "\<not> is_digit (CHR ''}'')"
  "\<not> is_digit (CHR ''-'')" "\<not> is_digit (CHR ''n'')" "\<not> is_digit (CHR ''t'')"
  "\<not> is_digit (CHR ''f'')" "\<not> is_digit (CHR ''['')" "\<not> is_digit (CHR ''{'')" "\<not> is_digit (CHR 0x22)"
  by (simp_all add: is_digit_def)

lemma same_kind:
  assumes "plain v" "plain w" "json_text v @ x = json_text w @ y"
  shows "\<exists>c. kind_char v c \<and> kind_char w c"
  using json_text_kind [OF assms(1)] json_text_kind [OF assms(2)] assms(3) by auto

lemma json_text_not_close:
  "plain v \<Longrightarrow> json_text v @ x \<noteq> CHR '']'' # y"
  "plain v \<Longrightarrow> CHR '']'' # y \<noteq> json_text v @ x"
  using json_text_kind [of v] by (cases v; auto split: if_splits)+

lemma json_items_inj:
  assumes "\<forall>v \<in> set vs. prefix_free v \<and> plain v" "plain_list ws"
    and "json_items vs @ CHR '']'' # x = json_items ws @ CHR '']'' # y"
  shows "vs = ws \<and> x = y"
  using assms
proof (induction vs arbitrary: ws)
  case Nil
  then show ?case using json_text_not_close by (cases ws) auto
next
  case (Cons v vs)
  show ?case
  proof (cases ws)
    case Nil
    with Cons.prems json_text_not_close show ?thesis by auto
  next
    case w: (Cons w ws')
    let ?rest = "\<lambda>us z. (if us = [] then [] else '','' @ json_items us) @ CHR '']'' # z"
    have eq: "json_text v @ ?rest vs x = json_text w @ ?rest ws' y"
      using Cons.prems(3) by (simp add: w)
    have "v = w \<and> ?rest vs x = ?rest ws' y"
    proof (rule prefix_freeD [OF _ eq])
      show "prefix_free v" using Cons.prems(1) by simp
      show "plain w" using Cons.prems(2) by (simp add: w)
    qed simp_all
    then have vw: "v = w" and r: "?rest vs x = ?rest ws' y" by auto
    have nil: "vs = [] \<longleftrightarrow> ws' = []"
      using r by (cases "vs = []"; cases "ws' = []") simp_all
    show ?thesis
    proof (cases "ws' = []")
      case True
      with nil r have "vs = []" "x = y" by simp_all
      with True vw w show ?thesis by simp
    next
      case False
      with nil r have "json_items vs @ CHR '']'' # x = json_items ws' @ CHR '']'' # y" by simp
      moreover have "\<forall>u \<in> set vs. prefix_free u \<and> plain u" using Cons.prems(1) by simp
      moreover have "plain_list ws'" using Cons.prems(2) by (simp add: w)
      ultimately have "vs = ws' \<and> x = y" using Cons.IH by blast
      with vw w show ?thesis by simp
    qed
  qed
qed

lemma json_entries_inj:
  assumes "\<forall>(k, v) \<in> set vs. prefix_free v \<and> plain v" "plain_entries ws"
    and "json_entries vs @ CHR ''}'' # x = json_entries ws @ CHR ''}'' # y"
  shows "vs = ws \<and> x = y"
  using assms
proof (induction vs arbitrary: ws)
  case Nil
  then show ?case by (cases ws) (auto simp: json_quote_def)
next
  case (Cons p vs)
  obtain k v where p: "p = (k, v)" by (cases p)
  show ?case
  proof (cases ws)
    case Nil
    with Cons.prems p show ?thesis by (auto simp: json_quote_def)
  next
    case w: (Cons q ws')
    obtain k' v' where q: "q = (k', v')" by (cases q)
    let ?rest = "\<lambda>us z. (if us = [] then [] else '','' @ json_entries us) @ CHR ''}'' # z"
    have "json_quote k @ ('':'' @ json_text v @ ?rest vs x)
        = json_quote k' @ ('':'' @ json_text v' @ ?rest ws' y)"
      using Cons.prems(3) by (simp add: w p q)
    from json_quote_append_inj [OF this]
    have kk: "k = k'" and eq: "json_text v @ ?rest vs x = json_text v' @ ?rest ws' y" by auto
    have "v = v' \<and> ?rest vs x = ?rest ws' y"
    proof (rule prefix_freeD [OF _ eq])
      show "prefix_free v" using Cons.prems(1) by (simp add: p)
      show "plain v'" using Cons.prems(2) by (simp add: w q)
    qed simp_all
    then have vw: "v = v'" and r: "?rest vs x = ?rest ws' y" by auto
    have nil: "vs = [] \<longleftrightarrow> ws' = []"
      using r by (cases "vs = []"; cases "ws' = []") simp_all
    show ?thesis
    proof (cases "ws' = []")
      case True
      with nil r have "vs = []" "x = y" by simp_all
      with True vw w kk p q show ?thesis by simp
    next
      case False
      with nil r have "json_entries vs @ CHR ''}'' # x = json_entries ws' @ CHR ''}'' # y" by simp
      moreover have "\<forall>u \<in> set vs. case u of (k, v) \<Rightarrow> prefix_free v \<and> plain v" using Cons.prems(1) by simp
      moreover have "plain_entries ws'" using Cons.prems(2) by (simp add: w q)
      ultimately have "vs = ws' \<and> x = y" using Cons.IH by blast
      with vw w kk p q show ?thesis by simp
    qed
  qed
qed

lemma plain_list_iff: "plain_list xs \<longleftrightarrow> (\<forall>x \<in> set xs. plain x)"
  by (induction xs) auto

lemma plain_entries_iff: "plain_entries kvs \<longleftrightarrow> (\<forall>(k, v) \<in> set kvs. plain v)"
  by (induction kvs) auto

lemma plain_prefix_free: "plain v \<Longrightarrow> prefix_free v"
proof (induction v)
  case (PList xs)
  have "\<forall>v \<in> set xs. prefix_free v \<and> plain v" using PList by (auto simp: plain_list_iff)
  note inj = json_items_inj [OF this]
  show ?case unfolding prefix_free_def
  proof (intro allI impI)
    fix w x y
    assume "plain w" and eq: "json_text (PList xs) @ x = json_text w @ y"
    with same_kind [OF PList.prems, of w x y] obtain ws where "w = PList ws"
      by (cases w) (auto split: if_splits)
    with \<open>plain w\<close> eq inj [of ws x y] show "PList xs = w \<and> x = y" by auto
  qed
next
  case (PDict kvs)
  have "\<forall>(k, v) \<in> set kvs. prefix_free v \<and> plain v" using PDict by (fastforce simp: plain_entries_iff)
  note inj = json_entries_inj [OF this]
  show ?case unfolding prefix_free_def
  proof (intro allI impI)
    fix w x y
    assume "plain w" and eq: "json_text (PDict kvs) @ x = json_text w @ y"
    with same_kind [OF PDict.prems, of w x y] obtain ws where "w = PDict ws"
      by (cases w) (auto split: if_splits)
    with \<open>plain w\<close> eq inj [of ws x y] show "PDict kvs = w \<and> x = y" by auto
  qed
next
  case (PStr s)
  show ?case unfolding prefix_free_def
  proof (intro allI impI)
    fix w x y
    assume "plain w" and eq: "json_text (PStr s) @ x = json_text w @ y"
    with same_kind [OF PStr.prems, of w x y] obtain t where "w = PStr t"
      by (cases w) (auto split: if_splits)
    with eq json_quote_append_inj [of s x t y] show "PStr s = w \<and> x = y" by auto
  qed
next
  case (PInt i)
  show ?case unfolding prefix_free_def
  proof (intro allI impI)
    fix w x y
    assume "plain w" "delimited x" "delimited y" and eq: "json_text (PInt i) @ x = json_text w @ y"
    with same_kind [OF PInt.prems, of w x y] obtain j where "w = PInt j"
      by (cases w) (auto split: if_splits)
    with eq \<open>delimited x\<close> \<open>delimited y\<close> int_text_append_inj [of i x j y]
    show "PInt i = w \<and> x = y" by auto
  qed
next
  case PNone
  show ?case unfolding prefix_free_def
  proof (intro allI impI)
    fix w x y
    assume "plain w" and eq: "json_text PNone @ x = json_text w @ y"
    with same_kind [of PNone w x y] have "w = PNone" by (cases w) (auto split: if_splits)
    with eq show "PNone = w \<and> x = y" by auto
  qed
next
  case (PBool b)
  show ?case unfolding prefix_free_def
  proof (intro allI impI)
    fix w x y
    assume "plain w" and eq: "json_text (PBool b) @ x = json_text w @ y"
    with same_kind [OF PBool.prems, of w x y] have "w = PBool b" by (cases w) (auto split: if_splits)
    with eq show "PBool b = w \<and> x = y" by auto
  qed
qed simp

lemma set_canon_entries: "set (canon_entries kvs) = (\<lambda>(k, v). (k, canon v)) ` set kvs"
  by (induction kvs) (auto simp: set_insort_key)

lemma canon_list_map: "canon_list xs = map canon xs"
  by (induction xs) auto

lemma plain_canon: "plain v \<Longrightarrow> plain (canon v)"
proof (induction v)
  case (PDict kvs)
  then show ?case by (fastforce simp: plain_entries_iff set_canon_entries)
qed (auto simp: plain_list_iff canon_list_map)

theorem canonical_json_inj:
  assumes "plain v" "plain w" "canonical_json v = canonical_json w"
  shows "canon v = canon w"
  using plain_prefix_free [OF plain_canon [OF assms(1)]] plain_canon [OF assms(2)] assms(3)
  unfolding prefix_free_def canonical_json_def by (metis append_Nil2 delimited_simps(1))

end
