(* ===== verification/Py_Decimal.thy ===== *)
theory Py_Decimal
  imports Py_Value
begin

section \<open>Python's \<open>Decimal\<close> in the default context\<close>

text \<open>
  A finite \<open>Decimal\<close> is modelled by its numerical value, a rational: the code compares values and
  writes them only through \<open>format(value.normalize(), "f")\<close>, which depends on nothing else. The
  arithmetic operations round to the default context of 28 significant digits, half to even
  (\<open>ctx_round\<close>); comparisons, \<open>to_integral_value\<close> and the construction from a string are exact, as
  in the language. Infinities and NaN are rejected by the code right where it parses a number,
  with the error of a malformed number. Exponents beyond the context's 999999 are left out.

  The lemmas say where the rounding is harmless: on whole numbers up to \<open>10^28\<close>, and on
  multiples of a decimal unit with at most 28 digits (\<open>ctx_round_exact\<close>). The text written by
  \<open>dec_text\<close> is read back by \<open>dec_parse\<close> as the value (\<open>dec_parse_text\<close>).
\<close>

type_synonym dec = rat

subsection \<open>Rounding to 28 significant digits\<close>

function ndigits :: "int \<Rightarrow> nat" where
  "ndigits n = (if n < 10 then 1 else Suc (ndigits (n div 10)))"
  by pat_completeness auto
termination
  by (relation "measure nat") auto

declare ndigits.simps [simp del]

definition adj_exp :: "rat \<Rightarrow> int" where
  "adj_exp q = (case quotient_of q of (n, d) \<Rightarrow>
     let e = int (ndigits n) - int (ndigits d) in if 10 powi e \<le> q then e else e - 1)"

definition round_half_even :: "rat \<Rightarrow> int" where
  "round_half_even x =
     (let f = \<lfloor>x\<rfloor>; r = x - of_int f
      in if r < 1 / 2 then f else if r > 1 / 2 then f + 1 else if even f then f else f + 1)"

definition ctx_round :: "rat \<Rightarrow> dec" where
  "ctx_round q =
     (if q = 0 then 0
      else let k = adj_exp \<bar>q\<bar> - 27 in of_int (round_half_even (q / 10 powi k)) * 10 powi k)"

definition dec_add :: "dec \<Rightarrow> dec \<Rightarrow> dec" where "dec_add a b = ctx_round (a + b)"
definition dec_sub :: "dec \<Rightarrow> dec \<Rightarrow> dec" where "dec_sub a b = ctx_round (a - b)"
definition dec_mul :: "dec \<Rightarrow> dec \<Rightarrow> dec" where "dec_mul a b = ctx_round (a * b)"
definition dec_div :: "dec \<Rightarrow> dec \<Rightarrow> dec" where "dec_div a b = ctx_round (a / b)"
definition dec_neg :: "dec \<Rightarrow> dec" where "dec_neg a = ctx_round (- a)"
definition dec_abs :: "dec \<Rightarrow> dec" where "dec_abs a = ctx_round \<bar>a\<bar>"

text \<open>\<open>sum(values, Decimal("0"))\<close>\<close>

definition dec_sum :: "dec list \<Rightarrow> dec" where
  "dec_sum xs = foldl dec_add 0 xs"

definition whole :: "dec \<Rightarrow> bool" where
  "whole q \<longleftrightarrow> of_int \<lfloor>q\<rfloor> = q"

text \<open>\<open>to_integral_value(rounding=ROUND_DOWN)\<close> and \<open>quantize(unit, rounding=ROUND_DOWN)\<close> with
  the money unit of \<open>10^-8\<close>, which raises when the result has more than 28 digits.\<close>

definition integral_down :: "dec \<Rightarrow> dec" where
  "integral_down q = of_int (if 0 \<le> q then \<lfloor>q\<rfloor> else \<lceil>q\<rceil>)"

definition quantize_money :: "dec \<Rightarrow> dec res" where
  "quantize_money q =
     (let c = integral_down (q * 10 ^ 8)
      in if \<bar>c\<bar> < 10 ^ 28 then Inr (c / 10 ^ 8) else Inl (InvalidOperation ''quantize''))"

subsection \<open>Text of a decimal, and the constructor from text\<close>

function scale_of :: "int \<Rightarrow> nat" where
  "scale_of d =
     (if d \<le> 0 then 0
      else if d mod 10 = 0 then Suc (scale_of (d div 10))
      else if d mod 2 = 0 then Suc (scale_of (d div 2))
      else if d mod 5 = 0 then Suc (scale_of (d div 5)) else 0)"
  by pat_completeness auto
termination
  by (relation "measure nat") auto

declare scale_of.simps [simp del]

definition dec_scale :: "dec \<Rightarrow> nat" where
  "dec_scale q = scale_of (snd (quotient_of q))"

definition dec_text :: "dec \<Rightarrow> string" where
  "dec_text v =
     (if v = 0 then ''0''
      else let w = ctx_round v;
               k = dec_scale w;
               ds = zero_pad (Suc k) (nat_text (nat \<lfloor>\<bar>w\<bar> * 10 ^ k\<rfloor>));
               cut = length ds - k
           in (if w < 0 then ''-'' else []) @ take cut ds
              @ (if k = 0 then [] else CHR ''.'' # drop cut ds))"

definition parse_exponent :: "string \<Rightarrow> int option" where
  "parse_exponent s =
     (let (neg, ds) = (case s of c # cs \<Rightarrow>
            if c = CHR ''-'' then (True, cs) else if c = CHR ''+'' then (False, cs) else (False, s)
          | [] \<Rightarrow> (False, []))
      in if ds \<noteq> [] \<and> list_all is_digit ds
         then Some (if neg then - int (digits_val ds) else int (digits_val ds)) else None)"

definition dec_parse :: "string \<Rightarrow> dec option" where
  "dec_parse text =
     (let s = filter (\<lambda>c. c \<noteq> CHR ''_'') (strip text);
          (neg, body) = (case s of c # cs \<Rightarrow>
            if c = CHR ''-'' then (True, cs) else if c = CHR ''+'' then (False, cs) else (False, s)
          | [] \<Rightarrow> (False, []));
          mant = takeWhile (\<lambda>c. c \<noteq> CHR ''e'' \<and> c \<noteq> CHR ''E'') body;
          ip = takeWhile (\<lambda>c. c \<noteq> CHR ''.'') mant;
          fp = drop (Suc (length ip)) mant
      in case (case drop (length mant) body of [] \<Rightarrow> Some 0 | _ # t \<Rightarrow> parse_exponent t) of
           None \<Rightarrow> None
         | Some e \<Rightarrow>
             if ip @ fp \<noteq> [] \<and> list_all is_digit ip \<and> list_all is_digit fp
             then let m = rat_of_nat (digits_val (ip @ fp)) * 10 powi (e - int (length fp))
                  in Some (if neg then - m else m)
             else None)"

subsection \<open>Number of digits, rounding to an integer\<close>

lemma ndigits_bounds: "0 < n \<Longrightarrow> 10 ^ (ndigits n - 1) \<le> n \<and> n < 10 ^ ndigits n"
proof (induction n rule: ndigits.induct)
  case (1 n)
  show ?case
  proof (cases "n < 10")
    case True
    with 1 show ?thesis by (simp add: ndigits.simps [of n])
  next
    case False
    let ?m = "ndigits (n div 10)"
    have pos: "0 < n div 10" using False by simp
    have ih: "10 ^ (?m - 1) \<le> n div 10" "n div 10 < 10 ^ ?m"
      using 1 False pos by auto
    have m: "0 < ?m" by (subst ndigits.simps) simp
    have "10 ^ ?m = 10 * (10::int) ^ (?m - 1)" using m by (simp add: power_eq_if)
    with ih have "10 ^ ?m \<le> n" "n < 10 * 10 ^ ?m" by linarith+
    with False show ?thesis by (simp add: ndigits.simps [of n])
  qed
qed

lemma pow10_less_imp: "(10::rat) powi m < 10 powi n \<Longrightarrow> m < n"
  by (metis linorder_not_less one_le_numeral power_int_increasing)

lemma ndigits_pos: "0 < ndigits n"
  by (subst ndigits.simps) simp

lemma adj_exp_bounds:
  assumes "0 < q"
  shows "10 powi adj_exp q \<le> q" "q < 10 powi (adj_exp q + 1)"
proof -
  obtain n d where nd: "quotient_of q = (n, d)" by (cases "quotient_of q")
  have d: "0 < d" using quotient_of_denom_pos [OF nd] .
  have q: "q = of_int n / of_int d" using quotient_of_div [OF nd] .
  have n: "0 < n" using assms d q by (simp add: zero_less_divide_iff)
  let ?e = "int (ndigits n) - int (ndigits d)"
  have bn: "(10::rat) ^ (ndigits n - 1) \<le> of_int n" "of_int n < (10::rat) ^ ndigits n"
    using ndigits_bounds [OF n] by (metis of_int_le_iff of_int_less_iff of_int_numeral of_int_power)+
  have bd: "(10::rat) ^ (ndigits d - 1) \<le> of_int d" "of_int d < (10::rat) ^ ndigits d"
    using ndigits_bounds [OF d] by (metis of_int_le_iff of_int_less_iff of_int_numeral of_int_power)+
  have pn: "(10::rat) powi (int (ndigits n)) = 10 ^ ndigits n"
    "(10::rat) powi (int (ndigits d)) = 10 ^ ndigits d" by simp_all
  have sn: "(10::rat) ^ ndigits n = 10 * 10 ^ (ndigits n - 1)"
    "(10::rat) ^ ndigits d = 10 * 10 ^ (ndigits d - 1)"
    using ndigits_pos by (simp_all add: power_eq_if)
  have e: "(10::rat) powi ?e = 10 ^ ndigits n / 10 ^ ndigits d"
    by (simp add: power_int_diff)
  have up: "q < 10 powi (?e + 1)"
  proof -
    have "q < 10 ^ ndigits n / 10 ^ (ndigits d - 1)"
      unfolding q using bn bd d n by (intro frac_less) auto
    also have "\<dots> = 10 powi (?e + 1)" by (simp add: power_int_add e sn)
    finally show ?thesis .
  qed
  have lo: "10 powi (?e - 1) \<le> q"
  proof -
    have "(10::rat) powi (?e - 1) = 10 ^ (ndigits n - 1) / 10 ^ ndigits d"
      by (simp add: power_int_diff sn(1))
    also have "\<dots> \<le> q"
      unfolding q using bn bd d n by (intro frac_le) auto
    finally show ?thesis .
  qed
  have a: "adj_exp q = (if 10 powi ?e \<le> q then ?e else ?e - 1)"
    by (simp add: adj_exp_def nd Let_def)
  show "10 powi adj_exp q \<le> q" using lo by (simp add: a)
  show "q < 10 powi (adj_exp q + 1)" using up by (auto simp: a)
qed

lemma round_half_even_of_int [simp]: "round_half_even (of_int n) = n"
  by (simp add: round_half_even_def)

lemma round_half_even_le: "x \<le> of_int n \<Longrightarrow> round_half_even x \<le> n"
proof -
  assume x: "x \<le> of_int n"
  have f: "\<lfloor>x\<rfloor> \<le> n" using x by linarith
  show ?thesis
  proof (cases "\<lfloor>x\<rfloor> = n")
    case True
    with x have "x = of_int n" by linarith
    then show ?thesis by simp
  next
    case False
    with f show ?thesis by (auto simp: round_half_even_def Let_def)
  qed
qed

lemma round_half_even_ge: "of_int n \<le> x \<Longrightarrow> n \<le> round_half_even x"
proof -
  assume "of_int n \<le> x"
  then have "n \<le> \<lfloor>x\<rfloor>" by linarith
  then show ?thesis by (auto simp: round_half_even_def Let_def)
qed

lemma round_half_even_error: "\<bar>of_int (round_half_even x) - x\<bar> \<le> 1 / 2"
proof -
  have f: "of_int \<lfloor>x\<rfloor> \<le> x" "x < of_int \<lfloor>x\<rfloor> + 1" by linarith+
  define r where "r = x - of_int \<lfloor>x\<rfloor>"
  have "round_half_even x = \<lfloor>x\<rfloor> \<and> r \<le> 1 / 2 \<or> round_half_even x = \<lfloor>x\<rfloor> + 1 \<and> 1 / 2 \<le> r"
    by (auto simp: round_half_even_def Let_def r_def)
  then show ?thesis using f by (auto simp: abs_le_iff r_def)
qed

lemma round_half_even_minus: "round_half_even (- x) = - round_half_even x"
proof (cases "x = of_int \<lfloor>x\<rfloor>")
  case True
  then have "- x = of_int (- \<lfloor>x\<rfloor>)" by simp
  with True show ?thesis by (metis round_half_even_of_int)
next
  case False
  then have x: "of_int \<lfloor>x\<rfloor> < x" "x < of_int \<lfloor>x\<rfloor> + 1" by linarith+
  then have "\<lfloor>- x\<rfloor> = - \<lfloor>x\<rfloor> - 1" by linarith
  then show ?thesis using x by (auto simp: round_half_even_def Let_def)
qed

subsection \<open>Where the context's rounding does nothing\<close>

lemma ctx_round_0 [simp]: "ctx_round 0 = 0"
  by (simp add: ctx_round_def)

lemma ctx_round_minus: "ctx_round (- q) = - ctx_round q"
  by (simp add: ctx_round_def Let_def round_half_even_minus)

lemma ctx_round_exact:
  assumes q: "q = of_int m * 10 powi j" and m: "\<bar>m\<bar> < 10 ^ 28"
  shows "ctx_round q = q"
proof (cases "q = 0")
  case True
  then show ?thesis by simp
next
  case False
  let ?e = "adj_exp \<bar>q\<bar>"
  let ?k = "?e - 27"
  have "10 powi ?e \<le> \<bar>q\<bar>" using False by (intro adj_exp_bounds) simp
  also have "\<bar>q\<bar> = of_int \<bar>m\<bar> * 10 powi j" by (simp add: q abs_mult power_int_abs)
  also have "\<dots> < 10 ^ 28 * 10 powi j"
  proof (rule mult_strict_right_mono)
    show "rat_of_int \<bar>m\<bar> < 10 ^ 28"
      using m by (metis of_int_less_iff of_int_numeral of_int_power)
  qed simp
  also have "\<dots> = 10 powi (28 + j)" by (simp add: power_int_add)
  finally have "?e < 28 + j" by (rule pow10_less_imp)
  then have k: "?k \<le> j" by simp
  define u :: rat where "u = 10 powi ?k"
  have u: "u \<noteq> 0" by (simp add: u_def)
  have j: "10 powi j = u * 10 ^ nat (j - ?k)"
    using k by (simp add: u_def flip: power_int_of_nat power_int_add)
  have "q / u = of_int (m * 10 ^ nat (j - ?k))" using u by (subst q) (simp add: j)
  then have "q / 10 powi ?k = of_int (m * 10 ^ nat (j - ?k))" by (simp only: u_def)
  then have "of_int (round_half_even (q / 10 powi ?k)) = q / 10 powi ?k"
    by (simp only: round_half_even_of_int)
  with False show ?thesis by (simp add: ctx_round_def Let_def)
qed

lemma whole_of_int [simp]: "whole (of_int n)"
  by (simp add: whole_def)

lemma wholeE: "whole q \<Longrightarrow> (\<And>n. q = of_int n \<Longrightarrow> P) \<Longrightarrow> P"
  unfolding whole_def by metis

lemma whole_0 [simp]: "whole 0" and whole_1 [simp]: "whole 1"
  using whole_of_int [of 0] whole_of_int [of 1] by simp_all

lemma whole_numeral [simp]: "whole (numeral n)"
  using whole_of_int [of "numeral n"] by simp

lemma whole_add [simp, intro]: "whole a \<Longrightarrow> whole b \<Longrightarrow> whole (a + b)"
  by (metis whole_def whole_of_int of_int_add)

lemma whole_diff [simp, intro]: "whole a \<Longrightarrow> whole b \<Longrightarrow> whole (a - b)"
  by (metis whole_def whole_of_int of_int_diff)

lemma whole_minus [simp]: "whole (- a) \<longleftrightarrow> whole a"
  by (metis whole_def whole_of_int of_int_minus minus_minus)

lemma whole_mult [simp, intro]: "whole a \<Longrightarrow> whole b \<Longrightarrow> whole (a * b)"
  by (metis whole_def whole_of_int of_int_mult)

lemma whole_min [simp, intro]: "whole a \<Longrightarrow> whole b \<Longrightarrow> whole (min a b)"
  by (simp add: min_def)

lemma whole_abs [simp, intro]: "whole a \<Longrightarrow> whole \<bar>a\<bar>"
  by (simp add: abs_if)

lemma whole_sum_list: "(\<And>x. x \<in> set xs \<Longrightarrow> whole (f x)) \<Longrightarrow> whole (sum_list (map f xs))"
  by (induction xs) auto

lemma ctx_round_whole: "whole q \<Longrightarrow> \<bar>q\<bar> \<le> 10 ^ 28 \<Longrightarrow> ctx_round q = q"
proof (elim wholeE)
  fix n
  assume b: "\<bar>q\<bar> \<le> 10 ^ 28" and n: "q = of_int n"
  show ?thesis
  proof (cases "\<bar>q\<bar> = 10 ^ 28")
    case True
    then have "q = of_int (sgn n) * 10 powi 28"
      by (auto simp: n abs_if sgn_if split: if_splits)
    then show ?thesis by (rule ctx_round_exact) (simp add: sgn_if)
  next
    case False
    with b have "\<bar>rat_of_int n\<bar> < 10 ^ 28" by (simp add: n)
    then have "\<bar>n\<bar> < 10 ^ 28"
      by (metis of_int_abs of_int_less_iff of_int_numeral of_int_power)
    then show ?thesis using ctx_round_exact [of q n 0] by (simp add: n)
  qed
qed

lemma ctx_round_between:
  assumes "of_int a \<le> q" "q \<le> of_int b" "\<bar>a\<bar> \<le> 10 ^ 28" "\<bar>b\<bar> \<le> 10 ^ 28"
  shows "of_int a \<le> ctx_round q \<and> ctx_round q \<le> of_int b"
proof -
  have ab: "\<bar>rat_of_int a\<bar> \<le> 10 ^ 28" "\<bar>rat_of_int b\<bar> \<le> 10 ^ 28"
    using assms(3,4) by (metis of_int_abs of_int_le_iff of_int_numeral of_int_power)+
  then have q: "\<bar>q\<bar> \<le> 10 ^ 28" using assms(1,2) by linarith
  show ?thesis
  proof (cases "q = 0 \<or> \<bar>q\<bar> = 10 ^ 28")
    case True
    then have "whole q" by (auto simp: abs_if split: if_splits) (metis whole_minus whole_numeral minus_minus)
    then have "ctx_round q = q" using q by (rule ctx_round_whole)
    with assms show ?thesis by simp
  next
    case False
    let ?k = "adj_exp \<bar>q\<bar> - 27"
    have "10 powi adj_exp \<bar>q\<bar> \<le> \<bar>q\<bar>" using False by (intro adj_exp_bounds) simp
    also have "\<dots> < 10 powi 28" using False q by simp
    finally have "adj_exp \<bar>q\<bar> < 28" by (rule pow10_less_imp)
    then have k: "10 powi ?k = 1 / (10::rat) ^ nat (- ?k)"
      by (simp add: power_int_def inverse_eq_divide power_one_over)
    have scale: "rat_of_int z / 10 powi ?k = of_int (z * 10 ^ nat (- ?k))" for z
      by (simp add: k)
    have p: "(0::rat) < 10 powi ?k" by simp
    have "of_int (a * 10 ^ nat (- ?k)) \<le> q / 10 powi ?k" "q / 10 powi ?k \<le> of_int (b * 10 ^ nat (- ?k))"
      using assms(1,2) p unfolding scale [symmetric] by (simp_all add: divide_right_mono)
    then have "a * 10 ^ nat (- ?k) \<le> round_half_even (q / 10 powi ?k)"
      "round_half_even (q / 10 powi ?k) \<le> b * 10 ^ nat (- ?k)"
      by (auto intro: round_half_even_ge round_half_even_le)
    then have "of_int (a * 10 ^ nat (- ?k)) * 10 powi ?k \<le> ctx_round q"
      "ctx_round q \<le> of_int (b * 10 ^ nat (- ?k)) * 10 powi ?k"
      using False p by (auto simp: ctx_round_def Let_def simp del: of_int_mult of_int_power)
    then show ?thesis by (simp add: k)
  qed
qed

lemma ctx_round_error:
  assumes "0 < q"
  shows "\<bar>ctx_round q - q\<bar> \<le> 10 powi (adj_exp q - 27) / 2"
proof -
  let ?u = "(10::rat) powi (adj_exp q - 27)"
  let ?r = "rat_of_int (round_half_even (q / ?u))"
  have u: "0 < ?u" by simp
  have "ctx_round q - q = (?r - q / ?u) * ?u"
    using assms by (simp add: ctx_round_def Let_def left_diff_distrib)
  then have "\<bar>ctx_round q - q\<bar> = \<bar>?r - q / ?u\<bar> * ?u" using u by (simp add: abs_mult)
  also have "\<dots> \<le> 1 / 2 * ?u"
    using round_half_even_error [of "q / ?u"] u by (intro mult_right_mono) auto
  finally show ?thesis by simp
qed


subsection \<open>Exact arithmetic on whole numbers\<close>

lemma dec_add_whole: "whole a \<Longrightarrow> whole b \<Longrightarrow> \<bar>a + b\<bar> \<le> 10 ^ 28 \<Longrightarrow> dec_add a b = a + b"
  by (simp add: dec_add_def ctx_round_whole)

lemma dec_sub_whole: "whole a \<Longrightarrow> whole b \<Longrightarrow> \<bar>a - b\<bar> \<le> 10 ^ 28 \<Longrightarrow> dec_sub a b = a - b"
  by (simp add: dec_sub_def ctx_round_whole)

lemma dec_neg_whole: "whole a \<Longrightarrow> \<bar>a\<bar> \<le> 10 ^ 28 \<Longrightarrow> dec_neg a = - a"
  by (simp add: dec_neg_def ctx_round_whole)

lemma dec_abs_whole: "whole a \<Longrightarrow> \<bar>a\<bar> \<le> 10 ^ 28 \<Longrightarrow> dec_abs a = \<bar>a\<bar>"
  by (simp add: dec_abs_def ctx_round_whole)

lemmas dec_whole_ops = dec_add_whole dec_sub_whole dec_neg_whole dec_abs_whole

lemma dec_sub_self [simp]: "dec_sub a a = 0"
  by (simp add: dec_sub_def)

lemma ctx_round_pos: "0 < q \<Longrightarrow> 0 < ctx_round q"
proof -
  assume q: "0 < q"
  let ?e = "adj_exp \<bar>q\<bar>"
  have "10 powi (?e - 27) \<le> (10::rat) powi ?e" by (simp add: power_int_increasing)
  also have "\<dots> \<le> q" using q adj_exp_bounds(1) [of "\<bar>q\<bar>"] by simp
  finally have "of_int 1 \<le> q / 10 powi (?e - 27)" by (simp add: le_divide_eq)
  from round_half_even_ge [OF this] q show ?thesis by (simp add: ctx_round_def Let_def)
qed

lemma ctx_round_nonneg: "0 \<le> q \<Longrightarrow> 0 \<le> ctx_round q"
  using ctx_round_pos [of q] by (cases "q = 0") auto

lemma dec_neg_pos: "a < 0 \<Longrightarrow> 0 < dec_neg a"
  by (simp add: dec_neg_def ctx_round_pos)

lemma foldl_dec_add_whole:
  assumes "whole a" "\<And>x. x \<in> set xs \<Longrightarrow> whole x" "\<bar>a\<bar> + (\<Sum>x\<leftarrow>xs. \<bar>x\<bar>) \<le> 10 ^ 28"
  shows "foldl dec_add a xs = a + sum_list xs"
  using assms
proof (induction xs arbitrary: a)
  case Nil
  then show ?case by simp
next
  case (Cons x xs)
  have nn: "0 \<le> (\<Sum>x\<leftarrow>xs. \<bar>x\<bar>)" by (rule sum_list_nonneg) auto
  have ax: "\<bar>a + x\<bar> \<le> \<bar>a\<bar> + \<bar>x\<bar>" by simp
  with Cons.prems(3) nn have b: "\<bar>a + x\<bar> \<le> 10 ^ 28" by simp
  have s: "dec_add a x = a + x" using Cons.prems b by (simp add: dec_add_whole)
  have "foldl dec_add (a + x) xs = a + x + sum_list xs"
  proof (rule Cons.IH)
    show "whole (a + x)" using Cons.prems by simp
    show "\<bar>a + x\<bar> + (\<Sum>x\<leftarrow>xs. \<bar>x\<bar>) \<le> 10 ^ 28" using ax Cons.prems(3) by simp
  qed (use Cons.prems in simp)
  with s show ?case by (simp add: add.assoc)
qed

lemma dec_sum_whole:
  "(\<And>x. x \<in> set xs \<Longrightarrow> whole x) \<Longrightarrow> (\<Sum>x\<leftarrow>xs. \<bar>x\<bar>) \<le> 10 ^ 28 \<Longrightarrow> dec_sum xs = sum_list xs"
  unfolding dec_sum_def using foldl_dec_add_whole [of 0 xs] by simp

lemma dec_sum_Nil [simp]: "dec_sum [] = 0"
  by (simp add: dec_sum_def)

lemma whole_integral_down [simp]: "whole (integral_down q)"
  by (simp add: integral_down_def)

lemma integral_down_bounds:
  "0 \<le> q \<Longrightarrow> 0 \<le> integral_down q \<and> integral_down q \<le> q \<and> q < integral_down q + 1"
  by (auto simp: integral_down_def) linarith

lemma integral_down_whole [simp]: "whole q \<Longrightarrow> integral_down q = q"
  by (auto simp: integral_down_def elim!: wholeE)

subsection \<open>Round trip between a decimal and its text\<close>

lemma scale_of_dvd: "0 < d \<Longrightarrow> d dvd 10 ^ j \<Longrightarrow> d dvd 10 ^ scale_of d"
proof (induction d arbitrary: j rule: scale_of.induct)
  case (1 d)
  note unfold = scale_of.simps [of d]
  have mono: "e dvd 10 ^ n \<Longrightarrow> p dvd 10 \<Longrightarrow> p * e dvd (10::int) ^ Suc n" for e p n
    by (simp add: mult_dvd_mono)
  have sub: "(d div p) dvd 10 ^ j" if "p dvd d" for p
    using that "1.prems"(2) by (metis dvd_div_mult_self dvd_triv_left dvd_trans)
  have pos: "0 < d div p" if "p dvd d" "0 < p" for p
    using that "1.prems"(1) by (simp add: pos_imp_zdiv_pos_iff zdvd_imp_le)
  have step: "p * (d div p) = d" if "p dvd d" for p using that by simp
  show ?case
  proof (cases "d mod 10 = 0")
    case True
    then have p: "10 dvd d" by auto
    have "d div 10 dvd 10 ^ scale_of (d div 10)"
      using "1.IH"(1) [of j] "1.prems"(1) True sub [OF p] pos [OF p] by simp
    from mono [OF this, of 10] step [OF p] True "1.prems"(1) show ?thesis by (simp add: unfold)
  next
    case n10: False
    show ?thesis
    proof (cases "d mod 2 = 0")
      case True
      then have p: "2 dvd d" by auto
      have "d div 2 dvd 10 ^ scale_of (d div 2)"
        using "1.IH"(2) [of j] "1.prems"(1) n10 True sub [OF p] pos [OF p] by simp
      from mono [OF this, of 2] step [OF p] n10 True "1.prems"(1) show ?thesis by (simp add: unfold)
    next
      case n2: False
      show ?thesis
      proof (cases "d mod 5 = 0")
        case True
        then have p: "5 dvd d" by auto
        have "d div 5 dvd 10 ^ scale_of (d div 5)"
          using "1.IH"(3) [of j] "1.prems"(1) n10 n2 True sub [OF p] pos [OF p] by simp
        from mono [OF this, of 5] step [OF p] n10 n2 True "1.prems"(1) show ?thesis
          by (simp add: unfold)
      next
        case n5: False
        have "coprime d 2" using n2 by (simp add: coprime_commute flip: odd_iff_mod_2_eq_one)
        moreover have "coprime d 5"
        proof -
          define g where "g = gcd d 5"
          have g: "g dvd 5" "0 < g" "g dvd d" by (simp_all add: g_def)
          then have "g \<le> 5" by (auto dest: zdvd_imp_le)
          with g(2) have "g = 1 \<or> g = 2 \<or> g = 3 \<or> g = 4 \<or> g = 5" by linarith
          moreover have "g \<noteq> 5" using n5 g(3) by auto
          ultimately have "gcd d 5 = 1" using g(1) by (auto simp flip: g_def)
          then show ?thesis by (simp add: coprime_iff_gcd_eq_1)
        qed
        ultimately have "coprime d (2 * 5)" unfolding coprime_mult_right_iff by blast
        then have "coprime d 10" by (metis mult_2 numeral_Bit0)
        then have "coprime d (10 ^ j)" by simp
        with "1.prems" have "d = 1" by (metis coprime_absorb_left zdvd1_eq abs_of_pos)
        then show ?thesis by simp
      qed
    qed
  qed
qed

lemma pow10_neg: "k < 0 \<Longrightarrow> (10::rat) powi k = 1 / 10 ^ nat (- k)"
  by (simp add: power_int_def inverse_eq_divide power_one_over)

lemma ctx_round_decimal: "\<exists>m j. ctx_round q = of_int m / 10 ^ j"
proof (cases "q = 0")
  case True
  then show ?thesis by (intro exI [of _ 0]) simp
next
  case False
  let ?k = "adj_exp \<bar>q\<bar> - 27"
  let ?r = "round_half_even (q / 10 powi ?k)"
  have c: "ctx_round q = of_int ?r * 10 powi ?k" using False by (simp add: ctx_round_def Let_def)
  show ?thesis
  proof (cases "0 \<le> ?k")
    case True
    then have "ctx_round q = of_int (?r * 10 ^ nat ?k) / 10 ^ 0" by (simp add: c power_int_def)
    then show ?thesis by blast
  next
    case False
    then have "?k < 0" by (simp only: not_le)
    then have "ctx_round q = of_int ?r / 10 ^ nat (- ?k)"
      unfolding c by (subst pow10_neg) simp_all
    then show ?thesis by blast
  qed
qed

lemma dec_scale_whole:
  assumes "w = of_int m / 10 ^ j"
  shows "whole (w * 10 ^ dec_scale w)"
proof -
  obtain n d where nd: "quotient_of w = (n, d)" by (cases "quotient_of w")
  have d: "0 < d" and w: "w = of_int n / of_int d" and cop: "coprime n d"
    using quotient_of_denom_pos [OF nd] quotient_of_div [OF nd] quotient_of_coprime [OF nd] by auto
  have "rat_of_int (n * 10 ^ j) = of_int (m * d)"
    using w assms d by (simp add: field_simps)
  then have "n * 10 ^ j = m * d" by (metis of_int_eq_iff)
  then have "d dvd 10 ^ j"
    using cop coprime_dvd_mult_right_iff [of d n "10 ^ j"] by (simp add: coprime_commute)
  with d have "d dvd 10 ^ dec_scale w" by (simp add: dec_scale_def nd scale_of_dvd)
  then obtain c where "(10::int) ^ dec_scale w = d * c" by blast
  then have "(10::rat) ^ dec_scale w = of_int d * of_int c"
    by (metis of_int_mult of_int_numeral of_int_power)
  then have "w * 10 ^ dec_scale w = of_int (n * c)" using d by (simp add: w)
  then show ?thesis by (metis whole_of_int)
qed

lemma dec_text_shape:
  fixes v :: dec
  defines "w \<equiv> ctx_round v"
  assumes "v \<noteq> 0"
  obtains ds where
    "dec_text v = (if w < 0 then ''-'' else []) @ take (length ds - dec_scale w) ds
       @ (if dec_scale w = 0 then [] else CHR ''.'' # drop (length ds - dec_scale w) ds)"
    "list_all is_digit ds" "dec_scale w < length ds"
    "rat_of_nat (digits_val ds) = \<bar>w\<bar> * 10 ^ dec_scale w"
proof -
  define k where "k = dec_scale w"
  define N where "N = nat \<lfloor>\<bar>w\<bar> * 10 ^ k\<rfloor>"
  define ds where "ds = zero_pad (Suc k) (nat_text N)"
  obtain m j where "w = of_int m / 10 ^ j" using ctx_round_decimal [of v] by (auto simp: w_def)
  then have "whole (w * 10 ^ k)" unfolding k_def by (rule dec_scale_whole)
  then have "whole (\<bar>w\<bar> * 10 ^ k)" by (cases "w < 0") simp_all
  then have "of_int \<lfloor>\<bar>w\<bar> * 10 ^ k\<rfloor> = \<bar>w\<bar> * 10 ^ k" by (simp add: whole_def)
  moreover have "0 \<le> \<lfloor>\<bar>w\<bar> * 10 ^ k\<rfloor>" by simp
  ultimately have N: "rat_of_nat N = \<bar>w\<bar> * 10 ^ k" unfolding N_def by (metis of_nat_nat)
  have "list_all is_digit ds" by (simp add: ds_def nat_text_digits zero_pad_digits)
  moreover have "k < length ds" by (simp add: ds_def less_max_iff_disj)
  moreover have "digits_val ds = N" by (simp add: ds_def)
  moreover have "dec_text v = (if w < 0 then ''-'' else []) @ take (length ds - k) ds
       @ (if k = 0 then [] else CHR ''.'' # drop (length ds - k) ds)"
    using assms(2) unfolding dec_text_def Let_def w_def [symmetric] k_def [symmetric]
      N_def [symmetric] ds_def [symmetric] by simp
  ultimately show ?thesis using that [of ds] N by (simp add: k_def)
qed

definition number_char :: "char \<Rightarrow> bool" where
  "number_char c \<longleftrightarrow> is_digit c \<or> c = CHR ''.''"

lemma number_char_facts:
  "number_char c \<Longrightarrow> \<not> is_space c \<and> c \<noteq> CHR ''_'' \<and> c \<noteq> CHR ''e'' \<and> c \<noteq> CHR ''E''
     \<and> c \<noteq> CHR ''-'' \<and> c \<noteq> CHR ''+''"
  by (auto simp: number_char_def is_digit_def is_space_def)

lemma digits_number: "list_all is_digit ds \<Longrightarrow> list_all number_char ds"
  by (auto simp: list_all_iff number_char_def)

lemma digits_no_dot: "list_all is_digit ds \<Longrightarrow> takeWhile (\<lambda>c. c \<noteq> CHR ''.'') ds = ds"
  by (auto simp: list_all_iff is_digit_def takeWhile_eq_all_conv)

lemma dec_parse_digits:
  assumes body: "body = ip @ (if fp = [] then [] else CHR ''.'' # fp)"
    and ip: "list_all is_digit ip" "ip \<noteq> []" and fp: "list_all is_digit fp"
  shows "dec_parse ((if neg then ''-'' else []) @ body)
    = Some ((if neg then - 1 else 1) * (rat_of_nat (digits_val (ip @ fp)) / 10 ^ length fp))"
proof -
  let ?s = "(if neg then ''-'' else []) @ body"
  have nb: "list_all number_char body"
    using digits_number [OF ip(1)] digits_number [OF fp] by (simp add: body number_char_def)
  then have b: "\<forall>c \<in> set body. \<not> is_space c \<and> c \<noteq> CHR ''_'' \<and> c \<noteq> CHR ''e'' \<and> c \<noteq> CHR ''E''
     \<and> c \<noteq> CHR ''-'' \<and> c \<noteq> CHR ''+''"
    using number_char_facts unfolding list_all_iff by blast
  have "no_space body" using b by (simp add: no_space_def list_all_iff)
  then have "no_space ?s" by (simp add: is_space_def)
  then have st: "strip ?s = ?s" by (rule strip_no_space)
  have "filter (\<lambda>c. c \<noteq> CHR ''_'') body = body" using b by (simp add: filter_id_conv)
  then have fl: "filter (\<lambda>c. c \<noteq> CHR ''_'') ?s = ?s" by simp
  have split: "(case ?s of c # cs \<Rightarrow>
            if c = CHR ''-'' then (True, cs) else if c = CHR ''+'' then (False, cs) else (False, ?s)
          | [] \<Rightarrow> (False, [])) = (neg, body)"
  proof (cases body)
    case Nil
    with body ip(2) show ?thesis by simp
  next
    case (Cons c cs)
    then have "c \<in> set body" by simp
    with b have "c \<noteq> CHR ''-''" "c \<noteq> CHR ''+''" by blast+
    with Cons show ?thesis by (cases neg) simp_all
  qed
  have mant: "takeWhile (\<lambda>c. c \<noteq> CHR ''e'' \<and> c \<noteq> CHR ''E'') body = body"
    using b by (simp add: takeWhile_eq_all_conv)
  have ips: "takeWhile (\<lambda>c. c \<noteq> CHR ''.'') body = ip"
    using digits_no_dot [OF ip(1)] by (auto simp: body takeWhile_append takeWhile_eq_all_conv)
  have fps: "drop (Suc (length ip)) body = fp" by (simp add: body)
  show ?thesis
    unfolding dec_parse_def st fl Let_def split
    using ip fp by (simp add: mant ips fps power_int_minus divide_inverse)
qed

text \<open>Every decimal the context can hold survives being written and read back.\<close>

lemma dec_parse_text: "dec_parse (dec_text v) = Some (ctx_round v)"
proof (cases "v = 0")
  case True
  have "dec_parse ([] @ ''0'') = Some 0"
    using dec_parse_digits [of "''0''" "''0''" "[]" False] by (simp add: digits_val_def)
  with True show ?thesis by (simp add: dec_text_def)
next
  case False
  let ?w = "ctx_round v"
  from dec_text_shape [OF False] obtain ds where
    t: "dec_text v = (if ?w < 0 then ''-'' else []) @ take (length ds - dec_scale ?w) ds
       @ (if dec_scale ?w = 0 then [] else CHR ''.'' # drop (length ds - dec_scale ?w) ds)"
    and d: "list_all is_digit ds" "dec_scale ?w < length ds"
    and N: "rat_of_nat (digits_val ds) = \<bar>?w\<bar> * 10 ^ dec_scale ?w"
    by blast
  let ?ip = "take (length ds - dec_scale ?w) ds" and ?fp = "drop (length ds - dec_scale ?w) ds"
  have fl: "length ?fp = dec_scale ?w" using d by simp
  have "dec_parse ((if ?w < 0 then ''-'' else []) @ ?ip @ (if ?fp = [] then [] else CHR ''.'' # ?fp))
    = Some ((if ?w < 0 then - 1 else 1) * (rat_of_nat (digits_val (?ip @ ?fp)) / 10 ^ length ?fp))"
  proof (rule dec_parse_digits [OF refl])
    show "list_all is_digit ?ip" "list_all is_digit ?fp"
      using d(1) by (metis append_take_drop_id list_all_append)+
    show "?ip \<noteq> []" using d(2) by auto
  qed
  moreover have "?fp = [] \<longleftrightarrow> dec_scale ?w = 0" using d by auto
  ultimately show ?thesis unfolding t fl by (simp add: N)
qed

lemma dec_text_no_space: "no_space (dec_text v)"
proof (cases "v = 0")
  case True
  then show ?thesis by (simp add: dec_text_def is_space_def)
next
  case False
  from dec_text_shape [OF False] obtain ds p where
    t: "dec_text v = (if ctx_round v < 0 then ''-'' else []) @ take p ds
       @ (if dec_scale (ctx_round v) = 0 then [] else CHR ''.'' # drop p ds)"
    and "list_all is_digit ds" by blast
  then have "no_space (take p ds @ drop p ds)" by (simp add: digits_no_space)
  then have "no_space (take p ds)" "no_space (drop p ds)" by (simp_all only: no_space_simps)
  then show ?thesis unfolding t by (simp add: is_space_def)
qed

lemma dec_text_nonempty [simp]: "dec_text v \<noteq> []"
proof
  assume "dec_text v = []"
  then have "dec_parse [] = Some (ctx_round v)" by (metis dec_parse_text)
  then show False by (simp add: dec_parse_def)
qed

lemma dec_text_inj: "ctx_round a = a \<Longrightarrow> ctx_round b = b \<Longrightarrow> dec_text a = dec_text b \<longleftrightarrow> a = b"
  by (metis dec_parse_text option.inject)

subsection \<open>Rounding twice is rounding once\<close>

lemma ctx_round_idem_pos: "0 < q \<Longrightarrow> ctx_round (ctx_round q) = ctx_round q"
proof -
  assume q: "0 < q"
  let ?k = "adj_exp q - 27"
  let ?n = "round_half_even (q / 10 powi ?k)"
  have r: "ctx_round q = of_int ?n * 10 powi ?k" using q by (simp add: ctx_round_def Let_def)
  have split: "(10 :: rat) powi (28 + k) = 10 ^ 28 * 10 powi k" for k by (subst power_int_add) simp_all
  have e: "adj_exp q + 1 = 28 + ?k" by simp
  have "q < 10 powi (28 + ?k)" using adj_exp_bounds(2) [OF q] unfolding e .
  also have "\<dots> = 10 ^ 28 * 10 powi ?k" by (rule split)
  finally have "q / 10 powi ?k < 10 ^ 28" by (simp add: divide_less_eq)
  then have "q / 10 powi ?k \<le> of_int (10 ^ 28)" by simp
  then have hi: "?n \<le> 10 ^ 28" by (rule round_half_even_le)
  have lo: "0 \<le> ?n" by (rule round_half_even_ge) (use q in simp)
  show ?thesis
  proof (cases "?n = 10 ^ 28")
    case True
    then have "ctx_round q = of_int 1 * 10 powi (28 + ?k)"
      unfolding r split by simp
    then show ?thesis by (rule ctx_round_exact) simp
  next
    case False
    with hi lo show ?thesis by (intro ctx_round_exact [OF r]) simp
  qed
qed

lemma ctx_round_idem [simp]: "ctx_round (ctx_round q) = ctx_round q"
proof (cases q "0 :: rat" rule: linorder_cases)
  case less
  with ctx_round_idem_pos [of "- q"] show ?thesis by (simp add: ctx_round_minus)
next
  case greater
  then show ?thesis by (rule ctx_round_idem_pos)
qed simp

lemma ctx_round_eq_0 [simp]: "ctx_round q = 0 \<longleftrightarrow> q = 0"
  using ctx_round_pos [of q] ctx_round_pos [of "- q"] ctx_round_minus [of q]
  by (cases q "0 :: rat" rule: linorder_cases) auto

lemma dec_text_round [simp]: "dec_text (ctx_round v) = dec_text v"
  by (simp add: dec_text_def)

end
