(* ===== verification/Py_Hash.thy ===== *)
theory Py_Hash
  imports Py_Value "HOL-Library.Word"
begin

unbundle bit_operations_syntax

section \<open>SHA-256 and the seals built from it\<close>

text \<open>
  \<open>hashlib.sha256(data).hexdigest()\<close>, written out over 32-bit words: padding, message schedule,
  the 64 rounds per block, and the 64 character lower case hexadecimal digest. \<open>seal v\<close> is the
  digest of the canonical JSON text of \<open>v\<close>, the \<open>_hash\<close> and
  \<open>canonical_hash\<close> of the source. Nothing is assumed of the function: a result that needs two
  messages not to collide says so about those messages.
\<close>

type_synonym w32 = "32 word"

definition rotr :: "nat \<Rightarrow> w32 \<Rightarrow> w32" where
  "rotr n x = drop_bit n x OR push_bit (32 - n) x"

definition sha_ch :: "w32 \<Rightarrow> w32 \<Rightarrow> w32 \<Rightarrow> w32" where
  "sha_ch x y z = (x AND y) XOR (NOT x AND z)"

definition sha_maj :: "w32 \<Rightarrow> w32 \<Rightarrow> w32 \<Rightarrow> w32" where
  "sha_maj x y z = (x AND y) XOR (x AND z) XOR (y AND z)"

definition big_sigma0 :: "w32 \<Rightarrow> w32" where
  "big_sigma0 x = rotr 2 x XOR rotr 13 x XOR rotr 22 x"

definition big_sigma1 :: "w32 \<Rightarrow> w32" where
  "big_sigma1 x = rotr 6 x XOR rotr 11 x XOR rotr 25 x"

definition small_sigma0 :: "w32 \<Rightarrow> w32" where
  "small_sigma0 x = rotr 7 x XOR rotr 18 x XOR drop_bit 3 x"

definition small_sigma1 :: "w32 \<Rightarrow> w32" where
  "small_sigma1 x = rotr 17 x XOR rotr 19 x XOR drop_bit 10 x"

text \<open>The round constants (fractional parts of the cube roots of the first 64 primes), in decimal.\<close>

definition round_constants :: "w32 list" where
  "round_constants = map word_of_int
    [1116352408, 1899447441, 3049323471, 3921009573, 961987163, 1508970993,
     2453635748, 2870763221, 3624381080, 310598401, 607225278, 1426881987,
     1925078388, 2162078206, 2614888103, 3248222580, 3835390401, 4022224774,
     264347078, 604807628, 770255983, 1249150122, 1555081692, 1996064986,
     2554220882, 2821834349, 2952996808, 3210313671, 3336571891, 3584528711,
     113926993, 338241895, 666307205, 773529912, 1294757372, 1396182291,
     1695183700, 1986661051, 2177026350, 2456956037, 2730485921, 2820302411,
     3259730800, 3345764771, 3516065817, 3600352804, 4094571909, 275423344,
     430227734, 506948616, 659060556, 883997877, 958139571, 1322822218,
     1537002063, 1747873779, 1955562222, 2024104815, 2227730452, 2361852424,
     2428436474, 2756734187, 3204031479, 3329325298]"

record sha_state =
  reg_a :: w32
  reg_b :: w32
  reg_c :: w32
  reg_d :: w32
  reg_e :: w32
  reg_f :: w32
  reg_g :: w32
  reg_h :: w32

definition sha_init :: sha_state where
  "sha_init = \<lparr>reg_a = 0x6a09e667, reg_b = 0xbb67ae85, reg_c = 0x3c6ef372, reg_d = 0xa54ff53a,
               reg_e = 0x510e527f, reg_f = 0x9b05688c, reg_g = 0x1f83d9ab, reg_h = 0x5be0cd19\<rparr>"

definition sha_round :: "sha_state \<Rightarrow> w32 \<times> w32 \<Rightarrow> sha_state" where
  "sha_round s kw =
     (let t1 = reg_h s + big_sigma1 (reg_e s) + sha_ch (reg_e s) (reg_f s) (reg_g s) + fst kw + snd kw;
          t2 = big_sigma0 (reg_a s) + sha_maj (reg_a s) (reg_b s) (reg_c s)
      in \<lparr>reg_a = t1 + t2, reg_b = reg_a s, reg_c = reg_b s, reg_d = reg_c s,
          reg_e = reg_d s + t1, reg_f = reg_e s, reg_g = reg_f s, reg_h = reg_g s\<rparr>)"

fun schedule :: "nat \<Rightarrow> w32 list \<Rightarrow> w32 list" where
  "schedule 0 ws = ws"
| "schedule (Suc n) ws =
     (let t = length ws
      in schedule n (ws @ [small_sigma1 (ws ! (t - 2)) + ws ! (t - 7)
                           + small_sigma0 (ws ! (t - 15)) + ws ! (t - 16)]))"

definition sha_block :: "sha_state \<Rightarrow> w32 list \<Rightarrow> sha_state" where
  "sha_block s ws =
     (let r = foldl sha_round s (zip round_constants (schedule 48 ws))
      in \<lparr>reg_a = reg_a s + reg_a r, reg_b = reg_b s + reg_b r, reg_c = reg_c s + reg_c r,
          reg_d = reg_d s + reg_d r, reg_e = reg_e s + reg_e r, reg_f = reg_f s + reg_f r,
          reg_g = reg_g s + reg_g r, reg_h = reg_h s + reg_h r\<rparr>)"

definition length_bytes :: "int \<Rightarrow> int list" where
  "length_bytes n = map (\<lambda>i. (n div 256 ^ (7 - i)) mod 256) [0..<8]"

definition sha_pad :: "int list \<Rightarrow> int list" where
  "sha_pad m = m @ [128] @ replicate ((119 - length m mod 64) mod 64) 0
                 @ length_bytes (8 * int (length m))"

fun bytes_to_words :: "int list \<Rightarrow> w32 list" where
  "bytes_to_words (a # b # c # d # bs) =
     word_of_int (((a * 256 + b) * 256 + c) * 256 + d) # bytes_to_words bs"
| "bytes_to_words _ = []"

function sha_blocks :: "sha_state \<Rightarrow> w32 list \<Rightarrow> sha_state" where
  "sha_blocks s ws = (if ws = [] then s else sha_blocks (sha_block s (take 16 ws)) (drop 16 ws))"
  by pat_completeness auto
termination
  by (relation "measure (\<lambda>(s, ws). length ws)") auto

declare sha_blocks.simps [simp del]

definition word_hex :: "w32 \<Rightarrow> string" where
  "word_hex w = map (\<lambda>i. hex_char (nat (uint w div 16 ^ (7 - i) mod 16))) [0..<8]"

definition sha256_hex :: "string \<Rightarrow> string" where
  "sha256_hex m =
     (let s = sha_blocks sha_init (bytes_to_words (sha_pad (map of_char m)))
      in concat (map word_hex [reg_a s, reg_b s, reg_c s, reg_d s, reg_e s, reg_f s, reg_g s, reg_h s]))"

definition seal :: "pyval \<Rightarrow> string" where
  "seal v = sha256_hex (canonical_json v)"

text \<open>A digest always has the shape the code's SHA-256 pattern accepts.\<close>

lemma is_hex_digit_hex_char: "n < 16 \<Longrightarrow> is_hex_digit (hex_char n)"
  by (auto simp: is_hex_digit_def is_digit_def hex_char_def)

lemma word_hex_digits: "length (word_hex w) = 8" "list_all is_hex_digit (word_hex w)"
  by (simp_all add: word_hex_def list_all_iff is_hex_digit_hex_char)

lemma sha256_hex_pattern [simp]: "sha_pattern (sha256_hex m)"
  by (simp add: sha_pattern_def sha256_hex_def Let_def word_hex_digits)

lemma seal_pattern [simp]: "sha_pattern (seal v)"
  by (simp add: seal_def)

text \<open>Text facts of a digest: it survives stripping and lower casing, and is not empty.\<close>

lemma hex_digit_facts:
  "is_hex_digit c \<Longrightarrow> \<not> is_space c" "is_hex_digit c \<Longrightarrow> to_lower c = c" "is_hex_digit c \<Longrightarrow> 32 \<le> code c"
  by (auto simp: is_hex_digit_def is_digit_def is_space_def to_lower_def is_upper_def)

lemma sha_pattern_text:
  assumes "sha_pattern s"
  shows "strip s = s" "lower s = s" "s \<noteq> []" "list_all (\<lambda>c. 32 \<le> code c) s"
proof -
  have h: "list_all is_hex_digit s" "length s = 64"
    using assms by (auto simp: sha_pattern_def)
  from h(1) have "no_space s"
    by (auto simp: no_space_def list_all_iff dest: hex_digit_facts(1))
  then show "strip s = s" by (rule strip_no_space)
  show "lower s = s"
    unfolding lower_def
  proof (rule map_idI)
    fix c
    assume "c \<in> set s"
    with h(1) show "to_lower c = c" using hex_digit_facts(2) [of c] by (simp add: list_all_iff)
  qed
  show "s \<noteq> []" using h(2) by auto
  show "list_all (\<lambda>c. 32 \<le> code c) s"
    using h(1) by (auto simp: list_all_iff dest: hex_digit_facts(3))
qed

lemmas seal_text [simp] =
  sha_pattern_text [OF seal_pattern]

text \<open>
  Equal seals of float-free values mean equal values, unless the two canonical texts collide.
\<close>

lemma seal_inj:
  assumes "plain v" "plain w" "seal v = seal w"
    and "inj_on sha256_hex {canonical_json v, canonical_json w}"
  shows "canon v = canon w"
proof (rule canonical_json_inj [OF assms(1,2)])
  show "canonical_json v = canonical_json w"
    using inj_onD [OF assms(4)] assms(3) unfolding seal_def by blast
qed

end
