(* ===== verification/Portfolio_Plan.thy ===== *)
theory Portfolio_Plan
  imports Py_Decimal Py_Hash
begin

section \<open>Portfolio net plans: many sleeves, one broker order\<close>

text \<open>
  \<open>live_trader/portfolio_execution.py\<close>, first half. Strategy sleeves state absolute target
  quantities for one KIS symbol. \<open>build_symbol_net_plan\<close> turns them into signed deltas, crosses
  opposing deltas inside the account (\<open>split_allocations\<close>) and leaves one net broker order.
  The plan is sealed by the digest of its canonical payload (\<open>plan_payload\<close>) and travels to the
  order edge as metadata, where \<open>validate_symbol_net_plan_metadata\<close> rebuilds and checks it.
\<close>

subsection \<open>Field checks\<close>

definition text_field :: "pyval \<Rightarrow> string \<Rightarrow> string res" where
  "text_field value field =
     (let result = strip (py_str (py_or value (PStr [])))
      in if result = [] then Inl (ValueError (field @ '' is required''))
         else if list_ex (\<lambda>c. code c < 32) result
         then Inl (ValueError (field @ '' contains a control character''))
         else Inr result)"

definition canonical_kis_symbol :: "pyval \<Rightarrow> string res" where
  "canonical_kis_symbol value =
     res_bind (text_field value ''symbol'') (\<lambda>raw.
     let t0 = upper raw;
         t1 = (if starts_with t0 ''KRX:'' then drop 4 t0 else t0);
         t2 = (if ends_with t1 ''.KS'' \<or> ends_with t1 ''.KQ'' then take (length t1 - 3) t1 else t1)
     in if length t2 = 6 \<and> list_all is_digit t2 then Inr t2
        else Inl (ValueError (''unsupported KIS domestic symbol: '' @ py_str value)))"

definition decimal_field :: "pyval \<Rightarrow> string \<Rightarrow> dec option \<Rightarrow> dec res" where
  "decimal_field value field minimum =
     (case value of
        PBool _ \<Rightarrow> Inl (ValueError (field @ '' must be a finite decimal''))
      | _ \<Rightarrow>
        (case dec_parse (py_str value) of
           None \<Rightarrow> Inl (ValueError (field @ '' must be a finite decimal''))
         | Some result \<Rightarrow>
             (case minimum of
                None \<Rightarrow> Inr result
              | Some m \<Rightarrow>
                  if result < m then Inl (ValueError (field @ '' must be >= '' @ dec_text m))
                  else Inr result)))"

definition quantity_field :: "pyval \<Rightarrow> string \<Rightarrow> bool \<Rightarrow> dec res" where
  "quantity_field value field allow_zero =
     res_bind (decimal_field value field (Some 0)) (\<lambda>result.
     if \<not> whole result then Inl (ValueError (field @ '' must be a whole-share KIS quantity''))
     else if \<not> allow_zero \<and> result = 0 then Inl (ValueError (field @ '' must be greater than zero''))
     else Inr result)"

definition signed_quantity_field :: "pyval \<Rightarrow> string \<Rightarrow> dec res" where
  "signed_quantity_field value field =
     res_bind (decimal_field value field None) (\<lambda>result.
     if \<not> whole result then Inl (ValueError (field @ '' must be a whole-share KIS quantity''))
     else Inr result)"

subsection \<open>Targets, deltas, allocations, plans\<close>

record sleeve_target =
  target_intent :: string
  target_sleeve :: string
  target_symbol :: string
  target_quantity :: dec

record sleeve_delta =
  delta_intent :: string
  delta_sleeve :: string
  delta_current :: dec
  delta_target :: dec
  delta_signed :: dec

record sleeve_allocation =
  alloc_intent :: string
  alloc_sleeve :: string
  alloc_signed :: dec

record symbol_net_plan =
  plan_id :: string
  plan_schema :: string
  plan_scope :: string
  plan_portfolio :: string
  plan_portfolio_hash :: string
  plan_symbol :: string
  plan_side :: string
  plan_quantity :: dec
  plan_reference_price :: dec
  plan_deltas :: "sleeve_delta list"
  plan_internal :: "sleeve_allocation list"
  plan_allocations :: "sleeve_allocation list"

definition plan_schema_version :: string where
  "plan_schema_version = ''live-portfolio-net-plan-v2''"

definition make_sleeve_target :: "pyval \<Rightarrow> pyval \<Rightarrow> pyval \<Rightarrow> pyval \<Rightarrow> sleeve_target res" where
  "make_sleeve_target intent sleeve symbol target =
     res_bind (text_field intent ''intent_id'') (\<lambda>i.
     res_bind (text_field sleeve ''sleeve_id'') (\<lambda>s.
     res_bind (canonical_kis_symbol symbol) (\<lambda>y.
     res_bind (quantity_field target ''target_quantity'' True) (\<lambda>q.
     Inr \<lparr>target_intent = i, target_sleeve = s, target_symbol = y, target_quantity = q\<rparr>))))"

definition internal_only :: "symbol_net_plan \<Rightarrow> bool" where
  "internal_only p \<longleftrightarrow> plan_quantity p = 0 \<and> plan_internal p \<noteq> []"

definition has_internal_cross :: "symbol_net_plan \<Rightarrow> bool" where
  "has_internal_cross p \<longleftrightarrow> plan_internal p \<noteq> []"

definition delta_json :: "sleeve_delta \<Rightarrow> pyval" where
  "delta_json d = PDict
     [(''intentId'', PStr (delta_intent d)),
      (''sleeveId'', PStr (delta_sleeve d)),
      (''currentQuantity'', PStr (dec_text (delta_current d))),
      (''targetQuantity'', PStr (dec_text (delta_target d))),
      (''signedQuantity'', PStr (dec_text (delta_signed d)))]"

definition allocation_json :: "sleeve_allocation \<Rightarrow> pyval" where
  "allocation_json a = PDict
     [(''intentId'', PStr (alloc_intent a)),
      (''sleeveId'', PStr (alloc_sleeve a)),
      (''signedQuantity'', PStr (dec_text (alloc_signed a)))]"

text \<open>The sealed payload, without the plan identity that is its digest.\<close>

definition plan_payload ::
  "string \<Rightarrow> string \<Rightarrow> string \<Rightarrow> string \<Rightarrow> string \<Rightarrow> string \<Rightarrow> dec \<Rightarrow> dec \<Rightarrow>
   sleeve_delta list \<Rightarrow> sleeve_allocation list \<Rightarrow> sleeve_allocation list \<Rightarrow> pydict" where
  "plan_payload schema scope portfolio phash symbol side quantity price deltas internal allocs =
     [(''schemaVersion'', PStr schema),
      (''scopeId'', PStr scope),
      (''portfolioId'', PStr portfolio),
      (''portfolioHash'', PStr phash),
      (''symbol'', PStr symbol),
      (''side'', PStr side),
      (''quantity'', PStr (dec_text quantity)),
      (''referencePrice'', PStr (dec_text price)),
      (''sleeveDeltas'', PList (map delta_json deltas)),
      (''internalAllocations'', PList (map allocation_json internal)),
      (''allocations'', PList (map allocation_json allocs))]"

definition plan_metadata :: "symbol_net_plan \<Rightarrow> pydict" where
  "plan_metadata p =
     [(''schemaVersion'', PStr (plan_schema p)),
      (''scopeId'', PStr (plan_scope p)),
      (''planId'', PStr (plan_id p)),
      (''portfolioId'', PStr (plan_portfolio p)),
      (''portfolioHash'', PStr (plan_portfolio_hash p)),
      (''symbol'', PStr (plan_symbol p)),
      (''side'', PStr (plan_side p)),
      (''quantity'', PStr (dec_text (plan_quantity p))),
      (''referencePrice'', PStr (dec_text (plan_reference_price p))),
      (''sleeveDeltas'', PList (map delta_json (plan_deltas p))),
      (''internalAllocations'', PList (map allocation_json (plan_internal p))),
      (''allocations'', PList (map allocation_json (plan_allocations p)))]"

subsection \<open>Crossing opposing sleeves\<close>

text \<open>
  The loop walks the buying and the selling sleeves side by side; each list carries the quantity
  still to cross. \<open>crossed\<close> is exact at the smaller side (\<open>x - x\<close> is 0 in any context), so each
  round drops at least one head. The dict of crossed quantities is a function of its key, 0 for
  every delta at the start.
\<close>

type_synonym cross_key = "string \<times> string"

function cross_loop ::
  "(cross_key \<times> dec) list \<Rightarrow> (cross_key \<times> dec) list \<Rightarrow> (cross_key \<Rightarrow> dec) \<Rightarrow> cross_key \<Rightarrow> dec" where
  "cross_loop [] ns internal = internal"
| "cross_loop (p # ps) [] internal = internal"
| "cross_loop ((pk, pr) # ps) ((nk, nr) # ns) internal =
     (let crossed = min pr nr;
          i1 = internal(pk := dec_add (internal pk) crossed);
          i2 = i1(nk := dec_sub (i1 nk) crossed);
          pr' = dec_sub pr crossed;
          nr' = dec_sub nr crossed
      in cross_loop (if pr' = 0 then ps else (pk, pr') # ps) (if nr' = 0 then ns else (nk, nr') # ns) i2)"
  by pat_completeness auto
termination
  by (relation "measure (\<lambda>(ps, ns, i). length ps + length ns)") (auto simp: min_def)

definition delta_key :: "sleeve_delta \<Rightarrow> cross_key" where
  "delta_key d = (delta_sleeve d, delta_intent d)"

definition crossed_quantities :: "sleeve_delta list \<Rightarrow> cross_key \<Rightarrow> dec" where
  "crossed_quantities deltas =
     cross_loop
       (map (\<lambda>d. (delta_key d, delta_signed d)) (filter (\<lambda>d. 0 < delta_signed d) deltas))
       (map (\<lambda>d. (delta_key d, dec_neg (delta_signed d))) (filter (\<lambda>d. delta_signed d < 0) deltas))
       (\<lambda>_. 0)"

definition make_allocation :: "sleeve_delta \<Rightarrow> dec \<Rightarrow> sleeve_allocation" where
  "make_allocation d q = \<lparr>alloc_intent = delta_intent d, alloc_sleeve = delta_sleeve d, alloc_signed = q\<rparr>"

definition split_allocations ::
  "sleeve_delta list \<Rightarrow> (sleeve_allocation list \<times> sleeve_allocation list) res" where
  "split_allocations deltas =
     (let crossed = (\<lambda>d. crossed_quantities deltas (delta_key d));
          residual = (\<lambda>d. dec_sub (delta_signed d) (crossed d));
          internal = map (\<lambda>d. make_allocation d (crossed d)) (filter (\<lambda>d. crossed d \<noteq> 0) deltas);
          external = map (\<lambda>d. make_allocation d (residual d)) (filter (\<lambda>d. residual d \<noteq> 0) deltas)
      in if dec_sum (map alloc_signed internal) \<noteq> 0
         then Inl (RuntimeError ''internal sleeve cross does not conserve quantity'')
         else if dec_sum (map alloc_signed external) \<noteq> dec_sum (map delta_signed deltas)
         then Inl (RuntimeError ''external sleeve allocation does not match net quantity'')
         else Inr (internal, external))"

subsection \<open>Building a plan\<close>

definition net_side :: "dec \<Rightarrow> string" where
  "net_side net = (if 0 < net then ''BUY'' else if net < 0 then ''SELL'' else ''NONE'')"

definition build_delta ::
  "(string \<times> string \<Rightarrow> pyval option) \<Rightarrow> string \<Rightarrow> sleeve_target \<Rightarrow> sleeve_delta res" where
  "build_delta positions symbol item =
     (let sleeve = target_sleeve item;
          raw = (case positions (sleeve, symbol) of None \<Rightarrow> PInt 0 | Some v \<Rightarrow> v)
      in res_bind (quantity_field raw (''current position '' @ sleeve @ ''/'' @ symbol) True) (\<lambda>current.
         let signed = dec_sub (target_quantity item) current
         in if dec_add current signed < 0
            then Inl (ValueError (''target would short sleeve '' @ sleeve @ ''/'' @ symbol))
            else Inr \<lparr>delta_intent = target_intent item, delta_sleeve = sleeve, delta_current = current,
                      delta_target = target_quantity item, delta_signed = signed\<rparr>))"

definition build_symbol_net_plan ::
  "pyval \<Rightarrow> pyval \<Rightarrow> pyval \<Rightarrow> sleeve_target list \<Rightarrow> (string \<times> string \<Rightarrow> pyval option) \<Rightarrow>
   pyval \<Rightarrow> pyval \<Rightarrow> symbol_net_plan res" where
  "build_symbol_net_plan scope portfolio phash targets positions broker_quantity reference_price =
     res_bind (text_field scope ''scope_id'') (\<lambda>scope_id.
     res_bind (text_field portfolio ''portfolio_id'') (\<lambda>portfolio_id.
     res_bind (text_field phash ''portfolio_hash'') (\<lambda>raw_hash.
     let portfolio_hash = lower raw_hash
     in if targets = [] then Inl (ValueError ''at least one sleeve target is required'')
        else if \<not> list_all (\<lambda>t. target_symbol t = target_symbol (hd targets)) targets
        then Inl (ValueError ''a symbol plan cannot mix symbols'')
        else if \<not> distinct (map (\<lambda>t. (target_sleeve t, target_symbol t)) targets)
        then Inl (ValueError ''only one target per sleeve and symbol is allowed'')
        else if \<not> distinct (map target_intent targets)
        then Inl (ValueError ''intent_id must be unique'')
        else
          let symbol = target_symbol (hd targets);
              items = sort_key (\<lambda>t. target_sleeve t) (sort_key (\<lambda>t. target_intent t) targets)
          in res_bind (res_map (build_delta positions symbol) items) (\<lambda>deltas.
             let net = dec_sum (map delta_signed deltas)
             in res_bind (quantity_field broker_quantity (''broker holding '' @ symbol) True) (\<lambda>available.
                if net < 0 \<and> available < dec_neg net
                then Inl (ValueError (''broker holding is insufficient for '' @ symbol @ '': need ''
                       @ dec_text (dec_neg net) @ '', have '' @ dec_text available))
                else
                  res_bind (split_allocations deltas) (\<lambda>(internal, allocs).
                  res_bind (decimal_field reference_price ''reference_price'' (Some 0)) (\<lambda>price.
                  if internal \<noteq> [] \<and> price \<le> 0
                  then Inl (ValueError ''an internal sleeve cross requires a positive reference price'')
                  else Inr
                    \<lparr>plan_id = seal (PDict (plan_payload plan_schema_version scope_id portfolio_id
                        portfolio_hash symbol (net_side net) (dec_abs net) price deltas internal allocs)),
                     plan_schema = plan_schema_version, plan_scope = scope_id,
                     plan_portfolio = portfolio_id, plan_portfolio_hash = portfolio_hash,
                     plan_symbol = symbol, plan_side = net_side net, plan_quantity = dec_abs net,
                     plan_reference_price = price, plan_deltas = deltas, plan_internal = internal,
                     plan_allocations = allocs\<rparr>)))))))"

section \<open>Portfolio plans at the order edge: validation of sealed metadata\<close>

text \<open>
  \<open>validate_symbol_net_plan_metadata\<close> rebuilds a plan from its metadata: every field is parsed,
  the deltas must conserve their targets, the allocations must be the ones the deltas imply, side
  and quantity must match the net, and the digest of the canonical payload must be the plan
  identity.
\<close>

definition allocation_from_json :: "pydict \<Rightarrow> sleeve_allocation res" where
  "allocation_from_json item =
     res_bind (text_field (dict_get item ''intentId'') ''intentId'') (\<lambda>i.
     res_bind (text_field (dict_get item ''sleeveId'') ''sleeveId'') (\<lambda>s.
     res_bind (signed_quantity_field (dict_get item ''signedQuantity'') ''signedQuantity'') (\<lambda>q.
     Inr \<lparr>alloc_intent = i, alloc_sleeve = s, alloc_signed = q\<rparr>)))"

definition allocation_key :: "sleeve_allocation \<Rightarrow> cross_key" where
  "allocation_key a = (alloc_sleeve a, alloc_intent a)"

definition allocations_from_metadata ::
  "pydict \<Rightarrow> string \<Rightarrow> bool \<Rightarrow> sleeve_allocation list res" where
  "allocations_from_metadata payload field allow_empty =
     (case dict_get payload field of
        PList raw \<Rightarrow>
          if \<not> allow_empty \<and> raw = []
          then Inl (ValueError (''portfolio execution '' @ field @ '' are required''))
          else res_bind (res_map allocation_from_json (map as_dict (filter is_dict raw))) (\<lambda>result.
               if length result \<noteq> length raw \<or> list_ex (\<lambda>a. alloc_signed a = 0) result
               then Inl (ValueError (''portfolio execution '' @ field @ '' are invalid''))
               else if \<not> distinct (map allocation_key result)
               then Inl (ValueError (''portfolio execution '' @ field @ '' identity is duplicated''))
               else Inr result)
      | _ \<Rightarrow> Inl (ValueError (''portfolio execution '' @ field @ '' are required'')))"

definition delta_from_json :: "pyval \<Rightarrow> sleeve_delta res" where
  "delta_from_json raw =
     (case raw of
        PDict item \<Rightarrow>
          res_bind (quantity_field (dict_get item ''currentQuantity'') ''currentQuantity'' True) (\<lambda>current.
          res_bind (quantity_field (dict_get item ''targetQuantity'') ''targetQuantity'' True) (\<lambda>target.
          res_bind (signed_quantity_field (dict_get item ''signedQuantity'') ''signedQuantity'') (\<lambda>signed.
          if dec_sub target current \<noteq> signed
          then Inl (ValueError ''portfolio execution sleeve delta does not conserve target'')
          else
            res_bind (text_field (dict_get item ''intentId'') ''intentId'') (\<lambda>i.
            res_bind (text_field (dict_get item ''sleeveId'') ''sleeveId'') (\<lambda>s.
            Inr \<lparr>delta_intent = i, delta_sleeve = s, delta_current = current,
                 delta_target = target, delta_signed = signed\<rparr>)))))
      | _ \<Rightarrow> Inl (ValueError ''portfolio execution sleeve delta is invalid''))"

definition validate_symbol_net_plan_metadata :: "pyval \<Rightarrow> symbol_net_plan res" where
  "validate_symbol_net_plan_metadata value =
     (case value of
        PDict payload \<Rightarrow>
     res_bind (text_field (dict_get payload ''schemaVersion'') ''schemaVersion'') (\<lambda>schema.
     if schema \<noteq> plan_schema_version
     then Inl (ValueError ''portfolio execution schema is unsupported'')
     else
     res_bind (text_field (dict_get payload ''scopeId'') ''scopeId'') (\<lambda>scope.
     res_bind (text_field (dict_get payload ''portfolioId'') ''portfolioId'') (\<lambda>portfolio.
     res_bind (text_field (dict_get payload ''portfolioHash'') ''portfolioHash'') (\<lambda>raw_hash.
     let phash = lower raw_hash in
     res_bind (canonical_kis_symbol (dict_get payload ''symbol'')) (\<lambda>symbol.
     res_bind (text_field (dict_get payload ''side'') ''side'') (\<lambda>raw_side.
     let side = upper raw_side in
     res_bind (quantity_field (dict_get payload ''quantity'') ''quantity'' True) (\<lambda>quantity.
     res_bind (decimal_field (dict_get payload ''referencePrice'') ''referencePrice'' (Some 0)) (\<lambda>price.
     case dict_get payload ''sleeveDeltas'' of
       PList raw_deltas \<Rightarrow>
       if raw_deltas = [] then Inl (ValueError ''portfolio execution sleeveDeltas are required'')
       else
       res_bind (res_map delta_from_json raw_deltas) (\<lambda>deltas.
       if \<not> distinct (map delta_key deltas)
       then Inl (ValueError ''portfolio execution sleeve delta identity is duplicated'')
       else
       res_bind (allocations_from_metadata payload ''internalAllocations'' True) (\<lambda>internal.
       res_bind (allocations_from_metadata payload ''allocations'' True) (\<lambda>allocs.
       res_bind (split_allocations deltas) (\<lambda>(expected_internal, expected_allocs).
       if internal \<noteq> expected_internal
       then Inl (ValueError ''portfolio execution internal allocations do not match sleeve deltas'')
       else if allocs \<noteq> expected_allocs
       then Inl (ValueError ''portfolio execution allocations do not match sleeve deltas'')
       else if internal \<noteq> [] \<and> price \<le> 0
       then Inl (ValueError ''portfolio execution internal cross requires a positive reference price'')
       else
       let net = dec_sum (map delta_signed deltas)
       in if side \<noteq> net_side net \<or> quantity \<noteq> dec_abs net
          then Inl (ValueError ''portfolio execution side/quantity does not match sleeve net'')
          else
          res_bind (text_field (dict_get payload ''planId'') ''planId'') (\<lambda>pid.
          if seal (PDict (plan_payload schema scope portfolio phash symbol side quantity price
                            deltas internal allocs)) \<noteq> pid
          then Inl (ValueError ''portfolio execution plan seal is invalid'')
          else Inr
            \<lparr>plan_id = pid, plan_schema = schema, plan_scope = scope, plan_portfolio = portfolio,
             plan_portfolio_hash = phash, plan_symbol = symbol, plan_side = side,
             plan_quantity = quantity, plan_reference_price = price, plan_deltas = deltas,
             plan_internal = internal, plan_allocations = allocs\<rparr>)))))
     | _ \<Rightarrow> Inl (ValueError ''portfolio execution sleeveDeltas are required'')))))))))
      | _ \<Rightarrow> Inl (ValueError ''portfolio execution metadata must be an object''))"

end
