(* ===== verification/Portfolio_Fill.thy ===== *)
theory Portfolio_Fill
  imports Portfolio_Plan
begin

section \<open>Distributing fills and fees over the sleeves\<close>

text \<open>
  A broker fill of a net order is distributed over the order's allocations in proportion to their
  signed quantities, in whole shares, by largest remainder (\<open>proportional_signed_quantities\<close>); a
  fee is distributed over the sleeves' filled quantities in units of \<open>10^-8\<close>, the last sleeve taking the
  rest (\<open>allocate_money\<close>).

  The remainder loop of the first routine moves one share at a time until nothing is left to
  distribute. On arbitrary decimals it need not end, so it is a \<open>partial_function\<close>: \<open>None\<close> is a
  loop that does not return.
\<close>

definition candidate_score :: "dec \<Rightarrow> sleeve_allocation \<Rightarrow> dec \<Rightarrow> dec \<Rightarrow> dec option" where
  "candidate_score direction a ideal allocated =
     (if 0 < direction \<and> 0 < alloc_signed a \<and> allocated < alloc_signed a
      then Some (dec_sub ideal allocated)
      else if direction < 0 \<and> alloc_signed a < 0 \<and> alloc_signed a < allocated
      then Some (dec_sub allocated ideal)
      else None)"

text \<open>The candidates as \<open>(-score, sleeve, intent, index)\<close>; the smallest key comes first.\<close>

definition candidates ::
  "dec \<Rightarrow> sleeve_allocation list \<Rightarrow> dec list \<Rightarrow> dec list \<Rightarrow> (dec \<times> string \<times> string \<times> nat) list" where
  "candidates direction allocs ideals actual =
     concat (map (\<lambda>(i, a, ideal, allocated).
         case candidate_score direction a ideal allocated of
           None \<Rightarrow> [] | Some s \<Rightarrow> [(dec_neg s, alloc_sleeve a, alloc_intent a, i)])
       (zip [0..<length allocs] (zip allocs (zip ideals actual))))"

definition better :: "dec \<times> string \<times> string \<times> nat \<Rightarrow> dec \<times> string \<times> string \<times> nat \<Rightarrow> bool" where
  "better c d \<longleftrightarrow>
     (case c of (s, sl, it, _) \<Rightarrow> case d of (s', sl', it', _) \<Rightarrow>
        s < s' \<or> s = s' \<and> (sl < sl' \<or> sl = sl' \<and> it < it'))"

text \<open>The head of the stably sorted candidates: the first one no later candidate beats.\<close>

fun best_candidate ::
  "(dec \<times> string \<times> string \<times> nat) \<Rightarrow> (dec \<times> string \<times> string \<times> nat) list
   \<Rightarrow> dec \<times> string \<times> string \<times> nat" where
  "best_candidate c [] = c"
| "best_candidate c (d # ds) = best_candidate (if better d c then d else c) ds"

partial_function (option) remainder_loop ::
  "sleeve_allocation list \<Rightarrow> dec list \<Rightarrow> dec list \<Rightarrow> dec \<Rightarrow> dec list res option" where
  "remainder_loop allocs ideals actual difference =
     (if difference = 0 then Some (Inr actual)
      else let direction = (if 0 < difference then 1 else - 1)
           in case candidates direction allocs ideals actual of
                [] \<Rightarrow> Some (Inl (RuntimeError ''unable to conserve sleeve fill quantity''))
              | c # cs \<Rightarrow>
                  (let i = snd (snd (snd (best_candidate c cs)))
                   in remainder_loop allocs ideals (actual[i := dec_add (actual ! i) direction])
                        (dec_sub difference direction)))"

declare remainder_loop.simps [code]

definition floor_share :: "dec \<Rightarrow> dec" where
  "floor_share value = dec_mul (integral_down (dec_abs value)) (if 0 \<le> value then 1 else - 1)"

definition proportional_signed_quantities ::
  "sleeve_allocation list \<Rightarrow> dec \<Rightarrow> string \<Rightarrow> dec list res option" where
  "proportional_signed_quantities allocs cumulative side =
     (let net = dec_sum (map alloc_signed allocs);
          sign = (if side = ''BUY'' then 1 else - 1)
      in if dec_mul net sign \<le> 0
         then Some (Inl (ValueError ''allocation net does not match broker side''))
         else if dec_abs net < cumulative
         then Some (Inl (ValueError ''cumulative fill exceeds accepted order''))
         else
           let ratio = dec_div cumulative (dec_abs net);
               ideals = map (\<lambda>a. dec_mul (alloc_signed a) ratio) allocs;
               actual = map floor_share ideals
           in remainder_loop allocs ideals actual
                (dec_sub (dec_mul cumulative sign) (dec_sum actual)))"

definition allocate_money :: "dec \<Rightarrow> dec list \<Rightarrow> dec list res" where
  "allocate_money amount weights =
     (if amount = 0 then Inr (map (\<lambda>_. 0) weights)
      else
        let denominator = dec_sum weights
        in if denominator \<le> 0 then Inl (ValueError ''fee allocation requires a non-zero fill'')
           else res_bind
             (res_map (\<lambda>w. quantize_money (dec_div (dec_mul amount w) denominator)) weights) (\<lambda>result.
             Inr (butlast result @ [dec_add (last result) (dec_sub amount (dec_sum result))])))"

end
