(* ===== verification/Portfolio_Cross.thy ===== *)
theory Portfolio_Cross
  imports Portfolio_Plan
begin

section \<open>What crossing does: a closed form of the loop\<close>

text \<open>
  The crossing loop is related to a closed form: each side gives up, in order, as much as the
  smaller side holds in total (\<open>fill\<close>). The lemmas need whole-share quantities whose absolute
  sum is at most \<open>10^28\<close> (\<open>crossable\<close>), where the decimal context is exact. From the closed
  form: crossed quantities never exceed a sleeve's delta, cancel in sum, and exhaust the smaller
  side, so what is left for the broker all points the same way.
\<close>

fun fill :: "rat \<Rightarrow> rat list \<Rightarrow> rat list" where
  "fill t [] = []"
| "fill t (x # xs) = min t x # fill (t - min t x) xs"

definition key_sum :: "('k \<times> rat) list \<Rightarrow> 'k \<Rightarrow> rat" where
  "key_sum kvs k = sum_list (map snd (filter (\<lambda>p. fst p = k) kvs))"

lemma key_sum_simps [simp]:
  "key_sum [] k = 0"
  "key_sum ((k', v) # kvs) k = (if k' = k then v else 0) + key_sum kvs k"
  by (simp_all add: key_sum_def)

lemma length_fill [simp]: "length (fill t xs) = length xs"
  by (induction t xs rule: fill.induct) auto

lemma fill_whole: "whole t \<Longrightarrow> list_all whole xs \<Longrightarrow> list_all whole (fill t xs)"
  by (induction t xs rule: fill.induct) auto

lemma fill_bounds:
  "0 \<le> t \<Longrightarrow> list_all (\<lambda>x. 0 < x) xs \<Longrightarrow> list_all2 (\<lambda>y x. 0 \<le> y \<and> y \<le> x) (fill t xs) xs"
  by (induction t xs rule: fill.induct) auto

lemma fill_sum: "0 \<le> t \<Longrightarrow> list_all (\<lambda>x. 0 < x) xs \<Longrightarrow> sum_list (fill t xs) = min t (sum_list xs)"
proof (induction t xs rule: fill.induct)
  case (2 t x xs)
  have "0 \<le> sum_list xs" using 2 by (intro sum_list_nonneg) (auto simp: list_all_iff)
  with 2 show ?case by (auto simp: min_def)
qed simp

lemma fill_all: "list_all (\<lambda>x. 0 < x) xs \<Longrightarrow> sum_list xs \<le> t \<Longrightarrow> fill t xs = xs"
proof (induction t xs rule: fill.induct)
  case (2 t x xs)
  have "0 \<le> sum_list xs" using 2 by (intro sum_list_nonneg) (auto simp: list_all_iff)
  with 2 show ?case by (auto simp: min_def)
qed simp

lemma key_sum_notin: "k \<notin> set ks \<Longrightarrow> key_sum (zip ks vs) k = 0"
proof (induction ks arbitrary: vs)
  case (Cons k' ks)
  then show ?case by (cases vs) auto
qed simp

lemma map_key_sum_zip:
  "distinct ks \<Longrightarrow> length ks = length vs \<Longrightarrow> map (key_sum (zip ks vs)) ks = vs"
proof (induction ks arbitrary: vs)
  case Nil
  then show ?case by simp
next
  case (Cons k ks)
  then obtain v vs' where vs: "vs = v # vs'" by (cases vs) auto
  have "map (key_sum (zip (k # ks) vs)) ks = map (key_sum (zip ks vs')) ks"
    using Cons.prems(1) by (auto simp: vs)
  also have "\<dots> = vs'" using Cons by (simp add: vs)
  finally have "map (key_sum (zip (k # ks) vs)) ks = vs'" .
  moreover have "key_sum (zip (k # ks) vs) k = v"
    using Cons.prems(1) key_sum_notin [of k ks vs'] by (simp add: vs)
  ultimately show ?case by (simp only: list.map vs)
qed

lemma key_sum_fill_0: "\<forall>p \<in> set ps. 0 < snd p \<Longrightarrow> key_sum (zip (map fst ps) (fill 0 (map snd ps))) k = 0"
  by (induction ps) auto

text \<open>Crossing \<open>c\<close> off the head of a side, as the loop does, is the closed form's first entry.\<close>

lemma fill_cross_step:
  assumes "0 < c" "c \<le> x" "c \<le> t"
  shows "key_sum (zip (map fst (if x - c = 0 then ps else (k', x - c) # ps))
            (fill (t - c) (map snd (if x - c = 0 then ps else (k', x - c) # ps)))) k
          + (if k' = k then c else 0)
       = key_sum (zip (map fst ((k', x) # ps)) (fill t (map snd ((k', x) # ps)))) k"
proof (cases "x = c")
  case True
  with assms show ?thesis by (simp add: min_def)
next
  case False
  have "min (t - c) (x - c) = min t x - c" by (simp add: min_def)
  then show ?thesis using False assms by simp
qed

lemma cross_loop_closed:
  assumes "\<forall>p \<in> set ps \<union> set ns. whole (snd p) \<and> 0 < snd p"
    and "\<forall>k. whole (f k) \<and> \<bar>f k\<bar> + sum_list (map snd ps) + sum_list (map snd ns) \<le> 10 ^ 28"
  shows "cross_loop ps ns f k =
    (let t = min (sum_list (map snd ps)) (sum_list (map snd ns))
     in f k + key_sum (zip (map fst ps) (fill t (map snd ps))) k
            - key_sum (zip (map fst ns) (fill t (map snd ns))) k)"
  using assms
proof (induction ps ns f rule: cross_loop.induct)
  case (1 ns f)
  have "0 \<le> sum_list (map snd ns)" using "1.prems" by (intro sum_list_nonneg) auto
  then show ?case using key_sum_fill_0 [of ns k] "1.prems" by (simp add: Let_def min_def)
next
  case (2 p ps f)
  have "0 \<le> sum_list (map snd (p # ps))" using "2.prems" by (intro sum_list_nonneg) auto
  then show ?case using key_sum_fill_0 [of "p # ps" k] "2.prems"
    by (simp add: Let_def min_def del: fill.simps)
next
  case (3 pk pr ps nk nr ns f)
  define c where "c = min pr nr"
  define P N where "P = sum_list (map snd ps)" and "N = sum_list (map snd ns)"
  have nn: "0 \<le> P" "0 \<le> N"
    unfolding P_def N_def using "3.prems"(1) by (intro sum_list_nonneg; force)+
  have pn: "whole pr" "whole nr" "0 < pr" "0 < nr" using "3.prems" by auto
  have c: "whole c" "0 < c" "c \<le> pr" "c \<le> nr" using pn by (auto simp: c_def)
  have fb: "whole (f k)" "\<bar>f k\<bar> + (pr + P) + (nr + N) \<le> 10 ^ 28" for k
    using "3.prems"(2) [rule_format, of k] by (simp_all add: P_def N_def)
  have lim: "\<bar>f k\<bar> + c \<le> 10 ^ 28" "pr \<le> 10 ^ 28" "nr \<le> 10 ^ 28" for k
    using fb(2) [of k] nn pn c by linarith+
  have i1: "dec_add (f pk) c = f pk + c"
    using lim(1) [of pk] fb(1) c by (intro dec_add_whole) auto
  define g where "g = f(pk := f pk + c)"
  have g: "whole (g k)" "\<bar>g k\<bar> \<le> \<bar>f k\<bar> + c" for k
    using fb(1) c by (auto simp: g_def)
  have i2: "dec_sub (g nk) c = g nk - c"
  proof (intro dec_sub_whole)
    show "\<bar>g nk - c\<bar> \<le> 10 ^ 28"
      using lim(1) [of nk] fb(2) [of nk] g(2) [of nk] nn pn c by linarith
  qed (use g c in auto)
  define h where "h = g(nk := g nk - c)"
  have pr': "dec_sub pr c = pr - c" and nr': "dec_sub nr c = nr - c"
    using pn c lim by (auto intro!: dec_sub_whole)
  let ?ps = "if pr - c = 0 then ps else (pk, pr - c) # ps"
  let ?ns = "if nr - c = 0 then ns else (nk, nr - c) # ns"
  have sums: "sum_list (map snd ?ps) = pr + P - c" "sum_list (map snd ?ns) = nr + N - c"
    by (auto simp: P_def N_def)
  have hb: "whole (h k) \<and> \<bar>h k\<bar> + sum_list (map snd ?ps) + sum_list (map snd ?ns) \<le> 10 ^ 28" for k
  proof -
    have "\<bar>h k\<bar> \<le> \<bar>f k\<bar> + 2 * c" using c(2) by (auto simp: h_def g_def)
    with fb(2) [of k] sums show ?thesis using g c by (auto simp: h_def)
  qed
  have step: "cross_loop ((pk, pr) # ps) ((nk, nr) # ns) f = cross_loop ?ps ?ns h"
    unfolding cross_loop.simps Let_def c_def [symmetric] i1 g_def [symmetric] i2 h_def [symmetric]
      pr' nr' by (rule refl)
  have pos: "\<forall>p \<in> set ?ps \<union> set ?ns. whole (snd p) \<and> 0 < snd p"
    using "3.prems"(1) c pn by auto
  let ?t = "min (pr + P) (nr + N)"
  have ih: "cross_loop ?ps ?ns h k = h k + key_sum (zip (map fst ?ps) (fill (?t - c) (map snd ?ps))) k
            - key_sum (zip (map fst ?ns) (fill (?t - c) (map snd ?ns))) k"
  proof -
    have eqs: "g = f(pk := dec_add (f pk) c)" "h = g(nk := dec_sub (g nk) c)"
      "pr - c = dec_sub pr c" "nr - c = dec_sub nr c"
      unfolding i1 i2 pr' nr' by (simp_all only: g_def h_def)
    show ?thesis
      using "3.IH" [OF c_def eqs pos allI, OF hb]
      unfolding sums Let_def by (simp only: min_diff_distrib_left)
  qed
  have ct: "c \<le> ?t" using c nn by simp
  have hk: "h k = f k + (if pk = k then c else 0) - (if nk = k then c else 0)"
    by (simp add: h_def g_def)
  show ?case
    unfolding step ih hk
    using fill_cross_step [OF c(2) c(3) ct, of ps pk k] fill_cross_step [OF c(2) c(4) ct, of ns nk k]
    by (simp only: Let_def list.map snd_conv sum_list.Cons flip: P_def N_def)
qed


subsection \<open>The crossed quantity of a delta\<close>

definition crossable :: "sleeve_delta list \<Rightarrow> bool" where
  "crossable ds \<longleftrightarrow> distinct (map delta_key ds) \<and> list_all (\<lambda>d. whole (delta_signed d)) ds
     \<and> (\<Sum>d\<leftarrow>ds. \<bar>delta_signed d\<bar>) \<le> 10 ^ 28"

definition buys :: "sleeve_delta list \<Rightarrow> sleeve_delta list" where
  "buys ds = filter (\<lambda>d. 0 < delta_signed d) ds"

definition sells :: "sleeve_delta list \<Rightarrow> sleeve_delta list" where
  "sells ds = filter (\<lambda>d. delta_signed d < 0) ds"

definition buy_total :: "sleeve_delta list \<Rightarrow> rat" where
  "buy_total ds = sum_list (map delta_signed (buys ds))"

definition sell_total :: "sleeve_delta list \<Rightarrow> rat" where
  "sell_total ds = sum_list (map (\<lambda>d. - delta_signed d) (sells ds))"

abbreviation volume :: "sleeve_delta list \<Rightarrow> rat" where
  "volume ds \<equiv> min (buy_total ds) (sell_total ds)"

abbreviation crossed_of :: "sleeve_delta list \<Rightarrow> sleeve_delta \<Rightarrow> rat" where
  "crossed_of ds d \<equiv> crossed_quantities ds (delta_key d)"

lemma sum_by_side:
  fixes f :: "sleeve_delta \<Rightarrow> rat"
  shows "(\<And>d. d \<in> set ds \<Longrightarrow> delta_signed d = 0 \<Longrightarrow> f d = 0) \<Longrightarrow>
    sum_list (map f ds) = sum_list (map f (buys ds)) + sum_list (map f (sells ds))"
  unfolding buys_def sells_def by (induction ds) (force simp: algebra_simps)+

lemma sum_uminus: "(\<Sum>x\<leftarrow>xs. - f x) = - (\<Sum>x\<leftarrow>xs. (f x :: rat))"
  by (induction xs) auto

lemma net_by_side: "sum_list (map delta_signed ds) = buy_total ds - sell_total ds"
  by (subst sum_by_side) (simp_all add: buy_total_def sell_total_def sum_uminus)

lemma abs_by_side: "(\<Sum>d\<leftarrow>ds. \<bar>delta_signed d\<bar>) = buy_total ds + sell_total ds"
proof -
  have "map (\<lambda>d. \<bar>delta_signed d\<bar>) (buys ds) = map delta_signed (buys ds)"
    "map (\<lambda>d. \<bar>delta_signed d\<bar>) (sells ds) = map (\<lambda>d. - delta_signed d) (sells ds)"
    by (simp_all add: buys_def sells_def)
  then show ?thesis
    by (subst sum_by_side) (simp_all only: buy_total_def sell_total_def abs_zero)
qed

lemma totals_nonneg: "0 \<le> buy_total ds" "0 \<le> sell_total ds"
  unfolding buy_total_def sell_total_def by (intro sum_list_nonneg; force simp: buys_def sells_def)+

lemma elem_le_sum_list: "x \<in> set xs \<Longrightarrow> \<forall>y \<in> set xs. 0 \<le> y \<Longrightarrow> x \<le> sum_list (xs :: rat list)"
proof (induction xs)
  case (Cons a xs)
  have "0 \<le> sum_list xs" using Cons.prems(2) by (intro sum_list_nonneg) auto
  with Cons show ?case by force
qed simp

lemma crossable_abs:
  assumes "crossable ds" "d \<in> set ds"
  shows "\<bar>delta_signed d\<bar> \<le> 10 ^ 28"
proof -
  have "\<bar>delta_signed d\<bar> \<le> (\<Sum>d\<leftarrow>ds. \<bar>delta_signed d\<bar>)"
    using assms(2) by (intro elem_le_sum_list) auto
  also have "\<dots> \<le> 10 ^ 28" using assms(1) unfolding crossable_def by blast
  finally show ?thesis .
qed

lemma crossed_closed:
  assumes ok: "crossable ds"
  shows "crossed_quantities ds k =
    key_sum (zip (map delta_key (buys ds)) (fill (volume ds) (map delta_signed (buys ds)))) k
    - key_sum (zip (map delta_key (sells ds)) (fill (volume ds) (map (\<lambda>d. - delta_signed d) (sells ds)))) k"
proof -
  let ?ps = "map (\<lambda>d. (delta_key d, delta_signed d)) (buys ds)"
  let ?ns = "map (\<lambda>d. (delta_key d, - delta_signed d)) (sells ds)"
  have ns: "map (\<lambda>d. (delta_key d, dec_neg (delta_signed d))) (sells ds) = ?ns"
  proof (rule map_cong [OF refl])
    fix d
    assume "d \<in> set (sells ds)"
    then have "d \<in> set ds" by (simp add: sells_def)
    with ok crossable_abs [OF ok this] show "(delta_key d, dec_neg (delta_signed d)) = (delta_key d, - delta_signed d)"
      by (simp add: dec_neg_whole crossable_def list_all_iff)
  qed
  have snds: "map snd ?ps = map delta_signed (buys ds)" "map snd ?ns = map (\<lambda>d. - delta_signed d) (sells ds)"
    "map fst ?ps = map delta_key (buys ds)" "map fst ?ns = map delta_key (sells ds)" by simp_all
  have "cross_loop ?ps ?ns (\<lambda>_. 0) k = (let t = volume ds in
      0 + key_sum (zip (map fst ?ps) (fill t (map snd ?ps))) k
        - key_sum (zip (map fst ?ns) (fill t (map snd ?ns))) k)"
    unfolding buy_total_def sell_total_def snds(1,2) [symmetric]
  proof (rule cross_loop_closed)
    show "\<forall>p \<in> set ?ps \<union> set ?ns. whole (snd p) \<and> 0 < snd p"
      using ok by (auto simp: buys_def sells_def crossable_def list_all_iff)
    have "buy_total ds + sell_total ds \<le> 10 ^ 28"
      using ok abs_by_side [of ds] by (simp add: crossable_def)
    then show "\<forall>k. whole ((\<lambda>_. 0) k) \<and> \<bar>(\<lambda>_. 0) k\<bar> + sum_list (map snd ?ps) + sum_list (map snd ?ns) \<le> 10 ^ 28"
      unfolding snds by (simp add: buy_total_def sell_total_def)
  qed
  then show ?thesis
    unfolding crossed_quantities_def buys_def [symmetric] sells_def [symmetric] ns snds Let_def by simp
qed

lemma keys_by_side:
  assumes "crossable ds"
  shows "distinct (map delta_key (buys ds))" "distinct (map delta_key (sells ds))"
    and "d \<in> set ds \<Longrightarrow> \<not> 0 < delta_signed d \<Longrightarrow> delta_key d \<notin> delta_key ` set (buys ds)"
    and "d \<in> set ds \<Longrightarrow> \<not> delta_signed d < 0 \<Longrightarrow> delta_key d \<notin> delta_key ` set (sells ds)"
proof -
  have d: "distinct (map delta_key ds)" using assms by (simp add: crossable_def)
  then show "distinct (map delta_key (buys ds))" "distinct (map delta_key (sells ds))"
    by (simp_all add: buys_def sells_def distinct_map_filter)
  have "delta_key e = delta_key d \<Longrightarrow> d \<in> set ds \<Longrightarrow> e \<in> set ds \<Longrightarrow> e = d" for e
    using d by (auto simp: distinct_map dest: inj_onD)
  then show "d \<in> set ds \<Longrightarrow> \<not> 0 < delta_signed d \<Longrightarrow> delta_key d \<notin> delta_key ` set (buys ds)"
    "d \<in> set ds \<Longrightarrow> \<not> delta_signed d < 0 \<Longrightarrow> delta_key d \<notin> delta_key ` set (sells ds)"
    by (force simp: buys_def sells_def)+
qed

lemma crossed_buys:
  assumes ok: "crossable ds"
  shows "map (crossed_of ds) (buys ds) = fill (volume ds) (map delta_signed (buys ds))"
proof -
  let ?vs = "fill (volume ds) (map delta_signed (buys ds))"
  have "map (crossed_of ds) (buys ds)
      = map (key_sum (zip (map delta_key (buys ds)) ?vs)) (map delta_key (buys ds))"
    using keys_by_side(4) [OF ok]
    by (auto simp: crossed_closed [OF ok] buys_def intro!: key_sum_notin)
  also have "\<dots> = ?vs"
    using keys_by_side(1) [OF ok] by (intro map_key_sum_zip) simp_all
  finally show ?thesis .
qed

lemma crossed_sells:
  assumes ok: "crossable ds"
  shows "map (\<lambda>d. - crossed_of ds d) (sells ds) = fill (volume ds) (map (\<lambda>d. - delta_signed d) (sells ds))"
proof -
  let ?vs = "fill (volume ds) (map (\<lambda>d. - delta_signed d) (sells ds))"
  have "map (\<lambda>d. - crossed_of ds d) (sells ds)
      = map (key_sum (zip (map delta_key (sells ds)) ?vs)) (map delta_key (sells ds))"
    using keys_by_side(3) [OF ok]
    by (auto simp: crossed_closed [OF ok] sells_def intro!: key_sum_notin)
  also have "\<dots> = ?vs"
    using keys_by_side(2) [OF ok] by (intro map_key_sum_zip) simp_all
  finally show ?thesis .
qed

lemma crossed_flat:
  "crossable ds \<Longrightarrow> d \<in> set ds \<Longrightarrow> delta_signed d = 0 \<Longrightarrow> crossed_of ds d = 0"
  using keys_by_side(3,4) [of ds d] by (simp add: crossed_closed key_sum_notin)

text \<open>A sleeve never crosses more than its delta, nor against it.\<close>

lemma crossed_bounds:
  assumes ok: "crossable ds"
  shows "d \<in> set (buys ds) \<Longrightarrow> 0 \<le> crossed_of ds d \<and> crossed_of ds d \<le> delta_signed d"
    and "d \<in> set (sells ds) \<Longrightarrow> delta_signed d \<le> crossed_of ds d \<and> crossed_of ds d \<le> 0"
proof -
  have "list_all2 (\<lambda>y x. 0 \<le> y \<and> y \<le> x) (map (crossed_of ds) (buys ds)) (map delta_signed (buys ds))"
    unfolding crossed_buys [OF ok] using totals_nonneg
    by (intro fill_bounds) (auto simp: buys_def list_all_iff)
  then show "d \<in> set (buys ds) \<Longrightarrow> 0 \<le> crossed_of ds d \<and> crossed_of ds d \<le> delta_signed d"
    by (simp add: list.rel_map list_all2_same)
  have "list_all2 (\<lambda>y x. 0 \<le> y \<and> y \<le> x) (map (\<lambda>d. - crossed_of ds d) (sells ds))
      (map (\<lambda>d. - delta_signed d) (sells ds))"
    unfolding crossed_sells [OF ok] using totals_nonneg
    by (intro fill_bounds) (auto simp: sells_def list_all_iff)
  then show "d \<in> set (sells ds) \<Longrightarrow> delta_signed d \<le> crossed_of ds d \<and> crossed_of ds d \<le> 0"
    by (simp add: list.rel_map list_all2_same)
qed

lemma crossed_whole:
  assumes ok: "crossable ds" and d: "d \<in> set ds"
  shows "whole (crossed_of ds d)"
proof -
  have w: "\<forall>d \<in> set ds. whole (delta_signed d)" using ok by (simp add: crossable_def list_all_iff)
  have v: "whole (volume ds)"
    using w unfolding buy_total_def sell_total_def
    by (intro whole_min whole_sum_list) (auto simp: buys_def sells_def)
  have "list_all whole (map (crossed_of ds) (buys ds))" "list_all whole (map (\<lambda>d. - crossed_of ds d) (sells ds))"
    unfolding crossed_buys [OF ok] crossed_sells [OF ok] using w
    by (intro fill_whole [OF v]; simp add: list_all_iff buys_def sells_def)+
  with d crossed_flat [OF ok d] show ?thesis
    by (cases "delta_signed d" "0 :: rat" rule: linorder_cases) (auto simp: list_all_iff buys_def sells_def)
qed

lemma crossed_totals:
  assumes ok: "crossable ds"
  shows "sum_list (map (crossed_of ds) (buys ds)) = volume ds"
    and "sum_list (map (crossed_of ds) (sells ds)) = - volume ds"
proof -
  show "sum_list (map (crossed_of ds) (buys ds)) = volume ds"
    unfolding crossed_buys [OF ok] using totals_nonneg
    by (subst fill_sum) (auto simp: buys_def list_all_iff buy_total_def)
  have "sum_list (map (\<lambda>d. - crossed_of ds d) (sells ds)) = volume ds"
    unfolding crossed_sells [OF ok] using totals_nonneg
    by (subst fill_sum) (auto simp: sells_def list_all_iff sell_total_def)
  then show "sum_list (map (crossed_of ds) (sells ds)) = - volume ds"
    by (simp add: sum_uminus)
qed

text \<open>The smaller side is crossed completely.\<close>

lemma crossed_exhausts:
  assumes ok: "crossable ds"
  shows "buy_total ds \<le> sell_total ds \<Longrightarrow> d \<in> set (buys ds) \<Longrightarrow> crossed_of ds d = delta_signed d"
    and "sell_total ds \<le> buy_total ds \<Longrightarrow> d \<in> set (sells ds) \<Longrightarrow> crossed_of ds d = delta_signed d"
proof -
  assume "buy_total ds \<le> sell_total ds" and d: "d \<in> set (buys ds)"
  then have "map (crossed_of ds) (buys ds) = map delta_signed (buys ds)"
    unfolding crossed_buys [OF ok]
    by (intro fill_all) (auto simp: buys_def list_all_iff buy_total_def)
  with d show "crossed_of ds d = delta_signed d" by simp
next
  assume "sell_total ds \<le> buy_total ds" and d: "d \<in> set (sells ds)"
  then have "map (\<lambda>d. - crossed_of ds d) (sells ds) = map (\<lambda>d. - delta_signed d) (sells ds)"
    unfolding crossed_sells [OF ok]
    by (intro fill_all) (auto simp: sells_def list_all_iff sell_total_def)
  with d show "crossed_of ds d = delta_signed d" by simp
qed


subsection \<open>The split\<close>

text \<open>
  For a crossable list of deltas the two consistency checks of \<open>split_allocations\<close> pass, and
  its results are the crossed and the residual quantities. What goes to the broker never opposes
  the net order.
\<close>

definition internal_part :: "sleeve_delta list \<Rightarrow> sleeve_allocation list" where
  "internal_part ds = map (\<lambda>d. make_allocation d (crossed_of ds d)) (filter (\<lambda>d. crossed_of ds d \<noteq> 0) ds)"

definition external_part :: "sleeve_delta list \<Rightarrow> sleeve_allocation list" where
  "external_part ds = map (\<lambda>d. make_allocation d (delta_signed d - crossed_of ds d))
      (filter (\<lambda>d. delta_signed d \<noteq> crossed_of ds d) ds)"

lemma crossed_within:
  assumes "crossable ds" "d \<in> set ds"
  shows "\<bar>crossed_of ds d\<bar> \<le> \<bar>delta_signed d\<bar>" "\<bar>delta_signed d - crossed_of ds d\<bar> \<le> \<bar>delta_signed d\<bar>"
  using crossed_bounds [OF assms(1), of d] crossed_flat [OF assms] assms(2)
  by (cases "delta_signed d" "0 :: rat" rule: linorder_cases; force simp: buys_def sells_def)+

lemma sum_list_filter_nonzero:
  fixes f :: "'a \<Rightarrow> rat"
  shows "sum_list (map f (filter (\<lambda>x. f x \<noteq> 0) xs)) = sum_list (map f xs)"
  by (induction xs) auto

lemma sum_list_filter_le:
  fixes f :: "'a \<Rightarrow> rat"
  shows "(\<And>x. 0 \<le> f x) \<Longrightarrow> sum_list (map f (filter P xs)) \<le> sum_list (map f xs)"
  by (induction xs) (auto simp: add_increasing)

lemma alloc_signed_make [simp]: "alloc_signed (make_allocation d q) = q"
  by (simp add: make_allocation_def)

lemma dec_sum_part:
  assumes ok: "crossable ds" and f: "\<And>d. d \<in> set ds \<Longrightarrow> whole (f d) \<and> \<bar>f d\<bar> \<le> \<bar>delta_signed d\<bar>"
  shows "dec_sum (map f (filter P ds)) = sum_list (map f (filter P ds))"
proof (rule dec_sum_whole)
  show "whole x" if "x \<in> set (map f (filter P ds))" for x using that f by auto
  have "(\<Sum>x\<leftarrow>map f (filter P ds). \<bar>x\<bar>) = (\<Sum>d\<leftarrow>filter P ds. \<bar>f d\<bar>)" by (simp add: o_def)
  also have "\<dots> \<le> (\<Sum>d\<leftarrow>filter P ds. \<bar>delta_signed d\<bar>)" using f by (intro sum_list_mono) auto
  also have "\<dots> \<le> (\<Sum>d\<leftarrow>ds. \<bar>delta_signed d\<bar>)" by (rule sum_list_filter_le) simp
  also have "\<dots> \<le> 10 ^ 28" using ok unfolding crossable_def by blast
  finally show "(\<Sum>x\<leftarrow>map f (filter P ds). \<bar>x\<bar>) \<le> 10 ^ 28" .
qed

lemma internal_sum: "crossable ds \<Longrightarrow> sum_list (map alloc_signed (internal_part ds)) = 0"
  using crossed_totals [of ds]
  by (simp add: internal_part_def o_def sum_list_filter_nonzero sum_by_side crossed_flat)

lemma external_sum:
  assumes ok: "crossable ds"
  shows "sum_list (map alloc_signed (external_part ds)) = sum_list (map delta_signed ds)"
proof -
  have "sum_list (map (crossed_of ds) ds) = 0"
    using crossed_totals [OF ok] by (simp add: sum_by_side crossed_flat [OF ok])
  then have "(\<Sum>d\<leftarrow>ds. delta_signed d - crossed_of ds d) = sum_list (map delta_signed ds)"
    by (simp add: sum_list_subtractf)
  then show ?thesis
    using sum_list_filter_nonzero [of "\<lambda>d. delta_signed d - crossed_of ds d" ds]
    by (simp add: external_part_def o_def)
qed

lemma split_allocations_eq:
  assumes ok: "crossable ds"
  shows "split_allocations ds = Inr (internal_part ds, external_part ds)"
proof -
  have w: "\<And>d. d \<in> set ds \<Longrightarrow> whole (delta_signed d)" using ok by (simp add: crossable_def list_all_iff)
  have res: "dec_sub (delta_signed d) (crossed_of ds d) = delta_signed d - crossed_of ds d"
    if d: "d \<in> set ds" for d
    using w [OF d] crossed_whole [OF ok d] crossed_within(2) [OF ok d] crossable_abs [OF ok d]
    by (intro dec_sub_whole) auto
  have ext: "map (\<lambda>d. make_allocation d (dec_sub (delta_signed d) (crossed_of ds d)))
      (filter (\<lambda>d. dec_sub (delta_signed d) (crossed_of ds d) \<noteq> 0) ds) = external_part ds"
    unfolding external_part_def by (auto simp: res intro!: map_cong filter_cong)
  have int: "dec_sum (map alloc_signed (internal_part ds)) = 0"
    using dec_sum_part [OF ok, of "crossed_of ds" "\<lambda>d. crossed_of ds d \<noteq> 0"] internal_sum [OF ok]
      crossed_whole [OF ok] crossed_within(1) [OF ok]
    by (simp add: internal_part_def o_def)
  have exs: "dec_sum (map alloc_signed (external_part ds)) = sum_list (map delta_signed ds)"
    using dec_sum_part [OF ok, of "\<lambda>d. delta_signed d - crossed_of ds d" "\<lambda>d. delta_signed d \<noteq> crossed_of ds d"]
      external_sum [OF ok] w crossed_whole [OF ok] crossed_within(2) [OF ok]
    by (simp add: external_part_def o_def)
  have net: "dec_sum (map delta_signed ds) = sum_list (map delta_signed ds)"
    using dec_sum_part [OF ok, of delta_signed "\<lambda>_. True"] w by simp
  show ?thesis
    unfolding split_allocations_def Let_def ext internal_part_def [symmetric] int exs net by simp
qed

lemma external_direction:
  assumes ok: "crossable ds" and a: "a \<in> set (external_part ds)"
  shows "0 < sum_list (map delta_signed ds) \<and> 0 < alloc_signed a
       \<or> sum_list (map delta_signed ds) < 0 \<and> alloc_signed a < 0"
proof -
  obtain d where d: "d \<in> set ds" "delta_signed d \<noteq> crossed_of ds d"
    and a': "alloc_signed a = delta_signed d - crossed_of ds d"
    using a by (auto simp: external_part_def)
  have "delta_signed d \<noteq> 0" using d crossed_flat [OF ok d(1)] by auto
  then consider "d \<in> set (buys ds)" | "d \<in> set (sells ds)"
    using d(1) by (force simp: buys_def sells_def)
  then show ?thesis
  proof cases
    case 1
    with crossed_exhausts(1) [OF ok _ 1] d(2) have "sell_total ds < buy_total ds" by linarith
    with crossed_bounds(1) [OF ok 1] d(2) a' show ?thesis by (simp add: net_by_side)
  next
    case 2
    with crossed_exhausts(2) [OF ok _ 2] d(2) have "buy_total ds < sell_total ds" by linarith
    with crossed_bounds(2) [OF ok 2] d(2) a' show ?thesis by (simp add: net_by_side)
  qed
qed

end
