(* ===== verification/Portfolio_Fill_Laws.thy ===== *)
theory Portfolio_Fill_Laws
  imports Portfolio_Fill Portfolio_Cross
begin

section \<open>Fill distribution: termination, conservation, quota\<close>

text \<open>
  \<open>proportional_signed_quantities\<close> on the allocations a net plan sends to the broker (whole, all in
  the direction of the order). The loop returns, the shares add up to the filled quantity, no sleeve
  gets more than its allocation or the opposite sign, and every share is the rounded proportional
  one. The bound on the order, \<open>10 ^ 20\<close> shares, keeps the rounding of the 28-digit context
  well below one share.
\<close>

subsection \<open>The selected candidate\<close>

lemma best_candidate_mem: "best_candidate c cs \<in> set (c # cs)"
  by (induction cs arbitrary: c) (auto split: if_splits)

lemma better_le: "better d c \<Longrightarrow> fst d \<le> fst c" and not_better_le: "\<not> better d c \<Longrightarrow> fst c \<le> fst d"
  by (auto simp: better_def split: prod.splits)

lemma best_candidate_min: "d \<in> set (c # cs) \<Longrightarrow> fst (best_candidate c cs) \<le> fst d"
proof (induction cs arbitrary: c d)
  case Nil
  then show ?case by simp
next
  case (Cons e cs)
  let ?c = "if better e c then e else c"
  have "fst (best_candidate ?c cs) \<le> fst ?c" by (rule Cons.IH) simp
  moreover have "fst ?c \<le> fst c" "fst ?c \<le> fst e" using better_le [of e c] not_better_le [of e c] by auto
  moreover have "d \<in> set cs \<Longrightarrow> fst (best_candidate ?c cs) \<le> fst d" by (rule Cons.IH) simp
  ultimately show ?case using Cons.prems by force
qed

lemma candidates_iff:
  assumes "length ideals = length allocs" "length actual = length allocs"
  shows "(k, sl, it, i) \<in> set (candidates direction allocs ideals actual) \<longleftrightarrow>
    i < length allocs \<and> sl = alloc_sleeve (allocs ! i) \<and> it = alloc_intent (allocs ! i) \<and>
    (\<exists>s. candidate_score direction (allocs ! i) (ideals ! i) (actual ! i) = Some s \<and> k = dec_neg s)"
proof -
  have z: "zip [0..<length allocs] (zip allocs (zip ideals actual))
      = map (\<lambda>i. (i, allocs ! i, ideals ! i, actual ! i)) [0..<length allocs]"
    using assms by (intro nth_equalityI) auto
  show ?thesis unfolding candidates_def z
    by (auto split: option.splits) (metis, metis atLeastLessThan_iff le0)
qed

subsection \<open>One share at a time\<close>

text \<open>
  The invariant of the loop for direction \<open>s\<close>: every share is whole, between zero and its
  allocation, and less than one away from its ideal.
\<close>

definition shares_ok :: "rat \<Rightarrow> sleeve_allocation list \<Rightarrow> dec list \<Rightarrow> dec list \<Rightarrow> bool" where
  "shares_ok s allocs ideals xs \<longleftrightarrow> length xs = length allocs \<and>
     (\<forall>i < length allocs. whole (xs ! i) \<and> 0 \<le> s * xs ! i \<and> s * xs ! i \<le> s * alloc_signed (allocs ! i)
        \<and> \<bar>ideals ! i - xs ! i\<bar> < 1)"

definition one_sided :: "rat \<Rightarrow> sleeve_allocation list \<Rightarrow> bool" where
  "one_sided s allocs \<longleftrightarrow> (s = 1 \<or> s = - 1)
     \<and> (\<forall>a \<in> set allocs. whole (alloc_signed a) \<and> 0 < s * alloc_signed a)
     \<and> \<bar>sum_list (map alloc_signed allocs)\<bar> \<le> 10 ^ 20"

lemma sum_update:
  "i < length xs \<Longrightarrow> sum_list (xs[i := x]) = sum_list xs + x - (xs ! i :: rat)"
proof (induction xs arbitrary: i)
  case (Cons y ys)
  then show ?case by (cases i) auto
qed simp

lemma sum_list_scale: "(\<Sum>x\<leftarrow>xs. s * f x) = s * (\<Sum>x\<leftarrow>xs. (f x :: rat))"
  by (simp add: sum_list_const_mult)

lemma exists_pos_term:
  "0 < sum_list (map f xs) \<Longrightarrow> \<exists>x \<in> set xs. 0 < (f x :: rat)"
  by (induction xs) (auto simp: not_less, fastforce)

lemma one_sided_elem:
  assumes "one_sided s allocs" "i < length allocs"
  shows "whole (alloc_signed (allocs ! i))" "0 < s * alloc_signed (allocs ! i)"
    "\<bar>alloc_signed (allocs ! i)\<bar> \<le> 10 ^ 20"
proof -
  have s: "s = 1 \<or> s = - 1" and all: "\<forall>a \<in> set allocs. whole (alloc_signed a) \<and> 0 < s * alloc_signed a"
    using assms(1) by (auto simp: one_sided_def)
  show "whole (alloc_signed (allocs ! i))" "0 < s * alloc_signed (allocs ! i)"
    using all assms(2) by auto
  have "s * alloc_signed (allocs ! i) \<le> (\<Sum>a\<leftarrow>allocs. s * alloc_signed a)"
    using all assms(2) by (intro elem_le_sum_list) (auto intro: less_imp_le)
  moreover have "\<bar>alloc_signed (allocs ! i)\<bar> = s * alloc_signed (allocs ! i)"
    using s \<open>0 < s * alloc_signed (allocs ! i)\<close> by (auto simp: abs_if)
  ultimately show "\<bar>alloc_signed (allocs ! i)\<bar> \<le> 10 ^ 20"
    using assms(1) s by (auto simp: one_sided_def sum_list_scale abs_if split: if_splits)
qed

lemma sum_of_shares:
  assumes "length xs = length allocs" "\<forall>i < length allocs. whole (xs ! i) \<and> 0 \<le> s * xs ! i \<and> s * xs ! i \<le> s * alloc_signed (allocs ! i)"
    and "s = 1 \<or> s = - 1"
  shows "whole (sum_list xs)" "0 \<le> s * sum_list xs" "s * sum_list xs \<le> s * sum_list (map alloc_signed allocs)"
    "(\<Sum>x\<leftarrow>xs. \<bar>x\<bar>) = s * sum_list xs"
  using assms(1,2)
proof (induction xs allocs rule: list_induct2)
  case Nil
  {
    case 1 show ?case by simp
  next
    case 2 show ?case by simp
  next
    case 3 show ?case by simp
  next
    case 4 show ?case by simp
  }
next
  case (Cons x xs a as)
  have hd: "whole x" "0 \<le> s * x" "s * x \<le> s * alloc_signed a"
    if "\<forall>i < length (a # as). whole ((x # xs) ! i) \<and> 0 \<le> s * (x # xs) ! i \<and> s * (x # xs) ! i \<le> s * alloc_signed ((a # as) ! i)"
    using that by (auto dest: spec [of _ 0])
  have tl: "\<forall>i < length as. whole (xs ! i) \<and> 0 \<le> s * xs ! i \<and> s * xs ! i \<le> s * alloc_signed (as ! i)"
    if "\<forall>i < length (a # as). whole ((x # xs) ! i) \<and> 0 \<le> s * (x # xs) ! i \<and> s * (x # xs) ! i \<le> s * alloc_signed ((a # as) ! i)"
    using that by (auto dest: spec [of _ "Suc _"])
  {
    case 1 with Cons.IH(1) [OF tl] hd show ?case by simp
  next
    case 2 with Cons.IH(2) [OF tl] hd show ?case by (simp add: distrib_left)
  next
    case 3 with Cons.IH(3) [OF tl] hd show ?case by (simp add: distrib_left add_mono)
  next
    case 4
    have "\<bar>x\<bar> = s * x" using hd(2) [OF 4] assms(3) by (auto simp: abs_if)
    with Cons.IH(4) [OF tl [OF 4]] show ?case by (simp add: distrib_left)
  }
qed

lemma next_share:
  assumes side: "one_sided s allocs" and len: "length ideals = length allocs"
    and ok: "shares_ok s allocs ideals xs"
    and ideal: "\<And>i. i < length allocs \<Longrightarrow> s * ideals ! i \<le> s * alloc_signed (allocs ! i)"
    and pos: "0 < s * (sum_list ideals - sum_list xs)"
    and cs: "candidates s allocs ideals xs = cand"
  obtains c cs' i where "cand = c # cs'" "i = snd (snd (snd (best_candidate c cs')))" "i < length allocs"
    "shares_ok s allocs ideals (xs[i := dec_add (xs ! i) s])"
    "sum_list (xs[i := dec_add (xs ! i) s]) = sum_list xs + s"
proof -
  have s: "s = 1 \<or> s = - 1" using side by (simp add: one_sided_def)
  have lx: "length xs = length allocs" using ok by (simp add: shares_ok_def)
  have score: "candidate_score s (allocs ! i) (ideals ! i) (xs ! i) =
      (if s * xs ! i < s * alloc_signed (allocs ! i) then Some (ctx_round (s * (ideals ! i - xs ! i))) else None)"
    if "i < length allocs" for i
    using s one_sided_elem [OF side that] by (auto simp: candidate_score_def dec_sub_def)
  have "s * (sum_list ideals - sum_list xs) = (\<Sum>i\<leftarrow>[0..<length allocs]. s * (ideals ! i - xs ! i))"
  proof -
    have "map (\<lambda>i. ideals ! i) [0..<length allocs] = ideals" "map (\<lambda>i. xs ! i) [0..<length allocs] = xs"
      using len lx map_nth by metis+
    then show ?thesis by (simp add: sum_list_scale sum_list_subtractf)
  qed
  with pos obtain j where j: "j < length allocs" "0 < s * (ideals ! j - xs ! j)"
    using exists_pos_term [of "\<lambda>i. s * (ideals ! i - xs ! i)" "[0..<length allocs]"] by auto
  have room: "s * xs ! i < s * alloc_signed (allocs ! i)" if "i < length allocs" "0 < s * (ideals ! i - xs ! i)" for i
    using ideal [OF that(1)] that(2) by (simp add: right_diff_distrib)
  define d where "d = (dec_neg (ctx_round (s * (ideals ! j - xs ! j))), alloc_sleeve (allocs ! j), alloc_intent (allocs ! j), j)"
  have d: "d \<in> set cand"
    unfolding cs [symmetric] d_def candidates_iff [OF len lx] using j score [OF j(1)] room [OF j] by simp
  then obtain c cs' where cand: "cand = c # cs'" by (cases cand) auto
  obtain k sl it i where best: "best_candidate c cs' = (k, sl, it, i)" by (metis prod.exhaust)
  have "(k, sl, it, i) \<in> set (candidates s allocs ideals xs)"
    unfolding cs cand best [symmetric] by (rule best_candidate_mem)
  then obtain r where i: "i < length allocs" and r: "candidate_score s (allocs ! i) (ideals ! i) (xs ! i) = Some r"
    and k: "k = dec_neg r"
    unfolding candidates_iff [OF len lx] by blast
  have "k \<le> fst d" using best_candidate_min [of d c cs'] d cand best by simp
  also have "fst d < 0" using ctx_round_pos [OF j(2)] by (simp add: d_def dec_neg_def ctx_round_minus)
  finally have "0 < r" using k ctx_round_nonneg [of "- r"] by (force simp: dec_neg_def not_less)
  then have "0 < s * (ideals ! i - xs ! i)"
    using r score [OF i] ctx_round_minus [of "s * (ideals ! i - xs ! i)"]
      ctx_round_nonneg [of "- (s * (ideals ! i - xs ! i))"] by (force split: if_splits)
  note iroom = room [OF i this] and ipos = this
  have xi: "whole (xs ! i)" "0 \<le> s * xs ! i" "\<bar>ideals ! i - xs ! i\<bar> < 1"
    using ok i by (auto simp: shares_ok_def)
  have "\<bar>xs ! i\<bar> \<le> 10 ^ 20"
    using xi(2) iroom one_sided_elem(3) [OF side i] s by (auto simp: abs_if split: if_splits)
  then have add: "dec_add (xs ! i) s = xs ! i + s"
    using s xi(1) by (intro dec_add_whole) (auto simp: abs_if split: if_splits)
  have step: "s * (xs ! i + s) \<le> s * alloc_signed (allocs ! i)"
  proof -
    have "whole (s * alloc_signed (allocs ! i) - s * xs ! i)" using s xi(1) one_sided_elem(1) [OF side i] by auto
    then obtain n where n: "s * alloc_signed (allocs ! i) - s * xs ! i = of_int n" by (rule wholeE)
    with iroom have "0 < n" by (metis diff_gt_0_iff_gt of_int_0_less_iff)
    then have "1 \<le> n" by simp
    then have "(1 :: rat) \<le> of_int n" by (metis of_int_1 of_int_le_iff)
    with n s show ?thesis by (auto simp: algebra_simps)
  qed
  have "shares_ok s allocs ideals (xs[i := xs ! i + s])"
    using ok i step xi ipos s unfolding shares_ok_def
    by (auto simp: nth_list_update abs_if algebra_simps)
  moreover have "sum_list (xs[i := xs ! i + s]) = sum_list xs + s" using i lx by (simp add: sum_update)
  ultimately show thesis using that [OF cand _ i] best add by simp
qed

lemma remainder_loop_fills:
  assumes side: "one_sided s allocs" and len: "length ideals = length allocs"
    and ideal: "\<And>i. i < length allocs \<Longrightarrow> s * ideals ! i \<le> s * alloc_signed (allocs ! i)"
    and near: "s * t - 1 < s * sum_list ideals" and t: "s * t \<le> s * sum_list (map alloc_signed allocs)"
  shows "shares_ok s allocs ideals xs \<Longrightarrow> s * (t - sum_list xs) = of_nat n \<Longrightarrow>
    \<exists>ys. remainder_loop allocs ideals xs (t - sum_list xs) = Some (Inr ys)
      \<and> shares_ok s allocs ideals ys \<and> sum_list ys = t"
proof (induction n arbitrary: xs)
  case 0
  then have "t - sum_list xs = 0" using side by (auto simp: one_sided_def)
  with 0 show ?case by (subst remainder_loop.simps) simp
next
  case (Suc n)
  have s: "s = 1 \<or> s = - 1" using side by (simp add: one_sided_def)
  note sums = sum_of_shares [of xs allocs s]
  have sx: "0 \<le> s * sum_list xs" using sums(2) Suc.prems(1) s by (auto simp: shares_ok_def)
  have pos: "0 < s * (sum_list ideals - sum_list xs)"
    using near Suc.prems(2) by (simp add: right_diff_distrib)
  have dir: "(if 0 < t - sum_list xs then 1 else - 1) = s" "t - sum_list xs \<noteq> 0"
    using Suc.prems(2) s by auto
  have "dec_sub (t - sum_list xs) s = t - sum_list xs - s"
  proof (rule dec_sub_whole)
    have "t - sum_list xs = s * of_int (int (Suc n))" using Suc.prems(2) s by auto
    then show "whole (t - sum_list xs)" using s whole_of_int [of "int (Suc n)"] by auto
    show "whole s" using s by auto
    have "of_nat (Suc n) \<le> (10 :: rat) ^ 20"
      using Suc.prems(2) t sx side s by (auto simp: one_sided_def right_diff_distrib abs_if split: if_splits)
    then show "\<bar>t - sum_list xs - s\<bar> \<le> 10 ^ 28" using Suc.prems(2) s by (auto simp: abs_if)
  qed
  obtain c cs' i where cand: "candidates s allocs ideals xs = c # cs'"
    and i: "i = snd (snd (snd (best_candidate c cs')))"
    and ok: "shares_ok s allocs ideals (xs[i := dec_add (xs ! i) s])"
    and sum: "sum_list (xs[i := dec_add (xs ! i) s]) = sum_list xs + s"
    using next_share [OF side len Suc.prems(1) ideal pos refl] by metis
  let ?ys = "xs[i := dec_add (xs ! i) s]"
  have "remainder_loop allocs ideals xs (t - sum_list xs) = remainder_loop allocs ideals ?ys (t - sum_list ?ys)"
    using \<open>dec_sub (t - sum_list xs) s = t - sum_list xs - s\<close> dir cand i sum
    by (subst remainder_loop.simps) (simp add: Let_def diff_diff_eq)
  moreover have "s * (t - sum_list ?ys) = of_nat n"
    using Suc.prems(2) s unfolding sum by (auto simp: right_diff_distrib)
  ultimately show ?case using Suc.IH [OF ok] by metis
qed

subsection \<open>Rounding\<close>

lemma ctx_round_relative: "0 \<le> q \<Longrightarrow> \<bar>ctx_round q - q\<bar> \<le> q / 10 ^ 27"
proof (cases "q = 0")
  case False
  assume "0 \<le> q"
  with False have q: "0 < q" by simp
  have "10 powi (adj_exp q - 27) = (10 :: rat) powi (adj_exp q) / 10 ^ 27"
    by (simp add: power_int_diff)
  also have "\<dots> \<le> q / 10 ^ 27" using adj_exp_bounds(1) [OF q] by (simp add: divide_right_mono)
  finally show ?thesis using ctx_round_error [OF q] q by (simp add: field_simps)
qed simp

lemma near_share:
  "s = 1 \<or> s = - 1 \<Longrightarrow> \<bar>s * x - s * z\<bar> < e \<Longrightarrow> \<bar>x - y\<bar> < 1 \<Longrightarrow> \<bar>y - z\<bar> < 1 + (e :: rat)"
  by (auto simp: abs_if split: if_splits)

lemma two_errors: "\<bar>x - y\<bar> \<le> e / k \<Longrightarrow> \<bar>y - z\<bar> \<le> e / k \<Longrightarrow> \<bar>x - z\<bar> \<le> 2 * e / (k :: rat)"
proof -
  assume "\<bar>x - y\<bar> \<le> e / k" "\<bar>y - z\<bar> \<le> e / k"
  then have "\<bar>x - z\<bar> \<le> e / k + e / k" by linarith
  also have "\<dots> = 2 * e / k" unfolding add_divide_distrib [symmetric] by simp
  finally show ?thesis .
qed

subsection \<open>The proportional shares\<close>

lemma floor_share_eq:
  assumes "s = 1 \<or> s = - 1" "0 \<le> s * v" "s * v \<le> 10 ^ 28" "ctx_round v = v"
  shows "floor_share v = s * integral_down (s * v)"
proof -
  have v: "\<bar>v\<bar> = s * v" "dec_abs v = s * v"
    using assms(1,2,4) ctx_round_minus [of v] by (auto simp: dec_abs_def abs_if)
  have b: "0 \<le> integral_down (s * v)" "integral_down (s * v) \<le> 10 ^ 28"
    using integral_down_bounds [OF assms(2)] assms(3) by auto
  have "floor_share v = ctx_round (integral_down (s * v) * (if 0 \<le> v then 1 else - 1))"
    by (simp add: floor_share_def v dec_mul_def)
  also have "\<dots> = integral_down (s * v) * (if 0 \<le> v then 1 else - 1)"
    using b by (intro ctx_round_whole) auto
  also have "\<dots> = s * integral_down (s * v)"
  proof (cases "v = 0")
    case True
    then show ?thesis by (simp add: integral_down_def)
  next
    case False
    with assms(1,2) show ?thesis by auto
  qed
  finally show ?thesis .
qed

lemma sum_list_abs_diff:
  "length xs = length ys \<Longrightarrow> (\<And>i. i < length xs \<Longrightarrow> \<bar>xs ! i - ys ! i\<bar> \<le> zs ! i) \<Longrightarrow> length zs = length xs \<Longrightarrow>
   \<bar>sum_list xs - sum_list ys\<bar> \<le> (sum_list zs :: rat)"
proof (induction xs arbitrary: ys zs)
  case Nil
  then show ?case by simp
next
  case (Cons x xs)
  then obtain y ys' z zs' where yz: "ys = y # ys'" "zs = z # zs'" by (cases ys; cases zs) auto
  have "\<bar>x - y\<bar> \<le> z" using Cons.prems(2) [of 0] yz by simp
  moreover have "\<bar>sum_list xs - sum_list ys'\<bar> \<le> sum_list zs'"
  proof (rule Cons.IH)
    fix i
    assume "i < length xs"
    with Cons.prems(2) [of "Suc i"] yz show "\<bar>xs ! i - ys' ! i\<bar> \<le> zs' ! i" by simp
  qed (use Cons.prems yz in auto)
  ultimately show ?case unfolding yz by (simp add: abs_if split: if_splits)
qed

definition fair_shares :: "rat \<Rightarrow> sleeve_allocation list \<Rightarrow> dec \<Rightarrow> dec list \<Rightarrow> bool" where
  "fair_shares s allocs c xs \<longleftrightarrow> length xs = length allocs \<and> sum_list xs = s * c \<and>
     (\<forall>i < length allocs. whole (xs ! i) \<and> 0 \<le> s * xs ! i \<and> s * xs ! i \<le> s * alloc_signed (allocs ! i)
        \<and> \<bar>xs ! i - alloc_signed (allocs ! i) * c / \<bar>sum_list (map alloc_signed allocs)\<bar>\<bar> < 1 + 1 / 10 ^ 6)"

lemma proportional_shares:
  assumes side: "one_sided s allocs" and s: "s = (if side = ''BUY'' then 1 else - 1)"
    and ne: "allocs \<noteq> []" and c: "whole c" "0 \<le> c" "c \<le> \<bar>sum_list (map alloc_signed allocs)\<bar>"
  shows "\<exists>xs. proportional_signed_quantities allocs c side = Some (Inr xs) \<and> fair_shares s allocs c xs"
proof -
  let ?net = "sum_list (map alloc_signed allocs)"
  let ?a = "\<lambda>i. alloc_signed (allocs ! i)"
  define N where "N = s * ?net"
  have s1: "s = 1 \<or> s = - 1" using s by simp
  note elem = one_sided_elem [OF side]
  have al: "length (map alloc_signed allocs) = length allocs"
    "\<forall>i < length allocs. whole (map alloc_signed allocs ! i) \<and> 0 \<le> s * map alloc_signed allocs ! i
       \<and> s * map alloc_signed allocs ! i \<le> s * ?a i"
    using elem by (auto intro: less_imp_le)
  note sums = sum_of_shares [OF al s1]
  have N: "0 < N" "N = \<bar>?net\<bar>" "whole ?net" "N \<le> 10 ^ 20"
  proof -
    have "0 < s * ?a 0" using ne by (intro elem(2)) simp
    also have "\<dots> \<le> (\<Sum>a\<leftarrow>allocs. s * alloc_signed a)"
      using side ne unfolding one_sided_def by (intro elem_le_sum_list) (auto intro: less_imp_le)
    finally have "0 < (\<Sum>a\<leftarrow>allocs. s * alloc_signed a)" .
    then show "0 < N" by (simp add: N_def sum_list_scale)
    then show "N = \<bar>?net\<bar>" using s1 by (auto simp: N_def)
    with side show "N \<le> 10 ^ 20" by (simp add: one_sided_def)
    show "whole ?net" by (rule sums(1))
  qed
  have dnet: "dec_sum (map alloc_signed allocs) = ?net"
  proof (rule dec_sum_whole)
    show "whole x" if "x \<in> set (map alloc_signed allocs)" for x
      using that side by (auto simp: one_sided_def)
    show "(\<Sum>x\<leftarrow>map alloc_signed allocs. \<bar>x\<bar>) \<le> 10 ^ 28"
      unfolding sums(4) using N(4) by (simp add: N_def)
  qed
  have sign: "dec_mul ?net s = N" "dec_abs ?net = N"
    using N s1 ctx_round_whole [of N] whole_mult [OF N(3), of s] by (auto simp: dec_mul_def dec_abs_def N_def mult.commute)
  define r where "r = ctx_round (c / N)"
  have cN: "0 \<le> c / N" "c / N \<le> 1" using c N by (simp_all add: divide_le_eq_1)
  have r: "0 \<le> r" "r \<le> 1" using ctx_round_between [of 0 "c / N" 1] cN by (auto simp: r_def)
  have rerr: "\<bar>r - c / N\<bar> \<le> 1 / 10 ^ 27"
    using ctx_round_relative [OF cN(1)] cN(2) by (simp add: r_def)
  define ideals where "ideals = map (\<lambda>a. dec_mul (alloc_signed a) r) allocs"
  have li: "length ideals = length allocs" by (simp add: ideals_def)
  have id: "s * ideals ! i = ctx_round (s * ?a i * r)" if "i < length allocs" for i
    using that s1 ctx_round_minus [of "?a i * r"] by (auto simp: ideals_def dec_mul_def)
  have idb: "0 \<le> s * ideals ! i" "s * ideals ! i \<le> s * ?a i"
    "\<bar>s * ideals ! i - s * ?a i * (c / N)\<bar> \<le> 2 * (s * ?a i) / 10 ^ 27" if i: "i < length allocs" for i
  proof -
    have w: "whole (s * ?a i)" using elem(1) [OF i] s1 by auto
    then obtain n where n: "s * ?a i = of_int n" by (rule wholeE)
    have pos: "0 < s * ?a i" by (rule elem(2) [OF i])
    have le: "s * ?a i * r \<le> s * ?a i" using r pos by (simp add: mult_left_le)
    have nn: "0 \<le> s * ?a i * r" using r pos by simp
    have small: "s * ?a i \<le> 10 ^ 20" using elem(3) [OF i] s1 pos by auto
    then have "rat_of_int n \<le> of_int (10 ^ 20)" by (simp add: n)
    then have "n \<le> 10 ^ 20" by (simp only: of_int_le_iff)
    moreover have "0 < n" using pos n by simp
    ultimately show "0 \<le> s * ideals ! i" "s * ideals ! i \<le> s * ?a i"
      using ctx_round_between [of 0 "s * ?a i * r" n] nn le unfolding id [OF i] n by auto
    have "\<bar>ctx_round (s * ?a i * r) - s * ?a i * r\<bar> \<le> s * ?a i / 10 ^ 27"
      using ctx_round_relative [OF nn] divide_right_mono [OF le, of "10 ^ 27"] by simp
    moreover have "\<bar>s * ?a i * r - s * ?a i * (c / N)\<bar> \<le> s * ?a i / 10 ^ 27"
    proof -
      have "\<bar>s * ?a i * r - s * ?a i * (c / N)\<bar> = s * ?a i * \<bar>r - c / N\<bar>"
        unfolding right_diff_distrib [symmetric] by (subst abs_mult, subst abs_of_pos [OF pos], rule refl)
      with mult_left_mono [OF rerr, of "s * ?a i"] pos show ?thesis by simp
    qed
    ultimately show "\<bar>s * ideals ! i - s * ?a i * (c / N)\<bar> \<le> 2 * (s * ?a i) / 10 ^ 27"
      unfolding id [OF i] by (rule two_errors)
  qed
  define actual where "actual = map floor_share ideals"
  have ac: "s * actual ! i = integral_down (s * ideals ! i)" "whole (actual ! i)" if i: "i < length allocs" for i
  proof -
    have "ctx_round (ideals ! i) = ideals ! i" using i by (simp add: ideals_def dec_mul_def)
    moreover have "s * ideals ! i \<le> 10 ^ 28" using idb(2) [OF i] elem(3) [OF i] s1 by auto
    ultimately have "actual ! i = s * integral_down (s * ideals ! i)"
      using floor_share_eq [OF s1 idb(1) [OF i]] i li by (simp add: actual_def)
    with s1 show "s * actual ! i = integral_down (s * ideals ! i)" "whole (actual ! i)" by auto
  qed
  have fl: "0 \<le> s * actual ! i" "s * actual ! i \<le> s * ideals ! i" "s * ideals ! i < s * actual ! i + 1"
    if "i < length allocs" for i
    using integral_down_bounds [OF idb(1) [OF that]] ac(1) [OF that] by simp_all
  have la: "length actual = length allocs" by (simp add: actual_def li)
  have ok: "shares_ok s allocs ideals actual"
    unfolding shares_ok_def
  proof (intro conjI allI impI)
    fix i
    assume i: "i < length allocs"
    show "whole (actual ! i)" "0 \<le> s * actual ! i" by (rule ac(2) [OF i], rule fl(1) [OF i])
    show "s * actual ! i \<le> s * ?a i" using fl(2) [OF i] idb(2) [OF i] by linarith
    show "\<bar>ideals ! i - actual ! i\<bar> < 1" using fl(2,3) [OF i] s1 by (auto simp: abs_if)
  qed (rule la)
  then have asum: "whole (sum_list actual)" "0 \<le> s * sum_list actual" "s * sum_list actual \<le> N"
    "(\<Sum>x\<leftarrow>actual. \<bar>x\<bar>) = s * sum_list actual"
    using sum_of_shares [OF la _ s1] unfolding shares_ok_def N_def by blast+
  have dsum: "dec_sum actual = sum_list actual"
  proof (rule dec_sum_whole)
    show "whole x" if "x \<in> set actual" for x using that ac(2) la by (auto simp: in_set_conv_nth)
    show "(\<Sum>x\<leftarrow>actual. \<bar>x\<bar>) \<le> 10 ^ 28" using asum N(4) by simp
  qed
  have scaled: "s * sum_list xs = (\<Sum>i\<leftarrow>[0..<length allocs]. s * xs ! i)" if "length xs = length allocs" for xs
    using map_nth [of xs] that by (simp add: sum_list_scale)
  have "(\<Sum>i\<leftarrow>[0..<length allocs]. s * ?a i) = N"
    unfolding N_def scaled [OF al(1)] by (intro arg_cong [where f = sum_list] map_cong) simp_all
  then have share: "(\<Sum>i\<leftarrow>[0..<length allocs]. s * ?a i * (c / N)) = c"
    "(\<Sum>i\<leftarrow>[0..<length allocs]. 2 * (s * ?a i) / 10 ^ 27) = 2 * N / 10 ^ 27"
    using N(1) sum_list_mult_const [of "\<lambda>i. s * ?a i" "c / N" "[0..<length allocs]"]
      sum_list_mult_const [of "\<lambda>i. s * ?a i" "2 / 10 ^ 27" "[0..<length allocs]"]
    by (simp_all add: mult.commute)
  have err: "\<bar>s * sum_list ideals - c\<bar> \<le> 2 * N / 10 ^ 27"
    using sum_list_abs_diff [of "map (\<lambda>i. s * ideals ! i) [0..<length allocs]"
      "map (\<lambda>i. s * ?a i * (c / N)) [0..<length allocs]" "map (\<lambda>i. 2 * (s * ?a i) / 10 ^ 27) [0..<length allocs]"]
      idb(3) unfolding scaled [OF li] share by simp
  have "2 * N / 10 ^ 27 < 1" using N(4) by simp
  with err have err: "\<bar>s * sum_list ideals - c\<bar> < 1" by (rule order.strict_trans1)
  have "s * sum_list actual \<le> s * sum_list ideals"
    unfolding scaled [OF li] scaled [OF la] by (rule sum_list_mono) (use fl(2) in auto)
  with err have "s * sum_list actual < c + 1" by linarith
  moreover have "whole (c - s * sum_list actual)" using c(1) asum(1) s1 by auto
  then obtain z where z: "c - s * sum_list actual = of_int z" by (rule wholeE)
  ultimately have "- 1 < rat_of_int z" by linarith
  then have "rat_of_int (- 1) < of_int z" by simp
  then have "0 \<le> z" unfolding of_int_less_iff by simp
  then have n: "s * (s * c - sum_list actual) = of_nat (nat z)" using z s1 by auto
  have near: "s * (s * c) - 1 < s * sum_list ideals" using err s1 by auto
  have ssc: "s * (s * c) = c" using s1 by auto
  have room: "s * (s * c) \<le> s * ?net" unfolding ssc N_def [symmetric] using c(3) N(2) by simp
  have "\<exists>ys. remainder_loop allocs ideals actual (s * c - sum_list actual) = Some (Inr ys)
      \<and> shares_ok s allocs ideals ys \<and> sum_list ys = s * c"
    by (rule remainder_loop_fills [OF side li _ near room ok n]) (rule idb(2))
  then obtain ys where
    ys: "remainder_loop allocs ideals actual (s * c - sum_list actual) = Some (Inr ys)"
    "shares_ok s allocs ideals ys" "sum_list ys = s * c" by (elim exE conjE)
  have ex: "dec_mul c s = s * c" "dec_sub (s * c) (sum_list actual) = s * c - sum_list actual"
  proof -
    have b: "\<bar>s * c\<bar> \<le> 10 ^ 20" "\<bar>s * c - sum_list actual\<bar> \<le> 10 ^ 28" "whole (s * c)"
      using c N asum s1 by (auto simp: abs_if)
    then show "dec_mul c s = s * c" unfolding dec_mul_def by (simp add: mult.commute ctx_round_whole)
    show "dec_sub (s * c) (sum_list actual) = s * c - sum_list actual"
      by (rule dec_sub_whole) (use b asum in auto)
  qed
  have rd: "dec_div c N = r" by (simp add: r_def dec_div_def)
  have conds: "\<not> N \<le> 0" "\<not> N < c" using N(1,2) c(3) by simp_all
  have "proportional_signed_quantities allocs c side = Some (Inr ys)"
    unfolding proportional_signed_quantities_def Let_def dnet s [symmetric] sign rd
      ideals_def [symmetric] actual_def [symmetric] dsum ex if_not_P [OF conds(1)] if_not_P [OF conds(2)]
    by (rule ys(1))
  moreover have "fair_shares s allocs c ys"
    unfolding fair_shares_def
  proof (intro conjI allI impI)
    fix i
    assume i: "i < length allocs"
    show "whole (ys ! i)" "0 \<le> s * ys ! i" "s * ys ! i \<le> s * ?a i"
      using ys(2) i by (auto simp: shares_ok_def)
    have "2 * (s * ?a i) / 10 ^ 27 \<le> 2 * 10 ^ 20 / 10 ^ 27"
      using elem(3) [OF i] s1 by (auto simp: divide_right_mono)
    also have "\<dots> < 1 / 10 ^ 6" by simp
    finally have "2 * (s * ?a i) / 10 ^ 27 < 1 / 10 ^ 6" .
    with idb(3) [OF i] have "\<bar>s * ideals ! i - s * ?a i * (c / N)\<bar> < 1 / 10 ^ 6" by (rule order.strict_trans1)
    then have "\<bar>s * ideals ! i - s * (?a i * c / N)\<bar> < 1 / 10 ^ 6" by (simp add: mult.assoc)
    moreover have "\<bar>ideals ! i - ys ! i\<bar> < 1" using ys(2) i by (simp add: shares_ok_def)
    ultimately show "\<bar>ys ! i - ?a i * c / \<bar>?net\<bar>\<bar> < 1 + 1 / 10 ^ 6"
      unfolding N(2) [symmetric] using near_share [OF s1] by blast
  qed (use ys shares_ok_def in auto)
  ultimately show ?thesis by blast
qed

end
