(* ===== verification/Py_Time.thy ===== *)
theory Py_Time
  imports Py_Value "HOL-Library.Monad_Syntax"
begin

section \<open>UTC timestamps and their ISO-8601 text\<close>

text \<open>
  An aware \<open>datetime\<close> is its instant, microseconds since 1970-01-01T00:00:00Z (\<open>instant\<close>).
  \<open>iso_parse\<close> is \<open>datetime.fromisoformat\<close> on the extended calendar form
  \<open>YYYY-MM-DD[?HH[:MM[:SS[.f...]]][(+|-)HH[:MM[:SS]]]]\<close> (any separator character, fraction
  truncated to microseconds); the basic and week-date spellings newer interpreters also read are
  rejected as malformed. \<open>iso_text\<close> and \<open>iso_micro_text\<close> are
  \<open>astimezone(timezone.utc).isoformat()\<close> without and with \<open>timespec="microseconds"\<close>, the
  offset written \<open>Z\<close>. The clock is an argument of the operations that read it.
\<close>

type_synonym instant = int

datatype iso_result = IsoBad | IsoNaive | IsoAware instant

text \<open>A timestamp argument: any plain value, or a \<open>datetime\<close> object with or without a zone.\<close>

datatype ts_arg = TsValue pyval | TsAware instant | TsNaive

subsection \<open>Proleptic Gregorian calendar\<close>

definition days_from_civil :: "int \<Rightarrow> int \<Rightarrow> int \<Rightarrow> int" where
  "days_from_civil y m d =
     (let y' = (if m \<le> 2 then y - 1 else y);
          era = y' div 400;
          yoe = y' mod 400;
          doy = (153 * ((m + 9) mod 12) + 2) div 5 + d - 1;
          doe = yoe * 365 + yoe div 4 - yoe div 100 + doy
      in era * 146097 + doe - 719468)"

definition civil_from_days :: "int \<Rightarrow> int \<times> int \<times> int" where
  "civil_from_days days =
     (let z = days + 719468;
          era = z div 146097;
          doe = z mod 146097;
          yoe = (doe - doe div 1460 + doe div 36524 - doe div 146096) div 365;
          doy = doe - (365 * yoe + yoe div 4 - yoe div 100);
          mp = (5 * doy + 2) div 153;
          d = doy - (153 * mp + 2) div 5 + 1;
          m = (if mp < 10 then mp + 3 else mp - 9);
          y = yoe + era * 400 + (if m \<le> 2 then 1 else 0)
      in (y, m, d))"

definition is_leap :: "int \<Rightarrow> bool" where
  "is_leap y \<longleftrightarrow> y mod 4 = 0 \<and> (y mod 100 \<noteq> 0 \<or> y mod 400 = 0)"

definition days_in_month :: "int \<Rightarrow> int \<Rightarrow> int" where
  "days_in_month y m =
     (if m = 2 then if is_leap y then 29 else 28
      else if m \<in> {4, 6, 9, 11} then 30 else 31)"

subsection \<open>Text of an instant\<close>

definition two :: "int \<Rightarrow> string" where
  "two n = zero_pad 2 (nat_text (nat n))"

definition iso_seconds :: "instant \<Rightarrow> string" where
  "iso_seconds t =
     (let s = t div 1000000;
          (y, m, d) = civil_from_days (s div 86400);
          r = s mod 86400
      in zero_pad 4 (nat_text (nat y)) @ ''-'' @ two m @ ''-'' @ two d @ ''T''
         @ two (r div 3600) @ '':'' @ two (r mod 3600 div 60) @ '':'' @ two (r mod 60))"

definition iso_micro_text :: "instant \<Rightarrow> string" where
  "iso_micro_text t = iso_seconds t @ ''.'' @ zero_pad 6 (nat_text (nat (t mod 1000000))) @ ''Z''"

definition iso_text :: "instant \<Rightarrow> string" where
  "iso_text t =
     iso_seconds t
     @ (if t mod 1000000 = 0 then [] else ''.'' @ zero_pad 6 (nat_text (nat (t mod 1000000)))) @ ''Z''"

subsection \<open>Parsing\<close>

definition take_digits :: "nat \<Rightarrow> string \<Rightarrow> (int \<times> string) option" where
  "take_digits n s =
     (if n \<le> length s \<and> list_all is_digit (take n s)
      then Some (int (digits_val (take n s)), drop n s) else None)"

fun take_char :: "char \<Rightarrow> string \<Rightarrow> string option" where
  "take_char c [] = None"
| "take_char c (d # s) = (if d = c then Some s else None)"

text \<open>\<open>HH[:MM[:SS]]\<close> within the bounds of a clock, as seconds.\<close>

definition clock_part :: "string \<Rightarrow> (int \<times> string) option" where
  "clock_part s = do {
     (h, r1) \<leftarrow> take_digits 2 s;
     if 23 < h then None
     else (case take_char (CHR '':'') r1 of
       None \<Rightarrow> Some (h * 3600, r1)
     | Some r2 \<Rightarrow> do {
         (m, r3) \<leftarrow> take_digits 2 r2;
         if 59 < m then None
         else (case take_char (CHR '':'') r3 of
           None \<Rightarrow> Some (h * 3600 + m * 60, r3)
         | Some r4 \<Rightarrow> do {
             (sec, r5) \<leftarrow> take_digits 2 r4;
             if 59 < sec then None else Some (h * 3600 + m * 60 + sec, r5)
           })
       })
   }"

definition fraction_part :: "string \<Rightarrow> (int \<times> string) option" where
  "fraction_part s =
     (case take_char (CHR ''.'') s of
        None \<Rightarrow> Some (0, s)
      | Some r \<Rightarrow>
          let ds = takeWhile is_digit r
          in if ds = [] then None
             else Some (int (digits_val (take 6 (ds @ ''000000''))), drop (length ds) r))"

definition offset_part :: "string \<Rightarrow> int option option" where
  "offset_part s =
     (case s of
        [] \<Rightarrow> Some None
      | c # r \<Rightarrow>
          if c = CHR ''+'' \<or> c = CHR ''-''
          then (case clock_part r of
                  Some (sec, []) \<Rightarrow> Some (Some (if c = CHR ''-'' then - sec else sec))
                | _ \<Rightarrow> None)
          else None)"

definition iso_fields :: "string \<Rightarrow> (int \<times> int option) option" where
  "iso_fields s = do {
     (y, r1) \<leftarrow> take_digits 4 s;
     r2 \<leftarrow> take_char (CHR ''-'') r1;
     (m, r3) \<leftarrow> take_digits 2 r2;
     r4 \<leftarrow> take_char (CHR ''-'') r3;
     (d, r5) \<leftarrow> take_digits 2 r4;
     if 1 \<le> y \<and> 1 \<le> m \<and> m \<le> 12 \<and> 1 \<le> d \<and> d \<le> days_in_month y m
     then (let midnight = days_from_civil y m d * 86400 * 1000000
           in case r5 of
                [] \<Rightarrow> Some (midnight, None)
              | _ # r6 \<Rightarrow> do {
                  (sec, r7) \<leftarrow> clock_part r6;
                  (us, r8) \<leftarrow> fraction_part r7;
                  off \<leftarrow> offset_part r8;
                  Some (midnight + sec * 1000000 + us, off)
                })
     else None
   }"

text \<open>The code replaces every \<open>Z\<close> by \<open>+00:00\<close> before it parses.\<close>

definition replace_z :: "string \<Rightarrow> string" where
  "replace_z s = concat (map (\<lambda>c. if c = CHR ''Z'' then ''+00:00'' else [c]) s)"

definition iso_parse :: "string \<Rightarrow> iso_result" where
  "iso_parse s =
     (case iso_fields (replace_z s) of
        None \<Rightarrow> IsoBad
      | Some (t, None) \<Rightarrow> IsoNaive
      | Some (t, Some off) \<Rightarrow> IsoAware (t - off * 1000000))"

end
