(* ===== verification/Portfolio_Ledger.thy ===== *)
theory Portfolio_Ledger
  imports Portfolio_Plan Portfolio_Fill Py_Time
begin

section \<open>The portfolio ledger: scopes, accepted orders, sealed events\<close>

text \<open>
  \<open>LivePortfolioLedger\<close> of \<open>live_trader/portfolio_execution.py\<close>: the state is its three SQLite
  tables, rows in insertion order. A column that holds canonical JSON text is represented by the
  value the text decodes to, with sorted keys (\<open>canon\<close>); texts are compared as texts. The
  triggers refuse every update and delete, so tables only grow; \<open>AUTOINCREMENT\<close> numbers the events
  from 1. The constraints of the schema are checks of the insert operations, reported as
  \<open>IntegrityError\<close>. Each operation is one \<open>BEGIN IMMEDIATE\<close> transaction: when it raises, the
  tables stay as they were, so its result is an error alone.
\<close>

record scope_row =
  sc_id :: string
  sc_portfolio :: string
  sc_portfolio_hash :: string
  sc_account :: string
  sc_broker :: string
  sc_currency :: string
  sc_created_at :: string

record order_row =
  or_plan :: string
  or_scope :: string
  or_broker_id :: string
  or_local_id :: string
  or_symbol :: string
  or_side :: string
  or_quantity :: string
  or_allocations :: pyval
  or_accepted_at :: string

record event_row =
  ev_sequence :: nat
  ev_id :: string
  ev_scope :: string
  ev_level :: string
  ev_sleeve :: string
  ev_type :: string
  ev_symbol :: string
  ev_payload :: pydict
  ev_at :: string
  ev_previous :: string
  ev_hash :: string

record ledger =
  led_scopes :: "scope_row list"
  led_orders :: "order_row list"
  led_events :: "event_row list"

definition empty_ledger :: ledger where
  "empty_ledger = \<lparr>led_scopes = [], led_orders = [], led_events = []\<rparr>"

text \<open>An event before it is stored.\<close>

record event_draft =
  dr_id :: string
  dr_scope :: string
  dr_level :: string
  dr_sleeve :: string
  dr_type :: string
  dr_symbol :: string
  dr_payload :: pydict
  dr_at :: string

definition ledger_schema :: string where
  "ledger_schema = ''live-portfolio-sleeve-ledger-v1''"

definition genesis_hash :: string where
  "genesis_hash = replicate 64 (CHR ''0'')"

subsection \<open>Timestamps\<close>

definition occurred_at_text :: "ts_arg \<Rightarrow> instant \<Rightarrow> string res" where
  "occurred_at_text value now =
     (case value of
        TsAware t \<Rightarrow> Inr (iso_micro_text t)
      | TsNaive \<Rightarrow> Inl (ValueError ''occurred_at must include an explicit timezone'')
      | TsValue PNone \<Rightarrow> Inr (iso_micro_text now)
      | TsValue (PStr s) \<Rightarrow>
          if strip s = [] then Inr (iso_micro_text now)
          else (case iso_parse (strip s) of
                  IsoBad \<Rightarrow> Inl (ValueError ''occurred_at must be an ISO-8601 timestamp with timezone'')
                | IsoNaive \<Rightarrow> Inl (ValueError ''occurred_at must include an explicit timezone'')
                | IsoAware t \<Rightarrow> Inr (iso_micro_text t))
      | TsValue _ \<Rightarrow>
          Inl (ValueError ''occurred_at must be an ISO-8601 string or timezone-aware datetime''))"

subsection \<open>Scopes\<close>

definition find_scope :: "ledger \<Rightarrow> string \<Rightarrow> scope_row option" where
  "find_scope st scope = find (\<lambda>r. sc_id r = scope) (led_scopes st)"

definition register_scope ::
  "ledger \<Rightarrow> pyval \<Rightarrow> pyval \<Rightarrow> pyval \<Rightarrow> pyval \<Rightarrow> instant \<Rightarrow> ledger res" where
  "register_scope st scope portfolio phash account now =
     res_bind (text_field scope ''scope_id'') (\<lambda>sid.
     res_bind (text_field portfolio ''portfolio_id'') (\<lambda>pid.
     res_bind (text_field phash ''portfolio_hash'') (\<lambda>raw_hash.
     res_bind (text_field account ''account_id'') (\<lambda>acc.
     let hash = lower raw_hash
     in case find_scope st sid of
          None \<Rightarrow> Inr (st\<lparr>led_scopes := led_scopes st @
            [\<lparr>sc_id = sid, sc_portfolio = pid, sc_portfolio_hash = hash, sc_account = acc,
              sc_broker = ''kis'', sc_currency = ''KRW'', sc_created_at = iso_micro_text now\<rparr>]\<rparr>)
        | Some row \<Rightarrow>
            if sc_portfolio row \<noteq> pid then Inl (ValueError ''portfolio scope mismatch: portfolio_id'')
            else if sc_portfolio_hash row \<noteq> hash
            then Inl (ValueError ''portfolio scope mismatch: portfolio_hash'')
            else if sc_account row \<noteq> acc then Inl (ValueError ''portfolio scope mismatch: account_id'')
            else if sc_broker row \<noteq> ''kis'' then Inl (ValueError ''portfolio scope mismatch: broker_id'')
            else if sc_currency row \<noteq> ''KRW'' then Inl (ValueError ''portfolio scope mismatch: currency'')
            else Inr st))))"

subsection \<open>Appending sealed events\<close>

definition draft_semantics :: "event_draft \<Rightarrow> pydict" where
  "draft_semantics e =
     [(''scopeId'', PStr (dr_scope e)),
      (''level'', PStr (dr_level e)),
      (''sleeveId'', PStr (dr_sleeve e)),
      (''eventType'', PStr (dr_type e)),
      (''symbol'', PStr (dr_symbol e)),
      (''payload'', PDict (dr_payload e)),
      (''occurredAt'', PStr (dr_at e))]"

definition row_semantics :: "event_row \<Rightarrow> pydict" where
  "row_semantics r =
     [(''scopeId'', PStr (ev_scope r)),
      (''level'', PStr (ev_level r)),
      (''sleeveId'', PStr (ev_sleeve r)),
      (''eventType'', PStr (ev_type r)),
      (''symbol'', PStr (ev_symbol r)),
      (''payload'', PDict (ev_payload r)),
      (''occurredAt'', PStr (ev_at r))]"

definition event_message :: "string \<Rightarrow> pydict \<Rightarrow> string \<Rightarrow> pyval" where
  "event_message eid semantics previous =
     PDict ([(''schemaVersion'', PStr ledger_schema), (''eventId'', PStr eid)]
            @ semantics @ [(''previousHash'', PStr previous)])"

definition find_event :: "ledger \<Rightarrow> string \<Rightarrow> event_row option" where
  "find_event st eid = find (\<lambda>r. ev_id r = eid) (led_events st)"

definition scope_events :: "ledger \<Rightarrow> string \<Rightarrow> event_row list" where
  "scope_events st scope = filter (\<lambda>r. ev_scope r = scope) (led_events st)"

definition last_hash :: "ledger \<Rightarrow> string \<Rightarrow> string" where
  "last_hash st scope =
     (case rev (scope_events st scope) of [] \<Rightarrow> genesis_hash | r # _ \<Rightarrow> ev_hash r)"

text \<open>The lookup of one draft, with the collision check against a stored row of that identity.\<close>

definition existing_event :: "ledger \<Rightarrow> event_draft \<Rightarrow> event_row option res" where
  "existing_event st e =
     res_bind (text_field (PStr (dr_id e)) ''event_id'') (\<lambda>eid.
     case find_event st eid of
       None \<Rightarrow> Inr None
     | Some row \<Rightarrow>
         if canon (PDict (row_semantics row)) \<noteq> canon (PDict (draft_semantics e))
         then Inl (ValueError (''event_id collision with different content: '' @ dr_id e))
         else Inr (Some row))"

definition insert_event :: "ledger \<Rightarrow> event_row \<Rightarrow> ledger res" where
  "insert_event st row =
     (if find_event st (ev_id row) \<noteq> None then Inl (IntegrityError ''event_id'')
      else if list_ex (\<lambda>r. ev_hash r = ev_hash row) (led_events st) then Inl (IntegrityError ''event_hash'')
      else if ev_level row \<notin> {''PORTFOLIO'', ''SLEEVE''} then Inl (IntegrityError ''level'')
      else if find_scope st (ev_scope row) = None then Inl (IntegrityError ''scope_id'')
      else Inr (st\<lparr>led_events := led_events st @ [row]\<rparr>))"

definition sealed_row :: "ledger \<Rightarrow> string \<Rightarrow> string \<Rightarrow> event_draft \<Rightarrow> event_row" where
  "sealed_row st scope previous e =
     \<lparr>ev_sequence = Suc (length (led_events st)), ev_id = dr_id e, ev_scope = scope,
      ev_level = dr_level e, ev_sleeve = dr_sleeve e, ev_type = dr_type e, ev_symbol = dr_symbol e,
      ev_payload = as_dict (canon (PDict (dr_payload e))), ev_at = dr_at e, ev_previous = previous,
      ev_hash = seal (event_message (dr_id e) (draft_semantics e) previous)\<rparr>"

fun insert_drafts :: "ledger \<Rightarrow> string \<Rightarrow> string \<Rightarrow> event_draft list \<Rightarrow> ledger res" where
  "insert_drafts st scope previous [] = Inr st"
| "insert_drafts st scope previous (e # es) =
     (let row = sealed_row st scope previous e
      in res_bind (insert_event st row) (\<lambda>st'. insert_drafts st' scope (ev_hash row) es))"

definition append_events :: "ledger \<Rightarrow> event_draft list \<Rightarrow> (nat \<times> ledger) res" where
  "append_events st events =
     (case events of
        [] \<Rightarrow> Inr (0, st)
      | first # _ \<Rightarrow>
          res_bind (res_map (existing_event st) events) (\<lambda>existing.
          if list_ex (\<lambda>x. x \<noteq> None) existing
          then if \<not> list_all (\<lambda>x. x \<noteq> None) existing
               then Inl (ValueError ''partial idempotent event group; reconciliation is required'')
               else Inr (0, st)
          else
            res_bind (text_field (PStr (dr_scope first)) ''scope_id'') (\<lambda>scope.
            if list_ex (\<lambda>e. dr_scope e \<noteq> scope) events
            then Inl (ValueError ''an event group cannot mix scopes'')
            else
              res_bind (insert_drafts st scope (last_hash st scope) events) (\<lambda>st'.
              Inr (length events, st')))))"

subsection \<open>Internal crosses\<close>

definition internal_cross_events :: "symbol_net_plan \<Rightarrow> string \<Rightarrow> event_draft list res" where
  "internal_cross_events plan stamp =
     (if plan_internal plan = [] then Inr []
      else if plan_reference_price plan \<le> 0
      then Inl (ValueError ''internal cross reference price must be positive'')
      else
        let pre = plan_scope plan @ '':cross:'' @ plan_id plan @ '':'';
            price = PStr (dec_text (plan_reference_price plan))
        in Inr
          (\<lparr>dr_id = pre @ ''portfolio'', dr_scope = plan_scope plan, dr_level = ''PORTFOLIO'',
            dr_sleeve = [], dr_type = ''INTERNAL_CROSS'', dr_symbol = plan_symbol plan,
            dr_payload = [(''planId'', PStr (plan_id plan)), (''price'', price),
                          (''netQuantity'', PStr ''0'')],
            dr_at = stamp\<rparr>
           # map (\<lambda>a.
               \<lparr>dr_id = pre @ alloc_sleeve a @ '':'' @ alloc_intent a, dr_scope = plan_scope plan,
                dr_level = ''SLEEVE'', dr_sleeve = alloc_sleeve a, dr_type = ''SLEEVE_INTERNAL_CROSS'',
                dr_symbol = plan_symbol plan,
                dr_payload = [(''planId'', PStr (plan_id plan)), (''intentId'', PStr (alloc_intent a)),
                              (''signedQuantity'', PStr (dec_text (alloc_signed a))), (''price'', price),
                              (''fee'', PStr ''0''), (''costStatus'', PStr ''FINAL'')],
                dr_at = stamp\<rparr>) (plan_internal plan)))"

definition record_internal_cross ::
  "ledger \<Rightarrow> symbol_net_plan \<Rightarrow> pyval \<Rightarrow> ts_arg \<Rightarrow> instant \<Rightarrow> (nat \<times> ledger) res" where
  "record_internal_cross st plan price occurred_at now =
     (if \<not> internal_only plan then Inl (ValueError ''internal cross requires a zero-net plan'')
      else
        res_bind
          (case price of
             PNone \<Rightarrow> if plan_reference_price plan < 0 then Inl (ValueError ''price must be >= 0'')
                      else Inr (plan_reference_price plan)
           | PStr s \<Rightarrow>
               if s = [] then if plan_reference_price plan < 0 then Inl (ValueError ''price must be >= 0'')
                              else Inr (plan_reference_price plan)
               else decimal_field price ''price'' (Some 0)
           | PList _ \<Rightarrow> Inl (TypeError ''unhashable type: list'')
           | PDict _ \<Rightarrow> Inl (TypeError ''unhashable type: dict'')
           | _ \<Rightarrow> decimal_field price ''price'' (Some 0)) (\<lambda>fill_price.
        if fill_price = 0 then Inl (ValueError ''price must be greater than zero'')
        else if fill_price \<noteq> plan_reference_price plan
        then Inl (ValueError ''internal cross price does not match sealed plan'')
        else
          res_bind (occurred_at_text occurred_at now) (\<lambda>stamp.
          res_bind (internal_cross_events plan stamp) (\<lambda>events. append_events st events))))"

subsection \<open>Accepted broker orders\<close>

definition find_order :: "ledger \<Rightarrow> string \<Rightarrow> order_row option" where
  "find_order st plan = find (\<lambda>r. or_plan r = plan) (led_orders st)"

text \<open>
  The insert, with the schema's constraints, and the comparison of a replayed acceptance with
  the stored row. Both yield the acceptance time the event carries.
\<close>

definition bind_order ::
  "ledger \<Rightarrow> symbol_net_plan \<Rightarrow> string \<Rightarrow> string \<Rightarrow> string \<Rightarrow> (bool \<times> string \<times> ledger) res" where
  "bind_order st plan broker_id local_id stamp =
     (let allocs = canon (PList (map allocation_json (plan_allocations plan)))
      in case find_order st (plan_id plan) of
           None \<Rightarrow>
             if list_ex (\<lambda>r. or_scope r = plan_scope plan \<and> or_broker_id r = broker_id) (led_orders st)
             then Inl (ValueError ''broker order id belongs to another plan'')
             else if find_scope st (plan_scope plan) = None then Inl (IntegrityError ''scope_id'')
             else Inr (True, stamp, st\<lparr>led_orders := led_orders st @
               [\<lparr>or_plan = plan_id plan, or_scope = plan_scope plan, or_broker_id = broker_id,
                 or_local_id = local_id, or_symbol = plan_symbol plan, or_side = plan_side plan,
                 or_quantity = dec_text (plan_quantity plan), or_allocations = allocs,
                 or_accepted_at = stamp\<rparr>]\<rparr>)
         | Some row \<Rightarrow>
             if or_scope row = plan_scope plan \<and> or_broker_id row = broker_id
                \<and> or_local_id row = local_id \<and> or_symbol row = plan_symbol plan
                \<and> or_side row = plan_side plan \<and> or_quantity row = dec_text (plan_quantity plan)
                \<and> canonical_json (or_allocations row) = canonical_json allocs
             then Inr (False, or_accepted_at row, st)
             else Inl (ValueError ''plan id is already bound to another order''))"

definition acceptance_event :: "symbol_net_plan \<Rightarrow> string \<Rightarrow> string \<Rightarrow> string \<Rightarrow> event_draft" where
  "acceptance_event plan broker_id local_id stamp =
     \<lparr>dr_id = plan_scope plan @ '':order:'' @ broker_id, dr_scope = plan_scope plan,
      dr_level = ''PORTFOLIO'', dr_sleeve = [], dr_type = ''BROKER_ORDER_ACCEPTED'',
      dr_symbol = plan_symbol plan,
      dr_payload = plan_metadata plan
        @ [(''brokerOrderId'', PStr broker_id), (''localOrderId'', PStr local_id)],
      dr_at = stamp\<rparr>"

definition record_accepted_order ::
  "ledger \<Rightarrow> symbol_net_plan \<Rightarrow> pyval \<Rightarrow> pyval \<Rightarrow> ts_arg \<Rightarrow> instant \<Rightarrow> (bool \<times> ledger) res" where
  "record_accepted_order st plan broker_order_id local_order_id occurred_at now =
     (if plan_quantity plan \<le> 0 \<or> plan_side plan \<notin> {''BUY'', ''SELL''}
      then Inl (ValueError ''only a non-zero broker plan can be accepted'')
      else
        res_bind (text_field broker_order_id ''broker_order_id'') (\<lambda>broker_id.
        let local_id = strip (py_str (py_or local_order_id (PStr [])))
        in res_bind (occurred_at_text occurred_at now) (\<lambda>stamp0.
           res_bind (bind_order st plan broker_id local_id stamp0) (\<lambda>(created, stamp, st1).
           res_bind (internal_cross_events plan stamp) (\<lambda>crosses.
           res_bind (append_events st1 (acceptance_event plan broker_id local_id stamp # crosses)) (\<lambda>(n, st2).
           Inr (created, st2)))))))"

text \<open>
  Recovery commits row by row: when a row raises, the rows recorded before it stay. The result
  is the state together with the number of created orders or the error.
\<close>

fun recover_accepted_orders ::
  "ledger \<Rightarrow> string \<Rightarrow> pydict list \<Rightarrow> (nat \<Rightarrow> instant) \<Rightarrow> nat \<Rightarrow> ledger \<times> nat res" where
  "recover_accepted_orders st scope [] clock recovered = (st, Inr recovered)"
| "recover_accepted_orders st scope (row # rows) clock recovered =
     (let payload = dict_get row ''portfolio_execution'';
          broker = strip (py_str (py_or (dict_get row ''broker_order_id'') (PStr [])));
          rest = (\<lambda>st' n. recover_accepted_orders st' scope rows (\<lambda>i. clock (Suc i)) n)
      in if \<not> is_dict payload then rest st recovered
         else if py_str (py_or (dict_get (as_dict payload) ''scopeId'') (PStr [])) \<noteq> scope
         then rest st recovered
         else if broker = [] \<or> broker = ''-'' then rest st recovered
         else case validate_symbol_net_plan_metadata payload of
                Inl e \<Rightarrow> (st, Inl e)
              | Inr plan \<Rightarrow>
                  if plan_scope plan \<noteq> scope
                  then (st, Inl (ValueError ''recovered portfolio order scope is invalid''))
                  else if plan_side plan \<notin> {''BUY'', ''SELL''} \<or> plan_quantity plan \<le> 0
                  then (st, Inl (ValueError ''recovered portfolio order allocation is invalid''))
                  else case record_accepted_order st plan (PStr broker)
                              (PStr (py_str (py_or (dict_get row ''order_id'') (PStr []))))
                              (TsValue (PStr [])) (clock 0) of
                         Inl e \<Rightarrow> (st, Inl e)
                       | Inr (created, st') \<Rightarrow> rest st' (recovered + (if created then 1 else 0)))"

end
