(* ===== verification/Portfolio_Sync.thy ===== *)
theory Portfolio_Sync
  imports Portfolio_Ledger
begin

section \<open>Applying broker executions to the portfolio ledger\<close>

text \<open>
  \<open>LivePortfolioLedger.apply_execution_events\<close> of \<open>live_trader/portfolio_execution.py\<close>: broker
  executions of a scope are ordered by time and identity and applied in one transaction. A new
  fill is distributed over the sleeves of its order and stored as one \<open>BROKER_FILL\<close> and its
  \<open>SLEEVE_FILL\<close>s; a replay of a stored fill may only revise its fee; a terminal state is stored
  as \<open>BROKER_ORDER_TERMINAL\<close>. \<open>None\<close> is a run that does not return (the remainder loop of
  \<open>Portfolio_Fill\<close>).
\<close>

text \<open>An incoming event: its mapping, and \<open>occurred_at\<close>, which may be a \<open>datetime\<close>.\<close>

record exec_event =
  ex_fields :: pydict
  ex_occurred :: ts_arg

text \<open>A row that passed the first loop, with the two entries the loop adds.\<close>

record prepared_event =
  pe_fields :: pydict
  pe_order_id :: string
  pe_at :: string

record sync_state =
  sy_ledger :: ledger
  sy_filled :: "(string \<times> dec) list"
  sy_fills :: nat
  sy_statuses :: nat
  sy_fees :: nat

record sync_report =
  rp_fills :: nat
  rp_statuses :: nat
  rp_ignored :: nat
  rp_fees :: nat

definition text_of :: "pyval \<Rightarrow> string" where
  "text_of v = py_str (py_or v (PStr []))"

subsection \<open>What is already filled\<close>

definition row_allocations :: "order_row \<Rightarrow> sleeve_allocation list res" where
  "row_allocations row = allocations_from_metadata [(''allocations'', or_allocations row)] ''allocations'' False"

definition broker_fills :: "ledger \<Rightarrow> string \<Rightarrow> event_row list" where
  "broker_fills st scope =
     filter (\<lambda>r. ev_level r = ''PORTFOLIO'' \<and> ev_type r = ''BROKER_FILL'') (scope_events st scope)"

definition add_fill :: "(string \<times> dec) list \<Rightarrow> event_row \<Rightarrow> (string \<times> dec) list res" where
  "add_fill result row =
     (let plan = text_of (dict_get (ev_payload row) ''planId'')
      in res_bind (quantity_field (dict_get (ev_payload row) ''brokerQuantity'') ''stored broker fill'' True) (\<lambda>q.
         Inr (assoc_put plan (dec_add (assoc_get 0 result plan) q) result)))"

definition filled_quantities :: "ledger \<Rightarrow> string \<Rightarrow> (string \<times> dec) list res" where
  "filled_quantities st scope = res_fold add_fill [] (broker_fills st scope)"

subsection \<open>Selecting and ordering the rows\<close>

definition scope_order :: "ledger \<Rightarrow> string \<Rightarrow> string \<Rightarrow> order_row option" where
  "scope_order st scope broker_id =
     find (\<lambda>r. or_scope r = scope \<and> or_broker_id r = broker_id) (led_orders st)"

fun prepare_rows ::
  "ledger \<Rightarrow> string \<Rightarrow> exec_event list \<Rightarrow> (nat \<Rightarrow> instant) \<Rightarrow> (prepared_event list \<times> nat) res" where
  "prepare_rows st scope [] clock = Inr ([], 0)"
| "prepare_rows st scope (e # es) clock =
     (let d = ex_fields e;
          rest = prepare_rows st scope es (\<lambda>i. clock (Suc i));
          broker_id = strip (text_of (py_or (dict_get d ''broker_order_id'') (dict_get d ''brokerOrderId'')))
      in if lower (strip (text_of (dict_get d ''broker_id''))) \<noteq> ''kis''
            \<or> scope_order st scope broker_id = None
         then res_bind rest (\<lambda>(rows, ignored). Inr (rows, Suc ignored))
         else res_bind (occurred_at_text (ex_occurred e) (clock 0)) (\<lambda>stamp.
              res_bind rest (\<lambda>(rows, ignored).
              Inr (\<lparr>pe_fields = d, pe_order_id = broker_id, pe_at = stamp\<rparr> # rows, ignored))))"

definition sort_rows :: "prepared_event list \<Rightarrow> prepared_event list" where
  "sort_rows rows = sort_key pe_at (sort_key (\<lambda>r. text_of (dict_get (pe_fields r) ''event_id'')) rows)"

subsection \<open>Reading one row\<close>

text \<open>\<open>value not in {None, ""}\<close>, which hashes the value.\<close>

definition present :: "pyval \<Rightarrow> bool res" where
  "present v =
     (case v of
        PNone \<Rightarrow> Inr False
      | PStr s \<Rightarrow> Inr (s \<noteq> [])
      | PList _ \<Rightarrow> Inl (TypeError ''unhashable type: list'')
      | PDict _ \<Rightarrow> Inl (TypeError ''unhashable type: dict'')
      | _ \<Rightarrow> Inr True)"

record execution =
  xn_source :: string
  xn_symbol :: string
  xn_state :: string
  xn_quantity :: dec
  xn_price :: dec
  xn_fee :: dec

definition read_execution :: "order_row \<Rightarrow> pydict \<Rightarrow> execution res" where
  "read_execution order d =
     res_bind (text_field (dict_get d ''event_id'') ''execution event_id'') (\<lambda>source.
     res_bind (canonical_kis_symbol (py_or (dict_get d ''symbol'') (PStr (or_symbol order)))) (\<lambda>symbol.
     let side = upper (strip (text_of (dict_get d ''side'')));
         state = upper (text_of (py_or (dict_get d ''state'') (dict_get d ''status'')));
         raw = as_dict (dict_get d ''raw'')
     in if symbol \<noteq> or_symbol order
        then Inl (ValueError ''execution symbol does not match accepted order'')
        else if side \<noteq> [] \<and> side \<noteq> or_side order
        then Inl (ValueError ''execution side does not match accepted order'')
        else
          res_bind (quantity_field (py_or (dict_get d ''quantity'') (PInt 0)) ''execution quantity'' True) (\<lambda>quantity.
          res_bind (decimal_field (py_or (dict_get d ''price'') (PInt 0)) ''execution price'' (Some 0)) (\<lambda>price.
          res_bind (present (dict_get d ''fee'')) (\<lambda>has_fee.
          res_bind (decimal_field (if has_fee then dict_get d ''fee'' else py_or (dict_get raw ''fee'') (PInt 0))
                     ''execution fee'' (Some 0)) (\<lambda>fee.
          Inr \<lparr>xn_source = source, xn_symbol = symbol, xn_state = state, xn_quantity = quantity,
               xn_price = price, xn_fee = fee\<rparr>))))))"

definition event_prefix :: "string \<Rightarrow> string \<Rightarrow> string" where
  "event_prefix scope source = scope @ '':execution:'' @ source"

subsection \<open>A replay of a stored fill: fee revision\<close>

definition fee_adjustments :: "ledger \<Rightarrow> string \<Rightarrow> event_row list" where
  "fee_adjustments st scope =
     filter (\<lambda>r. ev_level r = ''PORTFOLIO'' \<and> ev_type r = ''FEE_ADJUSTMENT'') (scope_events st scope)"

definition add_adjustment :: "string \<Rightarrow> dec \<Rightarrow> event_row \<Rightarrow> dec res" where
  "add_adjustment source fee row =
     (if text_of (dict_get (ev_payload row) ''sourceEventId'') = source
      then res_bind (decimal_field (py_or (dict_get (ev_payload row) ''feeDelta'') (PInt 0))
                       ''stored fee adjustment'' None) (\<lambda>delta. Inr (dec_add fee delta))
      else Inr fee)"

definition recorded_fee :: "ledger \<Rightarrow> string \<Rightarrow> string \<Rightarrow> pydict \<Rightarrow> dec res" where
  "recorded_fee st scope source stored =
     res_bind (decimal_field (py_or (dict_get stored ''fee'') (PInt 0)) ''stored fill fee'' (Some 0)) (\<lambda>fee.
     res_fold (add_adjustment source) fee (fee_adjustments st scope))"

definition stored_allocations :: "pydict \<Rightarrow> pydict list res" where
  "stored_allocations stored =
     (case map_of stored ''allocations'' of
        None \<Rightarrow> Inr []
      | Some (PList xs) \<Rightarrow> Inr (map as_dict (filter is_dict xs))
      | Some (PStr _) \<Rightarrow> Inr []
      | Some (PDict _) \<Rightarrow> Inr []
      | Some _ \<Rightarrow> Inl (TypeError ''object is not iterable''))"

definition fee_allocation_json :: "pydict \<Rightarrow> dec \<Rightarrow> pydict" where
  "fee_allocation_json item delta =
     [(''intentId'', PStr (text_of (dict_get item ''intentId''))),
      (''sleeveId'', PStr (text_of (dict_get item ''sleeveId''))),
      (''sourceSignedQuantity'', PStr (py_str (py_or (dict_get item ''signedQuantity'') (PStr ''0'')))),
      (''feeDelta'', PStr (dec_text delta))]"

definition revision_hash :: "string \<Rightarrow> execution \<Rightarrow> dec \<Rightarrow> string" where
  "revision_hash scope x current = seal (PDict
     [(''scopeId'', PStr scope), (''sourceEventId'', PStr (xn_source x)),
      (''quantity'', PStr (dec_text (xn_quantity x))), (''price'', PStr (dec_text (xn_price x))),
      (''previousFee'', PStr (dec_text current)), (''revisedFee'', PStr (dec_text (xn_fee x)))])"

definition revision_events ::
  "string \<Rightarrow> order_row \<Rightarrow> execution \<Rightarrow> dec \<Rightarrow> pydict list \<Rightarrow> string \<Rightarrow> event_draft list" where
  "revision_events scope order x current fees stamp =
     (let pre = event_prefix scope (xn_source x) @ '':fee-adjustment:'' @ revision_hash scope x current;
          head = [(''planId'', PStr (or_plan order)), (''brokerOrderId'', PStr (or_broker_id order)),
                  (''sourceEventId'', PStr (xn_source x))]
      in \<lparr>dr_id = pre @ '':portfolio'', dr_scope = scope, dr_level = ''PORTFOLIO'', dr_sleeve = [],
          dr_type = ''FEE_ADJUSTMENT'', dr_symbol = xn_symbol x,
          dr_payload = head @
            [(''brokerQuantity'', PStr (dec_text (xn_quantity x))),
             (''price'', PStr (dec_text (xn_price x))),
             (''previousFee'', PStr (dec_text current)),
             (''revisedFee'', PStr (dec_text (xn_fee x))),
             (''feeDelta'', PStr (dec_text (dec_sub (xn_fee x) current))),
             (''costStatus'', PStr ''FINAL''),
             (''allocations'', PList (map PDict fees))],
          dr_at = stamp\<rparr>
         # map (\<lambda>a.
             \<lparr>dr_id = pre @ '':sleeve:'' @ py_str (dict_get a ''sleeveId'') @ '':''
                 @ py_str (dict_get a ''intentId''),
              dr_scope = scope, dr_level = ''SLEEVE'', dr_sleeve = py_str (dict_get a ''sleeveId''),
              dr_type = ''SLEEVE_FEE_ADJUSTMENT'', dr_symbol = xn_symbol x,
              dr_payload = head @ a @ [(''costStatus'', PStr ''FINAL'')],
              dr_at = stamp\<rparr>) fees)"

definition revise_fee ::
  "string \<Rightarrow> ledger \<Rightarrow> order_row \<Rightarrow> execution \<Rightarrow> pydict \<Rightarrow> string \<Rightarrow> (nat \<times> ledger) res" where
  "revise_fee scope st order x stored stamp =
     res_bind (quantity_field (dict_get stored ''brokerQuantity'') ''stored broker fill quantity'' False) (\<lambda>quantity.
     res_bind (decimal_field (dict_get stored ''price'') ''stored broker fill price'' (Some 0)) (\<lambda>price.
     if quantity \<noteq> xn_quantity x \<or> price \<noteq> xn_price x
     then Inl (ValueError ''execution event replay changed immutable fill quantity/price'')
     else
       res_bind (recorded_fee st scope (xn_source x) stored) (\<lambda>current.
       if xn_fee x = 0 \<and> 0 < current then Inr (0, st)
       else if xn_fee x = current then Inr (0, st)
       else
         res_bind (stored_allocations stored) (\<lambda>items.
         if items = []
         then Inl (ValueError ''stored fill has no sleeve allocation for fee revision'')
         else
           res_bind (res_map (\<lambda>item. res_bind (signed_quantity_field (dict_get item ''signedQuantity'')
                                ''stored signed fill'') (\<lambda>q. Inr (dec_abs q))) items) (\<lambda>weights.
           res_bind (allocate_money (dec_sub (xn_fee x) current) weights) (\<lambda>deltas.
           res_bind (append_events st (revision_events scope order x current
                       (map (\<lambda>(item, delta). fee_allocation_json item delta) (zip items deltas)) stamp)) (\<lambda>(n, st').
           Inr (if n = 0 then 0 else 1, st'))))))))"

subsection \<open>A new fill\<close>

definition fill_increments ::
  "sleeve_allocation list \<Rightarrow> dec \<Rightarrow> dec \<Rightarrow> string \<Rightarrow> dec list res option" where
  "fill_increments allocs previous cumulative side =
     (case proportional_signed_quantities allocs cumulative side of
        None \<Rightarrow> None
      | Some (Inl e) \<Rightarrow> Some (Inl e)
      | Some (Inr now_signed) \<Rightarrow>
          (case (if 0 < previous then proportional_signed_quantities allocs previous side
                 else Some (Inr (map (\<lambda>_. 0) allocs))) of
             None \<Rightarrow> None
           | Some (Inl e) \<Rightarrow> Some (Inl e)
           | Some (Inr previous_signed) \<Rightarrow>
               Some (Inr (map (\<lambda>(c, p). dec_sub c p) (zip now_signed previous_signed)))))"

definition fill_allocation_json :: "sleeve_allocation \<Rightarrow> dec \<Rightarrow> dec \<Rightarrow> dec \<Rightarrow> pydict" where
  "fill_allocation_json a qty price fee =
     [(''intentId'', PStr (alloc_intent a)), (''sleeveId'', PStr (alloc_sleeve a)),
      (''signedQuantity'', PStr (dec_text qty)), (''price'', PStr (dec_text price)),
      (''fee'', PStr (dec_text fee))]"

definition fill_events ::
  "string \<Rightarrow> order_row \<Rightarrow> execution \<Rightarrow> (sleeve_allocation \<times> dec \<times> dec) list \<Rightarrow> string \<Rightarrow> event_draft list" where
  "fill_events scope order x active stamp =
     (let pre = event_prefix scope (xn_source x);
          cost = (if 0 < xn_fee x then ''FINAL'' else ''UNKNOWN'');
          head = [(''planId'', PStr (or_plan order)), (''brokerOrderId'', PStr (or_broker_id order)),
                  (''sourceEventId'', PStr (xn_source x))]
      in \<lparr>dr_id = pre @ '':portfolio'', dr_scope = scope, dr_level = ''PORTFOLIO'', dr_sleeve = [],
          dr_type = ''BROKER_FILL'', dr_symbol = xn_symbol x,
          dr_payload = head @
            [(''side'', PStr (or_side order)),
             (''brokerQuantity'', PStr (dec_text (xn_quantity x))),
             (''price'', PStr (dec_text (xn_price x))),
             (''fee'', PStr (dec_text (xn_fee x))),
             (''costStatus'', PStr cost),
             (''allocations'', PList (map (\<lambda>(a, qty, fee).
                PDict (fill_allocation_json a qty (xn_price x) fee)) active))],
          dr_at = stamp\<rparr>
         # map (\<lambda>(a, qty, fee).
             \<lparr>dr_id = pre @ '':sleeve:'' @ alloc_sleeve a @ '':'' @ alloc_intent a,
              dr_scope = scope, dr_level = ''SLEEVE'', dr_sleeve = alloc_sleeve a,
              dr_type = ''SLEEVE_FILL'', dr_symbol = xn_symbol x,
              dr_payload = head @ fill_allocation_json a qty (xn_price x) fee
                @ [(''costStatus'', PStr cost)],
              dr_at = stamp\<rparr>) active)"

text \<open>The result is the filled quantity of the order afterwards, and the number of inserted events.\<close>

definition apply_fill ::
  "string \<Rightarrow> ledger \<Rightarrow> order_row \<Rightarrow> execution \<Rightarrow> dec \<Rightarrow> string \<Rightarrow> (dec \<times> nat \<times> ledger) res option" where
  "apply_fill scope st order x previous stamp =
     (if xn_price x \<le> 0 then Some (Inl (ValueError ''a broker fill requires a positive price''))
      else case quantity_field (PStr (or_quantity order)) ''accepted quantity'' True of
        Inl e \<Rightarrow> Some (Inl e)
      | Inr order_quantity \<Rightarrow>
        let cumulative = dec_add previous (xn_quantity x)
        in if order_quantity < cumulative
           then Some (Inl (ValueError ''cumulative execution exceeds accepted order''))
           else case row_allocations order of
             Inl e \<Rightarrow> Some (Inl e)
           | Inr allocs \<Rightarrow>
             case fill_increments allocs previous cumulative (or_side order) of
               None \<Rightarrow> None
             | Some (Inl e) \<Rightarrow> Some (Inl e)
             | Some (Inr increments) \<Rightarrow>
               let active = filter (\<lambda>(a, qty). qty \<noteq> 0) (zip allocs increments)
               in Some
                 (res_bind (allocate_money (xn_fee x) (map (\<lambda>(a, qty). dec_abs qty) active)) (\<lambda>fees.
                  res_bind (append_events st (fill_events scope order x
                      (map (\<lambda>((a, qty), fee). (a, qty, fee)) (zip active fees)) stamp)) (\<lambda>(n, st').
                  Inr (cumulative, n, st')))))"

definition terminal_states :: "string set" where
  "terminal_states = {''CANCELED'', ''CANCELLED'', ''REJECTED'', ''EXPIRED''}"

definition status_event :: "string \<Rightarrow> order_row \<Rightarrow> execution \<Rightarrow> string \<Rightarrow> event_draft" where
  "status_event scope order x stamp =
     \<lparr>dr_id = event_prefix scope (xn_source x) @ '':status'', dr_scope = scope, dr_level = ''PORTFOLIO'',
      dr_sleeve = [], dr_type = ''BROKER_ORDER_TERMINAL'', dr_symbol = xn_symbol x,
      dr_payload =
        [(''planId'', PStr (or_plan order)), (''brokerOrderId'', PStr (or_broker_id order)),
         (''sourceEventId'', PStr (xn_source x)),
         (''state'', PStr (if xn_state x = ''CANCELLED'' then ''CANCELED'' else xn_state x))],
      dr_at = stamp\<rparr>"

definition apply_status :: "string \<Rightarrow> sync_state \<Rightarrow> order_row \<Rightarrow> execution \<Rightarrow> string \<Rightarrow> sync_state res" where
  "apply_status scope s order x stamp =
     (if xn_state x \<in> terminal_states
      then res_bind (append_events (sy_ledger s) [status_event scope order x stamp]) (\<lambda>(n, st).
           Inr (s\<lparr>sy_ledger := st, sy_statuses := sy_statuses s + (if n = 0 then 0 else 1)\<rparr>))
      else Inr s)"

subsection \<open>The loop\<close>

definition sync_event :: "string \<Rightarrow> sync_state \<Rightarrow> prepared_event \<Rightarrow> sync_state res option" where
  "sync_event scope s e =
     (case scope_order (sy_ledger s) scope (pe_order_id e) of
        None \<Rightarrow> Some (Inl (KeyError (pe_order_id e)))
      | Some order \<Rightarrow>
        case read_execution order (pe_fields e) of
          Inl err \<Rightarrow> Some (Inl err)
        | Inr x \<Rightarrow>
          if 0 < xn_quantity x
          then (case find_event (sy_ledger s) (event_prefix scope (xn_source x) @ '':portfolio'') of
             Some row \<Rightarrow>
               Some (res_bind (revise_fee scope (sy_ledger s) order x (ev_payload row) (pe_at e)) (\<lambda>(n, st).
                     Inr (s\<lparr>sy_ledger := st, sy_fees := sy_fees s + n\<rparr>)))
           | None \<Rightarrow>
               (case apply_fill scope (sy_ledger s) order x
                       (assoc_get 0 (sy_filled s) (or_plan order)) (pe_at e) of
                  None \<Rightarrow> None
                | Some (Inl err) \<Rightarrow> Some (Inl err)
                | Some (Inr (cumulative, n, st)) \<Rightarrow>
                    Some (apply_status scope
                      (if n = 0 then s\<lparr>sy_ledger := st\<rparr>
                       else s\<lparr>sy_ledger := st, sy_filled := assoc_put (or_plan order) cumulative (sy_filled s),
                              sy_fills := Suc (sy_fills s)\<rparr>)
                      order x (pe_at e))))
          else Some (apply_status scope s order x (pe_at e)))"

fun sync_loop :: "string \<Rightarrow> sync_state \<Rightarrow> prepared_event list \<Rightarrow> sync_state res option" where
  "sync_loop scope s [] = Some (Inr s)"
| "sync_loop scope s (e # es) =
     (case sync_event scope s e of
        None \<Rightarrow> None
      | Some (Inl err) \<Rightarrow> Some (Inl err)
      | Some (Inr s') \<Rightarrow> sync_loop scope s' es)"

text \<open>\<open>None\<close> in \<open>events\<close> is an item that is not a mapping; such items are dropped uncounted.\<close>

definition apply_execution_events ::
  "ledger \<Rightarrow> pyval \<Rightarrow> exec_event option list \<Rightarrow> (nat \<Rightarrow> instant) \<Rightarrow> (sync_report \<times> ledger) res option" where
  "apply_execution_events st scope_id events clock =
     (case text_field scope_id ''scope_id'' of
        Inl e \<Rightarrow> Some (Inl e)
      | Inr scope \<Rightarrow>
        case filled_quantities st scope of
          Inl e \<Rightarrow> Some (Inl e)
        | Inr filled \<Rightarrow>
          case prepare_rows st scope (map the (filter (\<lambda>e. e \<noteq> None) events)) clock of
            Inl e \<Rightarrow> Some (Inl e)
          | Inr (rows, ignored) \<Rightarrow>
            case sync_loop scope \<lparr>sy_ledger = st, sy_filled = filled, sy_fills = 0, sy_statuses = 0,
                                  sy_fees = 0\<rparr> (sort_rows rows) of
              None \<Rightarrow> None
            | Some (Inl e) \<Rightarrow> Some (Inl e)
            | Some (Inr s) \<Rightarrow>
                Some (Inr (\<lparr>rp_fills = sy_fills s, rp_statuses = sy_statuses s, rp_ignored = ignored,
                            rp_fees = sy_fees s\<rparr>, sy_ledger s)))"

end
