(* ===== verification/Portfolio_Fee_Laws.thy ===== *)
theory Portfolio_Fee_Laws
  imports Portfolio_Fill_Laws Portfolio_Sync
begin

section \<open>Fee allocation: exact to the last unit\<close>

text \<open>
  \<open>allocate_money\<close> divides a fee (or a fee revision, which may be negative) over the filled
  quantities of the sleeves. Money is counted in units of \<open>10 ^ -8\<close> (\<open>money\<close>). The parts are money,
  have the sign of the amount, and add up to it exactly: the last sleeve takes what the
  rounded-down quotients leave.
\<close>

definition money :: "dec \<Rightarrow> bool" where
  "money q \<longleftrightarrow> whole (q * 10 ^ 8)"

lemma money_0 [simp]: "money 0"
  by (simp add: money_def)

lemma money_add [intro]: "money a \<Longrightarrow> money b \<Longrightarrow> money (a + b)"
  by (simp add: money_def distrib_right)

lemma money_diff [intro]: "money a \<Longrightarrow> money b \<Longrightarrow> money (a - b)"
  by (simp add: money_def left_diff_distrib)

lemma money_sum_list: "(\<And>x. x \<in> set xs \<Longrightarrow> money x) \<Longrightarrow> money (sum_list xs)"
  by (induction xs) auto

lemma ctx_round_money: "money q \<Longrightarrow> \<bar>q\<bar> < 10 ^ 20 \<Longrightarrow> ctx_round q = q"
proof -
  assume "money q" and b: "\<bar>q\<bar> < 10 ^ 20"
  then have "whole (q * 10 ^ 8)" by (simp add: money_def)
  then obtain n where n: "q * 10 ^ 8 = of_int n" by (rule wholeE)
  have "\<bar>rat_of_int n\<bar> = \<bar>q\<bar> * 10 ^ 8" unfolding n [symmetric] by (simp add: abs_mult)
  also have "\<dots> < 10 ^ 28" using b by simp
  finally have "rat_of_int \<bar>n\<bar> < of_int (10 ^ 28)" by simp
  then have m: "\<bar>n\<bar> < 10 ^ 28" by (simp only: of_int_less_iff)
  have "q = of_int n * 10 powi (- 8)" using n by (simp add: power_int_minus field_simps)
  then show ?thesis by (rule ctx_round_exact [OF _ m])
qed

lemma foldl_dec_add_money:
  "money a \<Longrightarrow> (\<And>x. x \<in> set xs \<Longrightarrow> money x) \<Longrightarrow> \<bar>a\<bar> + (\<Sum>x\<leftarrow>xs. \<bar>x\<bar>) < 10 ^ 20 \<Longrightarrow>
   foldl dec_add a xs = a + sum_list xs"
proof (induction xs arbitrary: a)
  case Nil
  then show ?case by simp
next
  case (Cons x xs)
  have nn: "0 \<le> (\<Sum>x\<leftarrow>xs. \<bar>x\<bar>)" by (rule sum_list_nonneg) auto
  have ax: "\<bar>a + x\<bar> \<le> \<bar>a\<bar> + \<bar>x\<bar>" by simp
  have m: "money (a + x)" using Cons.prems by auto
  have s: "dec_add a x = a + x"
    unfolding dec_add_def using ax Cons.prems(3) nn by (intro ctx_round_money [OF m]) simp
  have "foldl dec_add (a + x) xs = a + x + sum_list xs"
    using ax Cons.prems by (intro Cons.IH [OF m]) auto
  with s show ?case by (simp add: add.assoc)
qed

lemma dec_sum_money:
  "(\<And>x. x \<in> set xs \<Longrightarrow> money x) \<Longrightarrow> (\<Sum>x\<leftarrow>xs. \<bar>x\<bar>) < 10 ^ 20 \<Longrightarrow> dec_sum xs = sum_list xs"
  unfolding dec_sum_def using foldl_dec_add_money [of 0 xs] by simp

subsection \<open>One quotient\<close>

lemma money_quotient:
  fixes s amount w W :: rat
  assumes s: "s = 1 \<or> s = - 1" and A: "0 < s * amount" "s * amount \<le> 10 ^ 18"
    and w: "0 \<le> w" "w \<le> W" "0 < W"
  obtains q where "quantize_money (dec_div (dec_mul amount w) W) = Inr q" "money q" "0 \<le> s * q"
    "s * q \<le> s * amount * w / W + 3 * (s * amount * w / W) / 10 ^ 27"
proof -
  define P where "P = s * amount * w"
  define m where "m = ctx_round P"
  define x where "x = ctx_round (m / W)"
  have P: "0 \<le> P" using A w by (simp add: P_def)
  have m: "0 \<le> m" "\<bar>m - P\<bar> \<le> P / 10 ^ 27"
    using P ctx_round_nonneg [of P] ctx_round_relative [OF P] by (simp_all add: m_def)
  have mW: "0 \<le> m / W" using m w by simp
  have x: "0 \<le> x" "\<bar>x - m / W\<bar> \<le> m / W / 10 ^ 27"
    using ctx_round_nonneg [OF mW] ctx_round_relative [OF mW] by (simp_all add: x_def)
  have "m \<le> P + P / 10 ^ 27" using m(2) by linarith
  then have mu: "m / W \<le> P / W + P / W / 10 ^ 27"
    using w(3) divide_right_mono [of m "P + P / 10 ^ 27" W] by (simp add: add_divide_distrib)
  have PW: "0 \<le> P / W" using P w by simp
  have "m / W / 10 ^ 27 \<le> (P / W + P / W / 10 ^ 27) / 10 ^ 27" using mu by (rule divide_right_mono) simp
  also have "\<dots> \<le> 2 * (P / W) / 10 ^ 27" using PW by (simp add: field_simps)
  finally have xu: "x \<le> P / W + 3 * (P / W) / 10 ^ 27" using x(2) mu by (simp add: field_simps)
  have dd: "dec_div (dec_mul amount w) W = s * x"
    using s ctx_round_minus [of P] ctx_round_minus [of "m / W"]
    by (auto simp: dec_div_def dec_mul_def P_def m_def x_def)
  have q: "integral_down (s * x * 10 ^ 8) = s * integral_down (x * 10 ^ 8)"
    using s x(1) by (auto simp: integral_down_def ceiling_def)
  have "P \<le> s * amount * W" unfolding P_def using A(1) w by (intro mult_left_mono) simp_all
  then have "P / W \<le> s * amount" using w(3) by (simp add: divide_le_eq)
  with xu A(2) have xb: "x \<le> 10 ^ 18 + 1" by (simp add: field_simps)
  note ib = integral_down_bounds [of "x * 10 ^ 8"]
  have i: "0 \<le> integral_down (x * 10 ^ 8)" "integral_down (x * 10 ^ 8) \<le> x * 10 ^ 8"
    using ib x(1) by simp_all
  have small: "\<bar>s * integral_down (x * 10 ^ 8)\<bar> < 10 ^ 28" using i xb s by auto
  show thesis
  proof (rule that)
    show "quantize_money (dec_div (dec_mul amount w) W) = Inr (s * integral_down (x * 10 ^ 8) / 10 ^ 8)"
      unfolding quantize_money_def dd Let_def q using small by simp
    show "money (s * integral_down (x * 10 ^ 8) / 10 ^ 8)" using s by (auto simp: money_def)
    show "0 \<le> s * (s * integral_down (x * 10 ^ 8) / 10 ^ 8)" using i s by auto
    have "s * (s * integral_down (x * 10 ^ 8) / 10 ^ 8) \<le> x" using i s by auto
    with xu show "s * (s * integral_down (x * 10 ^ 8) / 10 ^ 8)
        \<le> s * amount * w / W + 3 * (s * amount * w / W) / 10 ^ 27"
      unfolding P_def by linarith
  qed
qed

subsection \<open>All the quotients\<close>

lemma res_map_each:
  "(\<And>x. x \<in> set xs \<Longrightarrow> \<exists>y. f x = Inr y \<and> R x y) \<Longrightarrow> \<exists>ys. res_map f xs = Inr ys \<and> list_all2 R xs ys"
proof (induction xs)
  case Nil
  then show ?case by simp
next
  case (Cons x xs)
  from Cons.prems obtain y where "f x = Inr y" "R x y" by force
  moreover obtain ys where "res_map f xs = Inr ys" "list_all2 R xs ys" using Cons by force
  ultimately show ?case by simp
qed

lemma list_all2_sum:
  "list_all2 (\<lambda>w q. f q \<le> (g w :: rat)) ws qs \<Longrightarrow> sum_list (map f qs) \<le> sum_list (map g ws)"
  by (induction rule: list_all2_induct) auto

lemma sum_butlast_last: "xs \<noteq> [] \<Longrightarrow> sum_list (butlast xs) + last xs = (sum_list xs :: rat)"
  by (metis append_butlast_last_id sum_list.Cons sum_list.Nil sum_list_append add.right_neutral)

lemma money_gap:
  assumes "money a" "money b" "b < a + 1 / 10 ^ 8"
  shows "b \<le> a"
proof -
  have "whole ((a - b) * 10 ^ 8)" using money_diff [OF assms(1,2)] by (simp add: money_def)
  then obtain n where n: "(a - b) * 10 ^ 8 = of_int n" by (rule wholeE)
  have "- 1 < (a - b) * 10 ^ 8" using assms(3) by (simp add: field_simps)
  then have "rat_of_int (- 1) < of_int n" unfolding n by simp
  then have "0 \<le> n" unfolding of_int_less_iff by simp
  then have "0 \<le> (a - b) * 10 ^ 8" unfolding n by simp
  then show ?thesis by (simp add: zero_le_mult_iff)
qed

lemma abs_scaled: "s = 1 \<or> s = - 1 \<Longrightarrow> 0 \<le> s * q \<Longrightarrow> \<bar>q\<bar> = s * (q :: rat)"
  by auto

definition fair_parts :: "dec \<Rightarrow> dec list \<Rightarrow> dec list \<Rightarrow> bool" where
  "fair_parts amount weights parts \<longleftrightarrow> length parts = length weights \<and> sum_list parts = amount
     \<and> (\<forall>q \<in> set parts. money q \<and> 0 \<le> q * amount)"

lemma allocate_fair:
  assumes A: "money amount" "\<bar>amount\<bar> \<le> 10 ^ 18" and ne: "weights \<noteq> []"
    and w: "\<And>w. w \<in> set weights \<Longrightarrow> whole w \<and> 0 < w" and W: "sum_list weights \<le> 10 ^ 20"
  shows "\<exists>parts. allocate_money amount weights = Inr parts \<and> fair_parts amount weights parts"
proof (cases "amount = 0")
  case True
  then show ?thesis by (auto simp: allocate_money_def fair_parts_def sum_list_zero_all map_idI o_def sum_list_triv)
next
  case False
  define s where "s = (if 0 < amount then 1 else - (1 :: rat))"
  have s: "s = 1 \<or> s = - 1" "0 < s * amount" "s * amount = \<bar>amount\<bar>" using False by (auto simp: s_def)
  let ?W = "sum_list weights"
  have abs: "(\<Sum>x\<leftarrow>weights. \<bar>x\<bar>) = ?W" 
  proof -
    have "map (\<lambda>x. \<bar>x\<bar>) weights = weights" by (rule map_idI) (use w in \<open>force intro: abs_of_pos\<close>)
    then show ?thesis by simp
  qed
  have dW: "dec_sum weights = ?W" by (rule dec_sum_whole) (use w W abs in auto)
  have le: "x \<le> ?W" if "x \<in> set weights" for x using that w by (intro elem_le_sum_list) (auto intro: less_imp_le)
  have Wpos: "0 < ?W" using le [of "hd weights"] w [of "hd weights"] ne by simp
  let ?bound = "\<lambda>w. s * amount * w / ?W + 3 * (s * amount * w / ?W) / 10 ^ 27"
  have "\<exists>q. quantize_money (dec_div (dec_mul amount x) ?W) = Inr q
      \<and> money q \<and> 0 \<le> s * q \<and> s * q \<le> ?bound x" if x: "x \<in> set weights" for x
    by (rule money_quotient [OF s(1,2) _ _ le [OF x] Wpos]) (use A(2) s(3) w [OF x] in auto)
  from res_map_each [of weights _ "\<lambda>x q. money q \<and> 0 \<le> s * q \<and> s * q \<le> ?bound x", OF this]
  obtain qs where qs: "res_map (\<lambda>x. quantize_money (dec_div (dec_mul amount x) ?W)) weights = Inr qs"
    "list_all2 (\<lambda>x q. money q \<and> 0 \<le> s * q \<and> s * q \<le> ?bound x) weights qs" by blast
  have len: "length qs = length weights" using list_all2_lengthD [OF qs(2)] by simp
  have each: "money q \<and> 0 \<le> s * q" if "q \<in> set qs" for q
    using qs(2) that by (auto simp: list_all2_conv_all_nth in_set_conv_nth)
  have "sum_list (map (\<lambda>q. s * q) qs) \<le> (\<Sum>x\<leftarrow>weights. ?bound x)"
    by (rule list_all2_sum) (use qs(2) in \<open>auto elim: list_all2_mono\<close>)
  also have "(\<Sum>x\<leftarrow>weights. ?bound x) = s * amount + 3 * (s * amount) / 10 ^ 27"
  proof -
    have "?bound = (\<lambda>w. (s * amount / ?W + 3 * (s * amount / ?W) / 10 ^ 27) * w)"
      by (auto simp: fun_eq_iff field_simps)
    then have "(\<Sum>x\<leftarrow>weights. ?bound x) = (s * amount / ?W + 3 * (s * amount / ?W) / 10 ^ 27) * ?W"
      by (simp only: sum_list_const_mult list.map_ident)
    with Wpos show ?thesis by (simp add: field_simps)
  qed
  also have "\<dots> < s * amount + 1 / 10 ^ 8" using A(2) s(3) by simp
  finally have sq: "sum_list (map (\<lambda>q. s * q) qs) < s * amount + 1 / 10 ^ 8" .
  have sum_s: "sum_list (map (\<lambda>q. s * q) qs) = s * sum_list qs" using sum_list_const_mult [of s id qs] by simp
  have ms: "money (s * amount)" "money (s * sum_list qs)"
    using A(1) money_sum_list [of qs] each s(1) by (auto simp: money_def)
  have below: "s * sum_list qs \<le> s * amount"
    using money_gap [OF ms] sq by (simp add: sum_s)
  have absq: "(\<Sum>q\<leftarrow>qs. \<bar>q\<bar>) = s * sum_list qs"
    unfolding sum_s [symmetric]
    by (intro arg_cong [where f = sum_list] map_cong refl abs_scaled [OF s(1)]) (simp add: each)
  have dq: "dec_sum qs = sum_list qs"
    by (rule dec_sum_money) (use each absq below A(2) s(3) in auto)
  have nn: "0 \<le> s * sum_list qs"
    unfolding sum_s [symmetric] using each by (intro sum_list_nonneg) auto
  have rest: "dec_sub amount (sum_list qs) = amount - sum_list qs"
    unfolding dec_sub_def using A money_sum_list [of qs] each below nn s
    by (intro ctx_round_money money_diff) (auto simp: abs_if split: if_splits)
  have qne: "qs \<noteq> []" using len ne by auto
  let ?l = "last qs"
  have lq: "money ?l" "0 \<le> s * ?l" using each [of ?l] qne by auto
  have "s * ?l \<le> s * sum_list qs"
    unfolding sum_s [symmetric] by (rule elem_le_sum_list) (use each qne in auto)
  then have last: "dec_add ?l (amount - sum_list qs) = ?l + (amount - sum_list qs)"
    unfolding dec_add_def using A(1) lq money_sum_list [of qs] each below nn s A(2)
    by (intro ctx_round_money money_add money_diff) (auto simp: abs_if split: if_splits)
  let ?parts = "butlast qs @ [?l + (amount - sum_list qs)]"
  have "allocate_money amount weights = Inr ?parts"
    unfolding allocate_money_def Let_def dW using False Wpos by (simp add: qs(1) dq rest last)
  moreover have "sum_list ?parts = amount" using sum_butlast_last [OF qne] by simp
  moreover have "money q \<and> 0 \<le> q * amount" if q: "q \<in> set ?parts" for q
  proof -
    have "money (?l + (amount - sum_list qs))" "0 \<le> s * (?l + (amount - sum_list qs))"
      using A(1) lq money_sum_list [of qs] each below by (auto simp: distrib_left right_diff_distrib)
    with q each have "money q" "0 \<le> s * q" by (auto dest: in_set_butlastD)
    with s show ?thesis by (auto simp: zero_le_mult_iff)
  qed
  moreover have "length ?parts = length weights" using len qne by (cases qs) auto
  ultimately show ?thesis unfolding fair_parts_def by blast
qed

subsection \<open>The contract\<close>

text \<open>
  C4: Fills are distributed fairly and completely. For an order whose allocations are whole and all
  in its direction, up to \<open>10 ^ 20\<close> shares, and any cumulative fill up to the order, the
  distribution returns, in spite of its open-ended loop; the sleeves' shares are whole, add up to
  the signed fill, stay between zero and the sleeve's allocation, and differ from the exact
  proportional share by less than one share (and a millionth).
\<close>

theorem fill_distribution_fair:
  assumes "one_sided s allocs" "s = (if side = ''BUY'' then 1 else - 1)" "allocs \<noteq> []"
    and "whole c" "0 \<le> c" "c \<le> \<bar>sum_list (map alloc_signed allocs)\<bar>"
  shows "\<exists>xs. proportional_signed_quantities allocs c side = Some (Inr xs) \<and> fair_shares s allocs c xs"
  by (rule proportional_shares [OF assms])

text \<open>
  C8: Fees are allocated exactly. A fee or a fee revision in units of \<open>10 ^ -8\<close> is divided over
  positive whole weights without raising; the parts are in the same units, none has the opposite
  sign, and they add up to the amount.
\<close>

theorem fee_allocation_exact:
  assumes "money amount" "\<bar>amount\<bar> \<le> 10 ^ 18" "weights \<noteq> []"
    and "\<And>w. w \<in> set weights \<Longrightarrow> whole w \<and> 0 < w" "sum_list weights \<le> 10 ^ 20"
  shows "\<exists>parts. allocate_money amount weights = Inr parts \<and> fair_parts amount weights parts"
  by (rule allocate_fair [OF assms])

subsection \<open>Witnesses, and a fill that takes a share back\<close>

definition three_sleeves :: "sleeve_allocation list" where
  "three_sleeves =
     [\<lparr>alloc_intent = ''i1'', alloc_sleeve = ''a'', alloc_signed = 6\<rparr>,
      \<lparr>alloc_intent = ''i2'', alloc_sleeve = ''b'', alloc_signed = 6\<rparr>,
      \<lparr>alloc_intent = ''i3'', alloc_sleeve = ''c'', alloc_signed = 2\<rparr>]"

theorem fill_distribution_fair_witness:
  "\<exists>xs. proportional_signed_quantities three_sleeves 10 ''BUY'' = Some (Inr xs) \<and> fair_shares 1 three_sleeves 10 xs"
proof (rule fill_distribution_fair)
  show "one_sided 1 three_sleeves" by (simp add: one_sided_def three_sleeves_def)
qed (simp_all add: three_sleeves_def)

theorem fee_allocation_exact_witness:
  "\<exists>parts. allocate_money 10 [3, 4] = Inr parts \<and> fair_parts 10 [3, 4] parts"
proof (rule fee_allocation_exact)
  have "(10 :: rat) * 10 ^ 8 = numeral (Num.Bit0 (Num.Bit0 (Num.Bit0 Num.One))) * 125000000" by simp
  then show "money 10" using whole_numeral by (simp add: money_def)
qed auto

text \<open>
  The exact run of the distribution for this order at ten and at eleven filled shares. The shares
  of \<open>c\<close> are 2 and then 1, so the increments of the eleventh share are 1, 1 and -1: a sleeve is
  booked a sale it never made, although every single distribution is fair.
\<close>

lemma exact_digits: "\<bar>m\<bar> < 10 ^ 28 \<Longrightarrow> ctx_round (of_int m / 10 ^ 27) = of_int m / 10 ^ 27"
proof -
  assume m: "\<bar>m\<bar> < 10 ^ 28"
  have "(10 :: rat) powi (- 27) = 1 / 10 ^ 27" by (simp add: power_int_minus inverse_eq_divide)
  then have "(of_int m / 10 ^ 27 :: rat) = of_int m * 10 powi (- 27)" by (simp only: times_divide_eq_right mult_1_right)
  then show ?thesis using m by (rule ctx_round_exact)
qed

lemma three_shares_net: "dec_sum (map alloc_signed three_sleeves) = 14" "dec_mul 14 1 = 14" "dec_abs 14 = 14"
proof -
  have "dec_sum [6, 6, 2] = sum_list [6, 6, 2]" by (rule dec_sum_whole) auto
  then show "dec_sum (map alloc_signed three_sleeves) = 14" by (simp add: three_sleeves_def)
  show "dec_mul 14 1 = 14" "dec_abs 14 = 14" using ctx_round_whole [of 14] by (simp_all add: dec_mul_def dec_abs_def)
qed

lemma three_shares_ten:
  "dec_div 10 14 = 7142857142857142857142857143 / 10 ^ 28"
  "dec_mul 6 (7142857142857142857142857143 / 10 ^ 28) = 4285714285714285714285714286 / 10 ^ 27"
  "dec_mul 2 (7142857142857142857142857143 / 10 ^ 28) = 1428571428571428571428571429 / 10 ^ 27"
  by code_simp+

lemma three_shares_eleven:
  "dec_div 11 14 = 7857142857142857142857142857 / 10 ^ 28"
  "dec_mul 6 (7857142857142857142857142857 / 10 ^ 28) = 4714285714285714285714285714 / 10 ^ 27"
  "dec_mul 2 (7857142857142857142857142857 / 10 ^ 28) = 1571428571428571428571428571 / 10 ^ 27"
  by code_simp+

lemma three_floors:
  "floor_share (4285714285714285714285714286 / 10 ^ 27) = 4"
  "floor_share (1428571428571428571428571429 / 10 ^ 27) = 1"
  "floor_share (4714285714285714285714285714 / 10 ^ 27) = 4"
  "floor_share (1571428571428571428571428571 / 10 ^ 27) = 1"
proof -
  have "floor_share (of_int m / 10 ^ 27) = of_int (m div 10 ^ 27)" if "0 \<le> m" "m < 10 ^ 28" for m
    using floor_share_eq [of 1 "of_int m / 10 ^ 27"] that exact_digits [of m]
    by (simp add: integral_down_def floor_divide_of_int_eq [of m "10 ^ 27", simplified] divide_le_eq)
  from this [of 4285714285714285714285714286] this [of 1428571428571428571428571429]
    this [of 4714285714285714285714285714] this [of 1571428571428571428571428571]
  show "floor_share (4285714285714285714285714286 / 10 ^ 27) = 4"
    "floor_share (1428571428571428571428571429 / 10 ^ 27) = 1"
    "floor_share (4714285714285714285714285714 / 10 ^ 27) = 4"
    "floor_share (1571428571428571428571428571 / 10 ^ 27) = 1" by simp_all
qed

lemma three_scores:
  "dec_neg (dec_sub (4285714285714285714285714286 / 10 ^ 27) 4) = - 285714285714285714285714286 / 10 ^ 27"
  "dec_neg (dec_sub (1428571428571428571428571429 / 10 ^ 27) 1) = - 428571428571428571428571429 / 10 ^ 27"
  "dec_neg (dec_sub (4714285714285714285714285714 / 10 ^ 27) 4) = - 714285714285714285714285714 / 10 ^ 27"
  "dec_neg (dec_sub (4714285714285714285714285714 / 10 ^ 27) 5) = 285714285714285714285714286 / 10 ^ 27"
  "dec_neg (dec_sub (1571428571428571428571428571 / 10 ^ 27) 1) = - 571428571428571428571428571 / 10 ^ 27"
proof -
  have "dec_neg (dec_sub (of_int m / 10 ^ 27) (of_int k)) = of_int (k * 10 ^ 27 - m) / 10 ^ 27"
    if "\<bar>m - k * 10 ^ 27\<bar> < 10 ^ 28" for m k
  proof -
    have "of_int m / 10 ^ 27 - of_int k = (of_int (m - k * 10 ^ 27) / 10 ^ 27 :: rat)" by (simp add: diff_divide_distrib)
    then have "dec_sub (of_int m / 10 ^ 27) (of_int k) = of_int (m - k * 10 ^ 27) / 10 ^ 27"
      unfolding dec_sub_def by (simp only: exact_digits [OF that])
    then show ?thesis
      by (simp only: dec_neg_def ctx_round_minus exact_digits [OF that])
        (simp only: minus_divide_left of_int_minus [symmetric] minus_diff_eq)
  qed
  from this [of 4285714285714285714285714286 4] this [of 1428571428571428571428571429 1]
    this [of 4714285714285714285714285714 4] this [of 4714285714285714285714285714 5]
    this [of 1571428571428571428571428571 1]
  show "dec_neg (dec_sub (4285714285714285714285714286 / 10 ^ 27) 4) = - 285714285714285714285714286 / 10 ^ 27"
    "dec_neg (dec_sub (1428571428571428571428571429 / 10 ^ 27) 1) = - 428571428571428571428571429 / 10 ^ 27"
    "dec_neg (dec_sub (4714285714285714285714285714 / 10 ^ 27) 4) = - 714285714285714285714285714 / 10 ^ 27"
    "dec_neg (dec_sub (4714285714285714285714285714 / 10 ^ 27) 5) = 285714285714285714285714286 / 10 ^ 27"
    "dec_neg (dec_sub (1571428571428571428571428571 / 10 ^ 27) 1) = - 571428571428571428571428571 / 10 ^ 27"
    by simp_all
qed

lemma three_run_ten: "proportional_signed_quantities three_sleeves 10 ''BUY'' = Some (Inr [4, 4, 2])"
proof -
  define x y where "x = (4285714285714285714285714286 / 10 ^ 27 :: rat)" and "y = (1428571428571428571428571429 / 10 ^ 27 :: rat)"
  note floors = three_floors [folded x_def y_def] and scores = three_scores [folded x_def y_def]
  have xy: "4 < x" "1 < y" by (simp_all add: x_def y_def)
  have ideals: "map (\<lambda>a. dec_mul (alloc_signed a) (dec_div 10 14)) three_sleeves = [x, x, y]"
    by (simp only: three_sleeves_def list.map sleeve_allocation.select_convs three_shares_ten x_def y_def)
  have sums: "dec_sum [4, 4, 1] = 9" "dec_mul 10 1 = 10" "dec_sub 10 9 = 1" "dec_add 1 1 = 2" "dec_sub 1 1 = 0"
  proof -
    have "dec_sum [4, 4, 1] = sum_list [4, 4, 1]" by (rule dec_sum_whole) auto
    then show "dec_sum [4, 4, 1] = 9" by simp
    show "dec_mul 10 1 = 10" using ctx_round_whole [of 10] by (simp add: dec_mul_def)
    show "dec_sub 10 9 = 1" "dec_add 1 1 = 2" "dec_sub 1 1 = 0" by (simp_all add: dec_whole_ops)
  qed
  have cand: "candidates 1 three_sleeves [x, x, y] [4, 4, 1] =
      [(dec_neg (dec_sub x 4), ''a'', ''i1'', 0), (dec_neg (dec_sub x 4), ''b'', ''i2'', 1),
       (dec_neg (dec_sub y 1), ''c'', ''i3'', 2)]"
    by (simp add: candidates_def three_sleeves_def candidate_score_def upt_rec)
  have step: "remainder_loop three_sleeves [x, x, y] [4, 4, 1] 1 = Some (Inr [4, 4, 2])"
    by (subst remainder_loop.simps)
      (simp add: cand scores better_def sums, simp add: remainder_loop.simps)
  show ?thesis
    unfolding proportional_signed_quantities_def Let_def three_shares_net ideals
    by (simp add: three_shares_net floors sums step)
qed

lemma three_run_eleven: "proportional_signed_quantities three_sleeves 11 ''BUY'' = Some (Inr [5, 5, 1])"
proof -
  define x y where "x = (4714285714285714285714285714 / 10 ^ 27 :: rat)" and "y = (1571428571428571428571428571 / 10 ^ 27 :: rat)"
  note floors = three_floors [folded x_def y_def] and scores = three_scores [folded x_def y_def]
  have ideals: "map (\<lambda>a. dec_mul (alloc_signed a) (dec_div 11 14)) three_sleeves = [x, x, y]"
    by (simp only: three_sleeves_def list.map sleeve_allocation.select_convs three_shares_eleven x_def y_def)
  have sums: "dec_sum [4, 4, 1] = 9" "dec_mul 11 1 = 11" "dec_sub 11 9 = 2" "dec_add 4 1 = 5"
    "dec_sub 2 1 = 1" "dec_sub 1 1 = 0"
  proof -
    have "dec_sum [4, 4, 1] = sum_list [4, 4, 1]" by (rule dec_sum_whole) auto
    then show "dec_sum [4, 4, 1] = 9" by simp
    show "dec_mul 11 1 = 11" using ctx_round_whole [of 11] by (simp add: dec_mul_def)
    show "dec_sub 11 9 = 2" "dec_add 4 1 = 5" "dec_sub 2 1 = 1" "dec_sub 1 1 = 0" by (simp_all add: dec_whole_ops)
  qed
  have cand: "candidates 1 three_sleeves [x, x, y] [4, 4, 1] =
      [(dec_neg (dec_sub x 4), ''a'', ''i1'', 0), (dec_neg (dec_sub x 4), ''b'', ''i2'', 1),
       (dec_neg (dec_sub y 1), ''c'', ''i3'', 2)]"
    "candidates 1 three_sleeves [x, x, y] [5, 4, 1] =
      [(dec_neg (dec_sub x 5), ''a'', ''i1'', 0), (dec_neg (dec_sub x 4), ''b'', ''i2'', 1),
       (dec_neg (dec_sub y 1), ''c'', ''i3'', 2)]"
    by (simp_all add: candidates_def three_sleeves_def candidate_score_def upt_rec)
  have "remainder_loop three_sleeves [x, x, y] [4, 4, 1] 2 = remainder_loop three_sleeves [x, x, y] [5, 4, 1] 1"
    by (subst remainder_loop.simps) (simp add: cand scores better_def sums)
  also have "\<dots> = remainder_loop three_sleeves [x, x, y] [5, 5, 1] 0"
    by (subst remainder_loop.simps) (simp add: cand scores better_def sums)
  also have "\<dots> = Some (Inr [5, 5, 1])" by (subst remainder_loop.simps) simp
  finally have step: "remainder_loop three_sleeves [x, x, y] [4, 4, 1] 2 = Some (Inr [5, 5, 1])" .
  show ?thesis
    unfolding proportional_signed_quantities_def Let_def three_shares_net ideals
    by (simp add: three_shares_net floors sums step)
qed

text \<open>
  Cumulative distributions are not monotone. For the order of 6, 6 and 2 shares, filling the
  eleventh share after ten gives the sleeves the increments 1, 1 and -1, which
  \<open>apply_execution_events\<close> books: a sleeve of a buy order is booked a negative fill.
\<close>

theorem fill_increment_reverses:
  "fill_increments three_sleeves 10 11 ''BUY'' = Some (Inr [1, 1, - 1])"
  by (simp add: fill_increments_def three_run_ten three_run_eleven dec_whole_ops)

end
