(* ===== verification/Clean_Text.thy ===== *)
theory Clean_Text
  imports Portfolio_Plan
begin

section \<open>Clean texts: what the field checks accept and return\<close>

text \<open>
  A \<open>clean\<close> text is non-empty, has no white space at its ends and no control character. The
  field checks of the program return clean texts and accept clean texts unchanged, so checks can
  be repeated, which is what validation of stored and replayed values does.
\<close>

definition clean :: "string \<Rightarrow> bool" where
  "clean s \<longleftrightarrow> s \<noteq> [] \<and> \<not> is_space (hd s) \<and> \<not> is_space (last s) \<and> list_all (\<lambda>c. 32 \<le> code c) s"

lemma dropWhile_id: "xs = [] \<or> \<not> P (hd xs) \<Longrightarrow> dropWhile P xs = xs"
  by (cases xs) auto

lemma strip_ends: "\<not> is_space (hd s) \<Longrightarrow> \<not> is_space (last s) \<Longrightarrow> strip s = s"
  unfolding strip_def by (cases "s = []") (simp_all add: dropWhile_id hd_rev)

lemma strip_ends_clean:
  assumes ne: "strip s \<noteq> []"
  shows "\<not> is_space (hd (strip s)) \<and> \<not> is_space (last (strip s))"
proof -
  let ?d = "rev (dropWhile is_space s)"
  have s: "strip s = rev (dropWhile is_space ?d)" by (simp add: strip_def)
  have "dropWhile is_space (strip s) = strip s" using dropWhile_rev_strip [of is_space s] by (simp add: s)
  with ne have "\<not> is_space (hd (strip s))" using hd_dropWhile [of is_space "strip s"] by simp
  moreover have "\<not> is_space (hd (rev (strip s)))"
    using hd_dropWhile [of is_space ?d] ne by (simp add: s)
  ultimately show ?thesis using ne by (simp add: hd_rev)
qed

lemma text_field_clean: "text_field v f = Inr s \<Longrightarrow> clean s"
  unfolding text_field_def clean_def using strip_ends_clean
  by (auto simp: Let_def list_ex_iff list_all_iff not_less split: if_splits)

lemma clean_text_field [simp]: "clean s \<Longrightarrow> text_field (PStr s) f = Inr s"
  unfolding text_field_def clean_def
  by (auto simp: Let_def strip_ends list_ex_iff list_all_iff not_less)

lemma clean_join: "clean a \<Longrightarrow> clean b \<Longrightarrow> list_all (\<lambda>c. 32 \<le> code c) m \<Longrightarrow> clean (a @ m @ b)"
  unfolding clean_def by auto

lemma clean_strip: "clean s \<Longrightarrow> strip s = s"
  unfolding clean_def by (simp add: strip_ends)

lemma clean_nonempty: "clean s \<Longrightarrow> s \<noteq> []"
  by (simp add: clean_def)

lemma clean_seal [simp]: "clean (seal v)"
proof -
  have "no_space (seal v)" using seal_pattern [of v]
    by (auto simp: sha_pattern_def no_space_def list_all_iff dest: hex_digit_facts(1))
  moreover have "seal v \<noteq> []" by simp
  ultimately show ?thesis using seal_text(4) [of v]
    by (auto simp: clean_def no_space_def list_all_iff simp del: seal_text)
qed

lemma is_space_lower [simp]: "is_space (to_lower c) = is_space c"
  by (auto simp: is_space_def to_lower_def is_upper_def)

lemma is_space_upper [simp]: "is_space (to_upper c) = is_space c"
  by (auto simp: is_space_def to_upper_def is_lower_def)

lemma code_to_lower [simp]: "32 \<le> code c \<Longrightarrow> 32 \<le> code (to_lower c)"
  by (auto simp: to_lower_def is_upper_def)

lemma clean_lower: "clean s \<Longrightarrow> clean (lower s)"
  unfolding clean_def lower_def by (auto simp: hd_map last_map list_all_iff)

end
