(* ===== verification/Portfolio_Plan_Laws.thy ===== *)
theory Portfolio_Plan_Laws
  imports Portfolio_Plan Portfolio_Cross Clean_Text "HOL-Library.Multiset"
begin

section \<open>Net plans: conservation, soundness, the sealed round trip\<close>

text \<open>
  The contract of the planning half of \<open>portfolio_execution.py\<close>. A plan built from well-formed
  targets conserves every sleeve's delta, nets to the broker order and never sends two sleeves to
  the broker in opposite directions; its metadata validates to the same plan; and metadata with
  the same plan identity describes the same order.

  The exactness bound is the precision of Python's default decimal context: whole numbers up to
  \<open>10 ^ 28\<close> add and subtract without rounding.
\<close>

subsection \<open>Well-formed targets and deltas\<close>

definition good_symbol :: "string \<Rightarrow> bool" where
  "good_symbol s \<longleftrightarrow> length s = 6 \<and> list_all is_digit s"

definition good_target :: "sleeve_target \<Rightarrow> bool" where
  "good_target t \<longleftrightarrow> clean (target_intent t) \<and> clean (target_sleeve t) \<and> good_symbol (target_symbol t)
     \<and> whole (target_quantity t) \<and> 0 \<le> target_quantity t"

definition good_delta :: "sleeve_delta \<Rightarrow> bool" where
  "good_delta d \<longleftrightarrow> clean (delta_intent d) \<and> clean (delta_sleeve d)
     \<and> whole (delta_current d) \<and> 0 \<le> delta_current d \<and> delta_current d \<le> 10 ^ 28
     \<and> whole (delta_target d) \<and> 0 \<le> delta_target d \<and> delta_target d \<le> 10 ^ 28
     \<and> delta_signed d = delta_target d - delta_current d"

lemma quantity_field_ok: "quantity_field v f z = Inr q \<Longrightarrow> whole q \<and> 0 \<le> q \<and> (\<not> z \<longrightarrow> q \<noteq> 0)"
  by (auto simp: quantity_field_def decimal_field_def split: if_splits pyval.splits option.splits)

lemma signed_field_ok: "signed_quantity_field v f = Inr q \<Longrightarrow> whole q"
  by (auto simp: signed_quantity_field_def split: if_splits)

lemma canonical_symbol_ok: "canonical_kis_symbol v = Inr s \<Longrightarrow> good_symbol s"
  unfolding canonical_kis_symbol_def good_symbol_def by (auto simp: Let_def split: if_splits)

lemma make_sleeve_target_ok: "make_sleeve_target i s y q = Inr t \<Longrightarrow> good_target t"
  unfolding make_sleeve_target_def good_target_def
  by (auto dest: text_field_clean canonical_symbol_ok quantity_field_ok)

lemma digit_not_lower: "is_digit c \<Longrightarrow> to_upper c = c"
  by (auto simp: is_digit_def to_upper_def is_lower_def)

lemma digit_text: "is_digit c \<Longrightarrow> \<not> is_space c \<and> 32 \<le> code c"
  by (auto simp: is_digit_def is_space_def)

lemma good_symbol_clean: "good_symbol s \<Longrightarrow> clean s"
proof -
  assume g: "good_symbol s"
  then have "s \<noteq> []" by (auto simp: good_symbol_def)
  moreover from this have "hd s \<in> set s" "last s \<in> set s" by simp_all
  ultimately show ?thesis using g digit_text by (simp add: good_symbol_def clean_def list_all_iff)
qed

lemma good_symbol_digits:
  assumes "good_symbol s"
  shows "upper s = s" "\<not> starts_with s ''KRX:''" "\<not> ends_with s ''.KS''" "\<not> ends_with s ''.KQ''"
proof -
  have d: "\<forall>c \<in> set s. is_digit c" and l: "length s = 6" using assms by (auto simp: good_symbol_def list_all_iff)
  show "upper s = s" unfolding upper_def by (rule map_idI) (use d digit_not_lower in auto)
  have "hd s \<in> set s" using l by (cases s) auto
  with d have "is_digit (hd s)" by blast
  then show "\<not> starts_with s ''KRX:''"
    using l by (cases s) (auto simp: starts_with_def is_digit_def prefix_def)
  have "last s \<in> set s" using l by (cases s) auto
  with d have "is_digit (last s)" by blast
  then show "\<not> ends_with s ''.KS''" "\<not> ends_with s ''.KQ''"
    by (auto simp: ends_with_def suffix_def is_digit_def)
qed

lemma canonical_symbol_again: "good_symbol s \<Longrightarrow> canonical_kis_symbol (PStr s) = Inr s"
  using good_symbol_digits [of s]
  by (simp add: canonical_kis_symbol_def good_symbol_clean Let_def) (simp add: good_symbol_def)

subsection \<open>Parsing back what was written\<close>

lemma decimal_text_field:
  "(case m of None \<Rightarrow> True | Some l \<Rightarrow> l \<le> ctx_round v) \<Longrightarrow> decimal_field (PStr (dec_text v)) f m = Inr (ctx_round v)"
  by (auto simp: decimal_field_def dec_parse_text split: option.splits)

lemma quantity_text_field:
  "whole v \<Longrightarrow> 0 \<le> v \<Longrightarrow> v \<le> 10 ^ 28 \<Longrightarrow> quantity_field (PStr (dec_text v)) f True = Inr v"
  using decimal_text_field [of v "Some 0"] by (simp add: quantity_field_def ctx_round_whole)

lemma signed_text_field:
  "whole v \<Longrightarrow> \<bar>v\<bar> \<le> 10 ^ 28 \<Longrightarrow> signed_quantity_field (PStr (dec_text v)) f = Inr v"
  using decimal_text_field [of v None] by (simp add: signed_quantity_field_def ctx_round_whole)

lemma delta_roundtrip: "good_delta d \<Longrightarrow> delta_from_json (delta_json d) = Inr d"
proof -
  assume g: "good_delta d"
  then have b: "\<bar>delta_target d - delta_current d\<bar> \<le> 10 ^ 28" "whole (delta_target d - delta_current d)"
    by (auto simp: good_delta_def)
  with g show ?thesis
    by (simp add: delta_from_json_def delta_json_def good_delta_def quantity_text_field signed_text_field
        dec_sub_whole)
qed

lemma allocation_roundtrip:
  "clean (alloc_intent a) \<Longrightarrow> clean (alloc_sleeve a) \<Longrightarrow> whole (alloc_signed a) \<Longrightarrow> \<bar>alloc_signed a\<bar> \<le> 10 ^ 28 \<Longrightarrow>
   allocation_from_json (as_dict (allocation_json a)) = Inr a"
  by (simp add: allocation_from_json_def allocation_json_def signed_text_field)

definition good_allocations :: "sleeve_allocation list \<Rightarrow> bool" where
  "good_allocations as \<longleftrightarrow> distinct (map allocation_key as)
     \<and> (\<forall>a \<in> set as. clean (alloc_intent a) \<and> clean (alloc_sleeve a) \<and> whole (alloc_signed a)
          \<and> \<bar>alloc_signed a\<bar> \<le> 10 ^ 28 \<and> alloc_signed a \<noteq> 0)"

lemma allocations_roundtrip:
  assumes "good_allocations as" "dict_get payload f = PList (map allocation_json as)" "as \<noteq> [] \<or> z"
  shows "allocations_from_metadata payload f z = Inr as"
proof -
  have "filter is_dict (map allocation_json as) = map allocation_json as"
    by (rule filter_True) (auto simp: allocation_json_def)
  moreover have "res_map allocation_from_json (map as_dict (map allocation_json as)) = Inr as"
    unfolding res_map_Inr_iff using assms(1) allocation_roundtrip
    by (auto simp: list_all2_conv_all_nth good_allocations_def)
  ultimately show ?thesis
    using assms by (auto simp: allocations_from_metadata_def good_allocations_def list_ex_iff)
qed

lemma keys_of_part: "map allocation_key (map (\<lambda>d. make_allocation d (q d)) ds) = map delta_key ds"
  by (simp add: allocation_key_def make_allocation_def delta_key_def)

lemma good_parts:
  assumes ok: "crossable ds" and "\<forall>d \<in> set ds. clean (delta_intent d) \<and> clean (delta_sleeve d)"
  shows "good_allocations (internal_part ds)" "good_allocations (external_part ds)"
proof -
  have dk: "distinct (map delta_key (filter P ds))" for P
    using ok by (simp add: crossable_def distinct_map_filter)
  have b: "whole (crossed_of ds d)" "\<bar>crossed_of ds d\<bar> \<le> 10 ^ 28" "whole (delta_signed d - crossed_of ds d)"
    "\<bar>delta_signed d - crossed_of ds d\<bar> \<le> 10 ^ 28" if "d \<in> set ds" for d
    using crossed_whole [OF ok that] crossed_within [OF ok that] crossable_abs [OF ok that] ok that
    by (auto simp: crossable_def list_all_iff)
  show "good_allocations (internal_part ds)" "good_allocations (external_part ds)"
    unfolding good_allocations_def internal_part_def external_part_def keys_of_part
    using dk assms(2) b by (auto simp: make_allocation_def)
qed

subsection \<open>What a built plan is\<close>

definition signed_net :: "symbol_net_plan \<Rightarrow> rat" where
  "signed_net p = (if plan_side p = ''BUY'' then plan_quantity p
     else if plan_side p = ''SELL'' then - plan_quantity p else 0)"

definition allocated_to :: "sleeve_allocation list \<Rightarrow> cross_key \<Rightarrow> rat" where
  "allocated_to as k = sum_list (map alloc_signed (filter (\<lambda>a. allocation_key a = k) as))"

definition total_shares :: "symbol_net_plan \<Rightarrow> rat" where
  "total_shares p = (\<Sum>d\<leftarrow>plan_deltas p. delta_current d + delta_target d)"

definition sealed_payload :: "symbol_net_plan \<Rightarrow> pydict" where
  "sealed_payload p = plan_payload (plan_schema p) (plan_scope p) (plan_portfolio p)
     (plan_portfolio_hash p) (plan_symbol p) (plan_side p) (plan_quantity p) (plan_reference_price p)
     (plan_deltas p) (plan_internal p) (plan_allocations p)"

definition good_plan :: "symbol_net_plan \<Rightarrow> bool" where
  "good_plan p \<longleftrightarrow> list_all good_delta (plan_deltas p) \<and> plan_deltas p \<noteq> []
     \<and> crossable (plan_deltas p)
     \<and> plan_internal p = internal_part (plan_deltas p)
     \<and> plan_allocations p = external_part (plan_deltas p)
     \<and> plan_side p = net_side (sum_list (map delta_signed (plan_deltas p)))
     \<and> plan_quantity p = \<bar>sum_list (map delta_signed (plan_deltas p))\<bar>
     \<and> plan_id p = seal (PDict (sealed_payload p)) \<and> plan_schema p = plan_schema_version
     \<and> clean (plan_scope p) \<and> clean (plan_portfolio p) \<and> clean (plan_portfolio_hash p)
     \<and> lower (plan_portfolio_hash p) = plan_portfolio_hash p \<and> good_symbol (plan_symbol p)
     \<and> 0 \<le> plan_reference_price p \<and> (plan_internal p \<noteq> [] \<longrightarrow> 0 < plan_reference_price p)"

lemma dec_sum_signed:
  assumes "crossable ds"
  shows "dec_sum (map delta_signed ds) = sum_list (map delta_signed ds)"
    "whole (sum_list (map delta_signed ds))" "\<bar>sum_list (map delta_signed ds)\<bar> \<le> 10 ^ 28"
proof -
  have w: "\<And>d. d \<in> set ds \<Longrightarrow> whole (delta_signed d)" using assms by (simp add: crossable_def list_all_iff)
  with dec_sum_part [OF assms, of delta_signed "\<lambda>_. True"]
  show "dec_sum (map delta_signed ds) = sum_list (map delta_signed ds)" by simp
  show "whole (sum_list (map delta_signed ds))" using w by (rule whole_sum_list)
  show "\<bar>sum_list (map delta_signed ds)\<bar> \<le> 10 ^ 28"
    using totals_nonneg [of ds] assms abs_by_side [of ds]
    by (auto simp: net_by_side crossable_def)
qed

lemma dec_abs_net: "crossable ds \<Longrightarrow> dec_abs (dec_sum (map delta_signed ds)) = \<bar>sum_list (map delta_signed ds)\<bar>"
  using dec_sum_signed [of ds] by (simp add: dec_abs_whole)

lemma build_delta_shape:
  assumes "build_delta positions symbol t = Inr d"
  obtains current where "whole current" "0 \<le> current"
    "d = \<lparr>delta_intent = target_intent t, delta_sleeve = target_sleeve t, delta_current = current,
          delta_target = target_quantity t, delta_signed = dec_sub (target_quantity t) current\<rparr>"
proof -
  let ?raw = "case positions (target_sleeve t, symbol) of None \<Rightarrow> PInt 0 | Some v \<Rightarrow> v"
  obtain current where c: "quantity_field ?raw (''current position '' @ target_sleeve t @ ''/'' @ symbol) True = Inr current"
    and d: "d = \<lparr>delta_intent = target_intent t, delta_sleeve = target_sleeve t, delta_current = current,
          delta_target = target_quantity t, delta_signed = dec_sub (target_quantity t) current\<rparr>"
    using assms by (auto simp: build_delta_def Let_def split: if_splits)
  from quantity_field_ok [OF c] d that show thesis by blast
qed

lemma build_delta_ok:
  assumes "build_delta positions symbol t = Inr d" "good_target t"
    and "delta_current d + delta_target d \<le> 10 ^ 28"
  shows "good_delta d \<and> delta_intent d = target_intent t \<and> delta_sleeve d = target_sleeve t
    \<and> delta_target d = target_quantity t"
proof -
  obtain current where c: "whole current" "0 \<le> current"
    "d = \<lparr>delta_intent = target_intent t, delta_sleeve = target_sleeve t, delta_current = current,
          delta_target = target_quantity t, delta_signed = dec_sub (target_quantity t) current\<rparr>"
    using assms(1) by (rule build_delta_shape)
  have t: "whole (target_quantity t)" "0 \<le> target_quantity t" "clean (target_intent t)" "clean (target_sleeve t)"
    using assms(2) by (auto simp: good_target_def)
  have "dec_sub (target_quantity t) current = target_quantity t - current"
    by (rule dec_sub_whole) (use c t assms(3) in auto)
  with c t assms(3) show ?thesis by (simp add: good_delta_def)
qed

lemma build_deltas_ok:
  assumes pair: "list_all2 (\<lambda>t d. build_delta positions symbol t = Inr d) items deltas"
    and good: "list_all good_target items" and bound: "(\<Sum>d\<leftarrow>deltas. delta_current d + delta_target d) \<le> 10 ^ 28"
  shows "list_all good_delta deltas"
    and "map (\<lambda>d. (delta_intent d, delta_sleeve d, delta_target d)) deltas
      = map (\<lambda>t. (target_intent t, target_sleeve t, target_quantity t)) items"
proof -
  have nn: "0 \<le> delta_current (deltas ! i) + delta_target (deltas ! i)" if "i < length deltas" for i
  proof -
    have "build_delta positions symbol (items ! i) = Inr (deltas ! i)" "good_target (items ! i)"
      using pair good that by (auto simp: list_all2_conv_all_nth list_all_length)
    then show ?thesis by (elim build_delta_shape) (simp add: good_target_def)
  qed
  have ok: "good_delta (deltas ! i) \<and> delta_intent (deltas ! i) = target_intent (items ! i)
      \<and> delta_sleeve (deltas ! i) = target_sleeve (items ! i) \<and> delta_target (deltas ! i) = target_quantity (items ! i)"
    if i: "i < length deltas" for i
  proof (rule build_delta_ok)
    show "build_delta positions symbol (items ! i) = Inr (deltas ! i)" "good_target (items ! i)"
      using pair good i by (auto simp: list_all2_conv_all_nth list_all_length)
    have "delta_current (deltas ! i) + delta_target (deltas ! i) \<le> (\<Sum>d\<leftarrow>deltas. delta_current d + delta_target d)"
      using i nn by (intro elem_le_sum_list) (auto simp: in_set_conv_nth [of _ deltas] intro!: imageI nth_mem)
    with bound show "delta_current (deltas ! i) + delta_target (deltas ! i) \<le> 10 ^ 28" by linarith
  qed
  then show "list_all good_delta deltas" by (simp add: list_all_length)
  show "map (\<lambda>d. (delta_intent d, delta_sleeve d, delta_target d)) deltas
      = map (\<lambda>t. (target_intent t, target_sleeve t, target_quantity t)) items"
    using ok list_all2_lengthD [OF pair] by (auto intro: nth_equalityI)
qed

lemma good_deltas_crossable:
  assumes "list_all good_delta ds" "distinct (map delta_intent ds)"
    and "(\<Sum>d\<leftarrow>ds. delta_current d + delta_target d) \<le> 10 ^ 28"
  shows "crossable ds"
  unfolding crossable_def
proof (intro conjI)
  show "distinct (map delta_key ds)"
    using assms(2) by (auto simp: distinct_map delta_key_def inj_on_def)
  show "list_all (\<lambda>d. whole (delta_signed d)) ds"
    using assms(1) by (auto simp: list_all_iff good_delta_def)
  have "(\<Sum>d\<leftarrow>ds. \<bar>delta_signed d\<bar>) \<le> (\<Sum>d\<leftarrow>ds. delta_current d + delta_target d)"
    using assms(1) by (intro sum_list_mono) (auto simp: list_all_iff good_delta_def)
  with assms(3) show "(\<Sum>d\<leftarrow>ds. \<bar>delta_signed d\<bar>) \<le> 10 ^ 28" by linarith
qed

lemma decimal_field_min: "decimal_field v f (Some m) = Inr q \<Longrightarrow> m \<le> q"
  by (auto simp: decimal_field_def split: pyval.splits option.splits if_splits)

lemma build_good:
  assumes build: "build_symbol_net_plan scope portfolio phash targets positions broker price = Inr p"
    and targets: "list_all good_target targets" and bound: "total_shares p \<le> 10 ^ 28"
  shows "good_plan p"
    and "mset (map (\<lambda>d. (delta_intent d, delta_sleeve d, delta_target d)) (plan_deltas p))
      = mset (map (\<lambda>t. (target_intent t, target_sleeve t, target_quantity t)) targets)"
    and "plan_side p = ''SELL'' \<Longrightarrow> \<exists>held f. quantity_field broker f True = Inr held \<and> plan_quantity p \<le> held"
proof -
  define items where "items = sort_key (\<lambda>t. target_sleeve t) (sort_key (\<lambda>t. target_intent t) targets)"
  define symbol where "symbol = target_symbol (hd targets)"
  obtain s pf h deltas held q where
    texts: "text_field scope ''scope_id'' = Inr s" "text_field portfolio ''portfolio_id'' = Inr pf"
      "text_field phash ''portfolio_hash'' = Inr h"
    and ne: "targets \<noteq> []" "distinct (map target_intent targets)"
    and deltas: "res_map (build_delta positions symbol) items = Inr deltas"
    and held: "quantity_field broker (''broker holding '' @ symbol) True = Inr held"
      "\<not> (dec_sum (map delta_signed deltas) < 0 \<and> held < dec_neg (dec_sum (map delta_signed deltas)))"
    and split: "split_allocations deltas = Inr (plan_internal p, plan_allocations p)"
    and price: "decimal_field price ''reference_price'' (Some 0) = Inr q" "\<not> (plan_internal p \<noteq> [] \<and> q \<le> 0)"
    and p: "plan_scope p = s" "plan_portfolio p = pf" "plan_portfolio_hash p = lower h" "plan_symbol p = symbol"
      "plan_deltas p = deltas" "plan_reference_price p = q" "plan_schema p = plan_schema_version"
      "plan_side p = net_side (dec_sum (map delta_signed deltas))"
      "plan_quantity p = dec_abs (dec_sum (map delta_signed deltas))"
      "plan_id p = seal (PDict (sealed_payload p))"
    using build unfolding build_symbol_net_plan_def Let_def items_def symbol_def sealed_payload_def
    by (auto split: if_splits)
  have items: "mset items = mset targets" by (simp add: items_def)
  have pair: "list_all2 (\<lambda>t d. build_delta positions symbol t = Inr d) items deltas"
    using deltas by (simp add: res_map_Inr_iff)
  have good_items: "list_all good_target items"
    using targets items by (metis list.pred_set mset_eq_setD)
  note d = build_deltas_ok [OF pair good_items, folded p(5), folded total_shares_def, OF bound]
  show msets: "mset (map (\<lambda>d. (delta_intent d, delta_sleeve d, delta_target d)) (plan_deltas p))
      = mset (map (\<lambda>t. (target_intent t, target_sleeve t, target_quantity t)) targets)"
    unfolding d(2) by (simp add: items)
  have "mset (map delta_intent (plan_deltas p)) = mset (map target_intent targets)"
    using arg_cong [OF msets, of "image_mset fst"] by (simp add: image_mset.compositionality o_def)
  then have "distinct (map delta_intent (plan_deltas p))" using ne(2) by (metis mset_eq_imp_distinct_iff)
  with d(1) have cross: "crossable (plan_deltas p)"
    using bound by (intro good_deltas_crossable) (simp_all add: total_shares_def)
  note net = dec_sum_signed [OF cross, unfolded p(5)] dec_abs_net [OF cross, unfolded p(5)]
  have "plan_deltas p \<noteq> []" using list_all2_lengthD [OF pair] items ne(1) p(5)
    by (metis length_0_conv mset_zero_iff)
  moreover have "good_symbol symbol" using targets ne(1) by (cases targets) (auto simp: symbol_def good_target_def)
  ultimately show "good_plan p"
    unfolding good_plan_def
    using d(1) cross split_allocations_eq [OF cross] split p price text_field_clean [OF texts(1)]
      text_field_clean [OF texts(2)] clean_lower [OF text_field_clean [OF texts(3)]] net decimal_field_min [OF price(1)]
    by auto
  assume "plan_side p = ''SELL''"
  then have neg: "sum_list (map delta_signed deltas) < 0" using p(8) net by (auto simp: net_side_def split: if_splits)
  then have "dec_neg (dec_sum (map delta_signed deltas)) = plan_quantity p"
    using net p(9) by (simp add: dec_neg_whole)
  with neg held net(1) show "\<exists>held f. quantity_field broker f True = Inr held \<and> plan_quantity p \<le> held"
    by (metis not_less)
qed

subsection \<open>What validated metadata is\<close>

lemma good_delta_abs: "good_delta d \<Longrightarrow> \<bar>delta_signed d\<bar> \<le> delta_current d + delta_target d"
  unfolding good_delta_def by (auto simp: abs_if)

lemma delta_from_json_facts:
  assumes "delta_from_json raw = Inr d"
  shows "clean (delta_intent d)" "clean (delta_sleeve d)" "whole (delta_current d)" "0 \<le> delta_current d"
    "whole (delta_target d)" "0 \<le> delta_target d" "delta_signed d = dec_sub (delta_target d) (delta_current d)"
proof -
  obtain item f g h k where q: "quantity_field (dict_get item ''currentQuantity'') f True = Inr (delta_current d)"
    "quantity_field (dict_get item ''targetQuantity'') g True = Inr (delta_target d)"
    and t: "text_field (dict_get item ''intentId'') h = Inr (delta_intent d)"
    "text_field (dict_get item ''sleeveId'') k = Inr (delta_sleeve d)"
    and s: "delta_signed d = dec_sub (delta_target d) (delta_current d)"
    using assms unfolding delta_from_json_def by (auto split: pyval.splits if_splits)
  show "delta_signed d = dec_sub (delta_target d) (delta_current d)" by (rule s)
  show "clean (delta_intent d)" "clean (delta_sleeve d)" by (rule text_field_clean [OF t(1)], rule text_field_clean [OF t(2)])
  show "whole (delta_current d)" "0 \<le> delta_current d" "whole (delta_target d)" "0 \<le> delta_target d"
    using quantity_field_ok [OF q(1)] quantity_field_ok [OF q(2)] by simp_all
qed

lemma delta_from_json_ok:
  assumes "delta_from_json raw = Inr d" "delta_current d + delta_target d \<le> 10 ^ 28"
  shows "good_delta d"
proof -
  note d = delta_from_json_facts [OF assms(1)]
  have "dec_sub (delta_target d) (delta_current d) = delta_target d - delta_current d"
    by (rule dec_sub_whole) (use d assms(2) in auto)
  with d assms(2) show ?thesis by (simp add: good_delta_def)
qed

lemma delta_from_json_nonneg: "delta_from_json raw = Inr d \<Longrightarrow> 0 \<le> delta_current d + delta_target d"
  using delta_from_json_facts(4,6) [of raw d] by simp

lemma validate_facts:
  assumes "validate_symbol_net_plan_metadata v = Inr p"
  obtains payload raw where "v = PDict payload" "dict_get payload ''sleeveDeltas'' = PList raw" "raw \<noteq> []"
    "res_map delta_from_json raw = Inr (plan_deltas p)" "distinct (map delta_key (plan_deltas p))"
    "split_allocations (plan_deltas p) = Inr (plan_internal p, plan_allocations p)"
    "plan_side p = net_side (dec_sum (map delta_signed (plan_deltas p)))"
    "plan_quantity p = dec_abs (dec_sum (map delta_signed (plan_deltas p)))"
    "plan_id p = seal (PDict (sealed_payload p))" "plan_schema p = plan_schema_version"
    "clean (plan_scope p)" "clean (plan_portfolio p)" "clean (plan_portfolio_hash p)"
    "lower (plan_portfolio_hash p) = plan_portfolio_hash p" "good_symbol (plan_symbol p)"
    "0 \<le> plan_reference_price p" "plan_internal p \<noteq> [] \<longrightarrow> 0 < plan_reference_price p" "clean (plan_id p)"
proof -
  obtain payload where v: "v = PDict payload"
    using assms by (cases v) (simp_all add: validate_symbol_net_plan_metadata_def)
  note run = assms [unfolded validate_symbol_net_plan_metadata_def v pyval.case Let_def]
  obtain raw where raw: "dict_get payload ''sleeveDeltas'' = PList raw"
    using run by (cases "dict_get payload ''sleeveDeltas''") (auto split: if_splits)
  obtain schema scope portfolio phash0 symbol side quantity price pid f where
    head: "schema = plan_schema_version" "text_field (dict_get payload ''scopeId'') ''scopeId'' = Inr scope"
      "text_field (dict_get payload ''portfolioId'') ''portfolioId'' = Inr portfolio"
      "text_field (dict_get payload ''portfolioHash'') ''portfolioHash'' = Inr phash0"
      "canonical_kis_symbol (dict_get payload ''symbol'') = Inr symbol"
      "decimal_field (dict_get payload ''referencePrice'') ''referencePrice'' (Some 0) = Inr price"
      "text_field (dict_get payload ''planId'') f = Inr pid"
    and body: "raw \<noteq> []" "res_map delta_from_json raw = Inr (plan_deltas p)"
      "distinct (map delta_key (plan_deltas p))"
      "split_allocations (plan_deltas p) = Inr (plan_internal p, plan_allocations p)"
      "\<not> (plan_internal p \<noteq> [] \<and> price \<le> 0)"
      "side = net_side (dec_sum (map delta_signed (plan_deltas p)))"
      "quantity = dec_abs (dec_sum (map delta_signed (plan_deltas p)))"
      "seal (PDict (plan_payload schema scope portfolio (lower phash0) symbol side quantity price
         (plan_deltas p) (plan_internal p) (plan_allocations p))) = pid"
    and p: "plan_id p = pid" "plan_schema p = schema" "plan_scope p = scope" "plan_portfolio p = portfolio"
      "plan_portfolio_hash p = lower phash0" "plan_symbol p = symbol" "plan_side p = side"
      "plan_quantity p = quantity" "plan_reference_price p = price"
    using run raw by (auto split: if_splits)
  show thesis
    by (rule that [OF v raw body(1-4)])
      (use head body p text_field_clean [OF head(2)] text_field_clean [OF head(3)]
        clean_lower [OF text_field_clean [OF head(4)]] canonical_symbol_ok [OF head(5)]
        decimal_field_min [OF head(6)] text_field_clean [OF head(7)]
        in \<open>auto simp: sealed_payload_def\<close>)
qed

lemma validate_good:
  assumes ok: "validate_symbol_net_plan_metadata v = Inr p" and bound: "total_shares p \<le> 10 ^ 28"
  shows "good_plan p"
proof -
  obtain raw where f: "raw \<noteq> []" "res_map delta_from_json raw = Inr (plan_deltas p)"
    "distinct (map delta_key (plan_deltas p))"
    "split_allocations (plan_deltas p) = Inr (plan_internal p, plan_allocations p)"
    "plan_side p = net_side (dec_sum (map delta_signed (plan_deltas p)))"
    "plan_quantity p = dec_abs (dec_sum (map delta_signed (plan_deltas p)))"
    "plan_id p = seal (PDict (sealed_payload p))" "plan_schema p = plan_schema_version"
    "clean (plan_scope p)" "clean (plan_portfolio p)" "clean (plan_portfolio_hash p)"
    "lower (plan_portfolio_hash p) = plan_portfolio_hash p" "good_symbol (plan_symbol p)"
    "0 \<le> plan_reference_price p" "plan_internal p \<noteq> [] \<longrightarrow> 0 < plan_reference_price p"
    using ok by (rule validate_facts) blast
  have pair: "list_all2 (\<lambda>r d. delta_from_json r = Inr d) raw (plan_deltas p)"
    using f(2) by (simp add: res_map_Inr_iff)
  have source: "\<exists>r. delta_from_json r = Inr d" if "d \<in> set (plan_deltas p)" for d
    using pair that by (auto simp: list_all2_conv_all_nth in_set_conv_nth)
  have good: "good_delta d" if d: "d \<in> set (plan_deltas p)" for d
  proof -
    obtain r where r: "delta_from_json r = Inr d" using source [OF d] ..
    have "delta_current d + delta_target d \<le> total_shares p"
      unfolding total_shares_def using d source delta_from_json_nonneg
      by (intro elem_le_sum_list) fastforce+
    with delta_from_json_ok [OF r] bound show ?thesis by linarith
  qed
  have "(\<Sum>d\<leftarrow>plan_deltas p. \<bar>delta_signed d\<bar>) \<le> total_shares p"
    unfolding total_shares_def using good good_delta_abs by (intro sum_list_mono) auto
  with bound have cross: "crossable (plan_deltas p)"
    using f(3) good by (simp add: crossable_def list_all_iff good_delta_def)
  have "plan_deltas p \<noteq> []" using f(1) list_all2_lengthD [OF pair] by auto
  with f cross good dec_sum_signed [OF cross] dec_abs_net [OF cross] split_allocations_eq [OF cross]
  show ?thesis by (auto simp: good_plan_def list_all_iff)
qed

lemma sealed_payload_round:
  "sealed_payload (p\<lparr>plan_reference_price := ctx_round (plan_reference_price p)\<rparr>) = sealed_payload p"
  by (simp add: sealed_payload_def plan_payload_def)

subsection \<open>The sealed round trip\<close>

lemma good_plan_parts:
  assumes "good_plan p"
  shows "good_allocations (plan_internal p)" "good_allocations (plan_allocations p)"
proof -
  have "\<forall>d \<in> set (plan_deltas p). clean (delta_intent d) \<and> clean (delta_sleeve d)"
    using assms by (auto simp: good_plan_def list_all_iff good_delta_def)
  with good_parts [of "plan_deltas p"] assms
  show "good_allocations (plan_internal p)" "good_allocations (plan_allocations p)"
    by (simp_all add: good_plan_def)
qed

lemma side_clean: "clean (net_side n)" "upper (net_side n) = net_side n"
  by (auto simp: net_side_def clean_def is_space_def upper_def to_upper_def is_lower_def)

lemma schema_clean [simp]: "clean plan_schema_version"
  by (simp add: plan_schema_version_def clean_def is_space_def)

lemma validate_metadata:
  assumes good: "good_plan p"
  shows "validate_symbol_net_plan_metadata (PDict (plan_metadata p))
    = Inr (p\<lparr>plan_reference_price := ctx_round (plan_reference_price p)\<rparr>)"
proof -
  let ?m = "plan_metadata p"
  let ?net = "sum_list (map delta_signed (plan_deltas p))"
  have f: "list_all good_delta (plan_deltas p)" "plan_deltas p \<noteq> []" "crossable (plan_deltas p)"
    "plan_internal p = internal_part (plan_deltas p)" "plan_allocations p = external_part (plan_deltas p)"
    "plan_side p = net_side ?net" "plan_quantity p = \<bar>?net\<bar>" "plan_schema p = plan_schema_version"
    "clean (plan_scope p)" "clean (plan_portfolio p)" "clean (plan_portfolio_hash p)"
    "lower (plan_portfolio_hash p) = plan_portfolio_hash p" "good_symbol (plan_symbol p)"
    "0 \<le> plan_reference_price p" "plan_internal p \<noteq> [] \<longrightarrow> 0 < plan_reference_price p"
    "plan_id p = seal (PDict (sealed_payload p))"
    using good by (auto simp: good_plan_def)
  note net = dec_sum_signed [OF f(3)] dec_abs_net [OF f(3)]
  have q: "quantity_field (PStr (dec_text (plan_quantity p))) k True = Inr (plan_quantity p)" for k
    using net by (intro quantity_text_field) (auto simp: f(7))
  have price: "decimal_field (PStr (dec_text (plan_reference_price p))) k (Some 0) = Inr (ctx_round (plan_reference_price p))" for k
    using f(14) by (intro decimal_text_field) (simp add: ctx_round_nonneg)
  have pos: "\<not> (plan_internal p \<noteq> [] \<and> ctx_round (plan_reference_price p) \<le> 0)"
    using f(15) ctx_round_pos by (force simp: not_le)
  have ds: "res_map delta_from_json (map delta_json (plan_deltas p)) = Inr (plan_deltas p)"
    unfolding res_map_Inr_iff using f(1) delta_roundtrip
    by (auto simp: list_all2_conv_all_nth list_all_length)
  have al: "allocations_from_metadata ?m ''internalAllocations'' True = Inr (plan_internal p)"
    "allocations_from_metadata ?m ''allocations'' True = Inr (plan_allocations p)"
    by (rule allocations_roundtrip; simp add: good_plan_parts [OF good] plan_metadata_def)+
  have sp: "split_allocations (plan_deltas p) = Inr (plan_internal p, plan_allocations p)"
    using split_allocations_eq [OF f(3)] f(4,5) by simp
  have dist: "distinct (map delta_key (plan_deltas p))" using f(3) by (simp add: crossable_def)
  have seal: "seal (PDict (plan_payload plan_schema_version (plan_scope p) (plan_portfolio p)
      (plan_portfolio_hash p) (plan_symbol p) (plan_side p) (plan_quantity p)
      (ctx_round (plan_reference_price p)) (plan_deltas p) (plan_internal p) (plan_allocations p))) = plan_id p"
    using sealed_payload_round [of p] f(16) f(8) by (simp add: sealed_payload_def)
  have side: "net_side (dec_sum (map delta_signed (plan_deltas p))) = plan_side p"
    "dec_abs (dec_sum (map delta_signed (plan_deltas p))) = plan_quantity p"
    using net f(6,7) by simp_all
  have id: "text_field (PStr (plan_id p)) k = Inr (plan_id p)" for k using f(16) by simp
  have gets: "dict_get ?m ''schemaVersion'' = PStr plan_schema_version" "dict_get ?m ''scopeId'' = PStr (plan_scope p)"
    "dict_get ?m ''planId'' = PStr (plan_id p)" "dict_get ?m ''portfolioId'' = PStr (plan_portfolio p)"
    "dict_get ?m ''portfolioHash'' = PStr (plan_portfolio_hash p)" "dict_get ?m ''symbol'' = PStr (plan_symbol p)"
    "dict_get ?m ''side'' = PStr (plan_side p)" "dict_get ?m ''quantity'' = PStr (dec_text (plan_quantity p))"
    "dict_get ?m ''referencePrice'' = PStr (dec_text (plan_reference_price p))"
    "dict_get ?m ''sleeveDeltas'' = PList (map delta_json (plan_deltas p))"
    by (simp_all add: plan_metadata_def f(8))
  have sc: "clean (plan_side p)" "upper (plan_side p) = plan_side p" using side_clean f(6) by simp_all
  have result: "\<lparr>plan_id = plan_id p, plan_schema = plan_schema_version, plan_scope = plan_scope p,
      plan_portfolio = plan_portfolio p, plan_portfolio_hash = plan_portfolio_hash p,
      plan_symbol = plan_symbol p, plan_side = plan_side p, plan_quantity = plan_quantity p,
      plan_reference_price = ctx_round (plan_reference_price p), plan_deltas = plan_deltas p,
      plan_internal = plan_internal p, plan_allocations = plan_allocations p\<rparr>
    = p\<lparr>plan_reference_price := ctx_round (plan_reference_price p)\<rparr>"
    using f(8) by (cases p) simp
  have sym: "canonical_kis_symbol (PStr (plan_symbol p)) = Inr (plan_symbol p)"
    by (rule canonical_symbol_again [OF f(13)])
  show ?thesis
    unfolding validate_symbol_net_plan_metadata_def pyval.case Let_def gets
    by (simp add: f(2,9-12) q price ds al sp dist seal side id sc sym pos result)
qed

subsection \<open>Conservation\<close>

lemma allocation_key_make [simp]: "allocation_key (make_allocation d r) = delta_key d"
  by (simp add: allocation_key_def make_allocation_def delta_key_def)

lemma allocated_to_part:
  "distinct (map delta_key ds) \<Longrightarrow> d \<in> set ds \<Longrightarrow>
   allocated_to (map (\<lambda>d. make_allocation d (q d)) (filter P ds)) (delta_key d) = (if P d then q d else 0)"
proof (induction ds)
  case Nil
  then show ?case by simp
next
  case (Cons e ds)
  have none: "allocated_to (map (\<lambda>d. make_allocation d (q d)) (filter P ds)) (delta_key e) = 0"
    if "\<forall>x \<in> set ds. delta_key x \<noteq> delta_key e"
  proof -
    have "filter (\<lambda>x. delta_key x = delta_key e \<and> P x) ds = []"
      using that by (simp add: filter_empty_conv)
    then show ?thesis by (simp add: allocated_to_def filter_map o_def conj_commute)
  qed
  show ?case
  proof (cases "d = e")
    case True
    have "\<forall>x \<in> set ds. delta_key x \<noteq> delta_key e" using Cons.prems(1) by (simp add: image_iff) metis
    from none [OF this] True show ?thesis by (simp add: allocated_to_def)
  next
    case False
    with Cons.prems have "delta_key d \<noteq> delta_key e" by (force simp: image_iff)
    with Cons.IH Cons.prems False show ?thesis by (simp add: allocated_to_def)
  qed
qed

definition conserves :: "symbol_net_plan \<Rightarrow> bool" where
  "conserves p \<longleftrightarrow>
     sum_list (map alloc_signed (plan_allocations p)) = signed_net p
     \<and> sum_list (map alloc_signed (plan_internal p)) = 0
     \<and> (\<forall>d \<in> set (plan_deltas p).
          delta_current d + allocated_to (plan_internal p) (delta_key d)
            + allocated_to (plan_allocations p) (delta_key d) = delta_target d)"

definition one_direction :: "symbol_net_plan \<Rightarrow> bool" where
  "one_direction p \<longleftrightarrow>
     (\<forall>a \<in> set (plan_allocations p).
        plan_side p = ''BUY'' \<and> 0 < alloc_signed a \<or> plan_side p = ''SELL'' \<and> alloc_signed a < 0)
     \<and> (\<forall>d \<in> set (plan_deltas p).
        \<bar>allocated_to (plan_internal p) (delta_key d)\<bar> \<le> \<bar>delta_signed d\<bar>
        \<and> 0 \<le> allocated_to (plan_internal p) (delta_key d) * delta_signed d)"

lemma good_plan_conserves: "good_plan p \<Longrightarrow> conserves p"
proof -
  assume g: "good_plan p"
  let ?ds = "plan_deltas p"
  have cross: "crossable ?ds" and d: "distinct (map delta_key ?ds)" "list_all good_delta ?ds"
    and parts: "plan_internal p = internal_part ?ds" "plan_allocations p = external_part ?ds"
    and net: "plan_side p = net_side (sum_list (map delta_signed ?ds))"
      "plan_quantity p = \<bar>sum_list (map delta_signed ?ds)\<bar>"
    using g by (auto simp: good_plan_def crossable_def)
  have "allocated_to (internal_part ?ds) (delta_key x) + allocated_to (external_part ?ds) (delta_key x) = delta_signed x"
    if "x \<in> set ?ds" for x
    unfolding internal_part_def external_part_def allocated_to_part [OF d(1) that] by auto
  with d(2) have "\<forall>x \<in> set ?ds. delta_current x + allocated_to (internal_part ?ds) (delta_key x)
      + allocated_to (external_part ?ds) (delta_key x) = delta_target x"
    by (force simp: list_all_iff good_delta_def algebra_simps)
  moreover have "sum_list (map delta_signed ?ds) = signed_net p"
    by (auto simp: signed_net_def net net_side_def)
  ultimately show ?thesis
    using internal_sum [OF cross] external_sum [OF cross] by (simp add: conserves_def parts)
qed

lemma good_plan_direction: "good_plan p \<Longrightarrow> one_direction p"
proof -
  assume g: "good_plan p"
  let ?ds = "plan_deltas p"
  have cross: "crossable ?ds" and d: "distinct (map delta_key ?ds)"
    and parts: "plan_internal p = internal_part ?ds" "plan_allocations p = external_part ?ds"
    and net: "plan_side p = net_side (sum_list (map delta_signed ?ds))"
    using g by (auto simp: good_plan_def crossable_def)
  have "\<bar>allocated_to (internal_part ?ds) (delta_key x)\<bar> \<le> \<bar>delta_signed x\<bar>
      \<and> 0 \<le> allocated_to (internal_part ?ds) (delta_key x) * delta_signed x" if x: "x \<in> set ?ds" for x
  proof -
    have "allocated_to (internal_part ?ds) (delta_key x) = crossed_of ?ds x"
      unfolding internal_part_def allocated_to_part [OF d x] by simp
    moreover have "0 \<le> crossed_of ?ds x * delta_signed x"
      using crossed_bounds [OF cross, of x] crossed_flat [OF cross x] x
      by (cases "delta_signed x" "0 :: rat" rule: linorder_cases)
        (auto simp: buys_def sells_def mult_nonneg_nonneg mult_nonpos_nonpos)
    ultimately show ?thesis using crossed_within(1) [OF cross x] by simp
  qed
  moreover have "\<forall>a \<in> set (external_part ?ds).
      plan_side p = ''BUY'' \<and> 0 < alloc_signed a \<or> plan_side p = ''SELL'' \<and> alloc_signed a < 0"
  proof
    fix a
    assume "a \<in> set (external_part ?ds)"
    from external_direction [OF cross this]
    show "plan_side p = ''BUY'' \<and> 0 < alloc_signed a \<or> plan_side p = ''SELL'' \<and> alloc_signed a < 0"
      by (auto simp: net net_side_def)
  qed
  ultimately show ?thesis by (simp add: one_direction_def parts)
qed

subsection \<open>The contract of planning\<close>

text \<open>
  C1: A built plan conserves. The allocations sent to the broker add up to the signed broker order,
  the internal crosses add up to zero, and every sleeve's current position plus its internal and its
  external share is exactly its target; a net sale never exceeds the broker's holding. This holds for
  targets made by \<open>SleeveTarget.create\<close> as long as the plan's total of shares fits the decimal
  precision.
\<close>

theorem built_plan_conserves:
  assumes "build_symbol_net_plan scope portfolio phash targets positions broker price = Inr p"
    and "list_all good_target targets" "total_shares p \<le> 10 ^ 28"
  shows "conserves p
    \<and> mset (map (\<lambda>d. (delta_intent d, delta_sleeve d, delta_target d)) (plan_deltas p))
        = mset (map (\<lambda>t. (target_intent t, target_sleeve t, target_quantity t)) targets)
    \<and> (plan_side p = ''SELL'' \<longrightarrow>
         (\<exists>held f. quantity_field broker f True = Inr held \<and> plan_quantity p \<le> held))"
  using build_good [OF assms] good_plan_conserves by blast

text \<open>
  No wash trade reaches the broker. Every external allocation of a built plan has the direction
  of the net order, so opposing sleeves are settled internally, and no sleeve is crossed beyond or
  against its own delta.
\<close>

theorem built_plan_one_direction:
  assumes "build_symbol_net_plan scope portfolio phash targets positions broker price = Inr p"
    and "list_all good_target targets" "total_shares p \<le> 10 ^ 28"
  shows "one_direction p"
  using good_plan_direction [OF build_good(1) [OF assms]] .

text \<open>
  C3: The sealed round trip. The metadata of a built plan passes
  \<open>validate_symbol_net_plan_metadata\<close>, which rebuilds the same plan (the reference price to the
  28 digits its text carries).
\<close>

theorem plan_metadata_roundtrip:
  assumes "build_symbol_net_plan scope portfolio phash targets positions broker price = Inr p"
    and "list_all good_target targets" "total_shares p \<le> 10 ^ 28"
  shows "validate_symbol_net_plan_metadata (PDict (plan_metadata p))
    = Inr (p\<lparr>plan_reference_price := ctx_round (plan_reference_price p)\<rparr>)"
  by (rule validate_metadata [OF build_good(1) [OF assms]])

text \<open>
  C2: Metadata that validates is sound, wherever it came from: its identity is the digest of its
  content, it conserves, it nets in one direction, and a plan with an internal cross has a positive
  price.
\<close>

theorem validated_plan_sound:
  assumes "validate_symbol_net_plan_metadata v = Inr p" "total_shares p \<le> 10 ^ 28"
  shows "plan_id p = seal (PDict (sealed_payload p)) \<and> conserves p \<and> one_direction p
    \<and> (has_internal_cross p \<longrightarrow> 0 < plan_reference_price p)"
proof (intro conjI)
  note good = validate_good [OF assms]
  show "conserves p" "one_direction p" by (rule good_plan_conserves [OF good], rule good_plan_direction [OF good])
  show "plan_id p = seal (PDict (sealed_payload p))" "has_internal_cross p \<longrightarrow> 0 < plan_reference_price p"
    using good unfolding good_plan_def has_internal_cross_def by simp_all
qed

lemma map_canon_inj:
  assumes inj: "\<And>x y. canon (f x) = canon (f y) \<Longrightarrow> f x = f y"
  shows "canon_list (map f xs) = canon_list (map f ys) \<Longrightarrow> map f xs = map f ys"
proof (induction xs arbitrary: ys)
  case Nil
  then show ?case by (cases ys) simp_all
next
  case (Cons x xs)
  then obtain y ys' where ys: "ys = y # ys'" by (cases ys) auto
  with Cons.prems have "canon (f x) = canon (f y)" "canon_list (map f xs) = canon_list (map f ys')" by simp_all
  with Cons.IH [OF this(2)] inj [OF this(1)] ys show ?case by simp
qed

lemma delta_json_canon: "canon (delta_json d) = canon (delta_json e) \<Longrightarrow> delta_json d = delta_json e"
  by (simp add: delta_json_def)

lemma allocation_json_canon: "canon (allocation_json a) = canon (allocation_json b) \<Longrightarrow> allocation_json a = allocation_json b"
  by (simp add: allocation_json_def)

lemma plain_payload: "plain (PDict (sealed_payload p))"
  by (auto simp: sealed_payload_def plan_payload_def plain_list_iff delta_json_def allocation_json_def)

text \<open>
  The plan identity binds the order. Two validated payloads with the same plan identity carry
  the same metadata, field by field, unless their sealed texts collide under SHA-256.
\<close>

theorem plan_identity_binds:
  assumes "validate_symbol_net_plan_metadata v = Inr p" "validate_symbol_net_plan_metadata w = Inr q"
    and "plan_id p = plan_id q"
    and "inj_on sha256_hex {canonical_json (PDict (sealed_payload p)), canonical_json (PDict (sealed_payload q))}"
  shows "plan_metadata p = plan_metadata q"
proof -
  have "plan_id p = seal (PDict (sealed_payload p))" by (rule validate_facts [OF assms(1)])
  moreover have "plan_id q = seal (PDict (sealed_payload q))" by (rule validate_facts [OF assms(2)])
  ultimately have "seal (PDict (sealed_payload p)) = seal (PDict (sealed_payload q))" using assms(3) by simp
  then have eq: "canon (PDict (sealed_payload p)) = canon (PDict (sealed_payload q))"
    by (rule seal_inj [OF plain_payload plain_payload _ assms(4)])
  then have texts: "plan_schema p = plan_schema q" "plan_scope p = plan_scope q" "plan_portfolio p = plan_portfolio q"
    "plan_portfolio_hash p = plan_portfolio_hash q" "plan_symbol p = plan_symbol q" "plan_side p = plan_side q"
    "dec_text (plan_quantity p) = dec_text (plan_quantity q)"
    "dec_text (plan_reference_price p) = dec_text (plan_reference_price q)"
    and lists: "canon_list (map delta_json (plan_deltas p)) = canon_list (map delta_json (plan_deltas q))"
    "canon_list (map allocation_json (plan_internal p)) = canon_list (map allocation_json (plan_internal q))"
    "canon_list (map allocation_json (plan_allocations p)) = canon_list (map allocation_json (plan_allocations q))"
    by (simp_all add: sealed_payload_def plan_payload_def)
  have "map delta_json (plan_deltas p) = map delta_json (plan_deltas q)"
    by (rule map_canon_inj [OF delta_json_canon lists(1)])
  moreover have "map allocation_json (plan_internal p) = map allocation_json (plan_internal q)"
    by (rule map_canon_inj [OF allocation_json_canon lists(2)])
  moreover have "map allocation_json (plan_allocations p) = map allocation_json (plan_allocations q)"
    by (rule map_canon_inj [OF allocation_json_canon lists(3)])
  ultimately show ?thesis using texts assms(3) by (simp add: plan_metadata_def)
qed

subsection \<open>A concrete plan for the witnesses\<close>

text \<open>Sleeve \<open>a\<close> buys three, sleeve \<open>b\<close> sells two: two are crossed, one is bought.\<close>

definition sample_targets :: "sleeve_target list" where
  "sample_targets =
     [\<lparr>target_intent = ''i1'', target_sleeve = ''a'', target_symbol = ''005930'', target_quantity = 5\<rparr>,
      \<lparr>target_intent = ''i2'', target_sleeve = ''b'', target_symbol = ''005930'', target_quantity = 0\<rparr>]"

definition sample_deltas :: "sleeve_delta list" where
  "sample_deltas =
     [\<lparr>delta_intent = ''i1'', delta_sleeve = ''a'', delta_current = 2, delta_target = 5, delta_signed = 3\<rparr>,
      \<lparr>delta_intent = ''i2'', delta_sleeve = ''b'', delta_current = 2, delta_target = 0, delta_signed = - 2\<rparr>]"

definition sample_positions :: "string \<times> string \<Rightarrow> pyval option" where
  "sample_positions k = Some (PStr (dec_text 2))"

definition sample_internal :: "sleeve_allocation list" where
  "sample_internal = [\<lparr>alloc_intent = ''i1'', alloc_sleeve = ''a'', alloc_signed = 2\<rparr>,
     \<lparr>alloc_intent = ''i2'', alloc_sleeve = ''b'', alloc_signed = - 2\<rparr>]"

definition sample_external :: "sleeve_allocation list" where
  "sample_external = [\<lparr>alloc_intent = ''i1'', alloc_sleeve = ''a'', alloc_signed = 1\<rparr>]"

definition sample_plan :: symbol_net_plan where
  "sample_plan =
     \<lparr>plan_id = seal (PDict (plan_payload plan_schema_version ''s'' ''pf'' ''h'' ''005930'' ''BUY'' 1 70000
        sample_deltas sample_internal sample_external)),
      plan_schema = plan_schema_version, plan_scope = ''s'', plan_portfolio = ''pf'',
      plan_portfolio_hash = ''h'', plan_symbol = ''005930'', plan_side = ''BUY'', plan_quantity = 1,
      plan_reference_price = 70000, plan_deltas = sample_deltas, plan_internal = sample_internal,
      plan_allocations = sample_external\<rparr>"

lemma ctx_round_numeral [simp]: "numeral n \<le> (10 :: rat) ^ 28 \<Longrightarrow> ctx_round (numeral n) = numeral n"
  by (rule ctx_round_whole) simp_all

lemma sample_split:
  "split_allocations sample_deltas = Inr (sample_internal, sample_external)"
  by (simp add: split_allocations_def sample_deltas_def crossed_quantities_def Let_def delta_key_def
      dec_whole_ops dec_sum_def make_allocation_def fun_upd_def sample_internal_def sample_external_def)

lemma sample_built:
  "build_symbol_net_plan (PStr ''s'') (PStr ''pf'') (PStr ''h'') sample_targets sample_positions
     (PStr (dec_text 4)) (PStr (dec_text 70000)) = Inr sample_plan"
proof -
  have clean: "clean ''s''" "clean ''pf''" "clean ''h''" by (simp_all add: clean_def is_space_def)
  have q: "quantity_field (PStr (dec_text v)) f True = Inr v" if "v \<in> {2, 4}" for v f
    using that by (intro quantity_text_field) auto
  have price: "decimal_field (PStr (dec_text 70000)) f (Some 0) = Inr 70000" for f
    using decimal_text_field [of 70000 "Some 0" f] by simp
  have sorted: "sort_key (\<lambda>t. target_sleeve t) (sort_key (\<lambda>t. target_intent t) sample_targets) = sample_targets"
    by (simp add: sample_targets_def)
  have deltas: "res_map (build_delta sample_positions ''005930'') sample_targets = Inr sample_deltas"
    by (simp add: sample_targets_def sample_deltas_def build_delta_def sample_positions_def q dec_whole_ops)
  have net: "dec_sum (map delta_signed sample_deltas) = 1"
    by (simp add: sample_deltas_def dec_sum_def dec_whole_ops)
  have facts: "sample_targets \<noteq> []" "list_all (\<lambda>t. target_symbol t = ''005930'') sample_targets"
    "distinct (map (\<lambda>t. (target_sleeve t, target_symbol t)) sample_targets)"
    "distinct (map target_intent sample_targets)" "target_symbol (hd sample_targets) = ''005930''"
    by (simp_all add: sample_targets_def)
  have "lower ''h'' = ''h''" by (simp add: lower_def to_lower_def is_upper_def)
  then show ?thesis
    unfolding build_symbol_net_plan_def Let_def sorted
    by (simp add: facts clean deltas net sample_split q price net_side_def dec_abs_whole)
       (simp add: sample_plan_def sample_internal_def)
qed

lemma sample_good: "list_all good_target sample_targets" "total_shares sample_plan \<le> 10 ^ 28"
  by (simp_all add: sample_targets_def good_target_def good_symbol_def clean_def is_space_def is_digit_def
      total_shares_def sample_plan_def sample_deltas_def)

theorem built_plan_conserves_witness:
  "conserves sample_plan \<and> plan_quantity sample_plan = 1 \<and> length (plan_internal sample_plan) = 2"
  using built_plan_conserves [OF sample_built sample_good]
  by (simp add: sample_plan_def sample_internal_def)

theorem built_plan_one_direction_witness:
  "one_direction sample_plan \<and> plan_side sample_plan = ''BUY''"
  using built_plan_one_direction [OF sample_built sample_good] by (simp add: sample_plan_def)

theorem plan_metadata_roundtrip_witness:
  "validate_symbol_net_plan_metadata (PDict (plan_metadata sample_plan)) = Inr sample_plan"
proof -
  have "sample_plan\<lparr>plan_reference_price := ctx_round (plan_reference_price sample_plan)\<rparr> = sample_plan"
    by (simp add: sample_plan_def)
  with plan_metadata_roundtrip [OF sample_built sample_good] show ?thesis by simp
qed

lemma sample_validates:
  "validate_symbol_net_plan_metadata (PDict (plan_metadata sample_plan)) = Inr sample_plan"
  using validate_metadata [OF build_good(1) [OF sample_built sample_good]]
  by (simp add: sample_plan_def)

theorem validated_plan_sound_witness:
  "plan_id sample_plan = seal (PDict (sealed_payload sample_plan)) \<and> conserves sample_plan
   \<and> 0 < plan_reference_price sample_plan"
  using validated_plan_sound [OF sample_validates sample_good(2)]
  by (simp add: has_internal_cross_def) (simp add: sample_plan_def)

theorem plan_identity_binds_witness:
  "plan_metadata sample_plan = plan_metadata sample_plan
   \<and> validate_symbol_net_plan_metadata (PDict (plan_metadata sample_plan)) = Inr sample_plan"
  using plan_identity_binds [OF sample_validates sample_validates refl] sample_validates by simp

end
