(* ===== verification/Portfolio_Views.thy ===== *)
theory Portfolio_Views
  imports Portfolio_Sync
begin

section \<open>Reading the portfolio ledger: chain check, holdings, balances, reconciliation\<close>

text \<open>
  The read side of \<open>LivePortfolioLedger\<close> (\<open>live_trader/portfolio_execution.py\<close>): every view is a
  fold over the scope's sealed events. \<open>reconcile_restart\<close> compares the reconstructed holdings
  with the broker's and stores its verdict as one more event.
\<close>

subsection \<open>The hash chain\<close>

fun verify_loop :: "string \<Rightarrow> nat \<Rightarrow> event_row list \<Rightarrow> (nat \<times> string) res" where
  "verify_loop previous count [] = Inr (count, previous)"
| "verify_loop previous count (r # rs) =
     (if ev_previous r \<noteq> previous
      then Inl (ValueError (''portfolio ledger hash chain broke at '' @ nat_text (ev_sequence r)))
      else if seal (event_message (ev_id r) (row_semantics r) previous) \<noteq> ev_hash r
      then Inl (ValueError (''portfolio ledger event hash failed at '' @ nat_text (ev_sequence r)))
      else verify_loop (ev_hash r) (Suc count) rs)"

definition verify_hash_chain :: "ledger \<Rightarrow> pyval \<Rightarrow> (nat \<times> string) res" where
  "verify_hash_chain st scope_id =
     res_bind (text_field scope_id ''scope_id'') (\<lambda>scope. verify_loop genesis_hash 0 (scope_events st scope))"

subsection \<open>Holdings of the sleeves\<close>

type_synonym positions = "(string \<times> dec) list"
type_synonym holdings = "(string \<times> positions) list"

definition position :: "holdings \<Rightarrow> string \<Rightarrow> string \<Rightarrow> dec" where
  "position h sleeve symbol = assoc_get 0 (assoc_get [] h sleeve) symbol"

definition is_movement :: "event_row \<Rightarrow> bool" where
  "is_movement r \<longleftrightarrow>
     ev_level r = ''SLEEVE'' \<and> ev_type r \<in> {''SLEEVE_FILL'', ''SLEEVE_INTERNAL_CROSS''}"

definition hold_event :: "holdings \<Rightarrow> event_row \<Rightarrow> holdings res" where
  "hold_event h r =
     (if \<not> is_movement r then Inr h
      else res_bind (signed_quantity_field (dict_get (ev_payload r) ''signedQuantity'') ''signedQuantity'') (\<lambda>q.
        let new = dec_add (position h (ev_sleeve r) (ev_symbol r)) q
        in if new < 0
           then Inl (ValueError (''sleeve ledger reconstructs a short: '' @ ev_sleeve r @ ''/'' @ ev_symbol r))
           else Inr (assoc_put (ev_sleeve r) (assoc_put (ev_symbol r) new (assoc_get [] h (ev_sleeve r))) h)))"

definition sleeve_holdings :: "ledger \<Rightarrow> pyval \<Rightarrow> holdings res" where
  "sleeve_holdings st scope_id =
     res_bind (text_field scope_id ''scope_id'') (\<lambda>scope. res_fold hold_event [] (scope_events st scope))"

definition sleeve_quantity :: "ledger \<Rightarrow> pyval \<Rightarrow> pyval \<Rightarrow> pyval \<Rightarrow> dec res" where
  "sleeve_quantity st scope_id sleeve_id symbol =
     res_bind (sleeve_holdings st scope_id) (\<lambda>h.
     res_bind (text_field sleeve_id ''sleeve_id'') (\<lambda>sleeve.
     res_bind (canonical_kis_symbol symbol) (\<lambda>s. Inr (position h sleeve s))))"

subsection \<open>Balances\<close>

record balance =
  ba_cash_flow :: dec
  ba_fees :: dec
  ba_turnover :: dec

definition zero_balance :: balance where
  "zero_balance = \<lparr>ba_cash_flow = 0, ba_fees = 0, ba_turnover = 0\<rparr>"

definition balance_event :: "(string \<times> balance) list \<Rightarrow> event_row \<Rightarrow> (string \<times> balance) list res" where
  "balance_event sleeves r =
     (let payload = ev_payload r;
          b = assoc_get zero_balance sleeves (ev_sleeve r)
      in if ev_level r \<noteq> ''SLEEVE'' then Inr sleeves
         else if ev_type r = ''SLEEVE_FEE_ADJUSTMENT''
         then res_bind (decimal_field (py_or (dict_get payload ''feeDelta'') (PInt 0)) ''fee adjustment'' None) (\<lambda>delta.
              Inr (assoc_put (ev_sleeve r)
                (b\<lparr>ba_cash_flow := dec_sub (ba_cash_flow b) delta, ba_fees := dec_add (ba_fees b) delta\<rparr>)
                sleeves))
         else if \<not> is_movement r then Inr sleeves
         else
           res_bind (signed_quantity_field (dict_get payload ''signedQuantity'') ''signedQuantity'') (\<lambda>q.
           res_bind (decimal_field (dict_get payload ''price'') ''price'' (Some 0)) (\<lambda>price.
           res_bind (decimal_field (py_or (dict_get payload ''fee'') (PInt 0)) ''fee'' (Some 0)) (\<lambda>fee.
           Inr (assoc_put (ev_sleeve r)
             \<lparr>ba_cash_flow = dec_add (ba_cash_flow b) (dec_sub (dec_neg (dec_mul q price)) fee),
              ba_fees = dec_add (ba_fees b) fee,
              ba_turnover = dec_add (ba_turnover b) (dec_abs (dec_mul q price))\<rparr>
             sleeves)))))"

definition balances :: "ledger \<Rightarrow> pyval \<Rightarrow> (balance \<times> (string \<times> balance) list) res" where
  "balances st scope_id =
     res_bind (text_field scope_id ''scope_id'') (\<lambda>scope.
     res_bind (res_fold balance_event [] (scope_events st scope)) (\<lambda>sleeves.
     Inr (\<lparr>ba_cash_flow = dec_sum (map (ba_cash_flow \<circ> snd) sleeves),
           ba_fees = dec_sum (map (ba_fees \<circ> snd) sleeves),
           ba_turnover = dec_sum (map (ba_turnover \<circ> snd) sleeves)\<rparr>, sleeves)))"

subsection \<open>Pending orders\<close>

definition terminal_plans :: "ledger \<Rightarrow> string \<Rightarrow> string list" where
  "terminal_plans st scope =
     map (\<lambda>r. text_of (dict_get (ev_payload r) ''planId''))
       (filter (\<lambda>r. ev_type r = ''BROKER_ORDER_TERMINAL'') (scope_events st scope))"

fun open_orders :: "(string \<times> dec) list \<Rightarrow> string list \<Rightarrow> order_row list \<Rightarrow> string list res" where
  "open_orders filled terminal [] = Inr []"
| "open_orders filled terminal (r # rs) =
     res_bind (quantity_field (PStr (or_quantity r)) ''accepted quantity'' True) (\<lambda>q.
     res_bind (open_orders filled terminal rs) (\<lambda>rest.
     Inr (if assoc_get 0 filled (or_plan r) < q \<and> or_plan r \<notin> set terminal
          then or_broker_id r # rest else rest)))"

definition pending_orders :: "ledger \<Rightarrow> pyval \<Rightarrow> string list res" where
  "pending_orders st scope_id =
     res_bind (text_field scope_id ''scope_id'') (\<lambda>scope.
     res_bind (filled_quantities st scope) (\<lambda>filled.
     open_orders filled (terminal_plans st scope) (filter (\<lambda>r. or_scope r = scope) (led_orders st))))"

subsection \<open>Reconciliation at restart\<close>

record mismatch =
  mi_symbol :: string
  mi_ledger :: string
  mi_broker :: string

record portfolio_reconciliation =
  rc_scope :: string
  rc_matched :: bool
  rc_ready :: bool
  rc_ledger :: positions
  rc_broker :: positions
  rc_external :: positions
  rc_mismatches :: "mismatch list"
  rc_pending :: "string list"
  rc_observed_at :: string
  rc_content_hash :: string

definition reconciliation_schema :: string where
  "reconciliation_schema = ''live-portfolio-restart-reconciliation-v1''"

definition add_positions :: "positions \<Rightarrow> positions \<Rightarrow> positions" where
  "add_positions acc ps = fold (\<lambda>(symbol, q) acc. assoc_put symbol (dec_add (assoc_get 0 acc symbol) q) acc) ps acc"

definition ledger_positions :: "holdings \<Rightarrow> positions" where
  "ledger_positions h = fold (\<lambda>(sleeve, ps) acc. add_positions acc ps) h []"

definition add_broker :: "positions \<Rightarrow> string \<times> pyval \<Rightarrow> positions res" where
  "add_broker acc entry =
     res_bind (canonical_kis_symbol (PStr (fst entry))) (\<lambda>symbol.
     res_bind (quantity_field (snd entry) (''broker holding '' @ symbol) True) (\<lambda>q.
     Inr (assoc_put symbol (dec_add (assoc_get 0 acc symbol) q) acc)))"

definition find_mismatches :: "positions \<Rightarrow> positions \<Rightarrow> string list \<Rightarrow> mismatch list" where
  "find_mismatches mine broker managed =
     map (\<lambda>s. \<lparr>mi_symbol = s, mi_ledger = dec_text (assoc_get 0 mine s),
               mi_broker = dec_text (assoc_get 0 broker s)\<rparr>)
       (filter (\<lambda>s. assoc_get 0 mine s \<noteq> assoc_get 0 broker s)
          (sort (remdups (managed @ map fst mine))))"

definition positions_json :: "positions \<Rightarrow> pyval" where
  "positions_json ps = PDict (map (\<lambda>(s, q). (s, PStr (dec_text q))) (sort_key fst ps))"

definition mismatch_json :: "mismatch \<Rightarrow> pyval" where
  "mismatch_json m = PDict
     [(''symbol'', PStr (mi_symbol m)), (''ledgerQuantity'', PStr (mi_ledger m)),
      (''brokerQuantity'', PStr (mi_broker m))]"

definition reconciliation_payload :: "portfolio_reconciliation \<Rightarrow> nat \<Rightarrow> string \<Rightarrow> pydict" where
  "reconciliation_payload r count head =
     [(''schemaVersion'', PStr reconciliation_schema),
      (''scopeId'', PStr (rc_scope r)),
      (''matched'', PBool (rc_matched r)),
      (''ready'', PBool (rc_ready r)),
      (''ledgerHoldings'', positions_json (rc_ledger r)),
      (''brokerHoldings'', positions_json (rc_broker r)),
      (''externalHoldings'', positions_json (rc_external r)),
      (''mismatches'', PList (map mismatch_json (rc_mismatches r))),
      (''pendingOrders'', PList (map PStr (rc_pending r))),
      (''ledgerEventCount'', PInt (int count)),
      (''ledgerHeadHash'', PStr head),
      (''observedAt'', PStr (rc_observed_at r))]"

definition reconciliation_event :: "portfolio_reconciliation \<Rightarrow> pydict \<Rightarrow> event_draft" where
  "reconciliation_event r payload =
     \<lparr>dr_id = rc_scope r @ '':reconcile:'' @ rc_content_hash r, dr_scope = rc_scope r,
      dr_level = ''PORTFOLIO'', dr_sleeve = [], dr_type = ''RESTART_RECONCILIATION'', dr_symbol = [],
      dr_payload = payload @ [(''contentHash'', PStr (rc_content_hash r))], dr_at = rc_observed_at r\<rparr>"

definition reconcile_restart ::
  "ledger \<Rightarrow> pyval \<Rightarrow> pydict \<Rightarrow> pyval list \<Rightarrow> bool \<Rightarrow> ts_arg \<Rightarrow> instant \<Rightarrow>
   (portfolio_reconciliation \<times> ledger) res" where
  "reconcile_restart st scope_id broker_holdings managed_symbols persist observed_at now =
     res_bind (text_field scope_id ''scope_id'') (\<lambda>scope.
     res_bind (verify_hash_chain st (PStr scope)) (\<lambda>(count, head).
     res_bind (res_map canonical_kis_symbol managed_symbols) (\<lambda>managed.
     res_bind (sleeve_holdings st (PStr scope)) (\<lambda>sleeves.
     let mine = ledger_positions sleeves in
     res_bind (res_fold add_broker [] broker_holdings) (\<lambda>broker.
     let external = filter (\<lambda>(s, q). s \<notin> set managed \<and> q \<noteq> 0) broker;
         mismatches = find_mismatches mine broker managed in
     res_bind (pending_orders st (PStr scope)) (\<lambda>pending.
     res_bind (occurred_at_text observed_at now) (\<lambda>stamp.
     let draft = \<lparr>rc_scope = scope, rc_matched = (mismatches = []),
                  rc_ready = (mismatches = [] \<and> pending = [] \<and> external = []),
                  rc_ledger = mine, rc_broker = broker, rc_external = external,
                  rc_mismatches = mismatches, rc_pending = pending, rc_observed_at = stamp,
                  rc_content_hash = []\<rparr>;
         payload = reconciliation_payload draft count head;
         result = draft\<lparr>rc_content_hash := seal (PDict payload)\<rparr>
     in if persist
        then res_bind (append_events st [reconciliation_event result payload]) (\<lambda>(n, st'). Inr (result, st'))
        else Inr (result, st))))))))"

end
