(* ===== verification/Hash_Chain.thy ===== *)
theory Hash_Chain
  imports Prelude
begin

section \<open>Hash-chained append-only logs\<close>

text \<open>
  Several stores of the program keep append-only rows, each sealed by a digest over its content
  and the digest of the row before it: the portfolio ledger, the runtime and incident events of
  the governance store, the shared KRW reservations. What they share is stated here once.

  The interface \<open>sealed_rows\<close> is what a row promises: its digest is a hash of a message that
  determines the previous digest and the content. \<open>sealed_store\<close> adds the state that holds the
  rows, one stream per key, and the law of its steps: a step only appends rows that continue the
  chain. The clients' facts follow: every reachable stream verifies, no step rewrites a row, and
  two streams with the same length and head digest have the same contents.
\<close>

fun chained :: "('r \<Rightarrow> 'l) \<Rightarrow> ('r \<Rightarrow> 'l) \<Rightarrow> ('l \<Rightarrow> 'r \<Rightarrow> 'l) \<Rightarrow> 'l \<Rightarrow> 'r list \<Rightarrow> bool" where
  "chained link digest reseal p [] = True"
| "chained link digest reseal p (r # rs) =
     (link r = p \<and> digest r = reseal p r \<and> chained link digest reseal (digest r) rs)"

fun chain_head :: "('r \<Rightarrow> 'l) \<Rightarrow> 'l \<Rightarrow> 'r list \<Rightarrow> 'l" where
  "chain_head digest p [] = p"
| "chain_head digest p (r # rs) = chain_head digest (digest r) rs"

lemma chain_head_append [simp]:
  "chain_head digest p (rs @ ss) = chain_head digest (chain_head digest p rs) ss"
  by (induction rs arbitrary: p) auto

lemma chained_append [simp]:
  "chained link digest reseal p (rs @ ss) \<longleftrightarrow>
     chained link digest reseal p rs \<and> chained link digest reseal (chain_head digest p rs) ss"
  by (induction rs arbitrary: p) auto

lemma chain_head_last: "rs \<noteq> [] \<Longrightarrow> chain_head digest p rs = digest (last rs)"
  by (induction rs arbitrary: p) auto

locale sealed_rows =
  fixes link :: "'r \<Rightarrow> 'l"
    and digest :: "'r \<Rightarrow> 'l"
    and message :: "'l \<Rightarrow> 'r \<Rightarrow> 'm"
    and hash :: "'m \<Rightarrow> 'l"
    and content :: "'r \<Rightarrow> 'c"
    and sane :: "'r \<Rightarrow> bool"
  assumes message_inj:
    "sane r \<Longrightarrow> sane s \<Longrightarrow> message p r = message q s \<Longrightarrow> p = q \<and> content r = content s"
begin

fun messages :: "'l \<Rightarrow> 'r list \<Rightarrow> 'm set" where
  "messages p [] = {}"
| "messages p (r # rs) = insert (message p r) (messages (digest r) rs)"

lemma messages_append: "messages p (rs @ ss) = messages p rs \<union> messages (chain_head digest p rs) ss"
  by (induction rs arbitrary: p) auto

lemma tamper_evident:
  assumes "chained link digest (\<lambda>p r. hash (message p r)) p rs"
    and "chained link digest (\<lambda>p r. hash (message p r)) p ss"
    and "\<forall>r \<in> set rs \<union> set ss. sane r"
    and "length rs = length ss" "chain_head digest p rs = chain_head digest p ss"
    and "inj_on hash (messages p rs \<union> messages p ss)"
  shows "map content rs = map content ss"
  using assms
proof (induction rs arbitrary: ss rule: rev_induct)
  case Nil
  then show ?case by simp
next
  case (snoc r rs)
  then have "ss \<noteq> []" by auto
  then obtain s ss' where ss: "ss = ss' @ [s]" by (metis append_butlast_last_id)
  let ?p = "chain_head digest p rs" and ?q = "chain_head digest p ss'"
  have "hash (message ?p r) = hash (message ?q s)"
    using snoc.prems(1,2,5) by (simp add: ss)
  with snoc.prems(6) have "message ?p r = message ?q s"
    by (rule inj_onD) (simp_all add: ss messages_append)
  then have pq: "?p = ?q" "content r = content s"
    using message_inj [of r s ?p ?q] snoc.prems(3) by (auto simp: ss)
  have "map content rs = map content ss'"
  proof (rule snoc.IH)
    show "inj_on hash (messages p rs \<union> messages p ss')"
      using snoc.prems(6) by (rule inj_on_subset) (auto simp: ss messages_append)
  qed (use snoc.prems pq in \<open>auto simp: ss\<close>)
  with pq show ?case by (simp add: ss)
qed

text \<open>When no digest is the value before the first row, the newest digest alone determines the log.\<close>

lemma head_determines:
  assumes "chained link digest (\<lambda>p r. hash (message p r)) p rs"
    and "chained link digest (\<lambda>p r. hash (message p r)) p ss"
    and "\<forall>r \<in> set rs \<union> set ss. sane r" "\<forall>m. hash m \<noteq> p"
    and "chain_head digest p rs = chain_head digest p ss"
    and "inj_on hash (messages p rs \<union> messages p ss)"
  shows "map content rs = map content ss"
  using assms
proof (induction rs arbitrary: ss rule: rev_induct)
  case Nil
  show ?case
  proof (cases ss rule: rev_cases)
    case (snoc ss' s)
    with Nil.prems(2,5) have "p = hash (message (chain_head digest p ss') s)" by simp
    with Nil.prems(4) have False by metis
    then show ?thesis ..
  qed simp
next
  case (snoc r rs)
  show ?case
  proof (cases ss rule: rev_cases)
    case Nil
    with snoc.prems(1,5) have "p = hash (message (chain_head digest p rs) r)" by simp
    with snoc.prems(4) have False by metis
    then show ?thesis ..
  next
    case ss: (snoc ss' s)
    let ?p = "chain_head digest p rs" and ?q = "chain_head digest p ss'"
    have "hash (message ?p r) = hash (message ?q s)"
      using snoc.prems(1,2,5) by (simp add: ss)
    with snoc.prems(6) have "message ?p r = message ?q s"
      by (rule inj_onD) (simp_all add: ss messages_append)
    then have pq: "?p = ?q" "content r = content s"
      using message_inj [of r s ?p ?q] snoc.prems(3) by (auto simp: ss)
    have "map content rs = map content ss'"
    proof (rule snoc.IH)
      show "inj_on hash (messages p rs \<union> messages p ss')"
        using snoc.prems(6) by (rule inj_on_subset) (auto simp: ss messages_append)
    qed (use snoc.prems pq in \<open>auto simp: ss\<close>)
    with pq show ?thesis by (simp add: ss)
  qed
qed

end

locale sealed_store = sealed_rows link digest message hash content sane
  for link :: "'r \<Rightarrow> 'l" and digest :: "'r \<Rightarrow> 'l" and message :: "'l \<Rightarrow> 'r \<Rightarrow> 'm"
    and hash :: "'m \<Rightarrow> 'l" and content :: "'r \<Rightarrow> 'c" and sane :: "'r \<Rightarrow> bool" +
  fixes rows :: "'s \<Rightarrow> 'k \<Rightarrow> 'r list"
    and genesis :: 'l
    and fresh :: "'s \<Rightarrow> bool"
    and step :: "'s \<Rightarrow> 's \<Rightarrow> bool"
  assumes fresh_rows: "fresh s \<Longrightarrow> rows s k = []"
    and step_appends: "step s t \<Longrightarrow> \<exists>new. rows t k = rows s k @ new \<and>
      chained link digest (\<lambda>p r. hash (message p r)) (chain_head digest genesis (rows s k)) new"
begin

lemma reachable_chained:
  assumes "step\<^sup>*\<^sup>* s t" and "fresh s"
  shows "chained link digest (\<lambda>p r. hash (message p r)) genesis (rows t k)"
  using assms
proof (induction rule: rtranclp_induct)
  case base
  then show ?case by (simp add: fresh_rows)
next
  case (step t u)
  then show ?case using step_appends [of t u k] by auto
qed

lemma append_only: "step\<^sup>*\<^sup>* s t \<Longrightarrow> prefix (rows s k) (rows t k)"
proof (induction rule: rtranclp_induct)
  case base
  then show ?case by simp
next
  case (step t u)
  then show ?case using step_appends [of t u k] by (metis prefix_order.trans prefixI)
qed

end

section \<open>Numbered event logs of entities\<close>

text \<open>
  The governance store keeps one log of events per runtime session and one per incident. The
  interface \<open>event_log\<close> extends \<open>sealed_rows\<close>: a step of the store adds at most one row, and the
  row continues the newest row of its entity: the next number, its digest as link, and a state
  that may follow. What clients rely on is proved here: in every reachable store each log is
  numbered 1, 2, ... without gaps, verifies, starts and continues as allowed, and what every
  allowed continuation keeps of the last row is kept for good.
\<close>

locale event_log = sealed_rows link digest message hash content sane
  for link :: "'r \<Rightarrow> 'l" and digest :: "'r \<Rightarrow> 'l" and message :: "'l \<Rightarrow> 'r \<Rightarrow> 'm"
    and hash :: "'m \<Rightarrow> 'l" and content :: "'r \<Rightarrow> 'c" and sane :: "'r \<Rightarrow> bool" +
  fixes entity :: "'r \<Rightarrow> 'k"
    and number :: "'r \<Rightarrow> int"
    and genesis :: 'l
    and starts :: "'r \<Rightarrow> bool"
    and follows :: "'r \<Rightarrow> 'r \<Rightarrow> bool"
    and rows :: "'s \<Rightarrow> 'r list"
    and inv :: "'s \<Rightarrow> bool"
    and fresh :: "'s \<Rightarrow> bool"
    and step :: "'s \<Rightarrow> 's \<Rightarrow> bool"
  assumes fresh_inv: "fresh s \<Longrightarrow> inv s \<and> rows s = []"
    and step_inv: "inv s \<Longrightarrow> step s t \<Longrightarrow> inv t"
    and step_row: "inv s \<Longrightarrow> step s t \<Longrightarrow> rows t \<noteq> rows s \<Longrightarrow>
      \<exists>r. rows t = rows s @ [r] \<and> digest r = hash (message (link r) r) \<and>
        (case newest number (filter (\<lambda>e. entity e = entity r) (rows s)) of
           None \<Rightarrow> number r = 1 \<and> link r = genesis \<and> starts r
         | Some p \<Rightarrow> number r = number p + 1 \<and> link r = digest p \<and> follows p r)"
begin

definition stream :: "'s \<Rightarrow> 'k \<Rightarrow> 'r list" where
  "stream s k = filter (\<lambda>e. entity e = k) (rows s)"

definition well_kept :: "'r list \<Rightarrow> bool" where
  "well_kept rs \<longleftrightarrow>
     map number rs = [1..int (length rs)]
     \<and> chained link digest (\<lambda>p r. hash (message p r)) genesis rs
     \<and> (rs \<noteq> [] \<longrightarrow> starts (hd rs)) \<and> successively follows rs"

lemma well_kept_newest:
  assumes "well_kept rs"
  shows "newest number rs = (if rs = [] then None else Some (last rs))"
proof (cases rs rule: rev_cases)
  case (snoc xs x)
  have n: "map number xs @ [number x] = [1..int (length xs)] @ [int (length xs) + 1]"
    using assms by (simp add: well_kept_def snoc upto_rec2)
  then have x: "number x = int (length xs) + 1" and xs: "map number xs = [1..int (length xs)]" by simp_all
  have "number y < number x" if "y \<in> set xs" for y
  proof -
    have "number y \<in> set (map number xs)" using that by simp
    then show ?thesis unfolding xs x by simp
  qed
  then show ?thesis by (simp add: snoc newest_snoc)
qed simp

lemma well_kept_snoc:
  assumes "well_kept rs" "digest r = hash (message (link r) r)"
    and "case newest number rs of
           None \<Rightarrow> number r = 1 \<and> link r = genesis \<and> starts r
         | Some p \<Rightarrow> number r = number p + 1 \<and> link r = digest p \<and> follows p r"
  shows "well_kept (rs @ [r])"
proof (cases "rs = []")
  case True
  with assms show ?thesis by (simp add: well_kept_def)
next
  case False
  have l: "number r = number (last rs) + 1" "link r = digest (last rs)" "follows (last rs) r"
    using assms(3) False by (simp_all add: well_kept_newest [OF assms(1)])
  have one: "1 \<le> int (length rs)" using False by (cases rs) auto
  have "number (last rs) = last (map number rs)" using False by (simp add: last_map)
  also have "\<dots> = int (length rs)"
    using assms(1) upto_rec2 [OF one] unfolding well_kept_def by simp
  finally have "number r = int (length rs) + 1" using l(1) by simp
  with assms(1,2) l(2,3) False show ?thesis
    by (simp add: well_kept_def upto_rec2 chain_head_last successively_append_iff)
qed

lemma stream_step:
  assumes "inv s" "step s t" "well_kept (stream s k)"
  shows "well_kept (stream t k) \<and> (stream t k = stream s k \<or> (\<exists>r. stream t k = stream s k @ [r]
    \<and> (stream s k \<noteq> [] \<longrightarrow> follows (last (stream s k)) r)))"
proof (cases "rows t = rows s")
  case True
  with assms(3) show ?thesis by (simp add: stream_def)
next
  case False
  from step_row [OF assms(1,2) this] obtain r where r: "rows t = rows s @ [r]"
    "digest r = hash (message (link r) r)"
    "case newest number (stream s (entity r)) of
           None \<Rightarrow> number r = 1 \<and> link r = genesis \<and> starts r
         | Some p \<Rightarrow> number r = number p + 1 \<and> link r = digest p \<and> follows p r"
    by (auto simp: stream_def)
  show ?thesis
  proof (cases "entity r = k")
    case True
    with r have "well_kept (stream s k @ [r])"
      using well_kept_snoc [OF assms(3)] by blast
    moreover have "stream s k \<noteq> [] \<longrightarrow> follows (last (stream s k)) r"
      using r(3) True by (auto simp: well_kept_newest [OF assms(3)])
    ultimately show ?thesis using r(1) True by (auto simp: stream_def)
  next
    case False
    with r(1) assms(3) show ?thesis by (simp add: stream_def)
  qed
qed

lemma reachable_kept:
  assumes "step\<^sup>*\<^sup>* s t" "fresh s"
  shows "inv t \<and> (\<forall>k. well_kept (stream t k))"
  using assms
proof (induction rule: rtranclp_induct)
  case base
  then show ?case using fresh_inv [of s] by (simp add: stream_def well_kept_def)
next
  case (step t u)
  then show ?case using step_inv [of t u] stream_step [of t u] by blast
qed

lemma kept_steps:
  assumes "step\<^sup>*\<^sup>* s t" "inv s" "well_kept (stream s k)"
  shows "inv t \<and> well_kept (stream t k) \<and> prefix (stream s k) (stream t k)"
  using assms
proof (induction rule: rtranclp_induct)
  case base
  then show ?case by simp
next
  case (step t u)
  then have t: "inv t" "well_kept (stream t k)" "prefix (stream s k) (stream t k)" by auto
  from stream_step [OF t(1) step.hyps(2) t(2)] step_inv [OF t(1) step.hyps(2)] t(3)
  show ?case by (auto simp: prefix_def)
qed

text \<open>What every continuation keeps of the last row is kept for good.\<close>

lemma last_kept:
  assumes "step\<^sup>*\<^sup>* s t" "inv s" "well_kept (stream s k)" "stream s k \<noteq> []" "P (last (stream s k))"
    and keep: "\<And>p r. P p \<Longrightarrow> follows p r \<Longrightarrow> P r"
  shows "stream t k \<noteq> [] \<and> P (last (stream t k))"
  using assms(1-5)
proof (induction rule: rtranclp_induct)
  case base
  then show ?case by simp
next
  case (step t u)
  have t: "inv t" "well_kept (stream t k)" using kept_steps [OF step.hyps(1) step.prems(1,2)] by auto
  have last: "stream t k \<noteq> []" "P (last (stream t k))" using step by auto
  from stream_step [OF t(1) step.hyps(2) t(2)] last show ?case
    using keep [of "last (stream t k)"] by auto
qed

text \<open>A last row that nothing may follow stays the last.\<close>

lemma closed_stream:
  assumes "step\<^sup>*\<^sup>* s t" "inv s" "well_kept (stream s k)" "stream s k \<noteq> []"
    and final: "\<And>r. \<not> follows (last (stream s k)) r"
  shows "stream t k = stream s k"
  using assms(1-4)
proof (induction rule: rtranclp_induct)
  case base
  then show ?case by simp
next
  case (step t u)
  have t: "inv t" "well_kept (stream t k)" using kept_steps [OF step.hyps(1) step.prems(1,2)] by auto
  have "stream t k = stream s k" using step by auto
  with stream_step [OF t(1) step.hyps(2) t(2)] final step.prems(3) show ?case by auto
qed

end

end
