(* ===== verification/Py_Canon.thy ===== *)
theory Py_Canon
  imports Py_Value
begin

section \<open>Canonical values\<close>

text \<open>
  A value decoded from a text written with sorted keys is canonical, and stays what it is when it
  is written again: \<open>canon\<close> is idempotent, keeps what \<open>dict.get\<close> finds up to \<open>canon\<close>, and keeps the
  canonical text.
\<close>

lemma sorted_canon_entries: "sorted (map fst (canon_entries kvs))"
  by (induction kvs) (auto simp: sorted_insort_key)

lemma canon_entries_sorted:
  "sorted (map fst kvs) \<Longrightarrow> (\<And>k v. (k, v) \<in> set kvs \<Longrightarrow> canon v = v) \<Longrightarrow> canon_entries kvs = kvs"
proof (induction kvs)
  case Nil
  then show ?case by simp
next
  case (Cons kv kvs)
  obtain k v where kv: "kv = (k, v)" by (cases kv)
  have "canon v = v" using Cons.prems(2) [of k v] kv by simp
  moreover have "canon_entries kvs = kvs"
    using Cons.prems by (intro Cons.IH) auto
  moreover have "insort_key fst (k, v) kvs = (k, v) # kvs"
    using Cons.prems(1) by (cases kvs) (auto simp: kv)
  ultimately show ?case by (simp add: kv)
qed

lemma canon_canon [simp]: "canon (canon v) = canon v"
proof (induction v)
  case (PList xs)
  then show ?case by (simp add: canon_list_map)
next
  case (PDict kvs)
  have "canon_entries (canon_entries kvs) = canon_entries kvs"
  proof (rule canon_entries_sorted [OF sorted_canon_entries])
    fix k v
    assume "(k, v) \<in> set (canon_entries kvs)"
    then obtain w where "(k, w) \<in> set kvs" "v = canon w" by (auto simp: set_canon_entries)
    with PDict show "canon v = v" by auto
  qed
  then show ?case by simp
qed simp_all

lemma canon_dict: "canon (PDict d) = PDict (as_dict (canon (PDict d)))"
  by simp

lemma canonical_json_cong: "canon v = canon w \<Longrightarrow> canonical_json v = canonical_json w"
  by (simp add: canonical_json_def)

lemma assoc_get_insort [simp]:
  "assoc_get z (insort_key fst (k, v) d) k' = (if k' = k then v else assoc_get z d k')"
  by (induction d) auto

lemma assoc_get_canon: "assoc_get (canon z) (canon_entries d) k = canon (assoc_get z d k)"
  by (induction d) auto

lemma dict_get_canon [simp]: "dict_get (canon_entries d) k = canon (dict_get d k)"
  using assoc_get_canon [of PNone d k] by (simp add: dict_get_def)

lemma canon_entries_idem [simp]: "canon_entries (canon_entries d) = canon_entries d"
  using canon_canon [of "PDict d"] by simp

lemma canon_dict_get: "canon (PDict d) = canon (PDict d') \<Longrightarrow> canon (dict_get d k) = canon (dict_get d' k)"
  using dict_get_canon [of d k] dict_get_canon [of d' k] by simp

lemma canon_entries_empty [simp]: "canon_entries d = [] \<longleftrightarrow> d = []"
  by (cases d) auto

end
