(* ===== verification/Portfolio_Chain.thy ===== *)
theory Portfolio_Chain
  imports Portfolio_Views Hash_Chain Py_Canon
begin

section \<open>The portfolio ledger as a sealed store\<close>

text \<open>
  Every operation of the ledger extends its tables: orders and scopes gain rows at the end,
  events gain rows that continue the hash chain of their scope (\<open>extends\<close>). The step relation
  \<open>ledger_step\<close> has one rule per operation; the interfaces of \<open>Hash_Chain\<close> are interpreted on it,
  which gives the chain of every reachable ledger, immutability of stored rows and tamper
  evidence.
\<close>

subsection \<open>A stored row reseals to its own digest\<close>

definition row_message :: "string \<Rightarrow> event_row \<Rightarrow> string" where
  "row_message p r = canonical_json (event_message (ev_id r) (row_semantics r) p)"

abbreviation row_hash :: "string \<Rightarrow> event_row \<Rightarrow> string" where
  "row_hash \<equiv> \<lambda>p r. sha256_hex (row_message p r)"

abbreviation chain_from :: "string \<Rightarrow> event_row list \<Rightarrow> bool" where
  "chain_from \<equiv> chained ev_previous ev_hash row_hash"

lemma row_message_sealed:
  "dr_scope e = scope \<Longrightarrow> ev_hash (sealed_row st scope p e) = row_hash p (sealed_row st scope p e)"
  unfolding row_message_def sealed_row_def seal_def
  by (auto simp: event_message_def draft_semantics_def row_semantics_def
      intro!: arg_cong [where f = sha256_hex] canonical_json_cong)

lemma sealed_row_fields [simp]:
  "ev_previous (sealed_row st scope p e) = p" "ev_scope (sealed_row st scope p e) = scope"
  "ev_id (sealed_row st scope p e) = dr_id e" "ev_type (sealed_row st scope p e) = dr_type e"
  "ev_level (sealed_row st scope p e) = dr_level e" "ev_sleeve (sealed_row st scope p e) = dr_sleeve e"
  "ev_symbol (sealed_row st scope p e) = dr_symbol e" "ev_at (sealed_row st scope p e) = dr_at e"
  "ev_payload (sealed_row st scope p e) = as_dict (canon (PDict (dr_payload e)))"
  "ev_sequence (sealed_row st scope p e) = Suc (length (led_events st))"
  by (simp_all add: sealed_row_def)

lemma last_hash_head: "last_hash st scope = chain_head ev_hash genesis_hash (scope_events st scope)"
  by (cases "scope_events st scope" rule: rev_cases) (simp_all add: last_hash_def)

subsection \<open>Extension\<close>

definition appends :: "ledger \<Rightarrow> ledger \<Rightarrow> event_row list \<Rightarrow> bool" where
  "appends st st' rows \<longleftrightarrow> led_events st' = led_events st @ rows
     \<and> (\<forall>k. chain_from (last_hash st k) (filter (\<lambda>r. ev_scope r = k) rows))"

definition extends :: "ledger \<Rightarrow> ledger \<Rightarrow> bool" where
  "extends st st' \<longleftrightarrow> prefix (led_scopes st) (led_scopes st') \<and> prefix (led_orders st) (led_orders st')
     \<and> (\<exists>rows. appends st st' rows)"

lemma scope_events_append:
  "led_events st' = led_events st @ rows \<Longrightarrow>
   scope_events st' k = scope_events st k @ filter (\<lambda>r. ev_scope r = k) rows"
  by (simp add: scope_events_def)

lemma appends_refl [simp]: "led_events st' = led_events st \<Longrightarrow> appends st st' []"
  by (simp add: appends_def)

lemma appends_trans:
  assumes "appends a b rows" "appends b c rows'"
  shows "appends a c (rows @ rows')"
proof -
  have "last_hash b k = chain_head ev_hash (last_hash a k) (filter (\<lambda>r. ev_scope r = k) rows)" for k
    using assms(1) scope_events_append [of b a rows k] by (simp add: appends_def last_hash_head)
  with assms show ?thesis by (simp add: appends_def)
qed

lemma extends_refl [simp, intro]: "extends st st"
  unfolding extends_def using appends_refl [of st st] by blast

lemma extends_trans [trans]: "extends a b \<Longrightarrow> extends b c \<Longrightarrow> extends a c"
  unfolding extends_def by (meson appends_trans prefix_order.trans)

lemma insert_event_appends:
  "insert_event st row = Inr st' \<Longrightarrow> led_events st' = led_events st @ [row]
     \<and> led_scopes st' = led_scopes st \<and> led_orders st' = led_orders st"
  by (auto simp: insert_event_def split: if_splits)

lemma insert_drafts_appends:
  "insert_drafts st scope (last_hash st scope) es = Inr st' \<Longrightarrow> \<forall>e \<in> set es. dr_scope e = scope \<Longrightarrow>
   \<exists>rows. appends st st' rows \<and> led_scopes st' = led_scopes st \<and> led_orders st' = led_orders st
     \<and> map ev_id rows = map dr_id es"
proof (induction es arbitrary: st)
  case Nil
  then show ?case by (auto intro!: exI [of _ "[]"])
next
  case (Cons e es)
  let ?row = "sealed_row st scope (last_hash st scope) e"
  obtain st1 where st1: "insert_event st ?row = Inr st1" "insert_drafts st1 scope (ev_hash ?row) es = Inr st'"
    using Cons.prems(1) by (auto simp: Let_def res_simps)
  note new = insert_event_appends [OF st1(1)]
  have one: "appends st st1 [?row]"
    using new row_message_sealed [of e scope st "last_hash st scope"] Cons.prems(2) by (simp add: appends_def)
  have "last_hash st1 scope = ev_hash ?row"
    using new scope_events_append [of st1 st "[?row]" scope] by (simp add: last_hash_head)
  with st1(2) Cons.IH [of st1] Cons.prems(2) obtain rows where
    "appends st1 st' rows" "led_scopes st' = led_scopes st1" "led_orders st' = led_orders st1"
    "map ev_id rows = map dr_id es" by auto
  with one new show ?case using appends_trans [OF one] by (intro exI [of _ "?row # rows"]) auto
qed

lemma append_events_cases:
  assumes "append_events st es = Inr (n, st')"
  obtains (kept) "n = 0" "st' = st" |
    (inserted) scope where "es \<noteq> []" "n = length es" "\<forall>e \<in> set es. dr_scope e = scope"
      "insert_drafts st scope (last_hash st scope) es = Inr st'"
      "\<forall>e \<in> set es. existing_event st e = Inr None"
proof (cases es)
  case Nil
  with assms kept show ?thesis by (simp add: append_events_def)
next
  case (Cons first rest)
  from assms obtain existing where ex: "res_map (existing_event st) es = Inr existing"
    and run: "(if list_ex (\<lambda>x. x \<noteq> None) existing
      then if \<not> list_all (\<lambda>x. x \<noteq> None) existing
           then Inl (ValueError ''partial idempotent event group; reconciliation is required'')
           else Inr (0, st)
      else res_bind (text_field (PStr (dr_scope first)) ''scope_id'') (\<lambda>scope.
        if list_ex (\<lambda>e. dr_scope e \<noteq> scope) es
        then Inl (ValueError ''an event group cannot mix scopes'')
        else res_bind (insert_drafts st scope (last_hash st scope) es) (\<lambda>st'. Inr (length es, st')))) = Inr (n, st')"
    unfolding append_events_def Cons by (auto simp: res_simps)
  show ?thesis
  proof (cases "list_ex (\<lambda>x. x \<noteq> None) existing")
    case True
    with run kept show ?thesis by (auto split: if_splits)
  next
    case False
    then obtain scope where s: "\<not> list_ex (\<lambda>e. dr_scope e \<noteq> scope) es"
      "insert_drafts st scope (last_hash st scope) es = Inr st'" "n = length es"
      using run by (auto simp: res_simps split: if_splits)
    have "existing_event st e = Inr None" if e: "e \<in> set es" for e
    proof -
      obtain i where i: "i < length es" "e = es ! i" using e by (auto simp: in_set_conv_nth)
      with ex have "i < length existing" "existing_event st e = Inr (existing ! i)"
        by (auto simp: res_map_Inr_iff list_all2_conv_all_nth)
      with False show ?thesis by (auto simp: list_ex_iff dest: nth_mem)
    qed
    with s Cons inserted show ?thesis by (auto simp: list_ex_iff)
  qed
qed

lemma append_events_extends: "append_events st es = Inr (n, st') \<Longrightarrow> extends st st'"
proof (erule append_events_cases)
  fix scope
  assume "\<forall>e \<in> set es. dr_scope e = scope" "insert_drafts st scope (last_hash st scope) es = Inr st'"
  from insert_drafts_appends [OF this(2,1)] show "extends st st'" by (auto simp: extends_def)
qed simp

lemma append_events_orders:
  "append_events st es = Inr (n, st') \<Longrightarrow> led_orders st' = led_orders st \<and> led_scopes st' = led_scopes st"
  by (erule append_events_cases) (auto dest: insert_drafts_appends)

subsection \<open>Steps of the ledger\<close>

inductive ledger_step :: "ledger \<Rightarrow> ledger \<Rightarrow> bool" where
  register: "register_scope st scope portfolio phash account now = Inr st' \<Longrightarrow> ledger_step st st'"
| accept: "record_accepted_order st plan broker_id local_id stamp now = Inr (created, st') \<Longrightarrow> ledger_step st st'"
| recover: "recover_accepted_orders st scope rows clock n = (st', r) \<Longrightarrow> ledger_step st st'"
| cross: "record_internal_cross st plan price stamp now = Inr (n, st') \<Longrightarrow> ledger_step st st'"
| sync: "apply_execution_events st scope events clock = Some (Inr (report, st')) \<Longrightarrow> ledger_step st st'"
| reconcile: "reconcile_restart st scope holdings managed persist stamp now = Inr (report, st') \<Longrightarrow> ledger_step st st'"

inductive_cases ledger_stepE: "ledger_step st st'"

lemma recover_cases:
  assumes "recover_accepted_orders st scope (row # rows) clock n = (st', r)"
  obtains (stopped) "st' = st"
    | (skipped) "recover_accepted_orders st scope rows (\<lambda>i. clock (Suc i)) n = (st', r)"
    | (accepted) plan b l created st1 m
      where "record_accepted_order st plan b l (TsValue (PStr [])) (clock 0) = Inr (created, st1)"
        "recover_accepted_orders st1 scope rows (\<lambda>i. clock (Suc i)) m = (st', r)"
proof -
  let ?payload = "dict_get row ''portfolio_execution''"
    and ?broker = "strip (py_str (py_or (dict_get row ''broker_order_id'') (PStr [])))"
    and ?local = "PStr (py_str (py_or (dict_get row ''order_id'') (PStr [])))"
  note run = assms [unfolded recover_accepted_orders.simps Let_def]
  show thesis
  proof (cases "\<not> is_dict ?payload \<or> py_str (py_or (dict_get (as_dict ?payload) ''scopeId'') (PStr [])) \<noteq> scope
      \<or> ?broker = [] \<or> ?broker = ''-''")
    case True
    with run skipped show thesis by (auto split: if_splits)
  next
    case False
    note run = run [unfolded if_not_P [OF False [unfolded de_Morgan_disj, THEN conjunct1]]]
    show thesis
    proof (cases "validate_symbol_net_plan_metadata ?payload")
      case (Inl e)
      with run False stopped show thesis by simp
    next
      case (Inr plan)
      show thesis
      proof (cases "record_accepted_order st plan (PStr ?broker) ?local (TsValue (PStr [])) (clock 0)")
        case (Inl e)
        with run False \<open>validate_symbol_net_plan_metadata ?payload = Inr plan\<close> stopped
        show thesis by (simp split: if_splits)
      next
        case (Inr c)
        with run False \<open>validate_symbol_net_plan_metadata ?payload = Inr plan\<close> stopped accepted
        show thesis by (cases c) (simp split: if_splits)
      qed
    qed
  qed
qed

lemma revise_fee_cases:
  assumes "revise_fee scope st order x stored stamp = Inr (n, st')"
  obtains (kept) "n = 0" "st' = st"
    | (revised) current items weights deltas m where
      "recorded_fee st scope (xn_source x) stored = Inr current" "xn_fee x \<noteq> current"
      "stored_allocations stored = Inr items"
      "allocate_money (dec_sub (xn_fee x) current) weights = Inr deltas"
      "append_events st (revision_events scope order x current
         (map (\<lambda>(item, delta). fee_allocation_json item delta) (zip items deltas)) stamp) = Inr (m, st')"
      "n = (if m = 0 then 0 else 1)"
  using assms unfolding revise_fee_def
  by (auto split: if_splits intro: kept revised)

lemma sync_event_cases:
  assumes "sync_event scope s e = Some (Inr s')"
  obtains (replay) order x row n where
      "scope_order (sy_ledger s) scope (pe_order_id e) = Some order"
      "read_execution order (pe_fields e) = Inr x" "0 < xn_quantity x"
      "find_event (sy_ledger s) (event_prefix scope (xn_source x) @ '':portfolio'') = Some row"
      "revise_fee scope (sy_ledger s) order x (ev_payload row) (pe_at e) = Inr (n, sy_ledger s')"
      "sy_filled s' = sy_filled s"
    | (filled) order x c n s1 where
      "scope_order (sy_ledger s) scope (pe_order_id e) = Some order"
      "read_execution order (pe_fields e) = Inr x" "0 < xn_quantity x"
      "find_event (sy_ledger s) (event_prefix scope (xn_source x) @ '':portfolio'') = None"
      "apply_fill scope (sy_ledger s) order x (assoc_get 0 (sy_filled s) (or_plan order)) (pe_at e)
         = Some (Inr (c, n, sy_ledger s1))"
      "sy_filled s1 = (if n = 0 then sy_filled s else assoc_put (or_plan order) c (sy_filled s))"
      "apply_status scope s1 order x (pe_at e) = Inr s'"
    | (status) order x where
      "scope_order (sy_ledger s) scope (pe_order_id e) = Some order"
      "read_execution order (pe_fields e) = Inr x" "xn_quantity x \<le> 0"
      "apply_status scope s order x (pe_at e) = Inr s'"
proof (cases "scope_order (sy_ledger s) scope (pe_order_id e)")
  case None
  with assms show thesis by (simp add: sync_event_def)
next
  case order: (Some order)
  show thesis
  proof (cases "read_execution order (pe_fields e)")
    case (Inl err)
    with assms order show thesis by (simp add: sync_event_def)
  next
    case x: (Inr x)
    note run = assms [unfolded sync_event_def order option.case x sum.case]
    show thesis
    proof (cases "0 < xn_quantity x")
      case False
      with run status [OF order x] show thesis by simp
    next
      case pos: True
      show thesis
      proof (cases "find_event (sy_ledger s) (event_prefix scope (xn_source x) @ '':portfolio'')")
        case (Some row)
        with run pos replay [OF order x pos] show thesis by (auto simp: res_simps)
      next
        case None
        let ?s1 = "\<lambda>c n st. if n = 0 then s\<lparr>sy_ledger := st\<rparr>
          else s\<lparr>sy_ledger := st, sy_filled := assoc_put (or_plan order) c (sy_filled s),
                 sy_fills := Suc (sy_fills s)\<rparr>"
        from run pos None obtain c n st where
          af: "apply_fill scope (sy_ledger s) order x (assoc_get 0 (sy_filled s) (or_plan order)) (pe_at e)
            = Some (Inr (c, n, st))"
          and last: "apply_status scope (?s1 c n st) order x (pe_at e) = Inr s'"
          by (auto split: option.splits sum.splits)
        show thesis
          by (rule filled [OF order x pos None _ _ last]) (use af in \<open>auto split: if_splits\<close>)
      qed
    qed
  qed
qed

text \<open>
  What a property of ledgers must satisfy to survive every operation: the operations change the
  tables only by registering a scope, binding an order and appending events.
\<close>

locale ledger_invariant =
  fixes P :: "ledger \<Rightarrow> bool"
  assumes keeps_register: "P st \<Longrightarrow> register_scope st scope portfolio phash account now = Inr st' \<Longrightarrow> P st'"
    and keeps_bind: "P st \<Longrightarrow> bind_order st plan broker_id local_id stamp = Inr (created, stamp', st') \<Longrightarrow> P st'"
    and keeps_append: "P st \<Longrightarrow> append_events st es = Inr (n, st') \<Longrightarrow> P st'"
begin

lemma keeps_accept:
  "P st \<Longrightarrow> record_accepted_order st plan broker_id local_id stamp now = Inr (created, st') \<Longrightarrow> P st'"
  by (auto simp: record_accepted_order_def Let_def res_simps split: if_splits
      intro: keeps_bind keeps_append)

lemma keeps_recover:
  "P st \<Longrightarrow> recover_accepted_orders st scope rows clock n = (st', r) \<Longrightarrow> P st'"
proof (induction rows arbitrary: st clock n)
  case Nil
  then show ?case by simp
next
  case (Cons row rows)
  from Cons.prems(2) show ?case
  proof (cases rule: recover_cases)
    case stopped
    with Cons.prems(1) show ?thesis by simp
  next
    case skipped
    with Cons.IH [OF Cons.prems(1)] show ?thesis by blast
  next
    case (accepted plan b l created st1 m)
    with Cons.IH [OF keeps_accept [OF Cons.prems(1)]] show ?thesis by blast
  qed
qed

lemma keeps_cross:
  "P st \<Longrightarrow> record_internal_cross st plan price stamp now = Inr (n, st') \<Longrightarrow> P st'"
  by (auto simp: record_internal_cross_def res_simps split: if_splits intro: keeps_append)

lemma keeps_revise:
  "P st \<Longrightarrow> revise_fee scope st order x stored stamp = Inr (n, st') \<Longrightarrow> P st'"
  by (erule revise_fee_cases) (auto intro: keeps_append)

lemma keeps_fill:
  "P st \<Longrightarrow> apply_fill scope st order x previous stamp = Some (Inr (c, n, st')) \<Longrightarrow> P st'"
  by (auto simp: apply_fill_def Let_def res_simps split: if_splits option.splits sum.splits
      intro: keeps_append)

lemma keeps_status:
  "P (sy_ledger s) \<Longrightarrow> apply_status scope s order x stamp = Inr s' \<Longrightarrow> P (sy_ledger s')"
  by (auto simp: apply_status_def res_simps split: if_splits intro: keeps_append)

lemma keeps_event:
  assumes "P (sy_ledger s)" and "sync_event scope s e = Some (Inr s')"
  shows "P (sy_ledger s')"
  using assms(2)
proof (cases rule: sync_event_cases)
  case (replay order x row n)
  with keeps_revise [OF assms(1)] show ?thesis by blast
next
  case (filled order x c n s1)
  with keeps_fill [OF assms(1)] have "P (sy_ledger s1)" by blast
  with filled show ?thesis using keeps_status by blast
next
  case (status order x)
  with keeps_status [OF assms(1)] show ?thesis by blast
qed

lemma keeps_loop: "P (sy_ledger s) \<Longrightarrow> sync_loop scope s es = Some (Inr s') \<Longrightarrow> P (sy_ledger s')"
  by (induction es arbitrary: s) (auto split: option.splits sum.splits dest: keeps_event)

lemma keeps_sync:
  "P st \<Longrightarrow> apply_execution_events st scope events clock = Some (Inr (report, st')) \<Longrightarrow> P st'"
  unfolding apply_execution_events_def
  by (auto split: option.splits sum.splits prod.splits dest: keeps_loop [rotated])

lemma keeps_reconcile:
  "P st \<Longrightarrow> reconcile_restart st scope holdings managed persist stamp now = Inr (report, st') \<Longrightarrow> P st'"
  unfolding reconcile_restart_def
  by (auto simp: Let_def res_simps split: if_splits prod.splits intro: keeps_append)

lemmas keeps_operation =
  keeps_register keeps_accept keeps_recover keeps_cross keeps_sync keeps_reconcile

lemma keeps_step: "ledger_step st st' \<Longrightarrow> P st \<Longrightarrow> P st'"
  by (erule ledger_stepE) (blast intro: keeps_operation)+

lemma keeps_run: "ledger_step\<^sup>*\<^sup>* st st' \<Longrightarrow> P st \<Longrightarrow> P st'"
  by (induction rule: rtranclp_induct) (auto intro: keeps_step)

end

lemma register_scope_tables:
  assumes "register_scope st scope portfolio phash account now = Inr st'"
  shows "led_events st' = led_events st \<and> led_orders st' = led_orders st \<and>
   (led_scopes st' = led_scopes st
     \<or> (\<exists>row. led_scopes st' = led_scopes st @ [row] \<and> find_scope st (sc_id row) = None))"
proof -
  from assms obtain sid where
    "st' = st \<or> (\<exists>row. sc_id row = sid \<and> st' = st\<lparr>led_scopes := led_scopes st @ [row]\<rparr> \<and> find_scope st sid = None)"
    unfolding register_scope_def Let_def res_simps by (fastforce split: option.splits if_splits)
  then show ?thesis by auto
qed

lemma bind_order_tables:
  "bind_order st plan broker_id local_id stamp = Inr (created, stamp', st') \<Longrightarrow>
   led_events st' = led_events st \<and> led_scopes st' = led_scopes st \<and>
   (led_orders st' = led_orders st
     \<or> (\<exists>row. led_orders st' = led_orders st @ [row] \<and> find_order st (or_plan row) = None
          \<and> scope_order st (or_scope row) (or_broker_id row) = None
          \<and> find_scope st (or_scope row) \<noteq> None))"
  by (auto simp: bind_order_def Let_def scope_order_def list_ex_iff find_None_iff
      split: option.splits if_splits)

lemma extends_unchanged:
  "led_events st' = led_events st \<Longrightarrow> prefix (led_orders st) (led_orders st') \<Longrightarrow>
   prefix (led_scopes st) (led_scopes st') \<Longrightarrow> extends st st'"
  unfolding extends_def by (auto intro!: exI [of _ "[]"])

interpretation extension: ledger_invariant "extends st0" for st0
proof
  fix st scope portfolio phash account now st'
  assume "extends st0 st" "register_scope st scope portfolio phash account now = Inr st'"
  from this(1) register_scope_tables [OF this(2)] show "extends st0 st'"
    by (elim extends_trans) (auto intro: extends_unchanged)
next
  fix st plan broker_id local_id stamp created stamp' st'
  assume "extends st0 st" "bind_order st plan broker_id local_id stamp = Inr (created, stamp', st')"
  from this(1) bind_order_tables [OF this(2)] show "extends st0 st'"
    by (elim extends_trans) (auto intro: extends_unchanged)
next
  fix st es n st'
  assume "extends st0 st" "append_events st es = Inr (n, st')"
  from extends_trans [OF this(1) append_events_extends [OF this(2)]] show "extends st0 st'" .
qed

lemma step_extends: "ledger_step st st' \<Longrightarrow> extends st st'"
  by (erule extension.keeps_step) (rule extends_refl)

subsection \<open>The schema's constraints hold in every reachable ledger\<close>

definition tables_ok :: "ledger \<Rightarrow> bool" where
  "tables_ok st \<longleftrightarrow>
     distinct (map sc_id (led_scopes st))
     \<and> distinct (map or_plan (led_orders st))
     \<and> distinct (map (\<lambda>r. (or_scope r, or_broker_id r)) (led_orders st))
     \<and> (\<forall>r \<in> set (led_orders st). or_scope r \<in> sc_id ` set (led_scopes st))
     \<and> distinct (map ev_id (led_events st))
     \<and> distinct (map ev_hash (led_events st))
     \<and> map ev_sequence (led_events st) = [1..<Suc (length (led_events st))]
     \<and> (\<forall>r \<in> set (led_events st). ev_level r \<in> {''PORTFOLIO'', ''SLEEVE''})
     \<and> (\<forall>r \<in> set (led_events st). ev_scope r \<in> sc_id ` set (led_scopes st))"

lemma find_scope_iff: "find_scope st k = None \<longleftrightarrow> k \<notin> sc_id ` set (led_scopes st)"
  by (auto simp: find_scope_def find_None_iff)

lemma find_event_iff: "find_event st k = None \<longleftrightarrow> k \<notin> ev_id ` set (led_events st)"
  by (auto simp: find_event_def find_None_iff)

lemma find_order_iff: "find_order st k = None \<longleftrightarrow> k \<notin> or_plan ` set (led_orders st)"
  by (auto simp: find_order_def find_None_iff)

lemma scope_order_iff:
  "scope_order st k b = None \<longleftrightarrow> (k, b) \<notin> (\<lambda>r. (or_scope r, or_broker_id r)) ` set (led_orders st)"
  by (auto simp: scope_order_def find_None_iff)

lemmas lookup_iffs = find_scope_iff find_event_iff find_order_iff scope_order_iff

lemma insert_event_ok:
  assumes "insert_event st row = Inr st'" "tables_ok st" "ev_sequence row = Suc (length (led_events st))"
  shows "tables_ok st'"
proof -
  from assms(1) have new: "ev_id row \<notin> ev_id ` set (led_events st)"
    "ev_hash row \<notin> ev_hash ` set (led_events st)" "ev_level row \<in> {''PORTFOLIO'', ''SLEEVE''}"
    "ev_scope row \<in> sc_id ` set (led_scopes st)" "st' = st\<lparr>led_events := led_events st @ [row]\<rparr>"
    by (auto simp: insert_event_def lookup_iffs list_ex_iff image_iff split: if_splits)
  with assms(2,3) show ?thesis by (simp add: tables_ok_def)
qed

lemma insert_drafts_ok: "insert_drafts st scope p es = Inr st' \<Longrightarrow> tables_ok st \<Longrightarrow> tables_ok st'"
  by (induction es arbitrary: st p) (auto simp: Let_def dest!: insert_event_ok)

interpretation schema: ledger_invariant tables_ok
proof
  fix st scope portfolio phash account now st'
  assume ok: "tables_ok st" and "register_scope st scope portfolio phash account now = Inr st'"
  from register_scope_tables [OF this(2)] ok show "tables_ok st'"
    by (auto simp: tables_ok_def lookup_iffs)
next
  fix st plan broker_id local_id stamp created stamp' st'
  assume ok: "tables_ok st" and "bind_order st plan broker_id local_id stamp = Inr (created, stamp', st')"
  from bind_order_tables [OF this(2)] ok show "tables_ok st'"
    by (auto simp: tables_ok_def lookup_iffs)
next
  fix st es n st'
  assume "tables_ok st" "append_events st es = Inr (n, st')"
  from this(2,1) show "tables_ok st'" by (elim append_events_cases) (auto dest: insert_drafts_ok)
qed

lemma tables_ok_empty: "tables_ok empty_ledger"
  by (simp add: tables_ok_def empty_ledger_def)

lemma tables_ok_find_event: "tables_ok st \<Longrightarrow> r \<in> set (led_events st) \<Longrightarrow> find_event st (ev_id r) = Some r"
proof -
  assume ok: "tables_ok st" and r: "r \<in> set (led_events st)"
  then obtain s where s: "find_event st (ev_id r) = Some s"
    using find_event_iff [of st "ev_id r"] by auto
  then have "s \<in> set (led_events st)" "ev_id s = ev_id r"
    using find_Some_mem [of "\<lambda>r'. ev_id r' = ev_id r"] by (auto simp: find_event_def)
  with ok r have "s = r" by (auto simp: tables_ok_def distinct_map inj_on_def)
  with s show ?thesis by simp
qed

subsection \<open>The sealed store\<close>

type_synonym event_content = "string \<times> string \<times> string \<times> string \<times> string \<times> string \<times> pyval \<times> string"

definition event_content :: "event_row \<Rightarrow> event_content" where
  "event_content r = (ev_id r, ev_scope r, ev_level r, ev_sleeve r, ev_type r, ev_symbol r,
     canon (PDict (ev_payload r)), ev_at r)"

definition sane_row :: "event_row \<Rightarrow> bool" where
  "sane_row r \<longleftrightarrow> plain (PDict (ev_payload r))"

lemma row_message_inj:
  assumes "sane_row r" "sane_row s" "row_message p r = row_message q s"
  shows "p = q \<and> event_content r = event_content s"
proof -
  have "plain (event_message (ev_id r) (row_semantics r) p)" "plain (event_message (ev_id s) (row_semantics s) q)"
    using assms(1,2) by (simp_all add: event_message_def row_semantics_def sane_row_def)
  from canonical_json_inj [OF this] assms(3)
  have "canon (event_message (ev_id r) (row_semantics r) p) = canon (event_message (ev_id s) (row_semantics s) q)"
    by (simp add: row_message_def)
  then show ?thesis by (simp add: event_message_def row_semantics_def event_content_def)
qed

interpretation portfolio_log: sealed_store
  ev_previous ev_hash row_message sha256_hex event_content sane_row
  scope_events genesis_hash "\<lambda>st :: ledger. led_events st = []" ledger_step
proof
  fix r s p q
  assume "sane_row r" "sane_row s" "row_message p r = row_message q s"
  then show "p = q \<and> event_content r = event_content s" by (rule row_message_inj)
next
  fix s :: ledger and k
  assume "led_events s = []"
  then show "scope_events s k = []" by (simp add: scope_events_def)
next
  fix s t k
  assume "ledger_step s t"
  then obtain rows where "appends s t rows" using step_extends by (auto simp: extends_def)
  then show "\<exists>new. scope_events t k = scope_events s k @ new \<and>
      chain_from (chain_head ev_hash genesis_hash (scope_events s k)) new"
    using scope_events_append [of t s rows k] by (auto simp: appends_def last_hash_head)
qed

lemma verify_loop_iff:
  "verify_loop p c rows = Inr res \<longleftrightarrow>
     chain_from p rows \<and> res = (c + length rows, chain_head ev_hash p rows)"
  by (induction rows arbitrary: p c) (auto simp: row_message_def seal_def)

lemma verify_chain_iff:
  "text_field scope_id ''scope_id'' = Inr scope \<Longrightarrow>
   verify_hash_chain st scope_id = Inr res \<longleftrightarrow>
     chain_from genesis_hash (scope_events st scope)
     \<and> res = (length (scope_events st scope), last_hash st scope)"
  by (simp add: verify_hash_chain_def verify_loop_iff last_hash_head)

end
