(* ===== verification/Portfolio_Ledger_Laws.thy ===== *)
theory Portfolio_Ledger_Laws
  imports Portfolio_Chain Clean_Text
begin

section \<open>Portfolio ledger: replay, immutability, integrity\<close>

text \<open>
  What the append-only ledger promises across its whole life: replays of recorded events and of
  accepted orders are absorbed at any later time, stored rows never change, the hash chain of
  every scope verifies, and a ledger that verifies with the same head holds the same events.
\<close>

subsection \<open>Recorded events stay recorded\<close>

definition recorded :: "ledger \<Rightarrow> event_draft \<Rightarrow> bool" where
  "recorded st e \<longleftrightarrow> (\<exists>r \<in> set (led_events st). ev_id r = dr_id e
     \<and> canon (PDict (row_semantics r)) = canon (PDict (draft_semantics e)))"

lemma extends_subsets:
  "extends st st' \<Longrightarrow> set (led_events st) \<subseteq> set (led_events st') \<and> set (led_orders st) \<subseteq> set (led_orders st')
     \<and> set (led_scopes st) \<subseteq> set (led_scopes st')"
  unfolding extends_def appends_def by (auto dest: set_mono_prefix)

lemma recorded_extends: "recorded st e \<Longrightarrow> extends st st' \<Longrightarrow> recorded st' e"
  using extends_subsets unfolding recorded_def by blast

lemma sealed_row_semantics:
  "dr_scope e = scope \<Longrightarrow>
   canon (PDict (row_semantics (sealed_row st scope p e))) = canon (PDict (draft_semantics e))"
  using canon_canon [of "PDict (dr_payload e)"]
  by (simp add: row_semantics_def draft_semantics_def sealed_row_def)

lemma insert_drafts_recorded:
  "insert_drafts st scope p es = Inr st' \<Longrightarrow> \<forall>e \<in> set es. dr_scope e = scope \<Longrightarrow>
   (\<forall>e \<in> set es. recorded st' e) \<and> set (led_events st) \<subseteq> set (led_events st')"
proof (induction es arbitrary: st p)
  case Nil
  then show ?case by simp
next
  case (Cons e es)
  let ?row = "sealed_row st scope p e"
  obtain st1 where st1: "insert_event st ?row = Inr st1" "insert_drafts st1 scope (ev_hash ?row) es = Inr st'"
    using Cons.prems(1) by (auto simp: Let_def)
  have ih: "\<forall>e \<in> set es. recorded st' e" "set (led_events st1) \<subseteq> set (led_events st')"
    using Cons.IH [OF st1(2)] Cons.prems(2) by auto
  have ev: "led_events st1 = led_events st @ [?row]" using insert_event_appends [OF st1(1)] by simp
  with ih(2) have "?row \<in> set (led_events st')" by auto
  then have "recorded st' e"
    unfolding recorded_def using Cons.prems(2) sealed_row_semantics [of e scope st p]
    by (intro bexI [of _ ?row]) auto
  with ih ev show ?case by auto
qed

lemma append_events_recorded:
  assumes run: "append_events st es = Inr (n, st')" and ids: "\<forall>e \<in> set es. clean (dr_id e)"
  shows "\<forall>e \<in> set es. recorded st' e"
  using run
proof (cases rule: append_events_cases)
  case kept
  show ?thesis
  proof
    fix e
    assume e: "e \<in> set es"
    obtain existing where ex: "res_map (existing_event st) es = Inr existing"
      and all: "list_ex (\<lambda>x. x \<noteq> None) existing \<Longrightarrow> list_all (\<lambda>x. x \<noteq> None) existing"
      and none: "\<not> list_ex (\<lambda>x. x \<noteq> None) existing \<Longrightarrow> n = length es"
      using run e unfolding append_events_def by (cases es) (auto split: if_splits)
    have "length existing = length es" using res_map_Inr_length [OF ex] .
    with e none kept(1) all have some: "list_all (\<lambda>x. x \<noteq> None) existing" by (cases es) auto
    obtain i where i: "i < length es" "e = es ! i" using e by (auto simp: in_set_conv_nth)
    with ex some obtain r where "existing_event st e = Inr (Some r)"
      by (auto simp: res_map_Inr_iff list_all2_conv_all_nth list_all_length)
    then have "find_event st (dr_id e) = Some r" "canon (PDict (row_semantics r)) = canon (PDict (draft_semantics e))"
      using ids e by (auto simp: existing_event_def split: option.splits if_splits)
    then show "recorded st' e" using kept(2) find_Some_mem [of "\<lambda>r. ev_id r = dr_id e" "led_events st" r]
      by (auto simp: recorded_def find_event_def)
  qed
next
  case (inserted scope)
  with insert_drafts_recorded show ?thesis by blast
qed

lemma append_events_replay:
  assumes "tables_ok st" "\<forall>e \<in> set es. recorded st e \<and> clean (dr_id e)"
  shows "append_events st es = Inr (0, st)"
proof -
  have "\<exists>r. existing_event st e = Inr (Some r)" if e: "e \<in> set es" for e
  proof -
    obtain r where r: "r \<in> set (led_events st)" "ev_id r = dr_id e"
      "canon (PDict (row_semantics r)) = canon (PDict (draft_semantics e))"
      using assms(2) e by (auto simp: recorded_def)
    from tables_ok_find_event [OF assms(1) r(1)] r assms(2) e have "existing_event st e = Inr (Some r)"
      by (simp add: existing_event_def)
    then show ?thesis ..
  qed
  then obtain f where f: "\<And>e. e \<in> set es \<Longrightarrow> existing_event st e = Inr (Some (f e))" by metis
  have "res_map (existing_event st) es = Inr (map (\<lambda>e. Some (f e)) es)"
    by (rule res_map_total) (rule f)
  then show ?thesis by (cases es) (simp_all add: append_events_def list_all_iff list_ex_iff)
qed

subsection \<open>Replayed acceptances\<close>

definition clean_plan :: "symbol_net_plan \<Rightarrow> bool" where
  "clean_plan p \<longleftrightarrow> clean (plan_scope p) \<and> clean (plan_id p)
     \<and> (\<forall>a \<in> set (plan_internal p). clean (alloc_sleeve a) \<and> clean (alloc_intent a))"

lemma tables_ok_find_order: "tables_ok st \<Longrightarrow> r \<in> set (led_orders st) \<Longrightarrow> find_order st (or_plan r) = Some r"
proof -
  assume ok: "tables_ok st" and r: "r \<in> set (led_orders st)"
  then obtain s where s: "find_order st (or_plan r) = Some s"
    using find_order_iff [of st "or_plan r"] by auto
  then have "s \<in> set (led_orders st)" "or_plan s = or_plan r"
    using find_Some_mem [of "\<lambda>r'. or_plan r' = or_plan r"] by (auto simp: find_order_def)
  with ok r have "s = r" by (auto simp: tables_ok_def distinct_map inj_on_def)
  with s show ?thesis by simp
qed

lemma bind_order_row:
  assumes "bind_order st plan b l stamp = Inr (created, at', st')"
  obtains r where "r \<in> set (led_orders st')" "or_plan r = plan_id plan" "or_scope r = plan_scope plan"
    "or_broker_id r = b" "or_local_id r = l" "or_symbol r = plan_symbol plan" "or_side r = plan_side plan"
    "or_quantity r = dec_text (plan_quantity plan)" "or_accepted_at r = at'"
    "canonical_json (or_allocations r)
       = canonical_json (canon (PList (map allocation_json (plan_allocations plan))))"
proof (cases "find_order st (plan_id plan)")
  case None
  show thesis
    by (rule that [of "last (led_orders st')"])
      (use assms None in \<open>auto simp: bind_order_def Let_def split: if_splits\<close>)
next
  case (Some r)
  then have "r \<in> set (led_orders st)" "or_plan r = plan_id plan"
    using find_Some_mem [of "\<lambda>r. or_plan r = plan_id plan"] by (auto simp: find_order_def)
  with assms Some that show thesis by (auto simp: bind_order_def Let_def split: if_splits)
qed

lemma bind_order_replay:
  assumes bind: "bind_order st plan b l stamp = Inr (created, at', st')"
    and later: "extends st' st''" "tables_ok st''"
  shows "bind_order st'' plan b l stamp' = Inr (False, at', st'')"
proof -
  obtain r where r: "r \<in> set (led_orders st')" "or_plan r = plan_id plan" "or_scope r = plan_scope plan"
    "or_broker_id r = b" "or_local_id r = l" "or_symbol r = plan_symbol plan" "or_side r = plan_side plan"
    "or_quantity r = dec_text (plan_quantity plan)" "or_accepted_at r = at'"
    "canonical_json (or_allocations r)
       = canonical_json (canon (PList (map allocation_json (plan_allocations plan))))"
    using bind by (rule bind_order_row)
  have "find_order st'' (plan_id plan) = Some r"
    using tables_ok_find_order [OF later(2), of r] extends_subsets [OF later(1)] r(1,2) by auto
  with r show ?thesis by (simp add: bind_order_def Let_def)
qed

lemma acceptance_ids_clean:
  assumes "clean_plan plan" "clean b" "internal_cross_events plan stamp = Inr crosses"
  shows "\<forall>e \<in> set (acceptance_event plan b l stamp # crosses). clean (dr_id e)"
proof -
  have "clean (plan_scope plan @ '':order:'' @ b)"
    by (rule clean_join) (use assms(1,2) in \<open>simp_all add: clean_plan_def\<close>)
  moreover have "clean (dr_id e)" if "e \<in> set crosses" for e
  proof (cases "plan_internal plan = []")
    case True
    with assms(3) that show ?thesis by (simp add: internal_cross_events_def)
  next
    case False
    let ?pre = "plan_scope plan @ '':cross:'' @ plan_id plan"
    have pre: "clean ?pre" by (rule clean_join) (use assms(1) in \<open>simp_all add: clean_plan_def\<close>)
    have "clean (?pre @ '':'' @ ''portfolio'')"
      using pre by (rule clean_join) (simp_all add: clean_def is_space_def)
    moreover have "clean (?pre @ '':'' @ alloc_sleeve a @ '':'' @ alloc_intent a)"
      if a: "a \<in> set (plan_internal plan)" for a
    proof (rule clean_join [OF pre])
      have "clean (alloc_sleeve a)" "clean (alloc_intent a)" using assms(1) a by (auto simp: clean_plan_def)
      from clean_join [OF this, of "'':''"] show "clean (alloc_sleeve a @ '':'' @ alloc_intent a)" by simp
    qed simp
    ultimately show ?thesis
      using that assms(3) False by (auto simp: internal_cross_events_def Let_def split: if_splits)
  qed
  ultimately show ?thesis by (simp add: acceptance_event_def)
qed

text \<open>
  C5: A broker acceptance is recorded once and for all. After \<open>record_accepted_order\<close> succeeds, the
  same call in any later ledger, after any sequence of operations and with any valid timestamp,
  returns \<open>False\<close> and changes nothing: the stored acceptance time, not the time of the replay, goes
  into the event group, so the replay is recognised as the recorded one.
\<close>

theorem accepted_order_replay:
  assumes start: "ledger_step\<^sup>*\<^sup>* empty_ledger st"
    and accept: "record_accepted_order st plan broker local stamp now = Inr (created, st')"
    and plan: "clean_plan plan"
    and later: "ledger_step\<^sup>*\<^sup>* st' st''"
    and stamp': "occurred_at_text stamp' now' = Inr any"
  shows "record_accepted_order st'' plan broker local stamp' now' = Inr (False, st'')"
proof -
  let ?l = "strip (py_str (py_or local (PStr [])))"
  obtain b s0 at' st1 crosses n where
    ok: "\<not> (plan_quantity plan \<le> 0 \<or> plan_side plan \<notin> {''BUY'', ''SELL''})"
    and b: "text_field broker ''broker_order_id'' = Inr b"
    and bind: "bind_order st plan b ?l s0 = Inr (created, at', st1)"
    and crosses: "internal_cross_events plan at' = Inr crosses"
    and app: "append_events st1 (acceptance_event plan b ?l at' # crosses) = Inr (n, st')"
    using accept by (auto simp: record_accepted_order_def Let_def split: if_splits)
  note ids = acceptance_ids_clean [OF plan text_field_clean [OF b] crosses]
  have "tables_ok st" using start tables_ok_empty by (rule schema.keeps_run)
  then have "tables_ok st'" using schema.keeps_accept [OF _ accept] by blast
  then have ok'': "tables_ok st''" using schema.keeps_run [OF later] by blast
  have ext: "extends st' st''" by (rule extension.keeps_run [OF later]) simp
  have "extends st1 st''" using append_events_extends [OF app] ext by (rule extends_trans)
  then have "bind_order st'' plan b ?l any = Inr (False, at', st'')"
    using ok'' by (rule bind_order_replay [OF bind])
  moreover have "append_events st'' (acceptance_event plan b ?l at' # crosses) = Inr (0, st'')"
    using ok'' append_events_recorded [OF app ids] ids recorded_extends [OF _ ext]
    by (intro append_events_replay) auto
  ultimately show ?thesis using ok b stamp' crosses by (simp add: record_accepted_order_def Let_def)
qed

text \<open>
  C6: The hash chain of every scope verifies in every ledger the operations can produce, and the
  check returns the number of the scope's events and the digest of the last one.
\<close>

theorem reachable_ledger_verifies:
  assumes "ledger_step\<^sup>*\<^sup>* empty_ledger st" and "text_field scope_id ''scope_id'' = Inr scope"
  shows "verify_hash_chain st scope_id = Inr (length (scope_events st scope), last_hash st scope)"
proof -
  have "chain_from genesis_hash (scope_events st scope)"
    by (rule portfolio_log.reachable_chained [OF assms(1)]) (simp add: empty_ledger_def)
  with verify_chain_iff [OF assms(2)] show ?thesis by blast
qed

text \<open>
  The tables only grow: whatever operations run, every stored scope, order and event keeps its
  place and its content, and new rows come after the old ones.
\<close>

theorem ledger_append_only:
  assumes "ledger_step\<^sup>*\<^sup>* st st'"
  shows "prefix (led_scopes st) (led_scopes st') \<and> prefix (led_orders st) (led_orders st')
    \<and> prefix (led_events st) (led_events st')"
proof -
  have "extends st st'" using assms by (rule extension.keeps_run) simp
  then show ?thesis by (auto simp: extends_def appends_def)
qed

text \<open>
  C7: The hash chain is tamper evident. Two ledgers of float-free payloads, of any origin, whose
  chain check returns the same count and head digest, hold the same events of the scope (up to
  the order of payload entries), unless two of the sealed messages collide under SHA-256.
\<close>

theorem ledger_tamper_evident:
  assumes "text_field scope_id ''scope_id'' = Inr scope"
    and "verify_hash_chain st scope_id = Inr res" "verify_hash_chain st' scope_id = Inr res"
    and "\<forall>r \<in> set (scope_events st scope) \<union> set (scope_events st' scope). plain (PDict (ev_payload r))"
    and "inj_on sha256_hex (portfolio_log.messages genesis_hash (scope_events st scope)
           \<union> portfolio_log.messages genesis_hash (scope_events st' scope))"
  shows "map event_content (scope_events st scope) = map event_content (scope_events st' scope)"
proof (rule portfolio_log.tamper_evident)
  note v = assms(2,3) [unfolded verify_chain_iff [OF assms(1)]]
  show "chain_from genesis_hash (scope_events st scope)" "chain_from genesis_hash (scope_events st' scope)"
    "length (scope_events st scope) = length (scope_events st' scope)"
    "chain_head ev_hash genesis_hash (scope_events st scope)
       = chain_head ev_hash genesis_hash (scope_events st' scope)"
    using v by (auto simp: last_hash_head)
  show "\<forall>r \<in> set (scope_events st scope) \<union> set (scope_events st' scope). sane_row r"
    using assms(4) by (simp add: sane_row_def)
qed (rule assms(5))

text \<open>
  Event identities decide. After a group has been appended, appending it again in any later
  ledger inserts nothing, and an event that reuses one of its identities with another content is
  refused.
\<close>

theorem event_identity_decides:
  assumes "ledger_step\<^sup>*\<^sup>* empty_ledger st" "append_events st es = Inr (n, st')"
    and "\<forall>e \<in> set es. clean (dr_id e)" "ledger_step\<^sup>*\<^sup>* st' st''"
  shows "append_events st'' es = Inr (0, st'') \<and>
    (\<forall>e \<in> set es. \<forall>e'. dr_id e' = dr_id e \<longrightarrow>
      canon (PDict (draft_semantics e')) \<noteq> canon (PDict (draft_semantics e)) \<longrightarrow>
      append_events st'' [e'] = Inl (ValueError (''event_id collision with different content: '' @ dr_id e)))"
proof (intro conjI ballI allI impI)
  have "tables_ok st" using assms(1) tables_ok_empty by (rule schema.keeps_run)
  from schema.keeps_append [OF this assms(2)] have ok: "tables_ok st''"
    by (rule schema.keeps_run [OF assms(4)])
  have "extends st' st''" by (rule extension.keeps_run [OF assms(4)]) simp
  with append_events_recorded [OF assms(2,3)] assms(3)
  have rec: "\<forall>e \<in> set es. recorded st'' e \<and> clean (dr_id e)" by (auto intro: recorded_extends)
  show "append_events st'' es = Inr (0, st'')" by (rule append_events_replay [OF ok rec])
  fix e e'
  assume e: "e \<in> set es" "dr_id e' = dr_id e"
    and ne: "canon (PDict (draft_semantics e')) \<noteq> canon (PDict (draft_semantics e))"
  from rec e(1) obtain r where r: "r \<in> set (led_events st'')" "ev_id r = dr_id e"
    "canon (PDict (row_semantics r)) = canon (PDict (draft_semantics e))" "clean (dr_id e)"
    by (auto simp: recorded_def)
  with tables_ok_find_event [OF ok r(1)] e(2) ne
  show "append_events st'' [e'] = Inl (ValueError (''event_id collision with different content: '' @ dr_id e))"
    by (simp add: append_events_def existing_event_def)
qed

subsection \<open>A concrete ledger for the witnesses\<close>

definition demo_plan :: symbol_net_plan where
  "demo_plan = \<lparr>plan_id = ''p1'', plan_schema = plan_schema_version, plan_scope = ''s'',
     plan_portfolio = ''pf'', plan_portfolio_hash = ''h'', plan_symbol = ''005930'', plan_side = ''BUY'',
     plan_quantity = 3, plan_reference_price = 100,
     plan_deltas = [\<lparr>delta_intent = ''i'', delta_sleeve = ''a'', delta_current = 0, delta_target = 3,
                     delta_signed = 3\<rparr>],
     plan_internal = [],
     plan_allocations = [\<lparr>alloc_intent = ''i'', alloc_sleeve = ''a'', alloc_signed = 3\<rparr>]\<rparr>"

definition demo_scoped :: ledger where
  "demo_scoped = empty_ledger\<lparr>led_scopes := [\<lparr>sc_id = ''s'', sc_portfolio = ''pf'',
     sc_portfolio_hash = ''h'', sc_account = ''acc'', sc_broker = ''kis'', sc_currency = ''KRW'',
     sc_created_at = iso_micro_text 0\<rparr>]\<rparr>"

definition demo_ordered :: ledger where
  "demo_ordered = demo_scoped\<lparr>led_orders := [\<lparr>or_plan = ''p1'', or_scope = ''s'', or_broker_id = ''b1'',
     or_local_id = ''l1'', or_symbol = ''005930'', or_side = ''BUY'', or_quantity = dec_text 3,
     or_allocations = canon (PList (map allocation_json (plan_allocations demo_plan))),
     or_accepted_at = iso_micro_text 7\<rparr>]\<rparr>"

definition demo_event :: event_row where
  "demo_event = sealed_row demo_ordered ''s'' genesis_hash
     (acceptance_event demo_plan ''b1'' ''l1'' (iso_micro_text 7))"

definition demo_accepted :: ledger where
  "demo_accepted = demo_ordered\<lparr>led_events := [demo_event]\<rparr>"

lemma clean_demo [simp]: "clean ''s''" "clean ''b1''" "clean ''p1''" "clean ''pf''" "clean ''h''" "clean ''acc''"
  "clean ''l1''"
  by (simp_all add: clean_def is_space_def)

lemma demo_register:
  "register_scope empty_ledger (PStr ''s'') (PStr ''pf'') (PStr ''h'') (PStr ''acc'') 0 = Inr demo_scoped"
  by (simp add: register_scope_def find_scope_def empty_ledger_def demo_scoped_def lower_def to_lower_def
      is_upper_def)

lemma demo_accept:
  "record_accepted_order demo_scoped demo_plan (PStr ''b1'') (PStr ''l1'') (TsAware 7) 0 = Inr (True, demo_accepted)"
proof -
  have bind: "bind_order demo_scoped demo_plan ''b1'' ''l1'' (iso_micro_text 7)
      = Inr (True, iso_micro_text 7, demo_ordered)"
    by (simp add: bind_order_def find_order_def find_scope_def demo_scoped_def demo_ordered_def demo_plan_def
        empty_ledger_def)
  have "clean (''s'' @ '':order:'' @ ''b1'')" by (simp add: clean_def is_space_def)
  then have "append_events demo_ordered [acceptance_event demo_plan ''b1'' ''l1'' (iso_micro_text 7)]
      = Inr (1, demo_accepted)"
    by (simp add: append_events_def existing_event_def find_event_def demo_accepted_def demo_ordered_def
        demo_scoped_def empty_ledger_def acceptance_event_def demo_plan_def last_hash_def scope_events_def
        insert_event_def find_scope_def demo_event_def sealed_row_def Let_def)
  with bind show ?thesis
    by (simp add: record_accepted_order_def occurred_at_text_def internal_cross_events_def
        clean_strip) (simp add: demo_plan_def)
qed

lemma demo_reachable: "ledger_step\<^sup>*\<^sup>* empty_ledger demo_scoped" "ledger_step\<^sup>*\<^sup>* empty_ledger demo_accepted"
proof -
  show 1: "ledger_step\<^sup>*\<^sup>* empty_ledger demo_scoped"
    using ledger_step.register [OF demo_register] by blast
  then show "ledger_step\<^sup>*\<^sup>* empty_ledger demo_accepted"
    using ledger_step.accept [OF demo_accept] by (rule rtranclp.rtrancl_into_rtrancl)
qed

theorem accepted_order_replay_witness:
  "record_accepted_order demo_accepted demo_plan (PStr ''b1'') (PStr ''l1'') (TsAware 99) 5
     = Inr (False, demo_accepted)"
proof (rule accepted_order_replay [OF demo_reachable(1) demo_accept])
  show "clean_plan demo_plan" by (simp add: clean_plan_def demo_plan_def)
  show "occurred_at_text (TsAware 99) 5 = Inr (iso_micro_text 99)" by (simp add: occurred_at_text_def)
qed simp

theorem reachable_ledger_verifies_witness:
  "verify_hash_chain demo_accepted (PStr ''s'') = Inr (1, ev_hash demo_event)"
  using reachable_ledger_verifies [OF demo_reachable(2), of "PStr ''s''" "''s''"]
  by (simp add: scope_events_def last_hash_def demo_accepted_def demo_event_def acceptance_event_def demo_plan_def)

theorem ledger_append_only_witness: "prefix (led_orders demo_scoped) (led_orders demo_accepted)"
  using ledger_append_only [of demo_scoped demo_accepted] ledger_step.accept [OF demo_accept] by blast

lemma demo_verifies:
  "led_events st = [demo_event] \<Longrightarrow> verify_hash_chain st (PStr ''s'') = Inr (1, ev_hash demo_event)
     \<and> scope_events st ''s'' = [demo_event]"
proof -
  assume ev: "led_events st = [demo_event]"
  then have row: "scope_events st ''s'' = [demo_event]" "scope_events demo_accepted ''s'' = [demo_event]"
    by (simp_all add: scope_events_def demo_accepted_def demo_event_def)
  have "chain_from genesis_hash (scope_events demo_accepted ''s'')"
    by (rule portfolio_log.reachable_chained [OF demo_reachable(2)]) (simp add: empty_ledger_def)
  with row verify_chain_iff [of "PStr ''s''" "''s''" st "(1, ev_hash demo_event)"] show ?thesis
    by (simp add: last_hash_def)
qed

theorem ledger_tamper_evident_witness:
  "map event_content (scope_events demo_accepted ''s'')
     = map event_content (scope_events (demo_accepted\<lparr>led_orders := [], led_scopes := []\<rparr>) ''s'')"
proof (rule ledger_tamper_evident)
  let ?st = "demo_accepted\<lparr>led_orders := [], led_scopes := []\<rparr>"
  have v: "verify_hash_chain st (PStr ''s'') = Inr (1, ev_hash demo_event)" "scope_events st ''s'' = [demo_event]"
    if "st \<in> {demo_accepted, ?st}" for st
    using that demo_verifies [of st] by (auto simp: demo_accepted_def)
  show "text_field (PStr ''s'') ''scope_id'' = Inr ''s''" by simp
  show "verify_hash_chain demo_accepted (PStr ''s'') = Inr (1, ev_hash demo_event)"
    "verify_hash_chain ?st (PStr ''s'') = Inr (1, ev_hash demo_event)" by (rule v; simp)+
  show "\<forall>r \<in> set (scope_events demo_accepted ''s'') \<union> set (scope_events ?st ''s''). plain (PDict (ev_payload r))"
    by (simp add: v demo_event_def acceptance_event_def demo_plan_def plan_metadata_def
        allocation_json_def delta_json_def)
  show "inj_on sha256_hex (portfolio_log.messages genesis_hash (scope_events demo_accepted ''s'')
      \<union> portfolio_log.messages genesis_hash (scope_events ?st ''s''))"
    by (simp add: v)
qed

theorem event_identity_decides_witness:
  "append_events demo_accepted [acceptance_event demo_plan ''b1'' ''l1'' (iso_micro_text 7)] = Inr (0, demo_accepted)"
proof -
  let ?e = "acceptance_event demo_plan ''b1'' ''l1'' (iso_micro_text 7)"
  have id: "clean (dr_id ?e)" by (simp add: clean_def is_space_def acceptance_event_def demo_plan_def)
  have "append_events demo_accepted [?e] = Inr (0, demo_accepted)"
  proof (rule append_events_replay)
    show "tables_ok demo_accepted" using demo_reachable(2) tables_ok_empty by (rule schema.keeps_run)
    show "\<forall>e \<in> set [?e]. recorded demo_accepted e \<and> clean (dr_id e)"
      using id sealed_row_semantics [of ?e "''s''" demo_ordered genesis_hash]
      by (simp add: recorded_def demo_accepted_def demo_event_def)
         (simp add: acceptance_event_def demo_plan_def)
  qed
  from event_identity_decides [OF demo_reachable(2) this _ rtranclp.rtrancl_refl] id
  show ?thesis by simp
qed

end
