(* ===== verification/Py_Number.thy ===== *)
theory Py_Number
  imports Py_Decimal Py_Value
begin

section \<open>Python's \<open>int(value)\<close>\<close>

text \<open>
  \<open>int\<close> on the values that reach the governance records: integers and booleans convert, texts are
  parsed (white space around, a sign, digits grouped by single underscores, at most 4300 of them),
  floats are truncated, everything else is a \<open>TypeError\<close>. A float is given by its \<open>repr\<close>; from
  \<open>2 ^ 53\<close> on its value is the double nearest to that decimal.
\<close>

fun type_name :: "pyval \<Rightarrow> string" where
  "type_name PNone = ''NoneType''"
| "type_name (PBool _) = ''bool''"
| "type_name (PInt _) = ''int''"
| "type_name (PFloat _) = ''float''"
| "type_name (PStr _) = ''str''"
| "type_name (PList _) = ''list''"
| "type_name (PDict _) = ''dict''"

fun digit_groups :: "string \<Rightarrow> bool" where
  "digit_groups [] = False"
| "digit_groups [c] = is_digit c"
| "digit_groups (c # d # s) =
     (is_digit c \<and> (if d = CHR ''_'' then digit_groups s else digit_groups (d # s)))"

definition split_sign :: "string \<Rightarrow> bool \<times> string" where
  "split_sign s =
     (case s of
        [] \<Rightarrow> (False, [])
      | c # cs \<Rightarrow> if c = CHR ''-'' then (True, cs) else if c = CHR ''+'' then (False, cs) else (False, s))"

definition int_of_text :: "string \<Rightarrow> int res" where
  "int_of_text text =
     (let (neg, body) = split_sign (strip text);
          ds = filter (\<lambda>c. c \<noteq> CHR ''_'') body
      in if \<not> digit_groups body
         then Inl (ValueError (''invalid literal for int() with base 10: '' @ repr_string text))
         else if 4300 < length ds
         then Inl (ValueError ''Exceeds the limit (4300 digits) for integer string conversion'')
         else Inr (if neg then - int (digits_val ds) else int (digits_val ds)))"

function halvings :: "int \<Rightarrow> nat" where
  "halvings n = (if n < 2 ^ 53 then 0 else Suc (halvings (n div 2)))"
  by pat_completeness auto
termination
  by (relation "measure nat") auto

declare halvings.simps [simp del]

definition truncate_double :: "rat \<Rightarrow> int" where
  "truncate_double q =
     (let a = \<bar>q\<bar>; k = halvings \<lfloor>a\<rfloor>;
          m = (if k = 0 then \<lfloor>a\<rfloor> else round_half_even (a / 2 ^ k) * 2 ^ k)
      in if q < 0 then - m else m)"

fun py_int :: "pyval \<Rightarrow> int res" where
  "py_int (PInt i) = Inr i"
| "py_int (PBool b) = Inr (if b then 1 else 0)"
| "py_int (PStr s) = int_of_text s"
| "py_int (PFloat r) =
     (if r = ''nan'' then Inl (ValueError ''cannot convert float NaN to integer'')
      else if r = ''inf'' \<or> r = ''-inf'' then Inl (OverflowError ''cannot convert float infinity to integer'')
      else case dec_parse r of
             None \<Rightarrow> Inl (ValueError ''cannot convert float NaN to integer'')
           | Some q \<Rightarrow> Inr (truncate_double q))"
| "py_int v = Inl (TypeError
     (''int() argument must be a string, a bytes-like object or a real number, not '' @ repr_string (type_name v)))"

text \<open>\<open>float.is_finite\<close>: what \<open>json.dumps(..., allow_nan=False)\<close> accepts.\<close>

definition finite_float :: "string \<Rightarrow> bool" where
  "finite_float r \<longleftrightarrow> r \<notin> {''nan'', ''inf'', ''-inf''}"

end
