(* ===== verification/Gov_Fields.thy ===== *)
theory Gov_Fields
  imports Py_Number Py_Hash Py_Time
begin

section \<open>Operational governance: field checks\<close>

text \<open>
  \<open>live_trader/operational_governance.py\<close>, the constants and the module functions before the
  dataclasses: the normalisers every governance record and event is built from. Each returns the
  normalised value or raises \<open>ValueError\<close>.
\<close>

subsection \<open>Schemas, modes and transition tables\<close>

definition manifest_schema :: string where "manifest_schema = ''live-deployment-manifest-v1''"
definition preflight_schema :: string where "preflight_schema = ''live-preflight-snapshot-v1''"
definition session_schema :: string where "session_schema = ''live-runtime-session-v1''"
definition runtime_event_schema :: string where "runtime_event_schema = ''live-runtime-event-v1''"
definition incident_schema :: string where "incident_schema = ''live-incident-v1''"
definition incident_event_schema :: string where "incident_event_schema = ''live-incident-event-v1''"
definition store_schema :: string where "store_schema = ''live-operational-governance-store-v1''"

definition max_preflight_ttl :: int where "max_preflight_ttl = 3600"

definition live_modes :: "string list" where "live_modes = [''SMALL_LIVE'', ''FULL_LIVE'']"
definition runtime_modes :: "string list" where "runtime_modes = ''MONITOR'' # live_modes"

definition runtime_lifecycles :: "string list" where
  "runtime_lifecycles = [''PREFLIGHT'', ''STARTING'', ''RUNNING'', ''DEGRADED'', ''DRAINING'',
     ''STOPPING'', ''STOPPED'', ''FAILED'']"

definition runtime_terminal :: "string list" where "runtime_terminal = [''STOPPED'', ''FAILED'']"

definition runtime_transitions :: "(string \<times> string list) list" where
  "runtime_transitions =
     [(''PREFLIGHT'', [''STARTING'', ''FAILED'']),
      (''STARTING'', [''RUNNING'', ''DEGRADED'', ''STOPPING'', ''FAILED'']),
      (''RUNNING'', [''DEGRADED'', ''DRAINING'', ''STOPPING'', ''FAILED'']),
      (''DEGRADED'', [''RUNNING'', ''DRAINING'', ''STOPPING'', ''FAILED'']),
      (''DRAINING'', [''STOPPING'', ''STOPPED'', ''FAILED'']),
      (''STOPPING'', [''STOPPED'', ''FAILED''])]"

definition incident_states :: "string list" where
  "incident_states = [''OPEN'', ''ACKNOWLEDGED'', ''MITIGATING'', ''RESOLVED'']"

definition incident_transitions :: "(string \<times> string list) list" where
  "incident_transitions =
     [(''OPEN'', [''ACKNOWLEDGED'', ''MITIGATING'', ''RESOLVED'']),
      (''ACKNOWLEDGED'', [''MITIGATING'', ''RESOLVED'']),
      (''MITIGATING'', [''RESOLVED''])]"

definition incident_severities :: "string list" where
  "incident_severities = [''INFO'', ''WARNING'', ''ERROR'', ''CRITICAL'']"

definition severity_rank :: "(string \<times> nat) list" where
  "severity_rank = [(''INFO'', 0), (''WARNING'', 1), (''ERROR'', 2), (''CRITICAL'', 3)]"

definition incident_scope_types :: "string list" where
  "incident_scope_types = [''GLOBAL'', ''DEPLOYMENT'', ''SESSION'', ''ROUTE'', ''STRATEGY'', ''INSTRUMENT'']"

text \<open>\<open>table.get(state, frozenset())\<close>\<close>

definition successors :: "(string \<times> string list) list \<Rightarrow> string \<Rightarrow> string list" where
  "successors table s = assoc_get [] table s"

definition forbidden_account_keys :: "string list" where
  "forbidden_account_keys =
     [''account'', ''accountid'', ''accountno'', ''accountnumber'', ''brokeraccount'',
      ''brokeraccountid'', ''brokeraccountno'', ''brokeraccountnumber'', ''cano'',
      ''kisaccountno'', ''paperaccountid'']"

subsection \<open>Texts, fingerprints, revisions\<close>

text \<open>\<open>str(value or "").strip()\<close>, the reading every check starts from.\<close>

definition plain_text :: "pyval \<Rightarrow> string" where
  "plain_text value = strip (py_str (py_or value (PStr [])))"

definition required_text :: "pyval \<Rightarrow> string \<Rightarrow> string res" where
  "required_text value label =
     (let text = plain_text value
      in if text = [] then Inl (ValueError (label @ '' is required''))
         else if 500 < py_len text then Inl (ValueError (label @ '' is too long''))
         else Inr text)"

definition required_sha256 :: "pyval \<Rightarrow> string \<Rightarrow> string res" where
  "required_sha256 value label =
     (let text = lower (plain_text value)
      in if sha_pattern text then Inr text
         else Inl (ValueError (label @ '' must be a SHA-256 hex fingerprint'')))"

definition optional_sha256 :: "pyval \<Rightarrow> string \<Rightarrow> string res" where
  "optional_sha256 value label =
     (let text = plain_text value
      in if text \<noteq> [] then required_sha256 (PStr text) label else Inr [])"

text \<open>\<open>except (TypeError, ValueError)\<close> around \<open>int(value)\<close>; an overflow passes through.\<close>

definition integer_field :: "pyval \<Rightarrow> string \<Rightarrow> int res" where
  "integer_field value label =
     (case py_int value of
        Inr i \<Rightarrow> Inr i
      | Inl (OverflowError m) \<Rightarrow> Inl (OverflowError m)
      | Inl _ \<Rightarrow> Inl (ValueError (label @ '' must be an integer'')))"

definition positive_revision :: "pyval \<Rightarrow> string \<Rightarrow> int res" where
  "positive_revision value label =
     res_bind (integer_field value label) (\<lambda>revision.
     if revision < 1 then Inl (ValueError (label @ '' must be at least 1'')) else Inr revision)"

definition enum_text :: "pyval \<Rightarrow> string list \<Rightarrow> string \<Rightarrow> string res" where
  "enum_text value allowed label =
     (let normalized = upper (plain_text value)
      in if normalized \<in> set allowed then Inr normalized
         else Inl (ValueError (''unsupported '' @ label @ '': ''
                @ (if normalized = [] then ''-'' else normalized))))"

subsection \<open>Timestamps\<close>

text \<open>A \<open>datetime\<close> holds the years 1 to 9999; arithmetic that leaves them is an \<open>OverflowError\<close>.\<close>

definition min_instant :: instant where "min_instant = -62135596800000000"
definition max_instant :: instant where "max_instant = 253402300799999999"

definition representable :: "instant \<Rightarrow> bool" where
  "representable t \<longleftrightarrow> min_instant \<le> t \<and> t \<le> max_instant"

definition instant_text :: "instant \<Rightarrow> string res" where
  "instant_text t =
     (if representable t then Inr (iso_text t) else Inl (OverflowError ''date value out of range''))"

definition utc_instant :: "ts_arg \<Rightarrow> string \<Rightarrow> instant res" where
  "utc_instant value label =
     (case value of
        TsAware t \<Rightarrow> Inr t
      | TsNaive \<Rightarrow> Inl (ValueError (label @ '' must include a timezone''))
      | TsValue v \<Rightarrow>
          (let text = plain_text v
           in if text = [] then Inl (ValueError (label @ '' is required''))
              else case iso_parse text of
                     IsoBad \<Rightarrow> Inl (ValueError (label @ '' must be an ISO-8601 timestamp''))
                   | IsoNaive \<Rightarrow> Inl (ValueError (label @ '' must include a timezone''))
                   | IsoAware t \<Rightarrow> Inr t))"

definition utc_iso :: "ts_arg \<Rightarrow> string \<Rightarrow> string res" where
  "utc_iso value label = res_bind (utc_instant value label) instant_text"

text \<open>\<open>_parse_utc\<close> reads back the text \<open>_utc_iso\<close> writes.\<close>

definition parse_utc :: "ts_arg \<Rightarrow> string \<Rightarrow> instant res" where
  "parse_utc value label =
     res_bind (utc_iso value label) (\<lambda>text.
     case iso_parse text of
       IsoAware t \<Rightarrow> Inr t
     | _ \<Rightarrow> Inl (ValueError (''Invalid isoformat string: '' @ repr_string text)))"

text \<open>\<open>_now(value)\<close>: the given time, or the clock when it is \<open>None\<close>.\<close>

definition now_text :: "instant \<Rightarrow> ts_arg \<Rightarrow> string res" where
  "now_text clock value =
     utc_iso (if value = TsValue PNone then TsAware clock else value) ''occurred_at''"

subsection \<open>JSON payloads without raw account material\<close>

text \<open>
  Alphanumeric characters of a key; the bytes of a non-ASCII character count as letters, which
  they are for the Korean keys of the program.
\<close>

definition normalized_key :: "string \<Rightarrow> string" where
  "normalized_key value = filter (\<lambda>c. is_alnum c \<or> 128 \<le> code c) (lower value)"

definition contains_text :: "string \<Rightarrow> string \<Rightarrow> bool" where
  "contains_text s t \<longleftrightarrow> sublist t s"

definition raw_account_key :: "string \<Rightarrow> bool" where
  "raw_account_key key =
     (let n = normalized_key key
      in n \<in> set forbidden_account_keys
         \<or> (ends_with n ''accountid'' \<or> ends_with n ''accountno'' \<or> ends_with n ''accountnumber'')
           \<and> \<not> contains_text n ''fingerprint'')"

fun assert_no_raw_account :: "pyval \<Rightarrow> string \<Rightarrow> unit res"
  and assert_items :: "pyval list \<Rightarrow> string \<Rightarrow> nat \<Rightarrow> unit res"
  and assert_entries :: "pydict \<Rightarrow> string \<Rightarrow> unit res" where
  "assert_no_raw_account (PDict d) path = assert_entries d path"
| "assert_no_raw_account (PList xs) path = assert_items xs path 0"
| "assert_no_raw_account v path = Inr ()"
| "assert_items [] path i = Inr ()"
| "assert_items (x # xs) path i =
     res_bind (assert_no_raw_account x (path @ ''['' @ nat_text i @ '']''))
       (\<lambda>_. assert_items xs path (Suc i))"
| "assert_entries [] path = Inr ()"
| "assert_entries ((k, v) # kvs) path =
     (if raw_account_key k
      then Inl (ValueError (path @ ''.'' @ k @ '' may not contain a raw account identifier; ''
                  @ ''pass accountFingerprint instead''))
      else res_bind (assert_no_raw_account v (path @ ''.'' @ k)) (\<lambda>_. assert_entries kvs path))"

fun strict_json :: "pyval \<Rightarrow> bool"
  and strict_list :: "pyval list \<Rightarrow> bool"
  and strict_entries :: "pydict \<Rightarrow> bool" where
  "strict_json (PFloat r) = finite_float r"
| "strict_json (PList xs) = strict_list xs"
| "strict_json (PDict kvs) = strict_entries kvs"
| "strict_json v = True"
| "strict_list [] = True"
| "strict_list (x # xs) = (strict_json x \<and> strict_list xs)"
| "strict_entries [] = True"
| "strict_entries ((k, v) # kvs) = (strict_json v \<and> strict_entries kvs)"

text \<open>The decoded object has its keys sorted at every level: \<open>json.loads(json.dumps(..., sort_keys=True))\<close>.\<close>

definition json_object :: "pydict \<Rightarrow> string \<Rightarrow> pydict res" where
  "json_object source label =
     res_bind (assert_no_raw_account (PDict source) label) (\<lambda>_.
     if strict_entries source then Inr (canon_entries source)
     else Inl (ValueError (label @ '' must contain strict JSON values'')))"

definition new_id :: "(string \<Rightarrow> string) \<Rightarrow> string \<Rightarrow> string" where
  "new_id uuid kind = kind @ ''-'' @ uuid kind"

subsection \<open>Preflight checks\<close>

record preflight_check =
  ck_id :: string
  ck_status :: string
  ck_detail :: string
  ck_evidence :: string

definition check_json :: "preflight_check \<Rightarrow> pydict" where
  "check_json c =
     [(''checkId'', PStr (ck_id c)), (''status'', PStr (ck_status c)),
      (''detail'', PStr (ck_detail c)), (''evidenceHash'', PStr (ck_evidence c))]"

definition check_status :: "pyval \<Rightarrow> string res" where
  "check_status value =
     (let s = upper (plain_text value);
          status = (if s = ''BLOCK'' \<or> s = ''BLOCKED'' then ''FAIL'' else if s = ''WARNING'' then ''WARN'' else s)
      in if status \<in> {''PASS'', ''WARN'', ''FAIL''} then Inr status
         else Inl (ValueError (''unsupported preflight check status: ''
                @ (if status = [] then ''-'' else status))))"

fun collect_checks :: "nat \<Rightarrow> string list \<Rightarrow> pydict list \<Rightarrow> preflight_check list res" where
  "collect_checks i seen [] = Inr []"
| "collect_checks i seen (raw # raws) =
     (let label = ''checks['' @ nat_text i @ '']'' in
      res_bind (json_object raw label) (\<lambda>item.
      res_bind (required_text (py_or (dict_get item ''checkId'') (dict_get item ''check_id''))
                  (label @ ''.checkId'')) (\<lambda>cid.
      if cid \<in> set seen then Inl (ValueError (''duplicate preflight check ID: '' @ cid))
      else
        res_bind (check_status (dict_get item ''status'')) (\<lambda>status.
        res_bind (optional_sha256 (py_or (dict_get item ''evidenceHash'') (dict_get item ''evidence_hash''))
                    (label @ ''.evidenceHash'')) (\<lambda>evidence.
        res_bind (collect_checks (Suc i) (cid # seen) raws) (\<lambda>rest.
        Inr (\<lparr>ck_id = cid, ck_status = status, ck_detail = plain_text (dict_get item ''detail''),
              ck_evidence = evidence\<rparr> # rest)))))))"

definition normalized_preflight_checks :: "pydict list \<Rightarrow> preflight_check list res" where
  "normalized_preflight_checks checks =
     res_bind (collect_checks 0 [] checks) (\<lambda>result.
     if result = [] then Inl (ValueError ''at least one preflight check is required'')
     else Inr (sort_key ck_id result))"

definition preflight_status :: "preflight_check list \<Rightarrow> string" where
  "preflight_status checks =
     (let statuses = map (\<lambda>c. upper (ck_status c)) checks
      in if ''FAIL'' \<in> set statuses then ''BLOCKED''
         else if ''WARN'' \<in> set statuses then ''REVIEW_REQUIRED''
         else ''PASS'')"

end
