(* ===== verification/Gov_Records.thy ===== *)
theory Gov_Records
  imports Gov_Fields
begin

section \<open>Operational governance: deployment manifests and preflight snapshots\<close>

text \<open>
  The two frozen dataclasses of \<open>operational_governance.py\<close> whose constructors normalise and check
  their fields. A class is a record scheme over the types of its texts, integers and times: the
  fields as the constructor receives them (\<open>manifest_input\<close>, \<open>preflight_input\<close>) and as it leaves
  them (\<open>deployment_manifest\<close>, \<open>preflight_snapshot\<close>). \<open>make_manifest\<close> and \<open>make_preflight\<close> are the
  \<open>__post_init__\<close> methods.
\<close>

subsection \<open>Deployment manifest\<close>

record ('t, 'n, 'w) manifest_fields =
  mf_deployment :: 't
  mf_revision :: 'n
  mf_previous :: 't
  mf_strategy_hash :: 't
  mf_portfolio_hash :: 't
  mf_account :: 't
  mf_route :: 't
  mf_runtime_version :: 't
  mf_build_hash :: 't
  mf_adapter :: 't
  mf_adapter_version :: 't
  mf_risk_revision :: 'n
  mf_risk_hash :: 't
  mf_config_revision :: 'n
  mf_config_hash :: 't
  mf_ttl :: 'n
  mf_created :: 'w
  mf_metadata :: pydict
  mf_schema :: 't

type_synonym manifest_input = "(pyval, pyval, ts_arg) manifest_fields"
type_synonym deployment_manifest = "(string, int, string) manifest_fields"

definition make_manifest :: "manifest_input \<Rightarrow> deployment_manifest res" where
  "make_manifest raw =
     res_bind (required_text (mf_deployment raw) ''deployment_id'') (\<lambda>deployment.
     res_bind (positive_revision (mf_revision raw) ''revision'') (\<lambda>revision.
     res_bind (optional_sha256 (mf_previous raw) ''previous_manifest_hash'') (\<lambda>previous.
     res_bind (require (\<not> (revision = 1 \<and> previous \<noteq> []))
       (ValueError ''the first deployment revision cannot have a previous hash'')) (\<lambda>_.
     res_bind (require (\<not> (1 < revision \<and> previous = []))
       (ValueError ''a later deployment revision requires a previous hash'')) (\<lambda>_.
     res_bind (required_sha256 (mf_strategy_hash raw) ''strategy_artifact_hash'') (\<lambda>strategy.
     res_bind (required_sha256 (mf_account raw) ''account_fingerprint'') (\<lambda>account.
     res_bind (required_sha256 (mf_build_hash raw) ''build_hash'') (\<lambda>build.
     res_bind (required_sha256 (mf_risk_hash raw) ''risk_policy_hash'') (\<lambda>risk.
     res_bind (required_sha256 (mf_config_hash raw) ''config_hash'') (\<lambda>config.
     res_bind (optional_sha256 (mf_portfolio_hash raw) ''portfolio_artifact_hash'') (\<lambda>portfolio.
     res_bind (required_text (mf_route raw) ''broker_route'') (\<lambda>route.
     res_bind (required_text (mf_runtime_version raw) ''runtime_version'') (\<lambda>runtime.
     res_bind (required_text (mf_adapter raw) ''execution_adapter'') (\<lambda>adapter.
     res_bind (required_text (mf_adapter_version raw) ''execution_adapter_version'') (\<lambda>adapter_version.
     res_bind (positive_revision (mf_risk_revision raw) ''risk_policy_revision'') (\<lambda>risk_revision.
     res_bind (positive_revision (mf_config_revision raw) ''config_revision'') (\<lambda>config_revision.
     res_bind (integer_field (mf_ttl raw) ''preflight_ttl_seconds'') (\<lambda>ttl.
     res_bind (require (1 \<le> ttl \<and> ttl \<le> max_preflight_ttl)
       (ValueError ''preflight_ttl_seconds must be between 1 and 3600'')) (\<lambda>_.
     res_bind (utc_iso (mf_created raw) ''created_at'') (\<lambda>created.
     res_bind (json_object (mf_metadata raw) ''metadata'') (\<lambda>metadata.
     if mf_schema raw \<noteq> PStr manifest_schema
     then Inl (ValueError ''unsupported deployment manifest schema'')
     else Inr \<lparr>mf_deployment = deployment, mf_revision = revision, mf_previous = previous,
       mf_strategy_hash = strategy, mf_portfolio_hash = portfolio, mf_account = account,
       mf_route = route, mf_runtime_version = runtime, mf_build_hash = build,
       mf_adapter = adapter, mf_adapter_version = adapter_version,
       mf_risk_revision = risk_revision, mf_risk_hash = risk,
       mf_config_revision = config_revision, mf_config_hash = config, mf_ttl = ttl,
       mf_created = created, mf_metadata = metadata,
       mf_schema = manifest_schema\<rparr>)))))))))))))))))))))"

definition manifest_payload :: "deployment_manifest \<Rightarrow> pydict" where
  "manifest_payload m =
     [(''schemaVersion'', PStr (mf_schema m)),
      (''deploymentId'', PStr (mf_deployment m)),
      (''revision'', PInt (mf_revision m)),
      (''previousManifestHash'', PStr (mf_previous m)),
      (''strategyArtifactHash'', PStr (mf_strategy_hash m)),
      (''portfolioArtifactHash'', PStr (mf_portfolio_hash m)),
      (''accountFingerprint'', PStr (mf_account m)),
      (''brokerRoute'', PStr (mf_route m)),
      (''runtimeVersion'', PStr (mf_runtime_version m)),
      (''buildHash'', PStr (mf_build_hash m)),
      (''executionAdapter'', PStr (mf_adapter m)),
      (''executionAdapterVersion'', PStr (mf_adapter_version m)),
      (''riskPolicyRevision'', PInt (mf_risk_revision m)),
      (''riskPolicyHash'', PStr (mf_risk_hash m)),
      (''configRevision'', PInt (mf_config_revision m)),
      (''configHash'', PStr (mf_config_hash m)),
      (''preflightTtlSeconds'', PInt (mf_ttl m)),
      (''createdAt'', PStr (mf_created m)),
      (''metadata'', PDict (mf_metadata m))]"

definition manifest_hash :: "deployment_manifest \<Rightarrow> string" where
  "manifest_hash m = seal (PDict (manifest_payload m))"

definition manifest_dict :: "deployment_manifest \<Rightarrow> pydict" where
  "manifest_dict m = manifest_payload m @ [(''manifestHash'', PStr (manifest_hash m))]"

text \<open>\<open>payload.get(key, default)\<close>, \<open>str(payload.get(key) or "")\<close> and \<open>payload.get(key) if a Mapping else {}\<close>\<close>

definition get_or :: "pyval \<Rightarrow> pydict \<Rightarrow> string \<Rightarrow> pyval" where
  "get_or missing d k = assoc_get missing d k"

definition get_text :: "pydict \<Rightarrow> string \<Rightarrow> pyval" where
  "get_text d k = PStr (py_str (py_or (dict_get d k) (PStr [])))"

definition get_mapping :: "pydict \<Rightarrow> string \<Rightarrow> pydict" where
  "get_mapping d k = as_dict (dict_get d k)"

text \<open>\<open>hmac.compare_digest\<close> on texts refuses non-ASCII ones.\<close>

definition check_declared :: "pyval \<Rightarrow> string \<Rightarrow> string \<Rightarrow> unit res" where
  "check_declared value actual mismatch =
     (let declared = lower (plain_text value)
      in if declared = [] then Inr ()
         else if list_ex (\<lambda>c. 128 \<le> code c) declared
         then Inl (TypeError ''comparing strings with non-ASCII characters is not supported'')
         else require (declared = actual) (ValueError mismatch))"

text \<open>A method of \<open>Mapping\<close> called on the decoded value: anything else has no \<open>get\<close>.\<close>

definition require_mapping :: "pyval \<Rightarrow> pydict res" where
  "require_mapping v =
     (case v of
        PDict d \<Rightarrow> Inr d
      | _ \<Rightarrow> Inl (AttributeError (repr_string (type_name v) @ '' object has no attribute '' @ repr_string ''get'')))"

definition manifest_arguments :: "pydict \<Rightarrow> manifest_input" where
  "manifest_arguments payload =
     \<lparr>mf_deployment = get_text payload ''deploymentId'',
      mf_revision = get_or (PInt 0) payload ''revision'',
      mf_previous = get_text payload ''previousManifestHash'',
      mf_strategy_hash = get_text payload ''strategyArtifactHash'',
      mf_portfolio_hash = get_text payload ''portfolioArtifactHash'',
      mf_account = get_text payload ''accountFingerprint'',
      mf_route = get_text payload ''brokerRoute'',
      mf_runtime_version = get_text payload ''runtimeVersion'',
      mf_build_hash = get_text payload ''buildHash'',
      mf_adapter = get_text payload ''executionAdapter'',
      mf_adapter_version = get_text payload ''executionAdapterVersion'',
      mf_risk_revision = get_or (PInt 0) payload ''riskPolicyRevision'',
      mf_risk_hash = get_text payload ''riskPolicyHash'',
      mf_config_revision = get_or (PInt 0) payload ''configRevision'',
      mf_config_hash = get_text payload ''configHash'',
      mf_ttl = get_or (PInt 0) payload ''preflightTtlSeconds'',
      mf_created = TsValue (get_text payload ''createdAt''),
      mf_metadata = get_mapping payload ''metadata'',
      mf_schema = get_text payload ''schemaVersion''\<rparr>"

definition manifest_from_dict :: "pyval \<Rightarrow> deployment_manifest res" where
  "manifest_from_dict v =
     res_bind (require_mapping v) (\<lambda>payload.
     res_bind (make_manifest (manifest_arguments payload)) (\<lambda>manifest.
     res_bind (check_declared (dict_get payload ''manifestHash'') (manifest_hash manifest)
       ''deployment manifest hash mismatch'') (\<lambda>_.
     Inr manifest)))"

subsection \<open>Preflight snapshot\<close>

record ('t, 'n, 'w, 'c) preflight_fields =
  ps_id :: 't
  ps_deployment :: 't
  ps_revision :: 'n
  ps_manifest_hash :: 't
  ps_account :: 't
  ps_route :: 't
  ps_config_revision :: 'n
  ps_config_hash :: 't
  ps_reconciliation :: 't
  ps_broker_hash :: 't
  ps_status :: 't
  ps_checks :: "'c list"
  ps_issued :: 'w
  ps_expires :: 'w
  ps_metadata :: pydict
  ps_schema :: 't

type_synonym preflight_input = "(pyval, pyval, ts_arg, pydict) preflight_fields"
type_synonym preflight_snapshot = "(string, int, string, preflight_check) preflight_fields"

definition make_preflight :: "preflight_input \<Rightarrow> preflight_snapshot res" where
  "make_preflight raw =
     res_bind (required_text (ps_id raw) ''snapshot_id'') (\<lambda>snapshot.
     res_bind (required_text (ps_deployment raw) ''deployment_id'') (\<lambda>deployment.
     res_bind (required_text (ps_route raw) ''broker_route'') (\<lambda>route.
     res_bind (positive_revision (ps_revision raw) ''deployment_revision'') (\<lambda>revision.
     res_bind (positive_revision (ps_config_revision raw) ''config_revision'') (\<lambda>config_revision.
     res_bind (required_sha256 (ps_manifest_hash raw) ''deployment_manifest_hash'') (\<lambda>manifest.
     res_bind (required_sha256 (ps_account raw) ''account_fingerprint'') (\<lambda>account.
     res_bind (required_sha256 (ps_config_hash raw) ''config_hash'') (\<lambda>config.
     res_bind (required_sha256 (ps_reconciliation raw) ''reconciliation_hash'') (\<lambda>reconciliation.
     res_bind (required_sha256 (ps_broker_hash raw) ''broker_snapshot_hash'') (\<lambda>broker.
     res_bind (normalized_preflight_checks (ps_checks raw)) (\<lambda>checks.
     res_bind (enum_text (ps_status raw) [''PASS'', ''REVIEW_REQUIRED'', ''BLOCKED'']
       ''preflight status'') (\<lambda>status.
     res_bind (require (status = preflight_status checks)
       (ValueError ''preflight status does not match check results'')) (\<lambda>_.
     res_bind (utc_iso (ps_issued raw) ''issued_at'') (\<lambda>issued.
     res_bind (utc_iso (ps_expires raw) ''expires_at'') (\<lambda>expires.
     res_bind (parse_utc (TsValue (PStr expires)) ''expires_at'') (\<lambda>expires_t.
     res_bind (parse_utc (TsValue (PStr issued)) ''issued_at'') (\<lambda>issued_t.
     res_bind (require (\<not> expires_t \<le> issued_t)
       (ValueError ''preflight expiry must be after issue time'')) (\<lambda>_.
     res_bind (json_object (ps_metadata raw) ''metadata'') (\<lambda>metadata.
     if ps_schema raw \<noteq> PStr preflight_schema
     then Inl (ValueError ''unsupported preflight snapshot schema'')
     else Inr \<lparr>ps_id = snapshot, ps_deployment = deployment, ps_revision = revision,
       ps_manifest_hash = manifest, ps_account = account, ps_route = route,
       ps_config_revision = config_revision, ps_config_hash = config,
       ps_reconciliation = reconciliation, ps_broker_hash = broker, ps_status = status,
       ps_checks = checks, ps_issued = issued, ps_expires = expires, ps_metadata = metadata,
       ps_schema = preflight_schema\<rparr>)))))))))))))))))))"

definition preflight_payload :: "preflight_snapshot \<Rightarrow> pydict" where
  "preflight_payload s =
     [(''schemaVersion'', PStr (ps_schema s)),
      (''snapshotId'', PStr (ps_id s)),
      (''deploymentId'', PStr (ps_deployment s)),
      (''deploymentRevision'', PInt (ps_revision s)),
      (''deploymentManifestHash'', PStr (ps_manifest_hash s)),
      (''accountFingerprint'', PStr (ps_account s)),
      (''brokerRoute'', PStr (ps_route s)),
      (''configRevision'', PInt (ps_config_revision s)),
      (''configHash'', PStr (ps_config_hash s)),
      (''reconciliationHash'', PStr (ps_reconciliation s)),
      (''brokerSnapshotHash'', PStr (ps_broker_hash s)),
      (''status'', PStr (ps_status s)),
      (''checks'', PList (map (\<lambda>c. PDict (check_json c)) (ps_checks s))),
      (''issuedAt'', PStr (ps_issued s)),
      (''expiresAt'', PStr (ps_expires s)),
      (''metadata'', PDict (ps_metadata s))]"

definition preflight_hash :: "preflight_snapshot \<Rightarrow> string" where
  "preflight_hash s = seal (PDict (preflight_payload s))"

definition preflight_dict :: "preflight_snapshot \<Rightarrow> pydict" where
  "preflight_dict s = preflight_payload s @ [(''snapshotHash'', PStr (preflight_hash s))]"

definition is_expired :: "preflight_snapshot \<Rightarrow> ts_arg \<Rightarrow> bool res" where
  "is_expired s moment =
     res_bind (parse_utc moment ''at'') (\<lambda>t.
     res_bind (parse_utc (TsValue (PStr (ps_expires s))) ''expires_at'') (\<lambda>e.
     Inr (e \<le> t)))"

text \<open>\<open>(item for item in payload.get("checks", ()) if isinstance(item, Mapping))\<close>: iterating a dict or
  a text yields texts, which are dropped.\<close>

fun mappings_of :: "pyval \<Rightarrow> pydict list res" where
  "mappings_of (PList xs) = Inr (map as_dict (filter is_dict xs))"
| "mappings_of (PDict _) = Inr []"
| "mappings_of (PStr _) = Inr []"
| "mappings_of v = Inl (TypeError (repr_string (type_name v) @ '' object is not iterable''))"

definition preflight_arguments :: "pydict \<Rightarrow> pydict list \<Rightarrow> preflight_input" where
  "preflight_arguments payload checks =
     \<lparr>ps_id = get_text payload ''snapshotId'',
      ps_deployment = get_text payload ''deploymentId'',
      ps_revision = get_or (PInt 0) payload ''deploymentRevision'',
      ps_manifest_hash = get_text payload ''deploymentManifestHash'',
      ps_account = get_text payload ''accountFingerprint'',
      ps_route = get_text payload ''brokerRoute'',
      ps_config_revision = get_or (PInt 0) payload ''configRevision'',
      ps_config_hash = get_text payload ''configHash'',
      ps_reconciliation = get_text payload ''reconciliationHash'',
      ps_broker_hash = get_text payload ''brokerSnapshotHash'',
      ps_status = get_text payload ''status'',
      ps_checks = checks,
      ps_issued = TsValue (get_text payload ''issuedAt''),
      ps_expires = TsValue (get_text payload ''expiresAt''),
      ps_metadata = get_mapping payload ''metadata'',
      ps_schema = get_text payload ''schemaVersion''\<rparr>"

definition preflight_from_dict :: "pyval \<Rightarrow> preflight_snapshot res" where
  "preflight_from_dict v =
     res_bind (require_mapping v) (\<lambda>payload.
     res_bind (mappings_of (get_or (PList []) payload ''checks'')) (\<lambda>checks.
     res_bind (make_preflight (preflight_arguments payload checks)) (\<lambda>snapshot.
     res_bind (check_declared (dict_get payload ''snapshotHash'') (preflight_hash snapshot)
       ''preflight snapshot hash mismatch'') (\<lambda>_.
     Inr snapshot))))"

end
