(* ===== verification/Gov_Store.thy ===== *)
theory Gov_Store
  imports Gov_Records
begin

section \<open>Operational governance: the store, manifests and preflights\<close>

text \<open>
  \<open>OperationalGovernanceStore\<close> of \<open>operational_governance.py\<close>: its state is the seven SQLite tables,
  rows in insertion order. A JSON column holds the value its text decodes to, or the decoder's
  message when the text is not JSON (no operation of the class writes such a text; the reading
  operations handle it). Schema constraints are checks of the insert operations. An operation
  returns the state together with its result, because some read the store again after the commit.
  The clock and the digits of \<open>uuid4\<close> are arguments.
\<close>

subsection \<open>Tables\<close>

type_synonym json_column = "string + pyval"

record manifest_row =
  mr_deployment :: string
  mr_revision :: int
  mr_hash :: string
  mr_previous :: string
  mr_account :: string
  mr_config_revision :: int
  mr_config_hash :: string
  mr_payload :: json_column
  mr_created :: string

record preflight_row =
  pr_id :: string
  pr_hash :: string
  pr_deployment :: string
  pr_revision :: int
  pr_manifest_hash :: string
  pr_account :: string
  pr_config_revision :: int
  pr_config_hash :: string
  pr_status :: string
  pr_issued :: string
  pr_expires :: string
  pr_payload :: json_column

record session_row =
  sr_id :: string
  sr_deployment :: string
  sr_manifest_hash :: string
  sr_preflight_id :: string
  sr_preflight_hash :: string
  sr_config_revision :: int
  sr_config_hash :: string
  sr_profile :: string
  sr_mode :: string
  sr_instance :: string
  sr_created :: string
  sr_metadata :: json_column

text \<open>Runtime and incident events: a row of the table, or the dataclass with the decoded payload.\<close>

record 'p runtime_event =
  re_session :: string
  re_sequence :: int
  re_id :: string
  re_previous :: string
  re_hash :: string
  re_lifecycle :: string
  re_type :: string
  re_actor :: string
  re_payload :: 'p
  re_at :: string

record incident_row =
  ir_id :: string
  ir_dedupe :: string
  ir_code :: string
  ir_scope_type :: string
  ir_scope_id :: string
  ir_deployment :: string
  ir_session :: string
  ir_account :: string
  ir_opened :: string

record 'p incident_event =
  ie_incident :: string
  ie_sequence :: int
  ie_id :: string
  ie_previous :: string
  ie_hash :: string
  ie_state :: string
  ie_severity :: string
  ie_type :: string
  ie_actor :: string
  ie_evidence :: string
  ie_payload :: 'p
  ie_at :: string

record gov_store =
  gs_meta :: "(string \<times> string) list"
  gs_manifests :: "manifest_row list"
  gs_preflights :: "preflight_row list"
  gs_sessions :: "session_row list"
  gs_runtime_events :: "json_column runtime_event list"
  gs_incidents :: "incident_row list"
  gs_incident_events :: "json_column incident_event list"

definition no_tables :: gov_store where
  "no_tables = \<lparr>gs_meta = [], gs_manifests = [], gs_preflights = [], gs_sessions = [],
     gs_runtime_events = [], gs_incidents = [], gs_incident_events = []\<rparr>"

text \<open>\<open>_initialize\<close>: the tables exist, the schema version is recorded once.\<close>

definition initialize :: "instant \<Rightarrow> gov_store \<Rightarrow> gov_store res" where
  "initialize clock st =
     res_bind (now_text clock (TsValue PNone)) (\<lambda>now.
     Inr (if store_schema \<in> fst ` set (gs_meta st) then st
          else st\<lparr>gs_meta := gs_meta st @ [(store_schema, now)]\<rparr>))"

text \<open>
  The triggers: a statement that would update or delete a row of the six tables is aborted.
  \<open>hits\<close> is the number of rows its \<open>WHERE\<close> clause selects.
\<close>

datatype gov_table =
  ManifestTable | PreflightTable | SessionTable | RuntimeEventTable | IncidentTable | IncidentEventTable

fun abort_message :: "gov_table \<Rightarrow> string" where
  "abort_message ManifestTable = ''deployment manifests are immutable''"
| "abort_message PreflightTable = ''preflight snapshots are immutable''"
| "abort_message SessionTable = ''runtime sessions are immutable''"
| "abort_message RuntimeEventTable = ''runtime events are append-only''"
| "abort_message IncidentTable = ''incidents are immutable''"
| "abort_message IncidentEventTable = ''incident events are append-only''"

definition direct_write :: "gov_table \<Rightarrow> nat \<Rightarrow> gov_store \<Rightarrow> gov_store res" where
  "direct_write table hits st =
     (if hits = 0 then Inr st else Inl (IntegrityError (abort_message table)))"

subsection \<open>Transactions and inserts\<close>

text \<open>\<open>_transaction\<close>: rolled back when the body raises, committed otherwise.\<close>

definition transaction :: "gov_store \<Rightarrow> (gov_store \<Rightarrow> (gov_store \<times> 'a) res) \<Rightarrow> gov_store \<times> 'a res" where
  "transaction st body =
     (case body st of Inl e \<Rightarrow> (st, Inl e) | Inr (st', x) \<Rightarrow> (st', Inr x))"

definition sql_integer :: "int \<Rightarrow> unit res" where
  "sql_integer i =
     require (- (2 ^ 63) \<le> i \<and> i < 2 ^ 63) (OverflowError ''Python int too large to convert to SQLite INTEGER'')"

definition unique :: "bool \<Rightarrow> string \<Rightarrow> unit res" where
  "unique absent column = require absent (IntegrityError (''UNIQUE constraint failed: '' @ column))"

definition foreign_key :: "bool \<Rightarrow> unit res" where
  "foreign_key present = require present (IntegrityError ''FOREIGN KEY constraint failed'')"

definition load_json :: "json_column \<Rightarrow> string \<Rightarrow> pyval res" where
  "load_json column corrupt =
     (case column of Inl _ \<Rightarrow> Inl (ValueError corrupt) | Inr v \<Rightarrow> Inr v)"

definition insert_manifest :: "gov_store \<Rightarrow> manifest_row \<Rightarrow> gov_store res" where
  "insert_manifest st row =
     res_bind (sql_integer (mr_revision row)) (\<lambda>_.
     res_bind (sql_integer (mr_config_revision row)) (\<lambda>_.
     res_bind (require (1 \<le> mr_revision row)
       (IntegrityError ''CHECK constraint failed: revision >= 1'')) (\<lambda>_.
     res_bind (require (1 \<le> mr_config_revision row)
       (IntegrityError ''CHECK constraint failed: config_revision >= 1'')) (\<lambda>_.
     res_bind (unique (mr_hash row \<notin> mr_hash ` set (gs_manifests st))
       ''live_deployment_manifests.manifest_hash'') (\<lambda>_.
     res_bind (unique ((mr_deployment row, mr_revision row)
         \<notin> (\<lambda>r. (mr_deployment r, mr_revision r)) ` set (gs_manifests st))
       ''live_deployment_manifests.deployment_id, live_deployment_manifests.revision'') (\<lambda>_.
     Inr (st\<lparr>gs_manifests := gs_manifests st @ [row]\<rparr>)))))))"

definition insert_preflight :: "gov_store \<Rightarrow> preflight_row \<Rightarrow> gov_store res" where
  "insert_preflight st row =
     res_bind (sql_integer (pr_revision row)) (\<lambda>_.
     res_bind (sql_integer (pr_config_revision row)) (\<lambda>_.
     res_bind (require (pr_status row \<in> {''PASS'', ''REVIEW_REQUIRED'', ''BLOCKED''})
       (IntegrityError ''CHECK constraint failed: status IN ('PASS', 'REVIEW_REQUIRED', 'BLOCKED')'')) (\<lambda>_.
     res_bind (unique (pr_id row \<notin> pr_id ` set (gs_preflights st))
       ''live_preflight_snapshots.snapshot_id'') (\<lambda>_.
     res_bind (unique (pr_hash row \<notin> pr_hash ` set (gs_preflights st))
       ''live_preflight_snapshots.snapshot_hash'') (\<lambda>_.
     res_bind (foreign_key (pr_manifest_hash row \<in> mr_hash ` set (gs_manifests st))) (\<lambda>_.
     Inr (st\<lparr>gs_preflights := gs_preflights st @ [row]\<rparr>)))))))"

subsection \<open>Deployment manifests\<close>

definition manifest_from_row :: "manifest_row option \<Rightarrow> deployment_manifest option res" where
  "manifest_from_row row =
     (case row of
        None \<Rightarrow> Inr None
      | Some r \<Rightarrow>
          res_bind (load_json (mr_payload r) ''deployment manifest JSON is corrupt'') (\<lambda>payload.
          res_bind (manifest_from_dict payload) (\<lambda>m. Inr (Some m))))"

definition latest_manifest_row :: "gov_store \<Rightarrow> string \<Rightarrow> manifest_row option" where
  "latest_manifest_row st deployment =
     newest mr_revision (filter (\<lambda>r. mr_deployment r = deployment) (gs_manifests st))"

definition manifest_by_hash :: "gov_store \<Rightarrow> string \<Rightarrow> deployment_manifest option res" where
  "manifest_by_hash st hash = manifest_from_row (find (\<lambda>r. mr_hash r = hash) (gs_manifests st))"

definition latest_manifest :: "gov_store \<Rightarrow> string \<Rightarrow> deployment_manifest option res" where
  "latest_manifest st deployment = manifest_from_row (latest_manifest_row st deployment)"

definition manifest_to_row :: "deployment_manifest \<Rightarrow> manifest_row" where
  "manifest_to_row m =
     \<lparr>mr_deployment = mf_deployment m, mr_revision = mf_revision m, mr_hash = manifest_hash m,
      mr_previous = mf_previous m, mr_account = mf_account m,
      mr_config_revision = mf_config_revision m, mr_config_hash = mf_config_hash m,
      mr_payload = Inr (canon (PDict (manifest_dict m))), mr_created = mf_created m\<rparr>"

text \<open>The keyword arguments are those of the record; revision, previous hash and schema are not.\<close>

definition create_deployment_manifest ::
  "gov_store \<Rightarrow> manifest_input \<Rightarrow> instant \<Rightarrow> gov_store \<times> deployment_manifest res" where
  "create_deployment_manifest st raw clock =
     (case res_bind (required_text (mf_deployment raw) ''deployment_id'') (\<lambda>deployment.
           res_bind (now_text clock (mf_created raw)) (\<lambda>occurred. Inr (deployment, occurred))) of
        Inl e \<Rightarrow> (st, Inl e)
      | Inr (deployment, occurred) \<Rightarrow>
          transaction st (\<lambda>st.
            let row = latest_manifest_row st deployment;
                revision = (case row of None \<Rightarrow> 0 | Some r \<Rightarrow> mr_revision r) + 1;
                previous = (case row of None \<Rightarrow> [] | Some r \<Rightarrow> mr_hash r)
            in res_bind (make_manifest (raw\<lparr>mf_deployment := PStr deployment,
                 mf_revision := PInt revision, mf_previous := PStr previous,
                 mf_created := TsValue (PStr occurred), mf_schema := PStr manifest_schema\<rparr>)) (\<lambda>manifest.
               res_bind (insert_manifest st (manifest_to_row manifest)) (\<lambda>st'.
               Inr (st', manifest)))))"

definition get_deployment_manifest ::
  "gov_store \<Rightarrow> string \<Rightarrow> pyval \<Rightarrow> deployment_manifest option res" where
  "get_deployment_manifest st deployment revision =
     (if revision = PNone then latest_manifest st deployment
      else res_bind (py_int revision) (\<lambda>rev.
           res_bind (sql_integer rev) (\<lambda>_.
           manifest_from_row
             (find (\<lambda>r. mr_deployment r = deployment \<and> mr_revision r = rev) (gs_manifests st)))))"

definition get_deployment_manifest_by_hash ::
  "gov_store \<Rightarrow> pyval \<Rightarrow> deployment_manifest option res" where
  "get_deployment_manifest_by_hash st hash =
     res_bind (required_sha256 hash ''manifest_hash'') (manifest_by_hash st)"

subsection \<open>Preflight snapshots\<close>

definition find_preflight :: "gov_store \<Rightarrow> string \<Rightarrow> preflight_snapshot option res" where
  "find_preflight st snapshot =
     (case find (\<lambda>r. pr_id r = snapshot) (gs_preflights st) of
        None \<Rightarrow> Inr None
      | Some r \<Rightarrow>
          res_bind (load_json (pr_payload r) ''preflight snapshot JSON is corrupt'') (\<lambda>payload.
          res_bind (preflight_from_dict payload) (\<lambda>s. Inr (Some s))))"

definition preflight_to_row :: "preflight_snapshot \<Rightarrow> preflight_row" where
  "preflight_to_row s =
     \<lparr>pr_id = ps_id s, pr_hash = preflight_hash s, pr_deployment = ps_deployment s,
      pr_revision = ps_revision s, pr_manifest_hash = ps_manifest_hash s,
      pr_account = ps_account s, pr_config_revision = ps_config_revision s,
      pr_config_hash = ps_config_hash s, pr_status = ps_status s, pr_issued = ps_issued s,
      pr_expires = ps_expires s, pr_payload = Inr (canon (PDict (preflight_dict s)))\<rparr>"

text \<open>The manifest a caller names must be the deployment's own and its latest one.\<close>

definition current_manifest ::
  "gov_store \<Rightarrow> string \<Rightarrow> string \<Rightarrow> deployment_manifest res" where
  "current_manifest st hash deployment =
     res_bind (manifest_by_hash st hash) (\<lambda>found.
     case found of
       None \<Rightarrow> Inl (ValueError ''deployment manifest does not match deployment_id'')
     | Some manifest \<Rightarrow>
         if mf_deployment manifest \<noteq> strip deployment
         then Inl (ValueError ''deployment manifest does not match deployment_id'')
         else res_bind (latest_manifest st (mf_deployment manifest)) (\<lambda>latest.
           if (case latest of None \<Rightarrow> True | Some l \<Rightarrow> manifest_hash l \<noteq> manifest_hash manifest)
           then Inl (ValueError ''deployment manifest has been superseded'')
           else Inr manifest))"

definition preflight_ttl :: "deployment_manifest \<Rightarrow> pyval \<Rightarrow> int res" where
  "preflight_ttl manifest ttl_seconds =
     res_bind (if ttl_seconds = PNone then Inr (mf_ttl manifest) else py_int ttl_seconds) (\<lambda>ttl.
     if 1 \<le> ttl \<and> ttl \<le> min (mf_ttl manifest) max_preflight_ttl then Inr ttl
     else Inl (ValueError ''preflight TTL exceeds the deployment policy''))"

record preflight_request =
  rq_deployment :: string
  rq_manifest_hash :: pyval
  rq_checks :: "pydict list"
  rq_reconciliation :: pyval
  rq_broker_hash :: pyval
  rq_ttl :: pyval
  rq_metadata :: pydict
  rq_issued :: ts_arg
  rq_id :: string

definition build_preflight ::
  "gov_store \<Rightarrow> preflight_request \<Rightarrow> string \<Rightarrow> string \<Rightarrow> (string \<Rightarrow> string) \<Rightarrow> preflight_snapshot res" where
  "build_preflight st rq hash issued uuid =
     res_bind (current_manifest st hash (rq_deployment rq)) (\<lambda>manifest.
     res_bind (preflight_ttl manifest (rq_ttl rq)) (\<lambda>ttl.
     res_bind (normalized_preflight_checks (rq_checks rq)) (\<lambda>checks.
     res_bind (parse_utc (TsValue (PStr issued)) ''issued_at'') (\<lambda>start.
     res_bind (instant_text (start + ttl * 1000000)) (\<lambda>expires.
     make_preflight
       \<lparr>ps_id = PStr (if rq_id rq \<noteq> [] then rq_id rq else new_id uuid ''preflight''),
        ps_deployment = PStr (mf_deployment manifest),
        ps_revision = PInt (mf_revision manifest),
        ps_manifest_hash = PStr (manifest_hash manifest),
        ps_account = PStr (mf_account manifest),
        ps_route = PStr (mf_route manifest),
        ps_config_revision = PInt (mf_config_revision manifest),
        ps_config_hash = PStr (mf_config_hash manifest),
        ps_reconciliation = rq_reconciliation rq,
        ps_broker_hash = rq_broker_hash rq,
        ps_status = PStr (preflight_status checks),
        ps_checks = map check_json checks,
        ps_issued = TsValue (PStr issued),
        ps_expires = TsValue (PStr expires),
        ps_metadata = rq_metadata rq,
        ps_schema = PStr preflight_schema\<rparr>)))))"

definition create_preflight_snapshot ::
  "gov_store \<Rightarrow> preflight_request \<Rightarrow> (string \<Rightarrow> string) \<Rightarrow> instant \<Rightarrow> gov_store \<times> preflight_snapshot res" where
  "create_preflight_snapshot st rq uuid clock =
     (case res_bind (required_sha256 (rq_manifest_hash rq) ''deployment_manifest_hash'') (\<lambda>hash.
           res_bind (now_text clock (rq_issued rq)) (\<lambda>issued. Inr (hash, issued))) of
        Inl e \<Rightarrow> (st, Inl e)
      | Inr (hash, issued) \<Rightarrow>
          transaction st (\<lambda>st.
            res_bind (build_preflight st rq hash issued uuid) (\<lambda>snapshot.
            res_bind (insert_preflight st (preflight_to_row snapshot)) (\<lambda>st'.
            Inr (st', snapshot)))))"

subsection \<open>Is a preflight still valid?\<close>

record validity =
  va_valid :: bool
  va_reasons :: "string list"
  va_snapshot :: "preflight_snapshot option"
  va_checked :: "string option"

definition manifest_reasons :: "deployment_manifest option \<Rightarrow> preflight_snapshot \<Rightarrow> string list" where
  "manifest_reasons latest s =
     (case latest of
        None \<Rightarrow> [''deployment-manifest-missing'']
      | Some l \<Rightarrow>
          if manifest_hash l \<noteq> ps_manifest_hash s then [''deployment-manifest-superseded'']
          else if mf_config_revision l \<noteq> ps_config_revision s \<or> mf_config_hash l \<noteq> ps_config_hash s
          then [''preflight-config-mismatch'']
          else [])"

definition preflight_validity_at :: "gov_store \<Rightarrow> string \<Rightarrow> string \<Rightarrow> validity res" where
  "preflight_validity_at st snapshot current =
     res_bind (find_preflight st snapshot) (\<lambda>found.
     case found of
       None \<Rightarrow> Inr \<lparr>va_valid = False, va_reasons = [''preflight-snapshot-missing''],
                    va_snapshot = None, va_checked = None\<rparr>
     | Some s \<Rightarrow>
         res_bind (is_expired s (TsValue (PStr current))) (\<lambda>expired.
         res_bind (latest_manifest st (ps_deployment s)) (\<lambda>latest.
         let reasons =
               (if ps_status s \<noteq> ''PASS'' then [''preflight-status-'' @ lower (ps_status s)] else [])
               @ (if expired then [''preflight-expired''] else [])
               @ manifest_reasons latest s
         in Inr \<lparr>va_valid = (reasons = []), va_reasons = reasons, va_snapshot = Some s,
                 va_checked = Some current\<rparr>)))"

definition preflight_validity ::
  "gov_store \<Rightarrow> string \<Rightarrow> ts_arg \<Rightarrow> instant \<Rightarrow> validity res" where
  "preflight_validity st snapshot moment clock =
     res_bind (now_text clock moment) (preflight_validity_at st snapshot)"

end
