(* ===== verification/Gov_Runtime.thy ===== *)
theory Gov_Runtime
  imports Gov_Store
begin

section \<open>Operational governance: runtime sessions and their events\<close>

text \<open>
  The runtime session half of \<open>OperationalGovernanceStore\<close>. A session row never changes: its
  lifecycle is that of its last event, its preflight binding that of its last
  \<open>PREFLIGHT_REBOUND\<close> event. Every operation that moves a session appends one sealed event.
\<close>

record runtime_session =
  rs_id :: string
  rs_deployment :: string
  rs_manifest_hash :: string
  rs_preflight_id :: string
  rs_preflight_hash :: string
  rs_config_revision :: int
  rs_config_hash :: string
  rs_profile :: string
  rs_mode :: string
  rs_instance :: string
  rs_lifecycle :: string
  rs_created :: string
  rs_metadata :: pyval

definition session_dict :: "runtime_session \<Rightarrow> pydict" where
  "session_dict s =
     [(''schemaVersion'', PStr session_schema),
      (''sessionId'', PStr (rs_id s)),
      (''deploymentId'', PStr (rs_deployment s)),
      (''deploymentManifestHash'', PStr (rs_manifest_hash s)),
      (''preflightSnapshotId'', PStr (rs_preflight_id s)),
      (''preflightSnapshotHash'', PStr (rs_preflight_hash s)),
      (''configRevision'', PInt (rs_config_revision s)),
      (''configHash'', PStr (rs_config_hash s)),
      (''profile'', PStr (rs_profile s)),
      (''mode'', PStr (rs_mode s)),
      (''runtimeInstanceId'', PStr (rs_instance s)),
      (''lifecycle'', PStr (rs_lifecycle s)),
      (''createdAt'', PStr (rs_created s)),
      (''metadata'', rs_metadata s)]"

definition runtime_event_dict :: "pyval runtime_event \<Rightarrow> pydict" where
  "runtime_event_dict e =
     [(''schemaVersion'', PStr runtime_event_schema),
      (''sessionId'', PStr (re_session e)),
      (''sequence'', PInt (re_sequence e)),
      (''eventId'', PStr (re_id e)),
      (''previousHash'', PStr (re_previous e)),
      (''eventHash'', PStr (re_hash e)),
      (''lifecycle'', PStr (re_lifecycle e)),
      (''eventType'', PStr (re_type e)),
      (''actor'', PStr (re_actor e)),
      (''payload'', re_payload e),
      (''occurredAt'', PStr (re_at e))]"

subsection \<open>Appending an event\<close>

definition session_events :: "gov_store \<Rightarrow> string \<Rightarrow> json_column runtime_event list" where
  "session_events st sid = filter (\<lambda>e. re_session e = sid) (gs_runtime_events st)"

definition last_runtime_event :: "gov_store \<Rightarrow> string \<Rightarrow> json_column runtime_event option" where
  "last_runtime_event st sid = newest re_sequence (session_events st sid)"

text \<open>The sealed content of an event: everything but its own hash.\<close>

definition runtime_event_base :: "'p runtime_event \<Rightarrow> pyval \<Rightarrow> pydict" where
  "runtime_event_base e payload =
     [(''schemaVersion'', PStr runtime_event_schema),
      (''sessionId'', PStr (re_session e)),
      (''sequence'', PInt (re_sequence e)),
      (''eventId'', PStr (re_id e)),
      (''previousHash'', PStr (re_previous e)),
      (''lifecycle'', PStr (re_lifecycle e)),
      (''eventType'', PStr (re_type e)),
      (''actor'', PStr (re_actor e)),
      (''payload'', payload),
      (''occurredAt'', PStr (re_at e))]"

definition insert_runtime_event :: "gov_store \<Rightarrow> json_column runtime_event \<Rightarrow> gov_store res" where
  "insert_runtime_event st row =
     res_bind (sql_integer (re_sequence row)) (\<lambda>_.
     res_bind (require (1 \<le> re_sequence row)
       (IntegrityError ''CHECK constraint failed: sequence >= 1'')) (\<lambda>_.
     res_bind (unique (re_id row \<notin> re_id ` set (gs_runtime_events st)) ''live_runtime_events.event_id'') (\<lambda>_.
     res_bind (unique (re_hash row \<notin> re_hash ` set (gs_runtime_events st)) ''live_runtime_events.event_hash'') (\<lambda>_.
     res_bind (unique ((re_session row, re_sequence row)
         \<notin> (\<lambda>e. (re_session e, re_sequence e)) ` set (gs_runtime_events st))
       ''live_runtime_events.session_id, live_runtime_events.sequence'') (\<lambda>_.
     res_bind (foreign_key (re_session row \<in> sr_id ` set (gs_sessions st))) (\<lambda>_.
     Inr (st\<lparr>gs_runtime_events := gs_runtime_events st @ [row]\<rparr>)))))))"

text \<open>\<open>_parse_utc(occurred_at) < _parse_utc(previous["occurred_at"])\<close> is refused.\<close>

definition check_time_order :: "string \<Rightarrow> string \<Rightarrow> string \<Rightarrow> unit res" where
  "check_time_order occurred previous message =
     res_bind (parse_utc (TsValue (PStr occurred)) ''occurred_at'') (\<lambda>t.
     res_bind (parse_utc (TsValue (PStr previous)) ''previous_occurred_at'') (\<lambda>p.
     require (\<not> t < p) (ValueError message)))"

definition append_runtime_event_conn ::
  "gov_store \<Rightarrow> string \<Rightarrow> pyval \<Rightarrow> pyval \<Rightarrow> pyval \<Rightarrow> pydict \<Rightarrow> string \<Rightarrow> (string \<Rightarrow> string)
     \<Rightarrow> (gov_store \<times> pyval runtime_event) res" where
  "append_runtime_event_conn st sid lifecycle event_type actor payload occurred uuid =
     res_bind (enum_text lifecycle runtime_lifecycles ''runtime lifecycle'') (\<lambda>lifecycle.
     res_bind (required_text event_type ''event_type'') (\<lambda>event_type.
     res_bind (required_text actor ''actor'') (\<lambda>actor.
     res_bind (json_object payload ''payload'') (\<lambda>payload.
     let previous = last_runtime_event st sid;
         sequence = (case previous of None \<Rightarrow> 0 | Some p \<Rightarrow> re_sequence p) + 1;
         previous_hash = (case previous of None \<Rightarrow> [] | Some p \<Rightarrow> re_hash p)
     in res_bind (case previous of
          None \<Rightarrow> Inr ()
        | Some p \<Rightarrow> check_time_order occurred (re_at p) ''runtime event time cannot move backwards'') (\<lambda>_.
        let draft = \<lparr>re_session = sid, re_sequence = sequence, re_id = new_id uuid ''runtime-event'',
              re_previous = previous_hash, re_hash = [], re_lifecycle = lifecycle,
              re_type = event_type, re_actor = actor, re_payload = PDict payload, re_at = occurred\<rparr>;
            event = draft\<lparr>re_hash := seal (PDict (runtime_event_base draft (PDict payload)))\<rparr>
        in res_bind (insert_runtime_event st
             \<lparr>re_session = sid, re_sequence = sequence, re_id = re_id event,
              re_previous = previous_hash, re_hash = re_hash event, re_lifecycle = lifecycle,
              re_type = event_type, re_actor = actor, re_payload = Inr (canon (PDict payload)),
              re_at = occurred\<rparr>) (\<lambda>st'.
           Inr (st', event)))))))"

subsection \<open>Reading a session\<close>

definition rebound_preflight ::
  "gov_store \<Rightarrow> string \<Rightarrow> string \<times> string \<Rightarrow> (string \<times> string) res" where
  "rebound_preflight st sid bound =
     (case newest re_sequence (filter (\<lambda>e. re_type e = ''PREFLIGHT_REBOUND'') (session_events st sid)) of
        None \<Rightarrow> Inr bound
      | Some e \<Rightarrow>
          res_bind (load_json (re_payload e) ''runtime preflight binding event is corrupt'') (\<lambda>v.
          res_bind (require_mapping v) (\<lambda>payload.
          res_bind (required_text (dict_get payload ''preflightSnapshotId'') ''preflightSnapshotId'') (\<lambda>snapshot.
          res_bind (required_sha256 (dict_get payload ''preflightSnapshotHash'') ''preflightSnapshotHash'') (\<lambda>hash.
          Inr (snapshot, hash))))))"

definition find_session :: "gov_store \<Rightarrow> string \<Rightarrow> runtime_session option res" where
  "find_session st sid =
     (case (find (\<lambda>r. sr_id r = sid) (gs_sessions st), last_runtime_event st sid) of
        (Some row, Some e) \<Rightarrow>
          res_bind (load_json (sr_metadata row) ''runtime session metadata is corrupt'') (\<lambda>metadata.
          res_bind (rebound_preflight st sid (sr_preflight_id row, sr_preflight_hash row)) (\<lambda>(pid, phash).
          Inr (Some \<lparr>rs_id = sr_id row, rs_deployment = sr_deployment row,
            rs_manifest_hash = sr_manifest_hash row, rs_preflight_id = pid, rs_preflight_hash = phash,
            rs_config_revision = sr_config_revision row, rs_config_hash = sr_config_hash row,
            rs_profile = sr_profile row, rs_mode = sr_mode row, rs_instance = sr_instance row,
            rs_lifecycle = re_lifecycle e, rs_created = sr_created row, rs_metadata = metadata\<rparr>)))
      | _ \<Rightarrow> Inr None)"

definition existing_session :: "gov_store \<Rightarrow> string \<Rightarrow> runtime_session res" where
  "existing_session st sid =
     res_bind (find_session st sid) (\<lambda>found.
     case found of None \<Rightarrow> Inl (ValueError ''runtime session not found'') | Some s \<Rightarrow> Inr s)"

text \<open>After the commit the operations read the session back.\<close>

definition read_back ::
  "string \<Rightarrow> string \<Rightarrow> gov_store \<times> unit res \<Rightarrow> gov_store \<times> runtime_session res" where
  "read_back sid missing outcome =
     (case outcome of
        (st, Inl e) \<Rightarrow> (st, Inl e)
      | (st, Inr _) \<Rightarrow> (st, res_bind (find_session st sid) (\<lambda>found.
          case found of None \<Rightarrow> Inl (RuntimeError missing) | Some s \<Rightarrow> Inr s)))"

subsection \<open>Creating a session\<close>

record session_request =
  sq_deployment :: string
  sq_manifest_hash :: pyval
  sq_profile :: pyval
  sq_mode :: pyval
  sq_instance :: pyval
  sq_preflight :: string
  sq_actor :: pyval
  sq_metadata :: pydict
  sq_occurred :: ts_arg
  sq_id :: string

definition insert_session :: "gov_store \<Rightarrow> session_row \<Rightarrow> gov_store res" where
  "insert_session st row =
     res_bind (sql_integer (sr_config_revision row)) (\<lambda>_.
     res_bind (require (sr_mode row \<in> set runtime_modes)
       (IntegrityError ''CHECK constraint failed: mode IN ('MONITOR', 'SMALL_LIVE', 'FULL_LIVE')'')) (\<lambda>_.
     res_bind (unique (sr_id row \<notin> sr_id ` set (gs_sessions st)) ''live_runtime_sessions.session_id'') (\<lambda>_.
     res_bind (foreign_key (sr_manifest_hash row \<in> mr_hash ` set (gs_manifests st))) (\<lambda>_.
     Inr (st\<lparr>gs_sessions := gs_sessions st @ [row]\<rparr>)))))"

definition join_text :: "string list \<Rightarrow> string" where
  "join_text xs = concat (map (\<lambda>(i, x). if i = 0 then x else '', '' @ x) (enumerate 0 xs))"

text \<open>The preflight of a new session: none for a monitor that names none, else one that is valid now
  and was issued for this manifest.\<close>

definition session_preflight ::
  "gov_store \<Rightarrow> deployment_manifest \<Rightarrow> string \<Rightarrow> string \<Rightarrow> string \<Rightarrow> preflight_snapshot option res" where
  "session_preflight st manifest mode snapshot current =
     (if snapshot \<noteq> []
      then res_bind (preflight_validity_at st snapshot current) (\<lambda>validity.
        if \<not> va_valid validity
        then Inl (ValueError (''preflight snapshot is not valid: '' @ join_text (va_reasons validity)))
        else res_bind (find_preflight st snapshot) (\<lambda>found.
          case found of
            None \<Rightarrow> Inl (ValueError ''preflight snapshot is outside the deployment scope'')
          | Some p \<Rightarrow>
              if ps_manifest_hash p \<noteq> manifest_hash manifest
              then Inl (ValueError ''preflight snapshot is outside the deployment scope'')
              else Inr (Some p)))
      else if mode \<in> set live_modes
      then Inl (ValueError ''a valid preflight snapshot is required for live mode'')
      else Inr None)"

definition start_session ::
  "gov_store \<Rightarrow> session_request \<Rightarrow> string \<Rightarrow> string \<Rightarrow> string \<Rightarrow> string \<Rightarrow> (string \<Rightarrow> string)
     \<Rightarrow> (gov_store \<times> unit) res" where
  "start_session st rq sid mode current hash uuid =
     res_bind (current_manifest st hash (sq_deployment rq)) (\<lambda>manifest.
     res_bind (session_preflight st manifest mode (sq_preflight rq) current) (\<lambda>preflight.
     res_bind (json_object (sq_metadata rq) ''metadata'') (\<lambda>metadata.
     res_bind (required_text (sq_profile rq) ''profile'') (\<lambda>profile.
     res_bind (required_text (sq_instance rq) ''runtime_instance_id'') (\<lambda>instance.
     let pid = (case preflight of None \<Rightarrow> [] | Some p \<Rightarrow> ps_id p);
         phash = (case preflight of None \<Rightarrow> [] | Some p \<Rightarrow> preflight_hash p)
     in res_bind (insert_session st
          \<lparr>sr_id = sid, sr_deployment = mf_deployment manifest,
           sr_manifest_hash = manifest_hash manifest, sr_preflight_id = pid,
           sr_preflight_hash = phash, sr_config_revision = mf_config_revision manifest,
           sr_config_hash = mf_config_hash manifest, sr_profile = profile, sr_mode = mode,
           sr_instance = instance, sr_created = current,
           sr_metadata = Inr (canon (PDict metadata))\<rparr>) (\<lambda>st1.
        res_bind (append_runtime_event_conn st1 sid (PStr ''PREFLIGHT'') (PStr ''SESSION_CREATED'')
          (sq_actor rq)
          [(''deploymentManifestHash'', PStr (manifest_hash manifest)),
           (''preflightSnapshotHash'', PStr phash)] current uuid) (\<lambda>(st2, _).
        Inr (st2, ()))))))))"

definition create_runtime_session ::
  "gov_store \<Rightarrow> session_request \<Rightarrow> (string \<Rightarrow> string) \<Rightarrow> instant \<Rightarrow> gov_store \<times> runtime_session res" where
  "create_runtime_session st rq uuid clock =
     (case res_bind (enum_text (sq_mode rq) runtime_modes ''runtime mode'') (\<lambda>mode.
           res_bind (now_text clock (sq_occurred rq)) (\<lambda>current.
           res_bind (required_sha256 (sq_manifest_hash rq) ''deployment_manifest_hash'') (\<lambda>hash.
           Inr (mode, current, hash)))) of
        Inl e \<Rightarrow> (st, Inl e)
      | Inr (mode, current, hash) \<Rightarrow>
          let sid = (if sq_id rq \<noteq> [] then sq_id rq else new_id uuid ''live-session'')
          in read_back sid ''runtime session was not persisted''
               (transaction st (\<lambda>st. start_session st rq sid mode current hash uuid)))"

subsection \<open>Moving a session\<close>

definition transition_runtime_session ::
  "gov_store \<Rightarrow> string \<Rightarrow> pyval \<Rightarrow> pyval \<Rightarrow> pyval \<Rightarrow> pydict \<Rightarrow> ts_arg \<Rightarrow> (string \<Rightarrow> string) \<Rightarrow> instant
     \<Rightarrow> gov_store \<times> runtime_session res" where
  "transition_runtime_session st sid lifecycle actor event_type payload occurred uuid clock =
     (case res_bind (enum_text lifecycle runtime_lifecycles ''runtime lifecycle'') (\<lambda>target.
           res_bind (now_text clock occurred) (\<lambda>current. Inr (target, current))) of
        Inl e \<Rightarrow> (st, Inl e)
      | Inr (target, current) \<Rightarrow>
          read_back sid ''runtime session disappeared'' (transaction st (\<lambda>st.
            res_bind (existing_session st sid) (\<lambda>session.
            if target = rs_lifecycle session
            then Inl (ValueError ''use append_runtime_event for a non-transition event'')
            else if target \<notin> set (successors runtime_transitions (rs_lifecycle session))
            then Inl (ValueError (''invalid runtime transition: '' @ rs_lifecycle session @ '' -> '' @ target))
            else res_bind (append_runtime_event_conn st (rs_id session) (PStr target) event_type actor
                   payload current uuid) (\<lambda>(st', _). Inr (st', ()))))))"

definition rebind_payload :: "runtime_session \<Rightarrow> preflight_snapshot \<Rightarrow> pydict" where
  "rebind_payload session replacement =
     [(''previousPreflightSnapshotId'', PStr (rs_preflight_id session)),
      (''previousPreflightSnapshotHash'', PStr (rs_preflight_hash session)),
      (''preflightSnapshotId'', PStr (ps_id replacement)),
      (''preflightSnapshotHash'', PStr (preflight_hash replacement)),
      (''deploymentManifestHash'', PStr (rs_manifest_hash session)),
      (''configHash'', PStr (rs_config_hash session)),
      (''accountFingerprint'', PStr (ps_account replacement))]"

definition rebind_checked ::
  "gov_store \<Rightarrow> string \<Rightarrow> string \<Rightarrow> pyval \<Rightarrow> string \<Rightarrow> (string \<Rightarrow> string) \<Rightarrow> (gov_store \<times> unit) res" where
  "rebind_checked st sid snapshot actor current uuid =
     res_bind (existing_session st sid) (\<lambda>session.
     if rs_lifecycle session \<notin> {''RUNNING'', ''DEGRADED''}
     then Inl (ValueError ''runtime preflight can only be rebound while RUNNING or DEGRADED'')
     else res_bind (preflight_validity_at st snapshot current) (\<lambda>validity.
     if \<not> va_valid validity
     then Inl (ValueError (''replacement preflight snapshot is not valid: ''
             @ join_text (va_reasons validity)))
     else res_bind (find_preflight st snapshot) (\<lambda>found.
     case found of
       None \<Rightarrow> Inl (ValueError ''replacement preflight snapshot is missing'')
     | Some replacement \<Rightarrow>
         if ps_deployment replacement \<noteq> rs_deployment session
            \<or> ps_manifest_hash replacement \<noteq> rs_manifest_hash session
            \<or> ps_config_revision replacement \<noteq> rs_config_revision session
            \<or> ps_config_hash replacement \<noteq> rs_config_hash session
         then Inl (ValueError ''replacement preflight snapshot is outside the runtime session scope'')
         else res_bind (manifest_by_hash st (rs_manifest_hash session)) (\<lambda>manifest.
           if (case manifest of None \<Rightarrow> True | Some m \<Rightarrow> ps_account replacement \<noteq> mf_account m)
           then Inl (ValueError ''replacement preflight account fingerprint does not match the session'')
           else res_bind (append_runtime_event_conn st (rs_id session) (PStr (rs_lifecycle session))
                  (PStr ''PREFLIGHT_REBOUND'') actor (rebind_payload session replacement) current uuid)
                  (\<lambda>(st', _). Inr (st', ()))))))"

definition rebind_runtime_preflight ::
  "gov_store \<Rightarrow> string \<Rightarrow> string \<Rightarrow> pyval \<Rightarrow> ts_arg \<Rightarrow> (string \<Rightarrow> string) \<Rightarrow> instant
     \<Rightarrow> gov_store \<times> runtime_session res" where
  "rebind_runtime_preflight st sid snapshot actor occurred uuid clock =
     (case now_text clock occurred of
        Inl e \<Rightarrow> (st, Inl e)
      | Inr current \<Rightarrow>
          read_back sid ''runtime session disappeared''
            (transaction st (\<lambda>st. rebind_checked st sid snapshot actor current uuid)))"

definition append_runtime_event ::
  "gov_store \<Rightarrow> string \<Rightarrow> pyval \<Rightarrow> pyval \<Rightarrow> pydict \<Rightarrow> ts_arg \<Rightarrow> (string \<Rightarrow> string) \<Rightarrow> instant
     \<Rightarrow> gov_store \<times> pyval runtime_event res" where
  "append_runtime_event st sid event_type actor payload occurred uuid clock =
     (case now_text clock occurred of
        Inl e \<Rightarrow> (st, Inl e)
      | Inr current \<Rightarrow>
          transaction st (\<lambda>st.
            res_bind (existing_session st sid) (\<lambda>session.
            append_runtime_event_conn st (rs_id session) (PStr (rs_lifecycle session)) event_type actor
              payload current uuid)))"

subsection \<open>Listing\<close>

definition runtime_event_from_row :: "json_column runtime_event \<Rightarrow> pyval runtime_event res" where
  "runtime_event_from_row row =
     res_bind (load_json (re_payload row) ''runtime event payload is corrupt'') (\<lambda>payload.
     Inr \<lparr>re_session = re_session row, re_sequence = re_sequence row, re_id = re_id row,
          re_previous = re_previous row, re_hash = re_hash row, re_lifecycle = re_lifecycle row,
          re_type = re_type row, re_actor = re_actor row, re_payload = payload, re_at = re_at row\<rparr>)"

definition runtime_events :: "gov_store \<Rightarrow> string \<Rightarrow> pyval runtime_event list res" where
  "runtime_events st sid = res_map runtime_event_from_row (sort_key re_sequence (session_events st sid))"

end
