(* ===== verification/Gov_Incident.thy ===== *)
theory Gov_Incident
  imports Gov_Runtime
begin

section \<open>Operational governance: incidents and their events\<close>

text \<open>
  The incident half of \<open>OperationalGovernanceStore\<close>. An incident row never changes; its state and
  severity are those of its last event. Opening an incident whose deduplication key has an active
  incident records an observation of that one instead.
\<close>

record incident =
  in_id :: string
  in_dedupe :: string
  in_code :: string
  in_scope_type :: string
  in_scope_id :: string
  in_deployment :: string
  in_session :: string
  in_account :: string
  in_state :: string
  in_severity :: string
  in_opened :: string

definition incident_dict :: "incident \<Rightarrow> pydict" where
  "incident_dict i =
     [(''schemaVersion'', PStr incident_schema),
      (''incidentId'', PStr (in_id i)),
      (''dedupeKey'', PStr (in_dedupe i)),
      (''code'', PStr (in_code i)),
      (''scopeType'', PStr (in_scope_type i)),
      (''scopeId'', PStr (in_scope_id i)),
      (''deploymentId'', PStr (in_deployment i)),
      (''sessionId'', PStr (in_session i)),
      (''accountFingerprint'', PStr (in_account i)),
      (''state'', PStr (in_state i)),
      (''severity'', PStr (in_severity i)),
      (''openedAt'', PStr (in_opened i))]"

definition incident_event_dict :: "pyval incident_event \<Rightarrow> pydict" where
  "incident_event_dict e =
     [(''schemaVersion'', PStr incident_event_schema),
      (''incidentId'', PStr (ie_incident e)),
      (''sequence'', PInt (ie_sequence e)),
      (''eventId'', PStr (ie_id e)),
      (''previousHash'', PStr (ie_previous e)),
      (''eventHash'', PStr (ie_hash e)),
      (''state'', PStr (ie_state e)),
      (''severity'', PStr (ie_severity e)),
      (''eventType'', PStr (ie_type e)),
      (''actor'', PStr (ie_actor e)),
      (''evidenceHash'', PStr (ie_evidence e)),
      (''payload'', ie_payload e),
      (''occurredAt'', PStr (ie_at e))]"

subsection \<open>Appending an event\<close>

definition events_of_incident :: "gov_store \<Rightarrow> string \<Rightarrow> json_column incident_event list" where
  "events_of_incident st iid = filter (\<lambda>e. ie_incident e = iid) (gs_incident_events st)"

definition last_incident_event :: "gov_store \<Rightarrow> string \<Rightarrow> json_column incident_event option" where
  "last_incident_event st iid = newest ie_sequence (events_of_incident st iid)"

definition incident_event_base :: "'p incident_event \<Rightarrow> pyval \<Rightarrow> pydict" where
  "incident_event_base e payload =
     [(''schemaVersion'', PStr incident_event_schema),
      (''incidentId'', PStr (ie_incident e)),
      (''sequence'', PInt (ie_sequence e)),
      (''eventId'', PStr (ie_id e)),
      (''previousHash'', PStr (ie_previous e)),
      (''state'', PStr (ie_state e)),
      (''severity'', PStr (ie_severity e)),
      (''eventType'', PStr (ie_type e)),
      (''actor'', PStr (ie_actor e)),
      (''evidenceHash'', PStr (ie_evidence e)),
      (''payload'', payload),
      (''occurredAt'', PStr (ie_at e))]"

definition insert_incident_event :: "gov_store \<Rightarrow> json_column incident_event \<Rightarrow> gov_store res" where
  "insert_incident_event st row =
     res_bind (sql_integer (ie_sequence row)) (\<lambda>_.
     res_bind (require (1 \<le> ie_sequence row)
       (IntegrityError ''CHECK constraint failed: sequence >= 1'')) (\<lambda>_.
     res_bind (unique (ie_id row \<notin> ie_id ` set (gs_incident_events st)) ''live_incident_events.event_id'') (\<lambda>_.
     res_bind (unique (ie_hash row \<notin> ie_hash ` set (gs_incident_events st)) ''live_incident_events.event_hash'') (\<lambda>_.
     res_bind (unique ((ie_incident row, ie_sequence row)
         \<notin> (\<lambda>e. (ie_incident e, ie_sequence e)) ` set (gs_incident_events st))
       ''live_incident_events.incident_id, live_incident_events.sequence'') (\<lambda>_.
     res_bind (foreign_key (ie_incident row \<in> ir_id ` set (gs_incidents st))) (\<lambda>_.
     Inr (st\<lparr>gs_incident_events := gs_incident_events st @ [row]\<rparr>)))))))"

text \<open>\<open>INCIDENT_SEVERITY_RANK[severity]\<close>\<close>

definition rank_of :: "string \<Rightarrow> nat res" where
  "rank_of severity =
     (case map_of severity_rank severity of
        None \<Rightarrow> Inl (KeyError (repr_string severity)) | Some r \<Rightarrow> Inr r)"

definition check_severity :: "string \<Rightarrow> string \<Rightarrow> unit res" where
  "check_severity severity previous =
     res_bind (rank_of severity) (\<lambda>r.
     res_bind (rank_of previous) (\<lambda>p.
     require (\<not> r < p) (ValueError ''incident severity cannot be downgraded'')))"

definition append_incident_event_conn ::
  "gov_store \<Rightarrow> string \<Rightarrow> pyval \<Rightarrow> pyval \<Rightarrow> pyval \<Rightarrow> pyval \<Rightarrow> string \<Rightarrow> pydict \<Rightarrow> string \<Rightarrow> (string \<Rightarrow> string)
     \<Rightarrow> (gov_store \<times> pyval incident_event) res" where
  "append_incident_event_conn st iid state severity event_type actor evidence payload occurred uuid =
     res_bind (enum_text state incident_states ''incident state'') (\<lambda>state.
     res_bind (enum_text severity incident_severities ''incident severity'') (\<lambda>severity.
     res_bind (required_text event_type ''event_type'') (\<lambda>event_type.
     res_bind (required_text actor ''actor'') (\<lambda>actor.
     res_bind (json_object payload ''payload'') (\<lambda>payload.
     let previous = last_incident_event st iid;
         sequence = (case previous of None \<Rightarrow> 0 | Some p \<Rightarrow> ie_sequence p) + 1;
         previous_hash = (case previous of None \<Rightarrow> [] | Some p \<Rightarrow> ie_hash p)
     in res_bind (case previous of
          None \<Rightarrow> Inr ()
        | Some p \<Rightarrow>
            res_bind (check_time_order occurred (ie_at p) ''incident event time cannot move backwards'') (\<lambda>_.
            check_severity severity (ie_severity p))) (\<lambda>_.
        let draft = \<lparr>ie_incident = iid, ie_sequence = sequence, ie_id = new_id uuid ''incident-event'',
              ie_previous = previous_hash, ie_hash = [], ie_state = state, ie_severity = severity,
              ie_type = event_type, ie_actor = actor, ie_evidence = evidence,
              ie_payload = PDict payload, ie_at = occurred\<rparr>;
            event = draft\<lparr>ie_hash := seal (PDict (incident_event_base draft (PDict payload)))\<rparr>
        in res_bind (insert_incident_event st
             \<lparr>ie_incident = iid, ie_sequence = sequence, ie_id = ie_id event,
              ie_previous = previous_hash, ie_hash = ie_hash event, ie_state = state,
              ie_severity = severity, ie_type = event_type, ie_actor = actor,
              ie_evidence = evidence, ie_payload = Inr (canon (PDict payload)), ie_at = occurred\<rparr>) (\<lambda>st'.
           Inr (st', event))))))))"

subsection \<open>Reading an incident\<close>

definition find_incident :: "gov_store \<Rightarrow> string \<Rightarrow> incident option" where
  "find_incident st iid =
     (case (find (\<lambda>r. ir_id r = iid) (gs_incidents st), last_incident_event st iid) of
        (Some row, Some e) \<Rightarrow>
          Some \<lparr>in_id = ir_id row, in_dedupe = ir_dedupe row, in_code = ir_code row,
            in_scope_type = ir_scope_type row, in_scope_id = ir_scope_id row,
            in_deployment = ir_deployment row, in_session = ir_session row,
            in_account = ir_account row, in_state = ie_state e, in_severity = ie_severity e,
            in_opened = ir_opened row\<rparr>
      | _ \<Rightarrow> None)"

text \<open>The rows that the join with the last event keeps, and whose last state is not \<open>RESOLVED\<close>.\<close>

definition active_row :: "gov_store \<Rightarrow> incident_row \<Rightarrow> bool" where
  "active_row st row =
     (case last_incident_event st (ir_id row) of None \<Rightarrow> False | Some e \<Rightarrow> ie_state e \<noteq> ''RESOLVED'')"

definition active_incident :: "gov_store \<Rightarrow> string \<Rightarrow> incident_row option" where
  "active_incident st key =
     newest ir_opened (filter (\<lambda>r. ir_dedupe r = key \<and> active_row st r) (gs_incidents st))"

definition existing_incident :: "gov_store \<Rightarrow> string \<Rightarrow> incident res" where
  "existing_incident st iid =
     (case find_incident st iid of None \<Rightarrow> Inl (ValueError ''incident not found'') | Some i \<Rightarrow> Inr i)"

subsection \<open>Opening an incident\<close>

record incident_request =
  iq_code :: pyval
  iq_scope_type :: pyval
  iq_scope_id :: pyval
  iq_severity :: pyval
  iq_actor :: pyval
  iq_deployment :: pyval
  iq_session :: pyval
  iq_account :: pyval
  iq_evidence :: pyval
  iq_payload :: pydict
  iq_occurred :: ts_arg
  iq_id :: string

text \<open>The request after normalisation, with its deduplication key.\<close>

record incident_draft =
  id_row :: incident_row
  id_severity :: string
  id_evidence :: string
  id_payload :: pydict
  id_actor :: pyval

definition dedupe_key :: "string \<Rightarrow> string \<Rightarrow> string \<Rightarrow> string \<Rightarrow> string \<Rightarrow> string" where
  "dedupe_key incident_code scope_type scope_id deployment session =
     seal (PDict
       [(''code'', PStr incident_code),
        (''scopeType'', PStr scope_type),
        (''scopeId'', PStr scope_id),
        (''deploymentId'', PStr deployment),
        (''sessionId'', PStr session)])"

definition incident_draft_of :: "incident_request \<Rightarrow> (string \<Rightarrow> string) \<Rightarrow> instant \<Rightarrow> incident_draft res" where
  "incident_draft_of rq uuid clock =
     res_bind (required_text (iq_code rq) ''code'') (\<lambda>raw_code.
     res_bind (enum_text (iq_scope_type rq) incident_scope_types ''incident scope'') (\<lambda>scope_type.
     res_bind (required_text (iq_scope_id rq) ''scope_id'') (\<lambda>scope_id.
     res_bind (enum_text (iq_severity rq) incident_severities ''incident severity'') (\<lambda>severity.
     res_bind (optional_sha256 (iq_account rq) ''account_fingerprint'') (\<lambda>account.
     res_bind (optional_sha256 (iq_evidence rq) ''evidence_hash'') (\<lambda>evidence.
     res_bind (now_text clock (iq_occurred rq)) (\<lambda>current.
     res_bind (json_object (iq_payload rq) ''payload'') (\<lambda>payload.
     let incident_code = upper raw_code;
         deployment = plain_text (iq_deployment rq);
         session = plain_text (iq_session rq)
     in Inr \<lparr>id_row =
          \<lparr>ir_id = (if iq_id rq \<noteq> [] then iq_id rq else new_id uuid ''incident''),
           ir_dedupe = dedupe_key incident_code scope_type scope_id deployment session,
           ir_code = incident_code, ir_scope_type = scope_type, ir_scope_id = scope_id,
           ir_deployment = deployment, ir_session = session, ir_account = account,
           ir_opened = current\<rparr>,
         id_severity = severity, id_evidence = evidence, id_payload = payload,
         id_actor = iq_actor rq\<rparr>))))))))"

definition insert_incident :: "gov_store \<Rightarrow> incident_row \<Rightarrow> gov_store res" where
  "insert_incident st row =
     res_bind (unique (ir_id row \<notin> ir_id ` set (gs_incidents st)) ''live_incidents.incident_id'') (\<lambda>_.
     Inr (st\<lparr>gs_incidents := gs_incidents st @ [row]\<rparr>))"

definition observe_incident ::
  "gov_store \<Rightarrow> incident_draft \<Rightarrow> string \<Rightarrow> (string \<Rightarrow> string) \<Rightarrow> (gov_store \<times> (incident \<times> bool)) res" where
  "observe_incident st d iid uuid =
     (case find_incident st iid of
        None \<Rightarrow> Inl (RuntimeError ''active incident disappeared'')
      | Some existing \<Rightarrow>
          res_bind (append_incident_event_conn st (in_id existing) (PStr (in_state existing))
            (PStr (id_severity d)) (PStr ''INCIDENT_OBSERVED'') (id_actor d) (id_evidence d)
            (id_payload d) (ir_opened (id_row d)) uuid) (\<lambda>(st', _).
          case find_incident st' (in_id existing) of
            None \<Rightarrow> Inl (RuntimeError ''incident disappeared'')
          | Some updated \<Rightarrow> Inr (st', (updated, False))))"

definition record_incident ::
  "gov_store \<Rightarrow> incident_draft \<Rightarrow> (string \<Rightarrow> string) \<Rightarrow> (gov_store \<times> (incident \<times> bool)) res" where
  "record_incident st d uuid =
     res_bind (insert_incident st (id_row d)) (\<lambda>st1.
     res_bind (append_incident_event_conn st1 (ir_id (id_row d)) (PStr ''OPEN'')
       (PStr (id_severity d)) (PStr ''INCIDENT_OPENED'') (id_actor d) (id_evidence d)
       (id_payload d) (ir_opened (id_row d)) uuid) (\<lambda>(st2, _).
     case find_incident st2 (ir_id (id_row d)) of
       None \<Rightarrow> Inl (RuntimeError ''incident was not persisted'')
     | Some created \<Rightarrow> Inr (st2, (created, True))))"

definition open_incident ::
  "gov_store \<Rightarrow> incident_request \<Rightarrow> (string \<Rightarrow> string) \<Rightarrow> instant \<Rightarrow> gov_store \<times> (incident \<times> bool) res" where
  "open_incident st rq uuid clock =
     (case incident_draft_of rq uuid clock of
        Inl e \<Rightarrow> (st, Inl e)
      | Inr d \<Rightarrow>
          transaction st (\<lambda>st.
            case active_incident st (ir_dedupe (id_row d)) of
              Some row \<Rightarrow> observe_incident st d (ir_id row) uuid
            | None \<Rightarrow> record_incident st d uuid))"

subsection \<open>Moving an incident\<close>

definition incident_read_back ::
  "string \<Rightarrow> gov_store \<times> unit res \<Rightarrow> gov_store \<times> incident res" where
  "incident_read_back iid outcome =
     (case outcome of
        (st, Inl e) \<Rightarrow> (st, Inl e)
      | (st, Inr _) \<Rightarrow> (st, case find_incident st iid of
                            None \<Rightarrow> Inl (RuntimeError ''incident disappeared'') | Some i \<Rightarrow> Inr i))"

definition transition_incident ::
  "gov_store \<Rightarrow> string \<Rightarrow> pyval \<Rightarrow> pyval \<Rightarrow> pyval \<Rightarrow> pyval \<Rightarrow> pyval \<Rightarrow> pydict \<Rightarrow> ts_arg \<Rightarrow> (string \<Rightarrow> string)
     \<Rightarrow> instant \<Rightarrow> gov_store \<times> incident res" where
  "transition_incident st iid state actor severity event_type evidence payload occurred uuid clock =
     (case res_bind (enum_text state incident_states ''incident state'') (\<lambda>target.
           res_bind (now_text clock occurred) (\<lambda>current. Inr (target, current))) of
        Inl e \<Rightarrow> (st, Inl e)
      | Inr (target, current) \<Rightarrow>
          incident_read_back iid (transaction st (\<lambda>st.
            res_bind (existing_incident st iid) (\<lambda>incident.
            if target = in_state incident
            then Inl (ValueError ''use append_incident_event for a non-transition event'')
            else if target \<notin> set (successors incident_transitions (in_state incident))
            then Inl (ValueError (''invalid incident transition: '' @ in_state incident @ '' -> '' @ target))
            else res_bind (optional_sha256 evidence ''evidence_hash'') (\<lambda>ev.
                 res_bind (append_incident_event_conn st (in_id incident) (PStr target)
                   (if severity = PNone then PStr (in_severity incident) else severity)
                   event_type actor ev payload current uuid) (\<lambda>(st', _). Inr (st', ())))))))"

definition resolve_incident ::
  "gov_store \<Rightarrow> string \<Rightarrow> pyval \<Rightarrow> pyval \<Rightarrow> pydict \<Rightarrow> ts_arg \<Rightarrow> (string \<Rightarrow> string) \<Rightarrow> instant
     \<Rightarrow> gov_store \<times> incident res" where
  "resolve_incident st iid actor evidence payload occurred uuid clock =
     transition_incident st iid (PStr ''RESOLVED'') actor PNone (PStr ''INCIDENT_RESOLVED'') evidence
       payload occurred uuid clock"

definition append_incident_event ::
  "gov_store \<Rightarrow> string \<Rightarrow> pyval \<Rightarrow> pyval \<Rightarrow> pyval \<Rightarrow> pyval \<Rightarrow> pydict \<Rightarrow> ts_arg \<Rightarrow> (string \<Rightarrow> string)
     \<Rightarrow> instant \<Rightarrow> gov_store \<times> pyval incident_event res" where
  "append_incident_event st iid event_type actor severity evidence payload occurred uuid clock =
     (case now_text clock occurred of
        Inl e \<Rightarrow> (st, Inl e)
      | Inr current \<Rightarrow>
          transaction st (\<lambda>st.
            res_bind (existing_incident st iid) (\<lambda>incident.
            if in_state incident = ''RESOLVED'' then Inl (ValueError ''resolved incidents are terminal'')
            else res_bind (optional_sha256 evidence ''evidence_hash'') (\<lambda>ev.
                 append_incident_event_conn st (in_id incident) (PStr (in_state incident))
                   (py_or severity (PStr (in_severity incident))) event_type actor ev payload
                   current uuid))))"

subsection \<open>Listing\<close>

definition incident_event_from_row :: "json_column incident_event \<Rightarrow> pyval incident_event res" where
  "incident_event_from_row row =
     res_bind (load_json (ie_payload row) ''incident event payload is corrupt'') (\<lambda>payload.
     Inr \<lparr>ie_incident = ie_incident row, ie_sequence = ie_sequence row, ie_id = ie_id row,
          ie_previous = ie_previous row, ie_hash = ie_hash row, ie_state = ie_state row,
          ie_severity = ie_severity row, ie_type = ie_type row, ie_actor = ie_actor row,
          ie_evidence = ie_evidence row, ie_payload = payload, ie_at = ie_at row\<rparr>)"

definition incident_events :: "gov_store \<Rightarrow> string \<Rightarrow> pyval incident_event list res" where
  "incident_events st iid = res_map incident_event_from_row (sort_key ie_sequence (events_of_incident st iid))"

definition latest_incident_event :: "gov_store \<Rightarrow> string \<Rightarrow> pyval incident_event option res" where
  "latest_incident_event st iid =
     (case last_incident_event st iid of
        None \<Rightarrow> Inr None
      | Some row \<Rightarrow> res_bind (incident_event_from_row row) (\<lambda>e. Inr (Some e)))"

end
