(* ===== verification/Gov_Views.thy ===== *)
theory Gov_Views
  imports Gov_Incident "HOL-Library.Product_Lexorder"
begin

section \<open>Operational governance: authorization, projections, integrity\<close>

text \<open>
  The read-only operations of \<open>OperationalGovernanceStore\<close>: may a session trade now
  (\<open>runtime_authorization\<close>), the newest rows, the console projection (\<open>workspace_snapshot\<close>) and the
  check of every stored seal (\<open>verify_integrity\<close>).
\<close>

subsection \<open>Authorization\<close>

text \<open>\<open>json_extract(payload_json, '$.brokerRoute')\<close> of the manifest with a hash; no row gives NULL.\<close>

definition manifest_route :: "gov_store \<Rightarrow> string \<Rightarrow> string option res" where
  "manifest_route st hash =
     (case find (\<lambda>r. mr_hash r = hash) (gs_manifests st) of
        None \<Rightarrow> Inr None
      | Some r \<Rightarrow>
          (case mr_payload r of
             Inl _ \<Rightarrow> Inl (CustomError ''OperationalError'' ''malformed JSON'')
           | Inr v \<Rightarrow> Inr (case dict_get (as_dict v) ''brokerRoute'' of PStr s \<Rightarrow> Some s | _ \<Rightarrow> None)))"

definition critical_row :: "gov_store \<Rightarrow> incident_row \<Rightarrow> bool" where
  "critical_row st row =
     (case last_incident_event st (ir_id row) of
        None \<Rightarrow> False
      | Some e \<Rightarrow> ie_state e \<noteq> ''RESOLVED'' \<and> ie_severity e = ''CRITICAL'')"

definition blocks_session :: "gov_store \<Rightarrow> runtime_session \<Rightarrow> incident_row \<Rightarrow> bool res" where
  "blocks_session st s row =
     (if \<not> critical_row st row then Inr False
      else if ir_scope_type row = ''GLOBAL''
           \<or> ir_session row = rs_id s
           \<or> ir_deployment row = rs_deployment s
           \<or> (ir_scope_type row = ''SESSION'' \<and> ir_scope_id row = rs_id s)
           \<or> (ir_scope_type row = ''DEPLOYMENT'' \<and> ir_scope_id row = rs_deployment s)
      then Inr True
      else if ir_scope_type row = ''ROUTE''
      then res_bind (manifest_route st (rs_manifest_hash s)) (\<lambda>route. Inr (route = Some (ir_scope_id row)))
      else Inr False)"

definition blocking_incident_count :: "gov_store \<Rightarrow> runtime_session \<Rightarrow> nat res" where
  "blocking_incident_count st s =
     res_bind (res_map (blocks_session st s) (gs_incidents st)) (\<lambda>flags.
     Inr (length (filter id flags)))"

record authorization =
  au_allowed :: bool
  au_reasons :: "string list"
  au_session :: "runtime_session option"
  au_checked :: "string option"

text \<open>\<open>list(dict.fromkeys(reasons))\<close> keeps the first occurrence of each.\<close>

definition first_occurrences :: "string list \<Rightarrow> string list" where
  "first_occurrences xs = rev (remdups (rev xs))"

definition runtime_authorization ::
  "gov_store \<Rightarrow> string \<Rightarrow> ts_arg \<Rightarrow> bool \<Rightarrow> instant \<Rightarrow> authorization res" where
  "runtime_authorization st sid moment require_fresh clock =
     res_bind (now_text clock moment) (\<lambda>current.
     res_bind (find_session st sid) (\<lambda>found.
     case found of
       None \<Rightarrow> Inr \<lparr>au_allowed = False, au_reasons = [''runtime-session-missing''],
                    au_session = None, au_checked = None\<rparr>
     | Some s \<Rightarrow>
         res_bind (latest_manifest st (rs_deployment s)) (\<lambda>latest.
         res_bind (if require_fresh
                   then res_bind (preflight_validity_at st (rs_preflight_id s) current)
                          (\<lambda>v. Inr (va_reasons v))
                   else Inr []) (\<lambda>preflight_reasons.
         res_bind (blocking_incident_count st s) (\<lambda>critical.
         let reasons = first_occurrences
               ((if rs_mode s \<notin> set live_modes then [''runtime-session-not-live''] else [])
                @ (if rs_lifecycle s \<noteq> ''RUNNING'' then [''runtime-session-'' @ lower (rs_lifecycle s)] else [])
                @ (if (case latest of None \<Rightarrow> True | Some l \<Rightarrow> manifest_hash l \<noteq> rs_manifest_hash s)
                   then [''deployment-manifest-superseded''] else [])
                @ preflight_reasons
                @ (if critical \<noteq> 0 then [''critical-incidents:'' @ nat_text critical] else []))
         in Inr \<lparr>au_allowed = (reasons = []), au_reasons = reasons, au_session = Some s,
                 au_checked = Some current\<rparr>)))))"

subsection \<open>Newest rows\<close>

text \<open>The timestamps are compared as texts, as \<open>ORDER BY\<close> on a \<open>TEXT\<close> column does.\<close>

definition latest_preflight_for_deployment :: "gov_store \<Rightarrow> string \<Rightarrow> preflight_snapshot option res" where
  "latest_preflight_for_deployment st deployment =
     (case newest pr_issued (filter (\<lambda>r. pr_deployment r = deployment) (gs_preflights st)) of
        None \<Rightarrow> Inr None
      | Some r \<Rightarrow>
          res_bind (load_json (pr_payload r) ''preflight snapshot JSON is corrupt'') (\<lambda>v.
          res_bind (preflight_from_dict v) (\<lambda>s. Inr (Some s))))"

definition latest_runtime_session :: "gov_store \<Rightarrow> string \<Rightarrow> runtime_session option res" where
  "latest_runtime_session st deployment =
     (case newest sr_created
             (if deployment \<noteq> [] then filter (\<lambda>r. sr_deployment r = deployment) (gs_sessions st)
              else gs_sessions st) of
        None \<Rightarrow> Inr None
      | Some r \<Rightarrow> find_session st (sr_id r))"

definition newest_first :: "('a \<Rightarrow> 'k::linorder) \<Rightarrow> 'a list \<Rightarrow> 'a list" where
  "newest_first key xs = rev (sort_key key (rev xs))"

definition list_incidents :: "gov_store \<Rightarrow> pyval \<Rightarrow> bool \<Rightarrow> incident list res" where
  "list_incidents st limit active_only =
     res_bind (py_int limit) (\<lambda>n.
     res_bind (sql_integer (max 1 n)) (\<lambda>_.
     let joined = filter (\<lambda>r. last_incident_event st (ir_id r) \<noteq> None) (gs_incidents st);
         kept = (if active_only then filter (active_row st) joined else joined);
         rows = take (nat (max 1 n)) (newest_first ir_opened kept)
     in Inr (List.map_filter (\<lambda>r. find_incident st (ir_id r)) rows)))"

subsection \<open>Integrity\<close>

record integrity =
  ig_ok :: bool
  ig_issues :: "string list"
  ig_counts :: "(string \<times> nat) list"

text \<open>\<open>except (ValueError, json.JSONDecodeError) as exc\<close>: the text of the exception, other
  exceptions pass through.\<close>

definition caught_text :: "py_error \<Rightarrow> string res" where
  "caught_text e = (case e of ValueError m \<Rightarrow> Inr m | _ \<Rightarrow> Inl e)"

definition decode_column :: "json_column \<Rightarrow> pyval res" where
  "decode_column column = (case column of Inl m \<Rightarrow> Inl (ValueError m) | Inr v \<Rightarrow> Inr v)"

type_synonym manifest_scan = "string list \<times> (string \<times> int) list \<times> (string \<times> string) list"

definition scan_manifest :: "manifest_scan \<Rightarrow> manifest_row \<Rightarrow> manifest_scan res" where
  "scan_manifest scan row =
     (case scan of (issues, revisions, hashes) \<Rightarrow>
      let dep = mr_deployment row; tag = ''deployment:'' @ dep
      in case res_bind (decode_column (mr_payload row)) manifest_from_dict of
           Inl e \<Rightarrow> res_bind (caught_text e) (\<lambda>text.
             Inr (issues @ [tag @ '':'' @ int_text (mr_revision row) @ '':'' @ text], revisions, hashes))
         | Inr m \<Rightarrow>
             Inr (issues
                  @ (if mf_revision m \<noteq> assoc_get 0 revisions dep + 1 then [tag @ '':revision-gap''] else [])
                  @ (if mf_previous m \<noteq> assoc_get [] hashes dep then [tag @ '':previous-hash-mismatch''] else [])
                  @ (if manifest_hash m \<noteq> mr_hash row then [tag @ '':row-hash-mismatch''] else []),
                  assoc_put dep (mf_revision m) revisions,
                  assoc_put dep (manifest_hash m) hashes))"

definition scan_preflight :: "string list \<Rightarrow> preflight_row \<Rightarrow> string list res" where
  "scan_preflight issues row =
     (let tag = ''preflight:'' @ pr_id row
      in case res_bind (decode_column (pr_payload row)) preflight_from_dict of
           Inl e \<Rightarrow> res_bind (caught_text e) (\<lambda>text. Inr (issues @ [tag @ '':'' @ text]))
         | Inr s \<Rightarrow> Inr (issues @ (if preflight_hash s \<noteq> pr_hash row then [tag @ '':row-hash-mismatch''] else [])))"

text \<open>A row of either event table as \<open>_verify_event_rows\<close> reads it.\<close>

record event_view =
  vw_entity :: string
  vw_sequence :: int
  vw_previous :: string
  vw_hash :: string
  vw_payload :: json_column
  vw_base :: "pyval \<Rightarrow> pydict"

definition runtime_view :: "json_column runtime_event \<Rightarrow> event_view" where
  "runtime_view e =
     \<lparr>vw_entity = re_session e, vw_sequence = re_sequence e, vw_previous = re_previous e,
      vw_hash = re_hash e, vw_payload = re_payload e, vw_base = runtime_event_base e\<rparr>"

definition incident_view :: "json_column incident_event \<Rightarrow> event_view" where
  "incident_view e =
     \<lparr>vw_entity = ie_incident e, vw_sequence = ie_sequence e, vw_previous = ie_previous e,
      vw_hash = ie_hash e, vw_payload = ie_payload e, vw_base = incident_event_base e\<rparr>"

fun verify_event_rows ::
  "string \<Rightarrow> (string \<times> int) list \<Rightarrow> (string \<times> string) list \<Rightarrow> event_view list \<Rightarrow> string list" where
  "verify_event_rows label sequences hashes [] = []"
| "verify_event_rows label sequences hashes (row # rows) =
     (let entity = vw_entity row; n = vw_sequence row;
          tag = label @ '':'' @ entity @ '':'' @ int_text n
      in case vw_payload row of
           Inl _ \<Rightarrow> (tag @ '':payload-json'') # verify_event_rows label sequences hashes rows
         | Inr payload \<Rightarrow>
             (if n \<noteq> assoc_get 0 sequences entity + 1 then [tag @ '':sequence-gap''] else [])
             @ (if vw_previous row \<noteq> assoc_get [] hashes entity then [tag @ '':previous-hash-mismatch''] else [])
             @ (if seal (PDict (vw_base row payload)) \<noteq> vw_hash row then [tag @ '':event-hash-mismatch''] else [])
             @ verify_event_rows label (assoc_put entity n sequences) (assoc_put entity (vw_hash row) hashes) rows)"

definition verify_integrity :: "gov_store \<Rightarrow> integrity res" where
  "verify_integrity st =
     res_bind (res_fold scan_manifest ([], [], [])
       (sort_key (\<lambda>r. (mr_deployment r, mr_revision r)) (gs_manifests st))) (\<lambda>(issues1, _, _).
     res_bind (res_fold scan_preflight issues1 (gs_preflights st)) (\<lambda>issues2.
     let issues = issues2
           @ verify_event_rows ''runtime'' [] [] (map runtime_view
               (sort_key (\<lambda>e. (re_session e, re_sequence e)) (gs_runtime_events st)))
           @ verify_event_rows ''incident'' [] [] (map incident_view
               (sort_key (\<lambda>e. (ie_incident e, ie_sequence e)) (gs_incident_events st)))
     in Inr \<lparr>ig_ok = (issues = []), ig_issues = issues,
          ig_counts = [(''deploymentManifests'', length (gs_manifests st)),
                       (''preflightSnapshots'', length (gs_preflights st)),
                       (''runtimeSessions'', length (gs_sessions st)),
                       (''runtimeEvents'', length (gs_runtime_events st)),
                       (''incidents'', length (gs_incidents st)),
                       (''incidentEvents'', length (gs_incident_events st))]\<rparr>))"

subsection \<open>The console projection\<close>

definition text_list :: "string list \<Rightarrow> pyval" where
  "text_list xs = PList (map PStr xs)"

definition validity_dict :: "validity \<Rightarrow> pydict" where
  "validity_dict v =
     [(''valid'', PBool (va_valid v)),
      (''reasons'', text_list (va_reasons v)),
      (''snapshot'', case va_snapshot v of None \<Rightarrow> PNone | Some s \<Rightarrow> PDict (preflight_dict s))]
     @ (case va_checked v of None \<Rightarrow> [] | Some t \<Rightarrow> [(''checkedAt'', PStr t)])"

definition integrity_dict :: "integrity \<Rightarrow> pydict" where
  "integrity_dict g =
     [(''ok'', PBool (ig_ok g)),
      (''issues'', text_list (ig_issues g)),
      (''counts'', PDict (map (\<lambda>(k, n). (k, PInt (int n))) (ig_counts g)))]"

definition workspace_snapshot :: "gov_store \<Rightarrow> string \<Rightarrow> instant \<Rightarrow> pydict res" where
  "workspace_snapshot st deployment clock =
     res_bind (if deployment \<noteq> [] then get_deployment_manifest st deployment PNone else Inr None) (\<lambda>manifest.
     res_bind (if deployment \<noteq> [] then latest_preflight_for_deployment st deployment else Inr None) (\<lambda>preflight.
     res_bind (latest_runtime_session st deployment) (\<lambda>session.
     res_bind (case preflight of
         Some p \<Rightarrow> preflight_validity st (ps_id p) (TsValue PNone) clock
       | None \<Rightarrow> Inr \<lparr>va_valid = False, va_reasons = [''preflight-snapshot-missing''],
                      va_snapshot = None, va_checked = None\<rparr>) (\<lambda>validity.
     res_bind (list_incidents st (PInt 100) False) (\<lambda>incidents.
     res_bind (verify_integrity st) (\<lambda>integrity.
     Inr
       [(''schemaVersion'', PStr ''live-operational-governance-workspace-v1''),
        (''deploymentId'', PStr deployment),
        (''manifest'', case manifest of None \<Rightarrow> PNone | Some m \<Rightarrow> PDict (manifest_dict m)),
        (''latestPreflight'', case preflight of None \<Rightarrow> PNone | Some p \<Rightarrow> PDict (preflight_dict p)),
        (''preflightValidity'', PDict (validity_dict validity)),
        (''activeSession'', case session of None \<Rightarrow> PNone | Some s \<Rightarrow> PDict (session_dict s)),
        (''incidents'', PList (map (\<lambda>i. PDict (incident_dict i)) incidents)),
        (''integrity'', PDict (integrity_dict integrity))]))))))"

end
