(* ===== verification/Py_Time_Laws.thy ===== *)
theory Py_Time_Laws
  imports Py_Time
begin

section \<open>Timestamps survive their text\<close>

text \<open>
  The calendar conversions are inverse, and the ISO text of every instant of the years 1 to 9999
  parses back to the instant, so times compared after a round trip through a table are compared as
  instants.
\<close>

subsection \<open>The calendar\<close>

lemma div_bounds:
  fixes x k :: int
  assumes "0 < k"
  shows "k * (x div k) \<le> x" "x < k * (x div k) + k"
  using pos_mod_sign [OF assms, of x] pos_mod_bound [OF assms, of x] mult_div_mod_eq [of k x] by linarith+

text \<open>Day \<open>doe\<close> of the 400 year era, counted from March: century \<open>a\<close>, four years \<open>b\<close>, year \<open>c\<close>.\<close>

lemma era_split:
  fixes doe :: int
  assumes "0 \<le> doe" "doe < 146097"
  obtains a b c doy where
    "doe = 36524 * a + 1461 * b + 365 * c + doy" "0 \<le> a" "a \<le> 3" "0 \<le> b" "b \<le> 24" "0 \<le> c" "c \<le> 3"
    "0 \<le> doy" "doy \<le> 365" "doy = 365 \<longrightarrow> c = 3 \<and> (b = 24 \<longrightarrow> a = 3)"
proof -
  define a where "a = min 3 (doe div 36524)"
  define r where "r = doe - 36524 * a"
  define b where "b = r div 1461"
  define s where "s = r - 1461 * b"
  define c where "c = min 3 (s div 365)"
  define q where "q = doe div 36524"
  have q: "36524 * q \<le> doe" "doe < 36524 * q + 36524"
    unfolding q_def by (rule div_bounds; simp)+
  have q4: "0 \<le> q" "q \<le> 3 \<or> q = 4" using q assms by linarith+
  have a: "0 \<le> a" "a \<le> 3" "0 \<le> r" "r < 36524 \<or> (a = 3 \<and> r = 36524)"
    using q4(2) q q4(1) assms(2) unfolding a_def r_def q_def [symmetric] by auto
  have bs: "1461 * b \<le> r" "r < 1461 * b + 1461"
    unfolding b_def by (rule div_bounds; simp)+
  have b: "0 \<le> b" "b \<le> 24" "0 \<le> s" "s < 1461" "b = 24 \<longrightarrow> a \<noteq> 3 \<longrightarrow> s < 1460"
    using a(3,4) bs unfolding s_def by linarith+
  define t where "t = s div 365"
  have t: "365 * t \<le> s" "s < 365 * t + 365"
    unfolding t_def by (rule div_bounds; simp)+
  have t4: "0 \<le> t" "t \<le> 3 \<or> t = 4" using t b(3,4) by linarith+
  have c: "0 \<le> c" "c \<le> 3" "0 \<le> s - 365 * c" "s - 365 * c \<le> 365"
    "s - 365 * c = 365 \<longrightarrow> c = 3 \<and> s = 1460"
    using t4(2) t t4(1) b(3,4) unfolding c_def t_def [symmetric] by auto
  have eq: "doe = 36524 * a + 1461 * b + 365 * c + (s - 365 * c)"
    by (simp add: s_def r_def)
  have last: "s - 365 * c = 365 \<longrightarrow> c = 3 \<and> (b = 24 \<longrightarrow> a = 3)"
    using c(5) b(5) by linarith
  show thesis by (rule that [OF eq a(1,2) b(1,2) c(1,2,3,4) last])
qed

lemma year_of_era:
  fixes a b c doy :: int
  assumes "0 \<le> a" "a \<le> 3" "0 \<le> b" "b \<le> 24" "0 \<le> c" "c \<le> 3" "0 \<le> doy" "doy \<le> 365"
    "doy = 365 \<longrightarrow> c = 3 \<and> (b = 24 \<longrightarrow> a = 3)"
    and doe: "doe = 36524 * a + 1461 * b + 365 * c + doy"
  shows "(doe - doe div 1460 + doe div 36524 - doe div 146096) div 365 = 100 * a + 4 * b + c"
proof -
  define x where "x = 24 * a + b + 365 * c + doy"
  define \<delta> :: int where "\<delta> = (if 1460 \<le> x then 1 else 0)"
  define \<epsilon> :: int where "\<epsilon> = (if doe = 146096 then 1 else 0)"
  have x: "0 \<le> x" "x \<le> 1556" using assms(1-8) by (auto simp: x_def)
  have r1: "0 \<le> x - 1460 * \<delta>" "x - 1460 * \<delta> < 1460" using x by (auto simp: \<delta>_def)
  have "doe = 1460 * (25 * a + b + \<delta>) + (x - 1460 * \<delta>)" by (simp add: doe x_def)
  then have d1: "doe div 1460 = 25 * a + b + \<delta>"
    by (rule int_div_pos_eq) (use r1 in auto)
  have "1461 * b + 365 * c + doy \<le> 36524" "1461 * b + 365 * c + doy = 36524 \<longrightarrow> a = 3"
    using assms(3-9) by linarith+
  then have y: "1461 * b + 365 * c + doy < 36524 \<or> (a = 3 \<and> 1461 * b + 365 * c + doy = 36524)" by linarith
  define w where "w = 1461 * b + 365 * c + doy"
  have w: "0 \<le> w" "w < 36524 \<or> (a = 3 \<and> w = 36524)" using y assms(3-7) by (auto simp: w_def)
  have dw: "doe = 36524 * a + w" by (simp add: doe w_def)
  have \<epsilon>: "\<epsilon> = (if w = 36524 then 1 else 0)"
    using w assms(1,2) unfolding \<epsilon>_def dw by auto
  have "doe = 36524 * (a + \<epsilon>) + (w - 36524 * \<epsilon>)" by (simp add: dw)
  then have d2: "doe div 36524 = a + \<epsilon>"
    by (rule int_div_pos_eq) (use w \<epsilon> in auto)
  have "doe \<le> 146096" using w assms(2) by (auto simp: dw)
  moreover have "0 \<le> doe" using w assms(1) by (simp add: dw)
  ultimately have d3: "doe div 146096 = \<epsilon>"
    by (cases "doe = 146096") (auto simp: \<epsilon>_def div_pos_pos_trivial)
  have z: "0 \<le> doy - \<delta>" "doy - \<delta> < 365"
    using assms(1-9) unfolding \<delta>_def x_def by auto
  have "doe - doe div 1460 + doe div 36524 - doe div 146096 = 365 * (100 * a + 4 * b + c) + (doy - \<delta>)"
    unfolding d1 d2 d3 by (simp add: doe)
  then show ?thesis
    by (intro int_div_pos_eq [of _ _ _ "doy - \<delta>"]) (use z in auto)
qed

lemma month_of_year:
  fixes doy :: int
  assumes "0 \<le> doy" "doy \<le> 365" and mp: "mp = (5 * doy + 2) div 153"
  shows "0 \<le> mp" "mp \<le> 11" "(153 * mp + 2) div 5 \<le> doy"
    "doy < (153 * (mp + 1) + 2) div 5"
proof -
  have m: "153 * mp \<le> 5 * doy + 2" "5 * doy + 2 < 153 * mp + 153"
    unfolding mp by (rule div_bounds; simp)+
  with assms(1,2) show "0 \<le> mp" "mp \<le> 11" by linarith+
  have "5 * ((153 * mp + 2) div 5) \<le> 153 * mp + 2"
    "153 * mp + 155 < 5 * ((153 * mp + 155) div 5) + 5"
    by (rule div_bounds; simp)+
  moreover have "153 * (mp + 1) + 2 = 153 * mp + 155" by simp
  ultimately show "(153 * mp + 2) div 5 \<le> doy" "doy < (153 * (mp + 1) + 2) div 5"
    using m by simp_all
qed

lemma civil_roundtrip:
  assumes "civil_from_days z = (y, m, d)"
  shows "days_from_civil y m d = z" "1 \<le> m" "m \<le> 12" "1 \<le> d" "d \<le> days_in_month y m"
proof -
  define era where "era = (z + 719468) div 146097"
  define doe where "doe = (z + 719468) mod 146097"
  have z: "z = era * 146097 + doe - 719468" by (simp add: era_def doe_def)
  have "0 \<le> doe" "doe < 146097" by (simp_all add: doe_def)
  then obtain a b c doy where doe: "doe = 36524 * a + 1461 * b + 365 * c + doy"
    and bounds: "0 \<le> a" "a \<le> 3" "0 \<le> b" "b \<le> 24" "0 \<le> c" "c \<le> 3" "0 \<le> doy" "doy \<le> 365"
    and leap: "doy = 365 \<longrightarrow> c = 3 \<and> (b = 24 \<longrightarrow> a = 3)"
    by (rule era_split) blast
  define yoe where "yoe = 100 * a + 4 * b + c"
  define mp where "mp = (5 * doy + 2) div 153"
  have yoe: "(doe - doe div 1460 + doe div 36524 - doe div 146096) div 365 = yoe"
    unfolding yoe_def by (rule year_of_era [OF bounds leap doe])
  have q: "yoe div 4 = 25 * a + b" "yoe div 100 = a" "0 \<le> yoe" "yoe < 400"
    using bounds by (auto simp: yoe_def)
  have doy: "doe - (365 * yoe + yoe div 4 - yoe div 100) = doy"
    unfolding q(1,2) by (simp add: doe yoe_def)
  have mp: "0 \<le> mp" "mp \<le> 11" "(153 * mp + 2) div 5 \<le> doy" "doy < (153 * (mp + 1) + 2) div 5"
    by (rule month_of_year [OF bounds(7,8) mp_def])+
  have "civil_from_days z =
     (let mm = (if mp < 10 then mp + 3 else mp - 9)
      in (yoe + era * 400 + (if mm \<le> 2 then 1 else 0), mm, doy - (153 * mp + 2) div 5 + 1))"
    unfolding civil_from_days_def Let_def era_def [symmetric] doe_def [symmetric] yoe doy mp_def [symmetric]
    by simp
  then have ymd: "d = doy - (153 * mp + 2) div 5 + 1" "m = (if mp < 10 then mp + 3 else mp - 9)"
    "y = yoe + era * 400 + (if m \<le> 2 then 1 else 0)"
    using assms by (auto simp: Let_def)
  have m2: "m \<le> 2 \<longleftrightarrow> 10 \<le> mp" and mmod: "(m + 9) mod 12 = mp"
    using mp(1,2) by (auto simp: ymd(2))
  have y': "(if m \<le> 2 then y - 1 else y) = era * 400 + yoe" by (simp add: ymd(3))
  have e: "(era * 400 + yoe) div 400 = era" "(era * 400 + yoe) mod 400 = yoe"
    using q(3,4) by auto
  show "days_from_civil y m d = z"
    unfolding days_from_civil_def Let_def y' e mmod
    using doy by (simp add: z ymd(1))
  show "1 \<le> m" "m \<le> 12" using mp(1,2) by (auto simp: ymd(2))
  show "1 \<le> d" using mp(3) by (simp add: ymd(1))
  have "is_leap y" if "doy = 365" "10 \<le> mp"
  proof -
    have c: "c = 3" "b = 24 \<longrightarrow> a = 3" using leap that by auto
    have y: "y = 4 * (25 * a + b + 1 + 100 * era)"
      by (simp add: ymd(3) m2 that yoe_def c)
    show ?thesis
    proof (cases "b = 24")
      case True
      then have "y = 400 * (era + 1)" using c y by simp
      then show ?thesis by (simp add: is_leap_def)
    next
      case False
      then have "0 < 4 * (b + 1)" "4 * (b + 1) < 100" using bounds by auto
      moreover have "y = 4 * (b + 1) + 100 * (a + 4 * era)" unfolding y by simp
      then have "y mod 100 = (4 * (b + 1)) mod 100" by (simp only: mod_mult_self2)
      ultimately have "y mod 100 \<noteq> 0" by simp
      with y show ?thesis by (simp add: is_leap_def)
    qed
  qed
  moreover have "mp = 0 \<or> mp = 1 \<or> mp = 2 \<or> mp = 3 \<or> mp = 4 \<or> mp = 5 \<or> mp = 6 \<or> mp = 7
      \<or> mp = 8 \<or> mp = 9 \<or> mp = 10 \<or> mp = 11"
    using mp(1,2) by presburger
  moreover have "doy \<le> 364 \<or> doy = 365" using bounds(8) by linarith
  ultimately show "d \<le> days_in_month y m"
    using mp(4) bounds(8) by (auto simp: days_in_month_def ymd(1,2))
qed

text \<open>Days are ordered as their dates: the years of the representable days.\<close>

lemma civil_year:
  assumes "civil_from_days z = (y, m, d)" "-719162 \<le> z" "z \<le> 2932896"
  shows "1 \<le> y" "y \<le> 9999"
proof -
  define era where "era = (z + 719468) div 146097"
  define doe where "doe = (z + 719468) mod 146097"
  have "0 \<le> doe" "doe < 146097" by (simp_all add: doe_def)
  then obtain a b c doy where doe: "doe = 36524 * a + 1461 * b + 365 * c + doy"
    and bounds: "0 \<le> a" "a \<le> 3" "0 \<le> b" "b \<le> 24" "0 \<le> c" "c \<le> 3" "0 \<le> doy" "doy \<le> 365"
    and leap: "doy = 365 \<longrightarrow> c = 3 \<and> (b = 24 \<longrightarrow> a = 3)"
    by (rule era_split) blast
  define yoe where "yoe = 100 * a + 4 * b + c"
  have yoe: "(doe - doe div 1460 + doe div 36524 - doe div 146096) div 365 = yoe"
    unfolding yoe_def by (rule year_of_era [OF bounds leap doe])
  have q: "yoe div 4 = 25 * a + b" "yoe div 100 = a" using bounds by (auto simp: yoe_def)
  have doy: "doe - (365 * yoe + yoe div 4 - yoe div 100) = doy"
    unfolding q(1,2) by (simp add: doe yoe_def)
  have yoe0: "0 \<le> yoe" "yoe \<le> 399" using bounds by (simp_all add: yoe_def)
  define mp where "mp = (5 * doy + 2) div 153"
  have mp: "0 \<le> mp" "mp \<le> 11" "153 * mp \<le> 5 * doy + 2" "5 * doy + 2 < 153 * mp + 153"
    using month_of_year [OF bounds(7,8) mp_def] div_bounds [of 153 "5 * doy + 2"] by (simp_all add: mp_def)
  have y: "y = yoe + era * 400 + (if 10 \<le> mp then 1 else 0)"
    using assms(1)
    unfolding civil_from_days_def Let_def era_def [symmetric] doe_def [symmetric] yoe doy mp_def [symmetric]
    using mp(1,2) by auto
  have z: "z = era * 146097 + doe - 719468" by (simp add: era_def doe_def)
  have low: "0 \<le> era"
  proof (rule ccontr)
    assume "\<not> 0 \<le> era"
    then have "era \<le> -1" by simp
    with z assms(2) \<open>doe < 146097\<close> show False by linarith
  qed
  have high: "era \<le> 24" using z assms(3) \<open>0 \<le> doe\<close> by linarith
  show "1 \<le> y"
  proof (cases "yoe + era * 400 = 0")
    case True
    then have "yoe = 0" "era = 0" using low yoe0 by linarith+
    then have "a = 0" "b = 0" "c = 0" using bounds(1-6) unfolding yoe_def by linarith+
    with z doe \<open>era = 0\<close> assms(2) have "306 \<le> doy" by simp
    with mp have "10 \<le> mp" by linarith
    then show ?thesis using True by (simp add: y)
  next
    case False
    then have "1 \<le> yoe + era * 400" using low yoe0 by linarith
    then show ?thesis by (simp add: y)
  qed
  show "y \<le> 9999"
  proof (cases "yoe + era * 400 = 9999")
    case True
    then have e: "era = 24" "yoe = 399" using high yoe0 by linarith+
    then have "a = 3" "b = 24" "c = 3" using bounds(1-6) unfolding yoe_def by linarith+
    with z doe e(1) assms(3) have "doy \<le> 305" by simp
    with mp have "\<not> 10 \<le> mp" by linarith
    then show ?thesis using True by (simp add: y)
  next
    case False
    then have "yoe + era * 400 \<le> 9998" using high yoe0 by linarith
    then show ?thesis by (simp add: y)
  qed
qed

subsection \<open>The text\<close>

lemma length_nat_text: "n < 10 ^ k \<Longrightarrow> 0 < k \<Longrightarrow> length (nat_text n) \<le> k"
proof (induction n arbitrary: k rule: nat_text.induct)
  case (1 n)
  show ?case
  proof (cases "n < 10")
    case True
    with 1 show ?thesis by (simp add: nat_text.simps [of n])
  next
    case False
    with "1.prems" obtain j where k: "k = Suc j" "0 < j" by (cases k; cases "k - 1") auto
    with "1.prems" have "n div 10 < 10 ^ j" by (simp add: less_mult_imp_div_less mult.commute)
    with "1.IH" [of j] False k show ?thesis by (simp add: nat_text.simps [of n])
  qed
qed

lemma padded_digits:
  assumes "n < 10 ^ k" "0 < k"
  shows "length (zero_pad k (nat_text n)) = k" "list_all is_digit (zero_pad k (nat_text n))"
  using length_nat_text [OF assms] by (simp_all add: zero_pad_digits nat_text_digits)

lemma take_digits_padded [simp]:
  assumes "n < 10 ^ k" "0 < k"
  shows "take_digits k (zero_pad k (nat_text n) @ r) = Some (int n, r)"
  using padded_digits [OF assms] by (simp add: take_digits_def del: length_zero_pad)

lemma take_digits_two [simp]: "0 \<le> n \<Longrightarrow> n < 100 \<Longrightarrow> take_digits 2 (two n @ r) = Some (n, r)"
  using take_digits_padded [of "nat n" 2 r] by (simp add: two_def nat_less_iff)

definition no_z :: "string \<Rightarrow> bool" where
  "no_z s \<longleftrightarrow> CHR ''Z'' \<notin> set s"

lemma replace_z_id: "no_z s \<Longrightarrow> replace_z s = s"
  by (induction s) (auto simp: replace_z_def no_z_def)

lemma replace_z_append [simp]: "replace_z (s @ t) = replace_z s @ replace_z t"
  by (simp add: replace_z_def)

lemma replace_z_cons: "replace_z (c # s) = (if c = CHR ''Z'' then ''+00:00'' else [c]) @ replace_z s"
  by (simp add: replace_z_def)

lemma replace_z_Nil [simp]: "replace_z [] = []"
  by (simp add: replace_z_def)

lemma no_z_digits: "list_all is_digit s \<Longrightarrow> no_z s"
  by (auto simp: no_z_def list_all_iff is_digit_def)

lemma no_z_simps [simp]:
  "no_z []" "no_z (c # s) \<longleftrightarrow> c \<noteq> CHR ''Z'' \<and> no_z s" "no_z (s @ t) \<longleftrightarrow> no_z s \<and> no_z t"
  by (auto simp: no_z_def)

lemma no_z_padded [simp]: "no_z (zero_pad k (nat_text n))"
  by (simp add: no_z_digits zero_pad_digits nat_text_digits)

lemma no_z_two [simp]: "no_z (two n)"
  by (simp add: two_def)

lemma clock_part_fields:
  assumes "0 \<le> h" "h < 24" "0 \<le> m" "m < 60" "0 \<le> sec" "sec < 60"
  shows "clock_part (two h @ CHR '':'' # two m @ CHR '':'' # two sec @ rest)
       = Some (h * 3600 + m * 60 + sec, rest)"
  using assms by (simp add: clock_part_def)

lemma clock_part_text:
  assumes "0 \<le> r" "r < 86400"
  shows "clock_part (two (r div 3600) @ CHR '':'' # two (r mod 3600 div 60) @ CHR '':'' # two (r mod 60) @ rest)
       = Some (r, rest)"
proof -
  have "r div 3600 < 24" "0 \<le> r div 3600" using assms by (auto intro: div_less_iff_less_mult [THEN iffD2])
  moreover have "r mod 3600 div 60 < 60" "0 \<le> r mod 3600 div 60"
    using div_bounds [of 60 "r mod 3600"] pos_mod_bound [of 3600 r] by (simp_all add: pos_imp_zdiv_nonneg_iff)
  moreover have "r mod 3600 mod 60 = r mod 60" by (rule mod_mod_cancel) simp
  then have "r div 3600 * 3600 + r mod 3600 div 60 * 60 + r mod 60 = r"
    using div_mult_mod_eq [of r 3600] div_mult_mod_eq [of "r mod 3600" 60] by linarith
  ultimately show ?thesis using clock_part_fields [of "r div 3600" "r mod 3600 div 60" "r mod 60" rest]
    by simp
qed

lemma iso_fields_text:
  assumes "1 \<le> y" "y \<le> 9999" "1 \<le> m" "m \<le> 12" "1 \<le> d" "d \<le> days_in_month y m"
    and "clock_part clock = Some (sec, fr)" "fraction_part fr = Some (us, rest)"
    and "offset_part rest = Some off"
  shows "iso_fields (zero_pad 4 (nat_text (nat y)) @ ''-'' @ two m @ ''-'' @ two d @ ''T'' @ clock)
       = Some (days_from_civil y m d * 86400 * 1000000 + sec * 1000000 + us, off)"
proof -
  have "take_digits 4 (zero_pad 4 (nat_text (nat y)) @ rest) = Some (y, rest)" for rest
    using take_digits_padded [of "nat y" 4 rest] assms(1,2) by (simp add: nat_less_iff)
  moreover have "d < 100" "0 \<le> d" "m < 100" "0 \<le> m"
    using assms(3-6) by (auto simp: days_in_month_def split: if_splits)
  ultimately show ?thesis
    unfolding iso_fields_def using assms by (simp add: Let_def)
qed

lemma fraction_part_text:
  assumes "0 \<le> u" "u < 1000000" and "rest = CHR ''+'' # rs"
  shows "fraction_part (CHR ''.'' # zero_pad 6 (nat_text (nat u)) @ rest) = Some (u, rest)"
proof -
  have d: "length (zero_pad 6 (nat_text (nat u))) = 6" "list_all is_digit (zero_pad 6 (nat_text (nat u)))"
    using padded_digits [of "nat u" 6] assms by (simp_all add: nat_less_iff del: length_zero_pad)
  have t: "takeWhile is_digit (zero_pad 6 (nat_text (nat u)) @ rest) = zero_pad 6 (nat_text (nat u))"
    using d(2) assms(3) by (auto simp: takeWhile_append list_all_iff is_digit_def)
  show ?thesis
    unfolding fraction_part_def using d(1) assms(1)
    by (auto simp: t Let_def simp del: length_zero_pad)
qed

theorem iso_parse_text:
  assumes "-62135596800000000 \<le> t" "t \<le> 253402300799999999"
  shows "iso_parse (iso_text t) = IsoAware t"
proof -
  define s where "s = t div 1000000"
  define u where "u = t mod 1000000"
  define day where "day = s div 86400"
  define r where "r = s mod 86400"
  obtain y m d where ymd: "civil_from_days day = (y, m, d)" by (cases "civil_from_days day")
  have u: "0 \<le> u" "u < 1000000" by (simp_all add: u_def)
  have r: "0 \<le> r" "r < 86400" by (simp_all add: r_def)
  have t: "t = (day * 86400 + r) * 1000000 + u"
    by (simp add: day_def r_def s_def u_def)
  have "t = day * 86400000000 + r * 1000000 + u" using t by simp
  with assms r u have day: "-719162 \<le> day" "day \<le> 2932896" by linarith+
  note civil = civil_roundtrip [OF ymd]
  note year = civil_year [OF ymd day]
  let ?frac = "(if u = 0 then [] else ''.'' @ zero_pad 6 (nat_text (nat u)))"
  have shape: "iso_text t = zero_pad 4 (nat_text (nat y)) @ ''-'' @ two m @ ''-'' @ two d @ ''T''
      @ (two (r div 3600) @ CHR '':'' # two (r mod 3600 div 60) @ CHR '':'' # two (r mod 60))
      @ ?frac @ ''Z''"
    using ymd by (simp add: iso_text_def iso_seconds_def Let_def s_def [symmetric] u_def [symmetric]
        day_def [symmetric] r_def [symmetric])
  have z: "replace_z (iso_text t) = zero_pad 4 (nat_text (nat y)) @ ''-'' @ two m @ ''-'' @ two d @ ''T''
      @ (two (r div 3600) @ CHR '':'' # two (r mod 3600 div 60) @ CHR '':'' # two (r mod 60)
      @ ?frac @ ''+00:00'')"
    unfolding shape
    by (simp add: replace_z_cons replace_z_id)
  have off: "offset_part ''+00:00'' = Some (Some 0)" by code_simp
  have frac: "fraction_part (?frac @ ''+00:00'') = Some (u, ''+00:00'')"
    using fraction_part_text [OF u refl] by (cases "u = 0") (simp_all add: fraction_part_def)
  have clock: "clock_part (two (r div 3600) @ CHR '':'' # two (r mod 3600 div 60) @ CHR '':'' # two (r mod 60)
      @ ?frac @ ''+00:00'') = Some (r, ?frac @ ''+00:00'')"
    by (rule clock_part_text [OF r])
  have "iso_fields (replace_z (iso_text t)) = Some (days_from_civil y m d * 86400 * 1000000 + r * 1000000 + u, Some 0)"
    unfolding z by (rule iso_fields_text [OF year civil(2-5) clock frac off])
  moreover have "days_from_civil y m d * 86400 * 1000000 + r * 1000000 + u = t"
    unfolding civil(1) using t by simp
  ultimately have "iso_fields (replace_z (iso_text t)) = Some (t, Some 0)" by simp
  then show ?thesis unfolding iso_parse_def by simp
qed

lemma iso_text_inj:
  assumes "-62135596800000000 \<le> t" "t \<le> 253402300799999999"
    and "-62135596800000000 \<le> u" "u \<le> 253402300799999999" and "iso_text t = iso_text u"
  shows "t = u"
  using arg_cong [OF assms(5), of iso_parse]
  unfolding iso_parse_text [OF assms(1,2)] iso_parse_text [OF assms(3,4)] by simp

end
