(* ===== verification/Gov_Field_Laws.thy ===== *)
theory Gov_Field_Laws
  imports Gov_Records Py_Time_Laws Py_Canon Clean_Text
begin

section \<open>Governance field checks accept what they return\<close>

text \<open>
  Every normaliser is characterised by what it returns (an elimination rule) and accepts its own
  results unchanged (a simplification rule of \<open>field_again\<close>). Values read back from the tables
  therefore pass the constructors' checks with the same fields.
\<close>

named_theorems field_again \<open>a normaliser applied to its own result\<close>

subsection \<open>Texts\<close>

definition good_text :: "string \<Rightarrow> bool" where
  "good_text t \<longleftrightarrow> t \<noteq> [] \<and> strip t = t \<and> py_len t \<le> 500"

lemma plain_text_Str [simp]: "plain_text (PStr s) = strip s"
  by (simp add: plain_text_def)

lemma plain_text_strip [simp]: "strip (plain_text v) = plain_text v"
  by (simp add: plain_text_def)

lemma required_text_good: "required_text v l = Inr t \<Longrightarrow> good_text t"
  by (auto simp: required_text_def good_text_def Let_def split: if_splits)

lemma required_text_again [field_again]: "good_text t \<Longrightarrow> required_text (PStr t) l = Inr t"
  by (simp add: required_text_def good_text_def)

lemma required_sha256_pattern: "required_sha256 v l = Inr t \<Longrightarrow> sha_pattern t"
  by (auto simp: required_sha256_def Let_def split: if_splits)

lemma required_sha256_again [field_again]: "sha_pattern t \<Longrightarrow> required_sha256 (PStr t) l = Inr t"
  by (simp add: required_sha256_def sha_pattern_text)

definition optional_pattern :: "string \<Rightarrow> bool" where
  "optional_pattern t \<longleftrightarrow> t = [] \<or> sha_pattern t"

lemma optional_sha256_pattern: "optional_sha256 v l = Inr t \<Longrightarrow> optional_pattern t"
  by (auto simp: optional_sha256_def optional_pattern_def Let_def
      split: if_splits dest: required_sha256_pattern)

lemma optional_sha256_again [field_again]: "optional_pattern t \<Longrightarrow> optional_sha256 (PStr t) l = Inr t"
  by (auto simp: optional_sha256_def optional_pattern_def field_again sha_pattern_text)

lemma integer_field_again [field_again]: "integer_field (PInt i) l = Inr i"
  by (simp add: integer_field_def)

lemma positive_revision_pos: "positive_revision v l = Inr r \<Longrightarrow> 1 \<le> r"
  by (auto simp: positive_revision_def split: if_splits)

lemma positive_revision_again [field_again]: "1 \<le> r \<Longrightarrow> positive_revision (PInt r) l = Inr r"
  by (simp add: positive_revision_def field_again)

definition enumeration :: "string list \<Rightarrow> bool" where
  "enumeration allowed \<longleftrightarrow> list_all (\<lambda>a. upper (strip a) = a) allowed"

lemma enum_text_mem: "enum_text v allowed l = Inr t \<Longrightarrow> t \<in> set allowed"
  by (auto simp: enum_text_def Let_def split: if_splits)

lemma enum_text_again [field_again]:
  "enumeration allowed \<Longrightarrow> t \<in> set allowed \<Longrightarrow> enum_text (PStr t) allowed l = Inr t"
  by (auto simp: enum_text_def enumeration_def list_all_iff)

lemma enumerations [simp]:
  "enumeration runtime_lifecycles" "enumeration runtime_modes" "enumeration incident_states"
  "enumeration incident_severities" "enumeration incident_scope_types"
  "enumeration [''PASS'', ''REVIEW_REQUIRED'', ''BLOCKED'']"
  by code_simp+

subsection \<open>Timestamps\<close>

text \<open>The texts the store writes: the ISO text of a representable instant.\<close>

definition iso_stamp :: "string \<Rightarrow> bool" where
  "iso_stamp s \<longleftrightarrow> (\<exists>t. representable t \<and> s = iso_text t)"

definition stamp_instant :: "string \<Rightarrow> instant" where
  "stamp_instant s = (case iso_parse s of IsoAware t \<Rightarrow> t | _ \<Rightarrow> 0)"

lemma no_space_padded: "no_space (zero_pad k (nat_text n))" "no_space (two m)"
  by (simp_all add: digits_no_space zero_pad_digits nat_text_digits two_def)

lemma not_space_marks [simp]:
  "\<not> is_space (CHR ''-'')" "\<not> is_space (CHR ''T'')" "\<not> is_space (CHR '':'')" "\<not> is_space (CHR ''.'')"
  "\<not> is_space (CHR ''Z'')"
  by (simp_all add: is_space_def)

lemma no_space_iso: "no_space (iso_text t)"
  by (simp add: iso_text_def iso_seconds_def Let_def no_space_padded split: prod.splits)

lemma iso_text_plain [simp]: "strip (iso_text t) = iso_text t" "iso_text t \<noteq> []"
  using strip_no_space [OF no_space_iso] by (simp_all add: iso_text_def)

lemma iso_parse_representable [simp]: "representable t \<Longrightarrow> iso_parse (iso_text t) = IsoAware t"
  by (simp add: representable_def min_instant_def max_instant_def iso_parse_text)

lemma instant_text_iff: "instant_text t = Inr s \<longleftrightarrow> representable t \<and> s = iso_text t"
  by (auto simp: instant_text_def)

lemma utc_iso_stamp: "utc_iso v l = Inr s \<Longrightarrow> iso_stamp s"
  by (auto simp: utc_iso_def iso_stamp_def instant_text_iff)

lemma utc_instant_iso: "representable t \<Longrightarrow> utc_instant (TsValue (PStr (iso_text t))) l = Inr t"
  by (simp add: utc_instant_def)

lemma utc_iso_again [field_again]: "iso_stamp s \<Longrightarrow> utc_iso (TsValue (PStr s)) l = Inr s"
  by (auto simp: utc_iso_def iso_stamp_def utc_instant_iso instant_text_def)

lemma stamp_instant_iso [simp]: "representable t \<Longrightarrow> stamp_instant (iso_text t) = t"
  by (simp add: stamp_instant_def)

lemma parse_utc_stamp [field_again]: "iso_stamp s \<Longrightarrow> parse_utc (TsValue (PStr s)) l = Inr (stamp_instant s)"
  by (auto simp: parse_utc_def utc_iso_again iso_stamp_def)

lemma now_text_stamp: "now_text clock v = Inr s \<Longrightarrow> iso_stamp s"
  unfolding now_text_def by (rule utc_iso_stamp)

subsection \<open>JSON objects\<close>

text \<open>No key, at any depth, names a raw account identifier.\<close>

fun no_raw :: "pyval \<Rightarrow> bool"
  and no_raw_list :: "pyval list \<Rightarrow> bool"
  and no_raw_entries :: "pydict \<Rightarrow> bool" where
  "no_raw (PDict d) = no_raw_entries d"
| "no_raw (PList xs) = no_raw_list xs"
| "no_raw v = True"
| "no_raw_list [] = True"
| "no_raw_list (x # xs) = (no_raw x \<and> no_raw_list xs)"
| "no_raw_entries [] = True"
| "no_raw_entries ((k, v) # kvs) = (\<not> raw_account_key k \<and> no_raw v \<and> no_raw_entries kvs)"

lemma assert_iff:
  "(assert_no_raw_account v p = Inr ()) = no_raw v"
  "(assert_items xs p i = Inr ()) = no_raw_list xs"
  "(assert_entries d p = Inr ()) = no_raw_entries d"
  by (induction v p and xs p i and d p rule: assert_no_raw_account_assert_items_assert_entries.induct)
     (auto simp: res_simps)

lemma no_raw_list_iff: "no_raw_list xs \<longleftrightarrow> (\<forall>x \<in> set xs. no_raw x)"
  by (induction xs) auto

lemma no_raw_entries_iff: "no_raw_entries d \<longleftrightarrow> (\<forall>(k, v) \<in> set d. \<not> raw_account_key k \<and> no_raw v)"
  by (induction d) auto

lemma strict_list_iff: "strict_list xs \<longleftrightarrow> (\<forall>x \<in> set xs. strict_json x)"
  by (induction xs) auto

lemma strict_entries_iff: "strict_entries d \<longleftrightarrow> (\<forall>(k, v) \<in> set d. strict_json v)"
  by (induction d) auto

lemma canon_no_raw: "no_raw v \<Longrightarrow> no_raw (canon v)"
proof (induction v)
  case (PDict d)
  then show ?case by (fastforce simp: no_raw_entries_iff set_canon_entries)
qed (auto simp: no_raw_list_iff canon_list_map)

lemma canon_strict: "strict_json v \<Longrightarrow> strict_json (canon v)"
proof (induction v)
  case (PDict d)
  then show ?case by (fastforce simp: strict_entries_iff set_canon_entries)
qed (auto simp: strict_list_iff canon_list_map)

definition good_object :: "pydict \<Rightarrow> bool" where
  "good_object d \<longleftrightarrow> no_raw (PDict d) \<and> strict_json (PDict d) \<and> canon (PDict d) = PDict d"

lemma json_object_iff:
  "json_object d l = Inr d' \<longleftrightarrow> no_raw (PDict d) \<and> strict_json (PDict d) \<and> d' = canon_entries d"
  using assert_iff(1) [of "PDict d" l]
  by (auto simp: json_object_def res_simps split: if_splits)

lemma json_object_good: "json_object d l = Inr d' \<Longrightarrow> good_object d'"
  using canon_no_raw [of "PDict d"] canon_strict [of "PDict d"]
  by (auto simp: json_object_iff good_object_def)

lemma json_object_again [field_again]: "good_object d \<Longrightarrow> json_object d l = Inr d"
  by (simp add: json_object_iff good_object_def)

lemma good_object_canon: "good_object d \<Longrightarrow> canon_entries d = d"
  by (simp add: good_object_def)

end
