(* ===== verification/Gov_Record_Laws.thy ===== *)
theory Gov_Record_Laws
  imports Gov_Field_Laws
begin

section \<open>Manifests and preflights survive their stored form\<close>

text \<open>
  \<open>good_manifest\<close> and \<open>good_preflight\<close> say what the constructors guarantee of a record;
  \<open>from_dict\<close> of the stored payload of a good record is the record itself, its declared hash
  accepted.
\<close>

subsection \<open>Deployment manifest\<close>

definition good_manifest :: "deployment_manifest \<Rightarrow> bool" where
  "good_manifest m \<longleftrightarrow>
     good_text (mf_deployment m) \<and> 1 \<le> mf_revision m \<and> optional_pattern (mf_previous m)
     \<and> (mf_revision m = 1 \<longleftrightarrow> mf_previous m = [])
     \<and> sha_pattern (mf_strategy_hash m) \<and> optional_pattern (mf_portfolio_hash m)
     \<and> sha_pattern (mf_account m) \<and> good_text (mf_route m) \<and> good_text (mf_runtime_version m)
     \<and> sha_pattern (mf_build_hash m) \<and> good_text (mf_adapter m) \<and> good_text (mf_adapter_version m)
     \<and> 1 \<le> mf_risk_revision m \<and> sha_pattern (mf_risk_hash m) \<and> 1 \<le> mf_config_revision m
     \<and> sha_pattern (mf_config_hash m) \<and> 1 \<le> mf_ttl m \<and> mf_ttl m \<le> max_preflight_ttl
     \<and> iso_stamp (mf_created m) \<and> good_object (mf_metadata m) \<and> mf_schema m = manifest_schema"

lemma make_manifest_parts:
  assumes "make_manifest raw = Inr m"
  shows "required_text (mf_deployment raw) ''deployment_id'' = Inr (mf_deployment m)
    \<and> positive_revision (mf_revision raw) ''revision'' = Inr (mf_revision m)
    \<and> optional_sha256 (mf_previous raw) ''previous_manifest_hash'' = Inr (mf_previous m)
    \<and> \<not> (mf_revision m = 1 \<and> mf_previous m \<noteq> []) \<and> \<not> (1 < mf_revision m \<and> mf_previous m = [])
    \<and> required_sha256 (mf_strategy_hash raw) ''strategy_artifact_hash'' = Inr (mf_strategy_hash m)
    \<and> required_sha256 (mf_account raw) ''account_fingerprint'' = Inr (mf_account m)
    \<and> required_sha256 (mf_build_hash raw) ''build_hash'' = Inr (mf_build_hash m)
    \<and> required_sha256 (mf_risk_hash raw) ''risk_policy_hash'' = Inr (mf_risk_hash m)
    \<and> required_sha256 (mf_config_hash raw) ''config_hash'' = Inr (mf_config_hash m)
    \<and> optional_sha256 (mf_portfolio_hash raw) ''portfolio_artifact_hash'' = Inr (mf_portfolio_hash m)
    \<and> required_text (mf_route raw) ''broker_route'' = Inr (mf_route m)
    \<and> required_text (mf_runtime_version raw) ''runtime_version'' = Inr (mf_runtime_version m)
    \<and> required_text (mf_adapter raw) ''execution_adapter'' = Inr (mf_adapter m)
    \<and> required_text (mf_adapter_version raw) ''execution_adapter_version'' = Inr (mf_adapter_version m)
    \<and> positive_revision (mf_risk_revision raw) ''risk_policy_revision'' = Inr (mf_risk_revision m)
    \<and> positive_revision (mf_config_revision raw) ''config_revision'' = Inr (mf_config_revision m)
    \<and> integer_field (mf_ttl raw) ''preflight_ttl_seconds'' = Inr (mf_ttl m)
    \<and> 1 \<le> mf_ttl m \<and> mf_ttl m \<le> max_preflight_ttl
    \<and> utc_iso (mf_created raw) ''created_at'' = Inr (mf_created m)
    \<and> json_object (mf_metadata raw) ''metadata'' = Inr (mf_metadata m)
    \<and> mf_schema m = manifest_schema"
  using assms unfolding make_manifest_def
  by (elim res_bindE) (simp only: require_eq_Inr sum.inject split: if_split_asm, clarsimp+)

lemma make_manifest_good:
  assumes "make_manifest raw = Inr m"
  shows "good_manifest m"
proof -
  note p = make_manifest_parts [OF assms]
  have "1 \<le> mf_revision m" using p by (blast intro: positive_revision_pos)
  with p have "mf_revision m = 1 \<longleftrightarrow> mf_previous m = []" by fastforce
  with p show ?thesis unfolding good_manifest_def
    by (blast intro: required_text_good required_sha256_pattern optional_sha256_pattern
        positive_revision_pos utc_iso_stamp json_object_good)
qed

text \<open>The fields of a manifest as constructor arguments.\<close>

definition manifest_as_input :: "deployment_manifest \<Rightarrow> manifest_input" where
  "manifest_as_input m =
     \<lparr>mf_deployment = PStr (mf_deployment m), mf_revision = PInt (mf_revision m),
      mf_previous = PStr (mf_previous m), mf_strategy_hash = PStr (mf_strategy_hash m),
      mf_portfolio_hash = PStr (mf_portfolio_hash m), mf_account = PStr (mf_account m),
      mf_route = PStr (mf_route m), mf_runtime_version = PStr (mf_runtime_version m),
      mf_build_hash = PStr (mf_build_hash m), mf_adapter = PStr (mf_adapter m),
      mf_adapter_version = PStr (mf_adapter_version m), mf_risk_revision = PInt (mf_risk_revision m),
      mf_risk_hash = PStr (mf_risk_hash m), mf_config_revision = PInt (mf_config_revision m),
      mf_config_hash = PStr (mf_config_hash m), mf_ttl = PInt (mf_ttl m),
      mf_created = TsValue (PStr (mf_created m)), mf_metadata = mf_metadata m,
      mf_schema = PStr (mf_schema m)\<rparr>"

lemma make_manifest_again:
  assumes "good_manifest m"
  shows "make_manifest (manifest_as_input m) = Inr m"
proof -
  note g = assms [unfolded good_manifest_def]
  have texts: "required_text (PStr (mf_deployment m)) l = Inr (mf_deployment m)"
    "required_text (PStr (mf_route m)) l = Inr (mf_route m)"
    "required_text (PStr (mf_runtime_version m)) l = Inr (mf_runtime_version m)"
    "required_text (PStr (mf_adapter m)) l = Inr (mf_adapter m)"
    "required_text (PStr (mf_adapter_version m)) l = Inr (mf_adapter_version m)" for l
    using g by (blast intro: required_text_again)+
  have hashes: "optional_sha256 (PStr (mf_previous m)) l = Inr (mf_previous m)"
    "optional_sha256 (PStr (mf_portfolio_hash m)) l = Inr (mf_portfolio_hash m)"
    "required_sha256 (PStr (mf_strategy_hash m)) l = Inr (mf_strategy_hash m)"
    "required_sha256 (PStr (mf_account m)) l = Inr (mf_account m)"
    "required_sha256 (PStr (mf_build_hash m)) l = Inr (mf_build_hash m)"
    "required_sha256 (PStr (mf_risk_hash m)) l = Inr (mf_risk_hash m)"
    "required_sha256 (PStr (mf_config_hash m)) l = Inr (mf_config_hash m)" for l
    using g by (blast intro: optional_sha256_again required_sha256_again)+
  have ints: "positive_revision (PInt (mf_revision m)) l = Inr (mf_revision m)"
    "positive_revision (PInt (mf_risk_revision m)) l = Inr (mf_risk_revision m)"
    "positive_revision (PInt (mf_config_revision m)) l = Inr (mf_config_revision m)" for l
    using g by (blast intro: positive_revision_again)+
  have rest: "utc_iso (TsValue (PStr (mf_created m))) l = Inr (mf_created m)"
    "json_object (mf_metadata m) l = Inr (mf_metadata m)" for l
    using g by (blast intro: utc_iso_again json_object_again)+
  have links: "\<not> (mf_revision m = 1 \<and> mf_previous m \<noteq> [])" "\<not> (1 < mf_revision m \<and> mf_previous m = [])"
    "1 \<le> mf_ttl m \<and> mf_ttl m \<le> max_preflight_ttl" "mf_schema m = manifest_schema"
    using g by auto
  show ?thesis
    unfolding make_manifest_def manifest_as_input_def manifest_fields.simps
    by (simp only: res_bind_Inr texts hashes ints rest integer_field_again require_True links
        simp_thms pyval.inject if_False if_True not_False_eq_True) (simp add: links(4))
qed

lemma get_text_Str: "dict_get d k = PStr s \<Longrightarrow> get_text d k = PStr s"
  by (simp add: get_text_def)

lemma get_or_canon: "get_or (canon z) (canon_entries d) k = canon (get_or z d k)"
  by (simp add: get_or_def assoc_get_canon)

lemma get_or_zero: "get_or (PInt 0) (canon_entries d) k = canon (get_or (PInt 0) d k)"
  using get_or_canon [of "PInt 0" d k] by simp

lemma check_declared_own:
  assumes "sha_pattern h"
  shows "check_declared (PStr h) h msg = Inr ()"
proof -
  have "\<not> list_ex (\<lambda>c. 128 \<le> code c) h"
    using assms by (auto simp: sha_pattern_def list_ex_iff list_all_iff is_hex_digit_def is_digit_def)
  with sha_pattern_text [OF assms] show ?thesis by (simp add: check_declared_def Let_def)
qed

lemma manifest_hash_pattern [simp]: "sha_pattern (manifest_hash m)"
  by (simp add: manifest_hash_def)

lemma manifest_from_stored:
  assumes "good_manifest m"
  shows "manifest_from_dict (canon (PDict (manifest_dict m))) = Inr m"
proof -
  let ?d = "manifest_dict m"
  have texts: "dict_get ?d ''schemaVersion'' = PStr (mf_schema m)"
    "dict_get ?d ''deploymentId'' = PStr (mf_deployment m)"
    "dict_get ?d ''previousManifestHash'' = PStr (mf_previous m)"
    "dict_get ?d ''strategyArtifactHash'' = PStr (mf_strategy_hash m)"
    "dict_get ?d ''portfolioArtifactHash'' = PStr (mf_portfolio_hash m)"
    "dict_get ?d ''accountFingerprint'' = PStr (mf_account m)"
    "dict_get ?d ''brokerRoute'' = PStr (mf_route m)"
    "dict_get ?d ''runtimeVersion'' = PStr (mf_runtime_version m)"
    "dict_get ?d ''buildHash'' = PStr (mf_build_hash m)"
    "dict_get ?d ''executionAdapter'' = PStr (mf_adapter m)"
    "dict_get ?d ''executionAdapterVersion'' = PStr (mf_adapter_version m)"
    "dict_get ?d ''riskPolicyHash'' = PStr (mf_risk_hash m)"
    "dict_get ?d ''configHash'' = PStr (mf_config_hash m)"
    "dict_get ?d ''createdAt'' = PStr (mf_created m)"
    "dict_get ?d ''metadata'' = PDict (mf_metadata m)"
    "dict_get ?d ''manifestHash'' = PStr (manifest_hash m)"
    by (simp_all add: manifest_dict_def manifest_payload_def)
  have ints: "get_or (PInt 0) ?d ''revision'' = PInt (mf_revision m)"
    "get_or (PInt 0) ?d ''riskPolicyRevision'' = PInt (mf_risk_revision m)"
    "get_or (PInt 0) ?d ''configRevision'' = PInt (mf_config_revision m)"
    "get_or (PInt 0) ?d ''preflightTtlSeconds'' = PInt (mf_ttl m)"
    by (simp_all add: manifest_dict_def manifest_payload_def get_or_def)
  have metadata: "canon_entries (mf_metadata m) = mf_metadata m"
    using assms by (simp add: good_manifest_def good_object_def)
  have args: "manifest_arguments (canon_entries ?d) = manifest_as_input m"
    unfolding manifest_arguments_def manifest_as_input_def
    by (simp add: get_text_def get_or_zero ints texts metadata get_mapping_def)
  show ?thesis
    unfolding manifest_from_dict_def
    by (simp add: require_mapping_def args make_manifest_again [OF assms] texts check_declared_own)
qed

subsection \<open>Preflight checks\<close>

definition good_check :: "preflight_check \<Rightarrow> bool" where
  "good_check c \<longleftrightarrow> good_text (ck_id c) \<and> ck_status c \<in> {''PASS'', ''WARN'', ''FAIL''}
     \<and> strip (ck_detail c) = ck_detail c \<and> optional_pattern (ck_evidence c)"

definition good_checks :: "preflight_check list \<Rightarrow> bool" where
  "good_checks cs \<longleftrightarrow> cs \<noteq> [] \<and> list_all good_check cs \<and> sorted (map ck_id cs) \<and> distinct (map ck_id cs)"

lemma check_status_good: "check_status v = Inr s \<Longrightarrow> s \<in> {''PASS'', ''WARN'', ''FAIL''}"
  by (auto simp: check_status_def Let_def split: if_splits)

lemma check_status_again: "s \<in> {''PASS'', ''WARN'', ''FAIL''} \<Longrightarrow> check_status (PStr s) = Inr s"
proof -
  have "check_status (PStr ''PASS'') = Inr ''PASS''" "check_status (PStr ''WARN'') = Inr ''WARN''"
    "check_status (PStr ''FAIL'') = Inr ''FAIL''" by code_simp+
  then show "s \<in> {''PASS'', ''WARN'', ''FAIL''} \<Longrightarrow> check_status (PStr s) = Inr s" by auto
qed

lemma collect_checks_good:
  "collect_checks i seen raws = Inr cs \<Longrightarrow>
   list_all good_check cs \<and> distinct (map ck_id cs) \<and> set (map ck_id cs) \<inter> set seen = {}"
proof (induction i seen raws arbitrary: cs rule: collect_checks.induct)
  case (2 i seen raw raws)
  let ?label = "''checks['' @ nat_text i @ '']''"
  from "2.prems" obtain item cid status evidence rest where
    parts: "json_object raw ?label = Inr item"
      "required_text (py_or (dict_get item ''checkId'') (dict_get item ''check_id'')) (?label @ ''.checkId'') = Inr cid"
      "cid \<notin> set seen" "check_status (dict_get item ''status'') = Inr status"
      "optional_sha256 (py_or (dict_get item ''evidenceHash'') (dict_get item ''evidence_hash''))
         (?label @ ''.evidenceHash'') = Inr evidence"
      "collect_checks (Suc i) (cid # seen) raws = Inr rest"
    and cs: "cs = \<lparr>ck_id = cid, ck_status = status, ck_detail = plain_text (dict_get item ''detail''),
              ck_evidence = evidence\<rparr> # rest"
    by (auto simp: Let_def split: if_splits)
  from "2.IH" [OF refl parts(1,2,3,4,5,6)]
  have "list_all good_check rest \<and> distinct (map ck_id rest) \<and> set (map ck_id rest) \<inter> set (cid # seen) = {}" .
  moreover have "good_check \<lparr>ck_id = cid, ck_status = status, ck_detail = plain_text (dict_get item ''detail''),
      ck_evidence = evidence\<rparr>"
    using required_text_good [OF parts(2)] check_status_good [OF parts(4)] optional_sha256_pattern [OF parts(5)]
    by (simp add: good_check_def)
  ultimately show ?case using parts(3) by (auto simp: cs)
qed simp

lemma normalized_checks_good:
  assumes "normalized_preflight_checks raws = Inr cs"
  shows "good_checks cs"
proof -
  from assms obtain r where r: "collect_checks 0 [] raws = Inr r" "r \<noteq> []" "cs = sort_key ck_id r"
    by (auto simp: normalized_preflight_checks_def split: if_splits)
  from collect_checks_good [OF r(1)] have g: "list_all good_check r" "distinct (map ck_id r)" by auto
  have "distinct (map ck_id cs)"
    using g(2) by (simp add: r(3) distinct_map)
  moreover have "cs \<noteq> []"
    using r(2) by (metis r(3) set_empty set_sort)
  ultimately show ?thesis
    using g(1) by (simp add: good_checks_def r(3) list_all_iff)
qed

text \<open>A mapping that reads as a check: as written by \<open>check_json\<close>, or with its keys sorted.\<close>

definition reads_as :: "pydict \<Rightarrow> preflight_check \<Rightarrow> bool" where
  "reads_as raw c \<longleftrightarrow> (\<forall>l. json_object raw l = Inr (canon_entries (check_json c)))"

lemma check_json_reads: "reads_as (check_json c) c" "reads_as (canon_entries (check_json c)) c"
proof -
  have "\<not> raw_account_key ''checkId''" "\<not> raw_account_key ''status''" "\<not> raw_account_key ''detail''"
    "\<not> raw_account_key ''evidenceHash''" by code_simp+
  then have j: "json_object (check_json c) l = Inr (canon_entries (check_json c))" for l
    by (simp add: json_object_iff check_json_def)
  then show "reads_as (check_json c) c" by (simp add: reads_as_def)
  from j have "good_object (canon_entries (check_json c))" by (rule json_object_good)
  then show "reads_as (canon_entries (check_json c)) c" by (simp add: reads_as_def json_object_again)
qed

lemma collect_checks_again:
  "list_all2 reads_as raws cs \<Longrightarrow> list_all good_check cs \<Longrightarrow> distinct (map ck_id cs) \<Longrightarrow>
   set (map ck_id cs) \<inter> set seen = {} \<Longrightarrow> collect_checks i seen raws = Inr cs"
proof (induction raws cs arbitrary: i seen rule: list_all2_induct)
  case (Cons raw raws c cs)
  then have c: "good_check c" and fresh: "ck_id c \<notin> set seen" by auto
  have rest: "collect_checks (Suc i) (ck_id c # seen) raws = Inr cs"
    using Cons.prems by (intro Cons.IH) auto
  have get: "dict_get (canon_entries (check_json c)) ''checkId'' = PStr (ck_id c)"
    "dict_get (canon_entries (check_json c)) ''status'' = PStr (ck_status c)"
    "dict_get (canon_entries (check_json c)) ''detail'' = PStr (ck_detail c)"
    "dict_get (canon_entries (check_json c)) ''evidenceHash'' = PStr (ck_evidence c)"
    "dict_get (canon_entries (check_json c)) ''evidence_hash'' = PNone"
    unfolding dict_get_canon by (simp_all add: check_json_def)
  have evidence: "optional_sha256 (py_or (PStr (ck_evidence c)) PNone) l = Inr (ck_evidence c)" for l
  proof (cases "ck_evidence c = []")
    case True
    then show ?thesis by (simp add: optional_sha256_def plain_text_def)
  next
    case False
    with c show ?thesis by (simp add: good_check_def field_again)
  qed
  have cid: "required_text (py_or (PStr (ck_id c)) d) l = Inr (ck_id c)" for d l
    using c by (auto simp: good_check_def good_text_def required_text_def)
  have status: "check_status (PStr (ck_status c)) = Inr (ck_status c)"
    using c check_status_again by (auto simp: good_check_def)
  have json: "json_object raw l = Inr (canon_entries (check_json c))" for l
    using Cons.hyps(1) by (simp add: reads_as_def)
  have detail: "plain_text (PStr (ck_detail c)) = ck_detail c"
    using c by (simp add: good_check_def)
  show ?case
    by (simp only: collect_checks.simps Let_def json res_bind_Inr get cid status evidence rest detail
        fresh if_False) simp
qed simp

lemma normalized_checks_again:
  assumes "good_checks cs" "list_all2 reads_as raws cs"
  shows "normalized_preflight_checks raws = Inr cs"
  using assms collect_checks_again [of raws cs "[]" 0]
  by (simp add: good_checks_def normalized_preflight_checks_def sort_key_id_if_sorted)

subsection \<open>Preflight snapshot\<close>

definition good_preflight :: "preflight_snapshot \<Rightarrow> bool" where
  "good_preflight s \<longleftrightarrow>
     good_text (ps_id s) \<and> good_text (ps_deployment s) \<and> good_text (ps_route s)
     \<and> 1 \<le> ps_revision s \<and> 1 \<le> ps_config_revision s
     \<and> sha_pattern (ps_manifest_hash s) \<and> sha_pattern (ps_account s) \<and> sha_pattern (ps_config_hash s)
     \<and> sha_pattern (ps_reconciliation s) \<and> sha_pattern (ps_broker_hash s)
     \<and> good_checks (ps_checks s) \<and> ps_status s = preflight_status (ps_checks s)
     \<and> iso_stamp (ps_issued s) \<and> iso_stamp (ps_expires s)
     \<and> stamp_instant (ps_issued s) < stamp_instant (ps_expires s)
     \<and> good_object (ps_metadata s) \<and> ps_schema s = preflight_schema"

lemma make_preflight_parts:
  assumes "make_preflight raw = Inr s"
  shows "required_text (ps_id raw) ''snapshot_id'' = Inr (ps_id s)
    \<and> required_text (ps_deployment raw) ''deployment_id'' = Inr (ps_deployment s)
    \<and> required_text (ps_route raw) ''broker_route'' = Inr (ps_route s)
    \<and> positive_revision (ps_revision raw) ''deployment_revision'' = Inr (ps_revision s)
    \<and> positive_revision (ps_config_revision raw) ''config_revision'' = Inr (ps_config_revision s)
    \<and> required_sha256 (ps_manifest_hash raw) ''deployment_manifest_hash'' = Inr (ps_manifest_hash s)
    \<and> required_sha256 (ps_account raw) ''account_fingerprint'' = Inr (ps_account s)
    \<and> required_sha256 (ps_config_hash raw) ''config_hash'' = Inr (ps_config_hash s)
    \<and> required_sha256 (ps_reconciliation raw) ''reconciliation_hash'' = Inr (ps_reconciliation s)
    \<and> required_sha256 (ps_broker_hash raw) ''broker_snapshot_hash'' = Inr (ps_broker_hash s)
    \<and> normalized_preflight_checks (ps_checks raw) = Inr (ps_checks s)
    \<and> ps_status s = preflight_status (ps_checks s)
    \<and> utc_iso (ps_issued raw) ''issued_at'' = Inr (ps_issued s)
    \<and> utc_iso (ps_expires raw) ''expires_at'' = Inr (ps_expires s)
    \<and> (\<exists>e i. parse_utc (TsValue (PStr (ps_expires s))) ''expires_at'' = Inr e
         \<and> parse_utc (TsValue (PStr (ps_issued s))) ''issued_at'' = Inr i \<and> \<not> e \<le> i)
    \<and> json_object (ps_metadata raw) ''metadata'' = Inr (ps_metadata s)
    \<and> ps_schema s = preflight_schema"
  using assms unfolding make_preflight_def
  by (elim res_bindE) (simp only: require_eq_Inr sum.inject split: if_split_asm, clarsimp+)

lemma make_preflight_good:
  assumes "make_preflight raw = Inr s"
  shows "good_preflight s"
proof -
  note p = make_preflight_parts [OF assms]
  have "iso_stamp (ps_issued s)" "iso_stamp (ps_expires s)"
    using p by (blast intro: utc_iso_stamp)+
  with p have "stamp_instant (ps_issued s) < stamp_instant (ps_expires s)"
    by (auto simp: parse_utc_stamp)
  with p show ?thesis unfolding good_preflight_def
    by (blast intro: required_text_good required_sha256_pattern positive_revision_pos utc_iso_stamp
        json_object_good normalized_checks_good)
qed

lemma preflight_status_mem: "preflight_status cs \<in> {''PASS'', ''REVIEW_REQUIRED'', ''BLOCKED''}"
  by (simp add: preflight_status_def Let_def)

text \<open>The fields of a snapshot as constructor arguments, the checks as mappings that read as them.\<close>

definition preflight_as_input :: "preflight_snapshot \<Rightarrow> pydict list \<Rightarrow> preflight_input" where
  "preflight_as_input s raws =
     \<lparr>ps_id = PStr (ps_id s), ps_deployment = PStr (ps_deployment s),
      ps_revision = PInt (ps_revision s), ps_manifest_hash = PStr (ps_manifest_hash s),
      ps_account = PStr (ps_account s), ps_route = PStr (ps_route s),
      ps_config_revision = PInt (ps_config_revision s), ps_config_hash = PStr (ps_config_hash s),
      ps_reconciliation = PStr (ps_reconciliation s), ps_broker_hash = PStr (ps_broker_hash s),
      ps_status = PStr (ps_status s), ps_checks = raws,
      ps_issued = TsValue (PStr (ps_issued s)), ps_expires = TsValue (PStr (ps_expires s)),
      ps_metadata = ps_metadata s, ps_schema = PStr (ps_schema s)\<rparr>"

lemma make_preflight_again:
  assumes "good_preflight s" "list_all2 reads_as raws (ps_checks s)"
  shows "make_preflight (preflight_as_input s raws) = Inr s"
proof -
  note g = assms(1) [unfolded good_preflight_def]
  have checks: "normalized_preflight_checks raws = Inr (ps_checks s)"
    using g assms(2) by (blast intro: normalized_checks_again)
  have texts: "required_text (PStr (ps_id s)) l = Inr (ps_id s)"
    "required_text (PStr (ps_deployment s)) l = Inr (ps_deployment s)"
    "required_text (PStr (ps_route s)) l = Inr (ps_route s)" for l
    using g by (blast intro: required_text_again)+
  have hashes: "required_sha256 (PStr (ps_manifest_hash s)) l = Inr (ps_manifest_hash s)"
    "required_sha256 (PStr (ps_account s)) l = Inr (ps_account s)"
    "required_sha256 (PStr (ps_config_hash s)) l = Inr (ps_config_hash s)"
    "required_sha256 (PStr (ps_reconciliation s)) l = Inr (ps_reconciliation s)"
    "required_sha256 (PStr (ps_broker_hash s)) l = Inr (ps_broker_hash s)" for l
    using g by (blast intro: required_sha256_again)+
  have ints: "positive_revision (PInt (ps_revision s)) l = Inr (ps_revision s)"
    "positive_revision (PInt (ps_config_revision s)) l = Inr (ps_config_revision s)" for l
    using g by (blast intro: positive_revision_again)+
  have status: "enum_text (PStr (ps_status s)) [''PASS'', ''REVIEW_REQUIRED'', ''BLOCKED''] l = Inr (ps_status s)" for l
    using g preflight_status_mem [of "ps_checks s"] by (intro enum_text_again) auto
  have times: "utc_iso (TsValue (PStr (ps_issued s))) l = Inr (ps_issued s)"
    "utc_iso (TsValue (PStr (ps_expires s))) l = Inr (ps_expires s)"
    "parse_utc (TsValue (PStr (ps_issued s))) l = Inr (stamp_instant (ps_issued s))"
    "parse_utc (TsValue (PStr (ps_expires s))) l = Inr (stamp_instant (ps_expires s))"
    "json_object (ps_metadata s) l = Inr (ps_metadata s)" for l
    using g by (blast intro: utc_iso_again parse_utc_stamp json_object_again)+
  have links: "ps_status s = preflight_status (ps_checks s)"
    "\<not> stamp_instant (ps_expires s) \<le> stamp_instant (ps_issued s)" "ps_schema s = preflight_schema"
    using g by auto
  show ?thesis
    unfolding make_preflight_def preflight_as_input_def preflight_fields.simps
    by (simp only: res_bind_Inr texts hashes ints checks status times require_True links(2,3)
        links(1) [symmetric] not_False_eq_True if_False simp_thms) (simp add: links(3))
qed

lemma preflight_hash_pattern [simp]: "sha_pattern (preflight_hash s)"
  by (simp add: preflight_hash_def)

lemma stored_checks:
  "mappings_of (canon (PList (map (\<lambda>c. PDict (check_json c)) cs)))
     = Inr (map (\<lambda>c. canon_entries (check_json c)) cs)"
  by (simp add: canon_list_map comp_def filter_map)

lemma preflight_from_stored:
  assumes "good_preflight s"
  shows "preflight_from_dict (canon (PDict (preflight_dict s))) = Inr s"
proof -
  let ?raws = "map (\<lambda>c. canon_entries (check_json c)) (ps_checks s)"
  have "list_all2 reads_as ?raws (ps_checks s)"
    by (simp add: list_all2_map1 check_json_reads list_all2_same)
  note again = make_preflight_again [OF assms this]
  have m: "canon_entries (ps_metadata s) = ps_metadata s"
    using assms by (simp add: good_preflight_def good_object_def)
  let ?d = "preflight_dict s"
  have texts: "dict_get ?d ''schemaVersion'' = PStr (ps_schema s)"
    "dict_get ?d ''snapshotId'' = PStr (ps_id s)"
    "dict_get ?d ''deploymentId'' = PStr (ps_deployment s)"
    "dict_get ?d ''deploymentManifestHash'' = PStr (ps_manifest_hash s)"
    "dict_get ?d ''accountFingerprint'' = PStr (ps_account s)"
    "dict_get ?d ''brokerRoute'' = PStr (ps_route s)"
    "dict_get ?d ''configHash'' = PStr (ps_config_hash s)"
    "dict_get ?d ''reconciliationHash'' = PStr (ps_reconciliation s)"
    "dict_get ?d ''brokerSnapshotHash'' = PStr (ps_broker_hash s)"
    "dict_get ?d ''status'' = PStr (ps_status s)"
    "dict_get ?d ''issuedAt'' = PStr (ps_issued s)"
    "dict_get ?d ''expiresAt'' = PStr (ps_expires s)"
    "dict_get ?d ''metadata'' = PDict (ps_metadata s)"
    "dict_get ?d ''snapshotHash'' = PStr (preflight_hash s)"
    by (simp_all add: preflight_dict_def preflight_payload_def)
  have ints: "get_or (PInt 0) ?d ''deploymentRevision'' = PInt (ps_revision s)"
    "get_or (PInt 0) ?d ''configRevision'' = PInt (ps_config_revision s)"
    "get_or (PList []) ?d ''checks'' = PList (map (\<lambda>c. PDict (check_json c)) (ps_checks s))"
    by (simp_all add: preflight_dict_def preflight_payload_def get_or_def)
  have checks: "mappings_of (get_or (PList []) (canon_entries ?d) ''checks'') = Inr ?raws"
    using get_or_canon [of "PList []" ?d "''checks''"] stored_checks [of "ps_checks s"] by (simp add: ints)
  have args: "preflight_arguments (canon_entries ?d) ?raws = preflight_as_input s ?raws"
    unfolding preflight_arguments_def preflight_as_input_def
    by (simp add: get_text_def get_or_zero ints texts m get_mapping_def)
  show ?thesis
    unfolding preflight_from_dict_def
    by (simp add: require_mapping_def checks args again texts check_declared_own)
qed

end
