(* ===== verification/Gov_Steps.thy ===== *)
theory Gov_Steps
  imports Gov_Views Gov_Record_Laws
begin

section \<open>What each governance operation does to the tables\<close>

text \<open>
  For every state changing operation an elimination rule: the store is left as it was, or it gains
  exactly the rows the rule names, with the facts about them that the checks of the operation
  establish. The proofs about reachable stores rest on these rules and do not open the operations
  again.
\<close>

subsection \<open>Transactions and reads\<close>

lemma transaction_cases:
  assumes "fst (transaction st body) = st'"
  obtains "st' = st" | x where "body st = Inr (st', x)"
  using assms by (auto simp: transaction_def split: sum.splits prod.splits)

lemma fst_read_back [simp]: "fst (read_back sid m outcome) = fst outcome"
  by (auto simp: read_back_def split: prod.splits sum.splits)

lemma fst_incident_read_back [simp]: "fst (incident_read_back iid outcome) = fst outcome"
  by (auto simp: incident_read_back_def split: prod.splits sum.splits)

text \<open>The instant a stored timestamp is read as.\<close>

definition event_time :: "string \<Rightarrow> instant" where
  "event_time s = (case parse_utc (TsValue (PStr s)) [] of Inr t \<Rightarrow> t | Inl _ \<Rightarrow> 0)"

lemma utc_instant_label: "utc_instant v l = Inr t \<Longrightarrow> utc_instant v l' = Inr t"
  by (cases v) (auto simp: utc_instant_def Let_def split: if_splits iso_result.splits)

lemma utc_iso_label: "utc_iso v l = Inr s \<Longrightarrow> utc_iso v l' = Inr s"
  unfolding utc_iso_def by (auto dest: utc_instant_label [of v l _ l'])

lemma parse_utc_label: "parse_utc v l = Inr t \<Longrightarrow> parse_utc v l' = Inr t"
proof -
  assume "parse_utc v l = Inr t"
  then obtain s where s: "utc_iso v l = Inr s"
    and t: "(case iso_parse s of IsoAware t \<Rightarrow> Inr t
      | _ \<Rightarrow> Inl (ValueError (''Invalid isoformat string: '' @ repr_string s))) = Inr t"
    unfolding parse_utc_def by blast
  from utc_iso_label [OF s] t show ?thesis unfolding parse_utc_def by simp
qed

lemma event_time_parse: "parse_utc (TsValue (PStr s)) l = Inr t \<Longrightarrow> event_time s = t"
  using parse_utc_label [of "TsValue (PStr s)" l t "[]"] by (simp add: event_time_def)

lemma event_time_stamp: "iso_stamp s \<Longrightarrow> event_time s = stamp_instant s"
  by (rule event_time_parse [OF parse_utc_stamp])

lemma check_time_order_le: "check_time_order t p m = Inr u \<Longrightarrow> event_time p \<le> event_time t"
  unfolding check_time_order_def by (auto dest!: event_time_parse)

subsection \<open>Manifests and preflights\<close>

lemma insert_manifest_iff:
  "insert_manifest st row = Inr st' \<longleftrightarrow>
     - (2 ^ 63) \<le> mr_revision row \<and> mr_revision row < 2 ^ 63
     \<and> - (2 ^ 63) \<le> mr_config_revision row \<and> mr_config_revision row < 2 ^ 63
     \<and> 1 \<le> mr_revision row \<and> 1 \<le> mr_config_revision row
     \<and> mr_hash row \<notin> mr_hash ` set (gs_manifests st)
     \<and> (mr_deployment row, mr_revision row) \<notin> (\<lambda>r. (mr_deployment r, mr_revision r)) ` set (gs_manifests st)
     \<and> st' = st\<lparr>gs_manifests := gs_manifests st @ [row]\<rparr>"
  unfolding insert_manifest_def sql_integer_def unique_def
  by (simp only: res_bind_eq_Inr require_eq_Inr sum.inject simp_thms ex_simps) auto

lemma insert_preflight_iff:
  "insert_preflight st row = Inr st' \<longleftrightarrow>
     - (2 ^ 63) \<le> pr_revision row \<and> pr_revision row < 2 ^ 63
     \<and> - (2 ^ 63) \<le> pr_config_revision row \<and> pr_config_revision row < 2 ^ 63
     \<and> pr_status row \<in> {''PASS'', ''REVIEW_REQUIRED'', ''BLOCKED''}
     \<and> pr_id row \<notin> pr_id ` set (gs_preflights st) \<and> pr_hash row \<notin> pr_hash ` set (gs_preflights st)
     \<and> pr_manifest_hash row \<in> mr_hash ` set (gs_manifests st)
     \<and> st' = st\<lparr>gs_preflights := gs_preflights st @ [row]\<rparr>"
  unfolding insert_preflight_def sql_integer_def unique_def foreign_key_def
  by (simp only: res_bind_eq_Inr require_eq_Inr sum.inject simp_thms ex_simps) auto

lemma create_manifest_cases:
  assumes "fst (create_deployment_manifest st raw clock) = st'"
  obtains "st' = st"
  | m where "good_manifest m" "insert_manifest st (manifest_to_row m) = Inr st'"
      "mf_revision m = (case latest_manifest_row st (mf_deployment m) of None \<Rightarrow> 0 | Some r \<Rightarrow> mr_revision r) + 1"
      "optional_sha256 (PStr (case latest_manifest_row st (mf_deployment m) of None \<Rightarrow> [] | Some r \<Rightarrow> mr_hash r))
         ''previous_manifest_hash'' = Inr (mf_previous m)"
proof (cases "st' = st")
  case False
  let ?raw = "\<lambda>d occurred. raw\<lparr>mf_deployment := PStr d,
      mf_revision := PInt ((case latest_manifest_row st d of None \<Rightarrow> 0 | Some r \<Rightarrow> mr_revision r) + 1),
      mf_previous := PStr (case latest_manifest_row st d of None \<Rightarrow> [] | Some r \<Rightarrow> mr_hash r),
      mf_created := TsValue (PStr occurred), mf_schema := PStr manifest_schema\<rparr>"
  from False assms obtain d occurred m where
    d: "required_text (mf_deployment raw) ''deployment_id'' = Inr d"
    and m: "make_manifest (?raw d occurred) = Inr m" and ins: "insert_manifest st (manifest_to_row m) = Inr st'"
    unfolding create_deployment_manifest_def transaction_def
    by (auto simp: Let_def split: sum.splits prod.splits)
  have again: "required_text (PStr d) l = Inr d" for l
    by (rule required_text_again [OF required_text_good [OF d]])
  note p = make_manifest_parts [OF m]
  have dep: "mf_deployment m = d" using p by (simp add: again)
  show thesis
  proof (rule that(2) [OF make_manifest_good [OF m] ins])
    show "mf_revision m = (case latest_manifest_row st (mf_deployment m) of None \<Rightarrow> 0 | Some r \<Rightarrow> mr_revision r) + 1"
      using p by (auto simp: dep positive_revision_def integer_field_again split: if_splits)
  qed (use p in \<open>auto simp: dep\<close>)
qed (rule that(1))

text \<open>A manifest read from the store passed the constructor.\<close>

lemma manifest_from_dict_good: "manifest_from_dict v = Inr m \<Longrightarrow> good_manifest m"
  unfolding manifest_from_dict_def by (auto dest: make_manifest_good)

lemma manifest_from_row_good: "manifest_from_row row = Inr (Some m) \<Longrightarrow> good_manifest m"
  unfolding manifest_from_row_def by (auto split: option.splits dest: manifest_from_dict_good)

lemma preflight_from_dict_good: "preflight_from_dict v = Inr s \<Longrightarrow> good_preflight s"
  unfolding preflight_from_dict_def by (auto dest: make_preflight_good)

lemma find_preflight_good: "find_preflight st sid = Inr (Some s) \<Longrightarrow> good_preflight s"
  unfolding find_preflight_def by (auto split: option.splits dest: preflight_from_dict_good)

lemma current_manifest_cases:
  assumes "current_manifest st hash deployment = Inr m"
  shows "manifest_by_hash st hash = Inr (Some m)" "good_manifest m" "mf_deployment m = strip deployment"
    "\<exists>l. latest_manifest st (mf_deployment m) = Inr (Some l) \<and> manifest_hash l = manifest_hash m"
proof -
  from assms show a: "manifest_by_hash st hash = Inr (Some m)"
    unfolding current_manifest_def by (auto split: option.splits if_splits)
  then show "good_manifest m" unfolding manifest_by_hash_def by (rule manifest_from_row_good)
  from assms show "mf_deployment m = strip deployment"
    "\<exists>l. latest_manifest st (mf_deployment m) = Inr (Some l) \<and> manifest_hash l = manifest_hash m"
    unfolding current_manifest_def by (auto split: option.splits if_splits)
qed

lemma build_preflight_parts:
  assumes b: "build_preflight st rq hash issued uuid = Inr s" and stamp: "iso_stamp issued"
  obtains m ttl where "good_preflight s" "current_manifest st hash (rq_deployment rq) = Inr m"
      "ps_manifest_hash s = manifest_hash m" "ps_deployment s = mf_deployment m"
      "ps_revision s = mf_revision m" "ps_account s = mf_account m"
      "ps_config_revision s = mf_config_revision m" "ps_config_hash s = mf_config_hash m"
      "1 \<le> ttl" "ttl \<le> mf_ttl m" "ttl \<le> max_preflight_ttl"
      "stamp_instant (ps_expires s) = stamp_instant (ps_issued s) + ttl * 1000000" "ps_issued s = issued"
proof -
  from b obtain m ttl checks start expires where
    m: "current_manifest st hash (rq_deployment rq) = Inr m"
    and ttl: "preflight_ttl m (rq_ttl rq) = Inr ttl"
    and start: "parse_utc (TsValue (PStr issued)) ''issued_at'' = Inr start"
    and expires: "instant_text (start + ttl * 1000000) = Inr expires"
    and s: "make_preflight
       \<lparr>ps_id = PStr (if rq_id rq \<noteq> [] then rq_id rq else new_id uuid ''preflight''),
        ps_deployment = PStr (mf_deployment m), ps_revision = PInt (mf_revision m),
        ps_manifest_hash = PStr (manifest_hash m), ps_account = PStr (mf_account m),
        ps_route = PStr (mf_route m), ps_config_revision = PInt (mf_config_revision m),
        ps_config_hash = PStr (mf_config_hash m), ps_reconciliation = rq_reconciliation rq,
        ps_broker_hash = rq_broker_hash rq, ps_status = PStr (preflight_status checks),
        ps_checks = map check_json checks, ps_issued = TsValue (PStr issued),
        ps_expires = TsValue (PStr expires), ps_metadata = rq_metadata rq,
        ps_schema = PStr preflight_schema\<rparr> = Inr s"
    unfolding build_preflight_def by blast
  have good: "good_manifest m" using current_manifest_cases(2) [OF m] .
  note g = good [unfolded good_manifest_def]
  note p = make_preflight_parts [OF s, unfolded preflight_fields.simps]
  have "start = stamp_instant issued" using start parse_utc_stamp [OF stamp] by simp
  moreover have "ps_issued s = issued"
    using p utc_iso_again [OF stamp] by simp
  moreover have "iso_stamp expires" "stamp_instant expires = start + ttl * 1000000"
    using expires by (auto simp: instant_text_iff iso_stamp_def)
  moreover from this have "ps_expires s = expires" using p utc_iso_again [of expires] by simp
  ultimately have life: "stamp_instant (ps_expires s) = stamp_instant (ps_issued s) + ttl * 1000000" by simp
  have t: "1 \<le> ttl" "ttl \<le> mf_ttl m" "ttl \<le> max_preflight_ttl"
    using ttl unfolding preflight_ttl_def by (auto split: if_splits)
  have same: "ps_manifest_hash s = manifest_hash m" "ps_deployment s = mf_deployment m"
    "ps_account s = mf_account m" "ps_config_hash s = mf_config_hash m"
    "ps_revision s = mf_revision m" "ps_config_revision s = mf_config_revision m"
    using p g by (auto simp: field_again)
  have issue: "ps_issued s = issued" using p utc_iso_again [OF stamp] by simp
  show thesis
    by (rule that [OF make_preflight_good [OF s] m same(1,2,5,3,6,4) t life issue])
qed

lemma create_preflight_cases:
  assumes "fst (create_preflight_snapshot st rq uuid clock) = st'"
  obtains "st' = st"
  | s m ttl where "good_preflight s" "insert_preflight st (preflight_to_row s) = Inr st'"
      "current_manifest st (manifest_hash m) (mf_deployment m) = Inr m \<or> (\<exists>h d. current_manifest st h d = Inr m)"
      "ps_manifest_hash s = manifest_hash m" "ps_deployment s = mf_deployment m"
      "ps_revision s = mf_revision m" "ps_account s = mf_account m"
      "ps_config_revision s = mf_config_revision m" "ps_config_hash s = mf_config_hash m"
      "1 \<le> ttl" "ttl \<le> mf_ttl m" "ttl \<le> max_preflight_ttl"
      "stamp_instant (ps_expires s) = stamp_instant (ps_issued s) + ttl * 1000000"
proof (cases "st' = st")
  case False
  with assms obtain hash issued s where issued: "now_text clock (rq_issued rq) = Inr issued"
    and b: "build_preflight st rq hash issued uuid = Inr s"
    and ins: "insert_preflight st (preflight_to_row s) = Inr st'"
    unfolding create_preflight_snapshot_def transaction_def
    by (auto split: sum.splits prod.splits)
  have stamp: "iso_stamp issued" using issued by (rule now_text_stamp)
  from build_preflight_parts [OF b this] obtain m ttl where
    "good_preflight s" "current_manifest st hash (rq_deployment rq) = Inr m"
    "ps_manifest_hash s = manifest_hash m" "ps_deployment s = mf_deployment m"
    "ps_revision s = mf_revision m" "ps_account s = mf_account m"
    "ps_config_revision s = mf_config_revision m" "ps_config_hash s = mf_config_hash m"
    "1 \<le> ttl" "ttl \<le> mf_ttl m" "ttl \<le> max_preflight_ttl"
    "stamp_instant (ps_expires s) = stamp_instant (ps_issued s) + ttl * 1000000" "ps_issued s = issued" .
  with ins show thesis by (intro that(2)) auto
qed (rule that(1))

subsection \<open>Runtime sessions\<close>

lemma insert_runtime_event_iff:
  "insert_runtime_event st row = Inr st' \<longleftrightarrow>
     - (2 ^ 63) \<le> re_sequence row \<and> re_sequence row < 2 ^ 63 \<and> 1 \<le> re_sequence row
     \<and> re_id row \<notin> re_id ` set (gs_runtime_events st) \<and> re_hash row \<notin> re_hash ` set (gs_runtime_events st)
     \<and> (re_session row, re_sequence row) \<notin> (\<lambda>e. (re_session e, re_sequence e)) ` set (gs_runtime_events st)
     \<and> re_session row \<in> sr_id ` set (gs_sessions st)
     \<and> st' = st\<lparr>gs_runtime_events := gs_runtime_events st @ [row]\<rparr>"
  unfolding insert_runtime_event_def sql_integer_def unique_def foreign_key_def
  by (simp only: res_bind_eq_Inr require_eq_Inr sum.inject simp_thms ex_simps) auto

lemma insert_session_iff:
  "insert_session st row = Inr st' \<longleftrightarrow>
     - (2 ^ 63) \<le> sr_config_revision row \<and> sr_config_revision row < 2 ^ 63
     \<and> sr_mode row \<in> set runtime_modes \<and> sr_id row \<notin> sr_id ` set (gs_sessions st)
     \<and> sr_manifest_hash row \<in> mr_hash ` set (gs_manifests st)
     \<and> st' = st\<lparr>gs_sessions := gs_sessions st @ [row]\<rparr>"
  unfolding insert_session_def sql_integer_def unique_def foreign_key_def
  by (simp only: res_bind_eq_Inr require_eq_Inr sum.inject simp_thms ex_simps) auto

text \<open>\<open>runtime_row st row v\<close>: a row that continues its session's events, with payload \<open>v\<close>.\<close>

definition runtime_row :: "gov_store \<Rightarrow> json_column runtime_event \<Rightarrow> pydict \<Rightarrow> bool" where
  "runtime_row st row v \<longleftrightarrow>
     re_payload row = Inr (PDict v) \<and> good_object v
     \<and> re_hash row = seal (PDict (runtime_event_base row (PDict v)))
     \<and> re_sequence row = (case last_runtime_event st (re_session row) of None \<Rightarrow> 0 | Some p \<Rightarrow> re_sequence p) + 1
     \<and> re_previous row = (case last_runtime_event st (re_session row) of None \<Rightarrow> [] | Some p \<Rightarrow> re_hash p)
     \<and> (\<forall>p. last_runtime_event st (re_session row) = Some p \<longrightarrow> event_time (re_at p) \<le> event_time (re_at row))
     \<and> re_lifecycle row \<in> set runtime_lifecycles \<and> good_text (re_type row) \<and> good_text (re_actor row)"

lemma append_runtime_cases:
  assumes "append_runtime_event_conn st sid lifecycle event_type actor payload occurred uuid = Inr (st', e)"
  obtains row v where "insert_runtime_event st row = Inr st'" "re_session row = sid" "re_at row = occurred"
    "enum_text lifecycle runtime_lifecycles ''runtime lifecycle'' = Inr (re_lifecycle row)"
    "required_text event_type ''event_type'' = Inr (re_type row)" "runtime_row st row v"
    "json_object payload ''payload'' = Inr v" "runtime_event_from_row row = Inr e"
proof -
  from assms obtain life ty act v where
    f: "enum_text lifecycle runtime_lifecycles ''runtime lifecycle'' = Inr life"
      "required_text event_type ''event_type'' = Inr ty" "required_text actor ''actor'' = Inr act"
      "json_object payload ''payload'' = Inr v"
    and body: "(let previous = last_runtime_event st sid;
         sequence = (case previous of None \<Rightarrow> 0 | Some p \<Rightarrow> re_sequence p) + 1;
         previous_hash = (case previous of None \<Rightarrow> [] | Some p \<Rightarrow> re_hash p)
     in res_bind (case previous of
          None \<Rightarrow> Inr ()
        | Some p \<Rightarrow> check_time_order occurred (re_at p) ''runtime event time cannot move backwards'') (\<lambda>_.
        let draft = \<lparr>re_session = sid, re_sequence = sequence, re_id = new_id uuid ''runtime-event'',
              re_previous = previous_hash, re_hash = [], re_lifecycle = life,
              re_type = ty, re_actor = act, re_payload = PDict v, re_at = occurred\<rparr>;
            event = draft\<lparr>re_hash := seal (PDict (runtime_event_base draft (PDict v)))\<rparr>
        in res_bind (insert_runtime_event st
             \<lparr>re_session = sid, re_sequence = sequence, re_id = re_id event,
              re_previous = previous_hash, re_hash = re_hash event, re_lifecycle = life,
              re_type = ty, re_actor = act, re_payload = Inr (canon (PDict v)),
              re_at = occurred\<rparr>) (\<lambda>st'. Inr (st', event)))) = Inr (st', e)"
    unfolding append_runtime_event_conn_def by blast
  have v: "good_object v" using f(4) by (rule json_object_good)
  then have cv: "canon_entries v = v" by (rule good_object_canon)
  let ?seq = "(case last_runtime_event st sid of None \<Rightarrow> 0 | Some p \<Rightarrow> re_sequence p) + 1"
  let ?prev = "case last_runtime_event st sid of None \<Rightarrow> [] | Some p \<Rightarrow> re_hash p"
  let ?draft = "\<lparr>re_session = sid, re_sequence = ?seq, re_id = new_id uuid ''runtime-event'',
              re_previous = ?prev, re_hash = [], re_lifecycle = life,
              re_type = ty, re_actor = act, re_payload = PDict v, re_at = occurred\<rparr>"
  let ?row = "\<lparr>re_session = sid, re_sequence = ?seq, re_id = new_id uuid ''runtime-event'',
              re_previous = ?prev, re_hash = seal (PDict (runtime_event_base ?draft (PDict v))),
              re_lifecycle = life, re_type = ty, re_actor = act, re_payload = (Inr (PDict v) :: json_column),
              re_at = occurred\<rparr>"
  let ?event = "?draft\<lparr>re_hash := re_hash ?row\<rparr>"
  let ?order = "case last_runtime_event st sid of None \<Rightarrow> Inr ()
        | Some p \<Rightarrow> check_time_order occurred (re_at p) ''runtime event time cannot move backwards''"
  have "res_bind ?order (\<lambda>_. res_bind (insert_runtime_event st ?row) (\<lambda>st'. Inr (st', ?event))) = Inr (st', e)"
    using body by (simp add: Let_def cv)
  then obtain u where u: "?order = Inr u"
    and rest: "res_bind (insert_runtime_event st ?row) (\<lambda>st'. Inr (st', ?event)) = Inr (st', e)"
    by (rule res_bindE)
  from rest have ins: "insert_runtime_event st ?row = Inr st'" and ev: "?event = e"
    by (elim res_bindE; simp)+
  have order: "check_time_order occurred (re_at p) ''runtime event time cannot move backwards'' = Inr ()"
    if "last_runtime_event st sid = Some p" for p
    using u that by simp
  show thesis
  proof (rule that [OF ins])
    show "runtime_row st ?row v"
      using v enum_text_mem [OF f(1)] required_text_good [OF f(2)] required_text_good [OF f(3)]
      by (auto simp: runtime_row_def runtime_event_base_def dest!: order check_time_order_le)
    show "runtime_event_from_row ?row = Inr e"
      unfolding ev [symmetric] by (simp add: runtime_event_from_row_def load_json_def)
  qed (use f in simp_all)
qed

lemma find_session_Some:
  assumes "find_session st sid = Inr (Some s)"
  obtains row e where "find (\<lambda>r. sr_id r = sid) (gs_sessions st) = Some row"
    "last_runtime_event st sid = Some e" "rs_id s = sid" "rs_lifecycle s = re_lifecycle e"
    "rs_mode s = sr_mode row" "rs_deployment s = sr_deployment row"
    "rs_manifest_hash s = sr_manifest_hash row" "rs_created s = sr_created row"
    "rs_config_revision s = sr_config_revision row" "rs_config_hash s = sr_config_hash row"
    "rebound_preflight st sid (sr_preflight_id row, sr_preflight_hash row)
       = Inr (rs_preflight_id s, rs_preflight_hash s)"
  using assms unfolding find_session_def
  by (auto split: option.splits dest: find_Some_mem)

lemma existing_session_Inr: "existing_session st sid = Inr s \<longleftrightarrow> find_session st sid = Inr (Some s)"
  unfolding existing_session_def by (auto simp: res_simps split: option.splits)

text \<open>The move of a lifecycle that an event of an existing session makes.\<close>

definition lifecycle_move :: "string \<Rightarrow> string \<Rightarrow> bool" where
  "lifecycle_move l l' \<longleftrightarrow> l' = l \<or> l' \<in> set (successors runtime_transitions l)"

text \<open>An event of an existing session: the store gains one row that moves its lifecycle.\<close>

definition session_step :: "gov_store \<Rightarrow> gov_store \<Rightarrow> bool" where
  "session_step st st' \<longleftrightarrow> (\<exists>row v p s target.
     insert_runtime_event st row = Inr st' \<and> runtime_row st row v
     \<and> find_session st (re_session row) = Inr (Some s)
     \<and> last_runtime_event st (re_session row) = Some p
     \<and> lifecycle_move (re_lifecycle p) target
     \<and> enum_text (PStr target) runtime_lifecycles ''runtime lifecycle'' = Inr (re_lifecycle row))"

lemma session_stepI:
  assumes s: "find_session st sid = Inr (Some s)"
    and step: "append_runtime_event_conn st sid (PStr target) ty actor payload current uuid = Inr (st', e)"
    and move: "target = rs_lifecycle s \<or> target \<in> set (successors runtime_transitions (rs_lifecycle s))"
  shows "session_step st st'"
proof -
  from find_session_Some [OF s] obtain p where p: "last_runtime_event st sid = Some p" "rs_lifecycle s = re_lifecycle p"
    by metis
  from append_runtime_cases [OF step] obtain row v where
    r: "insert_runtime_event st row = Inr st'" "re_session row = sid" "runtime_row st row v"
      "enum_text (PStr target) runtime_lifecycles ''runtime lifecycle'' = Inr (re_lifecycle row)" by metis
  with s p move show ?thesis
    unfolding session_step_def lifecycle_move_def by metis
qed

lemma transition_session_cases:
  assumes "fst (transition_runtime_session st sid lifecycle actor ty payload occurred uuid clock) = st'"
  obtains "st' = st" | "session_step st st'"
proof (cases "st' = st")
  case False
  with assms obtain target current s e where
    s: "existing_session st sid = Inr s"
    and move: "target \<in> set (successors runtime_transitions (rs_lifecycle s))"
    and step: "append_runtime_event_conn st (rs_id s) (PStr target) ty actor payload current uuid = Inr (st', e)"
    unfolding transition_runtime_session_def transaction_def
    by (auto split: sum.splits prod.splits if_splits)
  have s': "find_session st sid = Inr (Some s)" using s by (simp add: existing_session_Inr)
  then have "rs_id s = sid" by (rule find_session_Some)
  with step have "append_runtime_event_conn st sid (PStr target) ty actor payload current uuid = Inr (st', e)" by simp
  from session_stepI [OF s' this] move show thesis by (intro that(2)) blast
qed (rule that(1))

lemma append_event_cases:
  assumes "fst (append_runtime_event st sid ty actor payload occurred uuid clock) = st'"
  obtains "st' = st" | "session_step st st'"
proof (cases "st' = st")
  case False
  with assms obtain current s e where
    s: "existing_session st sid = Inr s"
    and step: "append_runtime_event_conn st (rs_id s) (PStr (rs_lifecycle s)) ty actor payload current uuid = Inr (st', e)"
    unfolding append_runtime_event_def transaction_def
    by (auto split: sum.splits prod.splits)
  have s': "find_session st sid = Inr (Some s)" using s by (simp add: existing_session_Inr)
  then have "rs_id s = sid" by (rule find_session_Some)
  with step have "append_runtime_event_conn st sid (PStr (rs_lifecycle s)) ty actor payload current uuid = Inr (st', e)" by simp
  from session_stepI [OF s' this] show thesis by (intro that(2)) blast
qed (rule that(1))

lemma rebind_checked_cases:
  assumes "rebind_checked st sid snapshot actor current uuid = Inr (st', u)"
  obtains s p m e where "find_session st sid = Inr (Some s)" "rs_lifecycle s \<in> {''RUNNING'', ''DEGRADED''}"
    "\<exists>val. preflight_validity_at st snapshot current = Inr val \<and> va_valid val"
    "find_preflight st snapshot = Inr (Some p)" "ps_deployment p = rs_deployment s"
    "ps_manifest_hash p = rs_manifest_hash s" "ps_config_revision p = rs_config_revision s"
    "ps_config_hash p = rs_config_hash s" "manifest_by_hash st (rs_manifest_hash s) = Inr (Some m)"
    "ps_account p = mf_account m"
    "append_runtime_event_conn st sid (PStr (rs_lifecycle s)) (PStr ''PREFLIGHT_REBOUND'') actor
       (rebind_payload s p) current uuid = Inr (st', e)"
proof -
  from assms obtain s where s: "existing_session st sid = Inr s"
    unfolding rebind_checked_def by blast
  then have fs: "find_session st sid = Inr (Some s)" by (simp add: existing_session_Inr)
  then have rid: "rs_id s = sid" by (rule find_session_Some)
  from assms s have l: "rs_lifecycle s \<in> {''RUNNING'', ''DEGRADED''}"
    unfolding rebind_checked_def by (auto split: if_splits)
  from assms s l obtain val where val: "preflight_validity_at st snapshot current = Inr val" "va_valid val"
    unfolding rebind_checked_def by (auto split: if_splits)
  from assms s l val obtain p where p: "find_preflight st snapshot = Inr (Some p)"
    unfolding rebind_checked_def by (auto split: if_splits option.splits)
  from assms s l val p have scope: "ps_deployment p = rs_deployment s"
    "ps_manifest_hash p = rs_manifest_hash s" "ps_config_revision p = rs_config_revision s"
    "ps_config_hash p = rs_config_hash s"
    unfolding rebind_checked_def by (auto split: if_splits)
  from assms s l val p scope obtain m e where m: "manifest_by_hash st (rs_manifest_hash s) = Inr (Some m)"
    "ps_account p = mf_account m"
    and e: "append_runtime_event_conn st (rs_id s) (PStr (rs_lifecycle s)) (PStr ''PREFLIGHT_REBOUND'') actor
       (rebind_payload s p) current uuid = Inr (st', e)"
    unfolding rebind_checked_def by (auto split: if_splits option.splits)
  from e have "append_runtime_event_conn st sid (PStr (rs_lifecycle s)) (PStr ''PREFLIGHT_REBOUND'') actor
       (rebind_payload s p) current uuid = Inr (st', e)" by (simp add: rid)
  with fs l val p scope m show thesis by (intro that [of s p m e]) auto
qed

lemma rebind_cases:
  assumes "fst (rebind_runtime_preflight st sid snapshot actor occurred uuid clock) = st'"
  obtains "st' = st" | "session_step st st'"
proof (cases "st' = st")
  case False
  with assms obtain current where "rebind_checked st sid snapshot actor current uuid = Inr (st', ())"
    unfolding rebind_runtime_preflight_def transaction_def
    by (auto split: sum.splits prod.splits)
  then obtain s p e where s: "find_session st sid = Inr (Some s)"
    and e: "append_runtime_event_conn st sid (PStr (rs_lifecycle s)) (PStr ''PREFLIGHT_REBOUND'') actor
       (rebind_payload s p) current uuid = Inr (st', e)"
    by (rule rebind_checked_cases)
  from session_stepI [OF s e] show thesis by (intro that(2)) blast
qed (rule that(1))

lemma session_preflight_cases:
  assumes "session_preflight st m mode snapshot current = Inr preflight"
  shows "preflight = None \<and> snapshot = [] \<and> mode \<notin> set live_modes
    \<or> (\<exists>p. preflight = Some p \<and> find_preflight st snapshot = Inr (Some p)
         \<and> (\<exists>val. preflight_validity_at st snapshot current = Inr val \<and> va_valid val)
         \<and> ps_manifest_hash p = manifest_hash m)"
  using assms unfolding session_preflight_def
  by (auto split: if_splits option.splits)

text \<open>A new session: its row and its first event.\<close>

lemma create_session_cases:
  assumes "fst (create_runtime_session st rq uuid clock) = st'"
  obtains "st' = st"
  | row st1 ev v m preflight where
      "insert_session st row = Inr st1" "insert_runtime_event st1 ev = Inr st'"
      "re_session ev = sr_id row" "runtime_row st1 ev v" "re_lifecycle ev = ''PREFLIGHT''"
      "re_type ev = ''SESSION_CREATED''" "re_at ev = sr_created row"
      "good_manifest m" "sr_manifest_hash row = manifest_hash m" "sr_deployment row = mf_deployment m"
      "sr_config_revision row = mf_config_revision m" "sr_config_hash row = mf_config_hash m"
      "session_preflight st m (sr_mode row) (sq_preflight rq) (sr_created row) = Inr preflight"
      "sr_preflight_id row = (case preflight of None \<Rightarrow> [] | Some p \<Rightarrow> ps_id p)"
      "sr_preflight_hash row = (case preflight of None \<Rightarrow> [] | Some p \<Rightarrow> preflight_hash p)"
      "\<exists>h d. current_manifest st h d = Inr m" "\<exists>x. sr_metadata row = Inr x"
      "iso_stamp (sr_created row)"
proof (cases "st' = st")
  case False
  with assms obtain mode current hash sid where
    start: "start_session st rq sid mode current hash uuid = Inr (st', ())"
    and now: "now_text clock (sq_occurred rq) = Inr current"
    unfolding create_runtime_session_def transaction_def Let_def
    by (auto split: sum.splits prod.splits simp: res_bind_eq_Inr)
  from start obtain m preflight metadata profile inst st1 e where
    m: "current_manifest st hash (sq_deployment rq) = Inr m"
    and pre: "session_preflight st m mode (sq_preflight rq) current = Inr preflight"
    and ins: "insert_session st \<lparr>sr_id = sid, sr_deployment = mf_deployment m,
           sr_manifest_hash = manifest_hash m,
           sr_preflight_id = (case preflight of None \<Rightarrow> [] | Some p \<Rightarrow> ps_id p),
           sr_preflight_hash = (case preflight of None \<Rightarrow> [] | Some p \<Rightarrow> preflight_hash p),
           sr_config_revision = mf_config_revision m,
           sr_config_hash = mf_config_hash m, sr_profile = profile, sr_mode = mode,
           sr_instance = inst, sr_created = current,
           sr_metadata = Inr (canon (PDict metadata))\<rparr> = Inr st1"
    and ev: "append_runtime_event_conn st1 sid (PStr ''PREFLIGHT'') (PStr ''SESSION_CREATED'')
          (sq_actor rq)
          [(''deploymentManifestHash'', PStr (manifest_hash m)),
           (''preflightSnapshotHash'', PStr (case preflight of None \<Rightarrow> [] | Some p \<Rightarrow> preflight_hash p))]
          current uuid = Inr (st', e)"
    unfolding start_session_def Let_def by (fastforce simp: res_bind_eq_Inr)
  let ?row = "\<lparr>sr_id = sid, sr_deployment = mf_deployment m,
           sr_manifest_hash = manifest_hash m,
           sr_preflight_id = (case preflight of None \<Rightarrow> [] | Some p \<Rightarrow> ps_id p),
           sr_preflight_hash = (case preflight of None \<Rightarrow> [] | Some p \<Rightarrow> preflight_hash p),
           sr_config_revision = mf_config_revision m,
           sr_config_hash = mf_config_hash m, sr_profile = profile, sr_mode = mode,
           sr_instance = inst, sr_created = current,
           sr_metadata = Inr (canon (PDict metadata))\<rparr>"
  from append_runtime_cases [OF ev] obtain r v where
    r: "insert_runtime_event st1 r = Inr st'" "re_session r = sid" "re_at r = current" "runtime_row st1 r v"
      "enum_text (PStr ''PREFLIGHT'') runtime_lifecycles ''runtime lifecycle'' = Inr (re_lifecycle r)"
      "required_text (PStr ''SESSION_CREATED'') ''event_type'' = Inr (re_type r)"
    by metis
  have "enum_text (PStr ''PREFLIGHT'') runtime_lifecycles ''runtime lifecycle'' = Inr ''PREFLIGHT''"
    "required_text (PStr ''SESSION_CREATED'') ''event_type'' = Inr ''SESSION_CREATED''" by code_simp+
  with r(5,6) have l: "re_lifecycle r = ''PREFLIGHT''" "re_type r = ''SESSION_CREATED''" by simp_all
  show thesis
    by (rule that(2) [of ?row st1 r v m preflight])
       (use ins r l pre m current_manifest_cases(2) [OF m] now_text_stamp [OF now] in auto)
qed (rule that(1))

end

