(* ===== verification/Gov_Incident_Steps.thy ===== *)
theory Gov_Incident_Steps
  imports Gov_Steps
begin

section \<open>What each incident operation does to the tables\<close>

text \<open>Elimination rules as in \<open>Gov_Steps\<close>, for incidents and their events.\<close>

lemma insert_incident_event_iff:
  "insert_incident_event st row = Inr st' \<longleftrightarrow>
     - (2 ^ 63) \<le> ie_sequence row \<and> ie_sequence row < 2 ^ 63 \<and> 1 \<le> ie_sequence row
     \<and> ie_id row \<notin> ie_id ` set (gs_incident_events st) \<and> ie_hash row \<notin> ie_hash ` set (gs_incident_events st)
     \<and> (ie_incident row, ie_sequence row) \<notin> (\<lambda>e. (ie_incident e, ie_sequence e)) ` set (gs_incident_events st)
     \<and> ie_incident row \<in> ir_id ` set (gs_incidents st)
     \<and> st' = st\<lparr>gs_incident_events := gs_incident_events st @ [row]\<rparr>"
  unfolding insert_incident_event_def sql_integer_def unique_def foreign_key_def
  by (simp only: res_bind_eq_Inr require_eq_Inr sum.inject simp_thms ex_simps) auto

lemma insert_incident_iff:
  "insert_incident st row = Inr st' \<longleftrightarrow>
     ir_id row \<notin> ir_id ` set (gs_incidents st) \<and> st' = st\<lparr>gs_incidents := gs_incidents st @ [row]\<rparr>"
  unfolding insert_incident_def unique_def by (auto simp: res_simps)

text \<open>Rank of a severity; the severities of the table are the ranked ones.\<close>

definition severity_level :: "string \<Rightarrow> nat" where
  "severity_level s = assoc_get 0 severity_rank s"

lemma rank_of_level: "rank_of s = Inr r \<Longrightarrow> severity_level s = r"
  by (auto simp: rank_of_def severity_level_def assoc_get_def split: option.splits)

lemma check_severity_le: "check_severity s p = Inr u \<Longrightarrow> severity_level p \<le> severity_level s"
  unfolding check_severity_def by (auto dest!: rank_of_level)

text \<open>\<open>incident_entry st row v\<close>: a row that continues its incident's events, with payload \<open>v\<close>.\<close>

definition incident_entry :: "gov_store \<Rightarrow> json_column incident_event \<Rightarrow> pydict \<Rightarrow> bool" where
  "incident_entry st row v \<longleftrightarrow>
     ie_payload row = Inr (PDict v) \<and> good_object v
     \<and> ie_hash row = seal (PDict (incident_event_base row (PDict v)))
     \<and> ie_sequence row = (case last_incident_event st (ie_incident row) of None \<Rightarrow> 0 | Some p \<Rightarrow> ie_sequence p) + 1
     \<and> ie_previous row = (case last_incident_event st (ie_incident row) of None \<Rightarrow> [] | Some p \<Rightarrow> ie_hash p)
     \<and> (\<forall>p. last_incident_event st (ie_incident row) = Some p \<longrightarrow>
          event_time (ie_at p) \<le> event_time (ie_at row)
          \<and> severity_level (ie_severity p) \<le> severity_level (ie_severity row))
     \<and> ie_state row \<in> set incident_states \<and> ie_severity row \<in> set incident_severities"

lemma append_incident_cases:
  assumes "append_incident_event_conn st iid state severity event_type actor evidence payload occurred uuid = Inr (st', e)"
  obtains row v where "insert_incident_event st row = Inr st'" "ie_incident row = iid"
    "enum_text state incident_states ''incident state'' = Inr (ie_state row)"
    "enum_text severity incident_severities ''incident severity'' = Inr (ie_severity row)"
    "incident_entry st row v"
proof -
  from assms obtain sta sev ty act v where
    f: "enum_text state incident_states ''incident state'' = Inr sta"
      "enum_text severity incident_severities ''incident severity'' = Inr sev"
      "required_text event_type ''event_type'' = Inr ty" "required_text actor ''actor'' = Inr act"
      "json_object payload ''payload'' = Inr v"
    and body: "(let previous = last_incident_event st iid;
         sequence = (case previous of None \<Rightarrow> 0 | Some p \<Rightarrow> ie_sequence p) + 1;
         previous_hash = (case previous of None \<Rightarrow> [] | Some p \<Rightarrow> ie_hash p)
     in res_bind (case previous of
          None \<Rightarrow> Inr ()
        | Some p \<Rightarrow>
            res_bind (check_time_order occurred (ie_at p) ''incident event time cannot move backwards'') (\<lambda>_.
            check_severity sev (ie_severity p))) (\<lambda>_.
        let draft = \<lparr>ie_incident = iid, ie_sequence = sequence, ie_id = new_id uuid ''incident-event'',
              ie_previous = previous_hash, ie_hash = [], ie_state = sta, ie_severity = sev,
              ie_type = ty, ie_actor = act, ie_evidence = evidence,
              ie_payload = PDict v, ie_at = occurred\<rparr>;
            event = draft\<lparr>ie_hash := seal (PDict (incident_event_base draft (PDict v)))\<rparr>
        in res_bind (insert_incident_event st
             \<lparr>ie_incident = iid, ie_sequence = sequence, ie_id = ie_id event,
              ie_previous = previous_hash, ie_hash = ie_hash event, ie_state = sta,
              ie_severity = sev, ie_type = ty, ie_actor = act,
              ie_evidence = evidence, ie_payload = Inr (canon (PDict v)), ie_at = occurred\<rparr>) (\<lambda>st'.
           Inr (st', event)))) = Inr (st', e)"
    unfolding append_incident_event_conn_def by blast
  have v: "good_object v" using f(5) by (rule json_object_good)
  then have cv: "canon_entries v = v" by (rule good_object_canon)
  let ?seq = "(case last_incident_event st iid of None \<Rightarrow> 0 | Some p \<Rightarrow> ie_sequence p) + 1"
  let ?prev = "case last_incident_event st iid of None \<Rightarrow> [] | Some p \<Rightarrow> ie_hash p"
  let ?draft = "\<lparr>ie_incident = iid, ie_sequence = ?seq, ie_id = new_id uuid ''incident-event'',
              ie_previous = ?prev, ie_hash = [], ie_state = sta, ie_severity = sev,
              ie_type = ty, ie_actor = act, ie_evidence = evidence,
              ie_payload = PDict v, ie_at = occurred\<rparr>"
  let ?row = "\<lparr>ie_incident = iid, ie_sequence = ?seq, ie_id = new_id uuid ''incident-event'',
              ie_previous = ?prev, ie_hash = seal (PDict (incident_event_base ?draft (PDict v))),
              ie_state = sta, ie_severity = sev, ie_type = ty, ie_actor = act, ie_evidence = evidence,
              ie_payload = (Inr (PDict v) :: json_column), ie_at = occurred\<rparr>"
  let ?event = "?draft\<lparr>ie_hash := ie_hash ?row\<rparr>"
  let ?order = "case last_incident_event st iid of None \<Rightarrow> Inr ()
        | Some p \<Rightarrow> res_bind (check_time_order occurred (ie_at p) ''incident event time cannot move backwards'')
            (\<lambda>_. check_severity sev (ie_severity p))"
  have "res_bind ?order (\<lambda>_. res_bind (insert_incident_event st ?row) (\<lambda>st'. Inr (st', ?event))) = Inr (st', e)"
    using body by (simp add: Let_def cv)
  then obtain u where u: "?order = Inr u"
    and rest: "res_bind (insert_incident_event st ?row) (\<lambda>st'. Inr (st', ?event)) = Inr (st', e)"
    by (rule res_bindE)
  from rest have ins: "insert_incident_event st ?row = Inr st'" by (elim res_bindE) simp
  have order: "event_time (ie_at p) \<le> event_time occurred \<and> severity_level (ie_severity p) \<le> severity_level sev"
    if "last_incident_event st iid = Some p" for p
    using u that by (auto dest!: check_time_order_le check_severity_le)
  show thesis
  proof (rule that [OF ins])
    show "incident_entry st ?row v"
      using v enum_text_mem [OF f(1)] enum_text_mem [OF f(2)] order
      by (simp add: incident_entry_def incident_event_base_def)
  qed (use f in simp_all)
qed

lemma find_incident_Some:
  assumes "find_incident st iid = Some i"
  obtains row e where "find (\<lambda>r. ir_id r = iid) (gs_incidents st) = Some row"
    "last_incident_event st iid = Some e" "in_id i = iid" "in_state i = ie_state e"
    "in_severity i = ie_severity e" "in_dedupe i = ir_dedupe row"
  using assms unfolding find_incident_def
  by (auto split: option.splits dest: find_Some_mem)

lemma existing_incident_Inr: "existing_incident st iid = Inr i \<longleftrightarrow> find_incident st iid = Some i"
  unfolding existing_incident_def by (auto split: option.splits)

definition incident_move :: "string \<Rightarrow> string \<Rightarrow> bool" where
  "incident_move s s' \<longleftrightarrow> s \<noteq> ''RESOLVED'' \<and> (s' = s \<or> s' \<in> set (successors incident_transitions s))"

lemma resolved_final: "successors incident_transitions ''RESOLVED'' = []"
  by code_simp

text \<open>An event of an existing incident.\<close>

definition incident_step :: "gov_store \<Rightarrow> gov_store \<Rightarrow> bool" where
  "incident_step st st' \<longleftrightarrow> (\<exists>row v p target.
     insert_incident_event st row = Inr st' \<and> incident_entry st row v
     \<and> last_incident_event st (ie_incident row) = Some p \<and> incident_move (ie_state p) target
     \<and> enum_text (PStr target) incident_states ''incident state'' = Inr (ie_state row))"

lemma incident_stepI:
  assumes p: "last_incident_event st iid = Some p"
    and step: "append_incident_event_conn st iid (PStr target) sev ty actor ev payload current uuid = Inr (st', e)"
    and move: "incident_move (ie_state p) target"
  shows "incident_step st st'"
proof -
  from append_incident_cases [OF step] obtain row v where
    "insert_incident_event st row = Inr st'" "ie_incident row = iid" "incident_entry st row v"
    "enum_text (PStr target) incident_states ''incident state'' = Inr (ie_state row)" by metis
  with p move show ?thesis unfolding incident_step_def by metis
qed

lemma transition_incident_cases:
  assumes "fst (transition_incident st iid state actor sev ty ev payload occurred uuid clock) = st'"
  obtains "st' = st" | "incident_step st st'"
proof (cases "st' = st")
  case False
  with assms obtain target current i evh e where
    i: "existing_incident st iid = Inr i"
    and move: "target \<in> set (successors incident_transitions (in_state i))"
    and step: "append_incident_event_conn st (in_id i) (PStr target)
        (if sev = PNone then PStr (in_severity i) else sev) ty actor evh payload current uuid = Inr (st', e)"
    unfolding transition_incident_def transaction_def
    by (auto split: sum.splits prod.splits if_splits)
  from i have "find_incident st iid = Some i" by (simp add: existing_incident_Inr)
  then obtain p where p: "last_incident_event st iid = Some p" "in_id i = iid" "in_state i = ie_state p"
    by (rule find_incident_Some)
  have "incident_move (ie_state p) target"
    using move p(3) resolved_final by (auto simp: incident_move_def)
  from incident_stepI [OF p(1) step [unfolded p(2)] this] show thesis by (rule that(2))
qed (rule that(1))

lemma append_incident_event_cases:
  assumes "fst (append_incident_event st iid ty actor sev ev payload occurred uuid clock) = st'"
  obtains "st' = st" | "incident_step st st'"
proof (cases "st' = st")
  case False
  with assms obtain current i evh e where
    i: "existing_incident st iid = Inr i" and open_state: "in_state i \<noteq> ''RESOLVED''"
    and step: "append_incident_event_conn st (in_id i) (PStr (in_state i))
        (py_or sev (PStr (in_severity i))) ty actor evh payload current uuid = Inr (st', e)"
    unfolding append_incident_event_def transaction_def
    by (auto split: sum.splits prod.splits if_splits)
  from i have "find_incident st iid = Some i" by (simp add: existing_incident_Inr)
  then obtain p where p: "last_incident_event st iid = Some p" "in_id i = iid" "in_state i = ie_state p"
    by (rule find_incident_Some)
  have "incident_move (ie_state p) (in_state i)" using open_state p(3) by (simp add: incident_move_def)
  from incident_stepI [OF p(1) step [unfolded p(2)] this] show thesis by (rule that(2))
qed (rule that(1))

text \<open>Opening: an observation of the active incident with the key, or a new incident and its first event.\<close>

lemma open_incident_cases:
  assumes "fst (open_incident st rq uuid clock) = st'"
  obtains "st' = st" | "incident_step st st'"
  | row st1 ev v where "active_incident st (ir_dedupe row) = None" "insert_incident st row = Inr st1"
      "insert_incident_event st1 ev = Inr st'" "ie_incident ev = ir_id row" "incident_entry st1 ev v"
      "ie_state ev = ''OPEN''"
proof (cases "st' = st")
  case False
  with assms obtain d r where
    d: "(case active_incident st (ir_dedupe (id_row d)) of
              Some row \<Rightarrow> observe_incident st d (ir_id row) uuid
            | None \<Rightarrow> record_incident st d uuid) = Inr (st', r)"
    unfolding open_incident_def transaction_def
    by (auto split: sum.splits prod.splits)
  show thesis
  proof (cases "active_incident st (ir_dedupe (id_row d))")
    case (Some row)
    with d have "observe_incident st d (ir_id row) uuid = Inr (st', r)" by simp
    then obtain i e where i: "find_incident st (ir_id row) = Some i"
      and step: "append_incident_event_conn st (in_id i) (PStr (in_state i)) (PStr (id_severity d))
            (PStr ''INCIDENT_OBSERVED'') (id_actor d) (id_evidence d) (id_payload d)
            (ir_opened (id_row d)) uuid = Inr (st', e)"
      unfolding observe_incident_def by (auto split: option.splits)
    from i obtain p where p: "last_incident_event st (ir_id row) = Some p" "in_id i = ir_id row"
      "in_state i = ie_state p"
      by (rule find_incident_Some)
    have "active_row st row"
      using newest_Some [OF Some [unfolded active_incident_def]] by simp
    with p have "incident_move (ie_state p) (in_state i)"
      by (simp add: active_row_def incident_move_def)
    from incident_stepI [OF p(1) step [unfolded p(2)] this] show ?thesis by (rule that(2))
  next
    case None
    with d obtain st1 e where ins: "insert_incident st (id_row d) = Inr st1"
      and step: "append_incident_event_conn st1 (ir_id (id_row d)) (PStr ''OPEN'')
         (PStr (id_severity d)) (PStr ''INCIDENT_OPENED'') (id_actor d) (id_evidence d)
         (id_payload d) (ir_opened (id_row d)) uuid = Inr (st', e)"
      unfolding record_incident_def by (auto split: option.splits)
    from append_incident_cases [OF step] obtain ev v where
      ev: "insert_incident_event st1 ev = Inr st'" "ie_incident ev = ir_id (id_row d)"
        "enum_text (PStr ''OPEN'') incident_states ''incident state'' = Inr (ie_state ev)"
        "incident_entry st1 ev v" by metis
    have "enum_text (PStr ''OPEN'') incident_states ''incident state'' = Inr ''OPEN''" by code_simp
    with ev(3) have "ie_state ev = ''OPEN''" by simp
    with None ins ev show ?thesis by (intro that(3))
  qed
qed (rule that(1))

end
