(* ===== verification/Gov_Chain.thy ===== *)
theory Gov_Chain
  imports Gov_Incident_Steps Hash_Chain
begin

section \<open>The governance store as a transition system\<close>

text \<open>
  \<open>gov_step\<close> has one rule per operation of \<open>OperationalGovernanceStore\<close> that writes.
  \<open>gov_change\<close> lists what a step can do to the tables; every invariant is proved over its seven
  cases. The invariant \<open>gov_inv\<close> gives the well-formed rows and the references between tables, and
  the interface \<open>event_log\<close> is interpreted for the runtime and for the incident events.
\<close>

subsection \<open>Steps\<close>

inductive gov_step :: "gov_store \<Rightarrow> gov_store \<Rightarrow> bool" where
  reopen: "initialize clock st = Inr st' \<Longrightarrow> gov_step st st'"
| manifest: "fst (create_deployment_manifest st raw clock) = st' \<Longrightarrow> gov_step st st'"
| preflight: "fst (create_preflight_snapshot st prq uuid clock) = st' \<Longrightarrow> gov_step st st'"
| session: "fst (create_runtime_session st srq uuid clock) = st' \<Longrightarrow> gov_step st st'"
| transition: "fst (transition_runtime_session st sid lifecycle actor ty payload occurred uuid clock) = st' \<Longrightarrow> gov_step st st'"
| rebind: "fst (rebind_runtime_preflight st sid snapshot actor occurred uuid clock) = st' \<Longrightarrow> gov_step st st'"
| append_event: "fst (append_runtime_event st sid ty actor payload occurred uuid clock) = st' \<Longrightarrow> gov_step st st'"
| incident: "fst (open_incident st irq uuid clock) = st' \<Longrightarrow> gov_step st st'"
| move_incident: "fst (transition_incident st iid state actor sev ty ev payload occurred uuid clock) = st' \<Longrightarrow> gov_step st st'"
| append_incident: "fst (append_incident_event st iid ty actor sev ev payload occurred uuid clock) = st' \<Longrightarrow> gov_step st st'"

lemma resolve_step: "gov_step st (fst (resolve_incident st iid actor ev payload occurred uuid clock))"
  unfolding resolve_incident_def by (rule move_incident) (rule refl)

inductive gov_change :: "gov_store \<Rightarrow> gov_store \<Rightarrow> bool" where
  no_change: "gov_change st st"
| new_meta: "gov_change st (st\<lparr>gs_meta := m\<rparr>)"
| new_manifest: "good_manifest m \<Longrightarrow> insert_manifest st (manifest_to_row m) = Inr st' \<Longrightarrow>
    mf_revision m = (case latest_manifest_row st (mf_deployment m) of None \<Rightarrow> 0 | Some r \<Rightarrow> mr_revision r) + 1 \<Longrightarrow>
    optional_sha256 (PStr (case latest_manifest_row st (mf_deployment m) of None \<Rightarrow> [] | Some r \<Rightarrow> mr_hash r))
      ''previous_manifest_hash'' = Inr (mf_previous m) \<Longrightarrow> gov_change st st'"
| new_preflight: "good_preflight s \<Longrightarrow> insert_preflight st (preflight_to_row s) = Inr st' \<Longrightarrow>
    \<exists>h d. current_manifest st h d = Inr m \<Longrightarrow>
    ps_manifest_hash s = manifest_hash m \<Longrightarrow> ps_deployment s = mf_deployment m \<Longrightarrow>
    1 \<le> ttl \<Longrightarrow> ttl \<le> mf_ttl m \<Longrightarrow> ttl \<le> max_preflight_ttl \<Longrightarrow>
    stamp_instant (ps_expires s) = stamp_instant (ps_issued s) + ttl * 1000000 \<Longrightarrow> gov_change st st'"
| new_session: "insert_session st row = Inr st1 \<Longrightarrow> insert_runtime_event st1 ev = Inr st' \<Longrightarrow>
    re_session ev = sr_id row \<Longrightarrow> runtime_row st1 ev v \<Longrightarrow> re_lifecycle ev = ''PREFLIGHT'' \<Longrightarrow>
    good_manifest m \<Longrightarrow> sr_manifest_hash row = manifest_hash m \<Longrightarrow>
    session_preflight st m (sr_mode row) snapshot (sr_created row) = Inr preflight \<Longrightarrow>
    sr_preflight_id row = (case preflight of None \<Rightarrow> [] | Some p \<Rightarrow> ps_id p) \<Longrightarrow>
    sr_metadata row = Inr x \<Longrightarrow> iso_stamp (sr_created row) \<Longrightarrow> gov_change st st'"
| session_event: "session_step st st' \<Longrightarrow> gov_change st st'"
| incident_event: "incident_step st st' \<Longrightarrow> gov_change st st'"
| new_incident: "active_incident st (ir_dedupe row) = None \<Longrightarrow> insert_incident st row = Inr st1 \<Longrightarrow>
    insert_incident_event st1 ev = Inr st' \<Longrightarrow> ie_incident ev = ir_id row \<Longrightarrow> incident_entry st1 ev v \<Longrightarrow>
    ie_state ev = ''OPEN'' \<Longrightarrow> gov_change st st'"

lemma step_change: "gov_step st st' \<Longrightarrow> gov_change st st'"
proof (induction rule: gov_step.induct)
  case (reopen clock st st')
  then show ?case
    unfolding initialize_def by (auto split: if_splits intro: no_change new_meta)
next
  case (manifest st raw clock st')
  then show ?case by (cases rule: create_manifest_cases) (auto intro: no_change new_manifest)
next
  case (preflight st prq uuid clock st')
  then show ?case
  proof (cases rule: create_preflight_cases)
    case (2 s m ttl)
    from 2(3) have "\<exists>h d. current_manifest st h d = Inr m" by blast
    with 2 show ?thesis by (intro new_preflight)
  qed (simp add: no_change)
next
  case (session st srq uuid clock st')
  then show ?case
  proof (cases rule: create_session_cases)
    case (2 row st1 ev v m preflight)
    from 2(17) obtain x where "sr_metadata row = Inr x" by blast
    with 2 show ?thesis by (intro new_session)
  qed (simp add: no_change)
next
  case (transition st sid lifecycle actor ty payload occurred uuid clock st')
  then show ?case by (cases rule: transition_session_cases) (auto intro: no_change session_event)
next
  case (rebind st sid snapshot actor occurred uuid clock st')
  then show ?case by (cases rule: rebind_cases) (auto intro: no_change session_event)
next
  case (append_event st sid ty actor payload occurred uuid clock st')
  then show ?case by (cases rule: append_event_cases) (auto intro: no_change session_event)
next
  case (incident st irq uuid clock st')
  then show ?case
    by (cases rule: open_incident_cases) (auto intro: no_change incident_event new_incident)
next
  case (move_incident st iid state actor sev ty ev payload occurred uuid clock st')
  then show ?case by (cases rule: transition_incident_cases) (auto intro: no_change incident_event)
next
  case (append_incident st iid ty actor sev ev payload occurred uuid clock st')
  then show ?case by (cases rule: append_incident_event_cases) (auto intro: no_change incident_event)
qed

subsection \<open>Well-formed tables\<close>

definition manifests_ok :: "gov_store \<Rightarrow> bool" where
  "manifests_ok st \<longleftrightarrow>
     (\<forall>r \<in> set (gs_manifests st). \<exists>m. good_manifest m \<and> r = manifest_to_row m)
     \<and> distinct (map mr_hash (gs_manifests st))"

definition preflights_ok :: "gov_store \<Rightarrow> bool" where
  "preflights_ok st \<longleftrightarrow>
     (\<forall>r \<in> set (gs_preflights st). \<exists>s. good_preflight s \<and> r = preflight_to_row s)
     \<and> distinct (map pr_id (gs_preflights st))"

definition sessions_ok :: "gov_store \<Rightarrow> bool" where
  "sessions_ok st \<longleftrightarrow>
     (\<forall>r \<in> set (gs_sessions st). (\<exists>x. sr_metadata r = Inr x) \<and> iso_stamp (sr_created r)
        \<and> sr_mode r \<in> set runtime_modes)
     \<and> distinct (map sr_id (gs_sessions st))"

definition runtime_event_ok :: "json_column runtime_event \<Rightarrow> bool" where
  "runtime_event_ok e \<longleftrightarrow>
     (\<exists>v. re_payload e = Inr (PDict v) \<and> good_object v \<and> re_hash e = seal (PDict (runtime_event_base e (PDict v))))
     \<and> re_lifecycle e \<in> set runtime_lifecycles"

definition incident_event_ok :: "json_column incident_event \<Rightarrow> bool" where
  "incident_event_ok e \<longleftrightarrow>
     (\<exists>v. ie_payload e = Inr (PDict v) \<and> good_object v \<and> ie_hash e = seal (PDict (incident_event_base e (PDict v))))
     \<and> ie_state e \<in> set incident_states \<and> ie_severity e \<in> set incident_severities"

text \<open>References between the tables: the foreign keys, and that no incident or session id repeats.\<close>

definition references_ok :: "gov_store \<Rightarrow> bool" where
  "references_ok st \<longleftrightarrow>
     (\<forall>e \<in> set (gs_runtime_events st). re_session e \<in> sr_id ` set (gs_sessions st))
     \<and> (\<forall>e \<in> set (gs_incident_events st). ie_incident e \<in> ir_id ` set (gs_incidents st))
     \<and> (\<forall>r \<in> set (gs_preflights st). pr_manifest_hash r \<in> mr_hash ` set (gs_manifests st))
     \<and> (\<forall>r \<in> set (gs_sessions st). sr_manifest_hash r \<in> mr_hash ` set (gs_manifests st))
     \<and> distinct (map ir_id (gs_incidents st))"

definition gov_inv :: "gov_store \<Rightarrow> bool" where
  "gov_inv st \<longleftrightarrow> manifests_ok st \<and> preflights_ok st \<and> sessions_ok st \<and> references_ok st
     \<and> (\<forall>e \<in> set (gs_runtime_events st). runtime_event_ok e)
     \<and> (\<forall>e \<in> set (gs_incident_events st). incident_event_ok e)"

definition fresh_store :: "gov_store \<Rightarrow> bool" where
  "fresh_store st \<longleftrightarrow> st = no_tables\<lparr>gs_meta := gs_meta st\<rparr>"

lemma fresh_inv: "fresh_store st \<Longrightarrow> gov_inv st"
proof -
  assume "fresh_store st"
  then have "gs_manifests st = []" "gs_preflights st = []" "gs_sessions st = []"
    "gs_runtime_events st = []" "gs_incidents st = []" "gs_incident_events st = []"
    unfolding fresh_store_def no_tables_def by (metis gov_store.select_convs gov_store.update_convs(1))+
  then show ?thesis
    by (simp add: gov_inv_def manifests_ok_def preflights_ok_def sessions_ok_def references_ok_def)
qed

lemma runtime_row_ok: "runtime_row st e v \<Longrightarrow> runtime_event_ok e"
  by (auto simp: runtime_row_def runtime_event_ok_def)

lemma incident_entry_ok: "incident_entry st e v \<Longrightarrow> incident_event_ok e"
  by (auto simp: incident_entry_def incident_event_ok_def)

lemmas table_defs = gov_inv_def manifests_ok_def preflights_ok_def sessions_ok_def references_ok_def

lemma change_inv: "gov_change st st' \<Longrightarrow> gov_inv st \<Longrightarrow> gov_inv st'"
proof (induction rule: gov_change.induct)
  case (new_manifest m st st')
  then show ?case by (auto simp: table_defs insert_manifest_iff)
next
  case (new_preflight s st st' m ttl)
  then show ?case by (auto simp: table_defs insert_preflight_iff)
next
  case (new_session st row st1 ev st' v m snapshot preflight x)
  have "runtime_event_ok ev" using new_session.hyps by (intro runtime_row_ok)
  with new_session show ?case
    by (auto simp: table_defs insert_session_iff insert_runtime_event_iff)
next
  case (session_event st st')
  then obtain row v where "insert_runtime_event st row = Inr st'" "runtime_row st row v"
    unfolding session_step_def by blast
  with session_event runtime_row_ok [of st row v] show ?case
    by (auto simp: table_defs insert_runtime_event_iff)
next
  case (incident_event st st')
  then obtain row v where "insert_incident_event st row = Inr st'" "incident_entry st row v"
    unfolding incident_step_def by blast
  with incident_event incident_entry_ok [of st row v] show ?case
    by (auto simp: table_defs insert_incident_event_iff)
next
  case (new_incident st row st1 ev st' v)
  have "incident_event_ok ev" using new_incident.hyps by (intro incident_entry_ok)
  with new_incident show ?case
    by (auto simp: table_defs insert_incident_iff insert_incident_event_iff)
qed (simp_all add: table_defs)

subsection \<open>The two event logs\<close>

text \<open>The sealed text of a row under a given link.\<close>

definition decoded :: "json_column \<Rightarrow> pyval" where
  "decoded column = (case column of Inl _ \<Rightarrow> PNone | Inr v \<Rightarrow> v)"

definition plain_column :: "json_column \<Rightarrow> bool" where
  "plain_column column \<longleftrightarrow> (case column of Inl _ \<Rightarrow> False | Inr v \<Rightarrow> plain v)"

definition runtime_message :: "string \<Rightarrow> json_column runtime_event \<Rightarrow> string" where
  "runtime_message p e =
     canonical_json (PDict (runtime_event_base (e\<lparr>re_previous := p\<rparr>) (decoded (re_payload e))))"

definition incident_message :: "string \<Rightarrow> json_column incident_event \<Rightarrow> string" where
  "incident_message p e =
     canonical_json (PDict (incident_event_base (e\<lparr>ie_previous := p\<rparr>) (decoded (ie_payload e))))"

text \<open>What a row says: everything but its digest and its link.\<close>

definition runtime_content :: "json_column runtime_event \<Rightarrow> pyval" where
  "runtime_content e = canon (PDict (runtime_event_base (e\<lparr>re_previous := []\<rparr>) (decoded (re_payload e))))"

definition incident_content :: "json_column incident_event \<Rightarrow> pyval" where
  "incident_content e = canon (PDict (incident_event_base (e\<lparr>ie_previous := []\<rparr>) (decoded (ie_payload e))))"

definition runtime_follows :: "json_column runtime_event \<Rightarrow> json_column runtime_event \<Rightarrow> bool" where
  "runtime_follows p e \<longleftrightarrow>
     lifecycle_move (re_lifecycle p) (re_lifecycle e) \<and> event_time (re_at p) \<le> event_time (re_at e)"

definition incident_follows :: "json_column incident_event \<Rightarrow> json_column incident_event \<Rightarrow> bool" where
  "incident_follows p e \<longleftrightarrow>
     incident_move (ie_state p) (ie_state e) \<and> event_time (ie_at p) \<le> event_time (ie_at e)
     \<and> severity_level (ie_severity p) \<le> severity_level (ie_severity e)"

lemma runtime_message_inj:
  assumes "plain_column (re_payload r)" "plain_column (re_payload s)" "runtime_message p r = runtime_message q s"
  shows "p = q \<and> runtime_content r = runtime_content s"
proof -
  let ?d = "runtime_event_base (r\<lparr>re_previous := p\<rparr>) (decoded (re_payload r))"
  let ?e = "runtime_event_base (s\<lparr>re_previous := q\<rparr>) (decoded (re_payload s))"
  have "plain (PDict ?d)" "plain (PDict ?e)"
    using assms(1,2) by (auto simp: runtime_event_base_def plain_column_def decoded_def split: sum.splits)
  from canonical_json_inj [OF this] assms(3) have "canon (PDict ?d) = canon (PDict ?e)"
    by (simp add: runtime_message_def)
  note get = canon_dict_get [OF this]
  show ?thesis
    using get [of "''sessionId''"] get [of "''sequence''"] get [of "''eventId''"] get [of "''previousHash''"]
      get [of "''lifecycle''"] get [of "''eventType''"] get [of "''actor''"] get [of "''payload''"]
      get [of "''occurredAt''"]
    by (simp add: runtime_event_base_def runtime_content_def)
qed

lemma incident_message_inj:
  assumes "plain_column (ie_payload r)" "plain_column (ie_payload s)" "incident_message p r = incident_message q s"
  shows "p = q \<and> incident_content r = incident_content s"
proof -
  let ?d = "incident_event_base (r\<lparr>ie_previous := p\<rparr>) (decoded (ie_payload r))"
  let ?e = "incident_event_base (s\<lparr>ie_previous := q\<rparr>) (decoded (ie_payload s))"
  have "plain (PDict ?d)" "plain (PDict ?e)"
    using assms(1,2) by (auto simp: incident_event_base_def plain_column_def decoded_def split: sum.splits)
  from canonical_json_inj [OF this] assms(3) have "canon (PDict ?d) = canon (PDict ?e)"
    by (simp add: incident_message_def)
  note get = canon_dict_get [OF this]
  show ?thesis
    using get [of "''incidentId''"] get [of "''sequence''"] get [of "''eventId''"] get [of "''previousHash''"]
      get [of "''state''"] get [of "''severity''"] get [of "''eventType''"] get [of "''actor''"]
      get [of "''evidenceHash''"] get [of "''payload''"] get [of "''occurredAt''"]
    by (simp add: incident_event_base_def incident_content_def)
qed

lemma runtime_seal_message:
  assumes "runtime_row st e v"
  shows "re_hash e = sha256_hex (runtime_message (re_previous e) e)"
proof -
  from assms have "re_payload e = Inr (PDict v)" "re_hash e = seal (PDict (runtime_event_base e (PDict v)))"
    by (simp_all add: runtime_row_def)
  then show ?thesis by (simp add: runtime_message_def seal_def decoded_def)
qed

lemma incident_seal_message:
  assumes "incident_entry st e v"
  shows "ie_hash e = sha256_hex (incident_message (ie_previous e) e)"
proof -
  from assms have "ie_payload e = Inr (PDict v)" "ie_hash e = seal (PDict (incident_event_base e (PDict v)))"
    by (simp_all add: incident_entry_def)
  then show ?thesis by (simp add: incident_message_def seal_def decoded_def)
qed

text \<open>Stored lifecycles and states are normalised words already.\<close>

lemma enum_text_same:
  "enum_text (PStr l) allowed label = Inr l' \<Longrightarrow> enumeration allowed \<Longrightarrow> l \<in> set allowed \<Longrightarrow> l' = l"
  using enum_text_again [of allowed l label] by simp

lemma runtime_moves_allowed: "l \<in> set runtime_lifecycles \<Longrightarrow> lifecycle_move l t \<Longrightarrow> t \<in> set runtime_lifecycles"
proof -
  have "list_all (\<lambda>l. list_all (\<lambda>t. t \<in> set runtime_lifecycles) (successors runtime_transitions l)) runtime_lifecycles"
    by code_simp
  then show "l \<in> set runtime_lifecycles \<Longrightarrow> lifecycle_move l t \<Longrightarrow> t \<in> set runtime_lifecycles"
    by (auto simp: list_all_iff lifecycle_move_def)
qed

lemma incident_moves_allowed: "l \<in> set incident_states \<Longrightarrow> incident_move l t \<Longrightarrow> t \<in> set incident_states"
proof -
  have "list_all (\<lambda>l. list_all (\<lambda>t. t \<in> set incident_states) (successors incident_transitions l)) incident_states"
    by code_simp
  then show "l \<in> set incident_states \<Longrightarrow> incident_move l t \<Longrightarrow> t \<in> set incident_states"
    by (auto simp: list_all_iff incident_move_def)
qed

lemma last_runtime_mem: "last_runtime_event st sid = Some p \<Longrightarrow> p \<in> set (gs_runtime_events st) \<and> re_session p = sid"
  using newest_Some [of re_sequence "session_events st sid" p]
  by (simp add: last_runtime_event_def session_events_def)

lemma last_incident_mem: "last_incident_event st iid = Some p \<Longrightarrow> p \<in> set (gs_incident_events st) \<and> ie_incident p = iid"
  using newest_Some [of ie_sequence "events_of_incident st iid" p]
  by (simp add: last_incident_event_def events_of_incident_def)

lemma session_step_follows:
  assumes "session_step st st'" "gov_inv st"
  obtains row v p where "insert_runtime_event st row = Inr st'" "runtime_row st row v"
    "last_runtime_event st (re_session row) = Some p" "runtime_follows p row"
proof -
  from assms(1) obtain row v p target where r: "insert_runtime_event st row = Inr st'" "runtime_row st row v"
    "last_runtime_event st (re_session row) = Some p" "lifecycle_move (re_lifecycle p) target"
    "enum_text (PStr target) runtime_lifecycles ''runtime lifecycle'' = Inr (re_lifecycle row)"
    unfolding session_step_def by blast
  have "re_lifecycle p \<in> set runtime_lifecycles"
    using assms(2) last_runtime_mem [OF r(3)] by (auto simp: gov_inv_def runtime_event_ok_def)
  with r(4) have "target \<in> set runtime_lifecycles" by (blast intro: runtime_moves_allowed)
  with r(5) have "re_lifecycle row = target" by (auto dest: enum_text_same)
  with r show thesis by (intro that) (auto simp: runtime_follows_def runtime_row_def)
qed

lemma incident_step_follows:
  assumes "incident_step st st'" "gov_inv st"
  obtains row v p where "insert_incident_event st row = Inr st'" "incident_entry st row v"
    "last_incident_event st (ie_incident row) = Some p" "incident_follows p row"
proof -
  from assms(1) obtain row v p target where r: "insert_incident_event st row = Inr st'" "incident_entry st row v"
    "last_incident_event st (ie_incident row) = Some p" "incident_move (ie_state p) target"
    "enum_text (PStr target) incident_states ''incident state'' = Inr (ie_state row)"
    unfolding incident_step_def by blast
  have "ie_state p \<in> set incident_states"
    using assms(2) last_incident_mem [OF r(3)] by (auto simp: gov_inv_def incident_event_ok_def)
  with r(4) have "target \<in> set incident_states" by (blast intro: incident_moves_allowed)
  with r(5) have "ie_state row = target" by (auto dest: enum_text_same)
  with r show thesis by (intro that) (auto simp: incident_follows_def incident_entry_def)
qed

text \<open>A row written for an entity that has none is its first.\<close>

lemma no_events_of_new_session:
  "gov_inv st \<Longrightarrow> sid \<notin> sr_id ` set (gs_sessions st) \<Longrightarrow> session_events st sid = []"
  by (auto simp: gov_inv_def references_ok_def session_events_def filter_empty_conv)

lemma no_events_of_new_incident:
  "gov_inv st \<Longrightarrow> iid \<notin> ir_id ` set (gs_incidents st) \<Longrightarrow> events_of_incident st iid = []"
  by (auto simp: gov_inv_def references_ok_def events_of_incident_def filter_empty_conv)

definition runtime_continues :: "json_column runtime_event list \<Rightarrow> json_column runtime_event \<Rightarrow> bool" where
  "runtime_continues es e \<longleftrightarrow>
     (case newest re_sequence (filter (\<lambda>x. re_session x = re_session e) es) of
        None \<Rightarrow> re_sequence e = 1 \<and> re_previous e = [] \<and> re_lifecycle e = ''PREFLIGHT''
      | Some p \<Rightarrow> re_sequence e = re_sequence p + 1 \<and> re_previous e = re_hash p \<and> runtime_follows p e)"

definition incident_continues :: "json_column incident_event list \<Rightarrow> json_column incident_event \<Rightarrow> bool" where
  "incident_continues es e \<longleftrightarrow>
     (case newest ie_sequence (filter (\<lambda>x. ie_incident x = ie_incident e) es) of
        None \<Rightarrow> ie_sequence e = 1 \<and> ie_previous e = [] \<and> ie_state e = ''OPEN''
      | Some p \<Rightarrow> ie_sequence e = ie_sequence p + 1 \<and> ie_previous e = ie_hash p \<and> incident_follows p e)"

lemma step_runtime_row:
  assumes "gov_inv st" "gov_step st st'" "gs_runtime_events st' \<noteq> gs_runtime_events st"
  shows "\<exists>e. gs_runtime_events st' = gs_runtime_events st @ [e]
    \<and> re_hash e = sha256_hex (runtime_message (re_previous e) e) \<and> runtime_continues (gs_runtime_events st) e"
  using step_change [OF assms(2)] assms(1,3)
proof (induction rule: gov_change.induct)
  case (new_session st row st1 ev st' v m snapshot preflight x)
  have ins: "sr_id row \<notin> sr_id ` set (gs_sessions st)" "gs_runtime_events st1 = gs_runtime_events st"
    using new_session.hyps(1) by (auto simp: insert_session_iff)
  have none: "filter (\<lambda>x. re_session x = re_session ev) (gs_runtime_events st) = []"
    using no_events_of_new_session [OF new_session.prems(1) ins(1)] new_session.hyps(3)
    by (simp add: session_events_def)
  then have "last_runtime_event st1 (re_session ev) = None"
    by (simp add: last_runtime_event_def session_events_def ins(2))
  with new_session.hyps(4,5) have "runtime_continues (gs_runtime_events st) ev"
    unfolding runtime_continues_def none by (simp add: runtime_row_def)
  with runtime_seal_message [OF new_session.hyps(4)] new_session.hyps(2) ins(2) show ?case
    by (auto simp: insert_runtime_event_iff)
next
  case (session_event st st')
  then obtain row v p where r: "insert_runtime_event st row = Inr st'" "runtime_row st row v"
    "last_runtime_event st (re_session row) = Some p" "runtime_follows p row"
    by (metis session_step_follows)
  then have "runtime_continues (gs_runtime_events st) row"
    by (simp add: runtime_continues_def runtime_row_def last_runtime_event_def session_events_def)
  with runtime_seal_message [OF r(2)] r(1) show ?case by (auto simp: insert_runtime_event_iff)
next
  case (incident_event st st')
  then show ?case by (auto simp: incident_step_def insert_incident_event_iff)
next
  case (new_incident st row st1 ev st' v)
  then show ?case by (auto simp: insert_incident_iff insert_incident_event_iff)
qed (auto simp: insert_manifest_iff insert_preflight_iff)

lemma step_incident_row:
  assumes "gov_inv st" "gov_step st st'" "gs_incident_events st' \<noteq> gs_incident_events st"
  shows "\<exists>e. gs_incident_events st' = gs_incident_events st @ [e]
    \<and> ie_hash e = sha256_hex (incident_message (ie_previous e) e) \<and> incident_continues (gs_incident_events st) e"
  using step_change [OF assms(2)] assms(1,3)
proof (induction rule: gov_change.induct)
  case (new_session st row st1 ev st' v m snapshot preflight x)
  then show ?case by (auto simp: insert_session_iff insert_runtime_event_iff)
next
  case (session_event st st')
  then show ?case by (auto simp: session_step_def insert_runtime_event_iff)
next
  case (incident_event st st')
  then obtain row v p where r: "insert_incident_event st row = Inr st'" "incident_entry st row v"
    "last_incident_event st (ie_incident row) = Some p" "incident_follows p row"
    by (metis incident_step_follows)
  then have "incident_continues (gs_incident_events st) row"
    by (simp add: incident_continues_def incident_entry_def last_incident_event_def events_of_incident_def)
  with incident_seal_message [OF r(2)] r(1) show ?case by (auto simp: insert_incident_event_iff)
next
  case (new_incident st row st1 ev st' v)
  have ins: "ir_id row \<notin> ir_id ` set (gs_incidents st)" "gs_incident_events st1 = gs_incident_events st"
    using new_incident.hyps(2) by (auto simp: insert_incident_iff)
  have none: "filter (\<lambda>x. ie_incident x = ie_incident ev) (gs_incident_events st) = []"
    using no_events_of_new_incident [OF new_incident.prems(1) ins(1)] new_incident.hyps(4)
    by (simp add: events_of_incident_def)
  then have "last_incident_event st1 (ie_incident ev) = None"
    by (simp add: last_incident_event_def events_of_incident_def ins(2))
  with new_incident.hyps(5,6) have "incident_continues (gs_incident_events st) ev"
    unfolding incident_continues_def none by (simp add: incident_entry_def)
  with incident_seal_message [OF new_incident.hyps(5)] new_incident.hyps(3) ins(2) show ?case
    by (auto simp: insert_incident_event_iff)
qed (auto simp: insert_manifest_iff insert_preflight_iff)

lemma fresh_store_empty:
  assumes "fresh_store st"
  shows "gs_runtime_events st = []" "gs_incident_events st = []" "gs_manifests st = []"
    "gs_preflights st = []" "gs_sessions st = []" "gs_incidents st = []"
  using assms unfolding fresh_store_def no_tables_def
  by (metis gov_store.select_convs gov_store.update_convs(1))+

interpretation runtime_log: event_log re_previous re_hash runtime_message sha256_hex runtime_content
  "\<lambda>e. plain_column (re_payload e)" re_session re_sequence "[]" "\<lambda>e. re_lifecycle e = ''PREFLIGHT''"
  runtime_follows gs_runtime_events gov_inv fresh_store gov_step
proof unfold_locales
  show "\<And>s t. gov_inv s \<Longrightarrow> gov_step s t \<Longrightarrow> gov_inv t" by (blast intro: change_inv step_change)
  show "\<And>s t. gov_inv s \<Longrightarrow> gov_step s t \<Longrightarrow> gs_runtime_events t \<noteq> gs_runtime_events s \<Longrightarrow>
      \<exists>r. gs_runtime_events t = gs_runtime_events s @ [r] \<and> re_hash r = sha256_hex (runtime_message (re_previous r) r) \<and>
        (case newest re_sequence (filter (\<lambda>e. re_session e = re_session r) (gs_runtime_events s)) of
           None \<Rightarrow> re_sequence r = 1 \<and> re_previous r = [] \<and> re_lifecycle r = ''PREFLIGHT''
         | Some p \<Rightarrow> re_sequence r = re_sequence p + 1 \<and> re_previous r = re_hash p \<and> runtime_follows p r)"
    using step_runtime_row unfolding runtime_continues_def by blast
qed (use runtime_message_inj fresh_inv fresh_store_empty in blast)+

interpretation incident_log: event_log ie_previous ie_hash incident_message sha256_hex incident_content
  "\<lambda>e. plain_column (ie_payload e)" ie_incident ie_sequence "[]" "\<lambda>e. ie_state e = ''OPEN''"
  incident_follows gs_incident_events gov_inv fresh_store gov_step
proof unfold_locales
  show "\<And>s t. gov_inv s \<Longrightarrow> gov_step s t \<Longrightarrow> gov_inv t" by (blast intro: change_inv step_change)
  show "\<And>s t. gov_inv s \<Longrightarrow> gov_step s t \<Longrightarrow> gs_incident_events t \<noteq> gs_incident_events s \<Longrightarrow>
      \<exists>r. gs_incident_events t = gs_incident_events s @ [r] \<and> ie_hash r = sha256_hex (incident_message (ie_previous r) r) \<and>
        (case newest ie_sequence (filter (\<lambda>e. ie_incident e = ie_incident r) (gs_incident_events s)) of
           None \<Rightarrow> ie_sequence r = 1 \<and> ie_previous r = [] \<and> ie_state r = ''OPEN''
         | Some p \<Rightarrow> ie_sequence r = ie_sequence p + 1 \<and> ie_previous r = ie_hash p \<and> incident_follows p r)"
    using step_incident_row unfolding incident_continues_def by blast
qed (use incident_message_inj fresh_inv fresh_store_empty in blast)+

end
