(* ===== verification/Gov_Demo.thy ===== *)
theory Gov_Demo
  imports Gov_Chain
begin

section \<open>A small governance store, reached by the operations\<close>

text \<open>
  One deployment with its manifest, one passing preflight, one live session and one critical
  incident: the concrete store at which the theorems about reachable stores are exercised. The
  operations are run on concrete arguments; digests are not computed.
\<close>

definition demo_clock :: instant where "demo_clock = 1700000000000000"

definition demo_time :: string where "demo_time = iso_text demo_clock"

definition demo_manifest :: deployment_manifest where
  "demo_manifest =
     \<lparr>mf_deployment = ''demo'', mf_revision = 1, mf_previous = [],
      mf_strategy_hash = replicate 64 (CHR ''a''), mf_portfolio_hash = [],
      mf_account = replicate 64 (CHR ''b''), mf_route = ''kis-domestic'',
      mf_runtime_version = ''1.0'', mf_build_hash = replicate 64 (CHR ''c''),
      mf_adapter = ''kis'', mf_adapter_version = ''1.0'', mf_risk_revision = 1,
      mf_risk_hash = replicate 64 (CHR ''d''), mf_config_revision = 1,
      mf_config_hash = replicate 64 (CHR ''e''), mf_ttl = 300, mf_created = demo_time,
      mf_metadata = [], mf_schema = manifest_schema\<rparr>"

definition demo_check :: preflight_check where
  "demo_check = \<lparr>ck_id = ''broker'', ck_status = ''PASS'', ck_detail = [], ck_evidence = []\<rparr>"

definition demo_preflight :: preflight_snapshot where
  "demo_preflight =
     \<lparr>ps_id = ''preflight-1'', ps_deployment = ''demo'', ps_revision = 1,
      ps_manifest_hash = manifest_hash demo_manifest, ps_account = replicate 64 (CHR ''b''),
      ps_route = ''kis-domestic'', ps_config_revision = 1, ps_config_hash = replicate 64 (CHR ''e''),
      ps_reconciliation = replicate 64 (CHR ''f''), ps_broker_hash = replicate 64 (CHR ''f''),
      ps_status = ''PASS'', ps_checks = [demo_check], ps_issued = demo_time,
      ps_expires = iso_text (demo_clock + 300000000), ps_metadata = [], ps_schema = preflight_schema\<rparr>"

definition demo_uuid :: "string \<Rightarrow> string" where "demo_uuid kind = ''0''"

definition demo_store1 :: gov_store where
  "demo_store1 = no_tables\<lparr>gs_manifests := [manifest_to_row demo_manifest]\<rparr>"

definition demo_store2 :: gov_store where
  "demo_store2 = demo_store1\<lparr>gs_preflights := [preflight_to_row demo_preflight]\<rparr>"

subsection \<open>Manifest and preflight\<close>

lemma demo_texts: "good_text ''demo''" "good_text ''kis-domestic''" "good_text ''1.0''" "good_text ''kis''"
  "good_text ''broker''" "good_text ''preflight-1''"
  by code_simp+

lemma demo_hex: "sha_pattern (replicate 64 (CHR ''a''))" "sha_pattern (replicate 64 (CHR ''b''))"
  "sha_pattern (replicate 64 (CHR ''c''))" "sha_pattern (replicate 64 (CHR ''d''))"
  "sha_pattern (replicate 64 (CHR ''e''))" "sha_pattern (replicate 64 (CHR ''f''))"
  by (simp_all add: sha_pattern_def list_all_iff is_hex_digit_def is_digit_def)

lemma demo_representable: "representable demo_clock" "representable (demo_clock + 300000000)"
  by (simp_all add: representable_def demo_clock_def min_instant_def max_instant_def)

lemma demo_stamps: "iso_stamp demo_time" "iso_stamp (iso_text (demo_clock + 300000000))"
  "stamp_instant demo_time = demo_clock"
  "stamp_instant (iso_text (demo_clock + 300000000)) = demo_clock + 300000000"
  using demo_representable by (auto simp: iso_stamp_def demo_time_def)

lemma empty_object [simp]: "good_object []"
  by (simp add: good_object_def)

lemma json_object_empty [simp]: "json_object [] l = Inr []"
  by (simp add: json_object_iff)

lemma good_demo_manifest: "good_manifest demo_manifest"
  by (simp add: good_manifest_def demo_manifest_def demo_texts demo_hex demo_stamps optional_pattern_def
      max_preflight_ttl_def)

lemma good_demo_preflight: "good_preflight demo_preflight"
proof -
  have "preflight_status [demo_check] = ''PASS''" by code_simp
  then show ?thesis
    by (simp add: good_preflight_def demo_preflight_def demo_texts demo_hex demo_stamps good_checks_def
        good_check_def demo_check_def optional_pattern_def)
qed

lemma now_text_again: "iso_stamp s \<Longrightarrow> now_text clock (TsValue (PStr s)) = Inr s"
  by (simp add: now_text_def utc_iso_again)

lemma demo_step1:
  "create_deployment_manifest no_tables (manifest_as_input demo_manifest) demo_clock
     = (demo_store1, Inr demo_manifest)"
proof -
  let ?raw = "manifest_as_input demo_manifest"
  have again: "required_text (mf_deployment ?raw) l = Inr ''demo''" for l
    by (simp add: manifest_as_input_def demo_manifest_def required_text_again demo_texts)
  have now: "now_text demo_clock (mf_created ?raw) = Inr demo_time"
    by (simp add: manifest_as_input_def demo_manifest_def now_text_again demo_stamps)
  have latest: "latest_manifest_row no_tables d = None" for d
    by (simp add: latest_manifest_row_def no_tables_def)
  have raw: "?raw\<lparr>mf_deployment := PStr ''demo'', mf_revision := PInt 1, mf_previous := PStr [],
      mf_created := TsValue (PStr demo_time), mf_schema := PStr manifest_schema\<rparr> = ?raw"
    by (simp add: manifest_as_input_def demo_manifest_def)
  have ins: "insert_manifest no_tables (manifest_to_row demo_manifest) = Inr demo_store1"
    by (simp add: insert_manifest_iff demo_store1_def no_tables_def manifest_to_row_def demo_manifest_def)
  show ?thesis
    by (simp add: create_deployment_manifest_def again now latest raw Let_def transaction_def
        make_manifest_again [OF good_demo_manifest] ins)
qed

lemma manifest_of_row: "good_manifest m \<Longrightarrow> manifest_from_row (Some (manifest_to_row m)) = Inr (Some m)"
  using manifest_from_stored [of m] by (simp add: manifest_from_row_def manifest_to_row_def load_json_def)

lemma demo_lookup:
  assumes "gs_manifests st = [manifest_to_row demo_manifest]"
  shows "manifest_by_hash st (manifest_hash demo_manifest) = Inr (Some demo_manifest)"
    "latest_manifest st ''demo'' = Inr (Some demo_manifest)"
    "current_manifest st (manifest_hash demo_manifest) ''demo'' = Inr demo_manifest"
proof -
  have h: "mr_hash (manifest_to_row demo_manifest) = manifest_hash demo_manifest"
    "mr_deployment (manifest_to_row demo_manifest) = ''demo''"
    by (simp_all add: manifest_to_row_def demo_manifest_def)
  show a: "manifest_by_hash st (manifest_hash demo_manifest) = Inr (Some demo_manifest)"
    using manifest_of_row [OF good_demo_manifest] by (simp add: manifest_by_hash_def assms h)
  show b: "latest_manifest st ''demo'' = Inr (Some demo_manifest)"
    using manifest_of_row [OF good_demo_manifest]
    by (simp add: latest_manifest_def latest_manifest_row_def assms h)
  have "mf_deployment demo_manifest = ''demo''" "strip ''demo'' = ''demo''"
    by (simp add: demo_manifest_def) code_simp
  with a b show "current_manifest st (manifest_hash demo_manifest) ''demo'' = Inr demo_manifest"
    by (simp add: current_manifest_def)
qed

definition demo_preflight_request :: preflight_request where
  "demo_preflight_request =
     \<lparr>rq_deployment = ''demo'', rq_manifest_hash = PStr (manifest_hash demo_manifest),
      rq_checks = [check_json demo_check], rq_reconciliation = PStr (replicate 64 (CHR ''f'')),
      rq_broker_hash = PStr (replicate 64 (CHR ''f'')), rq_ttl = PNone, rq_metadata = [],
      rq_issued = TsValue PNone, rq_id = ''preflight-1''\<rparr>"

lemma demo_step2:
  "create_preflight_snapshot demo_store1 demo_preflight_request demo_uuid demo_clock
     = (demo_store2, Inr demo_preflight)"
proof -
  have m: "current_manifest demo_store1 (manifest_hash demo_manifest) ''demo'' = Inr demo_manifest"
    by (rule demo_lookup) (simp add: demo_store1_def)
  have ttl: "preflight_ttl demo_manifest PNone = Inr 300"
    by (simp add: preflight_ttl_def demo_manifest_def max_preflight_ttl_def)
  have checks: "normalized_preflight_checks [check_json demo_check] = Inr [demo_check]"
    using good_demo_preflight
    by (intro normalized_checks_again) (simp_all add: good_preflight_def demo_preflight_def check_json_reads)
  have now: "now_text demo_clock (TsValue PNone) = Inr demo_time"
    using demo_representable by (simp add: now_text_def utc_iso_def utc_instant_def instant_text_def demo_time_def)
  have start: "parse_utc (TsValue (PStr demo_time)) l = Inr demo_clock" for l
    using parse_utc_stamp [OF demo_stamps(1)] demo_stamps(3) by simp
  have expires: "instant_text (demo_clock + 300000000) = Inr (iso_text (demo_clock + 300000000))"
    using demo_representable by (simp add: instant_text_def)
  have args: "\<lparr>ps_id = PStr ''preflight-1'', ps_deployment = PStr (mf_deployment demo_manifest),
        ps_revision = PInt (mf_revision demo_manifest),
        ps_manifest_hash = PStr (manifest_hash demo_manifest), ps_account = PStr (mf_account demo_manifest),
        ps_route = PStr (mf_route demo_manifest), ps_config_revision = PInt (mf_config_revision demo_manifest),
        ps_config_hash = PStr (mf_config_hash demo_manifest), ps_reconciliation = PStr (replicate 64 (CHR ''f'')),
        ps_broker_hash = PStr (replicate 64 (CHR ''f'')), ps_status = PStr (preflight_status [demo_check]),
        ps_checks = [check_json demo_check], ps_issued = TsValue (PStr demo_time),
        ps_expires = TsValue (PStr (iso_text (demo_clock + 300000000))), ps_metadata = [],
        ps_schema = PStr preflight_schema\<rparr> = preflight_as_input demo_preflight [check_json demo_check]"
  proof -
    have "preflight_status [demo_check] = ''PASS''" by code_simp
    then show ?thesis by (simp add: preflight_as_input_def demo_preflight_def demo_manifest_def)
  qed
  have "list_all2 reads_as [check_json demo_check] (ps_checks demo_preflight)"
    by (simp add: demo_preflight_def check_json_reads)
  note made = make_preflight_again [OF good_demo_preflight this]
  have build: "build_preflight demo_store1 demo_preflight_request (manifest_hash demo_manifest) demo_time demo_uuid
      = Inr demo_preflight"
    unfolding build_preflight_def demo_preflight_request_def preflight_request.simps
    by (simp add: m ttl checks start expires args made)
  have ins: "insert_preflight demo_store1 (preflight_to_row demo_preflight) = Inr demo_store2"
    by (simp add: insert_preflight_iff demo_store1_def demo_store2_def no_tables_def preflight_to_row_def
        demo_preflight_def manifest_to_row_def)
  have hash: "required_sha256 (rq_manifest_hash demo_preflight_request) l = Inr (manifest_hash demo_manifest)" for l
    by (simp add: demo_preflight_request_def required_sha256_again)
  have iss: "rq_issued demo_preflight_request = TsValue PNone"
    by (simp add: demo_preflight_request_def)
  show ?thesis
    by (simp add: create_preflight_snapshot_def hash iss now transaction_def build ins)
qed

subsection \<open>A live session and an incident\<close>

definition demo_session_request :: session_request where
  "demo_session_request =
     \<lparr>sq_deployment = ''demo'', sq_manifest_hash = PStr (manifest_hash demo_manifest),
      sq_profile = PStr ''kis'', sq_mode = PStr ''SMALL_LIVE'', sq_instance = PStr ''host-1'',
      sq_preflight = ''preflight-1'', sq_actor = PStr ''operator'', sq_metadata = [],
      sq_occurred = TsValue PNone, sq_id = ''session-1''\<rparr>"

definition demo_session :: session_row where
  "demo_session =
     \<lparr>sr_id = ''session-1'', sr_deployment = ''demo'', sr_manifest_hash = manifest_hash demo_manifest,
      sr_preflight_id = ''preflight-1'', sr_preflight_hash = preflight_hash demo_preflight,
      sr_config_revision = 1, sr_config_hash = replicate 64 (CHR ''e''), sr_profile = ''kis'',
      sr_mode = ''SMALL_LIVE'', sr_instance = ''host-1'', sr_created = demo_time,
      sr_metadata = Inr (PDict [])\<rparr>"

definition demo_payload :: pydict where
  "demo_payload =
     [(''deploymentManifestHash'', PStr (manifest_hash demo_manifest)),
      (''preflightSnapshotHash'', PStr (preflight_hash demo_preflight))]"

definition demo_event :: "json_column runtime_event" where
  "demo_event =
     (let e = \<lparr>re_session = ''session-1'', re_sequence = 1, re_id = ''runtime-event-0'',
           re_previous = [], re_hash = [], re_lifecycle = ''PREFLIGHT'', re_type = ''SESSION_CREATED'',
           re_actor = ''operator'', re_payload = Inr (PDict demo_payload), re_at = demo_time\<rparr>
      in e\<lparr>re_hash := seal (PDict (runtime_event_base e (PDict demo_payload)))\<rparr>)"

definition demo_store3 :: gov_store where
  "demo_store3 = demo_store2\<lparr>gs_sessions := [demo_session], gs_runtime_events := [demo_event]\<rparr>"

lemma good_demo_payload: "json_object demo_payload l = Inr demo_payload"
proof -
  have "\<not> raw_account_key ''deploymentManifestHash''" "\<not> raw_account_key ''preflightSnapshotHash''"
    by code_simp+
  moreover have "''deploymentManifestHash'' \<le> ''preflightSnapshotHash''" by code_simp
  ultimately show ?thesis by (simp add: json_object_iff demo_payload_def)
qed

lemma demo_found: "find_preflight demo_store2 ''preflight-1'' = Inr (Some demo_preflight)"
proof -
  have "pr_id (preflight_to_row demo_preflight) = ''preflight-1''"
    by (simp add: preflight_to_row_def demo_preflight_def)
  then show ?thesis
    using preflight_from_stored [OF good_demo_preflight]
    by (simp add: find_preflight_def demo_store2_def) (simp add: preflight_to_row_def load_json_def)
qed

lemma demo_valid: "\<exists>v. preflight_validity_at demo_store2 ''preflight-1'' demo_time = Inr v \<and> va_valid v"
proof -
  have e: "iso_stamp (ps_expires demo_preflight)"
    "stamp_instant (ps_expires demo_preflight) = demo_clock + 300000000"
    using demo_stamps by (simp_all add: demo_preflight_def)
  have "is_expired demo_preflight (TsValue (PStr demo_time)) = Inr False"
    by (simp add: is_expired_def parse_utc_stamp demo_stamps e)
  moreover have "ps_deployment demo_preflight = ''demo''" by (simp add: demo_preflight_def)
  moreover have "latest_manifest demo_store2 ''demo'' = Inr (Some demo_manifest)"
    by (rule demo_lookup) (simp add: demo_store2_def demo_store1_def)
  moreover have "manifest_reasons (Some demo_manifest) demo_preflight = []" "ps_status demo_preflight = ''PASS''"
    by (simp_all add: manifest_reasons_def demo_preflight_def) (simp_all add: demo_manifest_def)
  ultimately show ?thesis
    by (simp add: preflight_validity_at_def demo_found Let_def)
qed

lemma demo_step3: "fst (create_runtime_session demo_store2 demo_session_request demo_uuid demo_clock) = demo_store3"
proof -
  have mode: "enum_text (PStr ''SMALL_LIVE'') runtime_modes l = Inr ''SMALL_LIVE''" for l
    by (rule enum_text_again) (simp, simp add: runtime_modes_def live_modes_def)
  have now: "now_text demo_clock (TsValue PNone) = Inr demo_time"
    using demo_representable by (simp add: now_text_def utc_iso_def utc_instant_def instant_text_def demo_time_def)
  have hash: "required_sha256 (PStr (manifest_hash demo_manifest)) l = Inr (manifest_hash demo_manifest)" for l
    by (simp add: required_sha256_again)
  have m: "current_manifest demo_store2 (manifest_hash demo_manifest) ''demo'' = Inr demo_manifest"
    by (rule demo_lookup) (simp add: demo_store2_def demo_store1_def)
  obtain v where v: "preflight_validity_at demo_store2 ''preflight-1'' demo_time = Inr v" "va_valid v"
    using demo_valid by blast
  have "ps_manifest_hash demo_preflight = manifest_hash demo_manifest" by (simp add: demo_preflight_def)
  with v have pre: "session_preflight demo_store2 demo_manifest ''SMALL_LIVE'' ''preflight-1'' demo_time
      = Inr (Some demo_preflight)"
    by (simp add: session_preflight_def demo_found)
  have texts: "required_text (PStr ''kis'') l = Inr ''kis''" "required_text (PStr ''host-1'') l = Inr ''host-1''"
    "required_text (PStr ''operator'') l = Inr ''operator''"
    "required_text (PStr ''SESSION_CREATED'') l = Inr ''SESSION_CREATED''" for l
  proof -
    have "good_text ''kis''" "good_text ''host-1''" "good_text ''operator''" "good_text ''SESSION_CREATED''"
      by code_simp+
    then show "required_text (PStr ''kis'') l = Inr ''kis''" "required_text (PStr ''host-1'') l = Inr ''host-1''"
      "required_text (PStr ''operator'') l = Inr ''operator''"
      "required_text (PStr ''SESSION_CREATED'') l = Inr ''SESSION_CREATED''"
      by (simp_all add: required_text_again)
  qed
  have life: "enum_text (PStr ''PREFLIGHT'') runtime_lifecycles l = Inr ''PREFLIGHT''" for l
    by (rule enum_text_again) (simp, simp add: runtime_lifecycles_def)
  let ?st = "demo_store2\<lparr>gs_sessions := [demo_session]\<rparr>"
  have "insert_session demo_store2 demo_session = Inr ?st"
    by (simp add: insert_session_iff demo_session_def demo_store2_def demo_store1_def no_tables_def
        runtime_modes_def live_modes_def manifest_to_row_def)
  then have ins: "insert_session demo_store2 \<lparr>sr_id = ''session-1'', sr_deployment = mf_deployment demo_manifest,
      sr_manifest_hash = manifest_hash demo_manifest, sr_preflight_id = ps_id demo_preflight,
      sr_preflight_hash = preflight_hash demo_preflight, sr_config_revision = mf_config_revision demo_manifest,
      sr_config_hash = mf_config_hash demo_manifest, sr_profile = ''kis'', sr_mode = ''SMALL_LIVE'',
      sr_instance = ''host-1'', sr_created = demo_time, sr_metadata = Inr (canon (PDict []))\<rparr> = Inr ?st"
    by (simp add: demo_session_def) (simp add: demo_manifest_def demo_preflight_def)
  have none: "last_runtime_event ?st sid = None" for sid
    by (simp add: last_runtime_event_def session_events_def demo_store2_def demo_store1_def no_tables_def)
  have canon: "canon_entries demo_payload = demo_payload"
    by (rule good_object_canon) (rule json_object_good [OF good_demo_payload])
  have ev: "insert_runtime_event ?st demo_event = Inr demo_store3"
    by (simp add: insert_runtime_event_iff demo_store3_def demo_store2_def demo_store1_def no_tables_def
        demo_event_def Let_def demo_session_def)
  have append: "append_runtime_event_conn ?st ''session-1'' (PStr ''PREFLIGHT'') (PStr ''SESSION_CREATED'')
      (PStr ''operator'') demo_payload demo_time demo_uuid = Inr (demo_store3, x)"
    if "runtime_event_from_row demo_event = Inr x" for x
    using that ev unfolding append_runtime_event_conn_def
    by (simp add: life texts good_demo_payload none Let_def canon demo_event_def new_id_def demo_uuid_def
        runtime_event_base_def runtime_event_from_row_def load_json_def)
  obtain x where "runtime_event_from_row demo_event = Inr x"
    by (simp add: runtime_event_from_row_def demo_event_def load_json_def Let_def)
  note append = append [OF this]
  have start: "start_session demo_store2 demo_session_request ''session-1'' ''SMALL_LIVE'' demo_time
      (manifest_hash demo_manifest) demo_uuid = Inr (demo_store3, ())"
    unfolding start_session_def demo_session_request_def session_request.simps
    using append by (simp add: m pre texts Let_def ins [simplified] flip: demo_payload_def)
  show ?thesis
    by (simp add: create_runtime_session_def demo_session_request_def mode now hash Let_def)
      (use start in \<open>simp add: transaction_def demo_session_request_def\<close>)
qed

definition demo_incident_request :: incident_request where
  "demo_incident_request =
     \<lparr>iq_code = PStr ''FEED_LOST'', iq_scope_type = PStr ''SESSION'', iq_scope_id = PStr ''session-1'',
      iq_severity = PStr ''CRITICAL'', iq_actor = PStr ''operator'', iq_deployment = PStr ''demo'',
      iq_session = PStr ''session-1'', iq_account = PNone, iq_evidence = PNone, iq_payload = [],
      iq_occurred = TsValue PNone, iq_id = ''incident-1''\<rparr>"

definition demo_incident :: incident_row where
  "demo_incident =
     \<lparr>ir_id = ''incident-1'',
      ir_dedupe = dedupe_key ''FEED_LOST'' ''SESSION'' ''session-1'' ''demo'' ''session-1'',
      ir_code = ''FEED_LOST'', ir_scope_type = ''SESSION'', ir_scope_id = ''session-1'',
      ir_deployment = ''demo'', ir_session = ''session-1'', ir_account = [], ir_opened = demo_time\<rparr>"

definition demo_incident_event :: "json_column incident_event" where
  "demo_incident_event =
     (let e = \<lparr>ie_incident = ''incident-1'', ie_sequence = 1, ie_id = ''incident-event-0'',
           ie_previous = [], ie_hash = [], ie_state = ''OPEN'', ie_severity = ''CRITICAL'',
           ie_type = ''INCIDENT_OPENED'', ie_actor = ''operator'', ie_evidence = [],
           ie_payload = Inr (PDict []), ie_at = demo_time\<rparr>
      in e\<lparr>ie_hash := seal (PDict (incident_event_base e (PDict [])))\<rparr>)"

definition demo_store4 :: gov_store where
  "demo_store4 = demo_store3\<lparr>gs_incidents := [demo_incident], gs_incident_events := [demo_incident_event]\<rparr>"

lemma demo_step4: "fst (open_incident demo_store3 demo_incident_request demo_uuid demo_clock) = demo_store4"
proof -
  have now: "now_text demo_clock (TsValue PNone) = Inr demo_time"
    using demo_representable by (simp add: now_text_def utc_iso_def utc_instant_def instant_text_def demo_time_def)
  have texts: "required_text (PStr ''FEED_LOST'') l = Inr ''FEED_LOST''"
    "required_text (PStr ''session-1'') l = Inr ''session-1''"
    "required_text (PStr ''operator'') l = Inr ''operator''"
    "required_text (PStr ''INCIDENT_OPENED'') l = Inr ''INCIDENT_OPENED''" for l
  proof -
    have "good_text ''FEED_LOST''" "good_text ''session-1''" "good_text ''operator''"
      "good_text ''INCIDENT_OPENED''" by code_simp+
    then show "required_text (PStr ''FEED_LOST'') l = Inr ''FEED_LOST''"
      "required_text (PStr ''session-1'') l = Inr ''session-1''"
      "required_text (PStr ''operator'') l = Inr ''operator''"
      "required_text (PStr ''INCIDENT_OPENED'') l = Inr ''INCIDENT_OPENED''"
      by (simp_all add: required_text_again)
  qed
  have scope: "enum_text (PStr ''SESSION'') incident_scope_types l = Inr ''SESSION''" for l
    by (rule enum_text_again) (simp, simp add: incident_scope_types_def)
  have sev: "enum_text (PStr ''CRITICAL'') incident_severities l = Inr ''CRITICAL''" for l
    by (rule enum_text_again) (simp, simp add: incident_severities_def)
  have sta: "enum_text (PStr ''OPEN'') incident_states l = Inr ''OPEN''" for l
    by (rule enum_text_again) (simp, simp add: incident_states_def)
  have plain: "plain_text (PStr ''demo'') = ''demo''" "plain_text (PStr ''session-1'') = ''session-1''"
    "upper ''FEED_LOST'' = ''FEED_LOST''" "optional_sha256 PNone l = Inr []" for l
    by (simp_all add: optional_sha256_def plain_text_def) code_simp+
  have obj: "json_object [] l = Inr []" for l by (simp add: json_object_iff)
  let ?d = "\<lparr>id_row = demo_incident, id_severity = ''CRITICAL'', id_evidence = [], id_payload = [],
      id_actor = PStr ''operator''\<rparr>"
  have draft: "incident_draft_of demo_incident_request demo_uuid demo_clock = Inr ?d"
    unfolding incident_draft_of_def demo_incident_request_def incident_request.simps
    by (simp only: texts scope sev now plain obj res_bind_Inr Let_def) (simp add: demo_incident_def)
  have none: "active_incident demo_store3 k = None" for k
    by (simp add: active_incident_def demo_store3_def demo_store2_def demo_store1_def no_tables_def)
  let ?st = "demo_store3\<lparr>gs_incidents := [demo_incident]\<rparr>"
  have ins: "insert_incident demo_store3 demo_incident = Inr ?st"
    by (simp add: insert_incident_iff demo_store3_def demo_store2_def demo_store1_def no_tables_def)
  have last: "last_incident_event ?st i = None" for i
    by (simp add: last_incident_event_def events_of_incident_def demo_store3_def demo_store2_def
        demo_store1_def no_tables_def)
  have ev: "insert_incident_event ?st demo_incident_event = Inr demo_store4"
    by (simp add: insert_incident_event_iff demo_store4_def demo_store3_def demo_store2_def demo_store1_def
        no_tables_def demo_incident_event_def Let_def demo_incident_def)
  have "\<exists>x. append_incident_event_conn ?st ''incident-1'' (PStr ''OPEN'') (PStr ''CRITICAL'')
      (PStr ''INCIDENT_OPENED'') (PStr ''operator'') [] [] demo_time demo_uuid = Inr (demo_store4, x)"
    using ev unfolding append_incident_event_conn_def
    by (simp add: sta sev texts obj last Let_def demo_incident_event_def new_id_def demo_uuid_def
        incident_event_base_def)
  then obtain x where append: "append_incident_event_conn ?st ''incident-1'' (PStr ''OPEN'') (PStr ''CRITICAL'')
      (PStr ''INCIDENT_OPENED'') (PStr ''operator'') [] [] demo_time demo_uuid = Inr (demo_store4, x)" by blast
  have row: "ir_id demo_incident = ''incident-1''" "ir_opened demo_incident = demo_time"
    by (simp_all add: demo_incident_def)
  have find: "find_incident demo_store4 ''incident-1'' \<noteq> None"
    by (simp add: find_incident_def demo_store4_def last_incident_event_def events_of_incident_def row
        demo_incident_event_def Let_def)
  have "\<exists>y. record_incident demo_store3 ?d demo_uuid = Inr (demo_store4, y)"
    using find append by (auto simp: record_incident_def ins row)
  then show ?thesis
    by (auto simp: open_incident_def draft none transaction_def)
qed

text \<open>The store is reached from the empty one.\<close>

lemma fresh_no_tables: "fresh_store no_tables"
  by (simp add: fresh_store_def no_tables_def)

lemma demo_reached:
  "gov_step\<^sup>*\<^sup>* no_tables demo_store1" "gov_step\<^sup>*\<^sup>* no_tables demo_store2"
  "gov_step\<^sup>*\<^sup>* no_tables demo_store3" "gov_step\<^sup>*\<^sup>* no_tables demo_store4"
  "gov_step\<^sup>*\<^sup>* demo_store3 demo_store4" "gov_step demo_store2 demo_store3"
proof -
  have s1: "gov_step no_tables demo_store1"
    by (rule gov_step.manifest [of _ "manifest_as_input demo_manifest" demo_clock]) (simp add: demo_step1)
  have s2: "gov_step demo_store1 demo_store2"
    by (rule gov_step.preflight [of _ demo_preflight_request demo_uuid demo_clock]) (simp add: demo_step2)
  show s3: "gov_step demo_store2 demo_store3" by (rule gov_step.session [OF demo_step3])
  have s4: "gov_step demo_store3 demo_store4" by (rule gov_step.incident [OF demo_step4])
  show "gov_step\<^sup>*\<^sup>* no_tables demo_store1" using s1 by blast
  then show "gov_step\<^sup>*\<^sup>* no_tables demo_store2" using s2 by (rule rtranclp.rtrancl_into_rtrancl)
  then show "gov_step\<^sup>*\<^sup>* no_tables demo_store3" using s3 by (rule rtranclp.rtrancl_into_rtrancl)
  then show "gov_step\<^sup>*\<^sup>* no_tables demo_store4" using s4 by (rule rtranclp.rtrancl_into_rtrancl)
  show "gov_step\<^sup>*\<^sup>* demo_store3 demo_store4" using s4 by blast
qed

end
