(* ===== verification/Gov_Log_Laws.thy ===== *)
theory Gov_Log_Laws
  imports Gov_Demo
begin

section \<open>Session and incident histories\<close>

text \<open>
  The claims about every store the governance operations can reach: each session's and each
  incident's events are numbered without gaps, hash-chained, ordered in time and move along the
  transition tables; histories only grow; at most one incident per deduplication key is active.
  They are the facts of the two interpretations of \<open>event_log\<close>, stated over the model.
\<close>

lemma session_stream [simp]: "runtime_log.stream st sid = session_events st sid"
  by (simp add: runtime_log.stream_def session_events_def)

lemma incident_stream [simp]: "incident_log.stream st iid = events_of_incident st iid"
  by (simp add: incident_log.stream_def events_of_incident_def)

lemma reachable_runtime: "fresh_store s \<Longrightarrow> gov_step\<^sup>*\<^sup>* s st \<Longrightarrow> gov_inv st \<and> runtime_log.well_kept (session_events st sid)"
  using runtime_log.reachable_kept [of s st] by simp

lemma reachable_incident: "fresh_store s \<Longrightarrow> gov_step\<^sup>*\<^sup>* s st \<Longrightarrow> gov_inv st \<and> incident_log.well_kept (events_of_incident st iid)"
  using incident_log.reachable_kept [of s st] by simp

lemma last_runtime_last:
  assumes "runtime_log.well_kept (session_events st sid)"
  shows "last_runtime_event st sid = (if session_events st sid = [] then None else Some (last (session_events st sid)))"
  unfolding last_runtime_event_def by (rule runtime_log.well_kept_newest [OF assms])

lemma last_incident_last:
  assumes "incident_log.well_kept (events_of_incident st iid)"
  shows "last_incident_event st iid = (if events_of_incident st iid = [] then None else Some (last (events_of_incident st iid)))"
  unfolding last_incident_event_def by (rule incident_log.well_kept_newest [OF assms])

text \<open>
  C15: Session logs are well kept. In every store the operations can produce, the events of a
  session are numbered 1, 2, ... without gaps, each links to the digest of the one before it and
  carries the digest of its own content, the first one is in \<open>PREFLIGHT\<close>, and every next one keeps
  the lifecycle or moves it along \<open>RUNTIME_TRANSITIONS\<close>, never earlier in time.
\<close>

theorem session_log_kept:
  assumes "fresh_store s" "gov_step\<^sup>*\<^sup>* s st"
  shows "map re_sequence (session_events st sid) = [1..int (length (session_events st sid))]
    \<and> chained re_previous re_hash (\<lambda>p e. sha256_hex (runtime_message p e)) [] (session_events st sid)
    \<and> (\<forall>e \<in> set (take 1 (session_events st sid)). re_lifecycle e = ''PREFLIGHT'')
    \<and> successively (\<lambda>p e. (re_lifecycle e = re_lifecycle p
           \<or> re_lifecycle e \<in> set (successors runtime_transitions (re_lifecycle p)))
         \<and> event_time (re_at p) \<le> event_time (re_at e)) (session_events st sid)"
proof -
  have kept: "runtime_log.well_kept (session_events st sid)"
    using reachable_runtime [OF assms] by blast
  then have "\<forall>e \<in> set (take 1 (session_events st sid)). re_lifecycle e = ''PREFLIGHT''"
    unfolding runtime_log.well_kept_def by (cases "session_events st sid") auto
  with kept show ?thesis
    unfolding runtime_log.well_kept_def runtime_follows_def lifecycle_move_def by blast
qed

theorem session_log_kept_witness:
  "session_events demo_store3 ''session-1'' = [demo_event]
   \<and> map re_sequence (session_events demo_store3 ''session-1'')
       = [1..int (length (session_events demo_store3 ''session-1''))]"
  using session_log_kept [OF fresh_no_tables demo_reached(3), of "''session-1''"]
  by (simp add: session_events_def demo_store3_def demo_event_def Let_def)

text \<open>
  C16: Incident logs are well kept. In every reachable store the events of an incident are numbered
  without gaps and hash-chained, begin with \<open>OPEN\<close>, move along \<open>INCIDENT_TRANSITIONS\<close>, never lower
  the severity, never go back in time, and nothing follows a \<open>RESOLVED\<close> event.
\<close>

theorem incident_log_kept:
  assumes "fresh_store s" "gov_step\<^sup>*\<^sup>* s st"
  shows "map ie_sequence (events_of_incident st iid) = [1..int (length (events_of_incident st iid))]
    \<and> chained ie_previous ie_hash (\<lambda>p e. sha256_hex (incident_message p e)) [] (events_of_incident st iid)
    \<and> (\<forall>e \<in> set (take 1 (events_of_incident st iid)). ie_state e = ''OPEN'')
    \<and> successively (\<lambda>p e. ie_state p \<noteq> ''RESOLVED''
         \<and> (ie_state e = ie_state p \<or> ie_state e \<in> set (successors incident_transitions (ie_state p)))
         \<and> event_time (ie_at p) \<le> event_time (ie_at e)
         \<and> severity_level (ie_severity p) \<le> severity_level (ie_severity e)) (events_of_incident st iid)"
proof -
  have kept: "incident_log.well_kept (events_of_incident st iid)"
    using reachable_incident [OF assms] by blast
  then have "\<forall>e \<in> set (take 1 (events_of_incident st iid)). ie_state e = ''OPEN''"
    unfolding incident_log.well_kept_def by (cases "events_of_incident st iid") auto
  with kept show ?thesis
    unfolding incident_log.well_kept_def incident_follows_def incident_move_def conj_assoc by blast
qed

theorem incident_log_kept_witness:
  "events_of_incident demo_store4 ''incident-1'' = [demo_incident_event]
   \<and> map ie_sequence (events_of_incident demo_store4 ''incident-1'')
       = [1..int (length (events_of_incident demo_store4 ''incident-1''))]"
  using incident_log_kept [OF fresh_no_tables demo_reached(4), of "''incident-1''"]
  by (simp add: events_of_incident_def demo_store4_def demo_incident_event_def Let_def)

subsection \<open>Histories grow and final states are final\<close>

lemma runtime_moves_path:
  assumes "fresh_store s" "gov_step\<^sup>*\<^sup>* s st" "gov_step\<^sup>*\<^sup>* st st'" "session_events st sid \<noteq> []"
  shows "session_events st' sid \<noteq> [] \<and>
    lifecycle_move\<^sup>*\<^sup>* (re_lifecycle (last (session_events st sid))) (re_lifecycle (last (session_events st' sid)))"
proof -
  have k: "gov_inv st" "runtime_log.well_kept (session_events st sid)"
    using reachable_runtime [OF assms(1,2)] by auto
  let ?P = "\<lambda>e. lifecycle_move\<^sup>*\<^sup>* (re_lifecycle (last (session_events st sid))) (re_lifecycle e)"
  have "?P r" if "?P p" "runtime_follows p r" for p r
    using that rtranclp.rtrancl_into_rtrancl [of lifecycle_move _ "re_lifecycle p" "re_lifecycle r"]
    by (simp add: runtime_follows_def)
  from runtime_log.last_kept [of st st' sid ?P, OF assms(3) k(1) _ _ _ this] k(2) assms(4)
  show ?thesis by simp
qed

lemma terminal_stays: "lifecycle_move\<^sup>*\<^sup>* l l' \<Longrightarrow> l \<in> set runtime_terminal \<Longrightarrow> l' = l"
proof (induction rule: rtranclp_induct)
  case (step m n)
  have "list_all (\<lambda>l. successors runtime_transitions l = []) runtime_terminal" by code_simp
  with step have "successors runtime_transitions m = []" by (simp add: list_all_iff)
  with step show ?case by (auto simp: lifecycle_move_def)
qed simp

text \<open>
  A session's history only grows. Whatever operations run later, the events recorded so far
  stay the beginning of the log, the current lifecycle is reached from the former one along the
  transition table, and a session that is \<open>STOPPED\<close> or \<open>FAILED\<close> stays so.
\<close>

theorem session_history_grows:
  assumes "fresh_store s" "gov_step\<^sup>*\<^sup>* s st" "gov_step\<^sup>*\<^sup>* st st'"
    and "last_runtime_event st sid = Some p"
  shows "prefix (session_events st sid) (session_events st' sid)
    \<and> (\<exists>p'. last_runtime_event st' sid = Some p'
        \<and> lifecycle_move\<^sup>*\<^sup>* (re_lifecycle p) (re_lifecycle p')
        \<and> (re_lifecycle p \<in> set runtime_terminal \<longrightarrow> re_lifecycle p' = re_lifecycle p))"
proof -
  have k: "gov_inv st" "runtime_log.well_kept (session_events st sid)"
    using reachable_runtime [OF assms(1,2)] by auto
  have k': "runtime_log.well_kept (session_events st' sid)"
    using reachable_runtime [OF assms(1) rtranclp_trans [OF assms(2,3)]] by blast
  have p: "session_events st sid \<noteq> []" "p = last (session_events st sid)"
    using assms(4) last_runtime_last [OF k(2)] by (auto split: if_splits)
  note path = runtime_moves_path [OF assms(1-3) p(1)]
  have "prefix (session_events st sid) (session_events st' sid)"
    using runtime_log.kept_steps [OF assms(3) k(1), of sid] k(2) by simp
  with path terminal_stays p(2) last_runtime_last [OF k'] show ?thesis by auto
qed

theorem session_history_grows_witness:
  "\<exists>p'. last_runtime_event demo_store4 ''session-1'' = Some p'
    \<and> lifecycle_move\<^sup>*\<^sup>* (re_lifecycle demo_event) (re_lifecycle p')"
proof -
  have "last_runtime_event demo_store3 ''session-1'' = Some demo_event"
    by (simp add: last_runtime_event_def session_events_def demo_store3_def demo_event_def Let_def)
  from session_history_grows [OF fresh_no_tables demo_reached(3,5) this] show ?thesis by blast
qed

text \<open>
  An incident's history only grows, its severity is never lowered, and the log of a resolved
  incident is closed: no later operation adds an event to it.
\<close>

theorem incident_history_grows:
  assumes "fresh_store s" "gov_step\<^sup>*\<^sup>* s st" "gov_step\<^sup>*\<^sup>* st st'"
    and "last_incident_event st iid = Some p"
  shows "prefix (events_of_incident st iid) (events_of_incident st' iid)
    \<and> (\<exists>p'. last_incident_event st' iid = Some p'
        \<and> severity_level (ie_severity p) \<le> severity_level (ie_severity p')
        \<and> (ie_state p = ''RESOLVED'' \<longrightarrow> events_of_incident st' iid = events_of_incident st iid))"
proof -
  have k: "gov_inv st" "incident_log.well_kept (events_of_incident st iid)"
    using reachable_incident [OF assms(1,2)] by auto
  have k': "incident_log.well_kept (events_of_incident st' iid)"
    using reachable_incident [OF assms(1) rtranclp_trans [OF assms(2,3)]] by blast
  have p: "events_of_incident st iid \<noteq> []" "p = last (events_of_incident st iid)"
    using assms(4) last_incident_last [OF k(2)] by (auto split: if_splits)
  have "events_of_incident st' iid \<noteq> [] \<and>
      severity_level (ie_severity p) \<le> severity_level (ie_severity (last (events_of_incident st' iid)))"
    using incident_log.last_kept [of st st' iid "\<lambda>e. severity_level (ie_severity p) \<le> severity_level (ie_severity e)"]
      assms(3) k p by (auto simp: incident_follows_def)
  moreover have "prefix (events_of_incident st iid) (events_of_incident st' iid)"
    using incident_log.kept_steps [OF assms(3) k(1), of iid] k(2) by simp
  moreover have "events_of_incident st' iid = events_of_incident st iid" if "ie_state p = ''RESOLVED''"
    using incident_log.closed_stream [of st st' iid] assms(3) k p that
    by (simp add: incident_follows_def incident_move_def)
  ultimately show ?thesis using last_incident_last [OF k'] by auto
qed

theorem incident_history_grows_witness:
  "last_incident_event demo_store4 ''incident-1'' = Some demo_incident_event
   \<and> (\<exists>p'. last_incident_event demo_store4 ''incident-1'' = Some p'
        \<and> severity_level (ie_severity demo_incident_event) \<le> severity_level (ie_severity p'))"
proof -
  have last: "last_incident_event demo_store4 ''incident-1'' = Some demo_incident_event"
    by (simp add: last_incident_event_def events_of_incident_def demo_store4_def demo_incident_event_def Let_def)
  from incident_history_grows [OF fresh_no_tables demo_reached(4) rtranclp.rtrancl_refl this] last
  show ?thesis by blast
qed

end
