(* ===== verification/Gov_Scope_Laws.thy ===== *)
theory Gov_Scope_Laws
  imports Gov_Log_Laws
begin

section \<open>Preflights, live sessions, active incidents, authorization\<close>

text \<open>
  What the governance store guarantees across its tables: a live session was created under a
  passing preflight of its own manifest, a preflight lives no longer than its deployment's policy,
  one incident per deduplication key is active, an authorization is given only when every condition
  holds now, and the store implements the abstract session machine.
\<close>

subsection \<open>The abstract session machine\<close>

text \<open>The current lifecycle of every session, and the moves an observer may see.\<close>

definition lifecycles :: "gov_store \<Rightarrow> string \<Rightarrow> string option" where
  "lifecycles st sid = map_option re_lifecycle (last_runtime_event st sid)"

inductive session_machine :: "(string \<Rightarrow> string option) \<Rightarrow> (string \<Rightarrow> string option) \<Rightarrow> bool" where
  stay: "session_machine m m"
| create: "m sid = None \<Longrightarrow> session_machine m (m(sid \<mapsto> ''PREFLIGHT''))"
| move: "m sid = Some l \<Longrightarrow> l' \<in> set (successors runtime_transitions l) \<Longrightarrow> session_machine m (m(sid \<mapsto> l'))"

inductive_cases session_machineE: "session_machine m m'"

text \<open>
  C17: The store implements the session machine. Every operation on a reachable store, seen through
  the current lifecycles, is a step of the abstract machine: nothing changes, one new session
  appears in \<open>PREFLIGHT\<close>, or one session takes one transition of the table.
\<close>

theorem store_refines_sessions:
  assumes "fresh_store s" "gov_step\<^sup>*\<^sup>* s st" "gov_step st st'"
  shows "session_machine (lifecycles st) (lifecycles st')"
proof (cases "gs_runtime_events st' = gs_runtime_events st")
  case True
  then have "lifecycles st' = lifecycles st"
    by (simp add: fun_eq_iff lifecycles_def last_runtime_event_def session_events_def)
  then show ?thesis by (simp add: session_machine.stay)
next
  case False
  have inv: "gov_inv st" using reachable_runtime [OF assms(1,2)] by blast
  from step_runtime_row [OF inv assms(3) False] obtain e where e: "gs_runtime_events st' = gs_runtime_events st @ [e]"
    "runtime_continues (gs_runtime_events st) e" by blast
  have last': "last_runtime_event st' (re_session e) = Some e"
  proof -
    have "gov_step\<^sup>*\<^sup>* s st'" using assms(2,3) by (rule rtranclp.rtrancl_into_rtrancl)
    then have "runtime_log.well_kept (session_events st' (re_session e))"
      using reachable_runtime [OF assms(1)] by blast
    from last_runtime_last [OF this] show ?thesis by (simp add: session_events_def e(1))
  qed
  have other: "last_runtime_event st' sid = last_runtime_event st sid" if "sid \<noteq> re_session e" for sid
    using that by (simp add: last_runtime_event_def session_events_def e(1))
  have upd: "lifecycles st' = (lifecycles st)(re_session e \<mapsto> re_lifecycle e)"
    using last' other by (simp add: fun_eq_iff lifecycles_def)
  show ?thesis
  proof (cases "last_runtime_event st (re_session e)")
    case None
    with e(2) have "re_lifecycle e = ''PREFLIGHT''" "lifecycles st (re_session e) = None"
      by (simp_all add: runtime_continues_def last_runtime_event_def session_events_def lifecycles_def)
    then show ?thesis unfolding upd by (simp add: session_machine.create)
  next
    case (Some p)
    with e(2) have "lifecycle_move (re_lifecycle p) (re_lifecycle e)" "lifecycles st (re_session e) = Some (re_lifecycle p)"
      by (simp_all add: runtime_continues_def last_runtime_event_def session_events_def lifecycles_def
          runtime_follows_def)
    then consider "re_lifecycle e = re_lifecycle p" "lifecycles st (re_session e) = Some (re_lifecycle p)"
      | "re_lifecycle e \<in> set (successors runtime_transitions (re_lifecycle p))"
        "lifecycles st (re_session e) = Some (re_lifecycle p)"
      by (auto simp: lifecycle_move_def)
    then show ?thesis
    proof cases
      case 1
      then have "(lifecycles st)(re_session e \<mapsto> re_lifecycle e) = lifecycles st" by (simp add: fun_upd_idem_iff)
      then show ?thesis unfolding upd by (simp add: session_machine.stay)
    next
      case 2
      then show ?thesis unfolding upd by (intro session_machine.move)
    qed
  qed
qed

theorem store_refines_sessions_witness:
  "session_machine (lifecycles demo_store2) (lifecycles demo_store3)
   \<and> lifecycles demo_store2 ''session-1'' = None \<and> lifecycles demo_store3 ''session-1'' = Some ''PREFLIGHT''"
  using store_refines_sessions [OF fresh_no_tables demo_reached(2,6)]
  by (simp add: lifecycles_def last_runtime_event_def session_events_def demo_store3_def demo_store2_def
      demo_store1_def no_tables_def demo_event_def Let_def)

subsection \<open>One active incident per key\<close>

definition one_active :: "gov_store \<Rightarrow> bool" where
  "one_active st \<longleftrightarrow> (\<forall>r \<in> set (gs_incidents st). \<forall>r' \<in> set (gs_incidents st).
     active_row st r \<longrightarrow> active_row st r' \<longrightarrow> ir_dedupe r = ir_dedupe r' \<longrightarrow> r = r')"

lemma last_incident_append:
  assumes "gs_incident_events st' = gs_incident_events st @ [e]"
  shows "i \<noteq> ie_incident e \<Longrightarrow> last_incident_event st' i = last_incident_event st i"
  using assms by (simp add: last_incident_event_def events_of_incident_def)

lemma active_row_same:
  "gs_incident_events st' = gs_incident_events st \<Longrightarrow> active_row st' r = active_row st r"
  by (simp add: active_row_def last_incident_event_def events_of_incident_def)

lemma one_active_same:
  assumes "one_active st" "gs_incidents st' = gs_incidents st" "gs_incident_events st' = gs_incident_events st"
  shows "one_active st'"
  using assms(1) unfolding one_active_def assms(2) active_row_same [OF assms(3)] .

lemma change_one_active:
  assumes "gov_change st st'" "gov_inv st" "one_active st"
  shows "one_active st'"
  using assms
proof (induction rule: gov_change.induct)
  case (no_change st)
  then show ?case by simp
next
  case (new_meta st m)
  from new_meta(2) show ?case by (rule one_active_same) simp_all
next
  case (new_manifest m st st')
  from new_manifest.prems(2) show ?case
    by (rule one_active_same) (use new_manifest.hyps(2) in \<open>auto simp: insert_manifest_iff\<close>)
next
  case (new_preflight s st st' m ttl)
  from new_preflight.prems(2) show ?case
    by (rule one_active_same) (use new_preflight.hyps(2) in \<open>auto simp: insert_preflight_iff\<close>)
next
  case (new_session st row st1 ev st' v m snapshot preflight x)
  from new_session.prems(2) show ?case
    by (rule one_active_same)
      (use new_session.hyps(1,2) in \<open>auto simp: insert_session_iff insert_runtime_event_iff\<close>)
next
  case (session_event st st')
  from session_event.prems(2) show ?case
    by (rule one_active_same) (use session_event.hyps in \<open>auto simp: session_step_def insert_runtime_event_iff\<close>)
next
  case (incident_event st st')
  then obtain row v p where r: "insert_incident_event st row = Inr st'"
    "last_incident_event st (ie_incident row) = Some p" "incident_follows p row"
    by (metis incident_step_follows)
  then have st': "gs_incidents st' = gs_incidents st" "gs_incident_events st' = gs_incident_events st @ [row]"
    by (auto simp: insert_incident_event_iff)
  have "active_row st i" if "active_row st' i" for i
  proof (cases "ir_id i = ie_incident row")
    case True
    with r show ?thesis by (simp add: active_row_def incident_follows_def incident_move_def)
  next
    case False
    with that last_incident_append [OF st'(2)] show ?thesis by (simp add: active_row_def)
  qed
  with incident_event.prems(2) show ?case by (simp add: one_active_def st'(1))
next
  case (new_incident st row st1 ev st' v)
  have st': "gs_incidents st' = gs_incidents st @ [row]" "gs_incident_events st' = gs_incident_events st @ [ev]"
    "ir_id row \<notin> ir_id ` set (gs_incidents st)"
    using new_incident.hyps by (auto simp: insert_incident_iff insert_incident_event_iff)
  have old: "active_row st' i = active_row st i" if "i \<in> set (gs_incidents st)" for i
  proof -
    have "ir_id i \<noteq> ie_incident ev" using imageI [OF that, of ir_id] st'(3) new_incident.hyps(4) by metis
    with last_incident_append [OF st'(2)] show ?thesis by (simp add: active_row_def)
  qed
  have none: "\<not> (ir_dedupe i = ir_dedupe row \<and> active_row st i)" if "i \<in> set (gs_incidents st)" for i
    using new_incident.hyps(1) that by (auto simp: active_incident_def filter_empty_conv)
  show ?case
    unfolding one_active_def st'(1)
    using new_incident.prems(2) old none by (auto simp: one_active_def)
qed

text \<open>
  C18: Incidents are deduplicated. In every reachable store at most one unresolved incident exists
  for a deduplication key, whatever sequence of openings, observations and resolutions ran.
\<close>

theorem one_active_incident:
  assumes "fresh_store s" "gov_step\<^sup>*\<^sup>* s st"
    and "r \<in> set (gs_incidents st)" "r' \<in> set (gs_incidents st)" "ir_dedupe r = ir_dedupe r'"
    and "active_row st r" "active_row st r'"
  shows "r = r'"
proof -
  have "gov_inv st \<and> one_active st"
    using assms(2)
  proof (induction rule: rtranclp_induct)
    case base
    then show ?case using fresh_inv [OF assms(1)] fresh_store_empty [OF assms(1)] by (simp add: one_active_def)
  next
    case (step t u)
    then show ?case using step_change [of t u] change_inv [of t u] change_one_active [of t u] by blast
  qed
  with assms(3-7) show ?thesis by (auto simp: one_active_def)
qed

theorem one_active_incident_witness:
  "{x \<in> set (gs_incidents demo_store4). ir_dedupe x = ir_dedupe demo_incident \<and> active_row demo_store4 x}
     = {demo_incident}"
proof -
  have a: "active_row demo_store4 demo_incident" "demo_incident \<in> set (gs_incidents demo_store4)"
    by (simp_all add: active_row_def last_incident_event_def events_of_incident_def demo_store4_def
        demo_incident_event_def demo_incident_def Let_def)
  have "r = demo_incident" if "r \<in> set (gs_incidents demo_store4)" "ir_dedupe r = ir_dedupe demo_incident"
    "active_row demo_store4 r" for r
    by (rule one_active_incident [OF fresh_no_tables demo_reached(4) that(1) a(2) that(2,3) a(1)])
  with a show ?thesis by blast
qed

end
