(* ===== verification/Gov_Auth_Laws.thy ===== *)
theory Gov_Auth_Laws
  imports Gov_Scope_Laws Gov_Views
begin

section \<open>Preflights, live sessions and authorization\<close>

text \<open>
  The safety gate of live trading: a preflight is issued for the latest manifest and lives no longer
  than its policy, a live session needs a passing preflight of its own manifest, and an
  authorization is granted only when every condition holds at the moment of asking.
\<close>

subsection \<open>What a validity verdict means\<close>

lemma find_preflight_stored:
  assumes "gov_inv st" "find_preflight st sid = Inr (Some p)"
  shows "good_preflight p \<and> preflight_to_row p \<in> set (gs_preflights st) \<and> ps_id p = sid"
proof -
  from assms(2) obtain r where r: "find (\<lambda>r. pr_id r = sid) (gs_preflights st) = Some r"
    "res_bind (load_json (pr_payload r) ''preflight snapshot JSON is corrupt'') preflight_from_dict = Inr p"
    by (auto simp: find_preflight_def split: option.splits)
  then have mem: "r \<in> set (gs_preflights st)" "pr_id r = sid"
    by (auto simp: find_Some_iff)
  with assms(1) obtain s where s: "good_preflight s" "r = preflight_to_row s"
    by (auto simp: gov_inv_def preflights_ok_def)
  then have "s = p"
    using r(2) preflight_from_stored [OF s(1)] by (simp add: preflight_to_row_def load_json_def)
  moreover have "pr_id r = ps_id s" by (simp add: s(2) preflight_to_row_def)
  ultimately show ?thesis using s mem by simp
qed

lemma validity_means:
  assumes "preflight_validity_at st snapshot current = Inr v" "va_reasons v = []"
  obtains p l t e where "find_preflight st snapshot = Inr (Some p)" "ps_status p = ''PASS''"
    "latest_manifest st (ps_deployment p) = Inr (Some l)" "manifest_hash l = ps_manifest_hash p"
    "mf_config_revision l = ps_config_revision p" "mf_config_hash l = ps_config_hash p"
    "parse_utc (TsValue (PStr current)) ''at'' = Inr t"
    "parse_utc (TsValue (PStr (ps_expires p))) ''expires_at'' = Inr e" "t < e"
proof -
  from assms(1) obtain found where f: "find_preflight st snapshot = Inr found"
    by (auto simp: preflight_validity_at_def)
  with assms obtain p where p: "found = Some p"
    by (auto simp: preflight_validity_at_def split: option.splits)
  with assms(1) f obtain expired latest where x: "is_expired p (TsValue (PStr current)) = Inr expired"
    "latest_manifest st (ps_deployment p) = Inr latest"
    "va_reasons v = (if ps_status p \<noteq> ''PASS'' then [''preflight-status-'' @ lower (ps_status p)] else [])
       @ (if expired then [''preflight-expired''] else []) @ manifest_reasons latest p"
    by (auto simp: preflight_validity_at_def Let_def)
  from x(3) assms(2) have none: "ps_status p = ''PASS''" "\<not> expired" "manifest_reasons latest p = []"
    by (simp_all split: if_splits)
  from none(3) obtain l where l: "latest = Some l" "manifest_hash l = ps_manifest_hash p"
    "mf_config_revision l = ps_config_revision p" "mf_config_hash l = ps_config_hash p"
    by (auto simp: manifest_reasons_def split: option.splits if_splits)
  from x(1) none(2) obtain t e where "parse_utc (TsValue (PStr current)) ''at'' = Inr t"
    "parse_utc (TsValue (PStr (ps_expires p))) ''expires_at'' = Inr e" "t < e"
    by (auto simp: is_expired_def)
  with f p none(1) x(2) l show thesis by (intro that) auto
qed

lemma no_first_occurrences [simp]: "first_occurrences xs = [] \<longleftrightarrow> xs = []"
  by (simp add: first_occurrences_def)

subsection \<open>Live sessions\<close>

definition passing_preflight :: "gov_store \<Rightarrow> session_row \<Rightarrow> bool" where
  "passing_preflight st r \<longleftrightarrow>
     (\<exists>p \<in> set (gs_preflights st). pr_id p = sr_preflight_id r \<and> pr_status p = ''PASS''
        \<and> pr_manifest_hash p = sr_manifest_hash r
        \<and> stamp_instant (sr_created r) < stamp_instant (pr_expires p))"

definition live_preflighted :: "gov_store \<Rightarrow> bool" where
  "live_preflighted st \<longleftrightarrow>
     (\<forall>r \<in> set (gs_sessions st). sr_mode r \<in> set live_modes \<longrightarrow> passing_preflight st r)"

lemma session_preflight_passing:
  assumes "gov_inv st" "session_preflight st m mode snapshot created = Inr preflight" "mode \<in> set live_modes"
    and "iso_stamp created"
  obtains p where "preflight = Some p" "preflight_to_row p \<in> set (gs_preflights st)" "ps_status p = ''PASS''"
    "ps_manifest_hash p = manifest_hash m" "stamp_instant created < stamp_instant (ps_expires p)"
proof -
  have "snapshot \<noteq> []" using assms(2,3) by (auto simp: session_preflight_def)
  with assms(2) obtain v p where v: "preflight_validity_at st snapshot created = Inr v" "va_valid v"
    and p: "find_preflight st snapshot = Inr (Some p)" "ps_manifest_hash p = manifest_hash m" "preflight = Some p"
    by (auto simp: session_preflight_def split: if_splits option.splits)
  have "va_reasons v = []"
    using v by (auto simp: preflight_validity_at_def Let_def split: option.splits)
  from validity_means [OF v(1) this] obtain q t e where q: "find_preflight st snapshot = Inr (Some q)"
    "ps_status q = ''PASS''" "parse_utc (TsValue (PStr created)) ''at'' = Inr t"
    "parse_utc (TsValue (PStr (ps_expires q))) ''expires_at'' = Inr e" "t < e" by metis
  have good: "good_preflight p" "preflight_to_row p \<in> set (gs_preflights st)" and same: "q = p"
    using find_preflight_stored [OF assms(1) p(1)] q(1) p(1) by auto
  have "iso_stamp (ps_expires p)" using good(1) by (simp add: good_preflight_def)
  with q same assms(4) have "stamp_instant created < stamp_instant (ps_expires p)"
    by (simp add: parse_utc_stamp)
  with that p good q(2) same show thesis by blast
qed

lemma passing_preflight_mono:
  "passing_preflight st r \<Longrightarrow> set (gs_preflights st) \<subseteq> set (gs_preflights st') \<Longrightarrow> passing_preflight st' r"
  unfolding passing_preflight_def by blast

lemma live_preflighted_same:
  assumes "live_preflighted st" "gs_sessions st' = gs_sessions st"
    and "set (gs_preflights st) \<subseteq> set (gs_preflights st')"
  shows "live_preflighted st'"
  using assms passing_preflight_mono unfolding live_preflighted_def by metis

lemma change_live_preflighted:
  assumes "gov_change st st'" "gov_inv st" "live_preflighted st"
  shows "live_preflighted st'"
  using assms
proof (induction rule: gov_change.induct)
  case (no_change st)
  then show ?case by simp
next
  case (new_meta st m)
  from new_meta(2) show ?case by (rule live_preflighted_same) simp_all
next
  case (new_manifest m st st')
  from new_manifest.prems(2) show ?case
    by (rule live_preflighted_same) (use new_manifest.hyps(2) in \<open>auto simp: insert_manifest_iff\<close>)
next
  case (new_preflight s st st' m ttl)
  from new_preflight.prems(2) show ?case
    by (rule live_preflighted_same) (use new_preflight.hyps(2) in \<open>auto simp: insert_preflight_iff\<close>)
next
  case (new_session st row st1 ev st' v m snapshot preflight x)
  have st': "gs_sessions st' = gs_sessions st @ [row]" "gs_preflights st' = gs_preflights st"
    using new_session.hyps(1,2) by (auto simp: insert_session_iff insert_runtime_event_iff)
  have "passing_preflight st' row" if "sr_mode row \<in> set live_modes"
  proof -
    from session_preflight_passing [OF new_session.prems(1) new_session.hyps(8) that new_session.hyps(11)]
    obtain p where "preflight = Some p" "preflight_to_row p \<in> set (gs_preflights st)" "ps_status p = ''PASS''"
      "ps_manifest_hash p = manifest_hash m" "stamp_instant (sr_created row) < stamp_instant (ps_expires p)" .
    with new_session.hyps(7,9) st'(2) show ?thesis
      unfolding passing_preflight_def by (intro bexI [of _ "preflight_to_row p"]) (auto simp: preflight_to_row_def)
  qed
  moreover have "passing_preflight st' r" if "r \<in> set (gs_sessions st)" "sr_mode r \<in> set live_modes" for r
    using new_session.prems(2) that st'(2) by (simp add: live_preflighted_def passing_preflight_def)
  ultimately show ?case by (auto simp: live_preflighted_def st'(1))
next
  case (session_event st st')
  from session_event.prems(2) show ?case
    by (rule live_preflighted_same) (use session_event.hyps in \<open>auto simp: session_step_def insert_runtime_event_iff\<close>)
next
  case (incident_event st st')
  from incident_event.prems(2) show ?case
    by (rule live_preflighted_same) (use incident_event.hyps in \<open>auto simp: incident_step_def insert_incident_event_iff\<close>)
next
  case (new_incident st row st1 ev st' v)
  from new_incident.prems(2) show ?case
    by (rule live_preflighted_same)
      (use new_incident.hyps(2,3) in \<open>auto simp: insert_incident_iff insert_incident_event_iff\<close>)
qed

text \<open>
  C10: No live session without a passing preflight. In every reachable store, each session in
  \<open>SMALL_LIVE\<close> or \<open>FULL_LIVE\<close> mode names a stored preflight with status \<open>PASS\<close>, issued for the very
  manifest the session runs, and not expired when the session was created.
\<close>

theorem live_session_preflighted:
  assumes "fresh_store s" "gov_step\<^sup>*\<^sup>* s st" "r \<in> set (gs_sessions st)" "sr_mode r \<in> set live_modes"
  shows "\<exists>p. p \<in> set (gs_preflights st) \<and> pr_id p = sr_preflight_id r \<and> pr_status p = ''PASS''
    \<and> pr_manifest_hash p = sr_manifest_hash r
    \<and> stamp_instant (sr_created r) < stamp_instant (pr_expires p)"
proof -
  have "gov_inv st \<and> live_preflighted st"
    using assms(2)
  proof (induction rule: rtranclp_induct)
    case base
    then show ?case using fresh_inv [OF assms(1)] fresh_store_empty [OF assms(1)] by (simp add: live_preflighted_def)
  next
    case (step t u)
    then show ?case using step_change [of t u] change_inv [of t u] change_live_preflighted [of t u] by blast
  qed
  with assms(3,4) show ?thesis by (auto simp: live_preflighted_def passing_preflight_def)
qed

theorem live_session_preflighted_witness:
  "\<exists>p. p \<in> set (gs_preflights demo_store3) \<and> pr_id p = ''preflight-1'' \<and> pr_status p = ''PASS''
    \<and> pr_manifest_hash p = manifest_hash demo_manifest"
proof -
  have "demo_session \<in> set (gs_sessions demo_store3)" by (simp add: demo_store3_def)
  moreover have "sr_mode demo_session \<in> set live_modes" by (simp add: demo_session_def live_modes_def)
  moreover have "sr_preflight_id demo_session = ''preflight-1''" "sr_manifest_hash demo_session = manifest_hash demo_manifest"
    by (simp_all add: demo_session_def)
  ultimately show ?thesis using live_session_preflighted [OF fresh_no_tables demo_reached(3)] by metis
qed

end
