(* ===== verification/Gov_Gate_Laws.thy ===== *)
theory Gov_Gate_Laws
  imports Gov_Auth_Laws
begin

section \<open>The authorization gate\<close>

text \<open>
  What a granted authorization and an issued preflight guarantee, and that manifests and preflights
  survive their way through the database.
\<close>

lemma no_blocking_incident:
  assumes "blocking_incident_count st s = Inr 0" "r \<in> set (gs_incidents st)"
  shows "blocks_session st s r = Inr False"
proof -
  from assms(1) obtain flags where f: "res_map (blocks_session st s) (gs_incidents st) = Inr flags"
    "filter id flags = []"
    by (auto simp: blocking_incident_count_def)
  from f(1) have all: "list_all2 (\<lambda>x y. blocks_session st s x = Inr y) (gs_incidents st) flags"
    by (simp add: res_map_Inr_iff)
  from assms(2) obtain i where i: "i < length (gs_incidents st)" "gs_incidents st ! i = r"
    unfolding in_set_conv_nth by blast
  from list_all2_nthD [OF all i(1)] list_all2_lengthD [OF all] i
  have "blocks_session st s r = Inr (flags ! i)" "i < length flags" by simp_all
  moreover from nth_mem [OF this(2)] f(2) have "\<not> flags ! i" unfolding filter_empty_conv id_apply by blast
  ultimately show ?thesis by simp
qed

text \<open>
  The intent, over the rows: the newest event of an incident, the route a manifest's row names, and
  whether an incident is critical and touches a session, its deployment or its route.
\<close>

definition newest_event :: "gov_store \<Rightarrow> string \<Rightarrow> json_column incident_event \<Rightarrow> bool" where
  "newest_event st iid e \<longleftrightarrow> e \<in> set (gs_incident_events st) \<and> ie_incident e = iid
     \<and> (\<forall>e' \<in> set (gs_incident_events st). ie_incident e' = iid \<longrightarrow> e' \<noteq> e \<longrightarrow> ie_sequence e' < ie_sequence e)"

definition names_route :: "gov_store \<Rightarrow> string \<Rightarrow> string \<Rightarrow> bool" where
  "names_route st hash route \<longleftrightarrow>
     (\<exists>m v. find (\<lambda>r. mr_hash r = hash) (gs_manifests st) = Some m \<and> mr_payload m = Inr v
        \<and> dict_get (as_dict v) ''brokerRoute'' = PStr route)"

definition critical_for :: "gov_store \<Rightarrow> runtime_session \<Rightarrow> incident_row \<Rightarrow> bool" where
  "critical_for st s r \<longleftrightarrow>
     (\<exists>e. newest_event st (ir_id r) e \<and> ie_state e \<noteq> ''RESOLVED'' \<and> ie_severity e = ''CRITICAL'')
     \<and> (ir_session r = rs_id s \<or> ir_deployment r = rs_deployment s \<or> ir_scope_type r = ''GLOBAL''
        \<or> (ir_scope_type r, ir_scope_id r) \<in> {(''SESSION'', rs_id s), (''DEPLOYMENT'', rs_deployment s)}
        \<or> (ir_scope_type r = ''ROUTE'' \<and> names_route st (rs_manifest_hash s) (ir_scope_id r)))"

lemma newest_event_last:
  assumes "newest_event st iid e"
  shows "last_incident_event st iid = Some e"
proof -
  have e: "e \<in> set (events_of_incident st iid)" using assms by (auto simp: newest_event_def events_of_incident_def)
  then obtain l where l: "last_incident_event st iid = Some l"
    by (cases "last_incident_event st iid") (auto simp: last_incident_event_def)
  with e newest_Some [of ie_sequence "events_of_incident st iid" l] have "ie_sequence e \<le> ie_sequence l"
    "l \<in> set (gs_incident_events st)" "ie_incident l = iid"
    by (auto simp: last_incident_event_def events_of_incident_def)
  with assms have "l = e" unfolding newest_event_def by fastforce
  with l show ?thesis by simp
qed

lemma critical_for_blocks:
  assumes "critical_for st s r"
  shows "blocks_session st s r \<noteq> Inr False"
proof -
  have "critical_row st r" using assms newest_event_last by (auto simp: critical_for_def critical_row_def)
  moreover have "ir_scope_type r = ''GLOBAL'' \<or> ir_session r = rs_id s \<or> ir_deployment r = rs_deployment s
      \<or> (ir_scope_type r = ''SESSION'' \<and> ir_scope_id r = rs_id s)
      \<or> (ir_scope_type r = ''DEPLOYMENT'' \<and> ir_scope_id r = rs_deployment s)
      \<or> (ir_scope_type r = ''ROUTE'' \<and> names_route st (rs_manifest_hash s) (ir_scope_id r))"
    using assms unfolding critical_for_def by auto
  ultimately show ?thesis by (auto simp: blocks_session_def names_route_def manifest_route_def)
qed

text \<open>What \<open>runtime_authorization\<close> promises when it allows; the preflight is \<open>fresh\<close> when it was asked to be.\<close>

definition may_trade :: "bool \<Rightarrow> gov_store \<Rightarrow> string \<Rightarrow> instant \<Rightarrow> bool" where
  "may_trade fresh st sid now \<longleftrightarrow>
     (\<exists>s l. find_session st sid = Inr (Some s)
        \<and> rs_mode s \<in> set live_modes \<and> rs_lifecycle s = ''RUNNING''
        \<and> latest_manifest st (rs_deployment s) = Inr (Some l) \<and> manifest_hash l = rs_manifest_hash s
        \<and> (fresh \<longrightarrow> (\<exists>p lp e. find_preflight st (rs_preflight_id s) = Inr (Some p) \<and> ps_status p = ''PASS''
             \<and> latest_manifest st (ps_deployment p) = Inr (Some lp) \<and> manifest_hash lp = ps_manifest_hash p
             \<and> mf_config_hash lp = ps_config_hash p \<and> mf_config_revision lp = ps_config_revision p
             \<and> parse_utc (TsValue (PStr (ps_expires p))) ''expires_at'' = Inr e \<and> now < e))
        \<and> (\<forall>r \<in> set (gs_incidents st). \<not> critical_for st s r))"

lemma authorization_parts:
  assumes "runtime_authorization st sid moment fresh clock = Inr a" "au_allowed a"
  obtains current s latest where "now_text clock moment = Inr current" "find_session st sid = Inr (Some s)"
    "latest_manifest st (rs_deployment s) = Inr latest"
    "fresh \<longrightarrow> (\<exists>v. preflight_validity_at st (rs_preflight_id s) current = Inr v \<and> va_reasons v = [])"
    "blocking_incident_count st s = Inr 0"
    "rs_mode s \<in> set live_modes" "rs_lifecycle s = ''RUNNING''"
    "\<not> (case latest of None \<Rightarrow> True | Some l \<Rightarrow> manifest_hash l \<noteq> rs_manifest_hash s)"
proof -
  from assms(1) obtain current found where f: "now_text clock moment = Inr current" "find_session st sid = Inr found"
    unfolding runtime_authorization_def by (elim res_bindE)
  note run = assms(1) [unfolded runtime_authorization_def f res_bind_Inr]
  from run assms(2) obtain s where s: "found = Some s" by (cases found) auto
  from run [unfolded s option.case] obtain latest reasons critical where
    l: "latest_manifest st (rs_deployment s) = Inr latest"
    and r: "(if fresh then res_bind (preflight_validity_at st (rs_preflight_id s) current) (\<lambda>v. Inr (va_reasons v))
        else Inr []) = Inr reasons"
    and c: "blocking_incident_count st s = Inr critical"
    and a: "a = (let reasons = first_occurrences
               ((if rs_mode s \<notin> set live_modes then [''runtime-session-not-live''] else [])
                @ (if rs_lifecycle s \<noteq> ''RUNNING'' then [''runtime-session-'' @ lower (rs_lifecycle s)] else [])
                @ (if (case latest of None \<Rightarrow> True | Some l \<Rightarrow> manifest_hash l \<noteq> rs_manifest_hash s)
                   then [''deployment-manifest-superseded''] else [])
                @ reasons
                @ (if critical \<noteq> 0 then [''critical-incidents:'' @ nat_text critical] else []))
         in \<lparr>au_allowed = (reasons = []), au_reasons = reasons, au_session = Some s, au_checked = Some current\<rparr>)"
    by (elim res_bindE) (simp add: Let_def)
  from a assms(2) have none: "rs_mode s \<in> set live_modes" "rs_lifecycle s = ''RUNNING''"
    "\<not> (case latest of None \<Rightarrow> True | Some l \<Rightarrow> manifest_hash l \<noteq> rs_manifest_hash s)"
    "reasons = []" "critical = 0"
    by (simp_all add: Let_def split: if_split_asm)
  have "fresh \<longrightarrow> (\<exists>v. preflight_validity_at st (rs_preflight_id s) current = Inr v \<and> va_reasons v = [])"
    using r none(4) by auto
  from that [OF f(1) _ l this _ none(1-3)] f(2) s c none(5) show thesis by simp
qed

text \<open>
  C9: Authorization is safe. When \<open>runtime_authorization\<close> allows trading, then at the moment asked
  about the session runs in a live mode, its manifest is the deployment's latest, and no incident whose
  newest event is unresolved and critical is global or touches the session, its deployment or its
  manifest's route. When a fresh preflight was required (the default), the session's current preflight
  passed, belongs to a latest manifest with the same configuration and has not expired; without the
  requirement nothing is said of it.
\<close>

theorem authorization_safe:
  assumes "runtime_authorization st sid moment fresh clock = Inr a" "au_allowed a"
  shows "\<exists>now current. now_text clock moment = Inr current \<and> parse_utc (TsValue (PStr current)) ''at'' = Inr now
    \<and> may_trade fresh st sid now"
proof -
  from authorization_parts [OF assms] obtain current s latest where c: "now_text clock moment = Inr current"
    "find_session st sid = Inr (Some s)" "latest_manifest st (rs_deployment s) = Inr latest"
    and v: "fresh \<longrightarrow> (\<exists>v. preflight_validity_at st (rs_preflight_id s) current = Inr v \<and> va_reasons v = [])"
    and b: "blocking_incident_count st s = Inr 0"
    and live: "rs_mode s \<in> set live_modes" "rs_lifecycle s = ''RUNNING''"
    and up: "\<not> (case latest of None \<Rightarrow> True | Some l \<Rightarrow> manifest_hash l \<noteq> rs_manifest_hash s)" .
  from up obtain l where l: "latest = Some l" "manifest_hash l = rs_manifest_hash s" by (cases latest) auto
  obtain t where t: "parse_utc (TsValue (PStr current)) ''at'' = Inr t"
    using parse_utc_stamp [OF now_text_stamp [OF c(1)]] by blast
  have "\<exists>p lp e. find_preflight st (rs_preflight_id s) = Inr (Some p) \<and> ps_status p = ''PASS''
      \<and> latest_manifest st (ps_deployment p) = Inr (Some lp) \<and> manifest_hash lp = ps_manifest_hash p
      \<and> mf_config_hash lp = ps_config_hash p \<and> mf_config_revision lp = ps_config_revision p
      \<and> parse_utc (TsValue (PStr (ps_expires p))) ''expires_at'' = Inr e \<and> t < e" if fresh
  proof -
    from v that obtain v where v: "preflight_validity_at st (rs_preflight_id s) current = Inr v" "va_reasons v = []"
      by blast
    from validity_means [OF v] obtain p lp u e where p: "find_preflight st (rs_preflight_id s) = Inr (Some p)"
      "ps_status p = ''PASS''" "latest_manifest st (ps_deployment p) = Inr (Some lp)"
      "manifest_hash lp = ps_manifest_hash p" "mf_config_hash lp = ps_config_hash p"
      "mf_config_revision lp = ps_config_revision p" "parse_utc (TsValue (PStr (ps_expires p))) ''expires_at'' = Inr e" "u < e"
      and u: "parse_utc (TsValue (PStr current)) ''at'' = Inr u" by metis
    from u t have "u = t" by simp
    with p show ?thesis by blast
  qed
  moreover have "\<forall>r \<in> set (gs_incidents st). \<not> critical_for st s r"
    using no_blocking_incident [OF b] critical_for_blocks by metis
  ultimately have "may_trade fresh st sid t" unfolding may_trade_def using c(2,3) l live by blast
  with c(1) t show ?thesis by blast
qed

subsection \<open>Issuing preflights\<close>

text \<open>
  C11: A preflight is issued within its policy. A created snapshot is stored, belongs to the latest
  manifest of its deployment with that manifest's account and configuration, carries the status of
  its checks, and expires 1 second to one hour after its issue and never later than the deployment's
  policy allows. A refused request leaves the store as it was.
\<close>

theorem preflight_issued_within_policy:
  assumes "create_preflight_snapshot st rq uuid clock = (st', outcome)"
  shows "case outcome of
      Inl e \<Rightarrow> st' = st
    | Inr s \<Rightarrow> gs_preflights st' = gs_preflights st @ [preflight_to_row s]
        \<and> ps_status s = preflight_status (ps_checks s)
        \<and> (\<exists>m l. good_manifest m \<and> ps_deployment s = mf_deployment m \<and> ps_manifest_hash s = manifest_hash m
             \<and> ps_account s = mf_account m \<and> ps_config_hash s = mf_config_hash m
             \<and> latest_manifest st (ps_deployment s) = Inr (Some l) \<and> manifest_hash l = manifest_hash m
             \<and> (let life = stamp_instant (ps_expires s) - stamp_instant (ps_issued s)
                in 1000000 \<le> life \<and> life \<le> mf_ttl m * 1000000 \<and> life \<le> 3600 * 1000000))"
proof (cases outcome)
  case (Inl e)
  with assms show ?thesis
    by (auto simp: create_preflight_snapshot_def transaction_def split: sum.splits prod.splits)
next
  case (Inr s)
  with assms obtain hash issued where issued: "now_text clock (rq_issued rq) = Inr issued"
    and b: "build_preflight st rq hash issued uuid = Inr s"
    and ins: "insert_preflight st (preflight_to_row s) = Inr st'"
    unfolding create_preflight_snapshot_def transaction_def
    by (auto split: sum.splits prod.splits)
  from build_preflight_parts [OF b now_text_stamp [OF issued]] obtain m ttl where
    good: "good_preflight s" and m: "current_manifest st hash (rq_deployment rq) = Inr m"
    and same: "ps_manifest_hash s = manifest_hash m" "ps_deployment s = mf_deployment m"
      "ps_account s = mf_account m" "ps_config_hash s = mf_config_hash m"
    and ttl: "1 \<le> ttl" "ttl \<le> mf_ttl m" "ttl \<le> max_preflight_ttl"
    and life: "stamp_instant (ps_expires s) = stamp_instant (ps_issued s) + ttl * 1000000" by metis
  from current_manifest_cases [OF m] obtain l where "good_manifest m"
    "latest_manifest st (mf_deployment m) = Inr (Some l)" "manifest_hash l = manifest_hash m" by blast
  moreover have "ps_status s = preflight_status (ps_checks s)" using good by (simp add: good_preflight_def)
  moreover have "gs_preflights st' = gs_preflights st @ [preflight_to_row s]"
    using ins by (auto simp: insert_preflight_iff)
  ultimately show ?thesis
    using same ttl life Inr by (auto simp: Let_def max_preflight_ttl_def)
qed

theorem preflight_issued_within_policy_witness:
  "gs_preflights demo_store2 = gs_preflights demo_store1 @ [preflight_to_row demo_preflight]
   \<and> ps_status demo_preflight = preflight_status (ps_checks demo_preflight)"
  using preflight_issued_within_policy [OF demo_step2] by simp

subsection \<open>Through the database and back\<close>

text \<open>
  C12: Manifests and preflights survive storage. Whatever the constructors accept is read back equal
  from its stored JSON, with its digest verified: \<open>from_dict\<close> inverts \<open>to_dict\<close>.
\<close>

theorem records_roundtrip:
  assumes "make_manifest raw = Inr m" "make_preflight raw' = Inr s"
  shows "manifest_from_dict (canon (PDict (manifest_dict m))) = Inr m
    \<and> preflight_from_dict (canon (PDict (preflight_dict s))) = Inr s"
  using manifest_from_stored [OF make_manifest_good [OF assms(1)]]
    preflight_from_stored [OF make_preflight_good [OF assms(2)]] by (rule conjI)

theorem records_roundtrip_witness:
  "manifest_from_dict (canon (PDict (manifest_dict demo_manifest))) = Inr demo_manifest
   \<and> preflight_from_dict (canon (PDict (preflight_dict demo_preflight))) = Inr demo_preflight"
proof (rule records_roundtrip)
  show "make_manifest (manifest_as_input demo_manifest) = Inr demo_manifest"
    by (rule make_manifest_again [OF good_demo_manifest])
  show "make_preflight (preflight_as_input demo_preflight [check_json demo_check]) = Inr demo_preflight"
    by (rule make_preflight_again [OF good_demo_preflight]) (simp add: demo_preflight_def check_json_reads)
qed

subsection \<open>A session that may trade\<close>

definition running_event :: "json_column runtime_event" where
  "running_event = demo_event\<lparr>re_lifecycle := ''RUNNING''\<rparr>"

definition running_store :: gov_store where
  "running_store = demo_store3\<lparr>gs_runtime_events := [running_event]\<rparr>"

lemma running_session:
  "\<exists>s. find_session running_store ''session-1'' = Inr (Some s) \<and> rs_mode s = ''SMALL_LIVE''
     \<and> rs_lifecycle s = ''RUNNING'' \<and> rs_deployment s = ''demo'' \<and> rs_preflight_id s = ''preflight-1''
     \<and> rs_manifest_hash s = manifest_hash demo_manifest"
proof -
  have events: "session_events running_store ''session-1'' = [running_event]" "re_type running_event = ''SESSION_CREATED''"
    "re_lifecycle running_event = ''RUNNING''"
    by (simp_all add: session_events_def running_store_def running_event_def demo_event_def Let_def)
  then have "last_runtime_event running_store ''session-1'' = Some running_event"
    "rebound_preflight running_store ''session-1'' b = Inr b" for b
    by (simp_all add: last_runtime_event_def rebound_preflight_def)
  moreover have "find (\<lambda>r. sr_id r = ''session-1'') (gs_sessions running_store) = Some demo_session"
    by (simp add: running_store_def demo_store3_def demo_session_def)
  ultimately show ?thesis
    by (simp add: find_session_def events load_json_def demo_session_def)
qed

lemma running_lookups:
  "latest_manifest running_store d = latest_manifest demo_store2 d"
  "preflight_validity_at running_store p t = preflight_validity_at demo_store2 p t"
proof -
  have same: "gs_manifests running_store = gs_manifests demo_store2" "gs_preflights running_store = gs_preflights demo_store2"
    by (simp_all add: running_store_def demo_store3_def)
  show latest: "latest_manifest running_store d = latest_manifest demo_store2 d" for d
    by (simp add: latest_manifest_def latest_manifest_row_def same)
  show "preflight_validity_at running_store p t = preflight_validity_at demo_store2 p t"
    unfolding preflight_validity_at_def find_preflight_def same latest by (rule refl)
qed

lemma running_authorized:
  "\<exists>a. runtime_authorization running_store ''session-1'' (TsValue (PStr demo_time)) True demo_clock = Inr a \<and> au_allowed a"
proof -
  obtain s where s: "find_session running_store ''session-1'' = Inr (Some s)" "rs_mode s \<in> set live_modes"
    "rs_lifecycle s = ''RUNNING''" "rs_deployment s = ''demo''" "rs_preflight_id s = ''preflight-1''"
    "rs_manifest_hash s = manifest_hash demo_manifest"
    using running_session by (auto simp: live_modes_def)
  obtain v where v: "preflight_validity_at demo_store2 ''preflight-1'' demo_time = Inr v" "va_reasons v = []"
    using demo_valid by (auto simp: preflight_validity_at_def Let_def split: option.splits)
  have now: "now_text demo_clock (TsValue (PStr demo_time)) = Inr demo_time"
    by (rule now_text_again [OF demo_stamps(1)])
  have latest: "latest_manifest demo_store2 ''demo'' = Inr (Some demo_manifest)"
    by (rule demo_lookup) (simp add: demo_store2_def demo_store1_def)
  have none: "blocking_incident_count running_store s = Inr 0"
    by (simp add: blocking_incident_count_def running_store_def demo_store3_def demo_store2_def demo_store1_def
        no_tables_def)
  show ?thesis
    by (simp add: runtime_authorization_def now s running_lookups latest v none)
qed

theorem authorization_safe_witness: "\<exists>now. may_trade True running_store ''session-1'' now"
proof -
  from running_authorized obtain a where
    "runtime_authorization running_store ''session-1'' (TsValue (PStr demo_time)) True demo_clock = Inr a" "au_allowed a"
    by blast
  from authorization_safe [OF this] show ?thesis by blast
qed

end
