(* ===== verification/Gov_Edge_Cases.thy ===== *)
theory Gov_Edge_Cases
  imports Gov_Gate_Laws
begin

section \<open>Where the governance store departs from its intent\<close>

text \<open>
  Two behaviours of the store that its operations and documentation do not lead one to expect: the
  event type that rebinds a session's preflight is not reserved for the checked operation, and
  "newest" rows are chosen by comparing timestamps as texts.
\<close>

subsection \<open>The rebinding event is not reserved\<close>

lemma last_runtime_greatest:
  assumes "last_runtime_event st sid = Some p" "x \<in> set (session_events st sid)"
  shows "re_sequence x \<le> re_sequence p"
  using newest_Some [of re_sequence "session_events st sid" p] assms by (auto simp: last_runtime_event_def)

lemma appended_event:
  assumes "append_runtime_event st sid ty actor payload occurred uuid clock = (st', Inr e)"
    and "required_text ty ''event_type'' = Inr event_type"
  obtains s row v where "find_session st sid = Inr (Some s)" "json_object payload ''payload'' = Inr v"
    "session_events st' sid = session_events st sid @ [row]" "gs_sessions st' = gs_sessions st"
    "re_type row = event_type" "re_payload row = Inr (PDict v)"
    "\<forall>x \<in> set (session_events st sid). re_sequence x < re_sequence row"
    "enum_text (PStr (rs_lifecycle s)) runtime_lifecycles ''runtime lifecycle'' = Inr (re_lifecycle row)"
proof -
  from assms(1) obtain current s where
    s: "existing_session st sid = Inr s"
    and step: "append_runtime_event_conn st (rs_id s) (PStr (rs_lifecycle s)) ty actor payload current uuid = Inr (st', e)"
    unfolding append_runtime_event_def transaction_def by (auto split: sum.splits prod.splits)
  have s': "find_session st sid = Inr (Some s)" using s by (simp add: existing_session_Inr)
  from find_session_Some [OF s'] obtain p where p: "rs_id s = sid" "last_runtime_event st sid = Some p" by metis
  from append_runtime_cases [OF step] obtain row v where r: "insert_runtime_event st row = Inr st'"
    "re_session row = sid" "required_text ty ''event_type'' = Inr (re_type row)" "runtime_row st row v"
    "json_object payload ''payload'' = Inr v"
    "enum_text (PStr (rs_lifecycle s)) runtime_lifecycles ''runtime lifecycle'' = Inr (re_lifecycle row)"
    using p(1) by metis
  have seq: "re_sequence row = re_sequence p + 1" "re_payload row = Inr (PDict v)"
    using r(2,4) p(2) by (simp_all add: runtime_row_def)
  have "\<forall>x \<in> set (session_events st sid). re_sequence x < re_sequence row"
    using last_runtime_greatest [OF p(2)] seq(1) by fastforce
  moreover have "session_events st' sid = session_events st sid @ [row]" "gs_sessions st' = gs_sessions st"
    using r(1,2) by (auto simp: insert_runtime_event_iff session_events_def)
  ultimately show thesis
    using s' r(3,5,6) seq(2) assms(2) by (intro that) auto
qed

text \<open>
  The rebinding event is not reserved. \<open>append_runtime_event\<close> accepts the event type
  \<open>PREFLIGHT_REBOUND\<close> with any payload. Without a \<open>preflightSnapshotId\<close> in it every later read of the
  session raises; with an id and a digest the session is bound to that preflight, without any of the
  checks of \<open>rebind_runtime_preflight\<close>.
\<close>

theorem rebound_event_unchecked:
  assumes "append_runtime_event st sid (PStr ''PREFLIGHT_REBOUND'') actor payload occurred uuid clock = (st', Inr e)"
  shows "(dict_get payload ''preflightSnapshotId'' = PNone \<longrightarrow>
        find_session st' sid = Inl (ValueError ''preflightSnapshotId is required''))
    \<and> (\<forall>p h. dict_get payload ''preflightSnapshotId'' = PStr p \<and> good_text p
          \<and> dict_get payload ''preflightSnapshotHash'' = PStr h \<and> sha_pattern h \<longrightarrow>
        (\<exists>s'. find_session st' sid = Inr (Some s') \<and> rs_preflight_id s' = p \<and> rs_preflight_hash s' = h))"
proof -
  have "good_text ''PREFLIGHT_REBOUND''" by code_simp
  then have ty: "required_text (PStr ''PREFLIGHT_REBOUND'') ''event_type'' = Inr ''PREFLIGHT_REBOUND''"
    by (rule required_text_again)
  from appended_event [OF assms ty] obtain s row v where s: "find_session st sid = Inr (Some s)"
    and v: "json_object payload ''payload'' = Inr v"
    and ev: "session_events st' sid = session_events st sid @ [row]" "gs_sessions st' = gs_sessions st"
    and row: "re_type row = ''PREFLIGHT_REBOUND''" "re_payload row = Inr (PDict v)"
    and new: "\<forall>x \<in> set (session_events st sid). re_sequence x < re_sequence row" by metis
  have get: "dict_get v k = canon (dict_get payload k)" for k
    using v by (simp add: json_object_iff)
  have last: "last_runtime_event st' sid = Some row"
    unfolding last_runtime_event_def ev(1) using new by (intro newest_snoc) simp
  have rebound: "newest re_sequence (filter (\<lambda>e. re_type e = ''PREFLIGHT_REBOUND'') (session_events st' sid)) = Some row"
    unfolding ev(1) using new row(1) by (simp, intro newest_snoc) simp
  from s obtain r where r: "find (\<lambda>r. sr_id r = sid) (gs_sessions st) = Some r"
    "\<exists>m. load_json (sr_metadata r) ''runtime session metadata is corrupt'' = Inr m"
    by (auto simp: find_session_def split: option.splits)
  then obtain m where m: "sr_metadata r = Inr m" by (auto simp: load_json_def split: sum.splits)
  have read: "find_session st' sid
      = res_bind (required_text (dict_get v ''preflightSnapshotId'') ''preflightSnapshotId'') (\<lambda>p.
        res_bind (required_sha256 (dict_get v ''preflightSnapshotHash'') ''preflightSnapshotHash'') (\<lambda>h.
        Inr (Some \<lparr>rs_id = sr_id r, rs_deployment = sr_deployment r,
            rs_manifest_hash = sr_manifest_hash r, rs_preflight_id = p, rs_preflight_hash = h,
            rs_config_revision = sr_config_revision r, rs_config_hash = sr_config_hash r,
            rs_profile = sr_profile r, rs_mode = sr_mode r, rs_instance = sr_instance r,
            rs_lifecycle = re_lifecycle row, rs_created = sr_created r, rs_metadata = m\<rparr>)))"
    by (simp add: find_session_def ev(2) r(1) last m rebound_preflight_def rebound row(2) load_json_def
        require_mapping_def res_bind_assoc)
  have "find_session st' sid = Inl (ValueError ''preflightSnapshotId is required'')"
    if "dict_get payload ''preflightSnapshotId'' = PNone"
    using that by (simp add: read get required_text_def plain_text_def)
  moreover have "\<exists>s'. find_session st' sid = Inr (Some s') \<and> rs_preflight_id s' = p \<and> rs_preflight_hash s' = h"
    if "dict_get payload ''preflightSnapshotId'' = PStr p" "good_text p"
      "dict_get payload ''preflightSnapshotHash'' = PStr h" "sha_pattern h" for p h
    using that by (simp add: read get required_text_again required_sha256_again)
  ultimately show ?thesis by blast
qed

text \<open>A running session whose stored event carries a placeholder for its digest.\<close>

definition placeholder_event :: "json_column runtime_event" where
  "placeholder_event = running_event\<lparr>re_hash := ''x''\<rparr>"

definition placeholder_store :: gov_store where
  "placeholder_store = running_store\<lparr>gs_runtime_events := [placeholder_event]\<rparr>"

definition other_uuid :: "string \<Rightarrow> string" where "other_uuid kind = ''1''"

lemma placeholder_session:
  "\<exists>s. existing_session placeholder_store ''session-1'' = Inr s \<and> rs_id s = ''session-1'' \<and> rs_lifecycle s = ''RUNNING''"
proof -
  have events: "session_events placeholder_store ''session-1'' = [placeholder_event]"
    "re_type placeholder_event = ''SESSION_CREATED''" "re_lifecycle placeholder_event = ''RUNNING''"
    by (simp_all add: session_events_def placeholder_store_def placeholder_event_def running_event_def demo_event_def Let_def)
  then have "last_runtime_event placeholder_store ''session-1'' = Some placeholder_event"
    "rebound_preflight placeholder_store ''session-1'' b = Inr b" for b
    by (simp_all add: last_runtime_event_def rebound_preflight_def)
  moreover have "find (\<lambda>r. sr_id r = ''session-1'') (gs_sessions placeholder_store) = Some demo_session"
    by (simp add: placeholder_store_def running_store_def demo_store3_def demo_session_def)
  ultimately show ?thesis
    by (simp add: existing_session_def find_session_def events load_json_def demo_session_def)
qed

lemma rebound_accepted:
  "\<exists>st' e. append_runtime_event placeholder_store ''session-1'' (PStr ''PREFLIGHT_REBOUND'') (PStr ''operator'') []
     (TsValue (PStr demo_time)) other_uuid demo_clock = (st', Inr e)"
proof -
  obtain s where s: "existing_session placeholder_store ''session-1'' = Inr s" "rs_id s = ''session-1''"
    "rs_lifecycle s = ''RUNNING''" using placeholder_session by blast
  have "good_text ''PREFLIGHT_REBOUND''" "good_text ''operator''" by code_simp+
  then have texts: "required_text (PStr ''PREFLIGHT_REBOUND'') l = Inr ''PREFLIGHT_REBOUND''"
    "required_text (PStr ''operator'') l = Inr ''operator''" for l by (simp_all add: required_text_again)
  have life: "enum_text (PStr ''RUNNING'') runtime_lifecycles l = Inr ''RUNNING''" for l
    by (rule enum_text_again) (simp, simp add: runtime_lifecycles_def)
  have last: "last_runtime_event placeholder_store ''session-1'' = Some placeholder_event"
    by (simp add: last_runtime_event_def session_events_def placeholder_store_def placeholder_event_def
        running_event_def demo_event_def Let_def)
  have prev: "re_sequence placeholder_event = 1" "re_hash placeholder_event = ''x''" "re_at placeholder_event = demo_time"
    by (simp_all add: placeholder_event_def running_event_def demo_event_def Let_def)
  have order: "check_time_order demo_time demo_time m = Inr ()" for m
    by (simp add: check_time_order_def parse_utc_stamp [OF demo_stamps(1)])
  have digest: "seal v \<noteq> ''x''" for v using seal_pattern [of v] by (auto simp: sha_pattern_def)
  have rows: "gs_runtime_events placeholder_store = [placeholder_event]" "gs_sessions placeholder_store = [demo_session]"
    "re_id placeholder_event = ''runtime-event-0''" "re_session placeholder_event = ''session-1''"
    "sr_id demo_session = ''session-1''" "new_id other_uuid ''runtime-event'' = ''runtime-event-1''"
    by (simp_all add: placeholder_store_def running_store_def demo_store3_def placeholder_event_def running_event_def
        demo_event_def Let_def demo_session_def new_id_def other_uuid_def)
  have "\<exists>st' e. append_runtime_event_conn placeholder_store ''session-1'' (PStr ''RUNNING'') (PStr ''PREFLIGHT_REBOUND'')
      (PStr ''operator'') [] demo_time other_uuid = Inr (st', e)"
    unfolding append_runtime_event_conn_def
    by (simp add: life texts last Let_def prev order insert_runtime_event_def sql_integer_def unique_def foreign_key_def
        rows digest)
  then show ?thesis
    by (auto simp: append_runtime_event_def now_text_again [OF demo_stamps(1)] s transaction_def)
qed

theorem rebound_event_unchecked_witness:
  "\<exists>st' e. append_runtime_event placeholder_store ''session-1'' (PStr ''PREFLIGHT_REBOUND'') (PStr ''operator'') []
       (TsValue (PStr demo_time)) other_uuid demo_clock = (st', Inr e)
     \<and> find_session st' ''session-1'' = Inl (ValueError ''preflightSnapshotId is required'')"
proof -
  obtain st' e where r: "append_runtime_event placeholder_store ''session-1'' (PStr ''PREFLIGHT_REBOUND'') (PStr ''operator'') []
      (TsValue (PStr demo_time)) other_uuid demo_clock = (st', Inr e)"
    using rebound_accepted by blast
  with rebound_event_unchecked [OF r] show ?thesis by (auto simp: dict_get_def)
qed

subsection \<open>The newest preflight by text\<close>

lemma same_prefix_less: "xs @ ys < xs @ zs \<longleftrightarrow> ys < (zs :: string)"
  by (induction xs) auto

definition half_later :: string where "half_later = iso_text (demo_clock + 500000)"

definition later_preflight :: preflight_snapshot where
  "later_preflight = demo_preflight\<lparr>ps_id := ''preflight-2'', ps_issued := half_later\<rparr>"

definition two_preflights :: gov_store where
  "two_preflights = demo_store1\<lparr>gs_preflights := [preflight_to_row demo_preflight, preflight_to_row later_preflight]\<rparr>"

text \<open>
  The newest preflight is chosen by text. \<open>latest_preflight_for_deployment\<close> promises the newest
  snapshot, but timestamps are compared as texts and a fraction of a second sorts before none: of
  two well-formed snapshots the one issued half a second earlier is returned.
\<close>

theorem newest_preflight_by_text:
  "gov_inv two_preflights
   \<and> latest_preflight_for_deployment two_preflights ''demo'' = Inr (Some demo_preflight)
   \<and> preflight_to_row later_preflight \<in> set (gs_preflights two_preflights)
   \<and> ps_deployment later_preflight = ''demo''
   \<and> stamp_instant (ps_issued demo_preflight) < stamp_instant (ps_issued later_preflight)"
proof -
  have rep: "representable (demo_clock + 500000)"
    by (simp add: representable_def demo_clock_def min_instant_def max_instant_def)
  then have stamp: "iso_stamp half_later" "stamp_instant half_later = demo_clock + 500000"
    by (auto simp: half_later_def iso_stamp_def)
  have texts: "half_later = iso_seconds demo_clock @ ''.'' @ zero_pad 6 (nat_text 500000) @ ''Z''"
    "demo_time = iso_seconds demo_clock @ ''Z''"
    by (simp_all add: half_later_def demo_time_def iso_text_def iso_seconds_def demo_clock_def)
  have "\<not> (CHR ''Z'' < CHR ''.'')" "CHR ''Z'' \<noteq> CHR ''.''" by code_simp+
  then have order: "\<not> demo_time < half_later" unfolding texts same_prefix_less by simp
  have id: "good_text ''preflight-2''" by code_simp
  have good: "good_preflight later_preflight"
    using good_demo_preflight id stamp demo_stamps
    by (simp add: good_preflight_def later_preflight_def demo_preflight_def)
  have rows: "pr_deployment (preflight_to_row demo_preflight) = ''demo''" "pr_issued (preflight_to_row demo_preflight) = demo_time"
    "pr_deployment (preflight_to_row later_preflight) = ''demo''" "pr_issued (preflight_to_row later_preflight) = half_later"
    "pr_id (preflight_to_row demo_preflight) = ''preflight-1''" "pr_id (preflight_to_row later_preflight) = ''preflight-2''"
    "pr_manifest_hash (preflight_to_row demo_preflight) = manifest_hash demo_manifest"
    "pr_manifest_hash (preflight_to_row later_preflight) = manifest_hash demo_manifest"
    by (simp_all add: preflight_to_row_def demo_preflight_def later_preflight_def)
  have stored: "mr_hash (manifest_to_row demo_manifest) = manifest_hash demo_manifest"
    by (simp add: manifest_to_row_def)
  from order have "newest pr_issued (filter (\<lambda>r. pr_deployment r = ''demo'') (gs_preflights two_preflights))
      = Some (preflight_to_row demo_preflight)"
    by (simp add: two_preflights_def rows)
  moreover have "pr_payload (preflight_to_row demo_preflight) = Inr (canon (PDict (preflight_dict demo_preflight)))"
    by (simp add: preflight_to_row_def)
  ultimately have latest: "latest_preflight_for_deployment two_preflights ''demo'' = Inr (Some demo_preflight)"
    using preflight_from_stored [OF good_demo_preflight]
    by (simp add: latest_preflight_for_deployment_def load_json_def)
  have "gov_inv demo_store1" using reachable_runtime [OF fresh_no_tables demo_reached(1)] by blast
  then have inv: "gov_inv two_preflights"
    using good good_demo_preflight rows stored
    by (auto simp: table_defs two_preflights_def demo_store1_def no_tables_def dest: arg_cong [where f = mr_hash])
  have "stamp_instant (ps_issued demo_preflight) < stamp_instant (ps_issued later_preflight)"
    using stamp demo_stamps by (simp add: demo_preflight_def later_preflight_def)
  moreover have "ps_deployment later_preflight = ''demo''" by (simp add: later_preflight_def demo_preflight_def)
  ultimately show ?thesis using inv latest by (simp add: two_preflights_def)
qed

end
