(* ===== verification/Gov_Manifest_Chain.thy ===== *)
theory Gov_Manifest_Chain
  imports Gov_Log_Laws
begin

section \<open>The chain of manifest revisions\<close>

text \<open>
  The manifests of a deployment are the third log of the governance store: revision 1, 2, ..., each
  sealed by the digest of its payload, which names the digest of the revision before it. The
  interface \<open>event_log\<close> is interpreted for them.
\<close>

definition stored_manifest :: "manifest_row \<Rightarrow> bool" where
  "stored_manifest r \<longleftrightarrow> (\<exists>m. good_manifest m \<and> plain (PDict (mf_metadata m)) \<and> r = manifest_to_row m)"

definition decoded_manifest :: "manifest_row \<Rightarrow> deployment_manifest option" where
  "decoded_manifest r = (case manifest_from_row (Some r) of Inl _ \<Rightarrow> None | Inr m \<Rightarrow> m)"

lemma decoded_stored [simp]: "good_manifest m \<Longrightarrow> decoded_manifest (manifest_to_row m) = Some m"
  by (simp add: decoded_manifest_def manifest_of_row)

text \<open>The sealed text of a row under a given link, and what the row says apart from link and digest.\<close>

definition manifest_message :: "string \<Rightarrow> manifest_row \<Rightarrow> string" where
  "manifest_message p r =
     (case decoded_manifest r of
        None \<Rightarrow> []
      | Some m \<Rightarrow> canonical_json (PDict (manifest_payload (m\<lparr>mf_previous := p\<rparr>))))"

definition manifest_content :: "manifest_row \<Rightarrow> deployment_manifest option" where
  "manifest_content r = map_option (\<lambda>m. m\<lparr>mf_previous := []\<rparr>) (decoded_manifest r)"

lemma manifest_row_fields [simp]:
  "mr_deployment (manifest_to_row m) = mf_deployment m" "mr_revision (manifest_to_row m) = mf_revision m"
  "mr_previous (manifest_to_row m) = mf_previous m" "mr_hash (manifest_to_row m) = manifest_hash m"
  by (simp_all add: manifest_to_row_def)

lemma manifest_payload_inj:
  assumes "good_object (mf_metadata m)" "good_object (mf_metadata n)"
    and "plain (PDict (mf_metadata m))" "plain (PDict (mf_metadata n))"
    and "canonical_json (PDict (manifest_payload m)) = canonical_json (PDict (manifest_payload n))"
  shows "m = n"
proof -
  have plain: "plain (PDict (manifest_payload m))" "plain (PDict (manifest_payload n))"
    using assms(3,4) by (simp_all add: manifest_payload_def)
  note get = canon_dict_get [OF canonical_json_inj [OF plain assms(5)]]
  have "canon (PDict (mf_metadata m)) = canon (PDict (mf_metadata n))"
    using get [of "''metadata''"] by (simp add: manifest_payload_def)
  with good_object_canon assms(1,2) have "mf_metadata m = mf_metadata n" by simp
  moreover have "mf_schema m = mf_schema n"
    using get [of "''schemaVersion''"] by (simp add: manifest_payload_def)
  moreover have "mf_deployment m = mf_deployment n"
    using get [of "''deploymentId''"] by (simp add: manifest_payload_def)
  moreover have "mf_revision m = mf_revision n"
    using get [of "''revision''"] by (simp add: manifest_payload_def)
  moreover have "mf_previous m = mf_previous n"
    using get [of "''previousManifestHash''"] by (simp add: manifest_payload_def)
  moreover have "mf_strategy_hash m = mf_strategy_hash n"
    using get [of "''strategyArtifactHash''"] by (simp add: manifest_payload_def)
  moreover have "mf_portfolio_hash m = mf_portfolio_hash n"
    using get [of "''portfolioArtifactHash''"] by (simp add: manifest_payload_def)
  moreover have "mf_account m = mf_account n"
    using get [of "''accountFingerprint''"] by (simp add: manifest_payload_def)
  moreover have "mf_route m = mf_route n"
    using get [of "''brokerRoute''"] by (simp add: manifest_payload_def)
  moreover have "mf_runtime_version m = mf_runtime_version n"
    using get [of "''runtimeVersion''"] by (simp add: manifest_payload_def)
  moreover have "mf_build_hash m = mf_build_hash n"
    using get [of "''buildHash''"] by (simp add: manifest_payload_def)
  moreover have "mf_adapter m = mf_adapter n"
    using get [of "''executionAdapter''"] by (simp add: manifest_payload_def)
  moreover have "mf_adapter_version m = mf_adapter_version n"
    using get [of "''executionAdapterVersion''"] by (simp add: manifest_payload_def)
  moreover have "mf_risk_revision m = mf_risk_revision n"
    using get [of "''riskPolicyRevision''"] by (simp add: manifest_payload_def)
  moreover have "mf_risk_hash m = mf_risk_hash n"
    using get [of "''riskPolicyHash''"] by (simp add: manifest_payload_def)
  moreover have "mf_config_revision m = mf_config_revision n"
    using get [of "''configRevision''"] by (simp add: manifest_payload_def)
  moreover have "mf_config_hash m = mf_config_hash n"
    using get [of "''configHash''"] by (simp add: manifest_payload_def)
  moreover have "mf_ttl m = mf_ttl n"
    using get [of "''preflightTtlSeconds''"] by (simp add: manifest_payload_def)
  moreover have "mf_created m = mf_created n"
    using get [of "''createdAt''"] by (simp add: manifest_payload_def)
  ultimately show ?thesis by (intro manifest_fields.equality) simp_all
qed

lemma relinked: "m\<lparr>mf_previous := p\<rparr> = n\<lparr>mf_previous := q\<rparr> \<Longrightarrow> m\<lparr>mf_previous := r\<rparr> = n\<lparr>mf_previous := r\<rparr>"
  by (cases m, cases n) simp

lemma manifest_message_inj:
  assumes "stored_manifest r" "stored_manifest s" "manifest_message p r = manifest_message q s"
  shows "p = q \<and> manifest_content r = manifest_content s"
proof -
  from assms obtain m n where mn: "good_manifest m" "r = manifest_to_row m" "good_manifest n" "s = manifest_to_row n"
    "plain (PDict (mf_metadata m))" "plain (PDict (mf_metadata n))"
    unfolding stored_manifest_def by blast
  let ?m = "m\<lparr>mf_previous := p\<rparr>" and ?n = "n\<lparr>mf_previous := q\<rparr>"
  have "?m = ?n"
    by (rule manifest_payload_inj) (use assms(3) mn in \<open>auto simp: manifest_message_def good_manifest_def\<close>)
  then have "mf_previous ?m = mf_previous ?n" "m\<lparr>mf_previous := []\<rparr> = n\<lparr>mf_previous := []\<rparr>"
    by (auto dest: arg_cong [where f = mf_previous] relinked [where r = "[]"])
  with mn show ?thesis by (simp add: manifest_content_def)
qed

lemma latest_manifest_mem:
  "latest_manifest_row st d = Some p \<Longrightarrow> p \<in> set (gs_manifests st) \<and> mr_deployment p = d"
  using newest_Some [of mr_revision "filter (\<lambda>r. mr_deployment r = d) (gs_manifests st)" p]
  by (simp add: latest_manifest_row_def)

definition manifest_continues :: "manifest_row list \<Rightarrow> manifest_row \<Rightarrow> bool" where
  "manifest_continues rs r \<longleftrightarrow>
     (case newest mr_revision (filter (\<lambda>x. mr_deployment x = mr_deployment r) rs) of
        None \<Rightarrow> mr_revision r = 1 \<and> mr_previous r = [] \<and> mr_revision r = 1
      | Some p \<Rightarrow> mr_revision r = mr_revision p + 1 \<and> mr_previous r = mr_hash p \<and> mr_revision p < mr_revision r)"

lemma step_manifest_row:
  assumes "gov_inv st" "gov_step st st'" "gs_manifests st' \<noteq> gs_manifests st"
  shows "\<exists>r. gs_manifests st' = gs_manifests st @ [r]
    \<and> mr_hash r = sha256_hex (manifest_message (mr_previous r) r) \<and> manifest_continues (gs_manifests st) r"
  using step_change [OF assms(2)] assms(1,3)
proof (induction rule: gov_change.induct)
  case (new_manifest m st st')
  let ?r = "manifest_to_row m"
  have sealed: "mr_hash ?r = sha256_hex (manifest_message (mr_previous ?r) ?r)"
    using new_manifest.hyps(1) by (simp add: manifest_message_def manifest_hash_def seal_def)
  have "manifest_continues (gs_manifests st) ?r"
  proof (cases "latest_manifest_row st (mf_deployment m)")
    case None
    with new_manifest.hyps(3,4) show ?thesis
      by (simp add: manifest_continues_def latest_manifest_row_def optional_sha256_again optional_pattern_def)
  next
    case (Some p)
    have "p \<in> set (gs_manifests st)" using latest_manifest_mem [OF Some] by blast
    with new_manifest.prems(1) have "sha_pattern (mr_hash p)"
      by (auto simp: gov_inv_def manifests_ok_def)
    with new_manifest.hyps(3,4) Some show ?thesis
      by (simp add: manifest_continues_def latest_manifest_row_def optional_sha256_again optional_pattern_def)
  qed
  with sealed new_manifest.hyps(2) show ?case by (auto simp: insert_manifest_iff)
next
  case (new_session st row st1 ev st' v m snapshot preflight x)
  then show ?case by (auto simp: insert_session_iff insert_runtime_event_iff)
next
  case (session_event st st')
  then show ?case by (auto simp: session_step_def insert_runtime_event_iff)
next
  case (incident_event st st')
  then show ?case by (auto simp: incident_step_def insert_incident_event_iff)
next
  case (new_incident st row st1 ev st' v)
  then show ?case by (auto simp: insert_incident_iff insert_incident_event_iff)
qed (auto simp: insert_preflight_iff)

interpretation manifest_log: event_log mr_previous mr_hash manifest_message sha256_hex manifest_content
  stored_manifest mr_deployment mr_revision "[]" "\<lambda>r. mr_revision r = 1" "\<lambda>p r. mr_revision p < mr_revision r"
  gs_manifests gov_inv fresh_store gov_step
proof unfold_locales
  show "\<And>s t. gov_inv s \<Longrightarrow> gov_step s t \<Longrightarrow> gov_inv t" by (blast intro: change_inv step_change)
  show "\<And>s t. gov_inv s \<Longrightarrow> gov_step s t \<Longrightarrow> gs_manifests t \<noteq> gs_manifests s \<Longrightarrow>
      \<exists>r. gs_manifests t = gs_manifests s @ [r] \<and> mr_hash r = sha256_hex (manifest_message (mr_previous r) r) \<and>
        (case newest mr_revision (filter (\<lambda>e. mr_deployment e = mr_deployment r) (gs_manifests s)) of
           None \<Rightarrow> mr_revision r = 1 \<and> mr_previous r = [] \<and> mr_revision r = 1
         | Some p \<Rightarrow> mr_revision r = mr_revision p + 1 \<and> mr_previous r = mr_hash p \<and> mr_revision p < mr_revision r)"
    using step_manifest_row unfolding manifest_continues_def by blast
qed (use manifest_message_inj fresh_inv fresh_store_empty in blast)+

text \<open>The revisions of one deployment, oldest first.\<close>

definition revisions :: "gov_store \<Rightarrow> string \<Rightarrow> manifest_row list" where
  "revisions st d = filter (\<lambda>r. mr_deployment r = d) (gs_manifests st)"

lemma manifest_stream [simp]: "manifest_log.stream st d = revisions st d"
  by (simp add: manifest_log.stream_def revisions_def)

lemma reachable_manifests:
  "fresh_store s \<Longrightarrow> gov_step\<^sup>*\<^sup>* s st \<Longrightarrow> gov_inv st \<and> manifest_log.well_kept (revisions st d)"
  using manifest_log.reachable_kept [of s st] by simp

lemma latest_manifest_last:
  assumes "manifest_log.well_kept (revisions st d)"
  shows "latest_manifest_row st d = (if revisions st d = [] then None else Some (last (revisions st d)))"
  using manifest_log.well_kept_newest [OF assms] by (simp add: latest_manifest_row_def revisions_def)

end
