(* ===== verification/Gov_Integrity_Laws.thy ===== *)
theory Gov_Integrity_Laws
  imports Gov_Manifest_Chain Gov_Views
begin

section \<open>What the integrity check accepts\<close>

text \<open>
  \<open>verify_integrity\<close> scans the tables ordered by entity and number. Its verdict on the event rows is
  characterised entity by entity: no issue is reported exactly when every log is numbered from 1,
  linked and sealed. The manifests form a third chain, an interpretation of \<open>event_log\<close>. Every
  reachable store passes the check, and two stores that pass it and agree on the newest digest of
  a log agree on the log.
\<close>

subsection \<open>One entity at a time\<close>

fun verified :: "int \<Rightarrow> string \<Rightarrow> event_view list \<Rightarrow> bool" where
  "verified n h [] = True"
| "verified n h (v # vs) =
     (case vw_payload v of
        Inl _ \<Rightarrow> False
      | Inr payload \<Rightarrow> vw_sequence v = n + 1 \<and> vw_previous v = h
          \<and> seal (PDict (vw_base v payload)) = vw_hash v \<and> verified (vw_sequence v) (vw_hash v) vs)"

lemma verify_event_rows_iff:
  "verify_event_rows label seqs hashes vs = [] \<longleftrightarrow>
     (\<forall>k. verified (assoc_get 0 seqs k) (assoc_get [] hashes k) (filter (\<lambda>v. vw_entity v = k) vs))"
proof (induction vs arbitrary: seqs hashes)
  case Nil
  then show ?case by simp
next
  case (Cons v vs)
  show ?case
  proof (cases "vw_payload v")
    case (Inl m)
    then show ?thesis by (auto simp: Let_def intro!: exI [of _ "vw_entity v"])
  next
    case (Inr payload)
    let ?seqs = "assoc_put (vw_entity v) (vw_sequence v) seqs"
    let ?hashes = "assoc_put (vw_entity v) (vw_hash v) hashes"
    let ?V = "\<lambda>k. verified (assoc_get 0 ?seqs k) (assoc_get [] ?hashes k) (filter (\<lambda>v. vw_entity v = k) vs)"
    have "(\<forall>k. verified (assoc_get 0 seqs k) (assoc_get [] hashes k) (filter (\<lambda>v. vw_entity v = k) (v # vs)))
        \<longleftrightarrow> vw_sequence v = assoc_get 0 seqs (vw_entity v) + 1 \<and> vw_previous v = assoc_get [] hashes (vw_entity v)
          \<and> seal (PDict (vw_base v payload)) = vw_hash v \<and> (\<forall>k. ?V k)" (is "(\<forall>k. ?W k) \<longleftrightarrow> ?C")
    proof
      assume W: "\<forall>k. ?W k"
      have "?V k" for k
        using W [rule_format, of k] Inr by (cases "vw_entity v = k") auto
      moreover have "vw_sequence v = assoc_get 0 seqs (vw_entity v) + 1 \<and> vw_previous v = assoc_get [] hashes (vw_entity v)
          \<and> seal (PDict (vw_base v payload)) = vw_hash v"
        using W [rule_format, of "vw_entity v"] Inr by simp
      ultimately show ?C by blast
    next
      assume C: ?C
      have "?W k" for k
      proof (cases "vw_entity v = k")
        case True
        from C have "?V k" by blast
        with C True Inr show ?thesis by auto
      next
        case False
        from C have "?V k" by blast
        with False Inr show ?thesis by simp
      qed
      then show "\<forall>k. ?W k" by blast
    qed
    with Inr Cons.IH [of ?seqs ?hashes] show ?thesis by (simp add: Let_def)
  qed
qed

lemma sort_by_number:
  "\<forall>x \<in> set xs. entity x = k \<Longrightarrow> sort_key (\<lambda>x. (entity x, number x :: int)) xs = sort_key number xs"
proof (induction xs)
  case (Cons x xs)
  have "insort_key (\<lambda>x. (entity x, number x)) x ys = insort_key number x ys" if "\<forall>y \<in> set ys. entity y = k" for ys
    using that Cons.prems by (induction ys) (auto simp: less_eq_prod_def)
  with Cons show ?case by simp
qed simp

lemma filter_of_sorted:
  "filter (\<lambda>x. entity x = k) (sort_key (\<lambda>x. (entity x, number x :: int)) xs)
     = sort_key number (filter (\<lambda>x. entity x = k) xs)"
proof -
  have "filter (\<lambda>x. entity x = k) (sort_key (\<lambda>x. (entity x, number x)) xs)
      = sort_key (\<lambda>x. (entity x, number x)) (filter (\<lambda>x. entity x = k) xs)"
    by (rule filter_sort)
  also have "\<dots> = sort_key number (filter (\<lambda>x. entity x = k) xs)" by (rule sort_by_number [where k = k]) simp
  finally show ?thesis .
qed

lemma sort_numbered: "map number xs = [1..n] \<Longrightarrow> sort_key number xs = xs"
  by (simp add: sort_key_id_if_sorted)

abbreviation readable :: "json_column \<Rightarrow> bool" where
  "readable column \<equiv> \<exists>v. column = Inr v"

lemma verified_runtime:
  "verified n h (map runtime_view es) \<longleftrightarrow>
     map re_sequence es = [n + 1..n + int (length es)] \<and> (\<forall>e \<in> set es. readable (re_payload e))
     \<and> chained re_previous re_hash (\<lambda>p e. sha256_hex (runtime_message p e)) h es"
proof (induction es arbitrary: n h)
  case (Cons e es)
  have same: "e\<lparr>re_previous := re_previous e\<rparr> = e" by simp
  have "[n + 1..n + int (length (e # es))] = (n + 1) # [n + 1 + 1..n + 1 + int (length es)]"
    by (simp add: upto_rec1 algebra_simps)
  with Cons same show ?case
    by (cases "re_payload e") (auto simp: runtime_view_def runtime_message_def decoded_def seal_def)
qed simp

lemma verified_incident:
  "verified n h (map incident_view es) \<longleftrightarrow>
     map ie_sequence es = [n + 1..n + int (length es)] \<and> (\<forall>e \<in> set es. readable (ie_payload e))
     \<and> chained ie_previous ie_hash (\<lambda>p e. sha256_hex (incident_message p e)) h es"
proof (induction es arbitrary: n h)
  case (Cons e es)
  have same: "e\<lparr>ie_previous := ie_previous e\<rparr> = e" by simp
  have "[n + 1..n + int (length (e # es))] = (n + 1) # [n + 1 + 1..n + 1 + int (length es)]"
    by (simp add: upto_rec1 algebra_simps)
  with Cons same show ?case
    by (cases "ie_payload e") (auto simp: incident_view_def incident_message_def decoded_def seal_def)
qed simp

text \<open>The rows of one session in the order of their numbers, as the check and the readers see them.\<close>

definition ordered_session :: "gov_store \<Rightarrow> string \<Rightarrow> json_column runtime_event list" where
  "ordered_session st sid = sort_key re_sequence (session_events st sid)"

definition ordered_incident :: "gov_store \<Rightarrow> string \<Rightarrow> json_column incident_event list" where
  "ordered_incident st iid = sort_key ie_sequence (events_of_incident st iid)"

definition session_verified :: "gov_store \<Rightarrow> string \<Rightarrow> bool" where
  "session_verified st sid \<longleftrightarrow>
     (let es = ordered_session st sid
      in map re_sequence es = [1..int (length es)] \<and> (\<forall>e \<in> set es. readable (re_payload e))
        \<and> chained re_previous re_hash (\<lambda>p e. sha256_hex (runtime_message p e)) [] es)"

definition incident_verified :: "gov_store \<Rightarrow> string \<Rightarrow> bool" where
  "incident_verified st iid \<longleftrightarrow>
     (let es = ordered_incident st iid
      in map ie_sequence es = [1..int (length es)] \<and> (\<forall>e \<in> set es. readable (ie_payload e))
        \<and> chained ie_previous ie_hash (\<lambda>p e. sha256_hex (incident_message p e)) [] es)"

lemma runtime_rows_verified:
  "verify_event_rows label [] [] (map runtime_view
     (sort_key (\<lambda>e. (re_session e, re_sequence e)) (gs_runtime_events st))) = []
   \<longleftrightarrow> (\<forall>sid. session_verified st sid)"
proof -
  have "filter (\<lambda>v. vw_entity v = k) (map runtime_view xs) = map runtime_view (filter (\<lambda>e. re_session e = k) xs)" for k xs
    by (simp add: filter_map comp_def runtime_view_def)
  then show ?thesis
    by (simp add: verify_event_rows_iff filter_of_sorted [of re_session _ re_sequence] verified_runtime
        session_verified_def ordered_session_def session_events_def Let_def)
qed

lemma incident_rows_verified:
  "verify_event_rows label [] [] (map incident_view
     (sort_key (\<lambda>e. (ie_incident e, ie_sequence e)) (gs_incident_events st))) = []
   \<longleftrightarrow> (\<forall>iid. incident_verified st iid)"
proof -
  have "filter (\<lambda>v. vw_entity v = k) (map incident_view xs) = map incident_view (filter (\<lambda>e. ie_incident e = k) xs)" for k xs
    by (simp add: filter_map comp_def incident_view_def)
  then show ?thesis
    by (simp add: verify_event_rows_iff filter_of_sorted [of ie_incident _ ie_sequence] verified_incident
        incident_verified_def ordered_incident_def events_of_incident_def Let_def)
qed

subsection \<open>Manifests and preflights\<close>

fun revised :: "int \<Rightarrow> string \<Rightarrow> manifest_row list \<Rightarrow> bool" where
  "revised n h [] = True"
| "revised n h (r # rs) = (mr_revision r = n + 1 \<and> mr_previous r = h \<and> revised (mr_revision r) (mr_hash r) rs)"

lemma decode_manifest_row:
  "good_manifest m \<Longrightarrow> res_bind (decode_column (mr_payload (manifest_to_row m))) manifest_from_dict = Inr m"
  using manifest_from_stored [of m] by (simp add: manifest_to_row_def decode_column_def)

lemma scan_manifests:
  assumes "\<forall>r \<in> set rs. \<exists>m. good_manifest m \<and> r = manifest_to_row m"
    and "\<forall>k. revised (assoc_get 0 revs k) (assoc_get [] hashes k) (filter (\<lambda>r. mr_deployment r = k) rs)"
  shows "\<exists>revs' hashes'. res_fold scan_manifest (issues, revs, hashes) rs = Inr (issues, revs', hashes')"
  using assms
proof (induction rs arbitrary: revs hashes)
  case Nil
  then show ?case by simp
next
  case (Cons r rs)
  from Cons.prems(1) obtain m where m: "good_manifest m" "r = manifest_to_row m" by auto
  have here: "mf_revision m = assoc_get 0 revs (mf_deployment m) + 1"
    "mf_previous m = assoc_get [] hashes (mf_deployment m)"
    using Cons.prems(2) [rule_format, of "mf_deployment m"] m(2) by auto
  have step: "scan_manifest (issues, revs, hashes) r
      = Inr (issues, assoc_put (mf_deployment m) (mf_revision m) revs, assoc_put (mf_deployment m) (manifest_hash m) hashes)"
    using here m(2) decode_manifest_row [OF m(1)] by (simp add: scan_manifest_def Let_def)
  have "revised (assoc_get 0 (assoc_put (mf_deployment m) (mf_revision m) revs) k)
      (assoc_get [] (assoc_put (mf_deployment m) (manifest_hash m) hashes) k)
      (filter (\<lambda>r. mr_deployment r = k) rs)" for k
    using Cons.prems(2) [rule_format, of k] m(2) by (cases "mf_deployment m = k") auto
  with Cons.IH Cons.prems(1) step show ?case by auto
qed

lemma scan_preflights:
  assumes "\<forall>r \<in> set rs. \<exists>s. good_preflight s \<and> r = preflight_to_row s"
  shows "res_fold scan_preflight issues rs = Inr issues"
  using assms
proof (induction rs)
  case (Cons r rs)
  then obtain s where s: "good_preflight s" "r = preflight_to_row s" by auto
  have "res_bind (decode_column (pr_payload r)) preflight_from_dict = Inr s" "pr_hash r = preflight_hash s"
    using preflight_from_stored [OF s(1)] by (simp_all add: s(2) preflight_to_row_def decode_column_def)
  with Cons show ?case by (simp add: scan_preflight_def Let_def)
qed simp

lemma revised_chained:
  assumes "map mr_revision rs = [n + 1..n + int (length rs)]"
    and "chained mr_previous mr_hash reseal h rs"
  shows "revised n h rs"
  using assms
proof (induction rs arbitrary: n h)
  case (Cons r rs)
  have "[n + 1..n + int (length (r # rs))] = (n + 1) # [n + 1 + 1..n + 1 + int (length rs)]"
    by (simp add: upto_rec1 algebra_simps)
  with Cons.prems(1) have r: "mr_revision r = n + 1"
    and rest: "map mr_revision rs = [mr_revision r + 1..mr_revision r + int (length rs)]" by simp_all
  have "chained mr_previous mr_hash reseal (mr_hash r) rs" "mr_previous r = h" using Cons.prems(2) unfolding chained.simps by blast+
  with r Cons.IH [OF rest] show ?case by (simp only: revised.simps simp_thms)
qed simp

lemma reachable_revised:
  assumes "fresh_store s" "gov_step\<^sup>*\<^sup>* s st"
  shows "revised 0 [] (filter (\<lambda>r. mr_deployment r = k) (sort_key (\<lambda>r. (mr_deployment r, mr_revision r)) (gs_manifests st)))"
proof -
  have kept: "map mr_revision (revisions st k) = [1..int (length (revisions st k))]"
    "chained mr_previous mr_hash (\<lambda>p r. sha256_hex (manifest_message p r)) [] (revisions st k)"
    using reachable_manifests [OF assms, of k] unfolding manifest_log.well_kept_def by blast+
  have "revised 0 [] (revisions st k)"
    by (rule revised_chained [OF _ kept(2)]) (use kept(1) in simp)
  moreover have "filter (\<lambda>r. mr_deployment r = k) (sort_key (\<lambda>r. (mr_deployment r, mr_revision r)) (gs_manifests st))
      = revisions st k"
    using filter_of_sorted [of mr_deployment k mr_revision "gs_manifests st"] sort_numbered [OF kept(1)]
    by (simp add: revisions_def)
  ultimately show ?thesis by simp
qed

subsection \<open>Every reachable store passes\<close>

lemma reachable_session_verified:
  assumes "fresh_store s" "gov_step\<^sup>*\<^sup>* s st"
  shows "session_verified st sid"
proof -
  have inv: "gov_inv st" and kept: "map re_sequence (session_events st sid) = [1..int (length (session_events st sid))]"
    "chained re_previous re_hash (\<lambda>p e. sha256_hex (runtime_message p e)) [] (session_events st sid)"
    using reachable_runtime [OF assms, of sid] unfolding runtime_log.well_kept_def by blast+
  have "readable (re_payload e)" if "e \<in> set (session_events st sid)" for e
    using inv that by (auto simp: gov_inv_def runtime_event_ok_def session_events_def)
  with kept show ?thesis by (simp add: session_verified_def ordered_session_def sort_numbered [OF kept(1)])
qed

lemma reachable_incident_verified:
  assumes "fresh_store s" "gov_step\<^sup>*\<^sup>* s st"
  shows "incident_verified st iid"
proof -
  have inv: "gov_inv st" and kept: "map ie_sequence (events_of_incident st iid) = [1..int (length (events_of_incident st iid))]"
    "chained ie_previous ie_hash (\<lambda>p e. sha256_hex (incident_message p e)) [] (events_of_incident st iid)"
    using reachable_incident [OF assms, of iid] unfolding incident_log.well_kept_def by blast+
  have "readable (ie_payload e)" if "e \<in> set (events_of_incident st iid)" for e
    using inv that by (auto simp: gov_inv_def incident_event_ok_def events_of_incident_def)
  with kept show ?thesis by (simp add: incident_verified_def ordered_incident_def sort_numbered [OF kept(1)])
qed

lemma reachable_integrity:
  assumes "fresh_store s" "gov_step\<^sup>*\<^sup>* s st"
  shows "\<exists>g. verify_integrity st = Inr g \<and> ig_ok g \<and> ig_issues g = []
    \<and> ig_counts g = [(''deploymentManifests'', length (gs_manifests st)), (''preflightSnapshots'', length (gs_preflights st)),
         (''runtimeSessions'', length (gs_sessions st)), (''runtimeEvents'', length (gs_runtime_events st)),
         (''incidents'', length (gs_incidents st)), (''incidentEvents'', length (gs_incident_events st))]"
proof -
  have inv: "gov_inv st" using reachable_runtime [OF assms] by blast
  have "\<forall>r \<in> set (sort_key (\<lambda>r. (mr_deployment r, mr_revision r)) (gs_manifests st)).
      \<exists>m. good_manifest m \<and> r = manifest_to_row m"
    using inv by (simp add: gov_inv_def manifests_ok_def)
  from scan_manifests [OF this, of "[]" "[]" "[]"] obtain revs hashes where
    m: "res_fold scan_manifest ([], [], []) (sort_key (\<lambda>r. (mr_deployment r, mr_revision r)) (gs_manifests st))
        = Inr ([], revs, hashes)"
    using reachable_revised [OF assms] by auto
  have p: "res_fold scan_preflight [] (gs_preflights st) = Inr []"
    using inv by (intro scan_preflights) (simp add: gov_inv_def preflights_ok_def)
  have "verify_event_rows ''runtime'' [] [] (map runtime_view
      (sort_key (\<lambda>e. (re_session e, re_sequence e)) (gs_runtime_events st))) = []"
    "verify_event_rows ''incident'' [] [] (map incident_view
      (sort_key (\<lambda>e. (ie_incident e, ie_sequence e)) (gs_incident_events st))) = []"
    using reachable_session_verified [OF assms] reachable_incident_verified [OF assms]
    by (simp_all add: runtime_rows_verified incident_rows_verified)
  then show ?thesis by (simp add: verify_integrity_def m p Let_def)
qed

text \<open>
  C14: The integrity check accepts every store the operations can produce: it returns, reports no
  issue, and counts the rows of each of the six tables.
\<close>

theorem reachable_store_verifies:
  assumes "fresh_store s" "gov_step\<^sup>*\<^sup>* s st"
  shows "\<exists>g. verify_integrity st = Inr g \<and> ig_ok g \<and> ig_issues g = []
    \<and> ig_counts g = [(''deploymentManifests'', length (gs_manifests st)), (''preflightSnapshots'', length (gs_preflights st)),
         (''runtimeSessions'', length (gs_sessions st)), (''runtimeEvents'', length (gs_runtime_events st)),
         (''incidents'', length (gs_incidents st)), (''incidentEvents'', length (gs_incident_events st))]"
  using assms by (rule reachable_integrity)

theorem reachable_store_verifies_witness:
  "\<exists>g. verify_integrity demo_store4 = Inr g \<and> ig_ok g \<and> assoc_get 0 (ig_counts g) ''incidentEvents'' = 1
     \<and> assoc_get 0 (ig_counts g) ''deploymentManifests'' = length (gs_manifests demo_store4)"
proof -
  have "length (gs_incident_events demo_store4) = 1" by (simp add: demo_store4_def)
  with reachable_store_verifies [OF fresh_no_tables demo_reached(4)] show ?thesis by auto
qed

subsection \<open>Accepted logs are determined by their newest digest\<close>

lemma integrity_ok_logs:
  assumes "verify_integrity st = Inr g" "ig_ok g"
  shows "session_verified st sid" "incident_verified st iid"
proof -
  from assms obtain issues where
    "issues @ verify_event_rows ''runtime'' [] [] (map runtime_view
        (sort_key (\<lambda>e. (re_session e, re_sequence e)) (gs_runtime_events st)))
      @ verify_event_rows ''incident'' [] [] (map incident_view
        (sort_key (\<lambda>e. (ie_incident e, ie_sequence e)) (gs_incident_events st))) = []"
    unfolding verify_integrity_def by (auto simp: Let_def)
  then show "session_verified st sid" "incident_verified st iid"
    using runtime_rows_verified incident_rows_verified by auto
qed

lemma runtime_content_number: "runtime_content e = runtime_content e' \<Longrightarrow> re_sequence e = re_sequence e'"
  unfolding runtime_content_def
  by (drule canon_dict_get [where k = "''sequence''"]) (simp add: runtime_event_base_def)

lemma chain_head_digest:
  assumes "session_verified st sid" "es = ordered_session st sid" "es \<noteq> []"
  shows "\<exists>p. chain_head re_hash [] es = sha256_hex (runtime_message p (last es))
    \<and> runtime_message p (last es) \<in> runtime_log.messages [] es \<and> re_sequence (last es) = int (length es)"
proof -
  from assms(3) obtain fs e where es: "es = fs @ [e]" by (metis append_butlast_last_id)
  have v: "map re_sequence es = [1..int (length es)]"
    "chained re_previous re_hash (\<lambda>p e. sha256_hex (runtime_message p e)) [] es"
    using assms(1) by (simp_all add: session_verified_def Let_def flip: assms(2))
  have "map re_sequence fs @ [re_sequence e] = [1..int (length fs)] @ [int (length fs) + 1]"
    using v(1) by (simp add: es upto_rec2)
  then have "re_sequence e = int (length es)" by (simp add: es)
  with v(2) show ?thesis
    by (intro exI [of _ "chain_head re_hash [] fs"]) (simp add: es runtime_log.messages_append)
qed

text \<open>
  A session's log is determined by the digest of its newest event. If two databases pass the
  integrity check and the digest of a session's last event is the same in both, then both hold the
  same events for it, in number, order and content: no event can be altered, dropped or inserted
  unnoticed, unless SHA-256 collides on the sealed texts.
\<close>

theorem session_log_tamper_evident:
  assumes "verify_integrity st = Inr g" "ig_ok g" "verify_integrity st' = Inr g'" "ig_ok g'"
    and "chain_head re_hash [] (ordered_session st sid) = chain_head re_hash [] (ordered_session st' sid)"
    and "\<forall>e \<in> set (ordered_session st sid) \<union> set (ordered_session st' sid). plain_column (re_payload e)"
    and "inj_on sha256_hex (runtime_log.messages [] (ordered_session st sid)
           \<union> runtime_log.messages [] (ordered_session st' sid))"
  shows "map runtime_content (ordered_session st sid) = map runtime_content (ordered_session st' sid)"
proof -
  let ?es = "ordered_session st sid" and ?fs = "ordered_session st' sid"
  note v = integrity_ok_logs(1) [OF assms(1,2), of sid] integrity_ok_logs(1) [OF assms(3,4), of sid]
  have chains: "chained re_previous re_hash (\<lambda>p e. sha256_hex (runtime_message p e)) [] ?es"
    "chained re_previous re_hash (\<lambda>p e. sha256_hex (runtime_message p e)) [] ?fs"
    using v by (simp_all add: session_verified_def Let_def)
  have digest: "sha256_hex m \<noteq> []" for m using sha256_hex_pattern [of m] by (auto simp: sha_pattern_def)
  have "length ?es = length ?fs"
  proof (cases "?es = [] \<or> ?fs = []")
    case True
    then show ?thesis
      using assms(5) digest digest [symmetric] chain_head_digest [OF v(1) refl] chain_head_digest [OF v(2) refl]
      by (cases "?es = []"; cases "?fs = []") auto
  next
    case False
    obtain p where p: "chain_head re_hash [] ?es = sha256_hex (runtime_message p (last ?es))"
      "runtime_message p (last ?es) \<in> runtime_log.messages [] ?es" "re_sequence (last ?es) = int (length ?es)"
      using chain_head_digest [OF v(1) refl] False by blast
    obtain q where q: "chain_head re_hash [] ?fs = sha256_hex (runtime_message q (last ?fs))"
      "runtime_message q (last ?fs) \<in> runtime_log.messages [] ?fs" "re_sequence (last ?fs) = int (length ?fs)"
      using chain_head_digest [OF v(2) refl] False by blast
    have "sha256_hex (runtime_message p (last ?es)) = sha256_hex (runtime_message q (last ?fs))"
      using p(1) q(1) assms(5) by simp
    from inj_onD [OF assms(7) this UnI1 [OF p(2)] UnI2 [OF q(2)]]
    have same: "runtime_message p (last ?es) = runtime_message q (last ?fs)" .
    have "plain_column (re_payload (last ?es))" "plain_column (re_payload (last ?fs))"
      using assms(6) False last_in_set [of ?es] last_in_set [of ?fs] by blast+
    from runtime_message_inj [OF this same] have "re_sequence (last ?es) = re_sequence (last ?fs)"
      by (blast intro: runtime_content_number)
    with p(3) q(3) show ?thesis by simp
  qed
  from runtime_log.tamper_evident [OF chains assms(6) this assms(5,7)] show ?thesis .
qed

theorem session_log_tamper_evident_witness:
  "map runtime_content (ordered_session demo_store3 ''session-1'')
     = map runtime_content (ordered_session demo_store4 ''session-1'')
   \<and> ordered_session demo_store4 ''session-1'' = [demo_event]"
proof -
  have log: "ordered_session demo_store3 ''session-1'' = [demo_event]"
    "ordered_session demo_store4 ''session-1'' = [demo_event]"
    by (simp_all add: ordered_session_def session_events_def demo_store4_def demo_store3_def demo_event_def Let_def)
  obtain g g' where g: "verify_integrity demo_store3 = Inr g" "ig_ok g" "verify_integrity demo_store4 = Inr g'" "ig_ok g'"
    using reachable_integrity [OF fresh_no_tables demo_reached(3)]
      reachable_integrity [OF fresh_no_tables demo_reached(4)] by blast
  have "plain_column (re_payload demo_event)"
    by (simp add: plain_column_def demo_event_def demo_payload_def Let_def)
  with session_log_tamper_evident [OF g, of "''session-1''"] show ?thesis by (simp add: log)
qed

subsection \<open>The revisions of a deployment\<close>

lemma rows_of_records: "\<forall>r \<in> set rs. \<exists>m. P m \<and> r = f m \<Longrightarrow> \<exists>ms. rs = map f ms \<and> list_all P ms"
proof (induction rs)
  case (Cons r rs)
  then obtain m ms where "P m" "r = f m" "rs = map f ms" "list_all P ms" by auto
  then show ?case by (intro exI [of _ "m # ms"]) simp
qed simp

text \<open>
  C13: Manifest revisions form a chain. In every reachable store the manifests of a deployment are
  revisions 1, 2, ... without gaps, each sealed by the digest of its payload and naming the digest
  of the revision before it, and \<open>_latest_manifest_conn\<close> returns the last of them, decoded.
\<close>

theorem manifest_chain_kept:
  assumes "fresh_store s" "gov_step\<^sup>*\<^sup>* s st"
  shows "\<exists>ms. revisions st d = map manifest_to_row ms \<and> list_all good_manifest ms
    \<and> map mf_revision ms = [1..int (length ms)]
    \<and> chained mf_previous manifest_hash (\<lambda>p m. seal (PDict (manifest_payload (m\<lparr>mf_previous := p\<rparr>)))) [] ms
    \<and> latest_manifest st d = Inr (if ms = [] then None else Some (last ms))"
proof -
  have inv: "gov_inv st" and kept: "manifest_log.well_kept (revisions st d)"
    using reachable_manifests [OF assms, of d] by auto
  have "\<forall>r \<in> set (revisions st d). \<exists>m. good_manifest m \<and> r = manifest_to_row m"
    using inv by (simp add: gov_inv_def manifests_ok_def revisions_def)
  from rows_of_records [OF this] obtain ms where
    ms: "revisions st d = map manifest_to_row ms" "list_all good_manifest ms" by blast
  have seal: "sha256_hex (manifest_message p (manifest_to_row m)) = seal (PDict (manifest_payload (m\<lparr>mf_previous := p\<rparr>)))"
    if "good_manifest m" for p m
    using that by (simp add: manifest_message_def seal_def)
  have chain: "chained mf_previous manifest_hash (\<lambda>p m. seal (PDict (manifest_payload (m\<lparr>mf_previous := p\<rparr>)))) h ms"
    if "chained mr_previous mr_hash (\<lambda>p r. sha256_hex (manifest_message p r)) h (map manifest_to_row ms)"
      "list_all good_manifest ms" for h ms
    using that
  proof (induction ms arbitrary: h)
    case (Cons m ms)
    from Cons.prems have m: "mf_previous m = h" "manifest_hash m = seal (PDict (manifest_payload (m\<lparr>mf_previous := h\<rparr>)))"
      and rest: "chained mr_previous mr_hash (\<lambda>p r. sha256_hex (manifest_message p r)) (manifest_hash m) (map manifest_to_row ms)"
        "list_all good_manifest ms"
      unfolding list.map chained.simps manifest_row_fields list.pred_inject using seal by metis+
    with Cons.IH [OF rest] show ?case unfolding chained.simps by blast
  qed simp
  have "map mf_revision ms = [1..int (length ms)]"
    "chained mr_previous mr_hash (\<lambda>p r. sha256_hex (manifest_message p r)) [] (map manifest_to_row ms)"
    using kept unfolding manifest_log.well_kept_def ms(1) by (simp_all add: comp_def)
  moreover have "latest_manifest st d = Inr (if ms = [] then None else Some (last ms))"
  proof (cases "ms = []")
    case True
    then show ?thesis
      using latest_manifest_last [OF kept] by (simp add: latest_manifest_def ms(1) manifest_from_row_def)
  next
    case False
    then have "good_manifest (last ms)" using ms(2) last_in_set [of ms] by (simp add: list_all_iff)
    with False show ?thesis
      using latest_manifest_last [OF kept]
      by (simp add: latest_manifest_def ms(1) last_map manifest_of_row)
  qed
  ultimately show ?thesis using ms chain by blast
qed

theorem manifest_chain_kept_witness:
  "revisions demo_store4 ''demo'' = [manifest_to_row demo_manifest]
   \<and> (\<exists>ms. revisions demo_store4 ''demo'' = map manifest_to_row ms \<and> length ms = 1
        \<and> latest_manifest demo_store4 ''demo'' = Inr (Some (last ms)))"
proof -
  have one: "revisions demo_store4 ''demo'' = [manifest_to_row demo_manifest]"
    by (simp add: revisions_def demo_store4_def demo_store3_def demo_store2_def demo_store1_def demo_manifest_def)
  from manifest_chain_kept [OF fresh_no_tables demo_reached(4), of "''demo''"] obtain ms where
    "revisions demo_store4 ''demo'' = map manifest_to_row ms"
    "latest_manifest demo_store4 ''demo'' = Inr (if ms = [] then None else Some (last ms))" by blast
  moreover from this(1) one have "length ms = 1" by (metis length_map One_nat_def list.size(3,4) add.right_neutral add_Suc_right)
  ultimately show ?thesis using one by auto
qed

end
