(* ===== verification/Krw_Fields.thy ===== *)
theory Krw_Fields
  imports Py_Hash Py_Canon Gov_Fields
begin

section \<open>Shared KRW budget: fields, policies, requests, schema\<close>

text \<open>
  \<open>kis_shared_krw_reservations.py\<close> divides one reviewed KRW cap of a brokerage account among
  deployments. This theory holds its constants and validators (\<open>_money\<close>, \<open>validate_policy\<close>,
  \<open>validate_request\<close>) and the check of its SQLite schema (\<open>_schema_present\<close>, \<open>ensure_schema\<close>). Errors
  are \<open>KisSharedKrwReservationError\<close> codes, here \<open>CodedError\<close>. Dict keys are texts.
\<close>

definition krw_policy_schema :: string where "krw_policy_schema = ''kis-shared-krw-cap-policy-v1''"
definition krw_request_schema :: string where "krw_request_schema = ''kis-shared-krw-reservation-request-v1''"
definition krw_receipt_schema :: string where "krw_receipt_schema = ''kis-shared-krw-reservation-receipt-v1''"
definition krw_state_schema :: string where "krw_state_schema = ''kis-shared-krw-budget-state-v1''"
definition krw_result_schema :: string where "krw_result_schema = ''kis-shared-krw-reservation-result-v1''"
definition pool_table :: string where "pool_table = ''kis_shared_krw_cap_pools_v1''"
definition reservation_table :: string where "reservation_table = ''kis_shared_krw_reservations_v1''"
definition max_reservations :: nat where "max_reservations = 10000"
definition max_record_chars :: nat where "max_record_chars = 16384"
definition max_record_bytes :: nat where "max_record_bytes = 8 * 1024 * 1024"

definition policy_keys :: "string list" where
  "policy_keys = [''schemaVersion'', ''accountFingerprint'', ''accountProfileId'',
     ''credentialConfigurationHash'', ''capKrw'', ''reviewBindingHash'', ''policyHash'']"

definition request_keys :: "string list" where
  "request_keys = [''schemaVersion'', ''reservationId'', ''deploymentId'', ''scopeHash'',
     ''accountFingerprint'', ''accountProfileId'', ''credentialConfigurationHash'',
     ''requestedKrw'', ''basisHash'', ''nativeCurrency'', ''policyHash'', ''requestHash'']"

definition false_keys :: "string list" where
  "false_keys = [''financialReady'', ''productionReady'', ''orderAuthorityGranted'',
     ''financialQualificationGranted'', ''accountCashReconciled'', ''actualFeesReconciled'',
     ''fxSettlementVerified'', ''sharedCashReservationVerified'']"

definition false_flags :: pydict where
  "false_flags = map (\<lambda>k. (k, PBool False)) false_keys"

definition receipt_keys :: "string list" where
  "receipt_keys = [''schemaVersion'', ''request'', ''policyHash'', ''accountFingerprint'',
     ''sequence'', ''previousReceiptHash'', ''reservedKrwBefore'', ''reservedKrwAfter'',
     ''capKrw'', ''localBudgetOnly'', ''localReservationRecorded'', ''contentHash''] @ false_keys"

definition binding_keys :: "string list" where
  "binding_keys = [''accountFingerprint'', ''accountProfileId'', ''credentialConfigurationHash'', ''policyHash'']"

subsection \<open>Scalar fields\<close>

definition krw_check :: "bool \<Rightarrow> string \<Rightarrow> unit res" where
  "krw_check condition krw_code = require condition (CodedError krw_code)"

definition canonical_hash :: "pyval \<Rightarrow> string res" where
  "canonical_hash value =
     (if strict_json value then Inr (seal value)
      else Inl (CodedError ''KIS_SHARED_KRW_CANONICAL_INPUT_INVALID''))"

definition is_sha :: "pyval \<Rightarrow> bool" where
  "is_sha v = (case v of PStr s \<Rightarrow> sha_pattern s | _ \<Rightarrow> False)"

definition krw_pattern :: "string \<Rightarrow> bool" where
  "krw_pattern s = (s = ''0''
     \<or> (s \<noteq> [] \<and> length s \<le> 24 \<and> list_all is_digit s \<and> hd s \<noteq> CHR ''0''))"

definition krw_money :: "pyval \<Rightarrow> int res" where
  "krw_money v =
     (case v of
        PStr s \<Rightarrow> if krw_pattern s then Inr (int (digits_val s))
                  else Inl (CodedError ''KIS_SHARED_KRW_CANONICAL_WHOLE_WON_REQUIRED'')
      | _ \<Rightarrow> Inl (CodedError ''KIS_SHARED_KRW_CANONICAL_WHOLE_WON_REQUIRED''))"

definition bounded_id :: "pyval \<Rightarrow> bool" where
  "bounded_id v =
     (case v of
        PStr s \<Rightarrow> s \<noteq> [] \<and> length s \<le> 128 \<and> is_alnum (hd s) \<and> code (hd s) < 128
          \<and> list_all (\<lambda>c. (is_alnum c \<and> code c < 128) \<or> c \<in> {CHR ''_'', CHR ''.'', CHR '':'', CHR ''-''}) s
      | _ \<Rightarrow> False)"

definition without :: "string \<Rightarrow> pydict \<Rightarrow> pydict" where
  "without k d = filter (\<lambda>(k', _). k' \<noteq> k) d"

text \<open>\<open>set(d) == KEYS\<close>; the keys of a dict are distinct.\<close>

definition has_keys :: "pydict \<Rightarrow> string list \<Rightarrow> bool" where
  "has_keys d keys = (set (map fst d) = set keys \<and> distinct (map fst d))"

text \<open>\<open>all(request[key] == policy[key] for key in (...))\<close>\<close>

definition same_binding :: "pydict \<Rightarrow> pydict \<Rightarrow> bool" where
  "same_binding request policy =
     list_all (\<lambda>k. canon (dict_get request k) = canon (dict_get policy k)) binding_keys"

subsection \<open>Policies and requests\<close>

definition validate_policy :: "pyval \<Rightarrow> pydict res" where
  "validate_policy policy =
     (case policy of
        PDict result \<Rightarrow>
          res_bind (krw_check (has_keys result policy_keys) ''KIS_SHARED_KRW_POLICY_SHAPE_INVALID'') (\<lambda>_.
          res_bind (krw_check (dict_get result ''schemaVersion'' = PStr krw_policy_schema
            \<and> list_all (\<lambda>k. is_sha (dict_get result k))
                [''accountFingerprint'', ''accountProfileId'', ''credentialConfigurationHash'',
                 ''reviewBindingHash'', ''policyHash'']) ''KIS_SHARED_KRW_POLICY_BINDING_INVALID'') (\<lambda>_.
          res_bind (krw_money (dict_get result ''capKrw'')) (\<lambda>cap.
          res_bind (krw_check (0 < cap) ''KIS_SHARED_KRW_POSITIVE_REVIEWED_CAP_REQUIRED'') (\<lambda>_.
          res_bind (canonical_hash (PDict (without ''policyHash'' result))) (\<lambda>digest.
          res_bind (krw_check (PStr digest = dict_get result ''policyHash'')
            ''KIS_SHARED_KRW_POLICY_HASH_INVALID'') (\<lambda>_.
          Inr result))))))
      | _ \<Rightarrow> Inl (CodedError ''KIS_SHARED_KRW_POLICY_SHAPE_INVALID''))"

definition native_currencies :: "string list" where
  "native_currencies = [''KRW'', ''USD'', ''JPY'', ''CNY'', ''HKD'', ''GBP'']"

definition validate_request :: "pyval \<Rightarrow> pydict res" where
  "validate_request request =
     (case request of
        PDict result \<Rightarrow>
          res_bind (krw_check (has_keys result request_keys) ''KIS_SHARED_KRW_REQUEST_SHAPE_INVALID'') (\<lambda>_.
          res_bind (krw_check (dict_get result ''schemaVersion'' = PStr krw_request_schema
            \<and> list_all (\<lambda>k. is_sha (dict_get result k))
                [''scopeHash'', ''accountFingerprint'', ''accountProfileId'',
                 ''credentialConfigurationHash'', ''basisHash'', ''policyHash'', ''requestHash''])
            ''KIS_SHARED_KRW_REQUEST_BINDING_INVALID'') (\<lambda>_.
          res_bind (krw_check (list_all (\<lambda>k. bounded_id (dict_get result k)) [''reservationId'', ''deploymentId''])
            ''KIS_SHARED_KRW_BOUNDED_ID_REQUIRED'') (\<lambda>_.
          res_bind (krw_check (dict_get result ''nativeCurrency'' \<in> PStr ` set native_currencies)
            ''KIS_SHARED_KRW_NATIVE_CURRENCY_UNSUPPORTED'') (\<lambda>_.
          res_bind (krw_money (dict_get result ''requestedKrw'')) (\<lambda>amount.
          res_bind (krw_check (0 < amount) ''KIS_SHARED_KRW_POSITIVE_RESERVATION_REQUIRED'') (\<lambda>_.
          res_bind (canonical_hash (PDict (without ''requestHash'' result))) (\<lambda>digest.
          res_bind (krw_check (PStr digest = dict_get result ''requestHash'')
            ''KIS_SHARED_KRW_REQUEST_HASH_INVALID'') (\<lambda>_.
          Inr result))))))))
      | _ \<Rightarrow> Inl (CodedError ''KIS_SHARED_KRW_REQUEST_SHAPE_INVALID''))"

subsection \<open>The schema\<close>

text \<open>The rows of \<open>sqlite_master\<close> that matter: tables and triggers. SQLite stores the text of a
  statement without its \<open>IF NOT EXISTS\<close>.\<close>

record master_row =
  sm_kind :: string
  sm_name :: string
  sm_table :: string
  sm_sql :: "string option"

fun remove_all :: "nat \<Rightarrow> string \<Rightarrow> string \<Rightarrow> string" where
  "remove_all 0 word s = s"
| "remove_all (Suc n) word s =
     (if s = [] then []
      else if starts_with s word then remove_all n word (drop (length word) s)
      else hd s # remove_all n word (tl s))"

fun collapse_spaces :: "string \<Rightarrow> string" where
  "collapse_spaces [] = []"
| "collapse_spaces (c # cs) =
     (if is_space c then (case cs of d # _ \<Rightarrow> if is_space d then collapse_spaces cs else CHR '' '' # collapse_spaces cs
                                   | [] \<Rightarrow> [CHR '' ''])
      else c # collapse_spaces cs)"

definition sql_normal :: "string \<Rightarrow> string" where
  "sql_normal text =
     upper (collapse_spaces (rev (dropWhile (\<lambda>c. c = CHR '';'')
       (rev (strip (remove_all (length text) ''IF NOT EXISTS '' text))))))"

definition krw_ddl :: "(string \<times> string) list" where
  "krw_ddl =
     [(pool_table, ''CREATE TABLE IF NOT EXISTS '' @ pool_table @ '' (''
        @ ''account_fingerprint TEXT PRIMARY KEY NOT NULL, payload TEXT NOT NULL, ''
        @ ''content_hash TEXT NOT NULL)''),
      (reservation_table, ''CREATE TABLE IF NOT EXISTS '' @ reservation_table @ '' (''
        @ ''reservation_id TEXT PRIMARY KEY NOT NULL, account_fingerprint TEXT NOT NULL, ''
        @ ''deployment_id TEXT NOT NULL, sequence INTEGER NOT NULL, ''
        @ ''payload TEXT NOT NULL, content_hash TEXT NOT NULL, ''
        @ ''UNIQUE(account_fingerprint, sequence), UNIQUE(account_fingerprint, deployment_id))'')]"

definition guard_trigger :: "string \<Rightarrow> string \<Rightarrow> string \<Rightarrow> string \<times> string \<times> string" where
  "guard_trigger table operation ending =
     (let name = table @ ''_no_'' @ ending
      in (name, table, ''CREATE TRIGGER IF NOT EXISTS '' @ name @ '' BEFORE '' @ operation @ '' ON '' @ table
            @ '' BEGIN SELECT RAISE(ABORT,'' @ [CHR 0x27] @ ''KIS_SHARED_KRW_APPEND_ONLY'' @ [CHR 0x27] @ ''); END''))"

definition krw_triggers :: "(string \<times> string \<times> string) list" where
  "krw_triggers =
     [guard_trigger pool_table ''UPDATE'' ''update'', guard_trigger pool_table ''DELETE'' ''delete'',
      guard_trigger reservation_table ''UPDATE'' ''update'', guard_trigger reservation_table ''DELETE'' ''delete'',
      (let name = pool_table @ ''_no_replacement''
       in (name, pool_table, ''CREATE TRIGGER IF NOT EXISTS '' @ name @ '' BEFORE INSERT ON '' @ pool_table
            @ '' WHEN EXISTS (SELECT 1 FROM '' @ pool_table @ '' WHERE account_fingerprint=NEW.account_fingerprint) ''
            @ ''BEGIN SELECT RAISE(ABORT,'' @ [CHR 0x27] @ ''KIS_SHARED_KRW_APPEND_ONLY'' @ [CHR 0x27] @ ''); END'')),
      (let name = reservation_table @ ''_no_replacement''
       in (name, reservation_table, ''CREATE TRIGGER IF NOT EXISTS '' @ name @ '' BEFORE INSERT ON '' @ reservation_table
            @ '' WHEN EXISTS (SELECT 1 FROM '' @ reservation_table @ '' WHERE reservation_id=NEW.reservation_id ''
            @ ''OR (account_fingerprint=NEW.account_fingerprint AND ''
            @ ''(sequence=NEW.sequence OR deployment_id=NEW.deployment_id))) ''
            @ ''BEGIN SELECT RAISE(ABORT,'' @ [CHR 0x27] @ ''KIS_SHARED_KRW_APPEND_ONLY'' @ [CHR 0x27] @ ''); END''))]"

definition normal_as :: "string option \<Rightarrow> string option \<Rightarrow> bool" where
  "normal_as sql expected =
     (case (sql, expected) of (Some s, Some t) \<Rightarrow> sql_normal s = sql_normal t | _ \<Rightarrow> False)"

definition schema_present :: "master_row list \<Rightarrow> bool res" where
  "schema_present master =
     (let rows = filter (\<lambda>r. sm_name r \<in> {pool_table, reservation_table}) master;
          triggers = filter (\<lambda>r. sm_kind r = ''trigger'' \<and> sm_table r \<in> {pool_table, reservation_table}) master
      in if rows = [] then Inr False
         else
           res_bind (krw_check (length rows = 2) ''KIS_SHARED_KRW_SCHEMA_PARTIAL_OR_CHANGED'') (\<lambda>_.
           res_bind (krw_check (list_all (\<lambda>r. sm_kind r = ''table''
               \<and> normal_as (sm_sql r) (map_of krw_ddl (sm_name r))) rows)
             ''KIS_SHARED_KRW_SCHEMA_PARTIAL_OR_CHANGED'') (\<lambda>_.
           res_bind (krw_check (set (map sm_name triggers) = set (map fst krw_triggers))
             ''KIS_SHARED_KRW_APPEND_ONLY_GUARD_CHANGED'') (\<lambda>_.
           res_bind (krw_check (list_all (\<lambda>r.
               normal_as (sm_sql r) (map_option snd (map_of krw_triggers (sm_name r)))) triggers)
             ''KIS_SHARED_KRW_APPEND_ONLY_GUARD_CHANGED'') (\<lambda>_.
           Inr True)))))"

definition create_object :: "string \<Rightarrow> string \<times> string \<times> string \<Rightarrow> master_row list \<Rightarrow> master_row list" where
  "create_object kind statement master =
     (case statement of (name, table, sql) \<Rightarrow>
        if list_ex (\<lambda>r. sm_kind r = kind \<and> sm_name r = name) master then master
        else master @ [\<lparr>sm_kind = kind, sm_name = name, sm_table = table,
               sm_sql = Some (remove_all (length sql) ''IF NOT EXISTS '' sql)\<rparr>])"

definition created_schema :: "master_row list \<Rightarrow> master_row list" where
  "created_schema master =
     fold (create_object ''trigger'') krw_triggers
       (fold (\<lambda>(name, sql). create_object ''table'' (name, name, sql)) krw_ddl master)"

end
