(* ===== verification/Krw_Reservation.thy ===== *)
theory Krw_Reservation
  imports Krw_Fields
begin

section \<open>Shared KRW budget: pools and reservations\<close>

text \<open>
  The two append-only tables, the full re-verification of an account's chain on every read
  (\<open>_inspect\<close>), and the reservation (\<open>reserve_in_transaction\<close>). A text column is kept as its length
  in characters and bytes together with what \<open>_decode\<close> makes of it; texts written by the module are
  \<open>json.dumps\<close> with the default separators, whose length is \<open>length (loose_text v)\<close>. An error
  leaves the caller to roll its transaction back, so it carries no state.
\<close>

record text_column =
  tc_chars :: nat
  tc_bytes :: nat
  tc_value :: "string + pyval"

record krw_pool_row =
  kp_account :: string
  kp_payload :: text_column
  kp_hash :: string

record krw_row =
  kr_id :: string
  kr_account :: string
  kr_deployment :: string
  kr_sequence :: int
  kr_payload :: text_column
  kr_hash :: string

record krw_db =
  kd_transaction :: bool
  kd_master :: "master_row list"
  kd_pools :: "krw_pool_row list"
  kd_reservations :: "krw_row list"

text \<open>\<open>json.dumps(value, ensure_ascii=False, sort_keys=True)\<close>, default separators.\<close>

fun loose_text :: "pyval \<Rightarrow> string"
  and loose_items :: "pyval list \<Rightarrow> string"
  and loose_entries :: "pydict \<Rightarrow> string" where
  "loose_text (PList xs) = ''['' @ loose_items xs @ '']''"
| "loose_text (PDict kvs) = ''{'' @ loose_entries kvs @ ''}''"
| "loose_text v = json_text v"
| "loose_items [] = []"
| "loose_items (x # xs) = loose_text x @ (if xs = [] then [] else '', '' @ loose_items xs)"
| "loose_entries [] = []"
| "loose_entries ((k, v) # kvs) =
     json_quote k @ '': '' @ loose_text v @ (if kvs = [] then [] else '', '' @ loose_entries kvs)"

definition stored_json :: "pyval \<Rightarrow> text_column" where
  "stored_json v =
     (let raw = loose_text (canon v)
      in \<lparr>tc_chars = py_len raw, tc_bytes = length raw, tc_value = Inr (canon v)\<rparr>)"

text \<open>A longer text is selected as NULL, which is refused as well.\<close>

definition load_column :: "text_column \<Rightarrow> pyval res" where
  "load_column column =
     res_bind (krw_check (0 < tc_chars column \<and> tc_chars column \<le> max_record_chars)
       ''KIS_SHARED_KRW_STORED_RECORD_BOUND_INVALID'') (\<lambda>_.
     case tc_value column of Inl krw_code \<Rightarrow> Inl (CodedError krw_code) | Inr v \<Rightarrow> Inr v)"

definition in_transaction :: "krw_db \<Rightarrow> unit res" where
  "in_transaction db = krw_check (kd_transaction db) ''KIS_SHARED_KRW_CALLER_TRANSACTION_REQUIRED''"

definition krw_ensure_schema :: "krw_db \<Rightarrow> krw_db res" where
  "krw_ensure_schema db =
     res_bind (in_transaction db) (\<lambda>_.
     if list_ex (\<lambda>r. sm_name r \<in> {pool_table, reservation_table}) (kd_master db)
     then res_bind (schema_present (kd_master db)) (\<lambda>present.
          res_bind (krw_check present ''KIS_SHARED_KRW_SCHEMA_PARTIAL_OR_CHANGED'') (\<lambda>_. Inr db))
     else let db' = db\<lparr>kd_master := created_schema (kd_master db)\<rparr>
          in res_bind (schema_present (kd_master db')) (\<lambda>present.
             res_bind (krw_check present ''KIS_SHARED_KRW_SCHEMA_PARTIAL_OR_CHANGED'') (\<lambda>_. Inr db')))"

subsection \<open>Reading an account's chain\<close>

record krw_scan =
  ks_reserved :: int
  ks_previous :: "string option"
  ks_records :: "pydict list"
  ks_bytes :: nat
  ks_ids :: "string list"
  ks_deployments :: "string list"

definition scan_start :: krw_scan where
  "scan_start = \<lparr>ks_reserved = 0, ks_previous = None, ks_records = [], ks_bytes = 0, ks_ids = [], ks_deployments = []\<rparr>"

definition previous_value :: "string option \<Rightarrow> pyval" where
  "previous_value p = (case p of None \<Rightarrow> PNone | Some h \<Rightarrow> PStr h)"

definition receipt_shape :: "pydict \<Rightarrow> bool" where
  "receipt_shape receipt \<longleftrightarrow>
     has_keys receipt receipt_keys \<and> dict_get receipt ''schemaVersion'' = PStr krw_receipt_schema
     \<and> dict_get receipt ''localBudgetOnly'' = PBool True
     \<and> dict_get receipt ''localReservationRecorded'' = PBool True
     \<and> list_all (\<lambda>k. dict_get receipt k = PBool False) false_keys"

definition receipt_seal_ok :: "string \<Rightarrow> pydict \<Rightarrow> krw_scan \<Rightarrow> krw_row \<Rightarrow> pydict \<Rightarrow> pydict \<Rightarrow> bool res" where
  "receipt_seal_ok account policy s row receipt request =
     (if PStr (kr_id row) = dict_get request ''reservationId''
         \<and> PStr (kr_deployment row) = dict_get request ''deploymentId''
         \<and> kr_account row = account \<and> kr_sequence row = int (length (ks_records s)) + 1
         \<and> dict_get receipt ''sequence'' = PInt (kr_sequence row)
         \<and> dict_get receipt ''accountFingerprint'' = PStr account
         \<and> dict_get receipt ''policyHash'' = dict_get policy ''policyHash''
         \<and> dict_get receipt ''capKrw'' = dict_get policy ''capKrw''
         \<and> dict_get receipt ''previousReceiptHash'' = previous_value (ks_previous s)
         \<and> dict_get receipt ''reservedKrwBefore'' = PStr (int_text (ks_reserved s))
         \<and> is_sha (dict_get receipt ''contentHash'') \<and> dict_get receipt ''contentHash'' = PStr (kr_hash row)
      then res_bind (canonical_hash (PDict (without ''contentHash'' receipt))) (\<lambda>digest. Inr (digest = kr_hash row))
      else Inr False)"

definition scan_reservation :: "string \<Rightarrow> pydict \<Rightarrow> int \<Rightarrow> krw_scan \<Rightarrow> krw_row \<Rightarrow> krw_scan res" where
  "scan_reservation account policy cap s row =
     res_bind (krw_check (length (ks_records s) < max_reservations)
       ''KIS_SHARED_KRW_RESERVATION_LIMIT_EXCEEDED'') (\<lambda>_.
     res_bind (load_column (kr_payload row)) (\<lambda>decoded.
     res_bind (krw_check (ks_bytes s + tc_bytes (kr_payload row) \<le> max_record_bytes)
       ''KIS_SHARED_KRW_RESERVATION_LIMIT_EXCEEDED'') (\<lambda>_.
     res_bind (krw_check (is_dict decoded \<and> receipt_shape (as_dict decoded))
       ''KIS_SHARED_KRW_STORED_RECEIPT_INVALID'') (\<lambda>_.
     let receipt = as_dict decoded in
     res_bind (validate_request (dict_get receipt ''request'')) (\<lambda>request.
     res_bind (krw_check (same_binding request policy)
       ''KIS_SHARED_KRW_STORED_REQUEST_BINDING_CHANGED'') (\<lambda>_.
     res_bind (receipt_seal_ok account policy s row receipt request) (\<lambda>sealed.
     res_bind (krw_check sealed ''KIS_SHARED_KRW_RECEIPT_CHAIN_OR_SEAL_INVALID'') (\<lambda>_.
     res_bind (krw_check (kr_id row \<notin> set (ks_ids s) \<and> kr_deployment row \<notin> set (ks_deployments s))
       ''KIS_SHARED_KRW_DUPLICATE_RESERVATION_OR_DEPLOYMENT'') (\<lambda>_.
     res_bind (krw_money (dict_get request ''requestedKrw'')) (\<lambda>amount.
     let reserved = ks_reserved s + amount in
     res_bind (krw_check (reserved \<le> cap \<and> dict_get receipt ''reservedKrwAfter'' = PStr (int_text reserved))
       ''KIS_SHARED_KRW_CAP_OR_RUNNING_TOTAL_INVALID'') (\<lambda>_.
     Inr \<lparr>ks_reserved = reserved, ks_previous = Some (kr_hash row), ks_records = ks_records s @ [receipt],
          ks_bytes = ks_bytes s + tc_bytes (kr_payload row), ks_ids = kr_id row # ks_ids s,
          ks_deployments = kr_deployment row # ks_deployments s\<rparr>)))))))))))"

record krw_pool =
  kb_policy :: pydict
  kb_cap :: int
  kb_reserved :: int
  kb_head :: "string option"
  kb_receipts :: "pydict list"

definition account_rows :: "krw_db \<Rightarrow> string \<Rightarrow> krw_row list" where
  "account_rows db account =
     sort_key kr_sequence (filter (\<lambda>r. kr_account r = account) (kd_reservations db))"

definition krw_inspect :: "krw_db \<Rightarrow> string \<Rightarrow> krw_pool option res" where
  "krw_inspect db account =
     res_bind (schema_present (kd_master db)) (\<lambda>present.
     if \<not> present then Inr None
     else case find (\<lambda>p. kp_account p = account) (kd_pools db) of
         None \<Rightarrow>
           res_bind (krw_check (account_rows db account = []) ''KIS_SHARED_KRW_ORPHAN_RESERVATION'') (\<lambda>_. Inr None)
       | Some row \<Rightarrow>
           res_bind (load_column (kp_payload row)) (\<lambda>decoded.
           res_bind (validate_policy decoded) (\<lambda>policy.
           res_bind (krw_check (dict_get policy ''accountFingerprint'' = PStr account
               \<and> PStr (kp_hash row) = dict_get policy ''policyHash'') ''KIS_SHARED_KRW_STORED_POLICY_CHANGED'') (\<lambda>_.
           res_bind (krw_money (dict_get policy ''capKrw'')) (\<lambda>cap.
           res_bind (res_fold (scan_reservation account policy cap) scan_start
               (take (Suc max_reservations) (account_rows db account))) (\<lambda>s.
           Inr (Some \<lparr>kb_policy = policy, kb_cap = cap, kb_reserved = ks_reserved s,
                      kb_head = ks_previous s, kb_receipts = ks_records s\<rparr>)))))))"

text \<open>The dictionaries the module returns.\<close>

definition pool_dict :: "string \<Rightarrow> krw_pool option \<Rightarrow> pydict" where
  "pool_dict account pool =
     (case pool of
        None \<Rightarrow>
          [(''schemaVersion'', PStr krw_state_schema), (''status'', PStr ''UNKNOWN_NO_POOL''),
           (''accountFingerprint'', PStr account), (''policy'', PNone), (''capKrw'', PNone),
           (''reservedKrw'', PNone), (''remainingKrw'', PNone), (''reservationCount'', PNone),
           (''headReceiptHash'', PNone), (''receipts'', PNone), (''localBudgetOnly'', PBool True)] @ false_flags
      | Some b \<Rightarrow>
          [(''schemaVersion'', PStr krw_state_schema), (''status'', PStr ''LOCAL_BUDGET_STATE_ONLY''),
           (''accountFingerprint'', PStr account), (''policy'', PDict (kb_policy b)),
           (''capKrw'', PStr (int_text (kb_cap b))), (''reservedKrw'', PStr (int_text (kb_reserved b))),
           (''remainingKrw'', PStr (int_text (kb_cap b - kb_reserved b))),
           (''reservationCount'', PInt (int (length (kb_receipts b)))),
           (''headReceiptHash'', previous_value (kb_head b)),
           (''receipts'', PList (map PDict (kb_receipts b))), (''localBudgetOnly'', PBool True)] @ false_flags)"

definition inspect_in_transaction :: "krw_db \<Rightarrow> pyval \<Rightarrow> krw_pool option res" where
  "inspect_in_transaction db account =
     res_bind (in_transaction db) (\<lambda>_.
     res_bind (krw_check (is_sha account) ''KIS_SHARED_KRW_ACCOUNT_FINGERPRINT_INVALID'') (\<lambda>_.
     krw_inspect db (py_str account)))"

subsection \<open>Reserving\<close>

record krw_result =
  kx_idempotent :: bool
  kx_receipt :: pydict
  kx_pool :: krw_pool

definition result_dict :: "string \<Rightarrow> krw_result \<Rightarrow> pydict" where
  "result_dict account r =
     [(''schemaVersion'', PStr krw_result_schema), (''status'', PStr ''LOCAL_BUDGET_RESERVED''),
      (''idempotent'', PBool (kx_idempotent r)), (''receipt'', PDict (kx_receipt r)),
      (''pool'', PDict (pool_dict account (Some (kx_pool r)))), (''localBudgetOnly'', PBool True)] @ false_flags"

definition pool_receipts :: "krw_pool option \<Rightarrow> pydict list" where
  "pool_receipts pool = (case pool of None \<Rightarrow> [] | Some b \<Rightarrow> kb_receipts b)"

definition pool_reserved :: "krw_pool option \<Rightarrow> int" where
  "pool_reserved pool = (case pool of None \<Rightarrow> 0 | Some b \<Rightarrow> kb_reserved b)"

definition pool_head :: "krw_pool option \<Rightarrow> string option" where
  "pool_head pool = (case pool of None \<Rightarrow> None | Some b \<Rightarrow> kb_head b)"

definition request_field :: "pydict \<Rightarrow> string \<Rightarrow> pyval" where
  "request_field receipt k = dict_get (as_dict (dict_get receipt ''request'')) k"

text \<open>A request whose id is stored already must be the very same request of the same account.\<close>

definition replay_reservation ::
  "krw_db \<Rightarrow> string \<Rightarrow> krw_pool option \<Rightarrow> pydict \<Rightarrow> krw_row \<Rightarrow> (krw_db \<times> krw_result) res" where
  "replay_reservation db account pool request old =
     (let matches = filter (\<lambda>item. request_field item ''reservationId'' = dict_get request ''reservationId'')
            (pool_receipts pool)
      in case (pool, matches) of
           (Some b, [receipt]) \<Rightarrow>
             if kr_account old = account \<and> canon (dict_get receipt ''request'') = canon (PDict request)
             then Inr (db, \<lparr>kx_idempotent = True, kx_receipt = receipt, kx_pool = b\<rparr>)
             else Inl (CodedError ''KIS_SHARED_KRW_IDEMPOTENCY_CONFLICT'')
         | _ \<Rightarrow> Inl (CodedError ''KIS_SHARED_KRW_IDEMPOTENCY_CONFLICT''))"

definition insert_pool :: "krw_db \<Rightarrow> string \<Rightarrow> pydict \<Rightarrow> krw_db res" where
  "insert_pool db account policy =
     (if list_ex (\<lambda>p. kp_account p = account) (kd_pools db)
      then Inl (CodedError ''KIS_SHARED_KRW_POOL_CAS_CHANGED'')
      else Inr (db\<lparr>kd_pools := kd_pools db @ [\<lparr>kp_account = account, kp_payload = stored_json (PDict policy),
             kp_hash = py_str (dict_get policy ''policyHash'')\<rparr>]\<rparr>))"

definition new_receipt :: "pydict \<Rightarrow> pydict \<Rightarrow> string \<Rightarrow> int \<Rightarrow> string option \<Rightarrow> int \<Rightarrow> int \<Rightarrow> pydict" where
  "new_receipt policy request account sequence head before after =
     [(''schemaVersion'', PStr krw_receipt_schema), (''request'', PDict request),
      (''policyHash'', dict_get policy ''policyHash''), (''accountFingerprint'', PStr account),
      (''sequence'', PInt sequence), (''previousReceiptHash'', previous_value head),
      (''reservedKrwBefore'', PStr (int_text before)), (''reservedKrwAfter'', PStr (int_text after)),
      (''capKrw'', dict_get policy ''capKrw''), (''localBudgetOnly'', PBool True),
      (''localReservationRecorded'', PBool True)] @ false_flags"

text \<open>The conditional \<open>INSERT ... SELECT ... WHERE\<close>: the pool, the head and the ids as read before.\<close>

definition insert_reservation :: "krw_db \<Rightarrow> string \<Rightarrow> string \<Rightarrow> string option \<Rightarrow> krw_row \<Rightarrow> krw_db res" where
  "insert_reservation db account policy_hash head row =
     (let rows = account_rows db account
      in if list_ex (\<lambda>p. kp_account p = account \<and> kp_hash p = policy_hash) (kd_pools db)
            \<and> (if rows = [] then 0 else kr_sequence (last rows)) = kr_sequence row - 1
            \<and> (if rows = [] then [] else kr_hash (last rows)) = (case head of None \<Rightarrow> [] | Some h \<Rightarrow> h)
            \<and> \<not> list_ex (\<lambda>r. kr_id r = kr_id row \<or> (kr_account r = account \<and> kr_deployment r = kr_deployment row))
                 (kd_reservations db)
         then Inr (db\<lparr>kd_reservations := kd_reservations db @ [row]\<rparr>)
         else Inl (CodedError ''KIS_SHARED_KRW_RESERVATION_CAS_CHANGED''))"

definition append_reservation ::
  "krw_db \<Rightarrow> string \<Rightarrow> krw_pool option \<Rightarrow> pydict \<Rightarrow> pydict \<Rightarrow> int \<Rightarrow> (krw_db \<times> krw_result) res" where
  "append_reservation db account pool policy request after =
     (let before = pool_reserved pool;
          sequence = int (length (pool_receipts pool)) + 1;
          draft = new_receipt policy request account sequence (pool_head pool) before after;
          policy_hash = py_str (dict_get policy ''policyHash'')
      in res_bind (if pool = None then insert_pool db account policy else Inr db) (\<lambda>db1.
         res_bind (canonical_hash (PDict draft)) (\<lambda>digest.
         let receipt = draft @ [(''contentHash'', PStr digest)] in
         res_bind (insert_reservation db1 account policy_hash (pool_head pool)
           \<lparr>kr_id = py_str (dict_get request ''reservationId''), kr_account = account,
            kr_deployment = py_str (dict_get request ''deploymentId''), kr_sequence = sequence,
            kr_payload = stored_json (PDict receipt), kr_hash = digest\<rparr>) (\<lambda>db2.
         res_bind (krw_inspect db2 account) (\<lambda>current.
         case current of
           None \<Rightarrow> Inl (CodedError ''KIS_SHARED_KRW_RESERVATION_CAS_CHANGED'')
         | Some b \<Rightarrow>
             if kb_head b = Some digest \<and> kb_reserved b = after
             then Inr (db2, \<lparr>kx_idempotent = False, kx_receipt = receipt, kx_pool = b\<rparr>)
             else Inl (CodedError ''KIS_SHARED_KRW_RESERVATION_CAS_CHANGED''))))))"

definition reserve_in_transaction :: "krw_db \<Rightarrow> pyval \<Rightarrow> pyval \<Rightarrow> (krw_db \<times> krw_result) res" where
  "reserve_in_transaction db policy_value request_value =
     res_bind (in_transaction db) (\<lambda>_.
     res_bind (validate_policy policy_value) (\<lambda>policy.
     res_bind (validate_request request_value) (\<lambda>request.
     res_bind (krw_check (same_binding request policy)
       ''KIS_SHARED_KRW_CURRENT_POLICY_REQUEST_BINDING_MISMATCH'') (\<lambda>_.
     res_bind (krw_money (dict_get request ''requestedKrw'')) (\<lambda>amount.
     res_bind (krw_money (dict_get policy ''capKrw'')) (\<lambda>cap.
     res_bind (krw_check (amount \<le> cap) ''KIS_SHARED_KRW_CAP_EXCEEDED'') (\<lambda>_.
     res_bind (schema_present (kd_master db)) (\<lambda>present.
     res_bind (krw_check present ''KIS_SHARED_KRW_SCHEMA_REQUIRED'') (\<lambda>_.
     let account = py_str (dict_get policy ''accountFingerprint'') in
     res_bind (krw_inspect db account) (\<lambda>pool.
     res_bind (krw_check (case pool of None \<Rightarrow> True | Some b \<Rightarrow> canon (PDict (kb_policy b)) = canon (PDict policy))
       ''KIS_SHARED_KRW_EXISTING_POOL_POLICY_OR_BINDING_CHANGED'') (\<lambda>_.
     case find (\<lambda>r. PStr (kr_id r) = dict_get request ''reservationId'') (kd_reservations db) of
       Some old \<Rightarrow> replay_reservation db account pool request old
     | None \<Rightarrow>
         res_bind (krw_check (\<not> list_ex (\<lambda>item. request_field item ''deploymentId'' = dict_get request ''deploymentId'')
             (pool_receipts pool)) ''KIS_SHARED_KRW_DEPLOYMENT_ALREADY_RESERVED'') (\<lambda>_.
         let after = pool_reserved pool + amount in
         res_bind (krw_check (after \<le> cap) ''KIS_SHARED_KRW_CAP_EXCEEDED'') (\<lambda>_.
         append_reservation db account pool policy request after)))))))))))))"

definition release_in_transaction :: "krw_db \<Rightarrow> pyval \<Rightarrow> unit res" where
  "release_in_transaction db request =
     res_bind (in_transaction db) (\<lambda>_. Inl (CodedError ''KIS_SHARED_KRW_RELEASE_PRODUCER_UNAVAILABLE''))"

end
