(* ===== verification/Krw_Scan_Laws.thy ===== *)
theory Krw_Scan_Laws
  imports Krw_Reservation Hash_Chain
begin

section \<open>Shared KRW budget: what an accepted chain says\<close>

text \<open>
  The scan of an account's reservations accepts a chain only when every receipt continues the one
  before it, no reservation or deployment repeats, and the running total stays within the cap.
  The receipts are \<open>sealed_rows\<close>, so the newest digest determines them.
\<close>

subsection \<open>Validated values\<close>

lemma krw_check_Inr [simp]: "krw_check b c = Inr u \<longleftrightarrow> b"
  by (simp add: krw_check_def)

lemma krw_check_True [simp]: "krw_check True c = Inr ()"
  by (simp add: krw_check_def)

lemma krw_money_Inr: "krw_money v = Inr n \<longleftrightarrow> (\<exists>s. v = PStr s \<and> krw_pattern s \<and> n = int (digits_val s))"
  by (auto simp: krw_money_def split: pyval.splits)

lemma canonical_hash_Inr: "canonical_hash v = Inr h \<longleftrightarrow> strict_json v \<and> h = seal v"
  by (auto simp: canonical_hash_def)

definition valid_policy :: "pydict \<Rightarrow> int \<Rightarrow> bool" where
  "valid_policy p cap \<longleftrightarrow> has_keys p policy_keys \<and> dict_get p ''schemaVersion'' = PStr krw_policy_schema
     \<and> list_all (\<lambda>k. is_sha (dict_get p k)) [''accountFingerprint'', ''accountProfileId'',
         ''credentialConfigurationHash'', ''reviewBindingHash'', ''policyHash'']
     \<and> krw_money (dict_get p ''capKrw'') = Inr cap \<and> 0 < cap
     \<and> dict_get p ''policyHash'' = PStr (seal (PDict (without ''policyHash'' p)))"

lemma validate_policy_Inr:
  assumes "validate_policy v = Inr p"
  shows "v = PDict p \<and> (\<exists>cap. valid_policy p cap)"
proof (cases v)
  case (PDict d)
  with assms have "validate_policy (PDict d) = Inr p" by simp
  then show ?thesis
    unfolding validate_policy_def pyval.case valid_policy_def PDict
    by (elim res_bindE) (auto simp: canonical_hash_Inr)
qed (use assms in \<open>auto simp: validate_policy_def\<close>)

lemma validate_policy_again:
  assumes "validate_policy v = Inr p"
  shows "validate_policy (PDict p) = Inr p"
  using assms validate_policy_Inr [OF assms] by simp

definition valid_request :: "pydict \<Rightarrow> int \<Rightarrow> bool" where
  "valid_request r amount \<longleftrightarrow> has_keys r request_keys \<and> dict_get r ''schemaVersion'' = PStr krw_request_schema
     \<and> list_all (\<lambda>k. is_sha (dict_get r k)) [''scopeHash'', ''accountFingerprint'', ''accountProfileId'',
         ''credentialConfigurationHash'', ''basisHash'', ''policyHash'', ''requestHash'']
     \<and> bounded_id (dict_get r ''reservationId'') \<and> bounded_id (dict_get r ''deploymentId'')
     \<and> dict_get r ''nativeCurrency'' \<in> PStr ` set native_currencies
     \<and> krw_money (dict_get r ''requestedKrw'') = Inr amount \<and> 0 < amount
     \<and> dict_get r ''requestHash'' = PStr (seal (PDict (without ''requestHash'' r)))"

lemma validate_request_Inr:
  assumes "validate_request v = Inr r"
  shows "v = PDict r \<and> (\<exists>amount. valid_request r amount)"
proof (cases v)
  case (PDict d)
  with assms have "validate_request (PDict d) = Inr r" by simp
  then show ?thesis
    unfolding validate_request_def pyval.case valid_request_def PDict
    by (elim res_bindE) (auto simp: canonical_hash_Inr)
qed (use assms in \<open>auto simp: validate_request_def\<close>)

subsection \<open>One receipt\<close>

definition receipt_amount :: "pydict \<Rightarrow> int" where
  "receipt_amount r = (case krw_money (request_field r ''requestedKrw'') of Inl _ \<Rightarrow> 0 | Inr n \<Rightarrow> n)"

definition receipt_id :: "pydict \<Rightarrow> string" where
  "receipt_id r = py_str (request_field r ''reservationId'')"

definition receipt_deployment :: "pydict \<Rightarrow> string" where
  "receipt_deployment r = py_str (request_field r ''deploymentId'')"

text \<open>The links and digests of a receipt: the text of the field, nothing before the first receipt.\<close>

definition receipt_link :: "pydict \<Rightarrow> string option" where
  "receipt_link r = (case dict_get r ''previousReceiptHash'' of PStr h \<Rightarrow> Some h | _ \<Rightarrow> None)"

definition receipt_digest :: "pydict \<Rightarrow> string option" where
  "receipt_digest r = (case dict_get r ''contentHash'' of PStr h \<Rightarrow> Some h | _ \<Rightarrow> None)"

lemma receipt_link_value: "dict_get r ''previousReceiptHash'' = previous_value p \<Longrightarrow> receipt_link r = p"
  by (simp add: receipt_link_def previous_value_def split: option.splits)

definition accepted_receipt :: "string \<Rightarrow> pydict \<Rightarrow> krw_row \<Rightarrow> pydict \<Rightarrow> bool" where
  "accepted_receipt account policy row r \<longleftrightarrow>
     load_column (kr_payload row) = Inr (PDict r) \<and> receipt_shape r
     \<and> (\<exists>q amount. dict_get r ''request'' = PDict q \<and> valid_request q amount \<and> same_binding q policy
          \<and> receipt_amount r = amount \<and> 0 < amount
          \<and> dict_get q ''reservationId'' = PStr (kr_id row) \<and> dict_get q ''deploymentId'' = PStr (kr_deployment row))
     \<and> kr_account row = account \<and> dict_get r ''sequence'' = PInt (kr_sequence row)
     \<and> dict_get r ''accountFingerprint'' = PStr account
     \<and> dict_get r ''previousReceiptHash'' \<in> range previous_value
     \<and> dict_get r ''reservedKrwBefore'' \<in> range PStr \<and> dict_get r ''reservedKrwAfter'' \<in> range PStr
     \<and> dict_get r ''policyHash'' = dict_get policy ''policyHash'' \<and> dict_get r ''capKrw'' = dict_get policy ''capKrw''
     \<and> dict_get r ''contentHash'' = PStr (kr_hash row) \<and> kr_hash row = seal (PDict (without ''contentHash'' r))"

lemma accepted_fields:
  assumes "accepted_receipt account policy row r"
  shows "receipt_id r = kr_id row" "receipt_deployment r = kr_deployment row" "0 < receipt_amount r"
  using assms by (auto simp: accepted_receipt_def receipt_id_def receipt_deployment_def request_field_def)

lemma scan_reservation_Inr:
  assumes "scan_reservation account policy cap s row = Inr s'"
  obtains r where "accepted_receipt account policy row r" "length (ks_records s) < max_reservations"
    "kr_sequence row = int (length (ks_records s)) + 1" "dict_get r ''previousReceiptHash'' = previous_value (ks_previous s)"
    "dict_get r ''reservedKrwBefore'' = PStr (int_text (ks_reserved s))"
    "dict_get r ''reservedKrwAfter'' = PStr (int_text (ks_reserved s + receipt_amount r))"
    "ks_reserved s + receipt_amount r \<le> cap"
    "kr_id row \<notin> set (ks_ids s)" "kr_deployment row \<notin> set (ks_deployments s)"
    "s' = \<lparr>ks_reserved = ks_reserved s + receipt_amount r, ks_previous = Some (kr_hash row),
       ks_records = ks_records s @ [r], ks_bytes = ks_bytes s + tc_bytes (kr_payload row),
       ks_ids = kr_id row # ks_ids s, ks_deployments = kr_deployment row # ks_deployments s\<rparr>"
proof -
  from assms obtain decoded q amount where
    load: "load_column (kr_payload row) = Inr decoded" "is_dict decoded" "receipt_shape (as_dict decoded)"
    and q: "validate_request (dict_get (as_dict decoded) ''request'') = Inr q" "same_binding q policy"
    and seal: "receipt_seal_ok account policy s row (as_dict decoded) q = Inr True"
    and fresh: "kr_id row \<notin> set (ks_ids s)" "kr_deployment row \<notin> set (ks_deployments s)"
      "length (ks_records s) < max_reservations"
    and amount: "krw_money (dict_get q ''requestedKrw'') = Inr amount"
    and cap: "ks_reserved s + amount \<le> cap"
      "dict_get (as_dict decoded) ''reservedKrwAfter'' = PStr (int_text (ks_reserved s + amount))"
    and s': "s' = \<lparr>ks_reserved = ks_reserved s + amount, ks_previous = Some (kr_hash row),
       ks_records = ks_records s @ [as_dict decoded], ks_bytes = ks_bytes s + tc_bytes (kr_payload row),
       ks_ids = kr_id row # ks_ids s, ks_deployments = kr_deployment row # ks_deployments s\<rparr>"
    unfolding scan_reservation_def Let_def krw_check_def
    by (elim res_bindE) (simp only: require_eq_Inr, clarsimp)
  from load(2) obtain r where r: "decoded = PDict r" by (cases decoded) auto
  from validate_request_Inr [OF q(1)] r obtain n where n: "dict_get r ''request'' = PDict q" "valid_request q n" by auto
  have na: "n = amount" "0 < amount" using n(2) amount by (simp_all add: valid_request_def)
  have amt: "receipt_amount r = amount" using n(1) amount by (simp add: receipt_amount_def request_field_def)
  from seal have link: "dict_get r ''previousReceiptHash'' = previous_value (ks_previous s)"
    and "kr_sequence row = int (length (ks_records s)) + 1"
    and "dict_get r ''reservedKrwBefore'' = PStr (int_text (ks_reserved s))"
    unfolding receipt_seal_ok_def r by (auto split: if_splits)
  moreover from seal have "accepted_receipt account policy row r"
    using load q(2) n na amt cap(2) unfolding receipt_seal_ok_def accepted_receipt_def r
    by (auto simp: canonical_hash_Inr split: if_splits)
  ultimately show thesis using that [of r] fresh cap s' r amt by simp
qed

subsection \<open>The whole chain\<close>

definition put_link :: "pyval \<Rightarrow> pydict \<Rightarrow> pydict" where
  "put_link p d = map (\<lambda>(k, v). (k, if k = ''previousReceiptHash'' then p else v)) d"

definition receipt_message :: "string option \<Rightarrow> pydict \<Rightarrow> string" where
  "receipt_message p r = canonical_json (PDict (put_link (previous_value p) (without ''contentHash'' r)))"

abbreviation receipt_hash :: "string \<Rightarrow> string option" where
  "receipt_hash \<equiv> \<lambda>m. Some (sha256_hex m)"

lemma dict_get_member: "distinct (map fst d) \<Longrightarrow> (k, v) \<in> set d \<Longrightarrow> dict_get d k = v"
  by (induction d) (auto simp: rev_image_eqI)

lemma put_link_same:
  assumes "distinct (map fst d)" "dict_get d ''previousReceiptHash'' = p"
  shows "put_link p d = d"
  unfolding put_link_def
  by (rule map_idI) (use dict_get_member [OF assms(1)] assms(2) in auto)

lemma dict_get_without [simp]: "dict_get (without k d) k' = (if k' = k then PNone else dict_get d k')"
  by (induction d) (auto simp: without_def)

lemma distinct_without: "distinct (map fst d) \<Longrightarrow> distinct (map fst (without k d))"
  by (induction d) (auto simp: without_def)

lemma accepted_reseals:
  assumes "accepted_receipt account policy row r" "dict_get r ''previousReceiptHash'' = previous_value p"
  shows "receipt_digest r = receipt_hash (receipt_message p r)"
proof -
  have "distinct (map fst r)" using assms(1) by (simp add: accepted_receipt_def receipt_shape_def has_keys_def)
  then have "put_link (previous_value p) (without ''contentHash'' r) = without ''contentHash'' r"
    using assms(2) by (intro put_link_same distinct_without) simp_all
  with assms(1) show ?thesis by (simp add: accepted_receipt_def receipt_message_def receipt_digest_def seal_def)
qed

definition chain_ok :: "string \<Rightarrow> pydict \<Rightarrow> int \<Rightarrow> krw_scan \<Rightarrow> bool" where
  "chain_ok account policy cap s \<longleftrightarrow>
     ks_reserved s = sum_list (map receipt_amount (ks_records s)) \<and> 0 \<le> ks_reserved s \<and> ks_reserved s \<le> cap
     \<and> map receipt_id (ks_records s) = rev (ks_ids s) \<and> map receipt_deployment (ks_records s) = rev (ks_deployments s)
     \<and> distinct (ks_ids s) \<and> distinct (ks_deployments s) \<and> length (ks_records s) \<le> max_reservations
     \<and> chained receipt_link receipt_digest (\<lambda>p r. receipt_hash (receipt_message p r)) None (ks_records s)
     \<and> ks_previous s = chain_head receipt_digest None (ks_records s)
     \<and> list_all (\<lambda>r. \<exists>row. accepted_receipt account policy row r) (ks_records s)"

lemma chain_ok_start: "0 \<le> cap \<Longrightarrow> chain_ok account policy cap scan_start"
  by (simp add: chain_ok_def scan_start_def)

lemma chain_ok_step:
  assumes "chain_ok account policy cap s" "scan_reservation account policy cap s row = Inr s'"
  shows "chain_ok account policy cap s'"
proof -
  from scan_reservation_Inr [OF assms(2)] obtain r where r: "accepted_receipt account policy row r"
    "length (ks_records s) < max_reservations" "dict_get r ''previousReceiptHash'' = previous_value (ks_previous s)"
    "ks_reserved s + receipt_amount r \<le> cap"
    "kr_id row \<notin> set (ks_ids s)" "kr_deployment row \<notin> set (ks_deployments s)"
    "s' = \<lparr>ks_reserved = ks_reserved s + receipt_amount r, ks_previous = Some (kr_hash row),
       ks_records = ks_records s @ [r], ks_bytes = ks_bytes s + tc_bytes (kr_payload row),
       ks_ids = kr_id row # ks_ids s, ks_deployments = kr_deployment row # ks_deployments s\<rparr>" by metis
  have "receipt_digest r = Some (kr_hash row)" using r(1) by (simp add: accepted_receipt_def receipt_digest_def)
  moreover have "receipt_digest r = receipt_hash (receipt_message (ks_previous s) r)"
    by (rule accepted_reseals [OF r(1,3)])
  moreover have "receipt_link r = ks_previous s" by (rule receipt_link_value [OF r(3)])
  ultimately show ?thesis
    using assms(1) r accepted_fields [OF r(1)]
    by (auto simp: chain_ok_def)
qed

definition accepted_pool :: "string \<Rightarrow> krw_pool \<Rightarrow> bool" where
  "accepted_pool account b \<longleftrightarrow> valid_policy (kb_policy b) (kb_cap b)
     \<and> dict_get (kb_policy b) ''accountFingerprint'' = PStr account
     \<and> kb_reserved b = sum_list (map receipt_amount (kb_receipts b)) \<and> 0 \<le> kb_reserved b \<and> kb_reserved b \<le> kb_cap b
     \<and> distinct (map receipt_id (kb_receipts b)) \<and> distinct (map receipt_deployment (kb_receipts b))
     \<and> length (kb_receipts b) \<le> max_reservations
     \<and> chained receipt_link receipt_digest (\<lambda>p r. receipt_hash (receipt_message p r)) None (kb_receipts b)
     \<and> kb_head b = chain_head receipt_digest None (kb_receipts b)
     \<and> list_all (\<lambda>r. \<exists>row. accepted_receipt account (kb_policy b) row r) (kb_receipts b)"

lemma krw_inspect_Some:
  assumes "krw_inspect db account = Inr (Some b)"
  obtains p s where "schema_present (kd_master db) = Inr True" "find (\<lambda>p. kp_account p = account) (kd_pools db) = Some p"
    "load_column (kp_payload p) = Inr (PDict (kb_policy b))" "validate_policy (PDict (kb_policy b)) = Inr (kb_policy b)"
    "PStr (kp_hash p) = dict_get (kb_policy b) ''policyHash''"
    "dict_get (kb_policy b) ''accountFingerprint'' = PStr account"
    "krw_money (dict_get (kb_policy b) ''capKrw'') = Inr (kb_cap b)" "valid_policy (kb_policy b) (kb_cap b)"
    "res_fold (scan_reservation account (kb_policy b) (kb_cap b)) scan_start
       (take (Suc max_reservations) (account_rows db account)) = Inr s"
    "kb_reserved b = ks_reserved s" "kb_head b = ks_previous s" "kb_receipts b = ks_records s"
proof -
  from assms obtain p where p: "schema_present (kd_master db) = Inr True"
    "find (\<lambda>p. kp_account p = account) (kd_pools db) = Some p"
    by (auto simp: krw_inspect_def split: option.splits if_splits)
  from assms p obtain decoded policy cap s where d: "load_column (kp_payload p) = Inr decoded"
    "validate_policy decoded = Inr policy" "dict_get policy ''accountFingerprint'' = PStr account"
    "PStr (kp_hash p) = dict_get policy ''policyHash''" "krw_money (dict_get policy ''capKrw'') = Inr cap"
    "res_fold (scan_reservation account policy cap) scan_start
       (take (Suc max_reservations) (account_rows db account)) = Inr s"
    "b = \<lparr>kb_policy = policy, kb_cap = cap, kb_reserved = ks_reserved s, kb_head = ks_previous s, kb_receipts = ks_records s\<rparr>"
    by (auto simp: krw_inspect_def)
  from validate_policy_Inr [OF d(2)] obtain c where c: "decoded = PDict policy" "valid_policy policy c" by blast
  have "c = cap" using c(2) d(5) by (simp add: valid_policy_def)
  with p d c show thesis by (intro that) auto
qed

lemma inspect_accepted:
  assumes "krw_inspect db account = Inr (Some b)"
  shows "accepted_pool account b"
proof -
  from krw_inspect_Some [OF assms] obtain s where s: "dict_get (kb_policy b) ''accountFingerprint'' = PStr account"
    "valid_policy (kb_policy b) (kb_cap b)"
    "res_fold (scan_reservation account (kb_policy b) (kb_cap b)) scan_start
       (take (Suc max_reservations) (account_rows db account)) = Inr s"
    "kb_reserved b = ks_reserved s" "kb_head b = ks_previous s" "kb_receipts b = ks_records s" by metis
  have "chain_ok account (kb_policy b) (kb_cap b) s"
    by (rule res_fold_invariant [OF s(3)])
      (use s(2) chain_ok_start chain_ok_step in \<open>auto simp: valid_policy_def\<close>)
  with s show ?thesis by (auto simp: chain_ok_def accepted_pool_def)
qed

end
