(* ===== verification/Krw_Laws.thy ===== *)
theory Krw_Laws
  imports Krw_Scan_Laws
begin

section \<open>Shared KRW budget: reservations\<close>

text \<open>
  A reservation appends one receipt to its account's chain or replays a recorded one; every other
  account is untouched; whatever ran in between, a recorded reservation stays recorded and is
  replayed without another allocation.
\<close>

subsection \<open>Rows of an account\<close>

lemma scan_appends:
  assumes "scan_reservation account policy cap s row = Inr s'"
  shows "\<exists>r. accepted_receipt account policy row r \<and> ks_records s' = ks_records s @ [r]
    \<and> length (ks_records s) < max_reservations"
  by (rule scan_reservation_Inr [OF assms]) simp

lemma fold_counts:
  assumes "res_fold (scan_reservation account policy cap) s rows = Inr s'"
  shows "length (ks_records s') = length (ks_records s) + length rows
    \<and> (rows \<noteq> [] \<longrightarrow> length (ks_records s') \<le> max_reservations)"
  using assms
proof (induction rows arbitrary: s)
  case (Cons row rows)
  then obtain t where t: "scan_reservation account policy cap s row = Inr t"
    "res_fold (scan_reservation account policy cap) t rows = Inr s'" by auto
  from scan_appends [OF t(1)] obtain r where
    "ks_records t = ks_records s @ [r]" "length (ks_records s) < max_reservations" by blast
  then have l: "length (ks_records t) = Suc (length (ks_records s))" "length (ks_records t) \<le> max_reservations"
    by simp_all
  show ?case
  proof (cases "rows = []")
    case True
    with t(2) l show ?thesis by simp
  next
    case False
    with Cons.IH [OF t(2)] l(1) show ?thesis by simp
  qed
qed simp

lemma fold_all_rows:
  assumes "res_fold (scan_reservation account policy cap) scan_start (take (Suc max_reservations) rows) = Inr s"
  shows "take (Suc max_reservations) rows = rows \<and> length rows = length (ks_records s) \<and> length rows \<le> max_reservations"
proof -
  note c = fold_counts [OF assms]
  have "length (take (Suc max_reservations) rows) \<le> max_reservations"
    using c by (cases "take (Suc max_reservations) rows = []") (simp_all add: scan_start_def)
  then have "length rows \<le> max_reservations" by (simp add: min_def split: if_splits)
  with c show ?thesis by (simp add: scan_start_def)
qed

lemma insort_before_last: "f a \<le> f x \<Longrightarrow> insort_key f a (ys @ [x]) = insort_key f a ys @ [x]"
  by (induction ys) auto

lemma sort_key_snoc: "\<forall>y \<in> set xs. f y \<le> f x \<Longrightarrow> sort_key f (xs @ [x]) = sort_key f xs @ [x]"
  by (induction xs) (simp_all add: insort_before_last)

lemma account_rows_append:
  assumes "account_rows db account = [] \<or> kr_sequence (last (account_rows db account)) \<le> kr_sequence row"
    and "kr_account row = account"
  shows "account_rows (db\<lparr>kd_reservations := kd_reservations db @ [row]\<rparr>) account = account_rows db account @ [row]"
proof -
  let ?rows = "filter (\<lambda>r. kr_account r = account) (kd_reservations db)"
  have sorted: "sorted (map kr_sequence (account_rows db account))" by (simp add: account_rows_def)
  have "\<forall>x \<in> set (account_rows db account). kr_sequence x \<le> kr_sequence row"
  proof (cases "account_rows db account" rule: rev_cases)
    case (snoc xs x)
    with assms(1) sorted show ?thesis by (auto simp: sorted_append)
  qed simp
  then have "\<forall>x \<in> set ?rows. kr_sequence x \<le> kr_sequence row" by (simp add: account_rows_def)
  from sort_key_snoc [OF this] assms(2) show ?thesis by (simp add: account_rows_def)
qed

lemma account_rows_other:
  "kr_account row \<noteq> other \<Longrightarrow>
   account_rows (db\<lparr>kd_reservations := kd_reservations db @ [row]\<rparr>) other = account_rows db other"
  by (simp add: account_rows_def)

subsection \<open>What a reservation does\<close>

lemma insert_reservation_Inr:
  assumes "insert_reservation db account h head row = Inr db'"
  shows "db' = db\<lparr>kd_reservations := kd_reservations db @ [row]\<rparr>"
    "account_rows db account = [] \<or> kr_sequence (last (account_rows db account)) \<le> kr_sequence row"
    "\<forall>r \<in> set (kd_reservations db). kr_id r \<noteq> kr_id row"
  using assms unfolding insert_reservation_def
  by (auto simp: Let_def list_ex_iff split: if_splits)

lemma insert_pool_Inr:
  assumes "insert_pool db account policy = Inr db'"
  shows "\<not> list_ex (\<lambda>p. kp_account p = account) (kd_pools db)"
    "db' = db\<lparr>kd_pools := kd_pools db @ [\<lparr>kp_account = account, kp_payload = stored_json (PDict policy),
             kp_hash = py_str (dict_get policy ''policyHash'')\<rparr>]\<rparr>"
  using assms by (auto simp: insert_pool_def split: if_splits)

text \<open>The part of the database that an account's inspection reads.\<close>

definition same_account :: "krw_db \<Rightarrow> krw_db \<Rightarrow> string \<Rightarrow> bool" where
  "same_account db db' account \<longleftrightarrow> kd_master db' = kd_master db
     \<and> find (\<lambda>p. kp_account p = account) (kd_pools db') = find (\<lambda>p. kp_account p = account) (kd_pools db)
     \<and> account_rows db' account = account_rows db account"

lemma same_account_inspect:
  assumes "same_account db db' account"
  shows "krw_inspect db' account = krw_inspect db account"
proof -
  from assms have same: "kd_master db' = kd_master db" "account_rows db' account = account_rows db account"
    "find (\<lambda>p. kp_account p = account) (kd_pools db') = find (\<lambda>p. kp_account p = account) (kd_pools db)"
    by (simp_all add: same_account_def)
  show ?thesis unfolding krw_inspect_def same by (rule refl)
qed

lemma find_snoc: "find P (xs @ [x]) = (case find P xs of None \<Rightarrow> if P x then Some x else None | Some y \<Rightarrow> Some y)"
  by (induction xs) auto

lemma stored_load: "load_column (stored_json v) = Inr w \<Longrightarrow> w = canon v"
  by (auto simp: load_column_def stored_json_def Let_def)

lemma append_reservation_cases:
  assumes "append_reservation db account pool policy request after = Inr (db', x)"
    and "krw_inspect db account = Inr pool"
  obtains row b where "krw_inspect db' account = Inr (Some b)" "kx_pool x = b" "\<not> kx_idempotent x"
    "kb_receipts b = pool_receipts pool @ [canon_entries (kx_receipt x)]" "kb_reserved b = after"
    "kr_account row = account" "kr_id row = py_str (dict_get request ''reservationId'')"
    "kd_reservations db' = kd_reservations db @ [row]" "\<forall>r \<in> set (kd_reservations db). kr_id r \<noteq> kr_id row"
    "\<And>other. other \<noteq> account \<Longrightarrow> same_account db db' other"
    "case pool of None \<Rightarrow> kb_policy b = canon_entries policy | Some a \<Rightarrow> kb_policy b = kb_policy a"
    "kd_transaction db' = kd_transaction db" "dict_get (kx_receipt x) ''request'' = PDict request"
proof -
  let ?draft = "new_receipt policy request account (int (length (pool_receipts pool)) + 1) (pool_head pool)
      (pool_reserved pool) after"
  from assms(1) obtain db1 digest b where
    db1: "(if pool = None then insert_pool db account policy else Inr db) = Inr db1"
    and digest: "canonical_hash (PDict ?draft) = Inr digest"
    and ins: "insert_reservation db1 account (py_str (dict_get policy ''policyHash'')) (pool_head pool)
           \<lparr>kr_id = py_str (dict_get request ''reservationId''), kr_account = account,
            kr_deployment = py_str (dict_get request ''deploymentId''),
            kr_sequence = int (length (pool_receipts pool)) + 1,
            kr_payload = stored_json (PDict (?draft @ [(''contentHash'', PStr digest)])), kr_hash = digest\<rparr> = Inr db'"
    and b: "krw_inspect db' account = Inr (Some b)" "kb_head b = Some digest" "kb_reserved b = after"
    and x: "x = \<lparr>kx_idempotent = False, kx_receipt = ?draft @ [(''contentHash'', PStr digest)], kx_pool = b\<rparr>"
    unfolding append_reservation_def Let_def
    by (elim res_bindE) (auto split: option.splits if_splits)
  define row where "row = \<lparr>kr_id = py_str (dict_get request ''reservationId''), kr_account = account,
            kr_deployment = py_str (dict_get request ''deploymentId''),
            kr_sequence = int (length (pool_receipts pool)) + 1,
            kr_payload = stored_json (PDict (?draft @ [(''contentHash'', PStr digest)])), kr_hash = digest\<rparr>"
  note i = insert_reservation_Inr [OF ins [folded row_def]]
  have row: "kr_account row = account" "kr_id row = py_str (dict_get request ''reservationId'')" by (simp_all add: row_def)
  have same1: "kd_master db1 = kd_master db" "kd_reservations db1 = kd_reservations db" "kd_transaction db1 = kd_transaction db"
    using db1 insert_pool_Inr(2) [of db account policy db1] by (auto split: if_splits)
  have rows1: "account_rows db1 k = account_rows db k" for k by (simp add: account_rows_def same1)
  have rows': "account_rows db' account = account_rows db account @ [row]"
    unfolding i(1) using account_rows_append [OF i(2) row(1)] rows1 by simp
  have other: "same_account db db' k" if "k \<noteq> account" for k
  proof -
    have "find (\<lambda>p. kp_account p = k) (kd_pools db1) = find (\<lambda>p. kp_account p = k) (kd_pools db)"
      using db1 insert_pool_Inr(2) [of db account policy db1] that
      by (auto simp: find_snoc split: if_splits option.splits)
    moreover have "account_rows db' k = account_rows db k"
      unfolding i(1) using account_rows_other [of row k db1] that row(1) rows1 by simp
    ultimately show ?thesis unfolding same_account_def i(1) by (simp add: same1)
  qed
  from krw_inspect_Some [OF b(1)] obtain p' s' where p': "schema_present (kd_master db') = Inr True"
    "find (\<lambda>p. kp_account p = account) (kd_pools db') = Some p'"
    "load_column (kp_payload p') = Inr (PDict (kb_policy b))"
    "res_fold (scan_reservation account (kb_policy b) (kb_cap b)) scan_start
       (take (Suc max_reservations) (account_rows db' account)) = Inr s'"
    "krw_money (dict_get (kb_policy b) ''capKrw'') = Inr (kb_cap b)"
    "kb_receipts b = ks_records s'" by metis
  note all' = fold_all_rows [OF p'(4)]
  have pools': "kd_pools db' = kd_pools db1" unfolding i(1) by simp
  have policy: "case pool of None \<Rightarrow> kb_policy b = canon_entries policy | Some a \<Rightarrow> kb_policy b = kb_policy a"
    and before: "\<exists>s. res_fold (scan_reservation account (kb_policy b) (kb_cap b)) scan_start (account_rows db account) = Inr s
        \<and> ks_records s = pool_receipts pool"
  proof -
    have "(case pool of None \<Rightarrow> kb_policy b = canon_entries policy | Some a \<Rightarrow> kb_policy b = kb_policy a)
      \<and> (\<exists>s. res_fold (scan_reservation account (kb_policy b) (kb_cap b)) scan_start (account_rows db account) = Inr s
        \<and> ks_records s = pool_receipts pool)"
    proof (cases pool)
      case None
      with db1 insert_pool_Inr [of db account policy db1] have fresh: "find (\<lambda>p. kp_account p = account) (kd_pools db) = None"
        "kd_pools db1 = kd_pools db @ [\<lparr>kp_account = account, kp_payload = stored_json (PDict policy),
             kp_hash = py_str (dict_get policy ''policyHash'')\<rparr>]"
        by (auto simp: find_None_iff list_ex_iff)
      with p'(2,3) pools' have "PDict (kb_policy b) = canon (PDict policy)"
        by (auto simp: find_snoc dest!: stored_load)
      moreover have "account_rows db account = []"
        using assms(2) None fresh(1) p'(1) same1(1) i(1) by (auto simp: krw_inspect_def split: if_splits)
      ultimately show ?thesis using None by (simp add: pool_receipts_def scan_start_def)
    next
      case (Some a)
      from assms(2) Some have "krw_inspect db account = Inr (Some a)" by simp
      from krw_inspect_Some [OF this] obtain p s where p: "find (\<lambda>p. kp_account p = account) (kd_pools db) = Some p"
        "load_column (kp_payload p) = Inr (PDict (kb_policy a))" "krw_money (dict_get (kb_policy a) ''capKrw'') = Inr (kb_cap a)"
        "res_fold (scan_reservation account (kb_policy a) (kb_cap a)) scan_start
           (take (Suc max_reservations) (account_rows db account)) = Inr s" "kb_receipts a = ks_records s" by metis
      have "kd_pools db1 = kd_pools db" using db1 Some by simp
      with p(1,2) p'(2,3) pools' have pol: "kb_policy b = kb_policy a" by simp
      with p(3) p'(5) have "kb_cap b = kb_cap a" by simp
      with p(4,5) pol fold_all_rows [OF p(4)] Some show ?thesis by (simp add: pool_receipts_def)
    qed
    then show "case pool of None \<Rightarrow> kb_policy b = canon_entries policy | Some a \<Rightarrow> kb_policy b = kb_policy a"
      "\<exists>s. res_fold (scan_reservation account (kb_policy b) (kb_cap b)) scan_start (account_rows db account) = Inr s
        \<and> ks_records s = pool_receipts pool" by blast+
  qed
  from before obtain s where s: "res_fold (scan_reservation account (kb_policy b) (kb_cap b)) scan_start (account_rows db account) = Inr s"
    "ks_records s = pool_receipts pool" by blast
  have "res_fold (scan_reservation account (kb_policy b) (kb_cap b)) scan_start (account_rows db account @ [row]) = Inr s'"
    using p'(4) all' by (simp only: rows')
  then have "scan_reservation account (kb_policy b) (kb_cap b) s row = Inr s'"
    by (simp add: res_fold_append s(1) res_simps)
  from scan_appends [OF this] obtain r where acc: "accepted_receipt account (kb_policy b) row r"
    and rec: "ks_records s' = ks_records s @ [r]" by blast
  have r: "load_column (kr_payload row) = Inr (PDict r)" "ks_records s' = ks_records s @ [r]"
    using acc rec by (simp_all add: accepted_receipt_def)
  from stored_load r(1) have "PDict r = canon (PDict (?draft @ [(''contentHash'', PStr digest)]))"
    unfolding row_def by (auto dest: stored_load)
  then have receipts: "kb_receipts b = pool_receipts pool @ [canon_entries (kx_receipt x)]"
    using p'(6) r(2) s(2) x by simp
  have "dict_get (kx_receipt x) ''request'' = PDict request" by (simp add: x new_receipt_def)
  moreover have "kd_reservations db' = kd_reservations db @ [row]" "kd_transaction db' = kd_transaction db"
    unfolding i(1) by (simp_all add: same1)
  moreover have "kx_pool x = b" "\<not> kx_idempotent x" by (simp_all add: x)
  ultimately show thesis
    using that [of b row] b(1,3) receipts row i(3) same1(2) other policy by metis
qed

lemma reserve_checked:
  assumes "reserve_in_transaction db pv rv = Inr (db', x)"
  obtains policy request amount cap pool account where
    "kd_transaction db" "validate_policy pv = Inr policy" "validate_request rv = Inr request"
    "same_binding request policy" "krw_money (dict_get request ''requestedKrw'') = Inr amount"
    "krw_money (dict_get policy ''capKrw'') = Inr cap" "amount \<le> cap" "schema_present (kd_master db) = Inr True"
    "account = py_str (dict_get policy ''accountFingerprint'')" "krw_inspect db account = Inr pool"
    "case pool of None \<Rightarrow> True | Some b \<Rightarrow> canon (PDict (kb_policy b)) = canon (PDict policy)"
    "case find (\<lambda>r. PStr (kr_id r) = dict_get request ''reservationId'') (kd_reservations db) of
       Some old \<Rightarrow> replay_reservation db account pool request old = Inr (db', x)
     | None \<Rightarrow> pool_reserved pool + amount \<le> cap
         \<and> append_reservation db account pool policy request (pool_reserved pool + amount) = Inr (db', x)"
proof -
  let ?account = "\<lambda>policy. py_str (dict_get policy ''accountFingerprint'')"
  from assms obtain policy request amount cap pool present where
    c: "kd_transaction db" "validate_policy pv = Inr policy" "validate_request rv = Inr request"
    "same_binding request policy" "krw_money (dict_get request ''requestedKrw'') = Inr amount"
    "krw_money (dict_get policy ''capKrw'') = Inr cap" "amount \<le> cap" "schema_present (kd_master db) = Inr present" present
    "krw_inspect db (?account policy) = Inr pool"
    "case pool of None \<Rightarrow> True | Some b \<Rightarrow> canon (PDict (kb_policy b)) = canon (PDict policy)"
    and rest: "(case find (\<lambda>r. PStr (kr_id r) = dict_get request ''reservationId'') (kd_reservations db) of
       Some old \<Rightarrow> replay_reservation db (?account policy) pool request old
     | None \<Rightarrow>
         res_bind (krw_check (\<not> list_ex (\<lambda>item. request_field item ''deploymentId'' = dict_get request ''deploymentId'')
             (pool_receipts pool)) ''KIS_SHARED_KRW_DEPLOYMENT_ALREADY_RESERVED'') (\<lambda>_.
         res_bind (krw_check (pool_reserved pool + amount \<le> cap) ''KIS_SHARED_KRW_CAP_EXCEEDED'') (\<lambda>_.
         append_reservation db (?account policy) pool policy request (pool_reserved pool + amount)))) = Inr (db', x)"
    unfolding reserve_in_transaction_def in_transaction_def Let_def
    by (elim res_bindE) (unfold krw_check_Inr, rule that; assumption)
  have "case find (\<lambda>r. PStr (kr_id r) = dict_get request ''reservationId'') (kd_reservations db) of
       Some old \<Rightarrow> replay_reservation db (?account policy) pool request old = Inr (db', x)
     | None \<Rightarrow> pool_reserved pool + amount \<le> cap
         \<and> append_reservation db (?account policy) pool policy request (pool_reserved pool + amount) = Inr (db', x)"
    using rest by (auto split: option.splits)
  with c show thesis by (intro that) auto
qed

lemma replay_reservation_Inr:
  assumes "replay_reservation db account pool request old = Inr (db', x)"
  obtains b receipt where "pool = Some b" "db' = db" "x = \<lparr>kx_idempotent = True, kx_receipt = receipt, kx_pool = b\<rparr>"
    "filter (\<lambda>item. request_field item ''reservationId'' = dict_get request ''reservationId'') (kb_receipts b) = [receipt]"
    "kr_account old = account" "canon (dict_get receipt ''request'') = canon (PDict request)"
  using assms unfolding replay_reservation_def
  by (auto simp: Let_def pool_receipts_def split: option.splits list.splits if_splits)

lemma reserve_cases:
  assumes "reserve_in_transaction db pv rv = Inr (db', x)"
  obtains policy request b where "validate_policy pv = Inr policy" "validate_request rv = Inr request"
      "db' = db" "krw_inspect db (py_str (dict_get policy ''accountFingerprint'')) = Inr (Some b)" "kx_pool x = b"
      "kx_idempotent x" "kx_receipt x \<in> set (kb_receipts b)" "canon (dict_get (kx_receipt x) ''request'') = canon (PDict request)"
      "canon (PDict (kb_policy b)) = canon (PDict policy)"
      "\<exists>old. find (\<lambda>r. PStr (kr_id r) = dict_get request ''reservationId'') (kd_reservations db') = Some old
         \<and> kr_account old = py_str (dict_get policy ''accountFingerprint'')"
  | policy request amount pool b row where "validate_policy pv = Inr policy" "validate_request rv = Inr request"
      "krw_money (dict_get request ''requestedKrw'') = Inr amount"
      "krw_inspect db (py_str (dict_get policy ''accountFingerprint'')) = Inr pool"
      "krw_inspect db' (py_str (dict_get policy ''accountFingerprint'')) = Inr (Some b)" "kx_pool x = b"
      "\<not> kx_idempotent x" "kb_receipts b = pool_receipts pool @ [canon_entries (kx_receipt x)]"
      "kb_reserved b = pool_reserved pool + amount" "dict_get (kx_receipt x) ''request'' = PDict request"
      "\<And>other. other \<noteq> py_str (dict_get policy ''accountFingerprint'') \<Longrightarrow> same_account db db' other"
      "canon (PDict (kb_policy b)) = canon (PDict policy)" "kd_reservations db' = kd_reservations db @ [row]"
      "kr_account row = py_str (dict_get policy ''accountFingerprint'')"
      "case pool of None \<Rightarrow> True | Some a \<Rightarrow> kb_policy b = kb_policy a"
      "\<exists>old. find (\<lambda>r. PStr (kr_id r) = dict_get request ''reservationId'') (kd_reservations db') = Some old
         \<and> kr_account old = py_str (dict_get policy ''accountFingerprint'')"
proof -
  from reserve_checked [OF assms] obtain policy request amount cap pool account where
    "kd_transaction db" and c: "validate_policy pv = Inr policy" "validate_request rv = Inr request"
    and "same_binding request policy" and c3: "krw_money (dict_get request ''requestedKrw'') = Inr amount"
    and "krw_money (dict_get policy ''capKrw'') = Inr cap" "amount \<le> cap" "schema_present (kd_master db) = Inr True"
    and c4: "account = py_str (dict_get policy ''accountFingerprint'')" "krw_inspect db account = Inr pool"
    "case pool of None \<Rightarrow> True | Some b \<Rightarrow> canon (PDict (kb_policy b)) = canon (PDict policy)"
    and run: "case find (\<lambda>r. PStr (kr_id r) = dict_get request ''reservationId'') (kd_reservations db) of
       Some old \<Rightarrow> replay_reservation db account pool request old = Inr (db', x)
     | None \<Rightarrow> pool_reserved pool + amount \<le> cap
         \<and> append_reservation db account pool policy request (pool_reserved pool + amount) = Inr (db', x)" .
  note c = c c3 c4
  show thesis
  proof (cases "find (\<lambda>r. PStr (kr_id r) = dict_get request ''reservationId'') (kd_reservations db)")
    case (Some old)
    with run have "replay_reservation db account pool request old = Inr (db', x)" by simp
    from replay_reservation_Inr [OF this] obtain b receipt where r: "pool = Some b" "db' = db"
      "x = \<lparr>kx_idempotent = True, kx_receipt = receipt, kx_pool = b\<rparr>"
      "filter (\<lambda>item. request_field item ''reservationId'' = dict_get request ''reservationId'') (kb_receipts b) = [receipt]"
      "kr_account old = account" "canon (dict_get receipt ''request'') = canon (PDict request)" by metis
    have insp: "krw_inspect db (py_str (dict_get policy ''accountFingerprint'')) = Inr (Some b)"
      "canon (PDict (kb_policy b)) = canon (PDict policy)" using c(4-6) r(1) by simp_all
    have x: "kx_pool x = b" "kx_idempotent x" "kx_receipt x \<in> set (kb_receipts b)"
      "canon (dict_get (kx_receipt x) ''request'') = canon (PDict request)"
      using arg_cong [OF r(4), of set] r(6) by (auto simp: r(3))
    show thesis
      by (rule that(1) [OF c(1,2) r(2) insp(1) x insp(2)]) (use Some r(2,5) c(4) in simp)
  next
    case None
    with run have "append_reservation db account pool policy request (pool_reserved pool + amount) = Inr (db', x)" by simp
    then show thesis
    proof (rule append_reservation_cases [OF _ c(5)])
      fix row b assume a:
      "krw_inspect db' account = Inr (Some b)" "kx_pool x = b" "\<not> kx_idempotent x"
      "kb_receipts b = pool_receipts pool @ [canon_entries (kx_receipt x)]" "kb_reserved b = pool_reserved pool + amount"
      "kr_account row = account" "kr_id row = py_str (dict_get request ''reservationId'')"
      "kd_reservations db' = kd_reservations db @ [row]" "\<forall>r \<in> set (kd_reservations db). kr_id r \<noteq> kr_id row"
      "\<And>other. other \<noteq> account \<Longrightarrow> same_account db db' other"
      "case pool of None \<Rightarrow> kb_policy b = canon_entries policy | Some a \<Rightarrow> kb_policy b = kb_policy a"
      "kd_transaction db' = kd_transaction db" "dict_get (kx_receipt x) ''request'' = PDict request"
    have policy: "canon (PDict (kb_policy b)) = canon (PDict policy)" using a(11) c(6) by (cases pool) auto
    have id: "dict_get request ''reservationId'' = PStr (kr_id row)"
      using validate_request_Inr [OF c(2)] a(7) by (auto simp: valid_request_def bounded_id_def split: pyval.splits)
    have found: "find (\<lambda>r. PStr (kr_id r) = dict_get request ''reservationId'') (kd_reservations db') = Some row"
      using None by (simp add: a(8) find_snoc id)
    have same: "case pool of None \<Rightarrow> True | Some p \<Rightarrow> kb_policy b = kb_policy p" using a(11) by (cases pool) auto
    show thesis
      by (rule that(2) [OF c(1-3) c(5) [unfolded c(4)] a(1) [unfolded c(4)] a(2-5,13) a(10) [unfolded c(4)]
            policy a(8) a(6) [unfolded c(4)] same])
        (use found a(6) c(4) in auto)
    qed
  qed
qed

subsection \<open>The budget holds\<close>

lemma inspect_cap: "krw_inspect db account = Inr (Some b) \<Longrightarrow> kb_reserved b \<le> kb_cap b"
  using inspect_accepted unfolding accepted_pool_def by blast

subsection \<open>Replays\<close>

inductive krw_step :: "krw_db \<Rightarrow> krw_db \<Rightarrow> bool" where
  reserve: "reserve_in_transaction db pv rv = Inr (db', x) \<Longrightarrow> krw_step db db'"
| schema: "krw_ensure_schema db = Inr db' \<Longrightarrow> krw_step db db'"
| begin_or_commit: "krw_step db (db\<lparr>kd_transaction := t\<rparr>)"

text \<open>A recorded reservation: the account's chain holds a receipt for the request.\<close>

definition krw_recorded :: "krw_db \<Rightarrow> string \<Rightarrow> pydict \<Rightarrow> pydict \<Rightarrow> pydict \<Rightarrow> bool" where
  "krw_recorded db account policy request receipt \<longleftrightarrow>
     (\<exists>b. krw_inspect db account = Inr (Some b) \<and> receipt \<in> set (kb_receipts b)
        \<and> canon (PDict (kb_policy b)) = canon (PDict policy)
        \<and> canon (dict_get receipt ''request'') = canon (PDict request))
     \<and> schema_present (kd_master db) = Inr True
     \<and> (\<exists>old. find (\<lambda>r. PStr (kr_id r) = dict_get request ''reservationId'') (kd_reservations db) = Some old
          \<and> kr_account old = account)"

lemma recorded_inspect: "krw_inspect db account = Inr (Some b) \<Longrightarrow> schema_present (kd_master db) = Inr True"
  by (rule krw_inspect_Some)

lemma recorded_same:
  assumes "krw_recorded db account policy request receipt" "same_account db db' account"
    and "\<exists>new. kd_reservations db' = kd_reservations db @ new"
  shows "krw_recorded db' account policy request receipt"
proof -
  from assms(1) obtain old where old: "find (\<lambda>r. PStr (kr_id r) = dict_get request ''reservationId'') (kd_reservations db) = Some old"
    "kr_account old = account" unfolding krw_recorded_def by blast
  have "find P (xs @ ys) = Some y" if "find P xs = Some y" for P :: "krw_row \<Rightarrow> bool" and xs ys y
    using that by (induction xs) (auto split: if_splits)
  with old assms(3) have "find (\<lambda>r. PStr (kr_id r) = dict_get request ''reservationId'') (kd_reservations db') = Some old"
    by metis
  with assms(1,2) old(2) same_account_inspect [OF assms(2)] show ?thesis
    unfolding krw_recorded_def same_account_def by auto
qed

lemma step_recorded:
  assumes "krw_step db db'" "krw_recorded db account policy request receipt"
  shows "krw_recorded db' account policy request receipt"
  using assms
proof (induction rule: krw_step.induct)
  case (reserve db pv rv db' x)
  from reserve.hyps show ?case
  proof (cases rule: reserve_cases)
    case (1 policy' request' b')
    with reserve.prems show ?thesis by simp
  next
    case (2 policy' request' amount pool b' row)
    show ?thesis
    proof (cases "account = py_str (dict_get policy' ''accountFingerprint'')")
      case False
      from recorded_same [OF reserve.prems 2(11) [OF False]] 2(13) show ?thesis by blast
    next
      case True
      from reserve.prems obtain b old where b: "krw_inspect db account = Inr (Some b)" "receipt \<in> set (kb_receipts b)"
        "canon (PDict (kb_policy b)) = canon (PDict policy)" "canon (dict_get receipt ''request'') = canon (PDict request)"
        and old: "find (\<lambda>r. PStr (kr_id r) = dict_get request ''reservationId'') (kd_reservations db) = Some old"
          "kr_account old = account"
        unfolding krw_recorded_def by blast
      have pool: "pool = Some b" using 2(4) b(1) True by simp
      have "receipt \<in> set (kb_receipts b')" "kb_policy b' = kb_policy b"
        using 2(8,15) b(2) pool by (simp_all add: pool_receipts_def)
      moreover have "find (\<lambda>r. PStr (kr_id r) = dict_get request ''reservationId'') (kd_reservations db') = Some old"
        using old(1) by (simp add: 2(13) find_snoc)
      ultimately show ?thesis
        unfolding krw_recorded_def using b(3,4) 2(5) True recorded_inspect [OF 2(5)] old(2) by auto
    qed
  qed
next
  case (schema db db')
  then have "schema_present (kd_master db) = Inr True" by (simp add: krw_recorded_def)
  then have "list_ex (\<lambda>r. sm_name r \<in> {pool_table, reservation_table}) (kd_master db)"
    by (auto simp: schema_present_def list_ex_iff filter_empty_conv Let_def split: if_splits)
  with schema show ?case by (auto simp: krw_ensure_schema_def split: if_splits)
next
  case (begin_or_commit db t)
  have "same_account db (db\<lparr>kd_transaction := t\<rparr>) account" by (simp add: same_account_def account_rows_def)
  from recorded_same [OF begin_or_commit this] show ?case by simp
qed

lemma steps_recorded:
  "krw_step\<^sup>*\<^sup>* db db' \<Longrightarrow> krw_recorded db account policy request receipt \<Longrightarrow> krw_recorded db' account policy request receipt"
  by (induction rule: rtranclp_induct) (auto intro: step_recorded)

lemma receipt_ids_distinct:
  assumes "distinct (map receipt_id rs)" "receipt \<in> set rs"
    and "\<And>r. r \<in> set rs \<Longrightarrow> request_field r ''reservationId'' = PStr (receipt_id r)"
  shows "filter (\<lambda>item. request_field item ''reservationId'' = PStr (receipt_id receipt)) rs = [receipt]"
  using assms
proof (induction rs)
  case (Cons r rs)
  show ?case
  proof (cases "receipt = r")
    case True
    with Cons.prems(1) have "receipt_id x \<noteq> receipt_id receipt" if "x \<in> set rs" for x
      using that by (metis distinct.simps(2) image_eqI list.simps(9) list.set_map)
    with Cons.prems(3) have "filter (\<lambda>item. request_field item ''reservationId'' = PStr (receipt_id receipt)) rs = []"
      by (auto simp: filter_empty_conv)
    with True Cons.prems(3) show ?thesis by simp
  next
    case False
    with Cons.prems have mem: "receipt \<in> set rs" "receipt_id r \<notin> set (map receipt_id rs)" by auto
    then have "receipt_id r \<noteq> receipt_id receipt" by auto
    with Cons.prems(3) [of r] Cons.IH Cons.prems mem(1) show ?thesis by simp
  qed
qed simp

lemma recorded_replays:
  assumes "krw_recorded db account policy request receipt" "kd_transaction db"
    and "validate_policy pv = Inr policy" "validate_request rv = Inr request" "same_binding request policy"
    and "account = py_str (dict_get policy ''accountFingerprint'')"
    and "krw_money (dict_get request ''requestedKrw'') = Inr amount" "krw_money (dict_get policy ''capKrw'') = Inr cap" "amount \<le> cap"
  shows "\<exists>b. reserve_in_transaction db pv rv = Inr (db, \<lparr>kx_idempotent = True, kx_receipt = receipt, kx_pool = b\<rparr>)"
proof -
  from assms(1) obtain b old where b: "krw_inspect db account = Inr (Some b)" "receipt \<in> set (kb_receipts b)"
    "canon (PDict (kb_policy b)) = canon (PDict policy)" "canon (dict_get receipt ''request'') = canon (PDict request)"
    and schema: "schema_present (kd_master db) = Inr True"
    and old: "find (\<lambda>r. PStr (kr_id r) = dict_get request ''reservationId'') (kd_reservations db) = Some old"
      "kr_account old = account"
    unfolding krw_recorded_def by blast
  have acc: "accepted_pool account b" by (rule inspect_accepted [OF b(1)])
  have texts: "request_field r ''reservationId'' = PStr (receipt_id r)" if "r \<in> set (kb_receipts b)" for r
    using acc that unfolding accepted_pool_def list_all_iff accepted_receipt_def
    by (auto simp: request_field_def receipt_id_def)
  obtain q where q: "dict_get receipt ''request'' = PDict q"
    using acc b(2) unfolding accepted_pool_def list_all_iff accepted_receipt_def by blast
  have "canon (dict_get q ''reservationId'') = canon (dict_get request ''reservationId'')"
    using b(4) unfolding q by (rule canon_dict_get)
  then have "dict_get request ''reservationId'' = PStr (receipt_id receipt)"
    using texts [OF b(2)] q validate_request_Inr [OF assms(4)]
    by (auto simp: request_field_def valid_request_def bounded_id_def split: pyval.splits)
  then have "filter (\<lambda>item. request_field item ''reservationId'' = dict_get request ''reservationId'') (kb_receipts b) = [receipt]"
    using receipt_ids_distinct [OF _ b(2) texts] acc by (simp add: accepted_pool_def)
  then have replay: "replay_reservation db account (Some b) request old
      = Inr (db, \<lparr>kx_idempotent = True, kx_receipt = receipt, kx_pool = b\<rparr>)"
    using old(2) b(4) by (simp add: replay_reservation_def Let_def pool_receipts_def)
  show ?thesis
    unfolding reserve_in_transaction_def in_transaction_def Let_def assms(3,4,7,8) res_bind_Inr schema
    using assms(2,5,9) b(1,3) old(1) replay by (simp add: assms(6))
qed

end
