(* ===== verification/Krw_Chain.thy ===== *)
theory Krw_Chain
  imports Krw_Laws
begin

section \<open>Shared KRW budget: the receipt chain\<close>

text \<open>
  The receipts of an account as a hash-chained log: the interface of \<open>Hash_Chain\<close> holds of them, so
  the digest of the newest receipt determines the content of all of them.
\<close>

subsection \<open>The newest digest determines the receipts\<close>

lemma canon_put_link: "canon p = p \<Longrightarrow> canon_entries (put_link p d) = put_link p (canon_entries d)"
proof (induction d)
  case (Cons e d)
  have "put_link p (insort_key fst (k, v) ys) = insort_key fst (k, if k = ''previousReceiptHash'' then p else v) (put_link p ys)" for k v ys
    by (induction ys) (auto simp: put_link_def)
  with Cons show ?case by (cases e) (auto simp: put_link_def)
qed (simp add: put_link_def)

lemma put_link_twice: "put_link p (put_link q d) = put_link p d"
  by (induction d) (auto simp: put_link_def)

lemma put_link_get: "''previousReceiptHash'' \<in> fst ` set d \<Longrightarrow> dict_get (put_link p d) ''previousReceiptHash'' = p"
proof (induction d)
  case (Cons e d)
  then show ?case by (cases e) (auto simp: put_link_def dict_get_def)
qed simp

text \<open>A receipt without its link and digest, in canonical form.\<close>

definition receipt_content :: "pydict \<Rightarrow> pyval" where
  "receipt_content r = canon (PDict (put_link PNone (without ''contentHash'' r)))"

definition sealed_receipt :: "pydict \<Rightarrow> bool" where
  "sealed_receipt r \<longleftrightarrow> plain (PDict r) \<and> ''previousReceiptHash'' \<in> fst ` set r"

lemma previous_value_plain: "canon (previous_value p) = previous_value p" "plain (previous_value p)"
  "previous_value p = previous_value q \<longleftrightarrow> p = q"
  by (auto simp: previous_value_def split: option.splits)

lemma receipt_content_put:
  assumes "canon p = p"
  shows "receipt_content r = PDict (put_link PNone (canon_entries (put_link p (without ''contentHash'' r))))"
proof -
  have "canon_entries (put_link PNone (without ''contentHash'' r)) = put_link PNone (canon_entries (without ''contentHash'' r))"
    by (rule canon_put_link) simp
  then show ?thesis unfolding receipt_content_def by (simp add: canon_put_link [OF assms] put_link_twice)
qed

lemma receipt_message_inj:
  assumes "sealed_receipt r" "sealed_receipt s" "receipt_message p r = receipt_message q s"
  shows "p = q \<and> receipt_content r = receipt_content s"
proof -
  let ?r = "put_link (previous_value p) (without ''contentHash'' r)" and ?s = "put_link (previous_value q) (without ''contentHash'' s)"
  have "plain (PDict ?r)" "plain (PDict ?s)"
    using assms(1,2) previous_value_plain by (auto simp: sealed_receipt_def plain_entries_iff put_link_def without_def)
  from canonical_json_inj [OF this] assms(3) have eq: "canon (PDict ?r) = canon (PDict ?s)"
    by (simp add: receipt_message_def)
  have mem: "''previousReceiptHash'' \<in> fst ` set (without ''contentHash'' r)" "''previousReceiptHash'' \<in> fst ` set (without ''contentHash'' s)"
    using assms(1,2) by (force simp: sealed_receipt_def without_def)+
  have "previous_value p = previous_value q"
    using canon_dict_get [OF eq, of "''previousReceiptHash''"] put_link_get [OF mem(1)] put_link_get [OF mem(2)]
    by (simp add: previous_value_plain(1))
  moreover have "receipt_content r = receipt_content s"
    unfolding receipt_content_put [OF previous_value_plain(1) [of p], of r] receipt_content_put [OF previous_value_plain(1) [of q], of s]
    using arg_cong [OF eq, of "\<lambda>v. PDict (put_link PNone (as_dict v))"] by simp
  ultimately show ?thesis by (simp add: previous_value_plain(3))
qed

interpretation receipt_log: sealed_rows receipt_link receipt_digest receipt_message receipt_hash receipt_content
  sealed_receipt
  by unfold_locales (rule receipt_message_inj)

subsection \<open>Accepted receipts\<close>

lemma has_keys_plain:
  assumes "has_keys d keys" "\<forall>k \<in> set keys. plain (dict_get d k)"
  shows "plain (PDict d)"
proof -
  have "plain v" if "(k, v) \<in> set d" for k v
  proof -
    from that assms(1) have "k \<in> set keys" "dict_get d k = v"
      by (force simp: has_keys_def intro: dict_get_member)+
    with assms(2) show ?thesis by auto
  qed
  then show ?thesis by (auto simp: plain_entries_iff)
qed

lemma plain_texts: "is_sha v \<Longrightarrow> plain v" "bounded_id v \<Longrightarrow> plain v" "krw_money v = Inr n \<Longrightarrow> plain v"
  by (auto simp: is_sha_def bounded_id_def krw_money_def split: pyval.splits)

lemma valid_request_plain:
  assumes "valid_request q amount"
  shows "plain (PDict q)"
proof (rule has_keys_plain)
  show "has_keys q request_keys" using assms by (simp add: valid_request_def)
  show "\<forall>k \<in> set request_keys. plain (dict_get q k)"
    using assms plain_texts by (auto simp: valid_request_def request_keys_def)
qed

lemma accepted_sealed:
  assumes "accepted_receipt account policy row r" "valid_policy policy cap"
  shows "sealed_receipt r"
proof -
  have keys: "has_keys r receipt_keys" using assms(1) by (simp add: accepted_receipt_def receipt_shape_def)
  have "plain (PDict r)"
  proof (rule has_keys_plain [OF keys])
    have "plain (dict_get r ''request'')"
      using assms(1) valid_request_plain by (auto simp: accepted_receipt_def)
    moreover have "plain (dict_get r ''policyHash'')" "plain (dict_get r ''capKrw'')"
      using assms plain_texts by (auto simp: accepted_receipt_def valid_policy_def)
    moreover have "plain (dict_get r ''previousReceiptHash'')" using assms(1) previous_value_plain by (auto simp: accepted_receipt_def)
    moreover have "plain (dict_get r ''reservedKrwBefore'')" "plain (dict_get r ''reservedKrwAfter'')"
      "plain (dict_get r ''sequence'')" "plain (dict_get r ''contentHash'')" "plain (dict_get r ''accountFingerprint'')"
      using assms(1) by (auto simp: accepted_receipt_def)
    moreover have "plain (dict_get r ''schemaVersion'')" "plain (dict_get r ''localBudgetOnly'')"
      "plain (dict_get r ''localReservationRecorded'')" "\<forall>k \<in> set false_keys. plain (dict_get r k)"
      using assms(1) by (auto simp: accepted_receipt_def receipt_shape_def list_all_iff)
    ultimately show "\<forall>k \<in> set receipt_keys. plain (dict_get r k)"
      unfolding receipt_keys_def by (simp only: set_append ball_Un set_simps ball_simps)
  qed
  moreover have "''previousReceiptHash'' \<in> fst ` set r" using keys by (auto simp: has_keys_def receipt_keys_def)
  ultimately show ?thesis by (simp add: sealed_receipt_def)
qed

lemma put_link_other: "k \<noteq> ''previousReceiptHash'' \<Longrightarrow> dict_get (put_link p d) k = dict_get d k"
proof (induction d)
  case (Cons e d)
  then show ?case by (cases e) (auto simp: put_link_def dict_get_def)
qed (simp add: put_link_def)

lemma receipt_content_amount:
  assumes "receipt_content r = receipt_content s" "accepted_receipt account policy row r" "accepted_receipt account' policy' row' s"
  shows "receipt_amount r = receipt_amount s"
proof -
  from assms(2,3) obtain q q' n n' where q: "dict_get r ''request'' = PDict q" "valid_request q n"
    "dict_get s ''request'' = PDict q'" "valid_request q' n'" unfolding accepted_receipt_def by blast
  have "canon (dict_get r ''request'') = canon (dict_get s ''request'')"
    using canon_dict_get [OF assms(1) [unfolded receipt_content_def], of "''request''"] by (simp add: put_link_other)
  then have "canon (dict_get q ''requestedKrw'') = canon (dict_get q' ''requestedKrw'')"
    unfolding q by (rule canon_dict_get)
  with q(2,4) have "dict_get q ''requestedKrw'' = dict_get q' ''requestedKrw''"
    by (auto simp: valid_request_def krw_money_Inr)
  with q(1,3) show ?thesis by (simp add: receipt_amount_def request_field_def)
qed

lemma map_eq_through:
  "map f xs = map f ys \<Longrightarrow> (\<And>x y. x \<in> set xs \<Longrightarrow> y \<in> set ys \<Longrightarrow> f x = f y \<Longrightarrow> g x = g y) \<Longrightarrow> map g xs = map g ys"
proof (induction xs arbitrary: ys)
  case (Cons x xs)
  then obtain y zs where ys: "ys = y # zs" "f x = f y" "map f xs = map f zs" by (cases ys) auto
  moreover have "map g xs = map g zs" by (rule Cons.IH [OF ys(3)]) (use Cons.prems(2) ys(1) in auto)
  ultimately show ?case using Cons.prems(2) by simp
qed simp

end
