(* ===== verification/Krw_Stored.thy ===== *)
theory Krw_Stored
  imports Krw_Chain Gov_Field_Laws
begin

section \<open>Shared KRW budget: what the module writes it can read\<close>

text \<open>
  The columns the module writes are decoded again by its own reader: the stored texts of policies and
  receipts stay below the 16,384 characters a column may have, and the decoded, key-sorted copies of a
  valid policy and a valid request are valid again.
\<close>

subsection \<open>The length of a stored text\<close>

definition safe_char :: "char \<Rightarrow> bool" where
  "safe_char c \<longleftrightarrow> 32 \<le> code c \<and> c \<noteq> CHR 0x22 \<and> c \<noteq> CHR 0x5C"

lemma quote_safe: "list_all safe_char s \<Longrightarrow> length (json_quote s) = length s + 2"
proof -
  assume "list_all safe_char s"
  then have "concat (map json_escape s) = s"
    by (induction s) (auto simp: safe_char_def json_escape_def)
  then show ?thesis by (simp add: json_quote_def)
qed

lemma loose_entries_length:
  "length (loose_entries d) \<le> (\<Sum>(k, v)\<leftarrow>d. length (json_quote k) + 4 + length (loose_text v))"
  by (induction d) auto

text \<open>The value of a key, with the key, is at most \<open>f k\<close> characters long.\<close>

definition text_within :: "nat \<Rightarrow> pyval \<Rightarrow> bool" where
  "text_within n v \<longleftrightarrow> length (loose_text (canon v)) \<le> n"

lemma has_keys_canon: "has_keys d keys \<Longrightarrow> has_keys (canon_entries d) keys"
proof -
  have "set (map fst (canon_entries d)) = set (map fst d)" for d :: pydict
    by (force simp: set_canon_entries)
  moreover have "length (canon_entries d) = length d" for d :: pydict by (induction d) auto
  ultimately show "has_keys d keys \<Longrightarrow> has_keys (canon_entries d) keys"
    unfolding has_keys_def by (metis card_distinct distinct_card length_map)
qed

lemma sum_over_keys:
  fixes f :: "string \<Rightarrow> pyval \<Rightarrow> nat"
  assumes "has_keys d keys"
  shows "(\<Sum>(k, v)\<leftarrow>d. f k v) \<le> (\<Sum>k\<leftarrow>keys. f k (dict_get d k))"
proof -
  have "(\<Sum>(k, v)\<leftarrow>d. f k v) = (\<Sum>k\<leftarrow>map fst d. f k (dict_get d k))"
  proof -
    have "map (\<lambda>(k, v). f k v) d = map (\<lambda>k. f k (dict_get d k)) (map fst d)"
      using assms dict_get_member by (auto simp: has_keys_def)
    then show ?thesis by (rule arg_cong)
  qed
  also have "\<dots> = (\<Sum>k\<in>set keys. f k (dict_get d k))"
    using assms by (simp only: has_keys_def sum_list_distinct_conv_sum_set)
  also have "\<dots> \<le> (\<Sum>k\<leftarrow>keys. f k (dict_get d k))"
  proof (induction keys)
    case (Cons k keys)
    then show ?case by (cases "k \<in> set keys") (simp_all add: insert_absorb trans_le_add2)
  qed simp
  finally show ?thesis .
qed

lemma dict_text_within:
  assumes "has_keys d keys" "\<forall>k \<in> set keys. text_within (f k) (dict_get d k)"
    and "(\<Sum>k\<leftarrow>keys. length (json_quote k) + 4 + f k) + 2 \<le> n"
  shows "text_within n (PDict d)"
proof -
  let ?g = "\<lambda>k v. length (json_quote k) + 4 + length (loose_text v)"
  have "length (loose_text (canon (PDict d))) \<le> (\<Sum>(k, v)\<leftarrow>canon_entries d. ?g k v) + 2"
    using loose_entries_length [of "canon_entries d"] by simp
  also have "\<dots> \<le> (\<Sum>k\<leftarrow>keys. ?g k (dict_get (canon_entries d) k)) + 2"
    using sum_over_keys [OF has_keys_canon [OF assms(1)]] by simp
  also have "\<dots> \<le> (\<Sum>k\<leftarrow>keys. length (json_quote k) + 4 + f k) + 2"
    using assms(2) by (intro add_right_mono sum_list_mono) (simp add: text_within_def)
  finally show ?thesis using assms(3) by (simp add: text_within_def)
qed

lemma stored_loads:
  assumes "text_within max_record_chars (PDict d)"
  shows "load_column (stored_json (PDict d)) = Inr (PDict (canon_entries d))"
proof -
  let ?raw = "loose_text (canon (PDict d))"
  have "py_len ?raw \<le> length ?raw" by (simp add: py_len_def)
  moreover have "0 < py_len ?raw" by (simp add: py_len_def)
  ultimately show ?thesis
    using assms by (simp add: text_within_def load_column_def stored_json_def Let_def)
qed

subsection \<open>The texts of the fields\<close>

lemma safe_chars: "is_hex_digit c \<Longrightarrow> safe_char c" "is_digit c \<Longrightarrow> safe_char c"
  "is_alnum c \<Longrightarrow> code c < 128 \<Longrightarrow> safe_char c"
  by (auto simp: is_hex_digit_def is_digit_def is_alnum_def is_upper_def is_lower_def safe_char_def)

lemma text_within_str: "list_all safe_char s \<Longrightarrow> length s + 2 \<le> n \<Longrightarrow> text_within n (PStr s)"
  by (simp add: text_within_def quote_safe)

lemma sha_within: "is_sha v \<Longrightarrow> 66 \<le> n \<Longrightarrow> text_within n v"
  by (auto simp: is_sha_def sha_pattern_def list_all_iff safe_chars intro!: text_within_str split: pyval.splits)

lemma id_within:
  assumes "bounded_id v" "130 \<le> n"
  shows "text_within n v"
proof -
  from assms(1) obtain s where s: "v = PStr s" "length s \<le> 128"
    "\<forall>c \<in> set s. (is_alnum c \<and> code c < 128) \<or> c \<in> {CHR ''_'', CHR ''.'', CHR '':'', CHR ''-''}"
    by (auto simp: bounded_id_def list_all_iff split: pyval.splits)
  have "safe_char c" if "c \<in> {CHR ''_'', CHR ''.'', CHR '':'', CHR ''-''}" for c
    using that by (auto simp: safe_char_def)
  with s(3) have "list_all safe_char s" unfolding list_all_iff using safe_chars(3) by blast
  with s(1,2) assms(2) show ?thesis by (simp add: text_within_str)
qed

lemma money_within: "krw_money v = Inr m \<Longrightarrow> 26 \<le> n \<Longrightarrow> text_within n v"
  by (auto simp: krw_money_Inr krw_pattern_def list_all_iff safe_chars intro!: text_within_str)

lemma bool_within: "5 \<le> n \<Longrightarrow> text_within n (PBool b)"
  by (simp add: text_within_def)

lemma int_text_safe: "0 \<le> i \<Longrightarrow> list_all safe_char (int_text i)"
  using nat_text_digits [of "nat i"] safe_chars(2) by (auto simp: int_text_def list_all_iff)

lemma digits_val_less: "list_all is_digit s \<Longrightarrow> digits_val s < 10 ^ length s"
proof (induction s rule: rev_induct)
  case (snoc c s)
  then have "digits_val s < 10 ^ length s" "digit_val c < 10" by (auto simp: digit_val_def is_digit_def)
  then show ?case by simp
qed simp

lemma money_less:
  assumes "krw_money v = Inr n"
  shows "0 \<le> n \<and> n < 10 ^ 24"
proof -
  from assms obtain s where s: "krw_pattern s" "n = int (digits_val s)" by (auto simp: krw_money_Inr)
  show ?thesis
  proof (cases "s = ''0''")
    case True
    then show ?thesis using s(2) by (simp add: digits_val_def digit_val_def)
  next
    case False
    with s(1) have "list_all is_digit s" "length s \<le> 24" by (simp_all add: krw_pattern_def)
    with digits_val_less [of s] power_increasing [of "length s" 24 "10 :: nat"] have "digits_val s < 10 ^ 24" by simp
    then have "int (digits_val s) < int (10 ^ 24)" by (simp only: of_nat_less_iff)
    with s(2) show ?thesis by simp
  qed
qed

lemma amount_within:
  assumes "0 \<le> i" "i < 10 ^ 24" "26 \<le> n"
  shows "text_within n (PStr (int_text i))"
proof (rule text_within_str [OF int_text_safe [OF assms(1)]])
  have "nat i < 10 ^ 24" using assms(1,2) by (simp add: nat_less_iff)
  from length_nat_text [OF this] assms show "length (int_text i) + 2 \<le> n" by (simp add: int_text_def)
qed

subsection \<open>The texts of the records\<close>

lemma constant_texts: "text_within 66 (PStr krw_policy_schema)" "text_within 66 (PStr krw_request_schema)"
  "text_within 66 (PStr krw_receipt_schema)" "c \<in> set native_currencies \<Longrightarrow> text_within 66 (PStr c)"
  by (auto simp: krw_policy_schema_def krw_request_schema_def krw_receipt_schema_def native_currencies_def
      safe_char_def intro!: text_within_str)

lemma text_within_mono: "text_within m v \<Longrightarrow> m \<le> n \<Longrightarrow> text_within n v"
  by (simp add: text_within_def)

lemma valid_policy_within:
  assumes "valid_policy p cap"
  shows "text_within 1000 (PDict p)"
proof (rule dict_text_within [where f = "\<lambda>_. 66"])
  have p: "has_keys p policy_keys" "dict_get p ''schemaVersion'' = PStr krw_policy_schema"
    "is_sha (dict_get p ''accountFingerprint'')" "is_sha (dict_get p ''accountProfileId'')"
    "is_sha (dict_get p ''credentialConfigurationHash'')" "is_sha (dict_get p ''reviewBindingHash'')"
    "is_sha (dict_get p ''policyHash'')" "krw_money (dict_get p ''capKrw'') = Inr cap"
    using assms unfolding valid_policy_def list.pred_inject by blast+
  show "has_keys p policy_keys" by (rule p(1))
  show "\<forall>k \<in> set policy_keys. text_within 66 (dict_get p k)"
    using p(3-7) [THEN sha_within [OF _ order_refl]] money_within [OF p(8), of 66] constant_texts(1)
    by (simp add: policy_keys_def p(2))
qed code_simp

lemma valid_request_within:
  assumes "valid_request q amount"
  shows "text_within 2000 (PDict q)"
proof (rule dict_text_within [where f = "\<lambda>_. 130"])
  have q: "has_keys q request_keys" "dict_get q ''schemaVersion'' = PStr krw_request_schema"
    "is_sha (dict_get q ''scopeHash'')" "is_sha (dict_get q ''accountFingerprint'')" "is_sha (dict_get q ''accountProfileId'')"
    "is_sha (dict_get q ''credentialConfigurationHash'')" "is_sha (dict_get q ''basisHash'')"
    "is_sha (dict_get q ''policyHash'')" "is_sha (dict_get q ''requestHash'')"
    "bounded_id (dict_get q ''reservationId'')" "bounded_id (dict_get q ''deploymentId'')"
    "krw_money (dict_get q ''requestedKrw'') = Inr amount" "dict_get q ''nativeCurrency'' \<in> PStr ` set native_currencies"
    using assms unfolding valid_request_def list.pred_inject by blast+
  show "has_keys q request_keys" by (rule q(1))
  have "text_within 130 (dict_get q ''nativeCurrency'')" "text_within 130 (PStr krw_request_schema)"
    using q(13) constant_texts text_within_mono [of 66 _ 130] by auto
  then show "\<forall>k \<in> set request_keys. text_within 130 (dict_get q k)"
    using q(3-9) [THEN sha_within [of _ 130]] q(10,11) [THEN id_within [of _ 130]] money_within [OF q(12), of 130]
    by (simp add: request_keys_def q(2))
qed code_simp

subsection \<open>Canonical copies\<close>

lemma canon_without: "canon_entries (without k d) = without k (canon_entries d)"
proof (induction d)
  case (Cons e d)
  obtain k' v where e: "e = (k', v)" by (cases e)
  have "without k (insort_key fst (k', canon v) (canon_entries d))
      = (if k' = k then without k (canon_entries d) else insort_key fst (k', canon v) (without k (canon_entries d)))"
    unfolding without_def by (simp add: filter_insort [OF sorted_canon_entries] filter_insort_triv)
  with Cons show ?case by (simp add: e without_def)
qed (simp add: without_def)

lemma seal_canon: "seal (PDict (without k (canon_entries d))) = seal (PDict (without k d))"
  unfolding seal_def by (rule arg_cong [where f = sha256_hex], rule canonical_json_cong) (simp flip: canon_without)

lemma canon_scalar: "is_sha v \<Longrightarrow> canon v = v" "bounded_id v \<Longrightarrow> canon v = v" "krw_money v = Inr n \<Longrightarrow> canon v = v"
  "v \<in> range PStr \<Longrightarrow> canon v = v"
  by (auto simp: is_sha_def bounded_id_def krw_money_Inr split: pyval.splits)

lemma plain_strict: "plain v \<Longrightarrow> strict_json v"
proof (induction v)
  case (PList xs)
  then show ?case by (auto simp: strict_list_iff plain_list_iff)
next
  case (PDict d)
  then show ?case by (fastforce simp: strict_entries_iff plain_entries_iff)
qed simp_all

lemma plain_without: "plain (PDict d) \<Longrightarrow> plain (PDict (without k d))"
  by (auto simp: plain_entries_iff without_def)

lemma valid_policy_canon:
  assumes "valid_policy p cap"
  shows "valid_policy (canon_entries p) cap"
proof -
  have c: "dict_get (canon_entries p) k = dict_get p k" if "k \<in> set policy_keys" for k
  proof -
    have "canon (dict_get p k) = dict_get p k"
      using that assms canon_scalar unfolding valid_policy_def list.pred_inject policy_keys_def by auto
    then show ?thesis by simp
  qed
  have "''schemaVersion'' \<in> set policy_keys" "''accountFingerprint'' \<in> set policy_keys"
    "''accountProfileId'' \<in> set policy_keys" "''credentialConfigurationHash'' \<in> set policy_keys"
    "''reviewBindingHash'' \<in> set policy_keys" "''policyHash'' \<in> set policy_keys" "''capKrw'' \<in> set policy_keys"
    by (simp_all add: policy_keys_def)
  note same = this [THEN c]
  from assms show ?thesis
    unfolding valid_policy_def seal_canon list.pred_inject same
    by (elim conjE, intro conjI) (assumption | rule has_keys_canon | simp (no_asm))+
qed

lemma valid_request_canon:
  assumes "valid_request q amount"
  shows "valid_request (canon_entries q) amount"
proof -
  have c: "dict_get (canon_entries q) k = dict_get q k" if "k \<in> set request_keys" for k
  proof -
    have "canon (dict_get q k) = dict_get q k"
      using that assms canon_scalar unfolding valid_request_def list.pred_inject request_keys_def by auto
    then show ?thesis by simp
  qed
  have "''schemaVersion'' \<in> set request_keys" "''scopeHash'' \<in> set request_keys"
    "''accountFingerprint'' \<in> set request_keys" "''accountProfileId'' \<in> set request_keys"
    "''credentialConfigurationHash'' \<in> set request_keys" "''basisHash'' \<in> set request_keys"
    "''policyHash'' \<in> set request_keys" "''requestHash'' \<in> set request_keys"
    "''reservationId'' \<in> set request_keys" "''deploymentId'' \<in> set request_keys"
    "''nativeCurrency'' \<in> set request_keys" "''requestedKrw'' \<in> set request_keys"
    by (simp_all add: request_keys_def)
  note same = this [THEN c]
  from assms show ?thesis
    unfolding valid_request_def seal_canon list.pred_inject same
    by (elim conjE, intro conjI) (assumption | rule has_keys_canon | simp (no_asm))+
qed

lemma valid_policy_plain:
  assumes "valid_policy p cap"
  shows "plain (PDict p)"
proof (rule has_keys_plain)
  show "has_keys p policy_keys" using assms by (simp add: valid_policy_def)
  show "\<forall>k \<in> set policy_keys. plain (dict_get p k)"
    using assms plain_texts unfolding valid_policy_def list.pred_inject policy_keys_def by auto
qed

lemma valid_policy_accepted:
  assumes "valid_policy p cap"
  shows "validate_policy (PDict p) = Inr p"
proof -
  define h where "h = seal (PDict (without ''policyHash'' p))"
  from plain_strict [OF plain_without [OF valid_policy_plain [OF assms]]]
  have "canonical_hash (PDict (without ''policyHash'' p)) = Inr h" by (simp add: canonical_hash_def h_def)
  moreover have "is_sha (PStr h)" by (simp add: is_sha_def h_def seal_def sha256_hex_pattern)
  ultimately show ?thesis using assms unfolding valid_policy_def validate_policy_def h_def [symmetric] by simp
qed

lemma valid_request_accepted:
  assumes "valid_request q amount"
  shows "validate_request (PDict q) = Inr q"
proof -
  define h where "h = seal (PDict (without ''requestHash'' q))"
  from plain_strict [OF plain_without [OF valid_request_plain [OF assms]]]
  have "canonical_hash (PDict (without ''requestHash'' q)) = Inr h" by (simp add: canonical_hash_def h_def)
  moreover have "is_sha (PStr h)" by (simp add: is_sha_def h_def seal_def sha256_hex_pattern)
  ultimately show ?thesis using assms unfolding valid_request_def validate_request_def h_def [symmetric] by simp
qed

end
