(* ===== verification/Krw_Liveness.thy ===== *)
theory Krw_Liveness
  imports Krw_Stored
begin

section \<open>Shared KRW budget: a reservation within the cap succeeds\<close>

text \<open>
  The receipt a reservation writes is accepted by the module's own scan, so a fresh reservation that
  fits in the cap is recorded and reported. A demo pool exercises the theorems about reservations.
\<close>

subsection \<open>The fields of a new receipt\<close>

definition sealed_draft :: "pydict \<Rightarrow> pydict" where
  "sealed_draft draft = draft @ [(''contentHash'', PStr (seal (PDict draft)))]"

lemma receipt_key_list:
  "map fst (sealed_draft (new_receipt policy request account n head before after))
    = [''schemaVersion'', ''request'', ''policyHash'', ''accountFingerprint'', ''sequence'', ''previousReceiptHash'',
       ''reservedKrwBefore'', ''reservedKrwAfter'', ''capKrw'', ''localBudgetOnly'', ''localReservationRecorded'']
      @ false_keys @ [''contentHash'']"
  by (simp add: sealed_draft_def new_receipt_def false_flags_def o_def)

lemma new_receipt_keys:
  "has_keys (sealed_draft (new_receipt policy request account n head before after)) receipt_keys"
proof -
  have "distinct ([''schemaVersion'', ''request'', ''policyHash'', ''accountFingerprint'', ''sequence'', ''previousReceiptHash'',
       ''reservedKrwBefore'', ''reservedKrwAfter'', ''capKrw'', ''localBudgetOnly'', ''localReservationRecorded'']
      @ false_keys @ [''contentHash''])" by code_simp
  moreover have "set ([''schemaVersion'', ''request'', ''policyHash'', ''accountFingerprint'', ''sequence'', ''previousReceiptHash'',
       ''reservedKrwBefore'', ''reservedKrwAfter'', ''capKrw'', ''localBudgetOnly'', ''localReservationRecorded'']
      @ false_keys @ [''contentHash'']) = set receipt_keys" by (auto simp: receipt_keys_def)
  ultimately show ?thesis by (simp only: has_keys_def receipt_key_list)
qed

lemma without_digest: "without ''contentHash'' (sealed_draft (new_receipt policy request account n head before after))
   = new_receipt policy request account n head before after"
  by (simp add: sealed_draft_def new_receipt_def false_flags_def false_keys_def without_def)

lemma new_receipt_fields:
  "dict_get (sealed_draft (new_receipt policy request account n head before after)) ''schemaVersion'' = PStr krw_receipt_schema" "dict_get (sealed_draft (new_receipt policy request account n head before after)) ''request'' = PDict request"
  "dict_get (sealed_draft (new_receipt policy request account n head before after)) ''policyHash'' = dict_get policy ''policyHash''" "dict_get (sealed_draft (new_receipt policy request account n head before after)) ''accountFingerprint'' = PStr account"
  "dict_get (sealed_draft (new_receipt policy request account n head before after)) ''sequence'' = PInt n" "dict_get (sealed_draft (new_receipt policy request account n head before after)) ''previousReceiptHash'' = previous_value head"
  "dict_get (sealed_draft (new_receipt policy request account n head before after)) ''reservedKrwBefore'' = PStr (int_text before)" "dict_get (sealed_draft (new_receipt policy request account n head before after)) ''reservedKrwAfter'' = PStr (int_text after)"
  "dict_get (sealed_draft (new_receipt policy request account n head before after)) ''capKrw'' = dict_get policy ''capKrw''" "dict_get (sealed_draft (new_receipt policy request account n head before after)) ''localBudgetOnly'' = PBool True"
  "dict_get (sealed_draft (new_receipt policy request account n head before after)) ''localReservationRecorded'' = PBool True"
  "dict_get (sealed_draft (new_receipt policy request account n head before after)) ''contentHash'' = PStr (seal (PDict (new_receipt policy request account n head before after)))"
  unfolding sealed_draft_def new_receipt_def by (simp_all add: false_flags_def false_keys_def)

lemma new_receipt_flags:
  "list_all (\<lambda>k. dict_get (sealed_draft (new_receipt policy request account n head before after)) k = PBool False) false_keys"
  unfolding sealed_draft_def new_receipt_def by (simp add: false_flags_def false_keys_def)

lemma new_receipt_within:
  assumes "valid_policy policy cap" "valid_request request amount" "is_sha (PStr account)" "0 \<le> n" "n \<le> 10000"
    and "\<forall>h. head = Some h \<longrightarrow> sha_pattern h" "0 \<le> before" "before \<le> after" "after \<le> cap"
  shows "text_within 8192 (PDict (sealed_draft (new_receipt policy request account n head before after)))"
proof (rule dict_text_within [OF new_receipt_keys, where f = "\<lambda>k. if k = ''request'' then 2000 else 66"])
  let ?r = "sealed_draft (new_receipt policy request account n head before after)"
  note f = new_receipt_fields [of policy request account n head before after]
  have cap: "krw_money (dict_get policy ''capKrw'') = Inr cap" "is_sha (dict_get policy ''policyHash'')"
    using assms(1) unfolding valid_policy_def list.pred_inject by blast+
  have "text_within 66 (previous_value head)"
    using assms(6) sha_within [of "PStr h" 66 for h] by (auto simp: previous_value_def is_sha_def text_within_def split: option.splits)
  moreover have "text_within 66 (PInt n)"
  proof -
    have "nat n < 10 ^ 5" using assms(4,5) by simp
    from length_nat_text [OF this] assms(4) show ?thesis by (simp add: text_within_def int_text_def)
  qed
  moreover have "text_within 66 (PStr (int_text before))" "text_within 66 (PStr (int_text after))"
    using money_less [OF cap(1)] assms(7-9) by (auto intro: amount_within)
  moreover have "text_within 66 (dict_get ?r k)" if "k \<in> set false_keys" for k
    using new_receipt_flags that by (simp add: list_all_iff bool_within)
  moreover have "is_sha (PStr (seal v))" for v by (simp add: is_sha_def seal_def sha256_hex_pattern)
  moreover have "text_within 66 (PStr (seal v))" for v
    by (rule sha_within) (simp_all add: is_sha_def seal_def sha256_hex_pattern)
  ultimately show "\<forall>k \<in> set receipt_keys. text_within (if k = ''request'' then 2000 else 66) (dict_get ?r k)"
    using valid_request_within [OF assms(2)] sha_within [OF cap(2) order_refl] sha_within [OF assms(3) order_refl]
      money_within [OF cap(1), of 66] constant_texts(3) bool_within [of 66 True]
    by (simp add: receipt_keys_def f ball_Un false_keys_def)
qed code_simp

lemma new_receipt_plain:
  assumes "valid_policy policy cap" "valid_request request amount"
  shows "plain (PDict (new_receipt policy request account n head before after))"
proof -
  let ?r = "sealed_draft (new_receipt policy request account n head before after)"
  have cap: "krw_money (dict_get policy ''capKrw'') = Inr cap" "is_sha (dict_get policy ''policyHash'')"
    using assms(1) unfolding valid_policy_def list.pred_inject by blast+
  have "plain (PDict ?r)"
  proof (rule has_keys_plain [OF new_receipt_keys])
    have "plain (dict_get ?r k)" if "k \<in> set false_keys" for k
      using new_receipt_flags that by (simp add: list_all_iff)
    then show "\<forall>k \<in> set receipt_keys. plain (dict_get ?r k)"
      using valid_request_plain [OF assms(2)] plain_texts(1) [OF cap(2)] plain_texts(3) [OF cap(1)] previous_value_plain(2)
      by (simp add: receipt_keys_def new_receipt_fields ball_Un)
  qed
  from plain_without [OF this, of "''contentHash''"] show ?thesis by (simp only: without_digest)
qed

subsection \<open>The scan accepts a new receipt\<close>

definition new_row :: "pydict \<Rightarrow> pydict \<Rightarrow> string \<Rightarrow> int \<Rightarrow> string option \<Rightarrow> int \<Rightarrow> int \<Rightarrow> krw_row" where
  "new_row policy request account n head before after =
     (let draft = new_receipt policy request account n head before after
      in \<lparr>kr_id = py_str (dict_get request ''reservationId''), kr_account = account,
          kr_deployment = py_str (dict_get request ''deploymentId''), kr_sequence = n,
          kr_payload = stored_json (PDict (sealed_draft draft)), kr_hash = seal (PDict draft)\<rparr>)"

lemma same_policy_fields:
  assumes "canon (PDict sp) = canon (PDict policy)" "valid_policy sp cap" "valid_policy policy cap'"
    and "k \<in> {''policyHash'', ''capKrw'', ''accountFingerprint''}"
  shows "dict_get sp k = dict_get policy k"
proof -
  have "canon (dict_get p k) = dict_get p k" if "valid_policy p c" for p c
  proof -
    have "is_sha (dict_get p ''policyHash'')" "is_sha (dict_get p ''accountFingerprint'')" "krw_money (dict_get p ''capKrw'') = Inr c"
      using that unfolding valid_policy_def list.pred_inject by blast+
    with assms(4) canon_scalar show ?thesis by auto
  qed
  from this [OF assms(2)] this [OF assms(3)] canon_dict_get [OF assms(1), of k] show ?thesis by metis
qed

lemma receipt_shape_canon:
  "receipt_shape (canon_entries (sealed_draft (new_receipt policy request account n head before after)))"
  unfolding receipt_shape_def using new_receipt_flags [of policy request account n head before after]
  by (simp add: new_receipt_fields has_keys_canon new_receipt_keys list_all_iff)

lemma new_receipt_seal:
  assumes "canon (PDict sp) = canon (PDict policy)" "valid_policy sp cap" "valid_policy policy cap"
    and "valid_request request amount" "n = int (length (ks_records s)) + 1"
    and "plain (PDict (new_receipt policy request account n (ks_previous s) (ks_reserved s) after))"
  shows "receipt_seal_ok account sp s (new_row policy request account n (ks_previous s) (ks_reserved s) after)
     (canon_entries (sealed_draft (new_receipt policy request account n (ks_previous s) (ks_reserved s) after)))
     (canon_entries request) = Inr True"
proof -
  let ?draft = "new_receipt policy request account n (ks_previous s) (ks_reserved s) after"
  let ?r = "canon_entries (sealed_draft ?draft)"
  obtain i d where id: "dict_get request ''reservationId'' = PStr i" "dict_get request ''deploymentId'' = PStr d"
    using assms(4) unfolding valid_request_def bounded_id_def by (auto split: pyval.splits)
  have "strict_json (PDict (without ''contentHash'' ?r))"
    using plain_strict [OF plain_canon [OF assms(6)]] by (simp add: without_digest flip: canon_without)
  moreover have "seal (PDict (without ''contentHash'' ?r)) = seal (PDict ?draft)"
    by (simp only: seal_canon without_digest)
  ultimately have hash: "canonical_hash (PDict (without ''contentHash'' ?r)) = Inr (seal (PDict ?draft))"
    by (simp add: canonical_hash_def)
  have pol: "dict_get policy ''policyHash'' = dict_get sp ''policyHash''" "dict_get policy ''capKrw'' = dict_get sp ''capKrw''"
    using same_policy_fields [OF assms(1-3)] by auto
  have sp: "canon (dict_get sp ''policyHash'') = dict_get sp ''policyHash''" "canon (dict_get sp ''capKrw'') = dict_get sp ''capKrw''"
    using assms(2) canon_scalar unfolding valid_policy_def list.pred_inject by blast+
  have "is_sha (PStr (seal (PDict ?draft)))" by (simp add: is_sha_def seal_def sha256_hex_pattern)
  with hash show ?thesis
    unfolding receipt_seal_ok_def new_row_def Let_def
    by (simp add: new_receipt_fields id assms(5) pol sp previous_value_plain)
qed

lemma new_receipt_scanned:
  assumes "canon (PDict sp) = canon (PDict policy)" "valid_policy sp cap" "valid_policy policy cap"
    and "valid_request request amount" "same_binding request policy" "is_sha (PStr account)"
    and "length (ks_records s) < max_reservations" "ks_bytes s + 8192 \<le> max_record_bytes"
    and "py_str (dict_get request ''reservationId'') \<notin> set (ks_ids s)"
    and "py_str (dict_get request ''deploymentId'') \<notin> set (ks_deployments s)"
    and "0 \<le> ks_reserved s" "ks_reserved s + amount \<le> cap" "\<forall>h. ks_previous s = Some h \<longrightarrow> sha_pattern h"
    and "n = int (length (ks_records s)) + 1" "after = ks_reserved s + amount"
  shows "\<exists>s'. scan_reservation account sp cap s (new_row policy request account n (ks_previous s) (ks_reserved s) after) = Inr s'
     \<and> ks_reserved s' = after \<and> ks_records s' \<noteq> []
     \<and> ks_previous s' = Some (seal (PDict (new_receipt policy request account n (ks_previous s) (ks_reserved s) after)))"
proof -
  let ?draft = "new_receipt policy request account n (ks_previous s) (ks_reserved s) after"
  let ?r = "sealed_draft ?draft"
  have amount: "0 < amount" "krw_money (dict_get request ''requestedKrw'') = Inr amount"
    using assms(4) by (simp_all add: valid_request_def)
  have within: "text_within 8192 (PDict ?r)"
    by (rule new_receipt_within [OF assms(3,4,6)]) (use assms(7,11-15) amount in \<open>simp_all add: max_reservations_def\<close>)
  then have load: "load_column (stored_json (PDict ?r)) = Inr (PDict (canon_entries ?r))"
    by (intro stored_loads) (simp add: text_within_def max_record_chars_def)
  have bytes: "tc_bytes (stored_json (PDict ?r)) \<le> 8192"
    using within by (simp add: stored_json_def text_within_def Let_def)
  have request: "dict_get (canon_entries ?r) ''request'' = PDict (canon_entries request)"
    by (simp add: new_receipt_fields)
  have valid: "validate_request (PDict (canon_entries request)) = Inr (canon_entries request)"
    by (rule valid_request_accepted [OF valid_request_canon [OF assms(4)]])
  have binding: "same_binding (canon_entries request) sp"
    using assms(5) canon_dict_get [OF assms(1)] by (simp add: same_binding_def)
  have krw_money: "krw_money (dict_get (canon_entries request) ''requestedKrw'') = Inr amount"
    using amount(2) canon_scalar(3) [OF amount(2)] by simp
  have "plain (PDict ?draft)" by (rule new_receipt_plain [OF assms(3,4)])
  note seal = new_receipt_seal [OF assms(1-4,14) this]
  show ?thesis
    using load bytes request valid binding seal krw_money assms(7-12,15)
    unfolding scan_reservation_def Let_def
    by (simp add: new_row_def receipt_shape_canon new_receipt_fields Let_def)
qed

subsection \<open>Appending succeeds\<close>

text \<open>What a successful scan of \<open>rows\<close> leaves behind.\<close>

lemma scanned_rows:
  assumes "res_fold (scan_reservation account policy cap) scan_start rows = Inr s"
  shows "ks_ids s = rev (map kr_id rows) \<and> ks_deployments s = rev (map kr_deployment rows)
    \<and> ks_bytes s = sum_list (map (tc_bytes \<circ> kr_payload) rows) \<and> length (ks_records s) = length rows
    \<and> (if rows = [] then ks_previous s = None
        else kr_sequence (last rows) = int (length rows) \<and> ks_previous s = Some (kr_hash (last rows))
          \<and> sha_pattern (kr_hash (last rows)))"
  using assms
proof (induction rows arbitrary: s rule: rev_induct)
  case Nil
  then show ?case by (auto simp: scan_start_def)
next
  case (snoc row rows)
  then obtain t where t: "res_fold (scan_reservation account policy cap) scan_start rows = Inr t"
    "scan_reservation account policy cap t row = Inr s" by (auto simp: res_fold_append res_simps)
  from scan_reservation_Inr [OF t(2)] obtain r where r: "accepted_receipt account policy row r"
    "kr_sequence row = int (length (ks_records t)) + 1"
    "s = \<lparr>ks_reserved = ks_reserved t + receipt_amount r, ks_previous = Some (kr_hash row),
       ks_records = ks_records t @ [r], ks_bytes = ks_bytes t + tc_bytes (kr_payload row),
       ks_ids = kr_id row # ks_ids t, ks_deployments = kr_deployment row # ks_deployments t\<rparr>" by metis
  have "sha_pattern (kr_hash row)"
    using r(1) sha256_hex_pattern unfolding accepted_receipt_def seal_def by metis
  with snoc.IH [OF t(1)] r(2,3) show ?case by simp
qed

lemma inspect_appended:
  assumes "schema_present (kd_master db) = Inr True" "find (\<lambda>p. kp_account p = account) (kd_pools db) = Some p"
    and "load_column (kp_payload p) = Inr (PDict policy)" "valid_policy policy cap"
    and "dict_get policy ''accountFingerprint'' = PStr account" "PStr (kp_hash p) = dict_get policy ''policyHash''"
    and "res_fold (scan_reservation account policy cap) scan_start (account_rows db account) = Inr s"
    and "length (account_rows db account) < max_reservations"
    and "scan_reservation account policy cap s row = Inr s'" "kr_account row = account"
    and "kr_sequence row = int (length (account_rows db account)) + 1"
  shows "krw_inspect (db\<lparr>kd_reservations := kd_reservations db @ [row]\<rparr>) account
    = Inr (Some \<lparr>kb_policy = policy, kb_cap = cap, kb_reserved = ks_reserved s', kb_head = ks_previous s', kb_receipts = ks_records s'\<rparr>)"
proof -
  have "account_rows db account = [] \<or> kr_sequence (last (account_rows db account)) \<le> kr_sequence row"
    using scanned_rows [OF assms(7)] assms(11) by (simp split: if_splits)
  note rows = account_rows_append [OF this assms(10)]
  have cap: "krw_money (dict_get policy ''capKrw'') = Inr cap" using assms(4) by (simp add: valid_policy_def)
  have "take (Suc max_reservations) (account_rows db account @ [row]) = account_rows db account @ [row]"
    using assms(8) by simp
  moreover have "res_fold (scan_reservation account policy cap) scan_start (account_rows db account @ [row]) = Inr s'"
    by (simp add: res_fold_append assms(7,9) res_simps)
  ultimately show ?thesis
    unfolding krw_inspect_def rows
    by (simp add: assms(1-3) valid_policy_accepted [OF assms(4)] assms(5) assms(6) [symmetric] cap del: take_append take_Suc)
qed

text \<open>The pool row that an account's next receipt refers to, with the policy decoded from it.\<close>

definition pool_ready :: "krw_db \<Rightarrow> string \<Rightarrow> krw_pool_row \<Rightarrow> pydict \<Rightarrow> int \<Rightarrow> bool" where
  "pool_ready db account p policy cap \<longleftrightarrow>
     find (\<lambda>p. kp_account p = account) (kd_pools db) = Some p \<and> load_column (kp_payload p) = Inr (PDict policy)
     \<and> valid_policy policy cap \<and> dict_get policy ''accountFingerprint'' = PStr account
     \<and> PStr (kp_hash p) = dict_get policy ''policyHash''"

lemma pool_listed:
  assumes "pool_ready db account p sp cap" "dict_get sp ''policyHash'' = dict_get policy ''policyHash''"
  shows "list_ex (\<lambda>p. kp_account p = account \<and> kp_hash p = py_str (dict_get policy ''policyHash'')) (kd_pools db)"
proof -
  from assms(1) have "find (\<lambda>p. kp_account p = account) (kd_pools db) = Some p" by (simp add: pool_ready_def)
  from find_Some_mem [OF this] have "p \<in> set (kd_pools db) \<and> kp_account p = account" .
  moreover have "dict_get policy ''policyHash'' = PStr (kp_hash p)"
    using assms by (simp add: pool_ready_def)
  then have "kp_hash p = py_str (dict_get policy ''policyHash'')" by simp
  ultimately show ?thesis by (auto simp: list_ex_iff)
qed

lemma insertion_succeeds:
  assumes "pool_ready db account p sp cap" "canon (PDict sp) = canon (PDict policy)" "valid_policy policy cap"
    and "valid_request request amount" "same_binding request policy" "is_sha (PStr account)"
    and "schema_present (kd_master db) = Inr True"
    and "res_fold (scan_reservation account sp cap) scan_start (account_rows db account) = Inr s"
    and "length (account_rows db account) < max_reservations"
    and "sum_list (map (tc_bytes \<circ> kr_payload) (account_rows db account)) + 8192 \<le> max_record_bytes"
    and "\<forall>r \<in> set (kd_reservations db). kr_id r \<noteq> py_str (dict_get request ''reservationId'')"
    and "\<forall>r \<in> set (account_rows db account). kr_deployment r \<noteq> py_str (dict_get request ''deploymentId'')"
    and "0 \<le> ks_reserved s" "ks_reserved s + amount \<le> cap"
  defines "row \<equiv> new_row policy request account (int (length (ks_records s)) + 1) (ks_previous s) (ks_reserved s)
      (ks_reserved s + amount)"
  shows "insert_reservation db account (py_str (dict_get policy ''policyHash'')) (ks_previous s) row
      = Inr (db\<lparr>kd_reservations := kd_reservations db @ [row]\<rparr>)
    \<and> (\<exists>b. krw_inspect (db\<lparr>kd_reservations := kd_reservations db @ [row]\<rparr>) account = Inr (Some b)
          \<and> kb_head b = Some (kr_hash row) \<and> kb_reserved b = ks_reserved s + amount)"
proof -
  note scanned = scanned_rows [OF assms(8)]
  have members: "set (account_rows db account) = {r \<in> set (kd_reservations db). kr_account r = account}"
    by (simp add: account_rows_def)
  have row: "kr_account row = account" "kr_sequence row = int (length (account_rows db account)) + 1"
    "kr_id row = py_str (dict_get request ''reservationId'')" "kr_deployment row = py_str (dict_get request ''deploymentId'')"
    "kr_hash row = seal (PDict (new_receipt policy request account (int (length (ks_records s)) + 1) (ks_previous s)
       (ks_reserved s) (ks_reserved s + amount)))"
    using scanned by (simp_all add: row_def new_row_def Let_def)
  have sp: "valid_policy sp cap" using assms(1) by (simp add: pool_ready_def)
  have hash: "dict_get sp ''policyHash'' = dict_get policy ''policyHash''"
    by (rule same_policy_fields [OF assms(2) sp assms(3)]) simp
  have "insert_reservation db account (py_str (dict_get policy ''policyHash'')) (ks_previous s) row
      = Inr (db\<lparr>kd_reservations := kd_reservations db @ [row]\<rparr>)"
    unfolding insert_reservation_def
    using pool_listed [OF assms(1) hash] scanned row(2-4) assms(11,12)
    by (auto simp: list_ex_iff members Let_def split: if_splits)
  moreover have "\<exists>s'. scan_reservation account sp cap s row = Inr s' \<and> ks_reserved s' = ks_reserved s + amount
      \<and> ks_records s' \<noteq> [] \<and> ks_previous s' = Some (kr_hash row)"
    unfolding row(5) unfolding row_def
    by (rule new_receipt_scanned [OF assms(2) sp assms(3-6)])
      (use scanned assms(9-14) members in \<open>auto split: if_splits\<close>)
  then obtain s' where s': "scan_reservation account sp cap s row = Inr s'" "ks_reserved s' = ks_reserved s + amount"
    "ks_previous s' = Some (kr_hash row)" by blast
  have "krw_inspect (db\<lparr>kd_reservations := kd_reservations db @ [row]\<rparr>) account
    = Inr (Some \<lparr>kb_policy = sp, kb_cap = cap, kb_reserved = ks_reserved s', kb_head = ks_previous s', kb_receipts = ks_records s'\<rparr>)"
    by (rule inspect_appended [OF assms(7) _ _ _ _ _ assms(8,9) s'(1) row(1,2)]) (use assms(1) in \<open>auto simp: pool_ready_def\<close>)
  ultimately show ?thesis using s' by simp
qed

lemma pool_before_append:
  assumes "krw_inspect db account = Inr pool" "schema_present (kd_master db) = Inr True"
    and "valid_policy policy cap" "dict_get policy ''accountFingerprint'' = PStr account"
    and "case pool of None \<Rightarrow> True | Some b \<Rightarrow> canon (PDict (kb_policy b)) = canon (PDict policy)"
  obtains db1 p sp s where "(if pool = None then insert_pool db account policy else Inr db) = Inr db1"
    "pool_ready db1 account p sp cap" "canon (PDict sp) = canon (PDict policy)"
    "res_fold (scan_reservation account sp cap) scan_start (account_rows db1 account) = Inr s"
    "ks_reserved s = pool_reserved pool" "ks_previous s = pool_head pool" "ks_records s = pool_receipts pool"
    "kd_reservations db1 = kd_reservations db" "kd_master db1 = kd_master db" "0 \<le> ks_reserved s"
    "kd_transaction db1 = kd_transaction db"
proof (cases pool)
  case None
  with assms(1,2) have none: "find (\<lambda>p. kp_account p = account) (kd_pools db) = None" "account_rows db account = []"
    by (auto simp: krw_inspect_def split: option.splits if_splits)
  define p where "p = \<lparr>kp_account = account, kp_payload = stored_json (PDict policy),
    kp_hash = py_str (dict_get policy ''policyHash'')\<rparr>"
  let ?db1 = "db\<lparr>kd_pools := kd_pools db @ [p]\<rparr>"
  have "insert_pool db account policy = Inr ?db1"
    using none(1) by (auto simp: insert_pool_def p_def find_None_iff list_ex_iff)
  moreover have "pool_ready ?db1 account p (canon_entries policy) cap"
  proof -
    have "load_column (kp_payload p) = Inr (PDict (canon_entries policy))"
      using valid_policy_within [OF assms(3)] unfolding p_def
      by (simp add: stored_loads text_within_def max_record_chars_def)
    moreover have "valid_policy (canon_entries policy) cap" by (rule valid_policy_canon [OF assms(3)])
    moreover have "PStr (kp_hash p) = dict_get policy ''policyHash''"
      using assms(3) by (auto simp: p_def valid_policy_def)
    ultimately show ?thesis
      using none(1) assms(4) same_policy_fields [of "canon_entries policy" policy cap cap] assms(3)
      by (simp add: pool_ready_def find_snoc p_def valid_policy_canon)
  qed
  ultimately show thesis
    using none(2) None
    by (intro that [of ?db1 p "canon_entries policy" scan_start])
      (simp_all add: account_rows_def scan_start_def pool_reserved_def pool_head_def pool_receipts_def)
next
  case (Some b)
  with assms(1) have "krw_inspect db account = Inr (Some b)" by simp
  from krw_inspect_Some [OF this] obtain p s where b: "find (\<lambda>p. kp_account p = account) (kd_pools db) = Some p"
    "load_column (kp_payload p) = Inr (PDict (kb_policy b))" "PStr (kp_hash p) = dict_get (kb_policy b) ''policyHash''"
    "dict_get (kb_policy b) ''accountFingerprint'' = PStr account" "valid_policy (kb_policy b) (kb_cap b)"
    "res_fold (scan_reservation account (kb_policy b) (kb_cap b)) scan_start
       (take (Suc max_reservations) (account_rows db account)) = Inr s"
    "kb_reserved b = ks_reserved s" "kb_head b = ks_previous s" "kb_receipts b = ks_records s" by metis
  have same: "canon (PDict (kb_policy b)) = canon (PDict policy)" using assms(5) Some by simp
  have "dict_get (kb_policy b) ''capKrw'' = dict_get policy ''capKrw''"
    by (rule same_policy_fields [OF same b(5) assms(3)]) simp
  then have cap: "kb_cap b = cap" using b(5) assms(3) by (simp add: valid_policy_def)
  have rows: "res_fold (scan_reservation account (kb_policy b) cap) scan_start (account_rows db account) = Inr s"
    using b(6) fold_all_rows [OF b(6)] cap by simp
  have "0 \<le> ks_reserved s"
    using inspect_accepted [OF \<open>krw_inspect db account = Inr (Some b)\<close>] b(7) by (simp add: accepted_pool_def)
  with b cap rows same Some show thesis
    by (intro that [of db p "kb_policy b" s]) (simp_all add: pool_ready_def pool_reserved_def pool_head_def pool_receipts_def)
qed

lemma fold_chain_ok:
  assumes "res_fold (scan_reservation account policy cap) scan_start rows = Inr s" "0 \<le> cap"
  shows "chain_ok account policy cap s"
  by (rule res_fold_invariant [OF assms(1)]) (use assms(2) chain_ok_start chain_ok_step in auto)

lemma fresh_deployment_rows:
  assumes "chain_ok account policy cap s" "ks_deployments s = rev (map kr_deployment rows)"
    and "\<not> list_ex (\<lambda>item. request_field item ''deploymentId'' = PStr d) (ks_records s)"
  shows "\<forall>r \<in> set rows. kr_deployment r \<noteq> d"
proof
  fix r assume "r \<in> set rows"
  then have "kr_deployment r \<in> set (map receipt_deployment (ks_records s))"
    using assms(1,2) by (auto simp: chain_ok_def)
  then obtain q where q: "q \<in> set (ks_records s)" "receipt_deployment q = kr_deployment r" by auto
  from q(1) assms(1) obtain row where "accepted_receipt account policy row q" by (auto simp: chain_ok_def list_all_iff)
  then have "request_field q ''deploymentId'' = PStr (receipt_deployment q)"
    by (auto simp: accepted_receipt_def request_field_def receipt_deployment_def)
  with assms(3) q show "kr_deployment r \<noteq> d" by (auto simp: list_ex_iff)
qed

lemma reservation_recorded:
  assumes "kd_transaction db" "schema_present (kd_master db) = Inr True"
    and "validate_policy pv = Inr policy" "validate_request rv = Inr request" "same_binding request policy"
    and "dict_get policy ''accountFingerprint'' = PStr account" "krw_inspect db account = Inr pool"
    and "case pool of None \<Rightarrow> True | Some b \<Rightarrow> canon (PDict (kb_policy b)) = canon (PDict policy)"
    and "krw_money (dict_get request ''requestedKrw'') = Inr amount" "krw_money (dict_get policy ''capKrw'') = Inr cap"
    and "pool_reserved pool + amount \<le> cap" "length (pool_receipts pool) < max_reservations"
    and "sum_list (map (tc_bytes \<circ> kr_payload) (account_rows db account)) + 8192 \<le> max_record_bytes"
    and "\<forall>r \<in> set (kd_reservations db). PStr (kr_id r) \<noteq> dict_get request ''reservationId''"
    and "\<forall>r \<in> set (pool_receipts pool). request_field r ''deploymentId'' \<noteq> dict_get request ''deploymentId''"
  shows "\<exists>db' x. reserve_in_transaction db pv rv = Inr (db', x) \<and> \<not> kx_idempotent x \<and> kd_transaction db'
    \<and> krw_inspect db' account = Inr (Some (kx_pool x)) \<and> kb_reserved (kx_pool x) = pool_reserved pool + amount"
proof -
  obtain c n where valid: "valid_policy policy c" "valid_request request n"
    using validate_policy_Inr [OF assms(3)] validate_request_Inr [OF assms(4)] by blast
  have cap: "c = cap" "n = amount" "0 < amount" using valid assms(9,10) by (auto simp: valid_policy_def valid_request_def)
  obtain i d where id: "dict_get request ''reservationId'' = PStr i" "dict_get request ''deploymentId'' = PStr d"
    using valid(2) unfolding valid_request_def bounded_id_def by (auto split: pyval.splits)
  from pool_before_append [OF assms(7,2) valid(1) assms(6,8)] obtain db1 p sp s where
    db1: "(if pool = None then insert_pool db account policy else Inr db) = Inr db1"
      "pool_ready db1 account p sp cap" "canon (PDict sp) = canon (PDict policy)"
      "res_fold (scan_reservation account sp cap) scan_start (account_rows db1 account) = Inr s"
    and s: "ks_reserved s = pool_reserved pool" "ks_previous s = pool_head pool"
      "ks_records s = pool_receipts pool"
    and same: "kd_reservations db1 = kd_reservations db" "kd_master db1 = kd_master db" "0 \<le> ks_reserved s"
      "kd_transaction db1 = kd_transaction db"
    unfolding cap(1) by blast
  have rows: "account_rows db1 account = account_rows db account" by (simp add: account_rows_def same(1))
  have account: "is_sha (PStr account)" using valid(1) assms(6) by (auto simp: valid_policy_def)
  let ?row = "new_row policy request account (int (length (ks_records s)) + 1) (ks_previous s) (ks_reserved s)
      (ks_reserved s + amount)"
  have ok: "chain_ok account sp cap s"
    by (rule fold_chain_ok [OF db1(4)]) (use assms(11) same(3) s(1) cap(3) in simp)
  have deployments: "\<forall>r \<in> set (account_rows db1 account). kr_deployment r \<noteq> d"
    by (rule fresh_deployment_rows [OF ok]) (use scanned_rows [OF db1(4)] assms(15) s(3) id(2) in \<open>auto simp: list_ex_iff\<close>)
  have "insert_reservation db1 account (py_str (dict_get policy ''policyHash'')) (ks_previous s) ?row
      = Inr (db1\<lparr>kd_reservations := kd_reservations db1 @ [?row]\<rparr>)
    \<and> (\<exists>b. krw_inspect (db1\<lparr>kd_reservations := kd_reservations db1 @ [?row]\<rparr>) account = Inr (Some b)
          \<and> kb_head b = Some (kr_hash ?row) \<and> kb_reserved b = ks_reserved s + amount)"
  proof (rule insertion_succeeds [OF db1(2,3) _ _ assms(5) account _ db1(4)])
    show "length (account_rows db1 account) < max_reservations" using scanned_rows [OF db1(4)] s(3) assms(12) by simp
    show "ks_reserved s + amount \<le> cap" using s(1) assms(11) by simp
  qed (use valid cap assms(2,13,14) same rows deployments id in auto)
  then obtain b where ins: "insert_reservation db1 account (py_str (dict_get policy ''policyHash'')) (pool_head pool) ?row
      = Inr (db1\<lparr>kd_reservations := kd_reservations db1 @ [?row]\<rparr>)"
    and b: "krw_inspect (db1\<lparr>kd_reservations := kd_reservations db1 @ [?row]\<rparr>) account = Inr (Some b)"
      "kb_head b = Some (kr_hash ?row)" "kb_reserved b = pool_reserved pool + amount"
    using s(1,2) by auto
  let ?draft = "new_receipt policy request account (int (length (pool_receipts pool)) + 1) (pool_head pool)
     (pool_reserved pool) (pool_reserved pool + amount)"
  have hash: "canonical_hash (PDict ?draft) = Inr (seal (PDict ?draft))"
    using plain_strict [OF new_receipt_plain [OF valid]] by (simp add: canonical_hash_def)
  have row: "?row = \<lparr>kr_id = py_str (dict_get request ''reservationId''), kr_account = account,
            kr_deployment = py_str (dict_get request ''deploymentId''), kr_sequence = int (length (pool_receipts pool)) + 1,
            kr_payload = stored_json (PDict (?draft @ [(''contentHash'', PStr (seal (PDict ?draft)))])),
            kr_hash = seal (PDict ?draft)\<rparr>"
    by (simp add: new_row_def sealed_draft_def Let_def s)
  have app: "append_reservation db account pool policy request (pool_reserved pool + amount)
     = Inr (db1\<lparr>kd_reservations := kd_reservations db1 @ [?row]\<rparr>,
            \<lparr>kx_idempotent = False, kx_receipt = ?draft @ [(''contentHash'', PStr (seal (PDict ?draft)))], kx_pool = b\<rparr>)"
    unfolding append_reservation_def Let_def db1(1) hash res_bind_Inr ins [unfolded row] b(1) [unfolded row]
    using b(2,3) by (simp add: row)
  have "find (\<lambda>r. PStr (kr_id r) = dict_get request ''reservationId'') (kd_reservations db) = None"
    using assms(14) by (simp add: find_None_iff)
  moreover have "\<not> list_ex (\<lambda>item. request_field item ''deploymentId'' = dict_get request ''deploymentId'') (pool_receipts pool)"
    using assms(15) by (simp add: list_ex_iff)
  moreover have "amount \<le> cap" using assms(11) same(3) s(1) by simp
  moreover have "py_str (dict_get policy ''accountFingerprint'') = account" by (simp add: assms(6))
  ultimately have "reserve_in_transaction db pv rv = append_reservation db account pool policy request (pool_reserved pool + amount)"
    unfolding reserve_in_transaction_def in_transaction_def Let_def assms(3,4,9,10) res_bind_Inr assms(2)
    using assms(1,5,7,8,11) by simp
  with app b(1,3) same(4) assms(1) show ?thesis by (intro exI conjI) (assumption | simp)+
qed

end
