(* ===== verification/Krw_Demo.thy ===== *)
theory Krw_Demo
  imports Krw_Liveness
begin

section \<open>Shared KRW budget: a small pool\<close>

text \<open>
  A database with the module's schema, a policy of 1,000 won and two requests of 400 won each, the
  concrete inputs at which the theorems about reservations are exercised. Digests are not computed.
\<close>

definition demo_master :: "master_row list" where
  "demo_master =
     map (\<lambda>(name, sql). \<lparr>sm_kind = ''table'', sm_name = name, sm_table = name, sm_sql = Some sql\<rparr>) krw_ddl
     @ map (\<lambda>(name, table, sql). \<lparr>sm_kind = ''trigger'', sm_name = name, sm_table = table, sm_sql = Some sql\<rparr>) krw_triggers"

definition krw_empty :: krw_db where
  "krw_empty = \<lparr>kd_transaction = True, kd_master = demo_master, kd_pools = [], kd_reservations = []\<rparr>"

definition hex_id :: "char \<Rightarrow> pyval" where "hex_id c = PStr (replicate 64 c)"

definition demo_policy_base :: pydict where
  "demo_policy_base =
     [(''schemaVersion'', PStr krw_policy_schema), (''accountFingerprint'', hex_id CHR ''a''),
      (''accountProfileId'', hex_id CHR ''b''), (''credentialConfigurationHash'', hex_id CHR ''c''),
      (''capKrw'', PStr ''1000''), (''reviewBindingHash'', hex_id CHR ''d'')]"

definition demo_krw_policy :: pydict where
  "demo_krw_policy = demo_policy_base @ [(''policyHash'', PStr (seal (PDict demo_policy_base)))]"

definition demo_request_base :: "string \<Rightarrow> string \<Rightarrow> pydict" where
  "demo_request_base rid deployment =
     [(''schemaVersion'', PStr krw_request_schema), (''reservationId'', PStr rid), (''deploymentId'', PStr deployment),
      (''scopeHash'', hex_id CHR ''e''), (''accountFingerprint'', hex_id CHR ''a''),
      (''accountProfileId'', hex_id CHR ''b''), (''credentialConfigurationHash'', hex_id CHR ''c''),
      (''requestedKrw'', PStr ''400''), (''basisHash'', hex_id CHR ''f''), (''nativeCurrency'', PStr ''KRW''),
      (''policyHash'', PStr (seal (PDict demo_policy_base)))]"

definition demo_krw_request :: "string \<Rightarrow> string \<Rightarrow> pydict" where
  "demo_krw_request rid deployment =
     demo_request_base rid deployment @ [(''requestHash'', PStr (seal (PDict (demo_request_base rid deployment))))]"

lemma normal_as_same [simp]: "normal_as (Some s) (Some s)"
  by (simp add: normal_as_def)

lemma krw_names: "distinct (map fst krw_ddl)" "distinct (map fst krw_triggers)"
  "map fst krw_ddl = [pool_table, reservation_table]" "length krw_ddl = 2"
  "list_all (\<lambda>t. fst t \<notin> {pool_table, reservation_table} \<and> fst (snd t) \<in> {pool_table, reservation_table}) krw_triggers"
  by (simp_all add: krw_ddl_def krw_triggers_def guard_trigger_def pool_table_def reservation_table_def)

lemma demo_schema: "schema_present demo_master = Inr True"
proof -
  let ?tables = "map (\<lambda>(name, sql). \<lparr>sm_kind = ''table'', sm_name = name, sm_table = name, sm_sql = Some sql\<rparr>) krw_ddl"
  let ?triggers = "map (\<lambda>(name, table, sql). \<lparr>sm_kind = ''trigger'', sm_name = name, sm_table = table, sm_sql = Some sql\<rparr>) krw_triggers"
  have mem: "fst e \<in> {pool_table, reservation_table}" if "e \<in> set krw_ddl" for e
    using that arg_cong [OF krw_names(3), of set] by auto
  have rows: "filter (\<lambda>r. sm_name r \<in> {pool_table, reservation_table}) demo_master = ?tables"
    using krw_names(5) mem unfolding demo_master_def filter_append
    by (subst filter_True, force, subst filter_False) (auto simp: list_all_iff)
  have triggers: "filter (\<lambda>r. sm_kind r = ''trigger'' \<and> sm_table r \<in> {pool_table, reservation_table}) demo_master = ?triggers"
    using krw_names(5) unfolding demo_master_def filter_append
    by (subst filter_False, force, subst filter_True) (auto simp: list_all_iff)
  have "list_all (\<lambda>r. sm_kind r = ''table'' \<and> normal_as (sm_sql r) (map_of krw_ddl (sm_name r))) ?tables"
    using krw_names(1) by (auto simp: list_all_iff)
  moreover have "list_all (\<lambda>r. normal_as (sm_sql r) (map_option snd (map_of krw_triggers (sm_name r)))) ?triggers"
    using krw_names(2) by (auto simp: list_all_iff)
  moreover have "set (map sm_name ?triggers) = set (map fst krw_triggers)" by force
  ultimately show ?thesis
    unfolding schema_present_def Let_def rows triggers using krw_names(4) by (auto simp: krw_ddl_def)
qed

lemma hex_id_sha: "is_hex_digit c \<Longrightarrow> is_sha (hex_id c)"
  by (simp add: hex_id_def is_sha_def sha_pattern_def list_all_iff)

lemma hex_ids: "is_sha (hex_id CHR ''a'')" "is_sha (hex_id CHR ''b'')" "is_sha (hex_id CHR ''c'')"
  "is_sha (hex_id CHR ''d'')" "is_sha (hex_id CHR ''e'')" "is_sha (hex_id CHR ''f'')"
  by (rule hex_id_sha; simp add: is_hex_digit_def)+

lemma demo_money: "krw_money (PStr ''1000'') = Inr 1000" "krw_money (PStr ''400'') = Inr 400"
  by code_simp+

lemma demo_seal: "is_sha (PStr (seal v))"
  by (simp add: is_sha_def seal_def sha256_hex_pattern)

lemma demo_policy_keys:
  "has_keys demo_krw_policy policy_keys" "without ''policyHash'' demo_krw_policy = demo_policy_base"
  by (simp_all add: demo_krw_policy_def demo_policy_base_def has_keys_def policy_keys_def without_def insert_commute)

lemma demo_policy_fields:
  "dict_get demo_krw_policy ''schemaVersion'' = PStr krw_policy_schema"
  "dict_get demo_krw_policy ''accountFingerprint'' = hex_id CHR ''a''"
  "dict_get demo_krw_policy ''accountProfileId'' = hex_id CHR ''b''"
  "dict_get demo_krw_policy ''credentialConfigurationHash'' = hex_id CHR ''c''"
  "dict_get demo_krw_policy ''capKrw'' = PStr ''1000''"
  "dict_get demo_krw_policy ''reviewBindingHash'' = hex_id CHR ''d''"
  "dict_get demo_krw_policy ''policyHash'' = PStr (seal (PDict demo_policy_base))"
  by (simp_all add: demo_krw_policy_def demo_policy_base_def)

lemma demo_policy_valid: "valid_policy demo_krw_policy 1000"
  unfolding valid_policy_def demo_policy_keys(2) list.pred_inject demo_policy_fields
  by (simp add: demo_policy_keys(1) hex_ids demo_money demo_seal)

lemma demo_request_keys:
  "has_keys (demo_krw_request rid deployment) request_keys"
  "without ''requestHash'' (demo_krw_request rid deployment) = demo_request_base rid deployment"
  by (auto simp: demo_krw_request_def demo_request_base_def has_keys_def request_keys_def without_def)

lemma demo_request_fields:
  "dict_get (demo_krw_request rid deployment) ''schemaVersion'' = PStr krw_request_schema"
  "dict_get (demo_krw_request rid deployment) ''reservationId'' = PStr rid"
  "dict_get (demo_krw_request rid deployment) ''deploymentId'' = PStr deployment"
  "dict_get (demo_krw_request rid deployment) ''scopeHash'' = hex_id CHR ''e''"
  "dict_get (demo_krw_request rid deployment) ''accountFingerprint'' = hex_id CHR ''a''"
  "dict_get (demo_krw_request rid deployment) ''accountProfileId'' = hex_id CHR ''b''"
  "dict_get (demo_krw_request rid deployment) ''credentialConfigurationHash'' = hex_id CHR ''c''"
  "dict_get (demo_krw_request rid deployment) ''requestedKrw'' = PStr ''400''"
  "dict_get (demo_krw_request rid deployment) ''basisHash'' = hex_id CHR ''f''"
  "dict_get (demo_krw_request rid deployment) ''nativeCurrency'' = PStr ''KRW''"
  "dict_get (demo_krw_request rid deployment) ''policyHash'' = PStr (seal (PDict demo_policy_base))"
  "dict_get (demo_krw_request rid deployment) ''requestHash'' = PStr (seal (PDict (demo_request_base rid deployment)))"
  by (simp_all add: demo_krw_request_def demo_request_base_def)

lemma demo_request_valid:
  assumes "bounded_id (PStr rid)" "bounded_id (PStr deployment)"
  shows "valid_request (demo_krw_request rid deployment) 400"
  unfolding valid_request_def demo_request_keys(2) list.pred_inject demo_request_fields
  using assms by (simp add: demo_request_keys(1) hex_ids demo_money demo_seal native_currencies_def)

lemma demo_binding: "same_binding (demo_krw_request rid deployment) demo_krw_policy"
  by (simp add: same_binding_def binding_keys_def demo_request_fields demo_policy_fields)

abbreviation demo_krw_account :: string where "demo_krw_account \<equiv> replicate 64 (CHR ''a'')"

lemma demo_krw_ids: "bounded_id (PStr ''first'')" "bounded_id (PStr ''second'')" "bounded_id (PStr ''alpha'')" "bounded_id (PStr ''beta'')"
  by code_simp+

lemma krw_empty_inspected: "krw_inspect krw_empty demo_krw_account = Inr None"
  unfolding krw_inspect_def krw_empty_def krw_db.simps demo_schema by (simp add: account_rows_def)

lemma demo_reserved:
  "\<exists>db x. reserve_in_transaction krw_empty (PDict demo_krw_policy) (PDict (demo_krw_request ''first'' ''alpha'')) = Inr (db, x)
     \<and> \<not> kx_idempotent x \<and> kd_transaction db \<and> krw_inspect db demo_krw_account = Inr (Some (kx_pool x))
     \<and> kb_receipts (kx_pool x) = [canon_entries (kx_receipt x)] \<and> kb_reserved (kx_pool x) = 400"
proof -
  have valid: "validate_policy (PDict demo_krw_policy) = Inr demo_krw_policy"
    "validate_request (PDict (demo_krw_request ''first'' ''alpha'')) = Inr (demo_krw_request ''first'' ''alpha'')"
    by (rule valid_policy_accepted [OF demo_policy_valid])
      (rule valid_request_accepted [OF demo_request_valid [OF demo_krw_ids(1,3)]])
  have "\<exists>db x. reserve_in_transaction krw_empty (PDict demo_krw_policy) (PDict (demo_krw_request ''first'' ''alpha'')) = Inr (db, x)
      \<and> \<not> kx_idempotent x \<and> kd_transaction db
      \<and> krw_inspect db demo_krw_account = Inr (Some (kx_pool x)) \<and> kb_reserved (kx_pool x) = pool_reserved None + 400"
    by (rule reservation_recorded [OF _ _ valid demo_binding _ krw_empty_inspected, where cap = 1000])
      (simp_all add: krw_empty_def demo_schema demo_request_fields demo_policy_fields demo_money hex_id_def
        pool_reserved_def pool_receipts_def account_rows_def max_reservations_def max_record_bytes_def)
  then obtain db x where x: "reserve_in_transaction krw_empty (PDict demo_krw_policy) (PDict (demo_krw_request ''first'' ''alpha'')) = Inr (db, x)"
    "\<not> kx_idempotent x" "kd_transaction db" "krw_inspect db demo_krw_account = Inr (Some (kx_pool x))"
    "kb_reserved (kx_pool x) = 400" by (auto simp: pool_reserved_def)
  from x(1) have "kb_receipts (kx_pool x) = [canon_entries (kx_receipt x)]"
  proof (cases rule: reserve_cases)
    case 1
    with x(2) show ?thesis by blast
  next
    case (2 policy request amount pool b row)
    then have "pool = None" using valid(1) krw_empty_inspected by (simp add: demo_policy_fields hex_id_def)
    with 2 show ?thesis by (simp add: pool_receipts_def)
  qed
  with x show ?thesis by blast
qed

end
