(* ===== verification/Krw_Budget.thy ===== *)
theory Krw_Budget
  imports Krw_Demo
begin

section \<open>Shared KRW budget: the properties\<close>

text \<open>
  What the module promises its callers, each with a concrete instance on the small pool: the cap holds,
  a reservation allocates once and can be repeated, a fitting reservation succeeds, and the head digest
  commits to the whole budget.
\<close>

text \<open>
  C19: The reviewed cap holds. Whenever the module reports a pool for an account, whatever the
  database contains, the reserved amount is the sum of the recorded requests, every one of them
  positive, it lies between zero and the positive reviewed cap, no reservation and no deployment
  occurs twice, and at most 10,000 reservations exist.
\<close>

theorem krw_cap_holds:
  assumes "inspect_in_transaction db account = Inr (Some b)"
  shows "kb_reserved b = sum_list (map receipt_amount (kb_receipts b))
    \<and> list_all (\<lambda>r. 0 < receipt_amount r) (kb_receipts b)
    \<and> 0 \<le> kb_reserved b \<and> kb_reserved b \<le> kb_cap b \<and> 0 < kb_cap b
    \<and> distinct (map receipt_id (kb_receipts b)) \<and> distinct (map receipt_deployment (kb_receipts b))
    \<and> length (kb_receipts b) \<le> 10000"
proof -
  from assms have "krw_inspect db (py_str account) = Inr (Some b)"
    by (auto simp: inspect_in_transaction_def)
  then have acc: "accepted_pool (py_str account) b" by (rule inspect_accepted)
  then have "list_all (\<lambda>r. 0 < receipt_amount r) (kb_receipts b)"
    unfolding accepted_pool_def list_all_iff using accepted_fields(3) by blast
  with acc show ?thesis by (simp add: accepted_pool_def valid_policy_def max_reservations_def)
qed

theorem krw_cap_holds_witness:
  "\<exists>db b. inspect_in_transaction db (PStr demo_krw_account) = Inr (Some b) \<and> kb_reserved b = 400
     \<and> sum_list (map receipt_amount (kb_receipts b)) = 400"
proof -
  obtain db :: krw_db and x :: krw_result where x: "kd_transaction db" "krw_inspect db demo_krw_account = Inr (Some (kx_pool x))"
    "kb_reserved (kx_pool x) = 400" using demo_reserved by blast
  then have "inspect_in_transaction db (PStr demo_krw_account) = Inr (Some (kx_pool x))"
    using hex_ids(1) by (simp add: inspect_in_transaction_def in_transaction_def hex_id_def)
  with krw_cap_holds [OF this] x(3) show ?thesis by metis
qed

text \<open>
  A reservation allocates exactly once. A successful call either replays a recorded receipt of the
  very same request and changes nothing, or appends one receipt to the account's chain, raising the
  reserved total by the requested amount and staying within the cap; every other account reads as
  before.
\<close>

theorem krw_reserve_effect:
  assumes "reserve_in_transaction db pv rv = Inr (db', x)"
  shows "\<exists>account pool amount. krw_inspect db account = Inr pool \<and> krw_inspect db' account = Inr (Some (kx_pool x))
    \<and> kb_reserved (kx_pool x) \<le> kb_cap (kx_pool x)
    \<and> (if kx_idempotent x then db' = db \<and> pool = Some (kx_pool x) \<and> kx_receipt x \<in> set (kb_receipts (kx_pool x))
        else 0 < amount \<and> kb_reserved (kx_pool x) = pool_reserved pool + amount
          \<and> kb_receipts (kx_pool x) = pool_receipts pool @ [canon_entries (kx_receipt x)]
          \<and> (\<exists>row. kd_reservations db' = kd_reservations db @ [row])
          \<and> (\<forall>other. other = account \<or> krw_inspect db' other = krw_inspect db other))"
  using assms
proof (cases rule: reserve_cases)
  case (1 policy request b)
  from inspect_cap [OF 1(4)] 1(3-7) show ?thesis by auto
next
  case (2 policy request amount pool b row)
  have "0 < amount" using validate_request_Inr [OF 2(2)] 2(3) by (auto simp: valid_request_def)
  moreover note inspect_cap [OF 2(5)]
  moreover have "krw_inspect db' other = krw_inspect db other"
    if "other \<noteq> py_str (dict_get policy ''accountFingerprint'')" for other
    by (rule same_account_inspect [OF 2(11) [OF that]])
  ultimately show ?thesis
    using 2(4-10,13)
    by (intro exI [of _ "py_str (dict_get policy ''accountFingerprint'')"] exI [of _ pool] exI [of _ amount]) auto
qed

theorem krw_reserve_effect_witness:
  "\<exists>db x. reserve_in_transaction krw_empty (PDict demo_krw_policy) (PDict (demo_krw_request ''first'' ''alpha'')) = Inr (db, x)
     \<and> \<not> kx_idempotent x \<and> kb_reserved (kx_pool x) \<le> kb_cap (kx_pool x)"
proof -
  obtain db :: krw_db and x :: krw_result where "reserve_in_transaction krw_empty (PDict demo_krw_policy) (PDict (demo_krw_request ''first'' ''alpha'')) = Inr (db, x)"
    "\<not> kx_idempotent x" using demo_reserved by blast
  with krw_reserve_effect [OF this(1)] show ?thesis by blast
qed

text \<open>
  A reservation can be repeated safely. Once a reservation succeeded, repeating the very same call
  in any later transaction, whatever other reservations were made in between, succeeds, returns the
  recorded receipt and changes nothing: money is never allocated twice for one request.
\<close>

theorem krw_reserve_replays:
  assumes "reserve_in_transaction db pv rv = Inr (db1, x)" "krw_step\<^sup>*\<^sup>* db1 db2" "kd_transaction db2"
  shows "\<exists>b. reserve_in_transaction db2 pv rv
    = Inr (db2, \<lparr>kx_idempotent = True, kx_receipt = (if kx_idempotent x then kx_receipt x else canon_entries (kx_receipt x)),
                kx_pool = b\<rparr>)"
proof -
  let ?receipt = "if kx_idempotent x then kx_receipt x else canon_entries (kx_receipt x)"
  from reserve_checked [OF assms(1)] obtain policy request amount cap where
    c: "validate_policy pv = Inr policy" "validate_request rv = Inr request" "same_binding request policy"
    "krw_money (dict_get request ''requestedKrw'') = Inr amount" "krw_money (dict_get policy ''capKrw'') = Inr cap" "amount \<le> cap" .
  let ?account = "py_str (dict_get policy ''accountFingerprint'')"
  have "krw_recorded db1 ?account policy request ?receipt"
    using assms(1)
  proof (cases rule: reserve_cases)
    case (1 policy' request' b)
    then have same: "policy' = policy" "request' = request" using c by simp_all
    show ?thesis
      unfolding krw_recorded_def
    proof (intro conjI exI [of _ b])
      show "krw_inspect db1 ?account = Inr (Some b)" using 1(3,4) same by simp
      then show "schema_present (kd_master db1) = Inr True" by (rule recorded_inspect)
    qed (use 1 same in auto)
  next
    case (2 policy' request' amount' pool b row)
    then have same: "policy' = policy" "request' = request" using c by simp_all
    show ?thesis
      unfolding krw_recorded_def
    proof (intro conjI exI [of _ b])
      show "krw_inspect db1 ?account = Inr (Some b)" using 2(5) same by simp
      then show "schema_present (kd_master db1) = Inr True" by (rule recorded_inspect)
      show "?receipt \<in> set (kb_receipts b)" using 2(7,8) by simp
      show "canon (dict_get ?receipt ''request'') = canon (PDict request)" using 2(7,10) same by simp
    qed (use 2(12,16) same in auto)
  qed
  from recorded_replays [OF steps_recorded [OF assms(2) this] assms(3) c(1-3) refl c(4-6)] show ?thesis .
qed

theorem krw_reserve_replays_witness:
  "\<exists>db x b. reserve_in_transaction krw_empty (PDict demo_krw_policy) (PDict (demo_krw_request ''first'' ''alpha'')) = Inr (db, x)
     \<and> reserve_in_transaction db (PDict demo_krw_policy) (PDict (demo_krw_request ''first'' ''alpha''))
         = Inr (db, \<lparr>kx_idempotent = True, kx_receipt = canon_entries (kx_receipt x), kx_pool = b\<rparr>)"
proof -
  obtain db :: krw_db and x :: krw_result where "reserve_in_transaction krw_empty (PDict demo_krw_policy) (PDict (demo_krw_request ''first'' ''alpha'')) = Inr (db, x)"
    "\<not> kx_idempotent x" "kd_transaction db" using demo_reserved by blast
  with krw_reserve_replays [OF this(1) rtranclp.rtrancl_refl this(3)] show ?thesis by auto
qed

text \<open>
  C20: A reservation within the cap succeeds. Where the module reports an account's budget on a
  database with its schema, a valid request bound to the account's policy, with a fresh reservation id
  and a fresh deployment, that fits in what is left of the cap, of the 10,000 reservations and of the
  byte bound, is recorded: the call returns, it is not a replay, and the account then reports the new
  reserved total.
\<close>

theorem krw_reservation_succeeds:
  assumes "inspect_in_transaction db (PStr account) = Inr pool" "schema_present (kd_master db) = Inr True"
    and "validate_policy pv = Inr policy" "validate_request rv = Inr request" "same_binding request policy"
    and "dict_get policy ''accountFingerprint'' = PStr account"
    and "case pool of None \<Rightarrow> True | Some b \<Rightarrow> canon (PDict (kb_policy b)) = canon (PDict policy)"
    and "krw_money (dict_get request ''requestedKrw'') = Inr amount" "krw_money (dict_get policy ''capKrw'') = Inr cap"
    and "pool_reserved pool + amount \<le> cap" "length (pool_receipts pool) < max_reservations"
    and "sum_list (map (tc_bytes \<circ> kr_payload) (account_rows db account)) + 8192 \<le> max_record_bytes"
    and "\<forall>r \<in> set (kd_reservations db). PStr (kr_id r) \<noteq> dict_get request ''reservationId''"
    and "\<forall>r \<in> set (pool_receipts pool). request_field r ''deploymentId'' \<noteq> dict_get request ''deploymentId''"
  shows "\<exists>db' x. reserve_in_transaction db pv rv = Inr (db', x) \<and> \<not> kx_idempotent x
    \<and> inspect_in_transaction db' (PStr account) = Inr (Some (kx_pool x))
    \<and> kb_reserved (kx_pool x) = pool_reserved pool + amount"
proof -
  have i: "is_sha (PStr account)" "kd_transaction db" "krw_inspect db account = Inr pool"
    using assms(1) by (auto simp: inspect_in_transaction_def in_transaction_def)
  from reservation_recorded [OF i(2) assms(2-6) i(3) assms(7-14)] i(1) show ?thesis
    by (auto simp: inspect_in_transaction_def in_transaction_def)
qed

theorem krw_reservation_succeeds_witness:
  "\<exists>db x. reserve_in_transaction krw_empty (PDict demo_krw_policy) (PDict (demo_krw_request ''first'' ''alpha'')) = Inr (db, x)
     \<and> kb_reserved (kx_pool x) = 400"
proof -
  have "\<exists>db x. reserve_in_transaction krw_empty (PDict demo_krw_policy) (PDict (demo_krw_request ''first'' ''alpha'')) = Inr (db, x) \<and> \<not> kx_idempotent x
    \<and> inspect_in_transaction db (PStr demo_krw_account) = Inr (Some (kx_pool x))
    \<and> kb_reserved (kx_pool x) = pool_reserved None + 400"
  proof (rule krw_reservation_succeeds [OF _ _ valid_policy_accepted [OF demo_policy_valid]
      valid_request_accepted [OF demo_request_valid [OF demo_krw_ids(1,3)]] demo_binding, where cap = 1000])
    show "inspect_in_transaction krw_empty (PStr demo_krw_account) = Inr None"
      using hex_ids(1) krw_empty_inspected by (simp add: inspect_in_transaction_def in_transaction_def hex_id_def krw_empty_def)
  qed (simp_all add: krw_empty_def demo_schema demo_request_fields demo_policy_fields demo_money hex_id_def
        pool_reserved_def pool_receipts_def account_rows_def max_reservations_def max_record_bytes_def)
  then show ?thesis by (auto simp: pool_reserved_def)
qed

text \<open>
  The head digest commits to the whole budget. If two databases both pass the module's reading of
  an account and report the same head receipt hash, they hold the same receipts, up to key order, and
  so the same reserved total, unless SHA-256 collides on the sealed texts.
\<close>

theorem krw_head_commits:
  assumes "inspect_in_transaction db account = Inr (Some a)" "inspect_in_transaction db' account = Inr (Some b)"
    and "kb_head a = kb_head b"
    and "inj_on sha256_hex (receipt_log.messages None (kb_receipts a) \<union> receipt_log.messages None (kb_receipts b))"
  shows "map receipt_content (kb_receipts a) = map receipt_content (kb_receipts b)
    \<and> kb_reserved a = kb_reserved b"
proof -
  have "krw_inspect db (py_str account) = Inr (Some a)" "krw_inspect db' (py_str account) = Inr (Some b)"
    using assms(1,2) by (auto simp: inspect_in_transaction_def)
  then have acc: "accepted_pool (py_str account) a" "accepted_pool (py_str account) b"
    by (blast intro: inspect_accepted)+
  have same: "map receipt_content (kb_receipts a) = map receipt_content (kb_receipts b)"
  proof (rule receipt_log.head_determines)
    show "\<forall>r \<in> set (kb_receipts a) \<union> set (kb_receipts b). sealed_receipt r"
      using acc accepted_sealed unfolding accepted_pool_def list_all_iff by blast
    show "inj_on receipt_hash (receipt_log.messages None (kb_receipts a) \<union> receipt_log.messages None (kb_receipts b))"
      using assms(4) by (simp add: inj_on_def)
  qed (use acc assms(3) in \<open>auto simp: accepted_pool_def\<close>)
  have amounts: "receipt_amount r = receipt_amount s"
    if "r \<in> set (kb_receipts a)" "s \<in> set (kb_receipts b)" "receipt_content r = receipt_content s" for r s
    using acc that receipt_content_amount unfolding accepted_pool_def list_all_iff by blast
  from map_eq_through [OF same, of receipt_amount] amounts
  have "map receipt_amount (kb_receipts a) = map receipt_amount (kb_receipts b)" by blast
  with same acc show ?thesis by (simp add: accepted_pool_def)
qed

theorem krw_head_commits_witness:
  "\<exists>db a b. inspect_in_transaction db (PStr demo_krw_account) = Inr (Some a) \<and> kb_reserved a = 400
     \<and> inspect_in_transaction (db\<lparr>kd_pools := kd_pools db @ kd_pools db\<rparr>) (PStr demo_krw_account) = Inr (Some b)
     \<and> kb_reserved b = 400"
proof -
  obtain db :: krw_db and x :: krw_result where x: "kd_transaction db" "krw_inspect db demo_krw_account = Inr (Some (kx_pool x))"
    "kb_receipts (kx_pool x) = [canon_entries (kx_receipt x)]" "kb_reserved (kx_pool x) = 400" using demo_reserved by blast
  let ?db = "db\<lparr>kd_pools := kd_pools db @ kd_pools db\<rparr>"
  have "\<exists>p. find (\<lambda>p. kp_account p = demo_krw_account) (kd_pools db) = Some p"
    by (rule krw_inspect_Some [OF x(2)]) (rule exI)
  then have "same_account db ?db demo_krw_account"
    by (auto simp: same_account_def account_rows_def find_append)
  with x(1,2) hex_ids(1) have i: "inspect_in_transaction db (PStr demo_krw_account) = Inr (Some (kx_pool x))"
    "inspect_in_transaction ?db (PStr demo_krw_account) = Inr (Some (kx_pool x))"
    by (simp_all add: inspect_in_transaction_def in_transaction_def hex_id_def same_account_inspect)
  have "kb_reserved (kx_pool x) = kb_reserved (kx_pool x)"
    using krw_head_commits [OF i refl] x(3) by simp
  with i x(4) show ?thesis by blast
qed

end
