(* ===== verification/Py_Compare.thy ===== *)
theory Py_Compare
  imports Py_Decimal
begin

section \<open>Comparing decoded values\<close>

text \<open>
  Python's \<open>==\<close> on decoded values: numbers compare by value, dicts without their order. NaN, which
  equals nothing, is left out.
\<close>

fun same_number :: "pyval \<Rightarrow> pyval"
  and same_numbers :: "pyval list \<Rightarrow> pyval list"
  and same_entries :: "pydict \<Rightarrow> pydict" where
  "same_number (PBool b) = PInt (if b then 1 else 0)"
| "same_number (PFloat r) =
     (case dec_parse r of Some q \<Rightarrow> if q = of_int \<lfloor>q\<rfloor> then PInt \<lfloor>q\<rfloor> else PFloat r | None \<Rightarrow> PFloat r)"
| "same_number (PList xs) = PList (same_numbers xs)"
| "same_number (PDict d) = PDict (same_entries d)"
| "same_number v = v"
| "same_numbers [] = []"
| "same_numbers (x # xs) = same_number x # same_numbers xs"
| "same_entries [] = []"
| "same_entries ((k, v) # d) = (k, same_number v) # same_entries d"

definition py_eq :: "pyval \<Rightarrow> pyval \<Rightarrow> bool" where
  "py_eq v w \<longleftrightarrow> same_number (canon v) = same_number (canon w)"

lemma py_eq_refl [simp]: "py_eq v v"
  by (simp add: py_eq_def)

lemma py_eq_sym: "py_eq v w \<Longrightarrow> py_eq w v"
  by (simp add: py_eq_def)

lemma py_eq_trans [trans]: "py_eq u v \<Longrightarrow> py_eq v w \<Longrightarrow> py_eq u w"
  by (simp add: py_eq_def)

text \<open>What equals a text is that text.\<close>

lemma py_eq_text [simp]: "py_eq v (PStr s) \<longleftrightarrow> v = PStr s" "py_eq (PStr s) v \<longleftrightarrow> v = PStr s"
  by (cases v; auto simp: py_eq_def split: option.splits)+

lemma py_eq_none [simp]: "py_eq v PNone \<longleftrightarrow> v = PNone" "py_eq PNone v \<longleftrightarrow> v = PNone"
  by (cases v; auto simp: py_eq_def split: option.splits)+

text \<open>\<open>a or b\<close> of conditions that may raise: evaluated from left to right until one holds.\<close>

fun any_of :: "(unit \<Rightarrow> bool res) list \<Rightarrow> bool res" where
  "any_of [] = Inr False"
| "any_of (c # cs) = res_bind (c ()) (\<lambda>b. if b then Inr True else any_of cs)"

lemma any_of_False: "any_of cs = Inr False \<longleftrightarrow> list_all (\<lambda>c. c () = Inr False) cs"
  by (induction cs) (auto simp: res_bind_eq_Inr)

text \<open>\<open>{**d, **e}\<close>\<close>

definition dict_update :: "pydict \<Rightarrow> pydict \<Rightarrow> pydict" where
  "dict_update d e = fold (\<lambda>(k, v). assoc_put k v) e d"

lemma dict_get_put: "dict_get (assoc_put k v d) k' = (if k' = k then v else dict_get d k')"
  by (simp add: dict_get_def)

lemma dict_get_update: "k \<notin> set (map fst e) \<Longrightarrow> dict_get (dict_update d e) k = dict_get d k"
  by (induction e arbitrary: d) (auto simp: dict_update_def dict_get_put)

end
