(* ===== verification/Py_Dec_Text.thy ===== *)
theory Py_Dec_Text
  imports Py_Decimal
begin

section \<open>Decimals with their exponent\<close>

text \<open>
  Where the code writes a \<open>Decimal\<close> through \<open>str\<close> or \<open>format(value, "f")\<close>, the text depends on the
  exponent and on the sign of zero: \<open>pydec\<close> keeps both. The arithmetic is that of the default context.
  The numerical value of every operation is the one of \<open>Py_Decimal\<close> (\<open>value_add\<close>, \<open>value_fix\<close>), and
  \<open>str\<close> is read back exactly (\<open>dec_read_text\<close>).
\<close>

datatype pydec = PyDec (pd_neg: bool) (pd_coeff: nat) (pd_exp: int)

definition signed_coeff :: "pydec \<Rightarrow> int" where
  "signed_coeff a = (if pd_neg a then - int (pd_coeff a) else int (pd_coeff a))"

definition dec_value :: "pydec \<Rightarrow> dec" where
  "dec_value a = of_int (signed_coeff a) * 10 powi pd_exp a"

definition exponent_part :: "string \<Rightarrow> int option" where
  "exponent_part s = (case s of [] \<Rightarrow> Some 0 | _ # t \<Rightarrow> parse_exponent t)"

definition read_body :: "bool \<Rightarrow> string \<Rightarrow> pydec option" where
  "read_body neg body =
     (let mant = takeWhile (\<lambda>c. c \<noteq> CHR ''e'' \<and> c \<noteq> CHR ''E'') body;
          ip = takeWhile (\<lambda>c. c \<noteq> CHR ''.'') mant;
          fp = drop (Suc (length ip)) mant
      in case exponent_part (drop (length mant) body) of
           None \<Rightarrow> None
         | Some e \<Rightarrow>
             if ip @ fp \<noteq> [] \<and> list_all is_digit ip \<and> list_all is_digit fp
             then Some (PyDec neg (digits_val (ip @ fp)) (e - int (length fp))) else None)"

definition dec_read :: "string \<Rightarrow> pydec option" where
  "dec_read text =
     (case filter (\<lambda>c. c \<noteq> CHR ''_'') (strip text) of
        [] \<Rightarrow> None
      | c # cs \<Rightarrow> if c = CHR ''-'' then read_body True cs else if c = CHR ''+'' then read_body False cs
                 else read_body False (c # cs))"

subsection \<open>Arithmetic\<close>

definition pd_fix :: "pydec \<Rightarrow> pydec" where
  "pd_fix a =
     (let n = ndigits (int (pd_coeff a))
      in if n \<le> 28 then a
         else let c = nat (round_half_even (rat_of_nat (pd_coeff a) / 10 ^ (n - 28)))
              in if c = 10 ^ 28 then PyDec (pd_neg a) (10 ^ 27) (pd_exp a + int (n - 28) + 1)
                 else PyDec (pd_neg a) c (pd_exp a + int (n - 28)))"

definition coeff_at :: "int \<Rightarrow> pydec \<Rightarrow> int" where
  "coeff_at e a = signed_coeff a * 10 ^ nat (pd_exp a - e)"

definition pd_add :: "pydec \<Rightarrow> pydec \<Rightarrow> pydec" where
  "pd_add a b =
     (let e = min (pd_exp a) (pd_exp b); s = coeff_at e a + coeff_at e b
      in pd_fix (PyDec (if s = 0 then pd_neg a \<and> pd_neg b else s < 0) (nat \<bar>s\<bar>) e))"

definition pd_flip :: "pydec \<Rightarrow> pydec" where
  "pd_flip a = PyDec (\<not> pd_neg a) (pd_coeff a) (pd_exp a)"

definition pd_sub :: "pydec \<Rightarrow> pydec \<Rightarrow> pydec" where
  "pd_sub a b = pd_add a (pd_flip b)"

definition pd_minus :: "pydec \<Rightarrow> pydec" where
  "pd_minus a = pd_fix (if pd_coeff a = 0 then PyDec False 0 (pd_exp a) else pd_flip a)"

definition pd_zero :: pydec where
  "pd_zero = PyDec False 0 0"

subsection \<open>Texts\<close>

definition signed_text :: "int \<Rightarrow> string" where
  "signed_text i = (if 0 \<le> i then ''+'' else ''-'') @ nat_text (nat \<bar>i\<bar>)"

definition zeros :: "nat \<Rightarrow> string" where
  "zeros n = replicate n (CHR ''0'')"

text \<open>The digits with the point after position \<open>dot\<close>.\<close>

definition place_point :: "int \<Rightarrow> string \<Rightarrow> string" where
  "place_point dot ds =
     (if dot \<le> 0 then ''0.'' @ zeros (nat (- dot)) @ ds
      else if int (length ds) \<le> dot then ds @ zeros (nat dot - length ds)
      else take (nat dot) ds @ ''.'' @ drop (nat dot) ds)"

definition pd_text :: "pydec \<Rightarrow> string" where
  "pd_text a =
     (let ds = nat_text (pd_coeff a); left = pd_exp a + int (length ds);
          dot = (if pd_exp a \<le> 0 \<and> -6 < left then left else 1)
      in (if pd_neg a then ''-'' else []) @ place_point dot ds
         @ (if left = dot then [] else CHR ''E'' # signed_text (left - dot)))"

definition pd_fixed :: "pydec \<Rightarrow> string" where
  "pd_fixed a =
     (let ds = nat_text (pd_coeff a) in (if pd_neg a then ''-'' else [])
        @ (if 0 < pd_exp a \<and> pd_coeff a = 0 then ''0'' else place_point (pd_exp a + int (length ds)) ds))"

subsection \<open>Values\<close>

lemma value_read: "dec_parse s = map_option dec_value (dec_read s)"
proof -
  have body: "(let mant = takeWhile (\<lambda>c. c \<noteq> CHR ''e'' \<and> c \<noteq> CHR ''E'') body;
          ip = takeWhile (\<lambda>c. c \<noteq> CHR ''.'') mant;
          fp = drop (Suc (length ip)) mant
      in case (case drop (length mant) body of [] \<Rightarrow> Some 0 | _ # t \<Rightarrow> parse_exponent t) of
           None \<Rightarrow> None
         | Some e \<Rightarrow>
             if ip @ fp \<noteq> [] \<and> list_all is_digit ip \<and> list_all is_digit fp
             then let m = rat_of_nat (digits_val (ip @ fp)) * 10 powi (e - int (length fp))
                  in Some (if neg then - m else m)
             else None) = map_option dec_value (read_body neg body)" for neg body
    unfolding read_body_def exponent_part_def Let_def
    by (auto simp: dec_value_def signed_coeff_def split: option.split)
  have empty: "read_body False [] = None" by (simp add: read_body_def exponent_part_def)
  show ?thesis
    unfolding dec_parse_def dec_read_def
    by (cases "filter (\<lambda>c. c \<noteq> CHR ''_'') (strip s)") (simp_all add: body empty split del: if_split, simp add: body)
qed

lemma dec_value_fix: "dec_value (pd_fix a) = ctx_round (dec_value a)"
proof (cases "ndigits (int (pd_coeff a)) \<le> 28")
  case True
  have "int (pd_coeff a) < 10 ^ 28"
  proof (cases "pd_coeff a = 0")
    case False
    then have "int (pd_coeff a) < 10 ^ ndigits (int (pd_coeff a))" using ndigits_bounds [of "int (pd_coeff a)"] by simp
    also have "\<dots> \<le> 10 ^ 28" using True by (intro power_increasing) simp_all
    finally show ?thesis .
  qed simp
  then have "\<bar>signed_coeff a\<bar> < 10 ^ 28" by (simp add: signed_coeff_def)
  then have "ctx_round (dec_value a) = dec_value a" by (intro ctx_round_exact [OF dec_value_def])
  with True show ?thesis by (simp add: pd_fix_def)
next
  case False
  let ?c = "int (pd_coeff a)" and ?n = "ndigits (int (pd_coeff a))" and ?s = "if pd_neg a then -1 else 1 :: rat"
  let ?x = "rat_of_nat (pd_coeff a) / 10 ^ (?n - 28)"
  have pos: "0 < ?c" using False by (cases "pd_coeff a") (auto simp: ndigits.simps)
  define k where "k = ?n - 28"
  have v: "dec_value a = ?s * (rat_of_nat (pd_coeff a) * 10 powi pd_exp a)" by (simp add: dec_value_def signed_coeff_def)
  let ?q = "rat_of_nat (pd_coeff a) * 10 powi pd_exp a"
  have q: "0 < ?q" using pos by simp
  have b: "(10::rat) ^ (?n - 1) \<le> rat_of_nat (pd_coeff a)" "rat_of_nat (pd_coeff a) < 10 ^ ?n"
    using ndigits_bounds [OF pos] by (metis of_int_le_iff of_int_less_iff of_int_numeral of_int_power of_int_of_nat_eq)+
  have lo: "10 powi (pd_exp a + int ?n - 1) \<le> ?q"
  proof -
    have "(10::rat) powi (pd_exp a + int ?n - 1) = 10 ^ (?n - 1) * 10 powi pd_exp a"
      using ndigits_pos [of ?c] by (simp add: power_int_add power_int_diff power_eq_if)
    then show ?thesis using b(1) by simp
  qed
  have hi: "?q < 10 powi (pd_exp a + int ?n)"
    using b(2) by (simp add: power_int_add mult.commute)
  have "adj_exp ?q = pd_exp a + int ?n - 1"
  proof -
    have "(10::rat) powi adj_exp ?q < 10 powi (pd_exp a + int ?n)" using adj_exp_bounds(1) [OF q] hi by linarith
    moreover have "(10::rat) powi (pd_exp a + int ?n - 1) < 10 powi (adj_exp ?q + 1)" using adj_exp_bounds(2) [OF q] lo by linarith
    ultimately show ?thesis using pow10_less_imp by smt
  qed
  then have k: "adj_exp \<bar>?q\<bar> - 27 = pd_exp a + int k" using False q by (simp add: k_def)
  have d: "?q / 10 powi (pd_exp a + int k) = rat_of_nat (pd_coeff a) / 10 ^ k"
    by (simp add: power_int_add)
  have r: "ctx_round ?q = of_int (round_half_even (rat_of_nat (pd_coeff a) / 10 ^ k)) * 10 powi (pd_exp a + int k)"
    using q pos by (simp only: ctx_round_def k d Let_def split: if_split) simp
  have nonneg: "0 \<le> round_half_even (rat_of_nat (pd_coeff a) / 10 ^ k)"
    by (rule round_half_even_ge) simp
  define m where "m = nat (round_half_even (rat_of_nat (pd_coeff a) / 10 ^ k))"
  have r: "ctx_round ?q = of_nat m * 10 powi (pd_exp a + int k)" using r nonneg by (simp add: m_def)
  have "ctx_round (dec_value a) = ?s * ctx_round ?q" unfolding v using ctx_round_minus [of ?q] by simp
  moreover have "pd_fix a = (if m = 10 ^ 28 then PyDec (pd_neg a) (10 ^ 27) (pd_exp a + int k + 1) else PyDec (pd_neg a) m (pd_exp a + int k))"
    using False unfolding pd_fix_def Let_def k_def [symmetric] m_def [symmetric] by simp
  ultimately show ?thesis
    unfolding r by (auto simp: dec_value_def signed_coeff_def power_int_add)
qed

lemma value_coeff_at: "e \<le> pd_exp a \<Longrightarrow> of_int (coeff_at e a) * 10 powi e = dec_value a"
  by (simp add: coeff_at_def dec_value_def power_int_add [symmetric] flip: power_int_of_nat)

lemma dec_value_add [simp]: "dec_value (pd_add a b) = dec_add (dec_value a) (dec_value b)"
proof -
  let ?e = "min (pd_exp a) (pd_exp b)"
  let ?s = "coeff_at ?e a + coeff_at ?e b"
  have "dec_value (PyDec (if ?s = 0 then pd_neg a \<and> pd_neg b else ?s < 0) (nat \<bar>?s\<bar>) ?e) = of_int ?s * 10 powi ?e"
    by (simp add: dec_value_def signed_coeff_def)
  also have "\<dots> = dec_value a + dec_value b"
    unfolding of_int_add distrib_right using value_coeff_at [of ?e a] value_coeff_at [of ?e b] by simp
  finally show ?thesis by (simp add: pd_add_def Let_def dec_value_fix dec_add_def)
qed

lemma dec_value_flip [simp]: "dec_value (pd_flip a) = - dec_value a"
  by (simp add: pd_flip_def dec_value_def signed_coeff_def)

lemma dec_value_sub [simp]: "dec_value (pd_sub a b) = dec_sub (dec_value a) (dec_value b)"
  by (simp add: pd_sub_def dec_add_def dec_sub_def)

lemma dec_value_minus [simp]: "dec_value (pd_minus a) = dec_neg (dec_value a)"
  by (auto simp: pd_minus_def dec_value_fix dec_neg_def) (auto simp: dec_value_def signed_coeff_def)

lemma dec_value_zero [simp]: "dec_value pd_zero = 0"
  by (simp add: dec_value_def pd_zero_def signed_coeff_def)

subsection \<open>Reading a text back\<close>

lemma zeros_digits [simp]: "list_all is_digit (zeros n)" "length (zeros n) = n"
  by (simp_all add: zeros_def list_all_iff)

lemma read_body_shape:
  assumes "list_all is_digit ip" "ip \<noteq> []" "list_all is_digit fp"
    and "exponent_part ex = Some x" "ex = [] \<or> hd ex = CHR ''E''"
  shows "read_body neg (ip @ (if fp = [] then [] else ''.'' @ fp) @ ex)
    = Some (PyDec neg (digits_val (ip @ fp)) (x - int (length fp)))"
proof -
  let ?m = "ip @ (if fp = [] then [] else ''.'' @ fp)"
  have mant: "takeWhile (\<lambda>c. c \<noteq> CHR ''e'' \<and> c \<noteq> CHR ''E'') (?m @ ex) = ?m"
  proof -
    have "list_all (\<lambda>c. c \<noteq> CHR ''e'' \<and> c \<noteq> CHR ''E'') ?m"
      using assms(1,3) by (auto simp: list_all_iff is_digit_def)
    moreover have "takeWhile (\<lambda>c. c \<noteq> CHR ''e'' \<and> c \<noteq> CHR ''E'') ex = []" using assms(5) by (cases ex) auto
    ultimately show ?thesis by (simp only: takeWhile_append list_all_iff takeWhile_eq_all_conv) simp
  qed
  have ip: "takeWhile (\<lambda>c. c \<noteq> CHR ''.'') ?m = ip"
    using digits_no_dot [OF assms(1)] by (auto simp: takeWhile_append takeWhile_eq_all_conv)
  have "read_body neg (?m @ ex) = Some (PyDec neg (digits_val (ip @ fp)) (x - int (length fp)))"
    unfolding read_body_def Let_def mant ip using assms by simp
  then show ?thesis by simp
qed

lemma place_point_shape:
  assumes "list_all is_digit ds" "ds \<noteq> []" "dot \<le> int (length ds)"
  obtains ip fp where "place_point dot ds = ip @ (if fp = [] then [] else ''.'' @ fp)" "list_all is_digit ip" "ip \<noteq> []"
    "list_all is_digit fp" "digits_val (ip @ fp) = digits_val ds" "int (length fp) = int (length ds) - dot"
proof -
  consider (low) "dot \<le> 0" | (whole) "0 < dot" "dot = int (length ds)" | (mid) "0 < dot" "dot < int (length ds)"
    using assms(3) by linarith
  then show ?thesis
  proof cases
    case low
    have "digits_val (''0'' @ zeros (nat (- dot)) @ ds) = digits_val ds"
      using digits_val_zeros [of "Suc (nat (- dot))" ds] by (simp add: zeros_def)
    with low assms show ?thesis by (intro that [of "''0''" "zeros (nat (- dot)) @ ds"]) (simp_all add: place_point_def)
  next
    case whole
    with assms show ?thesis by (intro that [of ds "[]"]) (simp_all add: place_point_def zeros_def)
  next
    case mid
    have "list_all is_digit (take (nat dot) ds)" "list_all is_digit (drop (nat dot) ds)"
      using assms(1) by (metis append_take_drop_id list_all_append)+
    with mid assms show ?thesis
      by (intro that [of "take (nat dot) ds" "drop (nat dot) ds"]) (simp_all add: place_point_def)
  qed
qed

lemma exponent_text: "exponent_part (CHR ''E'' # signed_text i) = Some i"
  by (simp add: exponent_part_def signed_text_def parse_exponent_def nat_text_digits)

lemma signed_text_chars: "c \<in> set (signed_text i) \<Longrightarrow> is_digit c \<or> c = CHR ''+'' \<or> c = CHR ''-''"
  using nat_text_digits [of "nat \<bar>i\<bar>"] by (auto simp: signed_text_def list_all_iff split: if_splits)

definition decimal_char :: "char \<Rightarrow> bool" where
  "decimal_char c \<longleftrightarrow> is_digit c \<or> c = CHR ''+'' \<or> c = CHR ''-'' \<or> c = CHR ''.'' \<or> c = CHR ''E''"

lemma decimal_char_facts:
  "decimal_char c \<Longrightarrow> \<not> is_space c" "decimal_char c \<Longrightarrow> c \<noteq> CHR ''_''"
  by (auto simp: decimal_char_def is_digit_def is_space_def)

lemma decimal_chars:
  "list_all is_digit ds \<Longrightarrow> list_all decimal_char ds" "list_all decimal_char (signed_text i)"
  "decimal_char (CHR ''-'')" "decimal_char (CHR ''.'')" "decimal_char (CHR ''E'')"
  by (auto simp: list_all_iff decimal_char_def dest: signed_text_chars)

lemma dec_read_chars:
  assumes "list_all decimal_char (c # cs)"
  shows "dec_read (c # cs) = (if c = CHR ''-'' then read_body True cs else if c = CHR ''+'' then read_body False cs
    else read_body False (c # cs))"
proof -
  have "no_space (c # cs)" using assms decimal_char_facts(1) unfolding no_space_def list_all_iff by blast
  then have st: "strip (c # cs) = c # cs" by (rule strip_no_space)
  have fl: "filter (\<lambda>c. c \<noteq> CHR ''_'') (c # cs) = c # cs"
    unfolding filter_id_conv using assms decimal_char_facts(2) unfolding list_all_iff by blast
  show ?thesis unfolding dec_read_def st fl by simp
qed

lemma dec_read_signed:
  assumes "list_all decimal_char b" "b \<noteq> []" "is_digit (hd b)"
  shows "dec_read ((if neg then ''-'' else []) @ b) = read_body neg b"
proof (cases neg)
  case True
  then show ?thesis using dec_read_chars [of "CHR ''-''" b] assms decimal_chars(3) by simp
next
  case False
  obtain c cs where "b = c # cs" using assms(2) by (cases b) auto
  then show ?thesis using dec_read_chars [of c cs] assms False by (auto simp: is_digit_def)
qed

theorem dec_read_text: "dec_read (pd_text a) = Some a"
proof -
  let ?ds = "nat_text (pd_coeff a)"
  define left where "left = pd_exp a + int (length ?ds)"
  define dot where "dot = (if pd_exp a \<le> 0 \<and> -6 < left then left else 1)"
  define ex where "ex = (if left = dot then [] else CHR ''E'' # signed_text (left - dot))"
  have "0 < length ?ds" by simp
  then have "1 \<le> int (length ?ds)" by linarith
  then have le: "dot \<le> int (length ?ds)" by (simp add: dot_def left_def)
  obtain ip fp where p: "place_point dot ?ds = ip @ (if fp = [] then [] else ''.'' @ fp)" "list_all is_digit ip" "ip \<noteq> []"
    "list_all is_digit fp" "digits_val (ip @ fp) = digits_val ?ds" "int (length fp) = int (length ?ds) - dot"
    by (rule place_point_shape [OF nat_text_digits nat_text_nonempty le])
  have ex: "exponent_part ex = Some (left - dot)" "ex = [] \<or> (\<exists>i. ex = CHR ''E'' # signed_text i)" "ex = [] \<or> hd ex = CHR ''E''"
    by (auto simp: ex_def exponent_text) (auto simp: exponent_part_def)
  have "pd_text a = (if pd_neg a then ''-'' else []) @ ip @ (if fp = [] then [] else ''.'' @ fp) @ ex"
    unfolding pd_text_def Let_def left_def [symmetric] dot_def [symmetric] ex_def [symmetric] p(1) by simp
  moreover have "dec_read ((if pd_neg a then ''-'' else []) @ ip @ (if fp = [] then [] else ''.'' @ fp) @ ex)
      = read_body (pd_neg a) (ip @ (if fp = [] then [] else ''.'' @ fp) @ ex)"
  proof (rule dec_read_signed)
    show "list_all decimal_char (ip @ (if fp = [] then [] else ''.'' @ fp) @ ex)"
      using p(2,4) ex(2) decimal_chars by auto
    show "is_digit (hd (ip @ (if fp = [] then [] else ''.'' @ fp) @ ex))" using p(2,3) by (cases ip) auto
  qed (use p(3) in simp)
  ultimately have "dec_read (pd_text a) = Some (PyDec (pd_neg a) (digits_val (ip @ fp)) (left - dot - int (length fp)))"
    by (simp only: read_body_shape [OF p(2-4) ex(1,3)])
  then show ?thesis using p(5,6) by (cases a) (simp add: left_def)
qed

lemma dec_parse_pd_text [simp]: "dec_parse (pd_text a) = Some (dec_value a)"
  by (simp add: value_read dec_read_text)

end
