(* ===== verification/Futures_Native.thy ===== *)
theory Futures_Native
  imports Py_Compare Py_Dec_Text
begin

section \<open>Conditional stop orders: native commands and observations\<close>

text \<open>
  The pure part of \<open>futures_protection_transport.py\<close>: the native command of one reserved stop order,
  and the acceptance of what the broker reports about it.
\<close>

definition protection_error :: "string \<Rightarrow> py_error" where
  "protection_error c = CustomError ''FuturesProtectionError'' c"

definition positive_number :: "pyval \<Rightarrow> pydec res" where
  "positive_number v =
     (case v of
        PNone \<Rightarrow> Inl (protection_error ''PROTECTION_POSITIVE_NUMBER_REQUIRED'')
      | PBool _ \<Rightarrow> Inl (protection_error ''PROTECTION_POSITIVE_NUMBER_REQUIRED'')
      | _ \<Rightarrow> (case dec_read (py_str v) of
               Some a \<Rightarrow> if 0 < dec_value a then Inr a
                         else Inl (protection_error ''PROTECTION_POSITIVE_NUMBER_REQUIRED'')
             | None \<Rightarrow> Inl (protection_error ''PROTECTION_POSITIVE_NUMBER_REQUIRED'')))"

definition algo_pattern :: "string \<Rightarrow> bool" where
  "algo_pattern s \<longleftrightarrow> (case s of [] \<Rightarrow> False
     | c # cs \<Rightarrow> is_digit c \<and> c \<noteq> CHR ''0'' \<and> list_all is_digit cs \<and> length cs \<le> 19)"

definition exact_algo_id :: "pyval \<Rightarrow> string res" where
  "exact_algo_id v =
     (let result = py_str (py_or v (PStr []))
      in if (case v of PBool _ \<Rightarrow> True | _ \<Rightarrow> False) \<or> \<not> algo_pattern result
         then Inl (protection_error ''EXACT_PROTECTION_ALGO_ID_REQUIRED'') else Inr result)"

definition client_char :: "char \<Rightarrow> bool" where
  "client_char c \<longleftrightarrow> is_alnum c \<or> c \<in> {CHR ''.'', CHR ''_'', CHR '':'', CHR ''/'', CHR ''-''}"

definition exact_client_algo_id :: "pyval \<Rightarrow> string res" where
  "exact_client_algo_id v =
     (case v of
        PStr s \<Rightarrow> if list_all client_char s \<and> s \<noteq> [] \<and> length s \<le> 36 then Inr s
                  else Inl (protection_error ''EXACT_PROTECTION_CLIENT_ID_REQUIRED'')
      | _ \<Rightarrow> Inl (protection_error ''EXACT_PROTECTION_CLIENT_ID_REQUIRED''))"

definition futures_symbol :: "string \<Rightarrow> bool" where
  "futures_symbol s \<longleftrightarrow> list_all (\<lambda>c. is_upper c \<or> is_digit c \<or> c = CHR ''_'') s \<and> 2 \<le> length s \<and> length s \<le> 40"

definition reservation_ok :: "pydict \<Rightarrow> bool" where
  "reservation_ok order \<longleftrightarrow>
     dict_get order ''route'' = PStr ''BINANCE_USDM_FUTURES''
     \<and> dict_get order ''operation'' \<in> {PStr ''PROTECT'', PStr ''CANCEL_PROTECTION''}
     \<and> dict_get order ''riskReducing'' = PBool True
     \<and> truthy (dict_get order ''sessionId'') \<and> truthy (dict_get order ''manifestHash'') \<and> truthy (dict_get order ''accountId'')
     \<and> futures_symbol (py_str (py_or (dict_get order ''symbol'') (PStr [])))"

text \<open>The side that closes a position of a direction.\<close>

definition close_side :: "pyval \<Rightarrow> string" where
  "close_side direction = (if direction = PStr ''short'' then ''BUY'' else ''SELL'')"

definition base_native :: "pydict \<Rightarrow> string \<Rightarrow> pydict" where
  "base_native order client =
     [(''broker_id'', PStr ''binance-futures''), (''symbol'', dict_get order ''symbol''),
      (''operation'', dict_get order ''operation''), (''session_id'', dict_get order ''sessionId''),
      (''manifest_hash'', dict_get order ''manifestHash''), (''execution_purpose'', PStr ''FUNCTIONAL_TEST_ONLY''),
      (''client_algo_id'', PStr client), (''risk_reducing'', PBool True)]"

definition protection_native :: "pydict \<Rightarrow> pydict res" where
  "protection_native order =
     res_bind (require (reservation_ok order) (protection_error ''EXACT_PROTECTION_RESERVATION_REQUIRED'')) (\<lambda>_.
     res_bind (exact_client_algo_id (dict_get order ''clientAlgoId'')) (\<lambda>client.
     if dict_get order ''operation'' = PStr ''CANCEL_PROTECTION''
     then res_bind (exact_algo_id (dict_get order ''algoId'')) (\<lambda>algo.
          Inr (base_native order client @ [(''algo_id'', PStr algo)]))
     else
       let direction = dict_get order ''positionDirection''; mode = dict_get order ''positionMode'' in
       res_bind (require (direction \<in> {PStr ''long'', PStr ''short''} \<and> mode \<in> {PStr ''ONE_WAY'', PStr ''HEDGE''}
           \<and> dict_get order ''side'' = PStr (close_side direction))
         (protection_error ''PROTECTION_CLOSE_DIRECTION_REQUIRED'')) (\<lambda>_.
       res_bind (positive_number (dict_get order ''triggerPrice'')) (\<lambda>trigger.
       Inr (base_native order client @
         [(''side'', PStr (close_side direction)), (''position_direction'', direction), (''position_mode'', mode),
          (''trigger_price'', PStr (pd_fixed trigger)), (''order_type'', PStr ''STOP_MARKET''),
          (''close_position'', PBool True), (''working_type'', PStr ''MARK_PRICE''), (''price_protect'', PBool False)])))))"

subsection \<open>Observations\<close>

definition as_mapping :: "pyval \<Rightarrow> pydict res" where
  "as_mapping v = (case v of PDict d \<Rightarrow> Inr d | _ \<Rightarrow> Inl (protection_error ''PROTECTION_OBSERVATION_UNKNOWN''))"

definition position_side :: "pyval \<Rightarrow> pyval \<Rightarrow> string" where
  "position_side direction mode =
     (if mode = PStr ''HEDGE'' \<and> direction = PStr ''long'' then ''LONG''
      else if mode = PStr ''HEDGE'' \<and> direction = PStr ''short'' then ''SHORT'' else ''BOTH'')"

definition observed_terms :: "pydict \<Rightarrow> pydict \<Rightarrow> bool" where
  "observed_terms row claim \<longleftrightarrow>
     (let direction = dict_get claim ''positionDirection''; mode = dict_get claim ''positionMode'' in
      direction \<in> {PStr ''long'', PStr ''short''} \<and> mode \<in> {PStr ''ONE_WAY'', PStr ''HEDGE''}
      \<and> dict_get row ''side'' = PStr (close_side direction)
      \<and> dict_get row ''positionSide'' = PStr (position_side direction mode)
      \<and> dict_get row ''orderType'' = PStr ''STOP_MARKET'' \<and> dict_get row ''algoType'' = PStr ''CONDITIONAL''
      \<and> dict_get row ''closePosition'' = PBool True \<and> dict_get row ''workingType'' = PStr ''MARK_PRICE''
      \<and> dict_get row ''priceProtect'' = PBool False)"

definition algo_statuses :: "string list" where
  "algo_statuses = [''NEW'', ''TRIGGERING'', ''TRIGGERED'', ''FINISHED'', ''CANCELED'', ''EXPIRED'', ''REJECTED'']"

definition check_terms :: "pydict \<Rightarrow> pydict \<Rightarrow> unit res" where
  "check_terms row claim =
     res_bind (require (observed_terms row claim) (protection_error ''PROTECTION_TERMS_MISMATCH'')) (\<lambda>_.
     res_bind (positive_number (dict_get row ''triggerPrice'')) (\<lambda>seen.
     res_bind (positive_number (dict_get claim ''triggerPrice'')) (\<lambda>reserved.
     require (dec_value seen = dec_value reserved) (protection_error ''PROTECTION_TERMS_MISMATCH''))))"

definition observation_of :: "pydict \<Rightarrow> string \<Rightarrow> string \<Rightarrow> string \<Rightarrow> string \<Rightarrow> string \<Rightarrow> pydict" where
  "observation_of row algo_id client_id status actual_id observed_at =
     [(''known'', PBool True), (''algoId'', PStr algo_id), (''clientAlgoId'', PStr client_id),
      (''symbol'', dict_get row ''symbol''), (''status'', PStr status), (''algoStatus'', PStr status),
      (''triggerPrice'', PStr (py_str (dict_get row ''triggerPrice''))), (''side'', dict_get row ''side''),
      (''positionSide'', dict_get row ''positionSide''), (''closePosition'', PBool True),
      (''workingType'', PStr ''MARK_PRICE''), (''priceProtect'', PBool False), (''orderType'', PStr ''STOP_MARKET''),
      (''actualOrderId'', PStr actual_id), (''observedAt'', PStr observed_at),
      (''createTime'', dict_get row ''createTime''), (''updateTime'', dict_get row ''updateTime''),
      (''triggerTime'', dict_get row ''triggerTime'')]"

definition normalize_protection_observation :: "pyval \<Rightarrow> pyval \<Rightarrow> string \<Rightarrow> pydict res" where
  "normalize_protection_observation raw claim_value observed_at =
     res_bind (as_mapping raw) (\<lambda>raw_row.
     res_bind (as_mapping claim_value) (\<lambda>claim.
     res_bind (as_mapping (if ''json'' \<in> set (map fst raw_row) then dict_get raw_row ''json'' else raw)) (\<lambda>row.
     res_bind (exact_algo_id (dict_get row ''algoId'')) (\<lambda>algo_id.
     res_bind (exact_client_algo_id (dict_get row ''clientAlgoId'')) (\<lambda>client_id.
     res_bind (any_of
         [\<lambda>_. Inr (\<not> py_eq (dict_get row ''symbol'') (dict_get claim ''symbol'')),
          \<lambda>_. Inr (\<not> py_eq (PStr client_id) (dict_get claim ''clientAlgoId'')),
          \<lambda>_. if truthy (dict_get claim ''algoId'')
               then res_bind (exact_algo_id (dict_get claim ''algoId'')) (\<lambda>owned. Inr (algo_id \<noteq> owned))
               else Inr False]) (\<lambda>other.
     res_bind (require (\<not> other) (protection_error ''PROTECTION_IDENTITY_MISMATCH'')) (\<lambda>_.
     res_bind (check_terms row claim) (\<lambda>_.
     let status = upper (py_str (py_or (dict_get row ''algoStatus'') (PStr [])));
         actual_id = py_str (py_or (dict_get row ''actualOrderId'') (PStr [])) in
     res_bind (require (status \<in> set algo_statuses) (protection_error ''PROTECTION_STATUS_UNKNOWN'')) (\<lambda>_.
     res_bind (if actual_id \<noteq> [] then res_bind (exact_algo_id (PStr actual_id)) (\<lambda>_. Inr ()) else Inr ()) (\<lambda>_.
     res_bind (require (\<not> (status = ''NEW'' \<and> actual_id \<noteq> [])) (protection_error ''PROTECTION_STATUS_ID_CONFLICT'')) (\<lambda>_.
     Inr (observation_of row algo_id client_id status actual_id observed_at))))))))))))"

end
