(* ===== verification/Short_Authority.thy ===== *)
theory Short_Authority
  imports Py_Hash Gov_Fields Futures_Native
begin

section \<open>Authority of a short Live session\<close>

text \<open>
  \<open>short_live_order_authority.py\<close>: which short session owns a route, and the thread-local dispatch of
  one exact order that is the only exception while a session owns an exchange. The authority guard of
  the caller is an argument. Locks are left out: every function is one step. Threads are numbered.
\<close>

type_synonym owner_key = "string \<times> string"

record dispatch =
  dp_order :: pydict
  dp_order_hash :: string
  dp_native_hash :: string
  dp_guard :: "pydict \<Rightarrow> pyval res"
  dp_exchange :: string
  dp_route :: string
  dp_thread :: nat
  dp_entered :: bool
  dp_wire :: bool

record short_state =
  sl_active :: "(string \<times> owner_key) list"
  sl_dispatch :: "nat \<Rightarrow> dispatch option"

definition short_error :: "string \<Rightarrow> py_error" where
  "short_error c = CustomError ''ShortLiveAuthorityError'' c"

definition exchanges :: "(string \<times> string) list" where
  "exchanges = [(''KIS_KR_CASH'', ''KIS''), (''UPBIT_KRW_SPOT'', ''UPBIT''),
     (''BINANCE_SPOT'', ''BINANCE''), (''BINANCE_USDM_FUTURES'', ''BINANCE'')]"

definition providers :: "(string \<times> string) list" where
  "providers = [(''KIS_KR_CASH'', ''kis''), (''UPBIT_KRW_SPOT'', ''upbit''),
     (''BINANCE_SPOT'', ''binance''), (''BINANCE_USDM_FUTURES'', ''binance-futures'')]"

definition exchange_of :: "string \<Rightarrow> string" where
  "exchange_of route = (case map_of exchanges route of None \<Rightarrow> [] | Some e \<Rightarrow> e)"

definition provider_of :: "string \<Rightarrow> string" where
  "provider_of route = (case map_of providers route of None \<Rightarrow> [] | Some p \<Rightarrow> p)"

subsection \<open>The digest of an order\<close>

text \<open>\<open>json.dumps(value, sort_keys=True, separators=(",", ":"), allow_nan=False)\<close>: as the canonical
  text, with every character outside ASCII escaped.\<close>

fun code_points :: "string \<Rightarrow> nat list" where
  "code_points [] = []"
| "code_points (c # cs) =
     (if code c < 128 then code c # code_points cs
      else if code c < 224
      then (case cs of d # ds \<Rightarrow> ((code c - 192) * 64 + (code d - 128)) # code_points ds | [] \<Rightarrow> [])
      else if code c < 240
      then (case cs of d # e # ds \<Rightarrow>
              ((code c - 224) * 4096 + (code d - 128) * 64 + (code e - 128)) # code_points ds | _ \<Rightarrow> [])
      else (case cs of d # e # f # ds \<Rightarrow>
              ((code c - 240) * 262144 + (code d - 128) * 4096 + (code e - 128) * 64 + (code f - 128)) # code_points ds
            | _ \<Rightarrow> []))"

definition escape_unit :: "nat \<Rightarrow> string" where
  "escape_unit n = [CHR 0x5C, CHR ''u''] @ hex_byte (n div 256) @ hex_byte (n mod 256)"

definition escape_point :: "nat \<Rightarrow> string" where
  "escape_point n =
     (if n < 127 then json_escape (char_of n)
      else if n < 65536 then escape_unit n
      else escape_unit (55296 + (n - 65536) div 1024) @ escape_unit (56320 + (n - 65536) mod 1024))"

definition ascii_quote :: "string \<Rightarrow> string" where
  "ascii_quote s = CHR 0x22 # concat (map escape_point (code_points s)) @ [CHR 0x22]"

fun ascii_text :: "pyval \<Rightarrow> string"
  and ascii_items :: "pyval list \<Rightarrow> string"
  and ascii_entries :: "pydict \<Rightarrow> string" where
  "ascii_text (PStr s) = ascii_quote s"
| "ascii_text (PList xs) = ''['' @ ascii_items xs @ '']''"
| "ascii_text (PDict kvs) = ''{'' @ ascii_entries kvs @ ''}''"
| "ascii_text v = json_text v"
| "ascii_items [] = []"
| "ascii_items (x # xs) = ascii_text x @ (if xs = [] then [] else '','' @ ascii_items xs)"
| "ascii_entries [] = []"
| "ascii_entries ((k, v) # kvs) =
     ascii_quote k @ '':'' @ ascii_text v @ (if kvs = [] then [] else '','' @ ascii_entries kvs)"

definition short_digest :: "pydict \<Rightarrow> string res" where
  "short_digest d =
     (if strict_entries d then Inr (sha256_hex (ascii_text (canon (PDict d))))
      else Inl (ValueError ''Out of range float values are not JSON compliant''))"

subsection \<open>The reserved order and its native payload\<close>

definition finite_positive :: "pyval \<Rightarrow> rat res" where
  "finite_positive v =
     (case v of
        PNone \<Rightarrow> Inl (short_error ''SHORT_LIVE_NATIVE_FINITE_NUMBER_REQUIRED'')
      | PBool _ \<Rightarrow> Inl (short_error ''SHORT_LIVE_NATIVE_FINITE_NUMBER_REQUIRED'')
      | _ \<Rightarrow> (case dec_parse (py_str v) of
               Some q \<Rightarrow> if 0 < q then Inr q else Inl (short_error ''SHORT_LIVE_NATIVE_FINITE_NUMBER_REQUIRED'')
             | None \<Rightarrow> Inl (short_error ''SHORT_LIVE_NATIVE_FINITE_NUMBER_REQUIRED'')))"

definition same_positive :: "pyval \<Rightarrow> pyval \<Rightarrow> bool res" where
  "same_positive v w = res_bind (finite_positive v) (\<lambda>x. res_bind (finite_positive w) (\<lambda>y. Inr (x = y)))"

definition kis_symbol :: "string \<Rightarrow> bool" where
  "kis_symbol s \<longleftrightarrow> length s = 6 \<and> list_all is_digit s"

definition native_changed :: "string \<Rightarrow> pydict \<Rightarrow> pydict \<Rightarrow> bool res" where
  "native_changed route order native =
     (let rq = dict_get order; nv = dict_get native; reducing = (rq ''riskReducing'' = PBool True) in
      any_of
        [\<lambda>_. Inr (\<not> py_eq (nv ''side'') (rq ''side'')),
         \<lambda>_. res_bind (same_positive (nv ''quantity'') (rq ''quantity'')) (\<lambda>b. Inr (\<not> b)),
         \<lambda>_. res_bind (same_positive (nv ''price'') (rq ''referencePrice'')) (\<lambda>b. Inr (\<not> b)),
         \<lambda>_. Inr (\<not> (py_eq (nv ''identifier'') (rq ''clientOrderId'')
              \<and> py_eq (nv ''new_client_order_id'') (rq ''clientOrderId'')
              \<and> py_eq (nv ''session_id'') (rq ''sessionId'') \<and> py_eq (nv ''manifest_hash'') (rq ''manifestHash'')
              \<and> nv ''execution_purpose'' = PStr ''FUNCTIONAL_TEST_ONLY''
              \<and> nv ''order_type'' = PStr (if route = ''KIS_KR_CASH'' then ''00''
                   else if rq ''operation'' = PStr ''EMERGENCY_CLOSE'' then ''MARKET'' else ''LIMIT'')
              \<and> nv ''risk_reducing'' = PBool reducing \<and> nv ''reduce_only'' = PBool reducing
              \<and> py_eq (nv ''position_direction'')
                  (if ''positionDirection'' \<in> set (map fst order) then rq ''positionDirection'' else PStr ''long'')))])"

definition native_bounds :: "string \<Rightarrow> pydict \<Rightarrow> pydict \<Rightarrow> unit res" where
  "native_bounds route order native =
     (let rq = dict_get order; nv = dict_get native; reducing = (rq ''riskReducing'' = PBool True);
          futures = (route = ''BINANCE_USDM_FUTURES'') in
      res_bind (if route = ''KIS_KR_CASH''
          then res_bind (finite_positive (nv ''quantity'')) (\<lambda>q.
               res_bind (require (q = of_int \<lfloor>q\<rfloor>) (short_error ''SHORT_LIVE_DOMESTIC_INTEGER_QUANTITY_PRICE_REQUIRED'')) (\<lambda>_.
               res_bind (finite_positive (nv ''price'')) (\<lambda>p.
               require (p = of_int \<lfloor>p\<rfloor>) (short_error ''SHORT_LIVE_DOMESTIC_INTEGER_QUANTITY_PRICE_REQUIRED''))))
          else Inr ()) (\<lambda>_.
      res_bind (require (\<not> futures \<or> py_eq (nv ''position_mode'') (rq ''positionMode''))
        (short_error ''SHORT_LIVE_NATIVE_POSITION_MODE_CHANGED'')) (\<lambda>_.
      res_bind (if futures \<and> \<not> reducing \<and> rq ''leverage'' \<noteq> PNone
          then res_bind (same_positive (nv ''expected_leverage'') (rq ''leverage'')) (\<lambda>b.
               require b (short_error ''SHORT_LIVE_NATIVE_LEVERAGE_CHANGED''))
          else Inr ()) (\<lambda>_.
      require (rq ''operation'' \<noteq> PStr ''EMERGENCY_CLOSE''
          \<or> (futures \<and> reducing \<and> rq ''positionDirection'' \<in> {PStr ''long'', PStr ''short''}
             \<and> rq ''side'' = PStr (if rq ''positionDirection'' = PStr ''short'' then ''BUY'' else ''SELL'')))
        (short_error ''SHORT_LIVE_EMERGENCY_CLOSE_DIRECTION_REQUIRED'')))))"

definition exact_native :: "pydict \<Rightarrow> pydict \<Rightarrow> unit res" where
  "exact_native order native =
     (let rq = dict_get order; nv = dict_get native; route = py_str (rq ''route''); operation = rq ''operation'' in
      res_bind (require (nv ''broker_id'' = PStr (provider_of route)
          \<and> py_eq (nv ''symbol'') (rq ''symbol'') \<and> truthy (rq ''accountId''))
        (short_error ''SHORT_LIVE_NATIVE_ROUTE_SYMBOL_ACCOUNT_CHANGED'')) (\<lambda>_.
      res_bind (require (route \<noteq> ''KIS_KR_CASH''
          \<or> (kis_symbol (py_str (rq ''symbol'')) \<and> nv ''asset'' = PStr ''KR_STOCK''))
        (short_error ''SHORT_LIVE_DOMESTIC_ASSET_BINDING_REQUIRED'')) (\<lambda>_.
      if operation \<in> {PStr ''PROTECT'', PStr ''CANCEL_PROTECTION''}
      then (case protection_native order of
              Inl _ \<Rightarrow> Inl (short_error ''SHORT_LIVE_PROTECTION_RESERVATION_INVALID'')
            | Inr exact \<Rightarrow> require (py_eq (PDict native) (PDict exact))
                (short_error ''SHORT_LIVE_PROTECTION_NATIVE_CHANGED''))
      else if operation = PStr ''CANCEL''
      then require (truthy (rq ''brokerOrderId'') \<and> py_str (nv ''broker_order_id'') = py_str (rq ''brokerOrderId''))
             (short_error ''SHORT_LIVE_NATIVE_CANCEL_ID_CHANGED'')
      else
        res_bind (native_changed route order native) (\<lambda>changed.
        res_bind (require (\<not> changed) (short_error ''SHORT_LIVE_NATIVE_RESERVED_ORDER_CHANGED'')) (\<lambda>_.
        native_bounds route order native)))))"

subsection \<open>Owners of the routes\<close>

text \<open>The keys of the rows, with their routes checked.\<close>

definition order_key :: "pydict \<Rightarrow> owner_key" where
  "order_key row = (py_str (dict_get row ''sessionId''), py_str (dict_get row ''manifestHash''))"

definition order_route :: "pydict \<Rightarrow> string" where
  "order_route row = py_str (dict_get row ''route'')"

definition known_route :: "pyval \<Rightarrow> bool" where
  "known_route v = (case v of PStr r \<Rightarrow> map_of exchanges r \<noteq> None | _ \<Rightarrow> False)"

definition owned_by_other :: "(string \<times> owner_key) list \<Rightarrow> pydict \<Rightarrow> bool" where
  "owned_by_other active row =
     list_ex (\<lambda>(route, owner). exchange_of route = exchange_of (order_route row) \<and> owner \<noteq> order_key row) active"

definition activate_short_live_routes :: "pydict list \<Rightarrow> short_state \<Rightarrow> short_state res" where
  "activate_short_live_routes rows st =
     (if rows = [] \<or> list_ex (\<lambda>row. \<not> known_route (dict_get row ''route'')
           \<or> \<not> truthy (dict_get row ''sessionId'') \<or> \<not> truthy (dict_get row ''manifestHash'')) rows
      then Inl (short_error ''SHORT_LIVE_EXACT_ACTIVATION_REQUIRED'')
      else if list_ex (owned_by_other (sl_active st)) rows
      then Inl (short_error ''SHORT_LIVE_EXCHANGE_ALREADY_OWNED'')
      else Inr (st\<lparr>sl_active := fold (\<lambda>row. assoc_put (order_route row) (order_key row)) rows (sl_active st)\<rparr>))"

definition release_short_live_routes :: "string \<Rightarrow> string \<Rightarrow> short_state \<Rightarrow> short_state" where
  "release_short_live_routes session manifest st =
     st\<lparr>sl_active := filter (\<lambda>(_, key). key \<noteq> (session, manifest)) (sl_active st)\<rparr>"

subsection \<open>The authority check\<close>

definition allowed_operations :: "pydict \<Rightarrow> string \<Rightarrow> string list" where
  "allowed_operations order route =
     (let pre = (if route = ''BINANCE_SPOT'' then ''SPOT_'' else if route = ''BINANCE_USDM_FUTURES'' then ''FUTURES_'' else []);
          operation = dict_get order ''operation''
      in if operation = PStr ''PROTECT'' then [''FUTURES_PROTECT'']
         else if operation = PStr ''CANCEL_PROTECTION'' then [''FUTURES_CANCEL_PROTECTION'']
         else if operation = PStr ''CANCEL'' then [''CANCEL_ORDER'', pre @ ''CANCEL_ORDER'']
         else [''PLACE_ORDER'', pre @ ''PLACE_ORDER''])"

definition check_short_live_authority ::
  "short_state \<Rightarrow> nat \<Rightarrow> string \<Rightarrow> string option \<Rightarrow> bool res" where
  "check_short_live_authority st thread exchange operation =
     (let active = filter (\<lambda>(route, _). exchange_of route = exchange) (sl_active st)
      in case sl_dispatch st thread of
           None \<Rightarrow> if active = [] then Inr False else Inl (short_error ''SHORT_LIVE_EXCLUSIVE_ROUTE_FENCE'')
         | Some context \<Rightarrow>
             if active = []
             then (if dp_exchange context = exchange then Inl (short_error ''SHORT_LIVE_ROUTE_NOT_ACTIVE'') else Inr False)
             else if dp_exchange context \<noteq> exchange \<or> dp_thread context \<noteq> thread
             then Inl (short_error ''SHORT_LIVE_EXCLUSIVE_ROUTE_FENCE'')
             else
               res_bind (if map_of active (dp_route context) \<noteq> Some (order_key (dp_order context)) then Inr False
                   else res_bind (short_digest (dp_order context)) (\<lambda>digest.
                        if digest \<noteq> dp_order_hash context then Inr False
                        else res_bind (dp_guard context (dp_order context)) (\<lambda>v. Inr (v = PBool True)))) (\<lambda>bound.
               res_bind (require bound (short_error ''SHORT_LIVE_DURABLE_RESERVATION_CHANGED'')) (\<lambda>_.
               case operation of
                 None \<Rightarrow> Inr True
               | Some named \<Rightarrow>
                   res_bind (require (dp_entered context) (short_error ''SHORT_LIVE_ROUTER_ENTRY_REQUIRED'')) (\<lambda>_.
                   res_bind (require (named \<in> set (allowed_operations (dp_order context) (dp_route context)))
                     (short_error ''SHORT_LIVE_OPERATION_MISMATCH'')) (\<lambda>_. Inr True)))))"

subsection \<open>The dispatch of one order\<close>

definition leave_dispatch :: "nat \<Rightarrow> short_state \<Rightarrow> short_state" where
  "leave_dispatch thread st = st\<lparr>sl_dispatch := (sl_dispatch st)(thread := None)\<rparr>"

text \<open>Entering \<open>short_live_dispatch\<close>; on an error the context is gone again.\<close>

definition enter_dispatch ::
  "nat \<Rightarrow> pydict \<Rightarrow> pydict \<Rightarrow> (pydict \<Rightarrow> pyval res) \<Rightarrow> short_state \<Rightarrow> short_state res" where
  "enter_dispatch thread order native guard st =
     res_bind (require (sl_dispatch st thread = None) (short_error ''SHORT_LIVE_NESTED_OR_UNOWNED_DISPATCH'')) (\<lambda>_.
     res_bind (require (known_route (dict_get order ''route'')) (short_error ''SHORT_LIVE_ROUTE_INVALID'')) (\<lambda>_.
     res_bind (exact_native order native) (\<lambda>_.
     res_bind (short_digest order) (\<lambda>order_hash.
     res_bind (short_digest native) (\<lambda>native_hash.
     let exchange = exchange_of (order_route order);
         st' = st\<lparr>sl_dispatch := (sl_dispatch st)(thread := Some
           \<lparr>dp_order = order, dp_order_hash = order_hash, dp_native_hash = native_hash, dp_guard = guard,
            dp_exchange = exchange, dp_route = order_route order, dp_thread = thread, dp_entered = False, dp_wire = False\<rparr>)\<rparr>
     in res_bind (check_short_live_authority st' thread exchange None) (\<lambda>_. Inr st'))))))"

definition validate_native_payload :: "nat \<Rightarrow> pydict \<Rightarrow> short_state \<Rightarrow> short_state res" where
  "validate_native_payload thread native st =
     (case sl_dispatch st thread of
        None \<Rightarrow> Inr st
      | Some context \<Rightarrow>
          res_bind (if dp_entered context then Inr True
              else res_bind (short_digest native) (\<lambda>digest. Inr (digest \<noteq> dp_native_hash context))) (\<lambda>refused.
          res_bind (require (\<not> refused) (short_error ''SHORT_LIVE_NATIVE_PAYLOAD_CHANGED_OR_REUSED'')) (\<lambda>_.
          res_bind (check_short_live_authority st thread (dp_exchange context) None) (\<lambda>_.
          Inr (st\<lparr>sl_dispatch := (sl_dispatch st)(thread := Some (context\<lparr>dp_entered := True\<rparr>))\<rparr>)))))"

definition validate_normalized_payload ::
  "nat \<Rightarrow> pydict \<Rightarrow> short_state \<Rightarrow> unit res" where
  "validate_normalized_payload thread native st =
     (case sl_dispatch st thread of
        None \<Rightarrow> Inr ()
      | Some context \<Rightarrow> exact_native (dp_order context) native)"

end
