(* ===== verification/Short_Wire.thy ===== *)
theory Short_Wire
  imports Short_Authority
begin

section \<open>The HTTP request of a reserved order\<close>

text \<open>
  \<open>validate_short_live_prepared_request\<close> of \<open>short_live_order_authority.py\<close>: the request about to be sent
  is compared with the reserved order of the dispatch. \<open>url_split\<close> and \<open>parse_qsl\<close> are those of
  \<open>urllib.parse\<close>; an address in brackets is only checked for balance, and percent-encoded bytes are kept
  where Python would replace bytes that are not UTF-8. A missing body is the empty one.
\<close>

record prepared_request =
  pr_provider :: string
  pr_method :: string
  pr_url :: string
  pr_endpoint :: string
  pr_body :: pydict
  pr_headers :: pydict

subsection \<open>\<open>urllib.parse\<close>\<close>

record url_parts =
  up_scheme :: string
  up_netloc :: string
  up_path :: string
  up_query :: string
  up_fragment :: string

text \<open>\<open>s.split(sep, 1)\<close>, and whether there was a separator.\<close>

definition split_once :: "char \<Rightarrow> string \<Rightarrow> string \<times> string option" where
  "split_once sep s =
     (let a = takeWhile (\<lambda>c. c \<noteq> sep) s
      in (a, case drop (length a) s of [] \<Rightarrow> None | _ # t \<Rightarrow> Some t))"

definition scheme_char :: "char \<Rightarrow> bool" where
  "scheme_char c \<longleftrightarrow> is_alnum c \<or> c \<in> {CHR ''+'', CHR ''-'', CHR ''.''}"

definition split_scheme :: "string \<Rightarrow> string \<times> string" where
  "split_scheme url =
     (case split_once (CHR '':'') url of
        (a, Some rest) \<Rightarrow> if a \<noteq> [] \<and> list_all scheme_char a \<and> \<not> is_digit (hd a) \<and> is_alnum (hd a)
                         then (lower a, rest) else ([], url)
      | (_, None) \<Rightarrow> ([], url))"

definition unbalanced_brackets :: "string \<Rightarrow> bool" where
  "unbalanced_brackets s \<longleftrightarrow> (CHR ''['' \<in> set s) \<noteq> (CHR '']'' \<in> set s)"

definition url_split :: "string \<Rightarrow> url_parts res" where
  "url_split text =
     (let url = filter (\<lambda>c. code c \<notin> {9, 10, 13}) (dropWhile (\<lambda>c. code c \<le> 32) text);
          (scheme, after_scheme) = split_scheme url;
          slashes = (take 2 after_scheme = ''//'');
          netloc = (if slashes then takeWhile (\<lambda>c. c \<notin> {CHR ''/'', CHR ''?'', CHR ''#''}) (drop 2 after_scheme) else []);
          tail = (if slashes then drop (2 + length netloc) after_scheme else after_scheme);
          (front, fragment) = split_once (CHR ''#'') tail;
          (path, query) = split_once (CHR ''?'') front
      in if unbalanced_brackets netloc then Inl (ValueError ''Invalid IPv6 URL'')
         else Inr \<lparr>up_scheme = scheme, up_netloc = netloc, up_path = path,
                   up_query = (case query of None \<Rightarrow> [] | Some q \<Rightarrow> q),
                   up_fragment = (case fragment of None \<Rightarrow> [] | Some f \<Rightarrow> f)\<rparr>)"

definition hex_value :: "char \<Rightarrow> nat option" where
  "hex_value c =
     (if is_digit c then Some (code c - 48)
      else if 97 \<le> code c \<and> code c \<le> 102 then Some (code c - 87)
      else if 65 \<le> code c \<and> code c \<le> 70 then Some (code c - 55) else None)"

fun unquote_plus :: "string \<Rightarrow> string" where
  "unquote_plus [] = []"
| "unquote_plus (c # cs) =
     (if c = CHR ''+'' then CHR '' '' # unquote_plus cs
      else if c = CHR ''%'' then
        (case cs of
           a # b # ds \<Rightarrow> (case (hex_value a, hex_value b) of
               (Some x, Some y) \<Rightarrow> char_of (16 * x + y) # unquote_plus ds
             | _ \<Rightarrow> c # unquote_plus cs)
         | _ \<Rightarrow> c # unquote_plus cs)
      else c # unquote_plus cs)"

lemma split_once_shorter: "split_once sep s = (a, Some rest) \<Longrightarrow> length rest < length s"
proof -
  assume split: "split_once sep s = (a, Some rest)"
  then have "drop (length a) s = hd (drop (length a) s) # rest"
    by (auto simp: split_once_def Let_def split: list.splits)
  then have "length (drop (length a) s) = Suc (length rest)" by (metis length_Cons)
  then show ?thesis by simp
qed

function split_all :: "char \<Rightarrow> string \<Rightarrow> string list" where
  "split_all sep s =
     (case split_once sep s of (a, None) \<Rightarrow> [a] | (a, Some rest) \<Rightarrow> a # split_all sep rest)"
  by pat_completeness auto
termination
  by (relation "measure (\<lambda>(_, s). length s)") (auto dest!: sym [THEN split_once_shorter] split_once_shorter)

declare split_all.simps [simp del]

definition parse_pair :: "string \<Rightarrow> string \<times> string" where
  "parse_pair s =
     (case split_once (CHR ''='') s of
        (k, v) \<Rightarrow> (unquote_plus k, unquote_plus (case v of None \<Rightarrow> [] | Some w \<Rightarrow> w)))"

definition parse_qsl :: "string \<Rightarrow> (string \<times> string) list" where
  "parse_qsl query = map parse_pair (filter (\<lambda>s. s \<noteq> []) (split_all (CHR ''&'') query))"

text \<open>The query as a dict of texts.\<close>

definition query_dict :: "(string \<times> string) list \<Rightarrow> pydict" where
  "query_dict pairs = map (\<lambda>(k, v). (k, PStr v)) pairs"

subsection \<open>The checks of one route\<close>

definition expected_hosts :: "(string \<times> string) list" where
  "expected_hosts = [(''KIS_KR_CASH'', ''openapi.koreainvestment.com:9443''), (''BINANCE_SPOT'', ''api.binance.com''),
     (''BINANCE_USDM_FUTURES'', ''fapi.binance.com''), (''UPBIT_KRW_SPOT'', ''api.upbit.com'')]"

definition order_cancels :: "pydict \<Rightarrow> bool" where
  "order_cancels order \<longleftrightarrow> dict_get order ''operation'' \<in> {PStr ''CANCEL'', PStr ''CANCEL_PROTECTION''}"

definition order_protects :: "pydict \<Rightarrow> bool" where
  "order_protects order \<longleftrightarrow> dict_get order ''operation'' \<in> {PStr ''PROTECT'', PStr ''CANCEL_PROTECTION''}"

definition wire_operation :: "pydict \<Rightarrow> string" where
  "wire_operation order =
     (if order_protects order then (if order_cancels order then ''FUTURES_CANCEL_PROTECTION'' else ''FUTURES_PROTECT'')
      else if order_cancels order then ''CANCEL_ORDER'' else ''PLACE_ORDER'')"

definition differs :: "pyval \<Rightarrow> pyval \<Rightarrow> unit \<Rightarrow> bool res" where
  "differs v w _ = Inr (\<not> py_eq v w)"

definition number_differs :: "pyval \<Rightarrow> pyval \<Rightarrow> unit \<Rightarrow> bool res" where
  "number_differs v w _ = res_bind (same_positive v w) (\<lambda>b. Inr (\<not> b))"

text \<open>Raises when one of the conditions holds, or when evaluating one raises.\<close>

definition refuse_any :: "(unit \<Rightarrow> bool res) list \<Rightarrow> string \<Rightarrow> unit res" where
  "refuse_any conditions label = res_bind (any_of conditions) (\<lambda>b. require (\<not> b) (short_error label))"

definition expected_protection :: "pydict \<Rightarrow> pydict" where
  "expected_protection order =
     (let rq = dict_get order in
      if order_cancels order then [(''algoId'', PStr (py_str (rq ''algoId'')))]
      else [(''algoType'', PStr ''CONDITIONAL''), (''symbol'', rq ''symbol''), (''side'', rq ''side''),
            (''type'', PStr ''STOP_MARKET''), (''triggerPrice'', PStr (py_str (rq ''triggerPrice''))),
            (''positionSide'', PStr (if rq ''positionMode'' = PStr ''HEDGE'' then upper (py_str (rq ''positionDirection'')) else ''BOTH'')),
            (''closePosition'', PStr ''true''), (''workingType'', PStr ''MARK_PRICE''), (''priceProtect'', PStr ''false''),
            (''clientAlgoId'', rq ''clientAlgoId'')])"

definition wire_protection :: "string \<Rightarrow> pydict \<Rightarrow> prepared_request \<Rightarrow> pydict \<Rightarrow> unit res" where
  "wire_protection route order prepared query =
     (let unsigned = filter (\<lambda>(k, _). k \<notin> {''timestamp'', ''signature'', ''recvWindow''}) query;
          expected = expected_protection order in
      res_bind (require (route = ''BINANCE_USDM_FUTURES'' \<and> pr_endpoint prepared = ''/fapi/v1/algoOrder''
          \<and> pr_method prepared = (if order_cancels order then ''DELETE'' else ''POST'') \<and> pr_body prepared = [])
        (short_error ''SHORT_LIVE_PROTECTION_WIRE_CHANGED'')) (\<lambda>_.
      res_bind (if \<not> order_cancels order \<and> ''triggerPrice'' \<in> set (map fst unsigned)
          then res_bind (same_positive (dict_get unsigned ''triggerPrice'') (dict_get expected ''triggerPrice'')) (\<lambda>b.
               res_bind (require b (short_error ''SHORT_LIVE_PROTECTION_TRIGGER_CHANGED'')) (\<lambda>_.
               Inr (assoc_put ''triggerPrice'' (dict_get expected ''triggerPrice'') unsigned)))
          else Inr unsigned) (\<lambda>seen.
      require (py_eq (PDict seen) (PDict expected)) (short_error ''SHORT_LIVE_PROTECTION_RESERVED_WIRE_CHANGED''))))"

definition wire_kis :: "pydict \<Rightarrow> prepared_request \<Rightarrow> unit res" where
  "wire_kis order prepared =
     (let rq = dict_get order; body = dict_get (pr_body prepared); cancel = order_cancels order in
      res_bind (require (pr_method prepared = ''POST''
          \<and> pr_endpoint prepared = ''/uapi/domestic-stock/v1/trading/'' @ (if cancel then ''order-rvsecncl'' else ''order-cash'')
          \<and> body ''ORD_DVSN'' = PStr ''00'')
        (short_error ''SHORT_LIVE_KIS_DOMESTIC_LIMIT_WIRE_REQUIRED'')) (\<lambda>_.
      if cancel
      then refuse_any
        [\<lambda>_. Inr (py_str (body ''ORGN_ODNO'') \<noteq> py_str (rq ''brokerOrderId'')),
         \<lambda>_. Inr (py_str (body ''KRX_FWDG_ORD_ORGNO'') \<noteq> py_str (rq ''organizationNo'')),
         differs (body ''RVSE_CNCL_DVSN_CD'') (PStr ''02''),
         number_differs (body ''ORD_QTY'') (rq ''remainingQuantity'')]
        ''SHORT_LIVE_KIS_OWNED_CANCEL_WIRE_CHANGED''
      else refuse_any
        [differs (body ''PDNO'') (rq ''symbol''),
         number_differs (body ''ORD_QTY'') (rq ''quantity''),
         number_differs (body ''ORD_UNPR'') (rq ''referencePrice''),
         differs (dict_get (pr_headers prepared) ''tr_id'')
           (PStr (if rq ''side'' = PStr ''BUY'' then ''TTTC0012U'' else ''TTTC0011U''))]
        ''SHORT_LIVE_KIS_RESERVED_WIRE_CHANGED''))"

definition wire_futures_side :: "pydict \<Rightarrow> pydict \<Rightarrow> unit res" where
  "wire_futures_side order query =
     (let rq = dict_get order; hedge = (rq ''positionMode'' = PStr ''HEDGE'');
          direction = (if ''positionDirection'' \<in> set (map fst order) then rq ''positionDirection'' else PStr ''long'');
          expected = (if hedge then upper (py_str direction) else ''BOTH'')
      in require (dict_get query ''positionSide'' = PStr expected
           \<and> \<not> (hedge \<and> ''reduceOnly'' \<in> set (map fst query))
           \<and> \<not> (\<not> hedge \<and> rq ''riskReducing'' = PBool True \<and> dict_get query ''reduceOnly'' \<noteq> PStr ''true''))
         (short_error ''SHORT_LIVE_FUTURES_OWNED_SIDE_WIRE_CHANGED''))"

definition wire_binance :: "pydict \<Rightarrow> prepared_request \<Rightarrow> pydict \<Rightarrow> unit res" where
  "wire_binance order prepared query =
     (let rq = dict_get order; qv = dict_get query; cancel = order_cancels order;
          futures = (rq ''route'' = PStr ''BINANCE_USDM_FUTURES''); emergency = (rq ''operation'' = PStr ''EMERGENCY_CLOSE'') in
      res_bind (require (pr_endpoint prepared = (if futures then ''/fapi/v1/order'' else ''/api/v3/order'')
          \<and> pr_method prepared = (if cancel then ''DELETE'' else ''POST'') \<and> py_eq (qv ''symbol'') (rq ''symbol''))
        (short_error ''SHORT_LIVE_BINANCE_ORDER_WIRE_CHANGED'')) (\<lambda>_.
      if cancel
      then require (qv ''orderId'' = PStr (py_str (rq ''brokerOrderId'')))
        (short_error ''SHORT_LIVE_BINANCE_OWNED_CANCEL_CHANGED'')
      else
        res_bind (refuse_any
          [differs (qv ''newClientOrderId'') (rq ''clientOrderId''),
           differs (qv ''side'') (rq ''side''),
           differs (qv ''type'') (PStr (if emergency then ''MARKET'' else ''LIMIT'')),
           number_differs (qv ''quantity'') (rq ''quantity''),
           (\<lambda>u. if emergency then Inr False else number_differs (qv ''price'') (rq ''referencePrice'') u),
           \<lambda>_. Inr (emergency \<and> (\<exists>k \<in> {''price'', ''timeInForce'', ''closePosition''}. k \<in> set (map fst query)))]
          ''SHORT_LIVE_BINANCE_RESERVED_WIRE_CHANGED'') (\<lambda>_.
        if futures then wire_futures_side order query else Inr ())))"

definition wire_upbit :: "pydict \<Rightarrow> prepared_request \<Rightarrow> pydict \<Rightarrow> unit res" where
  "wire_upbit order prepared query =
     (let rq = dict_get order; body = dict_get (pr_body prepared); cancel = order_cancels order in
      res_bind (require (pr_endpoint prepared = ''/v1/order'' \<or> (\<not> cancel \<and> pr_endpoint prepared = ''/v1/orders''))
        (short_error ''SHORT_LIVE_UPBIT_ORDER_WIRE_CHANGED'')) (\<lambda>_.
      if cancel
      then require (pr_method prepared = ''DELETE'' \<and> dict_get query ''uuid'' = PStr (py_str (rq ''brokerOrderId'')))
        (short_error ''SHORT_LIVE_UPBIT_OWNED_CANCEL_CHANGED'')
      else refuse_any
        [\<lambda>_. Inr (pr_method prepared \<noteq> ''POST''),
         differs (body ''market'') (rq ''symbol''),
         differs (body ''identifier'') (rq ''clientOrderId''),
         differs (body ''ord_type'') (PStr ''limit''),
         differs (body ''side'') (PStr (if rq ''side'' = PStr ''BUY'' then ''bid'' else ''ask'')),
         number_differs (body ''volume'') (rq ''quantity''),
         number_differs (body ''price'') (rq ''referencePrice'')]
        ''SHORT_LIVE_UPBIT_RESERVED_WIRE_CHANGED''))"

subsection \<open>The whole check\<close>

definition wire_checks :: "dispatch \<Rightarrow> prepared_request \<Rightarrow> unit res" where
  "wire_checks context prepared =
     (let order = dp_order context; route = order_route order in
      res_bind (require (pr_provider prepared = provider_of route) (short_error ''SHORT_LIVE_WIRE_PROVIDER_CHANGED'')) (\<lambda>_.
      res_bind (url_split (pr_url prepared)) (\<lambda>parsed.
      res_bind (require (up_scheme parsed = ''https'' \<and> map_of expected_hosts route = Some (up_netloc parsed)
          \<and> up_path parsed = pr_endpoint prepared \<and> up_fragment parsed = [])
        (short_error ''SHORT_LIVE_OFFICIAL_WIRE_ORIGIN_REQUIRED'')) (\<lambda>_.
      let pairs = parse_qsl (up_query parsed); query = query_dict pairs in
      res_bind (require (distinct (map fst pairs)) (short_error ''SHORT_LIVE_DUPLICATE_WIRE_QUERY'')) (\<lambda>_.
      if order_protects order then wire_protection (dp_route context) order prepared query
      else if dp_exchange context = ''KIS'' then wire_kis order prepared
      else if dp_exchange context = ''BINANCE'' then wire_binance order prepared query
      else wire_upbit order prepared query)))))"

definition validate_prepared_request ::
  "nat \<Rightarrow> bool \<Rightarrow> prepared_request \<Rightarrow> short_state \<Rightarrow> short_state res" where
  "validate_prepared_request thread consume prepared st =
     (case sl_dispatch st thread of
        None \<Rightarrow> Inr st
      | Some context \<Rightarrow>
          if upper (pr_method prepared) = ''GET'' then Inr st
          else
            res_bind (check_short_live_authority st thread (dp_exchange context)
                (Some (wire_operation (dp_order context)))) (\<lambda>_.
            res_bind (wire_checks context prepared) (\<lambda>_.
            if \<not> consume then Inr st
            else res_bind (require (\<not> dp_wire context) (short_error ''SHORT_LIVE_MUTATION_ALREADY_ATTEMPTED'')) (\<lambda>_.
                 Inr (st\<lparr>sl_dispatch := (sl_dispatch st)(thread := Some (context\<lparr>dp_wire := True\<rparr>))\<rparr>)))))"

end
