(* ===== verification/Stop_Latch.thy ===== *)
theory Stop_Latch
  imports Py_Hash
begin

section \<open>The emergency stop latch\<close>

text \<open>
  \<open>emergency_stop.py\<close>: the Kill switch, a JSON document on disk with a marker file beside it, and two
  process-local variables that remember a failed write and the last ON document seen. A file is what
  the reader finds at its path; a write may fail with an \<open>OSError\<close>, before or after the marker was
  created, or because the text cannot be encoded, and another process may replace the files before the
  write is verified. \<open>secrets.compare_digest\<close> refuses texts that are not ASCII. The clock, the process id and the nonce are arguments. The locks make every
  operation one step; paths are configuration and left out of the statuses.
\<close>

datatype disk_file =
    Absent
  | Hidden string
  | Broken string
  | Holds pyval

record latch =
  la_doc :: disk_file
  la_marker :: disk_file
  la_reason :: string
  la_revision :: string

record latch_status =
  st_active :: bool
  st_durable :: bool
  st_status :: string
  st_reason :: string
  st_source :: "string option"
  st_updated :: "string option"
  st_revision :: "string option"
  st_durable_revision :: "string option"

record latch_answer =
  an_ok :: bool
  an_status :: latch_status

record document_env =
  de_time :: string
  de_pid :: int
  de_nonce :: string

text \<open>A slice \<open>s[:n]\<close> keeps \<open>n\<close> code points.\<close>

fun take_points :: "nat \<Rightarrow> string \<Rightarrow> string" where
  "take_points n [] = []"
| "take_points n (c # cs) =
     (if 128 \<le> code c \<and> code c < 192 then c # take_points n cs
      else case n of 0 \<Rightarrow> [] | Suc m \<Rightarrow> c # take_points m cs)"

definition or_text :: "string \<Rightarrow> string \<Rightarrow> string" where
  "or_text s d = (if s = [] then d else s)"

subsection \<open>Writing the document\<close>

definition stop_document :: "bool \<Rightarrow> string \<Rightarrow> string \<Rightarrow> document_env \<Rightarrow> pydict" where
  "stop_document active reason source env =
     [(''schemaVersion'', PInt 1), (''active'', PBool active), (''updatedAt'', PStr (de_time env)),
      (''reason'', PStr (take_points 500 (or_text reason ''operator emergency stop''))),
      (''source'', PStr (take_points 120 (or_text source ''unknown''))),
      (''writerPid'', PInt (de_pid env)), (''nonce'', PStr (de_nonce env))]"

datatype write_outcome =
    WriteDone
  | WriteFails bool string
  | WriteUnencodable

datatype latch_error =
    OsError string
  | EncodingError
  | DigestArgumentError

definition ensure_marker :: "latch \<Rightarrow> latch" where
  "ensure_marker st =
     (if la_marker st = Absent
      then st\<lparr>la_marker := Holds (PStr ''live-trader-emergency-stop-initialized-v1'')\<rparr> else st)"

definition write_atomic :: "write_outcome \<Rightarrow> pydict \<Rightarrow> latch \<Rightarrow> latch \<times> (latch_error + unit)" where
  "write_atomic io payload st =
     (case io of
        WriteDone \<Rightarrow> ((ensure_marker st)\<lparr>la_doc := Holds (PDict payload)\<rparr>, Inr ())
      | WriteFails marked e \<Rightarrow> (if marked then ensure_marker st else st, Inl (OsError e))
      | WriteUnencodable \<Rightarrow> (ensure_marker st, Inl EncodingError))"

text \<open>Another process may replace the files at any time.\<close>

definition replace_files :: "(disk_file \<times> disk_file) option \<Rightarrow> latch \<Rightarrow> latch" where
  "replace_files files st =
     (case files of None \<Rightarrow> st | Some (doc, marker) \<Rightarrow> st\<lparr>la_doc := doc, la_marker := marker\<rparr>)"

subsection \<open>Reading the status\<close>

definition reader_status :: "string \<Rightarrow> string \<Rightarrow> string \<Rightarrow> latch_status" where
  "reader_status status reason revision =
     \<lparr>st_active = True, st_durable = False, st_status = status, st_reason = reason,
      st_source = Some ''latch-reader'', st_updated = Some [], st_revision = Some revision,
      st_durable_revision = None\<rparr>"

definition equals_one :: "pyval \<Rightarrow> bool" where
  "equals_one v \<longleftrightarrow> v = PInt 1 \<or> v = PBool True \<or> v = PFloat ''1.0''"

definition text_or_empty :: "pydict \<Rightarrow> string \<Rightarrow> string" where
  "text_or_empty d k = py_str (py_or (dict_get d k) (PStr []))"

definition document_status :: "pyval \<Rightarrow> string + latch_status" where
  "document_status payload =
     (case payload of
        PDict d \<Rightarrow>
          if \<not> equals_one (dict_get d ''schemaVersion'') then Inl ''ValueError''
          else (case dict_get d ''active'' of
              PBool active \<Rightarrow>
                let nonce = text_or_empty d ''nonce'' in
                if nonce = [] then Inl ''ValueError''
                else Inr \<lparr>st_active = active, st_durable = True,
                          st_status = (if active then ''engaged'' else ''clear''),
                          st_reason = text_or_empty d ''reason'', st_source = Some (text_or_empty d ''source''),
                          st_updated = Some (text_or_empty d ''updatedAt''), st_revision = Some (sha256_hex nonce),
                          st_durable_revision = None\<rparr>
            | _ \<Rightarrow> Inl ''ValueError'')
      | _ \<Rightarrow> Inl ''ValueError'')"

definition durable_status :: "latch \<Rightarrow> latch_status" where
  "durable_status st =
     (case la_doc st of
        Hidden e \<Rightarrow> reader_status ''fail-closed'' (''emergency-stop-state-presence-unavailable:'' @ e) ''unavailable''
      | Absent \<Rightarrow>
          (case la_marker st of
             Hidden e \<Rightarrow> reader_status ''fail-closed'' (''emergency-stop-marker-presence-unavailable:'' @ e) ''unavailable''
           | Absent \<Rightarrow> \<lparr>st_active = False, st_durable = True, st_status = ''clear'', st_reason = [],
                        st_source = Some [], st_updated = Some [], st_revision = Some ''missing'',
                        st_durable_revision = None\<rparr>
           | _ \<Rightarrow> reader_status ''fail-closed-missing'' ''emergency-stop-state-missing-after-initialization''
                    ''initialized-missing'')
      | Broken e \<Rightarrow> reader_status ''fail-closed'' (''emergency-stop-state-unavailable:'' @ e) ''unavailable''
      | Holds payload \<Rightarrow>
          (case document_status payload of
             Inl e \<Rightarrow> reader_status ''fail-closed'' (''emergency-stop-state-unavailable:'' @ e) ''unavailable''
           | Inr s \<Rightarrow> s))"

definition set_sticky :: "string \<Rightarrow> latch \<Rightarrow> latch" where
  "set_sticky reason st = st\<lparr>la_reason := take_points 500 (or_text reason ''emergency-stop-write-failed'')\<rparr>"

definition revision_text :: "latch_status \<Rightarrow> string" where
  "revision_text s = (case st_revision s of None \<Rightarrow> [] | Some r \<Rightarrow> r)"

definition emergency_stop_status :: "latch \<Rightarrow> latch \<times> latch_status" where
  "emergency_stop_status st =
     (let durable = durable_status st;
          st' = (if st_active durable \<and> st_durable durable then st\<lparr>la_revision := revision_text durable\<rparr> else st)
      in (st',
          if la_reason st' \<noteq> []
          then durable\<lparr>st_active := True, st_durable := False, st_status := ''sticky-fail-closed'',
                 st_reason := la_reason st', st_source := Some ''latch-writer''\<rparr>
          else if la_revision st' \<noteq> [] \<and> \<not> st_active durable
          then durable\<lparr>st_active := True, st_durable := False, st_status := ''sticky-active-state-missing'',
                 st_reason := ''emergency-stop-active-document-disappeared'', st_source := Some ''latch-observer'',
                 st_durable_revision := Some (revision_text durable), st_revision := Some (la_revision st')\<rparr>
          else durable))"

definition emergency_stop_active :: "latch \<Rightarrow> bool" where
  "emergency_stop_active st = st_active (snd (emergency_stop_status st))"

subsection \<open>Kill and release\<close>

definition short_status :: "bool \<Rightarrow> string \<Rightarrow> string \<Rightarrow> latch_status" where
  "short_status durable status reason =
     \<lparr>st_active = True, st_durable = durable, st_status = status, st_reason = reason, st_source = None,
      st_updated = None, st_revision = None, st_durable_revision = None\<rparr>"

definition engage_emergency_stop ::
  "string \<Rightarrow> string \<Rightarrow> document_env \<Rightarrow> write_outcome \<Rightarrow> (disk_file \<times> disk_file) option \<Rightarrow> latch
   \<Rightarrow> latch \<times> (latch_error + latch_answer)" where
  "engage_emergency_stop reason source env io files st =
     (let (st1, written) = write_atomic io (stop_document True reason source env) st
      in case written of
           Inl (OsError e) \<Rightarrow>
             (let failure = ''emergency-stop-write-failed:'' @ e
              in (set_sticky failure st1,
                  Inr \<lparr>an_ok = False, an_status = short_status False ''write-failed-local-fail-closed'' failure\<rparr>))
         | Inl e \<Rightarrow> (st1, Inl e)
         | Inr _ \<Rightarrow>
             (let (st2, status) = emergency_stop_status (replace_files files st1)
              in if \<not> st_active status \<or> \<not> st_durable status
                 then (set_sticky ''emergency-stop-write-verification-failed'' st2,
                       Inr \<lparr>an_ok = False,
                            an_status = status\<lparr>st_reason := ''emergency-stop-write-verification-failed''\<rparr>\<rparr>)
                 else (st2, Inr \<lparr>an_ok = True, an_status = status\<rparr>)))"

definition clear_emergency_stop ::
  "bool \<Rightarrow> string \<Rightarrow> string \<Rightarrow> string \<Rightarrow> document_env \<Rightarrow> write_outcome \<Rightarrow> (disk_file \<times> disk_file) option \<Rightarrow> latch
   \<Rightarrow> latch \<times> (latch_error + latch_answer)" where
  "clear_emergency_stop confirmed reason source expected_revision env io files st =
     (if \<not> confirmed
      then (st, Inr \<lparr>an_ok = False,
                    an_status = short_status True ''release-blocked'' ''emergency-stop-release-confirmation-required''\<rparr>)
      else let (st1, current) = emergency_stop_status st;
               expected = strip expected_revision
           in if expected \<noteq> [] \<and> \<not> list_all (\<lambda>c. code c < 128) expected then (st1, Inl DigestArgumentError)
              else if expected \<noteq> [] \<and> expected \<noteq> revision_text current
              then (st1, Inr \<lparr>an_ok = False,
                     an_status = current\<lparr>st_active := True, st_reason := ''emergency-stop-release-revision-changed''\<rparr>\<rparr>)
              else let (st2, written) = write_atomic io (stop_document False reason source env) st1
                   in case written of
                        Inl (OsError e) \<Rightarrow>
                          (let failure = ''emergency-stop-release-failed:'' @ e
                           in (set_sticky failure st2,
                               Inr \<lparr>an_ok = False, an_status = short_status False ''release-write-failed'' failure\<rparr>))
                      | Inl e \<Rightarrow> (st2, Inl e)
                      | Inr _ \<Rightarrow>
                          (let st3 = replace_files files st2; status = durable_status st3
                           in if st_active status \<or> \<not> st_durable status
                              then (set_sticky ''emergency-stop-release-verification-failed'' st3,
                                    Inr \<lparr>an_ok = False,
                                         an_status = status\<lparr>st_reason := ''emergency-stop-release-verification-failed''\<rparr>\<rparr>)
                              else (st3\<lparr>la_reason := [], la_revision := []\<rparr>, Inr \<lparr>an_ok = True, an_status = status\<rparr>)))"

text \<open>The desktop bridge hands the page its request token, and nothing else.\<close>

definition functional_http_session :: "pydict option \<Rightarrow> pydict" where
  "functional_http_session bootstrap =
     (case bootstrap of
        None \<Rightarrow> [(''ok'', PBool False), (''available'', PBool False)]
      | Some value \<Rightarrow>
          if text_or_empty value ''csrfHeader'' = [] \<or> text_or_empty value ''csrfToken'' = []
             \<or> dict_get value ''appSessionToken'' \<noteq> PNone
          then [(''ok'', PBool False), (''available'', PBool False)]
          else fold (\<lambda>(k, v). assoc_put k v) value [(''ok'', PBool True), (''available'', PBool True)])"

end
