(* ===== verification/Route_Authority.thy ===== *)
theory Route_Authority
  imports Stop_Latch Short_Authority Py_Number
begin

section \<open>The final mutation boundaries of Binance and Upbit\<close>

text \<open>
  \<open>binance_order_authority.py\<close> and \<open>upbit_order_authority.py\<close>: what every order passes right before it is
  sent. A boundary is entered and left by its thread; the thread-local snapshot lets a nested boundary
  reuse the outer one. The state-owned reader is an argument, the sequence of its answers: it may
  raise, and may answer differently each time. The route locks make entering one step.
\<close>

record route_state =
  rt_short :: short_state
  rt_latch :: latch
  rt_binance :: "nat \<Rightarrow> pydict option"
  rt_upbit :: "nat \<Rightarrow> pydict option"

type_synonym reader = "(nat \<Rightarrow> pydict res) option"

subsection \<open>Binance\<close>

definition binance_error :: "string \<Rightarrow> py_error" where
  "binance_error m = CustomError ''BinanceOrderAuthorityError'' m"

text \<open>Readers are numbered; only the registered one may register again.\<close>

definition register_binance_reader :: "nat \<Rightarrow> nat option \<Rightarrow> nat option res" where
  "register_binance_reader reader owner =
     (if owner \<noteq> None \<and> owner \<noteq> Some reader
      then Inl (binance_error ''Binance authority reader is already owned by another state graph'')
      else Inr (Some reader))"

definition binance_required :: "string list" where
  "binance_required = [''functionalAuthorityOpen'', ''functionalPhase'', ''functionalRevision'', ''functionalSessionId'',
     ''functionalAccountFingerprint'', ''applicationInstanceLeaseHeld'', ''ordinaryRoutesClosed'']"

definition binance_snapshot :: "reader \<Rightarrow> nat \<Rightarrow> pydict res" where
  "binance_snapshot reader n =
     (case reader of
        None \<Rightarrow> Inl (binance_error ''state-owned Binance authority reader is not registered'')
      | Some answers \<Rightarrow>
          (case answers n of
             Inl _ \<Rightarrow> Inl (binance_error ''durable Binance authority is unreadable'')
           | Inr value \<Rightarrow>
               if list_all (\<lambda>k. k \<in> set (map fst value)) binance_required then Inr value
               else Inl (binance_error ''durable Binance authority snapshot is incomplete'')))"

definition binance_authority_open :: "reader \<Rightarrow> bool" where
  "binance_authority_open reader =
     (case binance_snapshot reader 0 of
        Inl _ \<Rightarrow> True
      | Inr s \<Rightarrow> (case dict_get s ''functionalAuthorityOpen'' of PBool b \<Rightarrow> b | _ \<Rightarrow> True))"

definition ordinary_binance_enter ::
  "reader \<Rightarrow> nat \<Rightarrow> string \<Rightarrow> route_state \<Rightarrow> route_state \<times> pydict res" where
  "ordinary_binance_enter reader thread operation st =
     (case rt_binance st thread of
        Some inherited \<Rightarrow>
          (st, res_bind (check_short_live_authority (rt_short st) thread ''BINANCE'' (Some operation)) (\<lambda>_. Inr inherited))
      | None \<Rightarrow>
          (let (latch, emergency) = emergency_stop_status (rt_latch st);
               st1 = st\<lparr>rt_latch := latch\<rparr>
           in if st_active emergency
              then (st1, Inl (binance_error (''Binance '' @ operation @ '' blocked by durable emergency stop'')))
              else (case
                res_bind (check_short_live_authority (rt_short st) thread ''BINANCE'' (Some operation)) (\<lambda>short_scope.
                res_bind (binance_snapshot reader 0) (\<lambda>snapshot.
                res_bind (require (dict_get snapshot ''applicationInstanceLeaseHeld'' = PBool True)
                  (binance_error ''Binance mutation requires the official application lease'')) (\<lambda>_.
                res_bind (require (short_scope \<or> dict_get snapshot ''functionalAuthorityOpen'' = PBool False)
                  (binance_error ''ordinary Binance mutation blocked by functional authority'')) (\<lambda>_.
                Inr snapshot)))) of
                  Inl e \<Rightarrow> (st1, Inl e)
                | Inr snapshot \<Rightarrow> (st1\<lparr>rt_binance := (rt_binance st)(thread := Some snapshot)\<rparr>, Inr snapshot))))"

definition ordinary_binance_leave :: "nat \<Rightarrow> route_state \<Rightarrow> route_state" where
  "ordinary_binance_leave thread st = st\<lparr>rt_binance := (rt_binance st)(thread := None)\<rparr>"

definition compare_digest :: "string \<Rightarrow> string \<Rightarrow> bool res" where
  "compare_digest a b =
     (if list_all (\<lambda>c. code c < 128) (a @ b) then Inr (a = b)
      else Inl (TypeError ''comparing strings with non-ASCII characters is not supported''))"

definition last_part :: "string \<Rightarrow> string" where
  "last_part s = rev (takeWhile (\<lambda>c. c \<noteq> CHR ''-'') (rev s))"

text \<open>What the yielded reader answers for one snapshot.\<close>

definition binance_functional_read ::
  "latch_status \<Rightarrow> pyval \<Rightarrow> bool \<Rightarrow> pyval \<Rightarrow> pydict \<Rightarrow> pydict res" where
  "binance_functional_read emergency session_id cleanup_only expected_revision snapshot =
     (let phase = upper (py_str (py_or (dict_get snapshot ''functionalPhase'') (PStr [])));
          session = py_str (py_or session_id (PStr []));
          expected_text = py_str (py_or expected_revision (PStr [])) in
      res_bind (py_int (py_or (dict_get snapshot ''functionalRevision'') (PInt 0))) (\<lambda>actual.
      res_bind (if expected_text = [] then Inr None
                else res_bind (int_of_text (last_part expected_text)) (\<lambda>n. Inr (Some n))) (\<lambda>expected.
      res_bind (if dict_get snapshot ''functionalAuthorityOpen'' = PBool True
                   \<and> dict_get snapshot ''applicationInstanceLeaseHeld'' = PBool True
                then compare_digest (text_or_empty snapshot ''functionalSessionId'') session
                else Inr False) (\<lambda>same_session.
      let matches = (same_session \<and> phase = (if cleanup_only then ''CLEANUP'' else ''ACTIVE'')
            \<and> (expected = None \<or> expected = Some actual) \<and> \<not> (st_active emergency \<and> \<not> cleanup_only))
      in Inr (dict_update snapshot
           [(''active'', PBool matches), (''sessionId'', PStr session), (''cleanupOnly'', PBool cleanup_only),
            (''emergencyRevision'', PStr (revision_text emergency)), (''emergencyActive'', PBool (st_active emergency))])))))"

definition functional_binance_enter ::
  "reader \<Rightarrow> nat \<Rightarrow> pyval \<Rightarrow> bool \<Rightarrow> pyval \<Rightarrow> route_state \<Rightarrow> route_state \<times> pydict res" where
  "functional_binance_enter reader thread session_id cleanup_only expected_revision st =
     (case check_short_live_authority (rt_short st) thread ''BINANCE'' None of
        Inl e \<Rightarrow> (st, Inl e)
      | Inr _ \<Rightarrow>
          (let (latch, emergency) = emergency_stop_status (rt_latch st);
               st1 = st\<lparr>rt_latch := latch\<rparr>
           in (st1,
               if st_active emergency \<and> \<not> cleanup_only
               then Inl (binance_error ''functional entry blocked by durable emergency stop'')
               else
                 res_bind (binance_snapshot reader 0) (\<lambda>snapshot.
                 res_bind (binance_functional_read emergency session_id cleanup_only expected_revision snapshot) (\<lambda>initial.
                 res_bind (require (dict_get initial ''active'' = PBool True)
                   (binance_error ''functional Binance phase/session/revision authority changed'')) (\<lambda>_.
                 Inr initial))))))"

subsection \<open>Upbit\<close>

definition upbit_error :: "string \<Rightarrow> py_error" where
  "upbit_error m = CustomError ''UpbitOrderAuthorityError'' m"

definition register_upbit_reader :: "nat \<Rightarrow> nat option \<Rightarrow> nat option res" where
  "register_upbit_reader reader owner =
     (if owner \<noteq> None \<and> owner \<noteq> Some reader
      then Inl (upbit_error ''Upbit authority reader is already owned by another state graph'')
      else Inr (Some reader))"

definition upbit_required :: "string list" where
  "upbit_required = [''functionalAuthorityOpen'', ''applicationInstanceLeaseHeld'', ''ordinaryMutationEnabled'', ''ordinaryRoutesClosed'']"

definition is_bool :: "pyval \<Rightarrow> bool" where
  "is_bool v = (case v of PBool _ \<Rightarrow> True | _ \<Rightarrow> False)"

definition upbit_snapshot :: "reader \<Rightarrow> nat \<Rightarrow> pydict res" where
  "upbit_snapshot reader n =
     (case reader of
        None \<Rightarrow> Inl (upbit_error ''state-owned Upbit authority reader is not registered'')
      | Some answers \<Rightarrow>
          (case answers n of
             Inl _ \<Rightarrow> Inl (upbit_error ''durable Upbit authority is unreadable'')
           | Inr value \<Rightarrow>
               if list_all (\<lambda>k. is_bool (dict_get value k)) upbit_required then Inr value
               else Inl (upbit_error ''durable Upbit authority snapshot is incomplete'')))"

definition upbit_ordinary_snapshot :: "reader \<Rightarrow> nat \<Rightarrow> nat \<Rightarrow> route_state \<Rightarrow> pydict res" where
  "upbit_ordinary_snapshot reader n thread st =
     res_bind (check_short_live_authority (rt_short st) thread ''UPBIT'' None) (\<lambda>short_scope.
     res_bind (upbit_snapshot reader n) (\<lambda>snapshot.
     res_bind (require (short_scope \<or> dict_get snapshot ''functionalAuthorityOpen'' = PBool False)
       (upbit_error ''upbit-functional-authority-blocks-ordinary-mutation'')) (\<lambda>_.
     res_bind (require (dict_get snapshot ''applicationInstanceLeaseHeld'' = PBool True)
       (upbit_error ''ordinary-upbit-mutation-application-lease-required'')) (\<lambda>_.
     res_bind (require (short_scope \<or> dict_get snapshot ''ordinaryMutationEnabled'' = PBool True)
       (upbit_error ''ordinary-upbit-mutation-real-orders-disabled'')) (\<lambda>_.
     res_bind (require (short_scope \<or> dict_get snapshot ''ordinaryRoutesClosed'' = PBool False)
       (upbit_error ''ordinary-upbit-routes-closed'')) (\<lambda>_.
     Inr snapshot))))))"

definition upbit_authority_open :: "reader \<Rightarrow> bool" where
  "upbit_authority_open reader =
     (case upbit_snapshot reader 0 of Inl _ \<Rightarrow> True | Inr s \<Rightarrow> dict_get s ''functionalAuthorityOpen'' \<noteq> PBool False)"

definition optional_entry :: "string \<Rightarrow> string option \<Rightarrow> pydict" where
  "optional_entry k v = (case v of None \<Rightarrow> [] | Some s \<Rightarrow> [(k, PStr s)])"

definition status_dict :: "latch_status \<Rightarrow> pydict" where
  "status_dict s =
     [(''active'', PBool (st_active s)), (''durable'', PBool (st_durable s)), (''status'', PStr (st_status s)),
      (''reason'', PStr (st_reason s))]
     @ optional_entry ''source'' (st_source s) @ optional_entry ''updatedAt'' (st_updated s)
     @ optional_entry ''revision'' (st_revision s) @ optional_entry ''durableRevision'' (st_durable_revision s)"

definition ordinary_upbit_enter ::
  "reader \<Rightarrow> nat \<Rightarrow> string \<Rightarrow> route_state \<Rightarrow> route_state \<times> pydict res" where
  "ordinary_upbit_enter reader thread operation st =
     (case rt_upbit st thread of
        Some inherited \<Rightarrow>
          (st, res_bind (check_short_live_authority (rt_short st) thread ''UPBIT'' (Some operation)) (\<lambda>_.
               res_bind (upbit_ordinary_snapshot reader 0 thread st) (\<lambda>final.
               Inr (dict_update inherited final))))
      | None \<Rightarrow>
          (case upbit_ordinary_snapshot reader 0 thread st of
             Inl e \<Rightarrow> (st, Inl e)
           | Inr _ \<Rightarrow>
               (let (latch, emergency) = emergency_stop_status (rt_latch st);
                    st1 = st\<lparr>rt_latch := latch\<rparr>
                in if st_active emergency
                   then (st1, Inl (upbit_error (''ordinary Upbit '' @ operation @ '' blocked by durable emergency stop'')))
                   else (case
                     res_bind (check_short_live_authority (rt_short st) thread ''UPBIT'' (Some operation)) (\<lambda>_.
                     upbit_ordinary_snapshot reader 1 thread st) of
                       Inl e \<Rightarrow> (st1, Inl e)
                     | Inr final \<Rightarrow>
                         (let composite = dict_update (dict_update final (status_dict emergency))
                                [(''boundaryOwner'', PStr ''UPBIT_SHARED_ROUTE'')]
                          in (st1\<lparr>rt_upbit := (rt_upbit st)(thread := Some composite)\<rparr>, Inr composite))))))"

definition ordinary_upbit_leave :: "nat \<Rightarrow> route_state \<Rightarrow> route_state" where
  "ordinary_upbit_leave thread st = st\<lparr>rt_upbit := (rt_upbit st)(thread := None)\<rparr>"

subsection \<open>The owned lock\<close>

text \<open>\<open>OwnedRLock\<close>: a reentrant lock and each thread's own count. Acquiring returns whether the lock was
  taken; a blocking call returns only once it was.\<close>

record owned_lock =
  lk_owner :: "nat option"
  lk_count :: nat
  lk_depth :: "nat \<Rightarrow> int option"

definition lock_depth :: "owned_lock \<Rightarrow> nat \<Rightarrow> int" where
  "lock_depth l thread = (case lk_depth l thread of None \<Rightarrow> 0 | Some d \<Rightarrow> d)"

definition lock_acquire :: "nat \<Rightarrow> owned_lock \<Rightarrow> owned_lock \<times> bool" where
  "lock_acquire thread l =
     (if lk_owner l = None \<or> lk_owner l = Some thread
      then (l\<lparr>lk_owner := Some thread, lk_count := Suc (lk_count l),
              lk_depth := (lk_depth l)(thread := Some (lock_depth l thread + 1))\<rparr>, True)
      else (l, False))"

definition lock_release :: "nat \<Rightarrow> owned_lock \<Rightarrow> owned_lock res" where
  "lock_release thread l =
     (if lk_owner l \<noteq> Some thread then Inl (RuntimeError ''cannot release un-acquired lock'')
      else let depth = lock_depth l thread - 1
           in Inr (l\<lparr>lk_owner := (if lk_count l = 1 then None else Some thread), lk_count := lk_count l - 1,
                     lk_depth := (lk_depth l)(thread := (if 0 < depth then Some depth else None))\<rparr>))"

definition owned_by_current_thread :: "nat \<Rightarrow> owned_lock \<Rightarrow> bool" where
  "owned_by_current_thread thread l \<longleftrightarrow> 0 < lock_depth l thread"

end
