(* ===== verification/Stop_Laws.thy ===== *)
theory Stop_Laws
  imports Stop_Latch
begin

section \<open>The emergency stop latch: laws\<close>

text \<open>
  The latch fails closed: it reads OFF only where a proper OFF document, or no trace of the latch at
  all, is found and nothing is remembered. Once engaged it stays ON in the process, whatever fails and
  whatever other processes do to the files, until a release is confirmed, written and verified.
\<close>

definition latched :: "latch \<Rightarrow> bool" where
  "latched st \<longleftrightarrow> la_reason st \<noteq> [] \<or> la_revision st \<noteq> []"

definition proper_off :: "pyval \<Rightarrow> bool" where
  "proper_off v \<longleftrightarrow> (\<exists>d. v = PDict d \<and> equals_one (dict_get d ''schemaVersion'')
     \<and> dict_get d ''active'' = PBool False \<and> text_or_empty d ''nonce'' \<noteq> [])"

lemma digest_nonempty [simp]: "sha256_hex m \<noteq> []"
  using sha256_hex_pattern [of m] by (auto simp: sha_pattern_def)

lemma take_points_nonempty: "take_points (Suc n) (c # cs) \<noteq> []"
  by simp

lemma sticky_latched [simp]: "latched (set_sticky (c # cs) st)"
  using take_points_nonempty [of 499 c cs] by (simp add: latched_def set_sticky_def or_text_def eval_nat_numeral del: take_points.simps)

lemma document_status_Inr:
  assumes "document_status v = Inr s"
  shows "st_durable s" "st_revision s = Some r \<Longrightarrow> r \<noteq> []" "\<not> st_active s \<longleftrightarrow> proper_off v"
    "st_revision s \<noteq> None"
  using assms
  by (auto simp: document_status_def proper_off_def Let_def split: pyval.splits if_splits)

lemma proper_off_status: "proper_off v \<Longrightarrow> \<exists>s. document_status v = Inr s \<and> \<not> st_active s \<and> st_durable s"
  by (auto simp: document_status_def proper_off_def Let_def)

lemma durable_off:
  "\<not> st_active (durable_status st) \<longleftrightarrow>
     (la_doc st = Absent \<and> la_marker st = Absent) \<or> (\<exists>v. la_doc st = Holds v \<and> proper_off v)"
proof (cases "la_doc st")
  case (Holds v)
  show ?thesis
  proof (cases "document_status v")
    case (Inl e)
    with Holds proper_off_status [of v] show ?thesis by (auto simp: durable_status_def reader_status_def)
  next
    case (Inr s)
    with Holds document_status_Inr(3) [OF Inr] show ?thesis by (simp add: durable_status_def)
  qed
qed (auto simp: durable_status_def reader_status_def split: disk_file.splits)

lemma durable_on_revision:
  assumes "st_active (durable_status st)" "st_durable (durable_status st)"
  shows "revision_text (durable_status st) \<noteq> []"
proof -
  from assms obtain v s where s: "document_status v = Inr s" "durable_status st = s"
    by (auto simp: durable_status_def reader_status_def split: disk_file.splits sum.splits)
  from document_status_Inr(4) [OF s(1)] document_status_Inr(2) [OF s(1)] s(2) show ?thesis
    by (auto simp: revision_text_def)
qed

lemma latched_active: "latched st \<Longrightarrow> emergency_stop_active st"
  by (auto simp: latched_def emergency_stop_active_def emergency_stop_status_def Let_def)

lemma status_keeps: "latched st \<Longrightarrow> latched (fst (emergency_stop_status st))"
  using durable_on_revision by (auto simp: latched_def emergency_stop_status_def Let_def)

lemma status_latches:
  "st_active (snd (emergency_stop_status st)) \<Longrightarrow> st_durable (snd (emergency_stop_status st))
     \<Longrightarrow> latched (fst (emergency_stop_status st))"
  using durable_on_revision by (auto simp: latched_def emergency_stop_status_def Let_def split: if_splits)

lemma status_files: "la_doc (fst (emergency_stop_status st)) = la_doc st" "la_marker (fst (emergency_stop_status st)) = la_marker st"
  by (simp_all add: emergency_stop_status_def Let_def)

lemma status_off: "\<not> latched st \<Longrightarrow> emergency_stop_active st = st_active (durable_status st)"
  by (simp add: latched_def emergency_stop_active_def emergency_stop_status_def Let_def)

lemma write_keeps: "latched (fst (write_atomic io d st)) = latched st" "latched (replace_files files st) = latched st"
  by (simp_all add: latched_def write_atomic_def ensure_marker_def replace_files_def split: write_outcome.splits option.splits)

lemma write_latched: "write_atomic io d st = (st', r) \<Longrightarrow> latched st' = latched st"
  using write_keeps(1) [of io d st] by simp

lemma status_latched: "emergency_stop_status st = (st', s) \<Longrightarrow> latched st \<Longrightarrow> latched st'"
  using status_keeps [of st] by simp

lemma engage_latched:
  assumes "engage_emergency_stop reason source env io files st = (st', Inr a)"
  shows "latched st'"
  using assms status_latches [of "replace_files files (fst (write_atomic io (stop_document True reason source env) st))"]
  by (auto simp: engage_emergency_stop_def Let_def split: prod.splits sum.splits latch_error.splits if_splits)

text \<open>The steps of the process and of its surroundings, except a completed release.\<close>

inductive stop_step :: "latch \<Rightarrow> latch \<Rightarrow> bool" where
  read: "stop_step st (fst (emergency_stop_status st))"
| other_process: "stop_step st (st\<lparr>la_doc := doc, la_marker := marker\<rparr>)"
| engage: "stop_step st (fst (engage_emergency_stop reason source env io files st))"
| refused_clear: "clear_emergency_stop confirmed reason source expected env io files st = (st', r) \<Longrightarrow>
    \<not> (\<exists>a. r = Inr a \<and> an_ok a) \<Longrightarrow> stop_step st st'"

lemma clear_keeps:
  assumes "clear_emergency_stop confirmed reason source expected env io files st = (st', r)" "\<not> (\<exists>a. r = Inr a \<and> an_ok a)"
    and "latched st"
  shows "latched st'"
proof -
  have kept: "latched s3" if "emergency_stop_status st = (s2, c)" "write_atomic io d s2 = (s3, w)" for d s2 s3 c w
    using that assms(3) status_latched write_latched by blast
  from assms show ?thesis
    by (auto simp: clear_emergency_stop_def Let_def write_keeps dest: kept status_latched
        split: prod.splits sum.splits latch_error.splits if_splits)
qed

lemma engage_keeps:
  assumes "latched st"
  shows "latched (fst (engage_emergency_stop reason source env io files st))"
proof -
  have "latched s2" if "write_atomic io d st = (s2, w)" for d s2 w
    using that assms write_latched by blast
  with assms show ?thesis
    by (auto simp: engage_emergency_stop_def Let_def write_keeps dest: status_latched
        split: prod.splits sum.splits latch_error.splits)
qed

lemma step_keeps: "stop_step st st' \<Longrightarrow> latched st \<Longrightarrow> latched st'"
proof (induction rule: stop_step.induct)
  case (other_process st doc marker)
  then show ?case by (simp add: latched_def)
qed (auto simp: status_keeps engage_keeps clear_keeps)

lemma steps_keep: "stop_step\<^sup>*\<^sup>* st st' \<Longrightarrow> latched st \<Longrightarrow> latched st'"
  by (induction rule: rtranclp_induct) (auto intro: step_keeps)

subsection \<open>The properties\<close>

lemma active_read:
  assumes "emergency_stop_active st"
  shows "emergency_stop_active (fst (emergency_stop_status st))"
proof (cases "st_active (durable_status st) \<and> st_durable (durable_status st)")
  case True
  with durable_on_revision have "latched (fst (emergency_stop_status st))"
    by (auto simp: emergency_stop_status_def latched_def Let_def)
  then show ?thesis by (rule latched_active)
next
  case False
  then have "fst (emergency_stop_status st) = st" by (auto simp: emergency_stop_status_def Let_def)
  with assms show ?thesis by simp
qed

lemma write_error_active:
  assumes "write_atomic io d st = (st', Inl e)" "emergency_stop_active st"
  shows "emergency_stop_active st'"
proof (cases "latched st")
  case True
  with write_latched [OF assms(1)] latched_active show ?thesis by blast
next
  case False
  then have "\<not> latched st'" using write_latched [OF assms(1)] by simp
  moreover have "la_doc st' = la_doc st" "la_marker st' = Absent \<Longrightarrow> la_marker st = Absent"
    using assms(1) by (auto simp: write_atomic_def ensure_marker_def split: write_outcome.splits if_splits)
  ultimately show ?thesis
    using assms(2) False durable_off [of st] durable_off [of st'] status_off by auto
qed

lemma stop_off_iff:
  "\<not> emergency_stop_active st \<longleftrightarrow>
     \<not> latched st \<and> ((la_doc st = Absent \<and> la_marker st = Absent) \<or> (\<exists>v. la_doc st = Holds v \<and> proper_off v))"
  using latched_active [of st] status_off [of st] durable_off [of st] by blast

text \<open>
  C23: The latch fails closed. The status reads OFF exactly when the process remembers neither a failed
  write nor an ON document, and the disk shows either no trace of the latch (no document and no
  marker) or a complete OFF document of the current schema; an unreadable, malformed or vanished
  document always reads ON.
\<close>

theorem stop_fails_closed:
  "\<not> emergency_stop_active st \<longleftrightarrow>
     la_reason st = [] \<and> la_revision st = []
     \<and> ((la_doc st = Absent \<and> la_marker st = Absent) \<or> (\<exists>v. la_doc st = Holds v \<and> proper_off v))"
  unfolding stop_off_iff latched_def by blast

text \<open>
  C24: A Kill stays in force. Once \<open>engage_emergency_stop\<close> has answered, successfully or not, every later
  status of the process reads ON, whatever reads, further kills, refused or failed releases and
  changes of the files by other processes come in between, until a release succeeds.
\<close>

theorem engaged_stop_stays:
  assumes "engage_emergency_stop reason source env io files st = (st1, Inr answer)" "stop_step\<^sup>*\<^sup>* st1 st2"
  shows "emergency_stop_active st2"
  by (rule latched_active [OF steps_keep [OF assms(2) engage_latched [OF assms(1)]]])

text \<open>
  C25: Only a confirmed, written and verified release opens the latch. When \<open>clear_emergency_stop\<close>
  answers ok, it was confirmed, any revision the caller expected was the current one, the write of the
  OFF document completed, and the status then reads OFF. Unless another process replaced the files
  before the verification, the disk then holds exactly this release's OFF document, with its reason,
  source and nonce, beside a marker; if it did, a complete OFF document or no trace of the latch was
  read. In every other case a latch that was ON still reads ON.
\<close>

theorem release_only_confirmed:
  assumes "clear_emergency_stop confirmed reason source expected env io files st = (st', r)"
  shows "if \<exists>a. r = Inr a \<and> an_ok a
    then confirmed \<and> strip expected \<in> {[], revision_text (snd (emergency_stop_status st))}
      \<and> io = WriteDone
      \<and> (case files of
           None \<Rightarrow> la_doc st' = Holds (PDict (stop_document False reason source env)) \<and> la_marker st' \<noteq> Absent
             \<and> proper_off (PDict (stop_document False reason source env))
         | Some (doc, marker) \<Rightarrow> la_doc st' = doc \<and> la_marker st' = marker
             \<and> ((doc = Absent \<and> marker = Absent) \<or> (\<exists>v. doc = Holds v \<and> proper_off v)))
      \<and> \<not> emergency_stop_active st'
    else \<not> emergency_stop_active st \<or> emergency_stop_active st'"
proof (cases "\<exists>a. r = Inr a \<and> an_ok a")
  case True
  then obtain s1 s where s: "\<not> st_active (durable_status s)" "st' = s\<lparr>la_reason := [], la_revision := []\<rparr>"
    and c: "confirmed" "strip expected \<in> {[], revision_text (snd (emergency_stop_status st))}"
    and w: "write_atomic io (stop_document False reason source env) (fst (emergency_stop_status st)) = (s1, Inr ())"
      "s = replace_files files s1"
    using assms by (auto simp: clear_emergency_stop_def Let_def split: prod.splits sum.splits latch_error.splits if_splits)
  have off: "\<not> st_active (durable_status st')" using s(1) durable_off [of s] durable_off [of st'] by (simp add: s(2))
  have "io = WriteDone" "la_doc s1 = Holds (PDict (stop_document False reason source env))" "la_marker s1 \<noteq> Absent"
    using w(1) by (auto simp: write_atomic_def ensure_marker_def split: write_outcome.splits if_splits)
  moreover have "\<not> latched st'" by (simp add: s(2) latched_def)
  ultimately show ?thesis
    using True c off status_off durable_off [of st'] by (auto simp: s(2) w(2) replace_files_def split: option.splits)
next
  case False
  have "emergency_stop_active st'" if active: "emergency_stop_active st"
  proof -
    let ?s = "fst (emergency_stop_status st)"
    have on: "emergency_stop_active ?s" by (rule active_read [OF active])
    have "emergency_stop_active s2" if "write_atomic io d ?s = (s2, Inl e)" for s2 d e
      using write_error_active [OF that on] .
    with on active False assms show ?thesis
      by (auto simp: clear_emergency_stop_def Let_def latched_active
          split: prod.splits sum.splits latch_error.splits if_splits)
  qed
  with False show ?thesis by auto
qed

text \<open>
  A Kill whose reason cannot be encoded is lost. If the text of the document is not encodable in
  UTF-8 (a lone surrogate in the reason handed over by the desktop bridge), \<open>engage_emergency_stop\<close>
  raises, nothing is remembered, and a latch that was OFF by a proper document stays OFF.
\<close>

theorem unencodable_kill_lost:
  assumes "la_reason st = []" "la_revision st = []" "la_doc st = Holds v" "proper_off v"
  shows "\<exists>st'. engage_emergency_stop reason source env WriteUnencodable files st = (st', Inl EncodingError)
    \<and> \<not> emergency_stop_active st'"
proof -
  let ?st = "ensure_marker st"
  have "\<not> emergency_stop_active ?st"
    using assms by (auto simp: stop_off_iff latched_def ensure_marker_def)
  then show ?thesis by (simp add: engage_emergency_stop_def write_atomic_def Let_def)
qed

subsection \<open>A small latch\<close>

definition stop_env :: document_env where
  "stop_env = \<lparr>de_time = ''2026-01-01T00:00:00Z'', de_pid = 1, de_nonce = ''00ff''\<rparr>"

definition clear_latch :: latch where
  "clear_latch = \<lparr>la_doc = Absent, la_marker = Absent, la_reason = [], la_revision = []\<rparr>"

definition off_latch :: latch where
  "off_latch = clear_latch\<lparr>la_doc := Holds (PDict (stop_document False [] [] stop_env)), la_marker := Holds PNone\<rparr>"

text \<open>A failed write, after which the document vanishes and a release without confirmation is refused.\<close>

theorem engaged_stop_stays_witness:
  "emergency_stop_active ((fst (engage_emergency_stop ''stop'' ''test'' stop_env (WriteFails False ''PermissionError'') None clear_latch))
     \<lparr>la_doc := Absent, la_marker := Absent\<rparr>)"
proof -
  obtain st1 a where e: "engage_emergency_stop ''stop'' ''test'' stop_env (WriteFails False ''PermissionError'') None clear_latch
    = (st1, Inr a)" by (simp add: engage_emergency_stop_def write_atomic_def Let_def)
  have "stop_step\<^sup>*\<^sup>* st1 (st1\<lparr>la_doc := Absent, la_marker := Absent\<rparr>)"
    by (rule r_into_rtranclp) (rule stop_step.other_process)
  from engaged_stop_stays [OF e this] show ?thesis by (simp add: e)
qed

theorem release_only_confirmed_witness:
  "\<exists>st' a. clear_emergency_stop True [] [] [] stop_env WriteDone None clear_latch = (st', Inr a) \<and> an_ok a
     \<and> la_doc st' = Holds (PDict (stop_document False [] [] stop_env)) \<and> \<not> emergency_stop_active st'"
proof -
  have "\<exists>st' a. clear_emergency_stop True [] [] [] stop_env WriteDone None clear_latch = (st', Inr a) \<and> an_ok a"
    by (simp add: clear_emergency_stop_def clear_latch_def stop_env_def emergency_stop_status_def write_atomic_def
        replace_files_def ensure_marker_def durable_status_def document_status_def stop_document_def equals_one_def
        text_or_empty_def or_text_def strip_def py_or_def Let_def)
  then obtain st' a where c: "clear_emergency_stop True [] [] [] stop_env WriteDone None clear_latch = (st', Inr a)" "an_ok a"
    by blast
  with release_only_confirmed [OF c(1)] show ?thesis by auto
qed

theorem unencodable_kill_example:
  "\<exists>st'. engage_emergency_stop [] [] stop_env WriteUnencodable None off_latch = (st', Inl EncodingError)
     \<and> \<not> emergency_stop_active st'"
proof (rule unencodable_kill_lost)
  show "la_reason off_latch = []" "la_revision off_latch = []"
    "la_doc off_latch = Holds (PDict (stop_document False [] [] stop_env))"
    by (simp_all add: off_latch_def clear_latch_def)
  show "proper_off (PDict (stop_document False [] [] stop_env))"
    by (simp add: proper_off_def stop_document_def stop_env_def equals_one_def text_or_empty_def py_or_def)
qed

end
