(* ===== verification/Route_Laws.thy ===== *)
theory Route_Laws
  imports Route_Authority Stop_Laws
begin

section \<open>Order authority: laws\<close>

text \<open>
  No order passes a boundary while the Kill latch is ON, without the application lease, or next to a
  functional or short session that owns the exchange, unless it is the exact order dispatched by that
  session. The owners of an exchange come from one activation.
\<close>

subsection \<open>Owners of the exchanges\<close>

text \<open>The sessions that own routes of an exchange, and the sessions a call names for it.\<close>

definition owners :: "short_state \<Rightarrow> string \<Rightarrow> owner_key set" where
  "owners st exchange = set (map snd (filter (\<lambda>(route, _). exchange_of route = exchange) (sl_active st)))"

definition named_owners :: "pydict list \<Rightarrow> string \<Rightarrow> owner_key set" where
  "named_owners rows exchange = set (map order_key (filter (\<lambda>row. exchange_of (order_route row) = exchange) rows))"

definition owns :: "short_state \<Rightarrow> string \<Rightarrow> bool" where
  "owns st exchange \<longleftrightarrow> (\<exists>(r, k) \<in> set (sl_active st). exchange_of r = exchange)"

lemma owners_iff: "k \<in> owners st exchange \<longleftrightarrow> (\<exists>r. (r, k) \<in> set (sl_active st) \<and> exchange_of r = exchange)"
  by (force simp: owners_def)

lemma named_owners_iff:
  "k \<in> named_owners rows exchange \<longleftrightarrow> (\<exists>row \<in> set rows. exchange_of (order_route row) = exchange \<and> k = order_key row)"
  by (auto simp: named_owners_def)

lemma owns_owners: "owns st exchange \<longleftrightarrow> owners st exchange \<noteq> {}"
  by (auto simp: owns_def owners_iff set_eq_iff)

lemma set_assoc_put: "set (assoc_put k v d) \<subseteq> insert (k, v) (set d)"
  by (induction d) (auto split: if_splits)

lemma set_fold_put:
  "set (fold (\<lambda>row. assoc_put (f row) (g row)) rows d) \<subseteq> (\<lambda>row. (f row, g row)) ` set rows \<union> set d"
proof (induction rows arbitrary: d)
  case (Cons row rows)
  show ?case using Cons [of "assoc_put (f row) (g row) d"] set_assoc_put [of "f row" "g row" d] by auto
qed simp

lemma set_fold_put_keeps:
  "(k, v) \<in> set d \<Longrightarrow> (\<forall>row \<in> set rows. f row = k \<longrightarrow> g row = v)
    \<Longrightarrow> (k, v) \<in> set (fold (\<lambda>row. assoc_put (f row) (g row)) rows d)"
proof (induction rows arbitrary: d)
  case (Cons row rows)
  have "(k, v) \<in> set (assoc_put (f row) (g row) d)" using Cons.prems by (induction d) auto
  with Cons show ?case by simp
qed simp

lemma activate_parts:
  assumes "activate_short_live_routes rows st = Inr st'"
  shows "st' = st\<lparr>sl_active := fold (\<lambda>row. assoc_put (order_route row) (order_key row)) rows (sl_active st)\<rparr>"
    and "row \<in> set rows \<Longrightarrow> k \<in> owners st (exchange_of (order_route row)) \<Longrightarrow> k = order_key row"
proof -
  show "st' = st\<lparr>sl_active := fold (\<lambda>row. assoc_put (order_route row) (order_key row)) rows (sl_active st)\<rparr>"
    using assms by (auto simp: activate_short_live_routes_def split: if_splits)
  have none: "\<not> list_ex (owned_by_other (sl_active st)) rows"
    using assms by (auto simp: activate_short_live_routes_def split: if_splits)
  show "k = order_key row" if "row \<in> set rows" "k \<in> owners st (exchange_of (order_route row))"
    using none that unfolding owned_by_other_def list_ex_iff owners_iff by force
qed

lemma activate_adds:
  assumes "activate_short_live_routes rows st = Inr st'"
  shows "owners st' exchange \<subseteq> named_owners rows exchange \<union> owners st exchange"
proof
  fix k assume "k \<in> owners st' exchange"
  then obtain r where r: "(r, k) \<in> set (sl_active st')" "exchange_of r = exchange" by (auto simp: owners_iff)
  with set_fold_put [of order_route order_key rows "sl_active st"]
  have "(r, k) \<in> (\<lambda>row. (order_route row, order_key row)) ` set rows \<union> set (sl_active st)"
    by (auto simp: activate_parts(1) [OF assms])
  with r(2) show "k \<in> named_owners rows exchange \<union> owners st exchange"
    unfolding named_owners_iff Un_iff owners_iff by force
qed

lemma activate_names:
  assumes "activate_short_live_routes rows st = Inr st'" "owns st exchange"
  shows "named_owners rows exchange \<subseteq> owners st exchange"
proof
  fix k assume "k \<in> named_owners rows exchange"
  then obtain row where row: "row \<in> set rows" "exchange_of (order_route row) = exchange" "k = order_key row"
    unfolding named_owners_iff by blast
  obtain k' where "k' \<in> owners st exchange" using assms(2) unfolding owns_owners by blast
  with activate_parts(2) [OF assms(1) row(1), of k'] row show "k \<in> owners st exchange" by simp
qed

lemma activate_owned:
  assumes "activate_short_live_routes rows st = Inr st'" "owns st exchange"
  shows "owners st' exchange = owners st exchange"
proof
  from activate_adds [OF assms(1)] activate_names [OF assms] show "owners st' exchange \<subseteq> owners st exchange" by blast
  show "owners st exchange \<subseteq> owners st' exchange"
  proof
    fix k assume k: "k \<in> owners st exchange"
    then obtain r where r: "(r, k) \<in> set (sl_active st)" "exchange_of r = exchange" by (auto simp: owners_iff)
    with k have "\<forall>row \<in> set rows. order_route row = r \<longrightarrow> order_key row = k"
      using activate_parts(2) [OF assms(1)] by metis
    from set_fold_put_keeps [of r k "sl_active st" rows order_route order_key] r(1) this
    have "(r, k) \<in> set (sl_active st')" by (simp add: activate_parts(1) [OF assms(1)])
    with r(2) show "k \<in> owners st' exchange" by (auto simp: owners_iff)
  qed
qed

lemma enter_dispatch_active: "enter_dispatch t order native guard st = Inr st' \<Longrightarrow> sl_active st' = sl_active st"
  by (auto simp: enter_dispatch_def Let_def)

lemma validate_native_active: "validate_native_payload t native st = Inr st' \<Longrightarrow> sl_active st' = sl_active st"
  by (auto simp: validate_native_payload_def split: option.splits)

text \<open>The steps of the short session authority.\<close>

inductive short_step :: "short_state \<Rightarrow> short_state \<Rightarrow> bool" where
  activate: "activate_short_live_routes rows st = Inr st' \<Longrightarrow> short_step st st'"
| release: "short_step st (release_short_live_routes session manifest st)"
| enter: "enter_dispatch thread order native guard st = Inr st' \<Longrightarrow> short_step st st'"
| validate: "validate_native_payload thread native st = Inr st' \<Longrightarrow> short_step st st'"
| leave: "short_step st (leave_dispatch thread st)"

definition idle :: short_state where
  "idle = \<lparr>sl_active = [], sl_dispatch = (\<lambda>_. None)\<rparr>"

text \<open>
  The owners of an exchange come from one call: it found the exchange free, and since then the exchange was
  owned and nobody was added.
\<close>

definition acquired :: "pydict list \<Rightarrow> short_state \<Rightarrow> string \<Rightarrow> bool" where
  "acquired rows st exchange \<longleftrightarrow>
     (\<exists>s s'. short_step\<^sup>*\<^sup>* idle s \<and> \<not> owns s exchange \<and> activate_short_live_routes rows s = Inr s'
        \<and> short_step\<^sup>*\<^sup>* s' st \<and> owners st exchange \<subseteq> named_owners rows exchange)"

lemma acquired_step:
  assumes "short_step y z" "acquired rows y exchange" "owners z exchange \<subseteq> owners y exchange"
  shows "acquired rows z exchange"
proof -
  from assms(2) obtain s s' where s: "short_step\<^sup>*\<^sup>* idle s" "\<not> owns s exchange" "activate_short_live_routes rows s = Inr s'"
    "short_step\<^sup>*\<^sup>* s' y" "owners y exchange \<subseteq> named_owners rows exchange" unfolding acquired_def by blast
  from s(4) assms(1) have "short_step\<^sup>*\<^sup>* s' z" by (rule rtranclp.rtrancl_into_rtrancl)
  with s assms(3) show ?thesis unfolding acquired_def by blast
qed

lemma step_owners:
  assumes "short_step y z"
  shows "owners z exchange \<subseteq> owners y exchange
    \<or> (\<not> owns y exchange \<and> (\<exists>rows. activate_short_live_routes rows y = Inr z))"
  using assms
proof (cases rule: short_step.cases)
  case (activate rows)
  then show ?thesis using activate_owned [of rows y z exchange] by blast
next
  case (release session manifest)
  then show ?thesis by (auto simp: owners_iff release_short_live_routes_def)
qed (auto simp: owners_iff enter_dispatch_active validate_native_active leave_dispatch_def)

lemma steps_acquired: "short_step\<^sup>*\<^sup>* idle st \<Longrightarrow> owns st exchange \<Longrightarrow> \<exists>rows. acquired rows st exchange"
proof (induction rule: rtranclp_induct)
  case base
  then show ?case by (simp add: owns_def idle_def)
next
  case (step y z)
  from step_owners [OF step.hyps(2), of exchange] show ?case
  proof
    assume sub: "owners z exchange \<subseteq> owners y exchange"
    with step.prems have "owns y exchange" by (auto simp: owns_owners)
    with step.IH obtain rows where "acquired rows y exchange" by blast
    from acquired_step [OF step.hyps(2) this sub] show ?case by blast
  next
    assume "\<not> owns y exchange \<and> (\<exists>rows. activate_short_live_routes rows y = Inr z)"
    then obtain rows where rows: "\<not> owns y exchange" "activate_short_live_routes rows y = Inr z" by blast
    have "owners z exchange \<subseteq> named_owners rows exchange"
      using activate_adds [OF rows(2), of exchange] rows(1) by (auto simp: owns_owners)
    with rows step.hyps(1) have "acquired rows z exchange" unfolding acquired_def by blast
    then show ?case by blast
  qed
qed

subsection \<open>The authority check\<close>

text \<open>The exact order of the dispatching thread, bound to the session that owns its route.\<close>

definition exact_dispatch :: "short_state \<Rightarrow> nat \<Rightarrow> string \<Rightarrow> dispatch \<Rightarrow> bool" where
  "exact_dispatch st thread exchange c \<longleftrightarrow> sl_dispatch st thread = Some c \<and> dp_exchange c = exchange
     \<and> (dp_route c, order_key (dp_order c)) \<in> set (sl_active st) \<and> exchange_of (dp_route c) = exchange
     \<and> short_digest (dp_order c) = Inr (dp_order_hash c) \<and> dp_guard c (dp_order c) = Inr (PBool True)"

lemma authority_cases:
  assumes "check_short_live_authority st thread exchange operation = Inr b"
  shows "(\<not> b \<and> \<not> owns st exchange)
    \<or> (b \<and> owns st exchange \<and> (\<exists>c. exact_dispatch st thread exchange c
         \<and> (\<forall>named. operation = Some named \<longrightarrow> dp_entered c \<and> named \<in> set (allowed_operations (dp_order c) (dp_route c)))))"
proof -
  let ?active = "filter (\<lambda>(route, _). exchange_of route = exchange) (sl_active st)"
  have owns: "owns st exchange \<longleftrightarrow> ?active \<noteq> []" by (auto simp: owns_def filter_empty_conv)
  have member: "(dp_route c, order_key (dp_order c)) \<in> set (sl_active st) \<and> exchange_of (dp_route c) = exchange"
    if "map_of ?active (dp_route c) = Some (order_key (dp_order c))" for c
    using map_of_SomeD [OF that] by auto
  show ?thesis
  proof (cases "sl_dispatch st thread")
    case None
    with assms owns show ?thesis by (auto simp: check_short_live_authority_def Let_def split: if_splits)
  next
    case (Some c)
    show ?thesis
    proof (cases "?active = []")
      case True
      with assms owns Some show ?thesis by (auto simp: check_short_live_authority_def Let_def split: if_splits)
    next
      case False
      with assms Some have "map_of ?active (dp_route c) = Some (order_key (dp_order c))" "dp_exchange c = exchange"
        "short_digest (dp_order c) = Inr (dp_order_hash c)" "dp_guard c (dp_order c) = Inr (PBool True)" b
        "\<forall>named. operation = Some named \<longrightarrow> dp_entered c \<and> named \<in> set (allowed_operations (dp_order c) (dp_route c))"
        by (auto simp: check_short_live_authority_def Let_def split: option.splits if_splits)
      with member [of c] Some owns False show ?thesis unfolding exact_dispatch_def by blast
    qed
  qed
qed

subsection \<open>The boundaries\<close>

text \<open>What a boundary's own checks, made without an outer boundary, establish.\<close>

definition cleared :: "route_state \<Rightarrow> nat \<Rightarrow> string \<Rightarrow> string \<Rightarrow> pydict \<Rightarrow> bool" where
  "cleared st thread exchange operation snapshot \<longleftrightarrow>
     \<not> emergency_stop_active (rt_latch st) \<and> dict_get snapshot ''applicationInstanceLeaseHeld'' = PBool True
     \<and> ((\<not> owns (rt_short st) exchange \<and> dict_get snapshot ''functionalAuthorityOpen'' = PBool False)
        \<or> (owns (rt_short st) exchange \<and> (\<exists>c. exact_dispatch (rt_short st) thread exchange c \<and> dp_entered c
             \<and> operation \<in> set (allowed_operations (dp_order c) (dp_route c)))))"

lemma binance_cleared:
  assumes "ordinary_binance_enter reader thread operation st = (st', Inr snapshot)" "rt_binance st thread = None"
  shows "cleared st thread ''BINANCE'' operation snapshot"
proof -
  from assms obtain b where b: "check_short_live_authority (rt_short st) thread ''BINANCE'' (Some operation) = Inr b"
    "dict_get snapshot ''applicationInstanceLeaseHeld'' = PBool True"
    "b \<or> dict_get snapshot ''functionalAuthorityOpen'' = PBool False"
    and off: "\<not> emergency_stop_active (rt_latch st)"
    unfolding ordinary_binance_enter_def emergency_stop_active_def
    by (auto simp: Let_def split: prod.splits if_splits sum.splits)
  from authority_cases [OF b(1)] b(2,3) off show ?thesis unfolding cleared_def by blast
qed

lemma status_keys: "set (map fst (status_dict s)) \<subseteq> {''active'', ''durable'', ''status'', ''reason'', ''source'', ''updatedAt'',
    ''revision'', ''durableRevision''}"
  by (auto simp: status_dict_def optional_entry_def split: option.splits)

lemma upbit_snapshot_parts:
  assumes "upbit_ordinary_snapshot reader n thread st = Inr snapshot"
  shows "dict_get snapshot ''applicationInstanceLeaseHeld'' = PBool True
    \<and> (\<exists>b. check_short_live_authority (rt_short st) thread ''UPBIT'' None = Inr b
         \<and> (b \<or> (dict_get snapshot ''functionalAuthorityOpen'' = PBool False
              \<and> dict_get snapshot ''ordinaryMutationEnabled'' = PBool True \<and> dict_get snapshot ''ordinaryRoutesClosed'' = PBool False)))"
  using assms unfolding upbit_ordinary_snapshot_def by auto

lemma upbit_cleared:
  assumes "ordinary_upbit_enter reader thread operation st = (st', Inr snapshot)" "rt_upbit st thread = None"
  shows "cleared st thread ''UPBIT'' operation snapshot"
proof -
  from assms obtain b final where b: "check_short_live_authority (rt_short st) thread ''UPBIT'' (Some operation) = Inr b"
    "upbit_ordinary_snapshot reader 1 thread st = Inr final"
    "snapshot = dict_update (dict_update final (status_dict (snd (emergency_stop_status (rt_latch st)))))
        [(''boundaryOwner'', PStr ''UPBIT_SHARED_ROUTE'')]"
    and off: "\<not> emergency_stop_active (rt_latch st)"
    unfolding ordinary_upbit_enter_def emergency_stop_active_def
    by (auto simp: Let_def split: prod.splits if_splits sum.splits)
  have keep: "dict_get snapshot k = dict_get final k" if "k \<in> {''applicationInstanceLeaseHeld'', ''functionalAuthorityOpen''}" for k
  proof -
    have "k \<notin> set (map fst (status_dict (snd (emergency_stop_status (rt_latch st)))))" "k \<notin> set (map fst [(''boundaryOwner'', PStr ''UPBIT_SHARED_ROUTE'')])"
      using that status_keys [of "snd (emergency_stop_status (rt_latch st))"] by auto
    then show ?thesis unfolding b(3) by (simp only: dict_get_update not_False_eq_True)
  qed
  from upbit_snapshot_parts [OF b(2)] obtain c where c: "check_short_live_authority (rt_short st) thread ''UPBIT'' None = Inr c"
    "dict_get final ''applicationInstanceLeaseHeld'' = PBool True" "c \<or> dict_get final ''functionalAuthorityOpen'' = PBool False"
    by blast
  have lease: "dict_get snapshot ''applicationInstanceLeaseHeld'' = PBool True"
    and open_: "dict_get snapshot ''functionalAuthorityOpen'' = dict_get final ''functionalAuthorityOpen''"
    using keep c(2) by simp_all
  from authority_cases [OF b(1)] authority_cases [OF c(1)] c(3) off lease open_ show ?thesis
    unfolding cleared_def by metis
qed

end
