(* ===== verification/Route_Orders.thy ===== *)
theory Route_Orders
  imports Route_Laws
begin

section \<open>Order authority: the properties\<close>

text \<open>
  What the Kill latch, the short session authority and the final boundaries of Binance and Upbit
  guarantee together, for every sequence of operations of the threads of the process.
\<close>

subsection \<open>Sequences of operations\<close>

inductive route_step :: "route_state \<Rightarrow> route_state \<Rightarrow> bool" where
  latch: "stop_step (rt_latch s) l \<Longrightarrow> route_step s (s\<lparr>rt_latch := l\<rparr>)"
| short: "short_step (rt_short s) x \<Longrightarrow> route_step s (s\<lparr>rt_short := x\<rparr>)"
| binance: "route_step s (fst (ordinary_binance_enter reader thread operation s))"
| binance_leave: "route_step s (ordinary_binance_leave thread s)"
| functional: "route_step s (fst (functional_binance_enter reader thread session cleanup expected s))"
| upbit: "route_step s (fst (ordinary_upbit_enter reader thread operation s))"
| upbit_leave: "route_step s (ordinary_upbit_leave thread s)"

text \<open>The latch is ON for good and no boundary is open.\<close>

definition stopped :: "route_state \<Rightarrow> bool" where
  "stopped s \<longleftrightarrow> latched (rt_latch s) \<and> rt_binance s = (\<lambda>_. None) \<and> rt_upbit s = (\<lambda>_. None)"

lemma stopped_status:
  assumes "stopped s"
  shows "st_active (snd (emergency_stop_status (rt_latch s)))" "latched (fst (emergency_stop_status (rt_latch s)))"
  using assms latched_active status_keeps by (auto simp: stopped_def emergency_stop_active_def)

lemma stopped_binance:
  assumes "stopped s"
  shows "stopped (fst (ordinary_binance_enter reader thread operation s))"
    "\<exists>e. snd (ordinary_binance_enter reader thread operation s) = Inl e"
  using assms stopped_status [OF assms]
  by (auto simp: ordinary_binance_enter_def stopped_def Let_def split: prod.splits)

lemma stopped_upbit:
  assumes "stopped s"
  shows "stopped (fst (ordinary_upbit_enter reader thread operation s))"
    "\<exists>e. snd (ordinary_upbit_enter reader thread operation s) = Inl e"
  using assms stopped_status [OF assms]
  by (auto simp: ordinary_upbit_enter_def stopped_def Let_def split: prod.splits sum.splits)

lemma stopped_functional:
  assumes "stopped s"
  shows "stopped (fst (functional_binance_enter reader thread session cleanup expected s))"
    "\<exists>e. snd (functional_binance_enter reader thread session False expected s) = Inl e"
  using assms stopped_status [OF assms]
  by (auto simp: functional_binance_enter_def stopped_def Let_def split: prod.splits sum.splits)

lemma step_stopped: "route_step s t \<Longrightarrow> stopped s \<Longrightarrow> stopped t"
proof (induction rule: route_step.induct)
  case (latch s l)
  then show ?case using step_keeps [of "rt_latch s" l] by (simp add: stopped_def)
next
  case (short s x)
  then show ?case by (simp add: stopped_def)
next
  case (binance_leave s thread)
  then show ?case by (simp add: stopped_def ordinary_binance_leave_def)
next
  case (upbit_leave s thread)
  then show ?case by (simp add: stopped_def ordinary_upbit_leave_def)
qed (rule stopped_binance stopped_upbit stopped_functional, assumption)+

lemma steps_stopped: "route_step\<^sup>*\<^sup>* s t \<Longrightarrow> stopped s \<Longrightarrow> stopped t"
  by (induction rule: rtranclp_induct) (auto intro: step_stopped)

subsection \<open>The properties\<close>

text \<open>
  C26: An order passes a final boundary only when it may. Entering an outermost ordinary Binance or
  Upbit boundary succeeds only if the Kill latch reads OFF, the application lease is held, and either
  neither a short session nor a functional session owns the exchange, or the order is exactly the one
  the thread dispatches for the short session that owns the exchange, was routed once, and has the
  reserved operation.
\<close>

theorem order_boundary_cleared:
  assumes "(ordinary_binance_enter reader thread operation st = (st', Inr snapshot)
      \<and> rt_binance st thread = None \<and> exchange = ''BINANCE'')
    \<or> (ordinary_upbit_enter reader thread operation st = (st', Inr snapshot)
      \<and> rt_upbit st thread = None \<and> exchange = ''UPBIT'')"
  shows "cleared st thread exchange operation snapshot"
  using assms binance_cleared upbit_cleared by blast

text \<open>
  C27: No order leaves after a Kill. If the Kill was answered while no boundary was open (it waits for
  the boundary lock), then, whatever the threads, the short sessions, other processes and failed
  releases do afterwards, no ordinary Binance or Upbit boundary and no functional entry other than a
  cleanup is passed again until a release succeeds.
\<close>

theorem stopped_orders_refused:
  assumes "engage_emergency_stop reason source env io files (rt_latch s) = (l, Inr answer)"
    and "rt_binance s = (\<lambda>_. None)" "rt_upbit s = (\<lambda>_. None)" "route_step\<^sup>*\<^sup>* (s\<lparr>rt_latch := l\<rparr>) t"
  shows "(\<exists>e. snd (ordinary_binance_enter reader thread operation t) = Inl e)
    \<and> (\<exists>e. snd (ordinary_upbit_enter reader thread operation t) = Inl e)
    \<and> (\<exists>e. snd (functional_binance_enter reader thread session False expected t) = Inl e)"
proof -
  have "stopped (s\<lparr>rt_latch := l\<rparr>)" using engage_latched [OF assms(1)] assms(2,3) by (simp add: stopped_def)
  from steps_stopped [OF assms(4) this] show ?thesis
    using stopped_binance(2) stopped_upbit(2) stopped_functional(2) by blast
qed

text \<open>
  C28: An exchange that a short session owns is closed to the others. However sessions were activated,
  whatever manifests a call names, and released: while an exchange is owned, all its owners were named
  by one activation, made when the exchange was free, so when that call names a single session for it, as
  the legs of one contract do, this session is the only owner; no activation that is accepted changes the
  owners, and one that names another session for the exchange is refused; and every thread is refused
  there unless it dispatches the exact order of a session that owns the order's route.
\<close>

theorem short_session_exclusive:
  assumes "short_step\<^sup>*\<^sup>* idle st" "owns st exchange"
  shows "(\<exists>rows s s'. short_step\<^sup>*\<^sup>* idle s \<and> \<not> owns s exchange \<and> activate_short_live_routes rows s = Inr s'
        \<and> short_step\<^sup>*\<^sup>* s' st \<and> owners st exchange \<subseteq> named_owners rows exchange
        \<and> (\<forall>key. named_owners rows exchange \<subseteq> {key} \<longrightarrow> owners st exchange = {key}))
    \<and> (\<forall>rows. case activate_short_live_routes rows st of
          Inl e \<Rightarrow> True
        | Inr st' \<Rightarrow> owners st' exchange = owners st exchange \<and> named_owners rows exchange \<subseteq> owners st exchange)
    \<and> ((\<exists>e. check_short_live_authority st thread exchange operation = Inl e)
       \<or> (\<exists>c. exact_dispatch st thread exchange c))"
proof -
  from steps_acquired [OF assms] obtain rows s s' where s: "short_step\<^sup>*\<^sup>* idle s" "\<not> owns s exchange"
    "activate_short_live_routes rows s = Inr s'" "short_step\<^sup>*\<^sup>* s' st" "owners st exchange \<subseteq> named_owners rows exchange"
    unfolding acquired_def by blast
  have "owners st exchange = {key}" if "named_owners rows exchange \<subseteq> {key}" for key
    using subset_trans [OF s(5) that] assms(2) unfolding owns_owners by blast
  with s have "\<exists>rows s s'. short_step\<^sup>*\<^sup>* idle s \<and> \<not> owns s exchange \<and> activate_short_live_routes rows s = Inr s'
      \<and> short_step\<^sup>*\<^sup>* s' st \<and> owners st exchange \<subseteq> named_owners rows exchange
      \<and> (\<forall>key. named_owners rows exchange \<subseteq> {key} \<longrightarrow> owners st exchange = {key})" by blast
  moreover have "\<forall>rows. case activate_short_live_routes rows st of Inl e \<Rightarrow> True
      | Inr st' \<Rightarrow> owners st' exchange = owners st exchange \<and> named_owners rows exchange \<subseteq> owners st exchange"
    using activate_owned [OF _ assms(2)] activate_names [OF _ assms(2)] by (auto split: sum.splits)
  moreover have "(\<exists>e. check_short_live_authority st thread exchange operation = Inl e) \<or> (\<exists>c. exact_dispatch st thread exchange c)"
    using authority_cases [of st thread exchange operation] assms(2)
    by (cases "check_short_live_authority st thread exchange operation") auto
  ultimately show ?thesis by blast
qed

text \<open>
  The native payload of a dispatch enters the router once. When the router accepted a payload
  inside a dispatch, it refuses every further payload of that dispatch, the same one included.
\<close>

theorem native_payload_once:
  assumes "validate_native_payload thread native st = Inr st'" "sl_dispatch st thread \<noteq> None"
  shows "validate_native_payload thread again st'
    = Inl (CustomError ''ShortLiveAuthorityError'' ''SHORT_LIVE_NATIVE_PAYLOAD_CHANGED_OR_REUSED'')"
  using assms by (auto simp: validate_native_payload_def short_error_def require_def split: option.splits if_splits)

text \<open>
  An activation compares the manifests with the present owners, not with each other: two sessions named
  in one call for a free exchange are both accepted as its owners.
\<close>

theorem mixed_activation_accepted:
  "\<exists>st. activate_short_live_routes
       [[(''route'', PStr ''BINANCE_SPOT''), (''sessionId'', PStr ''a''), (''manifestHash'', PStr ''m'')],
        [(''route'', PStr ''BINANCE_USDM_FUTURES''), (''sessionId'', PStr ''b''), (''manifestHash'', PStr ''m'')]] idle = Inr st
     \<and> owners st ''BINANCE'' = {(''a'', ''m''), (''b'', ''m'')}"
proof -
  let ?st = "idle\<lparr>sl_active := [(''BINANCE_SPOT'', (''a'', ''m'')), (''BINANCE_USDM_FUTURES'', (''b'', ''m''))]\<rparr>"
  have "exchange_of ''BINANCE_SPOT'' = ''BINANCE''" "exchange_of ''BINANCE_USDM_FUTURES'' = ''BINANCE''"
    by (simp_all add: exchange_of_def exchanges_def)
  then have "filter (\<lambda>(route, _). exchange_of route = ''BINANCE'') (sl_active ?st) = sl_active ?st" by simp
  then have "owners ?st ''BINANCE'' = {(''a'', ''m''), (''b'', ''m'')}" unfolding owners_def by (simp only:) simp
  then show ?thesis
    by (simp add: activate_short_live_routes_def idle_def known_route_def exchanges_def owned_by_other_def order_route_def
        order_key_def)
qed

subsection \<open>Concrete states\<close>

definition ready_answer :: pydict where
  "ready_answer = [(''functionalAuthorityOpen'', PBool False), (''functionalPhase'', PStr ''IDLE''),
     (''functionalRevision'', PInt 0), (''functionalSessionId'', PStr []), (''functionalAccountFingerprint'', PStr []),
     (''applicationInstanceLeaseHeld'', PBool True), (''ordinaryRoutesClosed'', PBool False)]"

definition ready_state :: route_state where
  "ready_state = \<lparr>rt_short = idle, rt_latch = clear_latch, rt_binance = (\<lambda>_. None), rt_upbit = (\<lambda>_. None)\<rparr>"

lemma ready_passes:
  "ordinary_binance_enter (Some (\<lambda>_. Inr ready_answer)) 1 ''PLACE_ORDER'' ready_state
    = (ready_state\<lparr>rt_binance := (\<lambda>_. None)(1 := Some ready_answer)\<rparr>, Inr ready_answer)"
  by (simp add: ordinary_binance_enter_def ready_state_def ready_answer_def clear_latch_def idle_def
      emergency_stop_status_def durable_status_def check_short_live_authority_def binance_snapshot_def binance_required_def Let_def)

theorem order_boundary_cleared_witness:
  "cleared ready_state 1 ''BINANCE'' ''PLACE_ORDER'' ready_answer"
  by (rule order_boundary_cleared [OF disjI1 [OF conjI [OF ready_passes]]]) (simp add: ready_state_def)

theorem stopped_orders_refused_witness:
  "\<exists>e. snd (ordinary_binance_enter (Some (\<lambda>_. Inr ready_answer)) 1 ''PLACE_ORDER''
      (ready_state\<lparr>rt_latch := fst (engage_emergency_stop [] [] stop_env (WriteFails False ''OSError'') None clear_latch)\<rparr>)) = Inl e"
proof -
  obtain l a where e: "engage_emergency_stop [] [] stop_env (WriteFails False ''OSError'') None (rt_latch ready_state) = (l, Inr a)"
    by (simp add: engage_emergency_stop_def write_atomic_def Let_def)
  from stopped_orders_refused [OF e _ _ rtranclp.rtrancl_refl] e show ?thesis by (simp add: ready_state_def)
qed

definition one_manifest :: pydict where
  "one_manifest = [(''route'', PStr ''BINANCE_SPOT''), (''sessionId'', PStr ''a''), (''manifestHash'', PStr ''m'')]"

definition foreign_manifest :: pydict where
  "foreign_manifest = [(''route'', PStr ''BINANCE_USDM_FUTURES''), (''sessionId'', PStr ''b''), (''manifestHash'', PStr ''m'')]"

definition owned_state :: short_state where
  "owned_state = idle\<lparr>sl_active := [(''BINANCE_SPOT'', (''a'', ''m''))]\<rparr>"

theorem short_session_exclusive_witness:
  "owners owned_state ''BINANCE'' = {(''a'', ''m'')} \<and> (\<exists>e. check_short_live_authority owned_state 1 ''BINANCE'' None = Inl e)
     \<and> (\<exists>e. activate_short_live_routes [foreign_manifest] owned_state = Inl e)"
proof -
  have "activate_short_live_routes [one_manifest] idle = Inr owned_state"
    by (simp add: activate_short_live_routes_def one_manifest_def idle_def owned_state_def known_route_def exchanges_def
        owned_by_other_def order_route_def order_key_def)
  then have "short_step idle owned_state" by (rule short_step.activate)
  then have reach: "short_step\<^sup>*\<^sup>* idle owned_state" by (rule r_into_rtranclp)
  have owners: "owners owned_state ''BINANCE'' = {(''a'', ''m'')}"
  proof -
    have "filter (\<lambda>(route, _). exchange_of route = ''BINANCE'') (sl_active owned_state) = sl_active owned_state"
      by (simp add: owned_state_def exchange_of_def exchanges_def)
    then show ?thesis unfolding owners_def by (simp only:) (simp add: owned_state_def)
  qed
  then have owned: "owns owned_state ''BINANCE''" by (simp add: owns_owners)
  have named: "named_owners [foreign_manifest] ''BINANCE'' = {(''b'', ''m'')}"
  proof -
    have "exchange_of (order_route foreign_manifest) = ''BINANCE''" "order_key foreign_manifest = (''b'', ''m'')"
      by (simp_all add: foreign_manifest_def order_route_def order_key_def exchange_of_def exchanges_def)
    then show ?thesis unfolding named_owners_def by simp
  qed
  have none: "sl_dispatch owned_state 1 = None" by (simp add: owned_state_def idle_def)
  note closed = short_session_exclusive [OF reach owned, of 1 None]
  from closed have "\<exists>e. check_short_live_authority owned_state 1 ''BINANCE'' None = Inl e"
    using none by (auto simp: exact_dispatch_def)
  moreover from closed have "case activate_short_live_routes [foreign_manifest] owned_state of Inl e \<Rightarrow> True
      | Inr st' \<Rightarrow> owners st' ''BINANCE'' = owners owned_state ''BINANCE''
          \<and> named_owners [foreign_manifest] ''BINANCE'' \<subseteq> owners owned_state ''BINANCE''" by blast
  then have "\<exists>e. activate_short_live_routes [foreign_manifest] owned_state = Inl e"
    by (simp add: owners named split: sum.splits)
  ultimately show ?thesis using owners by blast
qed

definition one_order :: pydict where
  "one_order = one_manifest @ [(''operation'', PStr ''CANCEL'')]"

definition one_digest :: "pydict \<Rightarrow> string" where
  "one_digest d = sha256_hex (ascii_text (canon (PDict d)))"

definition dispatching_state :: short_state where
  "dispatching_state = owned_state\<lparr>sl_dispatch := (\<lambda>_. None)(1 := Some
     \<lparr>dp_order = one_order, dp_order_hash = one_digest one_order, dp_native_hash = one_digest one_order,
      dp_guard = (\<lambda>_. Inr (PBool True)), dp_exchange = ''BINANCE'', dp_route = ''BINANCE_SPOT'', dp_thread = 1,
      dp_entered = False, dp_wire = False\<rparr>)\<rparr>"

theorem native_payload_once_witness:
  "\<exists>st. validate_native_payload 1 one_order dispatching_state = Inr st
     \<and> validate_native_payload 1 one_order st
         = Inl (CustomError ''ShortLiveAuthorityError'' ''SHORT_LIVE_NATIVE_PAYLOAD_CHANGED_OR_REUSED'')"
proof -
  have key: "order_key one_order = (''a'', ''m'')" by (simp add: order_key_def one_order_def one_manifest_def)
  have digest: "short_digest one_order = Inr (one_digest one_order)"
    by (simp add: short_digest_def one_digest_def one_order_def one_manifest_def)
  have "check_short_live_authority dispatching_state 1 ''BINANCE'' None = Inr True"
    by (simp add: check_short_live_authority_def dispatching_state_def owned_state_def exchange_of_def exchanges_def
        key digest Let_def)
  then obtain st where v: "validate_native_payload 1 one_order dispatching_state = Inr st"
    by (simp add: validate_native_payload_def dispatching_state_def digest)
  have "sl_dispatch dispatching_state 1 \<noteq> None" by (simp add: dispatching_state_def)
  from native_payload_once [OF v this] v show ?thesis by blast
qed

end
