(* ===== verification/Wire_Laws.thy ===== *)
theory Wire_Laws
  imports Short_Wire Route_Orders
begin

section \<open>What leaves on the wire\<close>

text \<open>
  A request that passes the check of the dispatch carries the reserved order: the official host, the
  symbol, the side and, as numbers, the quantity and the price, whatever the route; and it passes once.
\<close>

subsection \<open>The terms of an order, as each exchange reads them\<close>

definition wire_query :: "prepared_request \<Rightarrow> pydict" where
  "wire_query pr = (case url_split (pr_url pr) of Inl _ \<Rightarrow> [] | Inr u \<Rightarrow> query_dict (parse_qsl (up_query u)))"

text \<open>A term is read from the body on KIS and Upbit, from the query on Binance.\<close>

definition wire_term :: "string \<Rightarrow> prepared_request \<Rightarrow> string \<Rightarrow> string \<Rightarrow> string \<Rightarrow> pyval" where
  "wire_term exchange pr kis binance upbit =
     (if exchange = ''KIS'' then dict_get (pr_body pr) kis
      else if exchange = ''BINANCE'' then dict_get (wire_query pr) binance else dict_get (pr_body pr) upbit)"

definition wire_buys :: "string \<Rightarrow> prepared_request \<Rightarrow> bool" where
  "wire_buys exchange pr \<longleftrightarrow>
     (if exchange = ''KIS'' then dict_get (pr_headers pr) ''tr_id'' = PStr ''TTTC0012U''
      else if exchange = ''BINANCE'' then dict_get (wire_query pr) ''side'' = PStr ''BUY''
      else dict_get (pr_body pr) ''side'' = PStr ''bid'')"

definition same_amount :: "pyval \<Rightarrow> pyval \<Rightarrow> bool" where
  "same_amount v w \<longleftrightarrow> (\<exists>q. 0 < q \<and> dec_parse (py_str v) = Some q \<and> dec_parse (py_str w) = Some q)"

definition official_host :: "prepared_request \<Rightarrow> string \<Rightarrow> bool" where
  "official_host pr route \<longleftrightarrow> (\<exists>u. url_split (pr_url pr) = Inr u \<and> up_scheme u = ''https''
     \<and> map_of expected_hosts route = Some (up_netloc u) \<and> up_path u = pr_endpoint pr)"

definition places :: "pydict \<Rightarrow> bool" where
  "places order \<longleftrightarrow> \<not> order_cancels order \<and> \<not> order_protects order"

definition reserved_wire :: "dispatch \<Rightarrow> prepared_request \<Rightarrow> bool" where
  "reserved_wire c pr \<longleftrightarrow>
     (let rq = dict_get (dp_order c); exchange = dp_exchange c in
      py_eq (wire_term exchange pr ''PDNO'' ''symbol'' ''market'') (rq ''symbol'')
      \<and> wire_buys exchange pr = (rq ''side'' = PStr ''BUY'')
      \<and> same_amount (wire_term exchange pr ''ORD_QTY'' ''quantity'' ''volume'') (rq ''quantity'')
      \<and> (exchange = ''BINANCE'' \<and> rq ''operation'' = PStr ''EMERGENCY_CLOSE''
         \<or> same_amount (wire_term exchange pr ''ORD_UNPR'' ''price'' ''price'') (rq ''referencePrice'')))"

subsection \<open>From the checks to the terms\<close>

lemma finite_positive_Inr: "finite_positive v = Inr q \<Longrightarrow> 0 < q \<and> dec_parse (py_str v) = Some q"
  by (auto simp: finite_positive_def split: pyval.splits option.splits if_splits)

lemma number_same: "number_differs v w u = Inr False \<Longrightarrow> same_amount v w"
  by (auto simp: number_differs_def same_positive_def same_amount_def res_bind_eq_Inr dest!: finite_positive_Inr)

lemma refuse_any_Inr: "refuse_any cs label = Inr u \<longleftrightarrow> list_all (\<lambda>c. c () = Inr False) cs"
  unfolding any_of_False [symmetric] by (auto simp: refuse_any_def res_bind_eq_Inr)

lemma differs_False [simp]: "differs v w u = Inr False \<longleftrightarrow> py_eq v w"
  by (simp add: differs_def)

lemma kis_terms:
  assumes "wire_kis (dp_order c) pr = Inr u" "places (dp_order c)" "dp_exchange c = ''KIS''"
  shows "reserved_wire c pr"
  using assms(1)
  by (auto simp: wire_kis_def refuse_any_Inr places_def [symmetric] reserved_wire_def wire_term_def wire_buys_def Let_def assms(3)
      dest!: number_same split: if_splits) (use assms(2) in \<open>simp_all add: places_def\<close>)

lemma binance_terms:
  assumes "wire_binance (dp_order c) pr (wire_query pr) = Inr u" "places (dp_order c)" "dp_exchange c = ''BINANCE''"
  shows "reserved_wire c pr"
  using assms(1,2)
  by (auto simp: wire_binance_def refuse_any_Inr places_def reserved_wire_def wire_term_def wire_buys_def Let_def assms(3)
      dest!: number_same split: if_splits)

lemma upbit_terms:
  assumes "wire_upbit (dp_order c) pr query = Inr u" "places (dp_order c)" "dp_exchange c \<notin> {''KIS'', ''BINANCE''}"
  shows "reserved_wire c pr"
  using assms
  by (auto simp: wire_upbit_def refuse_any_Inr places_def reserved_wire_def wire_term_def wire_buys_def Let_def
      dest!: number_same split: if_splits)

lemma wire_checks_Inr:
  assumes "wire_checks c pr = Inr u"
  shows "official_host pr (order_route (dp_order c)) \<and> pr_provider pr = provider_of (order_route (dp_order c))
    \<and> (places (dp_order c) \<longrightarrow> reserved_wire c pr)"
proof -
  from assms obtain parsed where parsed: "pr_provider pr = provider_of (order_route (dp_order c))" "url_split (pr_url pr) = Inr parsed"
    "up_scheme parsed = ''https''" "map_of expected_hosts (order_route (dp_order c)) = Some (up_netloc parsed)"
    "up_path parsed = pr_endpoint pr"
    and rest: "(let query = query_dict (parse_qsl (up_query parsed)) in
      if order_protects (dp_order c) then wire_protection (dp_route c) (dp_order c) pr query
      else if dp_exchange c = ''KIS'' then wire_kis (dp_order c) pr
      else if dp_exchange c = ''BINANCE'' then wire_binance (dp_order c) pr query
      else wire_upbit (dp_order c) pr query) = Inr u"
    by (auto simp: wire_checks_def Let_def)
  have query: "wire_query pr = query_dict (parse_qsl (up_query parsed))" by (simp add: wire_query_def parsed(2))
  have "reserved_wire c pr" if "places (dp_order c)"
    using rest that kis_terms binance_terms upbit_terms by (auto simp: places_def Let_def query [symmetric] split: if_splits)
  with parsed show ?thesis by (auto simp: official_host_def)
qed

lemma prepared_Inr:
  assumes "validate_prepared_request thread consume pr st = Inr st'" "sl_dispatch st thread = Some c"
    and "upper (pr_method pr) \<noteq> ''GET''"
  shows "\<exists>b u. check_short_live_authority st thread (dp_exchange c) (Some (wire_operation (dp_order c))) = Inr b
    \<and> wire_checks c pr = Inr u"
    "consume \<Longrightarrow> \<not> dp_wire c \<and> st' = st\<lparr>sl_dispatch := (sl_dispatch st)(thread := Some (c\<lparr>dp_wire := True\<rparr>))\<rparr>"
  using assms by (auto simp: validate_prepared_request_def)

text \<open>
  C29: A request leaves only as the reserved order. When a request other than a read passes the check of
  the dispatch, a short session owns the exchange, the dispatch is its exact order and was routed, the
  request goes to the official host of the route over https, and for a placed order the symbol, the
  side, the quantity and (unless it is an emergency close at market) the price that the exchange will
  read are those reserved; once it was consumed, every further request of the dispatch is refused.
\<close>

theorem wire_order_exact:
  assumes "validate_prepared_request thread consume pr st = Inr st'" "sl_dispatch st thread = Some c"
    and "upper (pr_method pr) \<noteq> ''GET''"
  shows "exact_dispatch st thread (dp_exchange c) c \<and> dp_entered c
    \<and> official_host pr (order_route (dp_order c))
    \<and> (if places (dp_order c) then reserved_wire c pr else True)
    \<and> (if consume \<and> upper (pr_method pr') \<noteq> ''GET''
       then \<exists>e. validate_prepared_request thread True pr' st' = Inl e else True)"
proof -
  from prepared_Inr(1) [OF assms] obtain b u where
    b: "check_short_live_authority st thread (dp_exchange c) (Some (wire_operation (dp_order c))) = Inr b"
    and u: "wire_checks c pr = Inr u" by blast
  have "owns st (dp_exchange c)"
    using b assms(2) by (auto simp: check_short_live_authority_def owns_def Let_def filter_empty_conv split: if_splits)
  with authority_cases [OF b] assms(2) have "exact_dispatch st thread (dp_exchange c) c \<and> dp_entered c"
    by (auto simp: exact_dispatch_def)
  moreover have "\<exists>e. validate_prepared_request thread True pr' st' = Inl e" if "consume" "upper (pr_method pr') \<noteq> ''GET''"
  proof (cases "validate_prepared_request thread True pr' st'")
    case (Inr st2)
    have "sl_dispatch st' thread = Some (c\<lparr>dp_wire := True\<rparr>)" using prepared_Inr(2) [OF assms that(1)] by simp
    from prepared_Inr(2) [OF Inr this that(2)] show ?thesis by simp
  qed blast
  ultimately show ?thesis using wire_checks_Inr [OF u] by simp
qed

subsection \<open>A placed Upbit order\<close>

definition upbit_order :: pydict where
  "upbit_order = [(''route'', PStr ''UPBIT_KRW_SPOT''), (''sessionId'', PStr ''a''), (''manifestHash'', PStr ''m''),
     (''symbol'', PStr ''KRW-BTC''), (''side'', PStr ''BUY''), (''quantity'', PStr ''2''), (''referencePrice'', PStr ''5''),
     (''clientOrderId'', PStr ''c'')]"

definition upbit_dispatch :: dispatch where
  "upbit_dispatch = \<lparr>dp_order = upbit_order, dp_order_hash = one_digest upbit_order, dp_native_hash = [],
     dp_guard = (\<lambda>_. Inr (PBool True)), dp_exchange = ''UPBIT'', dp_route = ''UPBIT_KRW_SPOT'', dp_thread = 1,
     dp_entered = True, dp_wire = False\<rparr>"

definition upbit_state :: short_state where
  "upbit_state = \<lparr>sl_active = [(''UPBIT_KRW_SPOT'', (''a'', ''m''))], sl_dispatch = (\<lambda>_. None)(1 := Some upbit_dispatch)\<rparr>"

definition upbit_request :: prepared_request where
  "upbit_request = \<lparr>pr_provider = ''upbit'', pr_method = ''POST'', pr_url = ''https://api.upbit.com/v1/orders'',
     pr_endpoint = ''/v1/orders'',
     pr_body = [(''market'', PStr ''KRW-BTC''), (''identifier'', PStr ''c''), (''ord_type'', PStr ''limit''),
       (''side'', PStr ''bid''), (''volume'', PStr ''2''), (''price'', PStr ''5'')], pr_headers = []\<rparr>"

lemma upbit_request_url: "url_split (pr_url upbit_request)
    = Inr \<lparr>up_scheme = ''https'', up_netloc = ''api.upbit.com'', up_path = ''/v1/orders'', up_query = [], up_fragment = []\<rparr>"
  by (simp add: upbit_request_def url_split_def split_scheme_def split_once_def scheme_char_def is_alnum_def is_digit_def is_upper_def
      is_lower_def lower_def to_lower_def unbalanced_brackets_def Let_def)

lemma digit_text_value: "dec_parse ''2'' = Some 2" "dec_parse ''5'' = Some 5"
  using dec_parse_digits [of "''2''" "''2''" "[]" False] dec_parse_digits [of "''5''" "''5''" "[]" False]
  by (simp_all add: is_digit_def digits_val_def digit_val_def)

lemma upbit_request_passes:
  "validate_prepared_request 1 True upbit_request upbit_state
    = Inr (upbit_state\<lparr>sl_dispatch := (\<lambda>_. None)(1 := Some (upbit_dispatch\<lparr>dp_wire := True\<rparr>))\<rparr>)"
proof -
  have digest: "short_digest upbit_order = Inr (one_digest upbit_order)"
    by (simp add: short_digest_def one_digest_def upbit_order_def)
  have op: "wire_operation upbit_order = ''PLACE_ORDER''"
    by (simp add: wire_operation_def order_protects_def order_cancels_def upbit_order_def)
  have key: "order_key upbit_order = (''a'', ''m'')" by (simp add: order_key_def upbit_order_def)
  have allowed: "''PLACE_ORDER'' \<in> set (allowed_operations upbit_order ''UPBIT_KRW_SPOT'')"
    by (simp add: allowed_operations_def upbit_order_def)
  have auth: "check_short_live_authority upbit_state 1 ''UPBIT'' (Some ''PLACE_ORDER'') = Inr True"
    using allowed by (simp add: check_short_live_authority_def upbit_state_def upbit_dispatch_def exchange_of_def exchanges_def
        key digest Let_def)
  have route: "order_route upbit_order = ''UPBIT_KRW_SPOT''" "\<not> order_protects upbit_order" "\<not> order_cancels upbit_order"
    by (simp_all add: order_route_def order_protects_def order_cancels_def upbit_order_def)
  have "split_all (CHR ''&'') [] = [[]]" by (subst split_all.simps) (simp add: split_once_def)
  then have pairs: "parse_qsl [] = []" by (simp add: parse_qsl_def)
  have terms: "wire_upbit upbit_order upbit_request q = Inr ()" for q
    by (simp add: wire_upbit_def refuse_any_Inr route Let_def)
      (simp add: upbit_order_def upbit_request_def refuse_any_Inr number_differs_def same_positive_def finite_positive_def digit_text_value)
  have checks: "wire_checks upbit_dispatch upbit_request = Inr ()"
    by (simp add: wire_checks_def upbit_dispatch_def route upbit_request_url terms pairs Let_def expected_hosts_def provider_of_def
        providers_def)
      (simp add: upbit_request_def)
  have parts: "sl_dispatch upbit_state 1 = Some upbit_dispatch" "dp_exchange upbit_dispatch = ''UPBIT''"
    "dp_order upbit_dispatch = upbit_order" "\<not> dp_wire upbit_dispatch" "upper (pr_method upbit_request) \<noteq> ''GET''"
    by (simp_all add: upbit_state_def upbit_dispatch_def upbit_request_def upper_def to_upper_def is_lower_def)
  show ?thesis
    by (simp add: validate_prepared_request_def parts op auth checks del: One_nat_def) (simp add: upbit_state_def)
qed

theorem wire_order_exact_witness:
  "reserved_wire upbit_dispatch upbit_request \<and> official_host upbit_request ''UPBIT_KRW_SPOT''
    \<and> (\<exists>st. validate_prepared_request 1 True upbit_request upbit_state = Inr st
        \<and> (\<exists>e. validate_prepared_request 1 True upbit_request st = Inl e))"
proof -
  have d: "sl_dispatch upbit_state 1 = Some upbit_dispatch" "upper (pr_method upbit_request) \<noteq> ''GET''"
    by (simp_all add: upbit_state_def upbit_request_def upper_def to_upper_def is_lower_def)
  have "places (dp_order upbit_dispatch)" "order_route (dp_order upbit_dispatch) = ''UPBIT_KRW_SPOT''"
    by (simp_all add: places_def order_protects_def order_cancels_def order_route_def upbit_dispatch_def upbit_order_def)
  with wire_order_exact [OF upbit_request_passes d, of upbit_request] d(2) upbit_request_passes show ?thesis by auto
qed

end
