(* ===== verification/Py_Access.thy ===== *)
theory Py_Access
  imports Py_Compare Py_Canon
begin

section \<open>Reading decoded values\<close>

text \<open>
  Subscripts, attributes and keys of values that were decoded from JSON and may have any shape: what
  \<open>v[k]\<close>, \<open>v.get(k)\<close> and a value used as a dict key do, with the exceptions they raise.
\<close>

text \<open>What a dict or a set takes as a key.\<close>

definition hashable :: "pyval \<Rightarrow> bool" where
  "hashable v \<longleftrightarrow> (case v of PList _ \<Rightarrow> False | PDict _ \<Rightarrow> False | _ \<Rightarrow> True)"

definition as_key :: "pyval \<Rightarrow> pyval res" where
  "as_key v = (if hashable v then Inr v else Inl (TypeError ''unhashable type''))"

lemma as_key_simps [simp]: "as_key (PStr s) = Inr (PStr s)" "as_key PNone = Inr PNone" "as_key v = Inr w \<longleftrightarrow> w = v \<and> hashable v"
  by (auto simp: as_key_def hashable_def)

text \<open>\<open>value.get(...)\<close> on something that should be a dict.\<close>

definition mapping_of :: "pyval \<Rightarrow> pydict res" where
  "mapping_of v = (case v of PDict d \<Rightarrow> Inr d
     | _ \<Rightarrow> Inl (AttributeError ''object has no attribute get''))"

text \<open>\<open>v[k]\<close>\<close>

definition entry :: "pyval \<Rightarrow> string \<Rightarrow> pyval res" where
  "entry v k = (case v of
       PDict d \<Rightarrow> if k \<in> set (map fst d) then Inr (dict_get d k) else Inl (KeyError k)
     | _ \<Rightarrow> Inl (TypeError ''object is not subscriptable''))"

lemma entry_Inr: "entry v k = Inr w \<longleftrightarrow> (\<exists>d. v = PDict d \<and> k \<in> set (map fst d) \<and> w = dict_get d k)"
  by (auto simp: entry_def split: pyval.splits)

text \<open>A stored and re-read dict has the same keys.\<close>

lemma keys_canon: "set (map fst (canon_entries d)) = set (map fst d)"
proof (induction d)
  case (Cons kv d)
  then show ?case by (cases kv) (simp add: set_insort_key)
qed simp

lemma entry_canon: "entry (canon (PDict d)) k = (if k \<in> set (map fst d) then Inr (canon (dict_get d k)) else Inl (KeyError k))"
  using keys_canon [of d] by (simp add: entry_def)

text \<open>Operations that need a text: concatenation with one, a text parameter of a statement.\<close>

definition need_text :: "pyval \<Rightarrow> string res" where
  "need_text v = (case v of PStr s \<Rightarrow> Inr s | _ \<Rightarrow> Inl (TypeError ''can only concatenate str to str''))"

lemma need_text_Inr [simp]: "need_text v = Inr s \<longleftrightarrow> v = PStr s" "need_text (PStr s) = Inr s"
  by (auto simp: need_text_def split: pyval.splits)

end
