(* ===== verification/Futures_Transport.thy ===== *)
theory Futures_Transport
  imports Short_Authority Py_Access
begin

section \<open>Conditional stop orders: one attempt, and the lookup\<close>

text \<open>
  \<open>FuturesProtectionTransport\<close> of \<open>futures_protection_transport.py\<close>: a stop order is sent inside a short
  dispatch, once per reservation, whatever became of the request; an uncertain outcome is only looked
  up. The router and the clock are arguments of the class, so the router's sends are a function of the
  kind of the command, the command and the dispatch state, and its read a function of the identifiers.
\<close>

record protection_transport =
  pt_attempted :: "pyval list list"
  pt_short :: short_state

type_synonym sender = "bool \<Rightarrow> pydict \<Rightarrow> short_state \<Rightarrow> short_state \<times> pyval res"

definition attempt_key :: "pydict \<Rightarrow> pyval list" where
  "attempt_key order = map (dict_get order) [''sessionId'', ''manifestHash'', ''operation'', ''clientAlgoId'']"

definition protection_mutate ::
  "sender \<Rightarrow> nat \<Rightarrow> pydict \<Rightarrow> (pydict \<Rightarrow> pyval res) \<Rightarrow> protection_transport \<Rightarrow> protection_transport \<times> pyval res" where
  "protection_mutate send thread order guard st =
     (case protection_native order of
        Inl e \<Rightarrow> (st, Inl e)
      | Inr native \<Rightarrow>
          if \<not> list_all hashable (attempt_key order) then (st, Inl (TypeError ''unhashable type''))
          else if list_ex (\<lambda>k. py_eq (PList k) (PList (attempt_key order))) (pt_attempted st)
          then (st, Inl (protection_error ''PROTECTION_MUTATION_ALREADY_ATTEMPTED''))
          else let st1 = st\<lparr>pt_attempted := attempt_key order # pt_attempted st\<rparr>
               in case enter_dispatch thread order native guard (pt_short st1) of
                    Inl e \<Rightarrow> (st1, Inl e)
                  | Inr inside \<Rightarrow>
                      (let (after, answer) = send (dict_get order ''operation'' = PStr ''PROTECT'') native inside
                       in (st1\<lparr>pt_short := leave_dispatch thread after\<rparr>, answer)))"

definition protect :: "sender \<Rightarrow> nat \<Rightarrow> pydict \<Rightarrow> (pydict \<Rightarrow> pyval res) \<Rightarrow> protection_transport \<Rightarrow> protection_transport \<times> pyval res" where
  "protect send thread order guard st =
     (if dict_get order ''operation'' \<noteq> PStr ''PROTECT'' then (st, Inl (protection_error ''PROTECTION_OPERATION_REQUIRED''))
      else protection_mutate send thread order guard st)"

definition cancel_protection ::
  "sender \<Rightarrow> nat \<Rightarrow> pydict \<Rightarrow> (pydict \<Rightarrow> pyval res) \<Rightarrow> protection_transport \<Rightarrow> protection_transport \<times> pyval res" where
  "cancel_protection send thread order guard st =
     (if dict_get order ''operation'' \<noteq> PStr ''CANCEL_PROTECTION''
      then (st, Inl (protection_error ''PROTECTION_CANCEL_OPERATION_REQUIRED''))
      else protection_mutate send thread order guard st)"

text \<open>The blocker of an observation that failed.\<close>

definition lookup_blocker :: "py_error \<Rightarrow> string" where
  "lookup_blocker e = (case e of
     CustomError kind c \<Rightarrow> if kind = ''FuturesProtectionError'' then c else ''PROTECTION_LOOKUP_UNKNOWN''
   | _ \<Rightarrow> ''PROTECTION_LOOKUP_UNKNOWN'')"

definition protection_lookup :: "(string \<Rightarrow> string \<Rightarrow> string \<Rightarrow> pyval res) \<Rightarrow> string \<Rightarrow> pydict \<Rightarrow> pydict" where
  "protection_lookup read started claim =
     (case
        res_bind (require (''symbol'' \<in> set (map fst claim)) (KeyError ''symbol'')) (\<lambda>_.
        res_bind (exact_client_algo_id (dict_get claim ''clientAlgoId'')) (\<lambda>client.
        res_bind (read (py_str (dict_get claim ''symbol'')) (py_str (py_or (dict_get claim ''algoId'') (PStr []))) client) (\<lambda>raw.
        normalize_protection_observation raw (PDict claim) started))) of
        Inr observation \<Rightarrow> observation
      | Inl e \<Rightarrow> [(''known'', PBool False), (''status'', PStr ''UNKNOWN''), (''observedAt'', PStr started),
                  (''blockers'', PList [PStr (lookup_blocker e)])])"

subsection \<open>One attempt\<close>

inductive transport_step :: "protection_transport \<Rightarrow> protection_transport \<Rightarrow> bool" where
  protect: "transport_step st (fst (protect send thread order guard st))"
| cancel: "transport_step st (fst (cancel_protection send thread order guard st))"
| elsewhere: "transport_step st (st\<lparr>pt_short := short\<rparr>)"

lemma mutate_attempts: "set (pt_attempted st) \<subseteq> set (pt_attempted (fst (protection_mutate send thread order guard st)))"
  by (auto simp: protection_mutate_def Let_def split: sum.splits prod.splits)

lemma step_attempts: "transport_step st st' \<Longrightarrow> set (pt_attempted st) \<subseteq> set (pt_attempted st')"
proof (induction rule: transport_step.induct)
  case (protect st send thread order guard)
  show ?case using mutate_attempts [of st send thread order guard] by (simp add: protect_def)
next
  case (cancel st send thread order guard)
  show ?case using mutate_attempts [of st send thread order guard] by (simp add: cancel_protection_def)
qed simp

lemma steps_attempts: "transport_step\<^sup>*\<^sup>* st st' \<Longrightarrow> set (pt_attempted st) \<subseteq> set (pt_attempted st')"
  by (induction rule: rtranclp_induct) (auto dest: step_attempts)

lemma mutate_recorded:
  assumes "protection_native order = Inr native" "list_all hashable (attempt_key order)"
  shows "\<exists>k \<in> set (pt_attempted (fst (protection_mutate send thread order guard st))). py_eq (PList k) (PList (attempt_key order))"
  using assms by (auto simp: protection_mutate_def Let_def list_ex_iff split: sum.splits prod.splits)

lemma attempted_refused:
  assumes "protection_native order = Inr native" "k \<in> set (pt_attempted st)" "py_eq (PList k) (PList (attempt_key order))"
    "list_all hashable (attempt_key order)"
  shows "protection_mutate send thread order guard st
    = (st, Inl (protection_error ''PROTECTION_MUTATION_ALREADY_ATTEMPTED''))"
proof -
  have "list_ex (\<lambda>k. py_eq (PList k) (PList (attempt_key order))) (pt_attempted st)"
    using assms(2,3) by (auto simp: list_ex_iff)
  with assms(1,4) show ?thesis by (simp add: protection_mutate_def)
qed

text \<open>
  C30: A stop order is sent at most once. Once \<open>protect\<close> or \<open>cancel\<close> was called for a valid reservation,
  then, whatever the router answered, however many other stop orders were sent and whatever happened to
  the dispatch, a second call for the same session, manifest, operation and client identifier is refused
  without a send (whatever the router would do) and changes nothing. A reservation whose identifiers cannot be
  the members of a set is refused every time.
\<close>

theorem stop_order_sent_once:
  assumes "protection_native order = Inr native" "protection_native order' = Inr native'"
    and "attempt_key order' = attempt_key order"
    and "transport_step\<^sup>*\<^sup>* (fst (protection_mutate send thread order guard st)) st'"
  shows "protection_mutate send' thread' order' guard' st'
    = (st', Inl (if list_all hashable (attempt_key order)
         then CustomError ''FuturesProtectionError'' ''PROTECTION_MUTATION_ALREADY_ATTEMPTED'' else TypeError ''unhashable type''))"
proof (cases "list_all hashable (attempt_key order)")
  case True
  from mutate_recorded [OF assms(1) True] steps_attempts [OF assms(4)] obtain k
    where "k \<in> set (pt_attempted st')" "py_eq (PList k) (PList (attempt_key order))" by blast
  with attempted_refused [OF assms(2)] True assms(3) show ?thesis by (simp add: protection_error_def)
next
  case False
  with assms(2,3) show ?thesis by (simp add: protection_mutate_def)
qed

definition stop_order :: pydict where
  "stop_order = [(''route'', PStr ''BINANCE_USDM_FUTURES''), (''operation'', PStr ''CANCEL_PROTECTION''),
     (''riskReducing'', PBool True), (''sessionId'', PStr ''a''), (''manifestHash'', PStr ''m''), (''accountId'', PStr ''x''),
     (''symbol'', PStr ''BTC''), (''clientAlgoId'', PStr ''c''), (''algoId'', PStr ''7'')]"

lemma stop_order_native: "\<exists>native. protection_native stop_order = Inr native"
  by (simp add: protection_native_def stop_order_def reservation_ok_def futures_symbol_def exact_client_algo_id_def client_char_def
      exact_algo_id_def algo_pattern_def is_alnum_def is_upper_def is_digit_def is_lower_def Let_def)

definition fresh_transport :: protection_transport where
  "fresh_transport = \<lparr>pt_attempted = [], pt_short = \<lparr>sl_active = [], sl_dispatch = (\<lambda>_. None)\<rparr>\<rparr>"

theorem stop_order_sent_once_witness:
  "\<exists>st'. cancel_protection (\<lambda>_ _ s. (s, Inr PNone)) 1 stop_order (\<lambda>_. Inr (PBool True))
       (fst (cancel_protection (\<lambda>_ _ s. (s, Inr PNone)) 1 stop_order (\<lambda>_. Inr (PBool True)) fresh_transport))
     = (st', Inl (CustomError ''FuturesProtectionError'' ''PROTECTION_MUTATION_ALREADY_ATTEMPTED''))"
proof -
  obtain native where n: "protection_native stop_order = Inr native" using stop_order_native by blast
  have "dict_get stop_order ''operation'' = PStr ''CANCEL_PROTECTION''" by (simp add: stop_order_def)
  then have c: "cancel_protection send 1 stop_order guard s = protection_mutate send 1 stop_order guard s" for send guard s
    by (simp add: cancel_protection_def)
  have key: "list_all hashable (attempt_key stop_order)" by (simp add: attempt_key_def stop_order_def hashable_def)
  show ?thesis
    unfolding c using stop_order_sent_once [OF n n refl rtranclp.rtrancl_refl, unfolded if_P [OF key]] by blast
qed

subsection \<open>Observations\<close>

text \<open>
  An accepted observation is about the owned stop: its identity, its side and its trigger price, as a
  number, are those of the claim, and its status is a known one.
\<close>

lemma observation_owned:
  assumes "normalize_protection_observation raw (PDict claim) seen_at = Inr observation"
  shows "py_eq (dict_get observation ''symbol'') (dict_get claim ''symbol'')
    \<and> dict_get observation ''clientAlgoId'' = dict_get claim ''clientAlgoId''
    \<and> dict_get observation ''side'' = PStr (close_side (dict_get claim ''positionDirection''))
    \<and> dict_get observation ''positionSide'' = PStr (position_side (dict_get claim ''positionDirection'') (dict_get claim ''positionMode''))
    \<and> (\<exists>s \<in> set algo_statuses. dict_get observation ''status'' = PStr s)
    \<and> (\<exists>a b. positive_number (dict_get observation ''triggerPrice'') = Inr a
        \<and> positive_number (dict_get claim ''triggerPrice'') = Inr b \<and> dec_value a = dec_value b)"
proof -
  have text_number: "positive_number v = Inr a \<Longrightarrow> positive_number (PStr (py_str v)) = Inr a" for v a
    by (cases v) (auto simp: positive_number_def)
  from assms obtain row client algo status actual where r: "py_eq (dict_get row ''symbol'') (dict_get claim ''symbol'')"
    "PStr client = dict_get claim ''clientAlgoId''" "check_terms row claim = Inr ()"
    and status: "status \<in> set algo_statuses"
    and o: "observation = observation_of row algo client status actual seen_at"
    unfolding normalize_protection_observation_def as_mapping_def Let_def
    by (auto split: if_splits)
  have fields: "dict_get observation ''symbol'' = dict_get row ''symbol''" "dict_get observation ''clientAlgoId'' = PStr client"
    "dict_get observation ''side'' = dict_get row ''side''" "dict_get observation ''positionSide'' = dict_get row ''positionSide''"
    "dict_get observation ''status'' = PStr status"
    "dict_get observation ''triggerPrice'' = PStr (py_str (dict_get row ''triggerPrice''))"
    by (simp_all add: o observation_of_def)
  from r(3) obtain a b where ab: "observed_terms row claim" "positive_number (dict_get row ''triggerPrice'') = Inr a"
    "positive_number (dict_get claim ''triggerPrice'') = Inr b" "dec_value a = dec_value b"
    by (auto simp: check_terms_def)
  from ab(1) have "dict_get row ''side'' = PStr (close_side (dict_get claim ''positionDirection''))"
    "dict_get row ''positionSide'' = PStr (position_side (dict_get claim ''positionDirection'') (dict_get claim ''positionMode''))"
    by (simp_all add: observed_terms_def Let_def)
  with r fields status ab text_number [OF ab(2)] show ?thesis by metis
qed

end
