(* ===== verification/Owned_Lock.thy ===== *)
theory Owned_Lock
  imports Route_Authority
begin

section \<open>The owned lock agrees with its reentrant lock\<close>

text \<open>
  \<open>OwnedRLock\<close> of \<open>upbit_order_authority.py\<close> keeps a count per thread beside the lock, so that ownership
  can be asked without the private interface of the lock. The counts are exact: the count of a thread
  is the depth at which it holds the lock.
\<close>

inductive lock_step :: "owned_lock \<Rightarrow> owned_lock \<Rightarrow> bool" where
  acquire: "lock_step l (fst (lock_acquire thread l))"
| release: "lock_release thread l = Inr l' \<Longrightarrow> lock_step l l'"

definition free_lock :: owned_lock where
  "free_lock = \<lparr>lk_owner = None, lk_count = 0, lk_depth = (\<lambda>_. None)\<rparr>"

definition exact_counts :: "owned_lock \<Rightarrow> bool" where
  "exact_counts l \<longleftrightarrow> (lk_owner l = None \<longleftrightarrow> lk_count l = 0)
     \<and> (\<forall>t. lock_depth l t = (if lk_owner l = Some t then int (lk_count l) else 0))"

lemma acquire_counts: "exact_counts l \<Longrightarrow> exact_counts (fst (lock_acquire thread l))"
  by (auto simp: exact_counts_def lock_acquire_def lock_depth_def split: if_splits)

lemma release_counts: "lock_release thread l = Inr l' \<Longrightarrow> exact_counts l \<Longrightarrow> exact_counts l'"
proof -
  assume "lock_release thread l = Inr l'" and counts: "exact_counts l"
  then have owner: "lk_owner l = Some thread"
    and l': "l' = l\<lparr>lk_owner := (if lk_count l = 1 then None else Some thread), lk_count := lk_count l - 1,
      lk_depth := (lk_depth l)(thread := (if 0 < lock_depth l thread - 1 then Some (lock_depth l thread - 1) else None))\<rparr>"
    by (auto simp: lock_release_def Let_def split: if_splits)
  have depth: "lock_depth l t = (if t = thread then int (lk_count l) else 0)" "0 < lk_count l" for t
    using counts owner by (auto simp: exact_counts_def)
  have "lock_depth l' t = (if t = thread then int (lk_count l) - 1 else 0)" for t
    using depth(1) [of t] depth(2) unfolding l' by (auto simp: lock_depth_def)
  with depth(2) show ?thesis unfolding exact_counts_def l' by (auto simp: lock_depth_def)
qed

lemma step_counts: "lock_step l l' \<Longrightarrow> exact_counts l \<Longrightarrow> exact_counts l'"
  by (induction rule: lock_step.induct) (simp_all add: acquire_counts release_counts)

lemma steps_counts: "lock_step\<^sup>*\<^sup>* free_lock l \<Longrightarrow> exact_counts l"
proof (induction rule: rtranclp_induct)
  case base
  show ?case by (simp add: free_lock_def exact_counts_def lock_depth_def)
next
  case (step y z)
  then show ?case by (blast intro: step_counts)
qed

text \<open>
  C31: The lock's own bookkeeping is equivalent to the ownership of the reentrant lock. However threads
  acquired and released it, \<open>owned_by_current_thread\<close> answers True exactly for the thread that holds the
  lock, and another thread can acquire it exactly when no thread's count is positive.
\<close>

theorem owned_lock_exact:
  assumes "lock_step\<^sup>*\<^sup>* free_lock l"
  shows "owned_by_current_thread thread l = (lk_owner l = Some thread)
    \<and> snd (lock_acquire thread l) = (\<forall>other. other = thread \<or> \<not> owned_by_current_thread other l)"
proof -
  have counts: "exact_counts l" by (rule steps_counts [OF assms])
  then have owned: "owned_by_current_thread t l = (lk_owner l = Some t)" for t
    by (auto simp: owned_by_current_thread_def exact_counts_def)
  show ?thesis unfolding owned by (auto simp: lock_acquire_def)
qed

theorem owned_lock_exact_witness:
  "owned_by_current_thread 1 (fst (lock_acquire 1 (fst (lock_acquire 1 free_lock))))
    \<and> \<not> snd (lock_acquire 2 (fst (lock_acquire 1 (fst (lock_acquire 1 free_lock)))))"
proof -
  let ?l = "fst (lock_acquire 1 (fst (lock_acquire 1 free_lock)))"
  have "lock_step\<^sup>*\<^sup>* free_lock ?l"
    by (rule rtranclp.rtrancl_into_rtrancl [OF r_into_rtranclp]) (rule lock_step.acquire)+
  from owned_lock_exact [OF this, of 1] owned_lock_exact [OF this, of 2] show ?thesis
    by (auto simp: lock_acquire_def free_lock_def)
qed

end
