(* ===== verification/Toss_Ledger.thy ===== *)
theory Toss_Ledger
  imports Py_Access Py_Dec_Text Py_Time Gov_Fields
begin

section \<open>Toss orders and their terminal fills\<close>

text \<open>
  \<open>number\<close>, \<open>order_status\<close> and \<open>exact_owned_order\<close> of \<open>toss_adapter.py\<close> and \<open>terminal_fill\<close> of
  \<open>toss_cash_ledger.py\<close>: the broker's answer about an order is accepted as the fill of the recorded request
  only when identity, side, quantity, currency, style and price agree and the cost is known.
  \<open>stable_sha256\<close> of the external package is the argument \<open>sha\<close>, the clock the argument \<open>now\<close>.
\<close>

definition toss_error :: "string \<Rightarrow> py_error" where
  "toss_error c = CustomError ''TossAdapterError'' c"

definition number :: "bool \<Rightarrow> pyval \<Rightarrow> pydec res" where
  "number positive v =
     (case dec_read (py_str v) of
        None \<Rightarrow> Inl (toss_error ''TOSS_INVALID_AMOUNT'')
      | Some a \<Rightarrow> if dec_value a < 0 \<or> (positive \<and> dec_value a \<le> 0)
                 then Inl (toss_error ''TOSS_INVALID_AMOUNT'') else Inr a)"

definition order_states :: "(string \<times> string) list" where
  "order_states = [(''PENDING'', ''new''), (''PARTIAL_FILLED'', ''partially_filled''), (''FILLED'', ''filled''),
     (''CANCELED'', ''canceled''), (''REJECTED'', ''rejected''), (''REPLACED'', ''replaced''),
     (''PENDING_CANCEL'', ''pending_cancel''), (''PENDING_REPLACE'', ''pending_replace''),
     (''CANCEL_REJECTED'', ''cancel_rejected''), (''REPLACE_REJECTED'', ''replace_rejected'')]"

text \<open>What the status adds to the broker's answer.\<close>

definition status_fields :: "pydict \<Rightarrow> string \<Rightarrow> pydec \<Rightarrow> pyval \<Rightarrow> pydict" where
  "status_fields payload state filled now =
     [(''broker_id'', PStr ''toss''), (''broker_order_id'', PStr (py_str (dict_get payload ''orderId''))),
      (''state'', PStr state), (''filled_quantity'', PStr (pd_text filled)),
      (''source'', PStr ''toss_order_detail_rest''), (''observed_at'', now)]"

definition order_status :: "pyval \<Rightarrow> pyval \<Rightarrow> pydict res" where
  "order_status now v =
     (case v of
        PDict payload \<Rightarrow>
          res_bind (require (truthy (dict_get payload ''orderId'')) (toss_error ''TOSS_ORDER_RESPONSE_INVALID'')) (\<lambda>_.
          case map_of order_states (upper (py_str (py_or (dict_get payload ''status'') (PStr [])))) of
            None \<Rightarrow> Inl (toss_error ''TOSS_ORDER_STATE_UNKNOWN'')
          | Some state \<Rightarrow>
              (case dict_get payload ''execution'' of
                 PDict execution \<Rightarrow>
                   res_bind (require (''filledQuantity'' \<in> set (map fst execution))
                     (toss_error ''TOSS_ORDER_EXECUTION_UNCONFIRMED'')) (\<lambda>_.
                   res_bind (number False (dict_get execution ''filledQuantity'')) (\<lambda>filled.
                   Inr (dict_update payload (status_fields payload state filled now))))
               | _ \<Rightarrow> Inl (toss_error ''TOSS_ORDER_EXECUTION_UNCONFIRMED'')))
      | _ \<Rightarrow> Inl (toss_error ''TOSS_ORDER_RESPONSE_INVALID''))"

definition number_unequal :: "pyval \<Rightarrow> pyval \<Rightarrow> unit \<Rightarrow> bool res" where
  "number_unequal v w _ = res_bind (number True v) (\<lambda>a. res_bind (number True w) (\<lambda>b. Inr (dec_value a \<noteq> dec_value b)))"

definition exact_owned_order :: "pyval \<Rightarrow> pyval \<Rightarrow> pydict \<Rightarrow> pydict res" where
  "exact_owned_order now payload proof_dict =
     (let pf = dict_get proof_dict in
      res_bind (mapping_of (py_or (pf ''response'') (PDict []))) (\<lambda>response.
      let order_id = py_str (py_or (dict_get response ''brokerOrderId'') (PStr [])) in
      res_bind (require (order_id \<noteq> [] \<and> truthy (dict_get response ''responseHash''))
        (toss_error ''TOSS_DURABLE_ORDER_ACK_REQUIRED'')) (\<lambda>_.
      res_bind (order_status now payload) (\<lambda>order_row.
      let rw = dict_get order_row in
      res_bind (any_of
        [\<lambda>_. Inr (rw ''broker_order_id'' \<noteq> PStr order_id),
         \<lambda>_. Inr (\<not> py_eq (rw ''symbol'') (pf ''symbol'')),
         \<lambda>_. Inr (\<not> py_eq (rw ''side'') (pf ''side'')),
         number_unequal (rw ''quantity'') (pf ''quantity'')]) (\<lambda>other.
      res_bind (require (\<not> other) (toss_error ''TOSS_OWNED_ORDER_IDENTITY_MISMATCH'')) (\<lambda>_.
      res_bind (as_key (rw ''currency'')) (\<lambda>currency.
      res_bind (require (currency \<in> {PStr ''KRW'', PStr ''USD''}) (toss_error ''TOSS_ORDER_CURRENCY_UNCONFIRMED'')) (\<lambda>_.
      res_bind (require (\<not> truthy (pf ''currency'') \<or> py_eq (pf ''currency'') (rw ''currency''))
        (toss_error ''TOSS_OWNED_ORDER_CURRENCY_MISMATCH'')) (\<lambda>_.
      res_bind (require (rw ''orderType'' = PStr ''LIMIT'' \<and> rw ''timeInForce'' = PStr ''DAY'')
        (toss_error ''TOSS_OWNED_ORDER_STYLE_MISMATCH'')) (\<lambda>_.
      res_bind (if pf ''price'' = PNone then Inr False else number_unequal (rw ''price'') (pf ''price'') ()) (\<lambda>priced.
      res_bind (require (\<not> priced) (toss_error ''TOSS_OWNED_ORDER_PRICE_MISMATCH'')) (\<lambda>_.
      res_bind (number False (rw ''filled_quantity'')) (\<lambda>filled.
      res_bind (number False (rw ''quantity'')) (\<lambda>ordered.
      res_bind (require (dec_value filled \<le> dec_value ordered) (toss_error ''TOSS_OWNED_FILL_QUANTITY_INVALID'')) (\<lambda>_.
      Inr order_row)))))))))))))))"

subsection \<open>Terminal fills\<close>

record fill_cost =
  fc_amount :: pydec
  fc_fee :: pydec

text \<open>\<open>value not in (None, "0", 0)\<close>\<close>

definition costs_something :: "pyval \<Rightarrow> bool" where
  "costs_something v \<longleftrightarrow> v \<noteq> PNone \<and> v \<noteq> PStr ''0'' \<and> \<not> py_eq v (PInt 0)"

definition execution_cost :: "pydict \<Rightarrow> pydec \<Rightarrow> fill_cost res" where
  "execution_cost execution quantity =
     (let ex = dict_get execution in
      if dec_value quantity = 0
      then (if list_ex (\<lambda>k. costs_something (ex k)) [''filledAmount'', ''commission'', ''tax'']
            then Inl (ValueError ''TOSS_ZERO_FILL_COST_UNCONFIRMED'')
            else Inr \<lparr>fc_amount = pd_zero, fc_fee = pd_zero\<rparr>)
      else
        res_bind (number True (ex ''filledAmount'')) (\<lambda>amount.
        res_bind (number False (ex ''commission'')) (\<lambda>commission.
        res_bind (number False (ex ''tax'')) (\<lambda>tax.
        case iso_parse (py_str (py_or (ex ''filledAt'') (PStr []))) of
          IsoBad \<Rightarrow> Inl (ValueError ''Invalid isoformat string'')
        | IsoNaive \<Rightarrow> Inl (ValueError ''TOSS_FILL_TIMESTAMP_MISSING'')
        | IsoAware _ \<Rightarrow> Inr \<lparr>fc_amount = amount, fc_fee = pd_add commission tax\<rparr>))))"

definition fill_json :: "(pyval \<Rightarrow> string) \<Rightarrow> pyval \<Rightarrow> pydict \<Rightarrow> pydict \<Rightarrow> pydec \<Rightarrow> fill_cost \<Rightarrow> pydict" where
  "fill_json sha order order_row execution quantity cost =
     (let rw = dict_get order_row in
      [(''orderId'', rw ''broker_order_id''), (''symbol'', rw ''symbol''), (''side'', rw ''side''),
       (''currency'', rw ''currency''), (''quantity'', PStr (pd_text quantity)), (''amount'', PStr (pd_text (fc_amount cost))),
       (''fee'', PStr (pd_text (fc_fee cost))), (''state'', rw ''state''), (''filledAt'', dict_get execution ''filledAt''),
       (''rawHash'', PStr (sha order))])"

definition terminal_fill :: "(pyval \<Rightarrow> string) \<Rightarrow> pyval \<Rightarrow> pyval \<Rightarrow> pydict \<Rightarrow> pydict res" where
  "terminal_fill sha now order proof_dict =
     res_bind (exact_owned_order now order proof_dict) (\<lambda>order_row.
     res_bind (require (dict_get order_row ''state'' \<in> {PStr ''filled'', PStr ''canceled'', PStr ''rejected''})
       (ValueError ''TOSS_ORDER_NOT_TERMINAL'')) (\<lambda>_.
     res_bind (number False (dict_get order_row ''filled_quantity'')) (\<lambda>quantity.
     res_bind (mapping_of (dict_get order_row ''execution'')) (\<lambda>execution.
     res_bind (execution_cost execution quantity) (\<lambda>cost.
     Inr (fill_json sha order order_row execution quantity cost))))))"

section \<open>The Toss cash ledger\<close>

text \<open>
  \<open>TossCashLedger\<close> of \<open>toss_cash_ledger.py\<close>: an append-only SQLite table of facts, guarded by triggers
  that abort updates and deletes. A missing file has no facts. A fact holds its decoded payload
  (\<open>json.loads(json.dumps(value, sort_keys=True))\<close>, whose keys are sorted) and the digest of the value.
  The operations return the table and whether a fact was added; on an error the transaction is rolled
  back and the table is unchanged, so the error carries no table. Connections are left out.
\<close>

record toss_fact =
  tf_key :: string
  tf_owner :: string
  tf_kind :: string
  tf_payload :: pyval
  tf_digest :: string

type_synonym toss_table = "toss_fact list"

definition append_fact ::
  "(pyval \<Rightarrow> string) \<Rightarrow> string \<Rightarrow> string \<Rightarrow> string \<Rightarrow> pydict \<Rightarrow> toss_table \<Rightarrow> (toss_table \<times> bool) res" where
  "append_fact sha owner kind key value db =
     (if \<not> strict_entries value then Inl (ValueError ''Out of range float values are not JSON compliant'')
      else let digest = sha (PDict value) in
        case find (\<lambda>f. tf_key f = key) db of
          Some prior \<Rightarrow>
            if (tf_owner prior, tf_kind prior, tf_digest prior) \<noteq> (owner, kind, digest)
            then Inl (ValueError ''TOSS_LEDGER_IDENTITY_CONFLICT'') else Inr (db, False)
        | None \<Rightarrow>
            Inr (db @ [\<lparr>tf_key = key, tf_owner = owner, tf_kind = kind, tf_payload = canon (PDict value),
                        tf_digest = digest\<rparr>], True))"

definition read_fact :: "(pyval \<Rightarrow> string) \<Rightarrow> toss_fact \<Rightarrow> toss_fact res" where
  "read_fact sha f =
     (if sha (tf_payload f) \<noteq> tf_digest f then Inl (ValueError ''TOSS_LEDGER_FACT_CHANGED'') else Inr f)"

definition facts :: "(pyval \<Rightarrow> string) \<Rightarrow> string \<Rightarrow> toss_table \<Rightarrow> toss_table res" where
  "facts sha owner db =
     res_map (read_fact sha) (if owner = [] then db else filter (\<lambda>f. tf_owner f = owner) db)"

definition unfinished :: "(pyval \<Rightarrow> string) \<Rightarrow> toss_table \<Rightarrow> string list res" where
  "unfinished sha db =
     res_bind (facts sha [] db) (\<lambda>table_rows.
     let owners = (\<lambda>kind. set (map tf_owner (filter (\<lambda>f. tf_kind f = kind) table_rows)))
     in Inr (sorted_list_of_set (owners ''START'' - owners ''RELEASED_FLAT'')))"

subsection \<open>Writing\<close>

definition initialize_owner ::
  "(pyval \<Rightarrow> string) \<Rightarrow> string \<Rightarrow> pyval \<Rightarrow> pydict \<Rightarrow> toss_table \<Rightarrow> (toss_table \<times> bool) res" where
  "initialize_owner sha owner scope budgets db =
     res_bind (require (starts_with owner ''live-runtime:toss-'' \<and> budgets \<noteq> []
         \<and> list_all (\<lambda>(c, _). c \<in> {''KRW'', ''USD''}) budgets) (ValueError ''TOSS_CASH_SCOPE_REQUIRED'')) (\<lambda>_.
     res_bind (res_map (\<lambda>(c, v). res_bind (number True v) (\<lambda>a. Inr (c, PStr (pd_text a)))) budgets) (\<lambda>amounts.
     append_fact sha owner ''START'' (owner @ '':start'') [(''scope'', scope), (''budgets'', PDict amounts)] db))"

definition register_intent ::
  "(pyval \<Rightarrow> string) \<Rightarrow> string \<Rightarrow> string \<Rightarrow> pydict \<Rightarrow> pyval \<Rightarrow> toss_table \<Rightarrow> (toss_table \<times> bool) res" where
  "register_intent sha owner client_id request spec_id db =
     append_fact sha owner ''INTENT'' (owner @ '':intent:'' @ client_id)
       [(''clientOrderId'', PStr client_id), (''request'', PDict request), (''strategyInstanceId'', spec_id)] db"

definition acknowledge ::
  "(pyval \<Rightarrow> string) \<Rightarrow> string \<Rightarrow> string \<Rightarrow> pydict \<Rightarrow> toss_table \<Rightarrow> (toss_table \<times> bool) res" where
  "acknowledge sha owner client_id response db =
     res_bind (require (truthy (dict_get response ''orderId'') \<and> dict_get response ''clientOrderId'' = PStr client_id)
       (ValueError ''TOSS_ACK_IDENTITY_UNKNOWN'')) (\<lambda>_.
     append_fact sha owner ''ACK'' (owner @ '':ack:'' @ client_id)
       [(''clientOrderId'', PStr client_id), (''orderId'', dict_get response ''orderId''),
        (''rawHash'', PStr (sha (PDict response)))] db)"

subsection \<open>Orders\<close>

text \<open>\<open>{r["payload"][k]: r["payload"] for r in rows if r["kind"] == kind}\<close>\<close>

definition index_facts :: "string \<Rightarrow> string \<Rightarrow> toss_table \<Rightarrow> (pyval \<times> pyval) list res" where
  "index_facts kind k table_rows =
     res_fold (\<lambda>index f. res_bind (res_bind (entry (tf_payload f) k) as_key) (\<lambda>v. Inr (assoc_put v (tf_payload f) index)))
       [] (filter (\<lambda>f. tf_kind f = kind) table_rows)"

record toss_order =
  to_intent :: pyval
  to_ack :: pyval
  to_terminal :: pyval

definition order_of :: "(pyval \<times> pyval) list \<Rightarrow> (pyval \<times> pyval) list \<Rightarrow> toss_fact \<Rightarrow> toss_order res" where
  "order_of acks fills f =
     res_bind (res_bind (entry (tf_payload f) ''clientOrderId'') as_key) (\<lambda>client.
     let ack = assoc_get PNone acks client in
     res_bind (if truthy ack then res_bind (res_bind (entry ack ''orderId'') as_key) (\<lambda>id. Inr (assoc_get PNone fills id)) else Inr PNone) (\<lambda>terminal.
     Inr \<lparr>to_intent = tf_payload f, to_ack = ack, to_terminal = terminal\<rparr>))"

definition toss_orders :: "(pyval \<Rightarrow> string) \<Rightarrow> string \<Rightarrow> toss_table \<Rightarrow> toss_order list res" where
  "toss_orders sha owner db =
     res_bind (facts sha owner db) (\<lambda>table_rows.
     res_bind (index_facts ''ACK'' ''clientOrderId'' table_rows) (\<lambda>acks.
     res_bind (index_facts ''TERMINAL'' ''orderId'' table_rows) (\<lambda>fills.
     res_map (order_of acks fills) (filter (\<lambda>f. tf_kind f = ''INTENT'') table_rows))))"

definition fill_proof :: "pydict \<Rightarrow> pyval \<Rightarrow> pyval \<Rightarrow> pyval \<Rightarrow> pydict" where
  "fill_proof request client order_id raw_hash =
     dict_update request [(''clientOrderId'', client),
       (''response'', PDict [(''brokerOrderId'', order_id), (''responseHash'', raw_hash)])]"

definition reconcile_order ::
  "(pyval \<Rightarrow> string) \<Rightarrow> pyval \<Rightarrow> string \<Rightarrow> toss_order \<Rightarrow> pyval \<Rightarrow> toss_table \<Rightarrow> (toss_table \<times> bool) res" where
  "reconcile_order sha now owner ord raw db =
     res_bind (entry (to_intent ord) ''request'') (\<lambda>request_value.
     res_bind (require (truthy (to_ack ord)) (ValueError ''TOSS_ORDER_ACK_UNKNOWN_NO_RETRY'')) (\<lambda>_.
     res_bind (case request_value of PDict d \<Rightarrow> Inr d | _ \<Rightarrow> Inl (TypeError ''object is not a mapping'')) (\<lambda>request.
     res_bind (entry (to_intent ord) ''clientOrderId'') (\<lambda>client.
     res_bind (entry (to_ack ord) ''orderId'') (\<lambda>order_id.
     res_bind (entry (to_ack ord) ''rawHash'') (\<lambda>raw_hash.
     res_bind (terminal_fill sha now raw (fill_proof request client order_id raw_hash)) (\<lambda>fill.
     res_bind (case order_id of PStr s \<Rightarrow> Inr s | _ \<Rightarrow> Inl (TypeError ''can only concatenate str to str'')) (\<lambda>id.
     res_bind (entry (to_intent ord) ''strategyInstanceId'') (\<lambda>spec_id.
     append_fact sha owner ''TERMINAL'' (owner @ '':terminal:'' @ id)
       (dict_update fill [(''strategyInstanceId'', spec_id)]) db)))))))))"

subsection \<open>Projection\<close>

record holdings =
  ho_cash :: "(string \<times> pydec) list"
  ho_positions :: "(pyval \<times> pydec) list"

record booked_fill =
  bf_strategy :: pyval
  bf_buys :: bool
  bf_currency :: string
  bf_quantity :: pydec
  bf_amount :: pydec
  bf_fee :: pydec

text \<open>The fields the projection reads, in its order; a currency that is no text is in no budget.\<close>

definition read_fill :: "(string \<times> pydec) list \<Rightarrow> pyval \<Rightarrow> booked_fill res" where
  "read_fill cash payload =
     res_bind (entry payload ''strategyInstanceId'') (\<lambda>strategy.
     res_bind (res_bind (entry payload ''quantity'') (number False)) (\<lambda>quantity.
     res_bind (res_bind (entry payload ''amount'') (number False)) (\<lambda>amount.
     res_bind (res_bind (entry payload ''fee'') (number False)) (\<lambda>fee.
     res_bind (res_bind (entry payload ''currency'') as_key) (\<lambda>currency.
     res_bind (case currency of
         PStr c \<Rightarrow> if c \<in> set (map fst cash) then Inr c else Inl (ValueError ''TOSS_FILL_CURRENCY_OUTSIDE_BUDGET'')
       | _ \<Rightarrow> Inl (ValueError ''TOSS_FILL_CURRENCY_OUTSIDE_BUDGET'')) (\<lambda>c.
     res_bind (as_key strategy) (\<lambda>key.
     res_bind (entry payload ''side'') (\<lambda>side.
     Inr \<lparr>bf_strategy = key, bf_buys = (side = PStr ''BUY''), bf_currency = c, bf_quantity = quantity,
          bf_amount = amount, bf_fee = fee\<rparr>))))))))"

definition book_fill :: "holdings \<Rightarrow> pyval \<Rightarrow> holdings res" where
  "book_fill h payload =
     res_bind (read_fill (ho_cash h) payload) (\<lambda>b.
     let position = pd_add (assoc_get pd_zero (ho_positions h) (bf_strategy b))
           (if bf_buys b then bf_quantity b else pd_minus (bf_quantity b));
         cash = pd_add (assoc_get pd_zero (ho_cash h) (bf_currency b))
           (if bf_buys b then pd_sub (pd_minus (bf_amount b)) (bf_fee b) else pd_sub (bf_amount b) (bf_fee b))
     in if dec_value position < 0 \<or> dec_value cash < 0 then Inl (ValueError ''TOSS_OWNED_OVERSPEND_OR_OVERSELL'')
        else Inr \<lparr>ho_cash = assoc_put (bf_currency b) cash (ho_cash h),
                  ho_positions = assoc_put (bf_strategy b) position (ho_positions h)\<rparr>)"

record projection =
  pj_cash :: "(string \<times> string) list"
  pj_positions :: "(pyval \<times> string) list"
  pj_unresolved :: nat
  pj_orders :: nat
  pj_terminals :: nat
  pj_fills :: nat
  pj_scope :: pyval
  pj_budgets :: pyval

definition starting_cash :: "pyval \<Rightarrow> (string \<times> pydec) list res" where
  "starting_cash start =
     res_bind (entry start ''budgets'') (\<lambda>budgets.
     res_bind (mapping_of budgets) (\<lambda>d.
     res_map (\<lambda>(c, v). res_bind (number False v) (\<lambda>a. Inr (c, a))) d))"

definition count_fills :: "toss_order list \<Rightarrow> nat res" where
  "count_fills orders =
     res_fold (\<lambda>n ord. if truthy (to_terminal ord)
         then res_bind (res_bind (entry (to_terminal ord) ''quantity'') (number False)) (\<lambda>q.
              Inr (if 0 < dec_value q then Suc n else n))
         else Inr n) 0 orders"

definition project :: "(pyval \<Rightarrow> string) \<Rightarrow> string \<Rightarrow> toss_table \<Rightarrow> projection res" where
  "project sha owner db =
     res_bind (facts sha owner db) (\<lambda>table_rows.
     case map tf_payload (filter (\<lambda>f. tf_kind f = ''START'') table_rows) of
       [start] \<Rightarrow>
         res_bind (starting_cash start) (\<lambda>cash.
         res_bind (res_fold book_fill \<lparr>ho_cash = cash, ho_positions = []\<rparr>
           (map tf_payload (filter (\<lambda>f. tf_kind f = ''TERMINAL'') table_rows))) (\<lambda>h.
         res_bind (toss_orders sha owner db) (\<lambda>orders.
         res_bind (count_fills orders) (\<lambda>fills.
         res_bind (entry start ''scope'') (\<lambda>scope.
         res_bind (entry start ''budgets'') (\<lambda>budgets.
         Inr \<lparr>pj_cash = map (\<lambda>(c, a). (c, pd_text a)) (ho_cash h),
              pj_positions = map (\<lambda>(k, a). (k, pd_text a)) (ho_positions h),
              pj_unresolved = length (filter (\<lambda>r. to_terminal r = PNone) orders), pj_orders = length orders,
              pj_terminals = length (filter (\<lambda>r. to_terminal r \<noteq> PNone) orders), pj_fills = fills,
              pj_scope = scope, pj_budgets = budgets\<rparr>))))))
     | _ \<Rightarrow> Inl (ValueError ''TOSS_OWNED_PRINCIPAL_MISSING''))"

end
