(* ===== verification/Toss_Laws.thy ===== *)
theory Toss_Laws
  imports Toss_Ledger
begin

section \<open>The Toss cash ledger: laws\<close>

text \<open>
  Facts are only appended, verify against their digest, and are unique per owner and order; a fill is
  accepted only for the order it belongs to.
\<close>

text \<open>\<open>stable_sha256\<close> hashes the canonical JSON of a content: the order of the keys does not matter.\<close>

definition hashes_json :: "(pyval \<Rightarrow> string) \<Rightarrow> bool" where
  "hashes_json sha \<longleftrightarrow> (\<forall>v. sha (canon v) = sha v)"

subsection \<open>Steps of the ledger\<close>

text \<open>The kinds other modules append directly are \<open>CANCEL_INTENT\<close> and \<open>RELEASED_FLAT\<close>.\<close>

inductive toss_step :: "(pyval \<Rightarrow> string) \<Rightarrow> toss_table \<Rightarrow> toss_table \<Rightarrow> bool" for sha where
  initialize: "initialize_owner sha owner scope budgets db = Inr (db', b) \<Longrightarrow> toss_step sha db db'"
| register: "register_intent sha owner client request spec_id db = Inr (db', b) \<Longrightarrow> toss_step sha db db'"
| acknowledge: "acknowledge sha owner client response db = Inr (db', b) \<Longrightarrow> toss_step sha db db'"
| reconcile: "reconcile_order sha now owner ord raw db = Inr (db', b) \<Longrightarrow> toss_step sha db db'"
| other: "append_fact sha owner kind key content db = Inr (db', b) \<Longrightarrow> kind \<in> {''CANCEL_INTENT'', ''RELEASED_FLAT''}
    \<Longrightarrow> toss_step sha db db'"

definition new_fact :: "(pyval \<Rightarrow> string) \<Rightarrow> string \<Rightarrow> string \<Rightarrow> string \<Rightarrow> pydict \<Rightarrow> toss_fact" where
  "new_fact sha owner kind key content =
     \<lparr>tf_key = key, tf_owner = owner, tf_kind = kind, tf_payload = canon (PDict content), tf_digest = sha (PDict content)\<rparr>"

lemma append_Inr:
  assumes "append_fact sha owner kind key content db = Inr (db', b)"
  shows "if b then db' = db @ [new_fact sha owner kind key content] \<and> key \<notin> set (map tf_key db)
    else db' = db \<and> (\<exists>f \<in> set db. tf_key f = key \<and> tf_owner f = owner \<and> tf_kind f = kind \<and> tf_digest f = sha (PDict content))"
  using assms
  by (auto simp: append_fact_def new_fact_def Let_def find_None_iff find_Some_iff split: if_splits option.splits)

lemma append_member:
  assumes "append_fact sha owner kind key content db = Inr (db', b)"
  obtains f where "f \<in> set db'" "tf_key f = key" "tf_owner f = owner" "tf_kind f = kind" "tf_digest f = sha (PDict content)"
proof (cases b)
  case True
  with append_Inr [OF assms] that [of "new_fact sha owner kind key content"] show ?thesis by (simp add: new_fact_def)
next
  case False
  with append_Inr [OF assms] that show ?thesis by auto
qed

text \<open>Every operation is an append; the key of a start or of a terminal fill names its owner and order.\<close>

definition keyed :: "toss_fact \<Rightarrow> bool" where
  "keyed f \<longleftrightarrow> (tf_kind f = ''START'' \<longrightarrow> tf_key f = tf_owner f @ '':start'')
     \<and> (tf_kind f = ''TERMINAL'' \<longrightarrow> (\<exists>oid. tf_key f = tf_owner f @ '':terminal:'' @ oid
          \<and> entry (tf_payload f) ''orderId'' = Inr (PStr oid)))"

lemma fill_order_id:
  assumes "terminal_fill sha now raw (fill_proof request client (PStr oid) raw_hash) = Inr fill"
  shows "dict_get fill ''orderId'' = PStr oid" "''orderId'' \<in> set (map fst fill)"
proof -
  from assms obtain order_row execution quantity cost
    where own: "exact_owned_order now raw (fill_proof request client (PStr oid) raw_hash) = Inr order_row"
    and fill: "fill = fill_json sha raw order_row execution quantity cost"
    by (auto simp: terminal_fill_def)
  have "dict_get (fill_proof request client (PStr oid) raw_hash) ''response''
      = PDict [(''brokerOrderId'', PStr oid), (''responseHash'', raw_hash)]"
    by (simp add: fill_proof_def dict_update_def dict_get_put)
  with own have "dict_get order_row ''broker_order_id'' = PStr oid"
    by (auto simp: exact_owned_order_def mapping_of_def Let_def py_or_def split: if_splits)
  then show "dict_get fill ''orderId'' = PStr oid" "''orderId'' \<in> set (map fst fill)"
    by (simp_all add: fill fill_json_def Let_def)
qed

lemma keyed_terminal:
  assumes "dict_get fill ''orderId'' = PStr oid" "''orderId'' \<in> set (map fst fill)"
  shows "keyed (new_fact sha owner ''TERMINAL'' (owner @ '':terminal:'' @ oid) (dict_update fill [(''strategyInstanceId'', spec_id)]))"
proof -
  have "''orderId'' \<in> set (map fst (dict_update fill [(''strategyInstanceId'', spec_id)]))"
    using assms(2) by (simp add: dict_update_def keys_assoc_put [unfolded image_set])
  moreover have "dict_get (dict_update fill [(''strategyInstanceId'', spec_id)]) ''orderId'' = PStr oid"
    using assms(1) by (simp add: dict_update_def dict_get_put)
  ultimately show ?thesis by (simp add: keyed_def new_fact_def entry_canon del: canon.simps) simp
qed

lemma keyed_start: "keyed (new_fact sha owner ''START'' (owner @ '':start'') content)"
  by (simp add: keyed_def new_fact_def)

lemma keyed_other: "kind \<notin> {''START'', ''TERMINAL''} \<Longrightarrow> keyed (new_fact sha owner kind key content)"
  by (simp add: keyed_def new_fact_def)

lemma step_append:
  assumes "toss_step sha db db'"
  shows "\<exists>owner kind key content b. append_fact sha owner kind key content db = Inr (db', b) \<and> keyed (new_fact sha owner kind key content)"
  using assms
proof cases
  case (reconcile now owner ord raw b)
  then obtain request client oid raw_hash fill spec_id where
    fill: "terminal_fill sha now raw (fill_proof request client (PStr oid) raw_hash) = Inr fill"
    and app: "append_fact sha owner ''TERMINAL'' (owner @ '':terminal:'' @ oid)
      (dict_update fill [(''strategyInstanceId'', spec_id)]) db = Inr (db', b)"
    by (auto simp: reconcile_order_def split: pyval.splits)
  from app keyed_terminal [OF fill_order_id [OF fill]] show ?thesis by blast
next
  case (initialize owner scope budgets b)
  then obtain content where "append_fact sha owner ''START'' (owner @ '':start'') content db = Inr (db', b)"
    unfolding initialize_owner_def by auto
  then show ?thesis using keyed_start by blast
next
  case (register owner client request spec_id b)
  then show ?thesis unfolding register_intent_def using keyed_other [of "''INTENT''"] by fastforce
next
  case (acknowledge owner client response b)
  then obtain content where "append_fact sha owner ''ACK'' (owner @ '':ack:'' @ client) content db = Inr (db', b)"
    unfolding acknowledge_def by auto
  then show ?thesis using keyed_other [of "''ACK''"] by fastforce
next
  case (other owner kind key content b)
  then show ?thesis using keyed_other [of kind] by fastforce
qed

subsection \<open>What the table keeps\<close>

definition table_kept :: "(pyval \<Rightarrow> string) \<Rightarrow> toss_table \<Rightarrow> bool" where
  "table_kept sha db \<longleftrightarrow> distinct (map tf_key db) \<and> (\<forall>f \<in> set db. sha (tf_payload f) = tf_digest f \<and> keyed f)"

lemma step_kept: "toss_step sha db db' \<Longrightarrow> hashes_json sha \<Longrightarrow> table_kept sha db \<Longrightarrow> table_kept sha db' \<and> prefix db db'"
proof -
  assume hash: "hashes_json sha" and kept: "table_kept sha db"
  assume "toss_step sha db db'"
  from step_append [OF this] obtain owner kind key content b where
    a: "append_fact sha owner kind key content db = Inr (db', b)" "keyed (new_fact sha owner kind key content)" by blast
  show ?thesis
  proof (cases b)
    case True
    with append_Inr [OF a(1)] have db': "db' = db @ [new_fact sha owner kind key content]" "key \<notin> set (map tf_key db)" by simp_all
    have "sha (tf_payload (new_fact sha owner kind key content)) = tf_digest (new_fact sha owner kind key content)"
      using hash unfolding hashes_json_def by (simp add: new_fact_def del: canon.simps)
    then show ?thesis using kept db' a(2) unfolding table_kept_def by (auto simp: new_fact_def)
  next
    case False
    with append_Inr [OF a(1)] kept show ?thesis by simp
  qed
qed

lemma steps_kept:
  assumes "(toss_step sha)\<^sup>*\<^sup>* db db'" "hashes_json sha" "table_kept sha db"
  shows "table_kept sha db' \<and> prefix db db'"
  using assms(1)
proof (induction rule: rtranclp_induct)
  case base
  show ?case using assms(3) by simp
next
  case (step y z)
  from step_kept [OF step.hyps(2) assms(2)] step.IH show ?case by (auto intro: prefix_order.trans)
qed

lemma kept_facts: "table_kept sha db \<Longrightarrow> facts sha owner db = Inr (if owner = [] then db else filter (\<lambda>f. tf_owner f = owner) db)"
proof -
  assume kept: "table_kept sha db"
  have same: "res_map (read_fact sha) xs = Inr xs" if "set xs \<subseteq> set db" for xs
  proof -
    have "read_fact sha f = Inr f" if "f \<in> set xs" for f
      using kept that \<open>set xs \<subseteq> set db\<close> by (auto simp: read_fact_def table_kept_def)
    then show ?thesis using res_map_total [of xs "read_fact sha" "\<lambda>f. f"] by simp
  qed
  show ?thesis by (simp add: facts_def same)
qed

lemma kept_unique:
  assumes "table_kept sha db" "f \<in> set db" "g \<in> set db" "tf_key f = tf_key g"
  shows "f = g"
  using assms unfolding table_kept_def by (auto simp: distinct_map inj_on_def)

definition order_id :: "toss_fact \<Rightarrow> pyval res" where
  "order_id f = entry (tf_payload f) ''orderId''"

definition once_each :: "toss_table \<Rightarrow> bool" where
  "once_each db \<longleftrightarrow> (\<forall>f \<in> set db. \<forall>g \<in> set db. tf_owner f = tf_owner g \<longrightarrow> tf_kind f = tf_kind g
     \<longrightarrow> (tf_kind f = ''START'' \<or> (tf_kind f = ''TERMINAL'' \<and> order_id f = order_id g)) \<longrightarrow> f = g)"

lemma kept_once: "table_kept sha db \<Longrightarrow> once_each db"
  unfolding once_each_def
proof (intro ballI impI)
  fix f g
  assume kept: "table_kept sha db" and f: "f \<in> set db" and g: "g \<in> set db" and owner: "tf_owner f = tf_owner g"
    and kind: "tf_kind f = tf_kind g"
    and same: "tf_kind f = ''START'' \<or> (tf_kind f = ''TERMINAL'' \<and> order_id f = order_id g)"
  have "keyed f" "keyed g" using kept f g by (auto simp: table_kept_def)
  with owner kind same have "tf_key f = tf_key g" by (auto simp: keyed_def order_id_def)
  then show "f = g" by (rule kept_unique [OF kept f g])
qed

text \<open>
  C38: A fill is booked once and nothing is ever lost. Whatever operations a ledger went through, every
  read returns exactly the recorded facts in their order (none fails its digest), an owner has at most one
  start and an order of an owner at most one terminal fill, and all this stays in every later ledger,
  which only appends. The digest is assumed to be one of the canonical JSON.
\<close>

theorem toss_facts_kept:
  assumes "hashes_json sha" "(toss_step sha)\<^sup>*\<^sup>* [] db" "(toss_step sha)\<^sup>*\<^sup>* db db'"
  shows "facts sha owner db = Inr (if owner = [] then db else filter (\<lambda>f. tf_owner f = owner) db)
    \<and> once_each db' \<and> prefix db db'"
proof -
  have "table_kept sha []" by (simp add: table_kept_def)
  from steps_kept [OF assms(2,1) this] have kept: "table_kept sha db" by simp
  from steps_kept [OF assms(3,1) this] have "table_kept sha db'" "prefix db db'" by simp_all
  with kept_facts [OF kept] kept_once show ?thesis by blast
qed

text \<open>
  An owner is never recycled. After an owner was initialized, every later initialization of the same
  owner, whatever happened in between, adds nothing: it raises, or it repeats the recorded scope and
  budgets up to a collision of the digest.
\<close>

theorem toss_owner_never_recycled:
  assumes "hashes_json sha" "(toss_step sha)\<^sup>*\<^sup>* [] db" "initialize_owner sha owner scope budgets db = Inr (db1, added)"
    and "(toss_step sha)\<^sup>*\<^sup>* db1 db2" "initialize_owner sha owner scope' budgets' db2 = Inr (db3, again)"
  shows "db3 = db2 \<and> \<not> again
    \<and> (\<exists>f \<in> set db1. tf_owner f = owner \<and> tf_kind f = ''START'' \<and> initialize_owner sha owner scope' budgets' [f] = Inr ([f], False))"
proof -
  have "table_kept sha []" by (simp add: table_kept_def)
  from steps_kept [OF assms(2,1) this] have kept: "table_kept sha db" by simp
  have "toss_step sha db db1" by (rule toss_step.initialize [OF assms(3)])
  from step_kept [OF this assms(1) kept] have kept1: "table_kept sha db1" by simp
  from steps_kept [OF assms(4,1) kept1] have kept2: "table_kept sha db2" and "prefix db1 db2" by simp_all
  have sub: "set db1 \<subseteq> set db2" by (rule set_mono_prefix [OF \<open>prefix db1 db2\<close>])
  from assms(3) obtain f where f: "f \<in> set db1" "tf_key f = owner @ '':start''" "tf_owner f = owner" "tf_kind f = ''START''"
    unfolding initialize_owner_def by (auto elim: append_member)
  from assms(5) obtain amounts where
    ok: "starts_with owner ''live-runtime:toss-''" "budgets' \<noteq> []" "list_all (\<lambda>(c, _). c \<in> {''KRW'', ''USD''}) budgets'"
      "res_map (\<lambda>(c, v). res_bind (number True v) (\<lambda>a. Inr (c, PStr (pd_text a)))) budgets' = Inr amounts"
    and app: "append_fact sha owner ''START'' (owner @ '':start'') [(''scope'', scope'), (''budgets'', PDict amounts)] db2 = Inr (db3, again)"
    unfolding initialize_owner_def by auto
  have "again = False" using append_Inr [OF app] f sub by force
  with append_Inr [OF app] obtain g where g: "db3 = db2" "g \<in> set db2" "tf_key g = owner @ '':start''"
    "tf_digest g = sha (PDict [(''scope'', scope'), (''budgets'', PDict amounts)])" by auto
  have "g = f" by (rule kept_unique [OF kept2 g(2)]) (use f sub g in auto)
  have "strict_entries [(''scope'', scope'), (''budgets'', PDict amounts)]"
    using app by (simp add: append_fact_def split: if_splits)
  then have "append_fact sha owner ''START'' (owner @ '':start'') [(''scope'', scope'), (''budgets'', PDict amounts)] [f] = Inr ([f], False)"
    using f g \<open>g = f\<close> by (simp add: append_fact_def Let_def)
  then have "initialize_owner sha owner scope' budgets' [f] = Inr ([f], False)"
    using ok by (simp add: initialize_owner_def)
  with f g(1) \<open>again = False\<close> show ?thesis by blast
qed

subsection \<open>An accepted fill belongs to its order\<close>

lemma number_text: "number positive (PStr (pd_text a)) = (if dec_value a < 0 \<or> (positive \<and> dec_value a \<le> 0)
    then Inl (toss_error ''TOSS_INVALID_AMOUNT'') else Inr a)"
  by (simp add: number_def dec_read_text)

lemma number_Inr: "number positive v = Inr a \<Longrightarrow> 0 \<le> dec_value a" "number True v = Inr a \<Longrightarrow> 0 < dec_value a"
  by (auto simp: number_def split: option.splits if_splits)

lemma number_any: "number True v = Inr a \<Longrightarrow> number False v = Inr a"
  by (auto simp: number_def split: option.splits if_splits)

lemma dec_add_nonneg: "0 \<le> a \<Longrightarrow> 0 \<le> b \<Longrightarrow> 0 \<le> dec_add a b"
  using ctx_round_pos [of "a + b"] by (cases "a + b = 0") (auto simp: dec_add_def)

lemma proof_fields:
  "k \<notin> {''clientOrderId'', ''response''} \<Longrightarrow> dict_get (fill_proof request client i h) k = dict_get request k"
  "dict_get (fill_proof request client i h) ''response'' = PDict [(''brokerOrderId'', i), (''responseHash'', h)]"
  by (auto simp: fill_proof_def dict_update_def dict_get_put)

lemma status_answer:
  assumes "order_status now raw = Inr order_row"
  obtains answer where "raw = PDict answer" "dict_get order_row ''broker_order_id'' = PStr (py_str (dict_get answer ''orderId''))"
    "\<And>k. k \<in> {''symbol'', ''side'', ''quantity'', ''price'', ''currency'', ''execution''} \<Longrightarrow> dict_get order_row k = dict_get answer k"
proof -
  from assms obtain answer state filled where a: "raw = PDict answer"
    and r: "order_row = dict_update answer (status_fields answer state filled now)"
    by (auto simp: order_status_def split: pyval.splits option.splits)
  have "dict_get order_row ''broker_order_id'' = PStr (py_str (dict_get answer ''orderId''))"
    by (simp add: r status_fields_def dict_update_def dict_get_put)
  moreover have "dict_get order_row k = dict_get answer k"
    if "k \<in> {''symbol'', ''side'', ''quantity'', ''price'', ''currency'', ''execution''}" for k
    unfolding r by (rule dict_get_update) (use that in \<open>auto simp: status_fields_def\<close>)
  ultimately show ?thesis using that a by blast
qed

definition same_number_of :: "pyval \<Rightarrow> pyval \<Rightarrow> bool" where
  "same_number_of v w \<longleftrightarrow> (\<exists>a b. number True v = Inr a \<and> number True w = Inr b \<and> dec_value a = dec_value b)"

lemma number_unequal_False: "number_unequal v w u = Inr False \<Longrightarrow> same_number_of v w"
  by (auto simp: number_unequal_def same_number_of_def res_bind_eq_Inr)

lemma exact_owned_Inr:
  assumes "exact_owned_order now raw (fill_proof request client (PStr oid) h) = Inr order_row"
  obtains answer filled ordered where "raw = PDict answer" "py_str (dict_get answer ''orderId'') = oid"
    "dict_get order_row ''broker_order_id'' = PStr oid" "dict_get order_row ''symbol'' = dict_get answer ''symbol''"
    "dict_get order_row ''side'' = dict_get answer ''side''"
    "py_eq (dict_get answer ''symbol'') (dict_get request ''symbol'')" "py_eq (dict_get answer ''side'') (dict_get request ''side'')"
    "same_number_of (dict_get answer ''quantity'') (dict_get request ''quantity'')"
    "dict_get request ''price'' \<noteq> PNone \<Longrightarrow> same_number_of (dict_get answer ''price'') (dict_get request ''price'')"
    "number False (dict_get order_row ''filled_quantity'') = Inr filled" "number False (dict_get answer ''quantity'') = Inr ordered"
    "dec_value filled \<le> dec_value ordered" "dict_get order_row ''currency'' = dict_get answer ''currency''"
proof -
  note fields = proof_fields(1) [of _ request client "PStr oid" h] proof_fields(2) [of request client "PStr oid" h]
  from assms obtain other priced filled ordered where
    status: "order_status now raw = Inr order_row"
    and any: "any_of [\<lambda>_. Inr (dict_get order_row ''broker_order_id'' \<noteq> PStr oid),
         \<lambda>_. Inr (\<not> py_eq (dict_get order_row ''symbol'') (dict_get request ''symbol'')),
         \<lambda>_. Inr (\<not> py_eq (dict_get order_row ''side'') (dict_get request ''side'')),
         number_unequal (dict_get order_row ''quantity'') (dict_get request ''quantity'')] = Inr False"
    and price: "(if dict_get request ''price'' = PNone then Inr False
         else number_unequal (dict_get order_row ''price'') (dict_get request ''price'') ()) = Inr False"
    and filled: "number False (dict_get order_row ''filled_quantity'') = Inr filled" "number False (dict_get order_row ''quantity'') = Inr ordered"
      "dec_value filled \<le> dec_value ordered"
    unfolding exact_owned_order_def Let_def mapping_of_def by (auto simp: fields py_or_def simp del: any_of.simps split: if_splits)
  from status_answer [OF status] obtain answer where a: "raw = PDict answer"
    "dict_get order_row ''broker_order_id'' = PStr (py_str (dict_get answer ''orderId''))"
    "\<And>k. k \<in> {''symbol'', ''side'', ''quantity'', ''price'', ''currency'', ''execution''} \<Longrightarrow> dict_get order_row k = dict_get answer k"
    by blast
  from any have c: "dict_get order_row ''broker_order_id'' = PStr oid" "py_eq (dict_get order_row ''symbol'') (dict_get request ''symbol'')"
    "py_eq (dict_get order_row ''side'') (dict_get request ''side'')"
    "same_number_of (dict_get order_row ''quantity'') (dict_get request ''quantity'')"
    unfolding any_of_False by (auto dest: number_unequal_False)
  have "same_number_of (dict_get order_row ''price'') (dict_get request ''price'')" if "dict_get request ''price'' \<noteq> PNone"
    using price that by (auto dest: number_unequal_False)
  with that [OF a(1) _ c(1)] a(2,3) c filled show ?thesis by auto
qed

lemma cost_Inr:
  assumes "execution_cost execution quantity = Inr cost"
  shows "if dec_value quantity = 0 then dec_value (fc_amount cost) = 0 \<and> dec_value (fc_fee cost) = 0
    else 0 < dec_value (fc_amount cost) \<and> 0 \<le> dec_value (fc_fee cost)"
  using assms by (auto simp: execution_cost_def Let_def number_Inr dec_add_nonneg split: if_splits iso_result.splits)

lemma number_none: "\<not> number positive PNone = Inr a"
proof -
  have "number positive PNone = Inl (toss_error ''TOSS_INVALID_AMOUNT'')" by (cases positive) code_simp+
  then show ?thesis by simp
qed

text \<open>
  The cost of an execution, over the broker's own fields: all of them are empty for a fill of nothing;
  otherwise every field is there and the fee is the sum of commission and tax.
\<close>

definition free_of_cost :: "pydict \<Rightarrow> bool" where
  "free_of_cost execution \<longleftrightarrow> (\<forall>k \<in> {''filledAmount'', ''commission'', ''tax''}.
     dict_get execution k = PNone \<or> dict_get execution k = PStr ''0'' \<or> py_eq (dict_get execution k) (PInt 0))"

definition known_cost :: "pydict \<Rightarrow> pydec \<Rightarrow> pydec \<Rightarrow> bool" where
  "known_cost execution amount fee \<longleftrightarrow>
     0 < dec_value amount \<and> number True (dict_get execution ''filledAmount'') = Inr amount
     \<and> (\<forall>k \<in> {''filledAmount'', ''commission'', ''tax''}. dict_get execution k \<noteq> PNone)
     \<and> (\<exists>commission tax. number False (dict_get execution ''commission'') = Inr commission
          \<and> number False (dict_get execution ''tax'') = Inr tax
          \<and> dec_value fee = ctx_round (dec_value commission + dec_value tax))
     \<and> (\<exists>t. iso_parse (py_str (py_or (dict_get execution ''filledAt'') (PStr []))) = IsoAware t)"

lemma cost_fields:
  assumes "execution_cost execution quantity = Inr cost"
  shows "if dec_value quantity = 0 then dec_value (fc_amount cost) = 0 \<and> dec_value (fc_fee cost) = 0 \<and> free_of_cost execution
    else known_cost execution (fc_amount cost) (fc_fee cost)"
proof (cases "dec_value quantity = 0")
  case True
  with assms cost_Inr [OF assms] show ?thesis
    by (auto simp: execution_cost_def free_of_cost_def costs_something_def Let_def split: if_splits)
next
  case False
  with assms obtain amount commission tax t where n: "number True (dict_get execution ''filledAmount'') = Inr amount"
    "number False (dict_get execution ''commission'') = Inr commission" "number False (dict_get execution ''tax'') = Inr tax"
    and t: "iso_parse (py_str (py_or (dict_get execution ''filledAt'') (PStr []))) = IsoAware t"
    and c: "cost = \<lparr>fc_amount = amount, fc_fee = pd_add commission tax\<rparr>"
    unfolding execution_cost_def Let_def by (auto split: if_splits iso_result.splits)
  have "dict_get execution k \<noteq> PNone" if "k \<in> {''filledAmount'', ''commission'', ''tax''}" for k
    using n number_none that by fastforce
  with False n t c number_Inr(2) [OF n(1)] show ?thesis
    unfolding known_cost_def by (simp add: dec_add_def)
qed

lemma status_state:
  assumes "order_status now (PDict answer) = Inr order_row" "dict_get answer ''execution'' = PDict execution"
  shows "dict_get order_row ''state'' = PStr state \<Longrightarrow>
      map_of order_states (upper (py_str (py_or (dict_get answer ''status'') (PStr [])))) = Some state"
    "\<exists>q. number False (dict_get execution ''filledQuantity'') = Inr q \<and> dict_get order_row ''filled_quantity'' = PStr (pd_text q)"
proof -
  from assms obtain s q where s: "map_of order_states (upper (py_str (py_or (dict_get answer ''status'') (PStr [])))) = Some s"
    "number False (dict_get execution ''filledQuantity'') = Inr q"
    and r: "order_row = dict_update answer (status_fields answer s q now)"
    unfolding order_status_def by (auto split: option.splits)
  have f: "dict_get order_row ''state'' = PStr s" "dict_get order_row ''filled_quantity'' = PStr (pd_text q)"
    by (simp_all add: r status_fields_def dict_update_def dict_get_put)
  show "map_of order_states (upper (py_str (py_or (dict_get answer ''status'') (PStr [])))) = Some state"
    if "dict_get order_row ''state'' = PStr state" using s(1) f(1) that by simp
  show "\<exists>q. number False (dict_get execution ''filledQuantity'') = Inr q \<and> dict_get order_row ''filled_quantity'' = PStr (pd_text q)"
    using s(2) f(2) by blast
qed

lemma terminal_status:
  assumes "map_of order_states (upper (py_str (py_or v (PStr [])))) = Some state" "state \<in> {''filled'', ''canceled'', ''rejected''}"
  shows "(upper (py_str v), state) \<in> {(''FILLED'', ''filled''), (''CANCELED'', ''canceled''), (''REJECTED'', ''rejected'')}"
proof -
  have "truthy v"
    using assms(1) by (cases "truthy v") (simp_all add: py_or_def upper_def order_states_def)
  with assms show ?thesis by (auto simp: py_or_def order_states_def split: if_splits)
qed

lemma owned_status: "exact_owned_order now raw proof_dict = Inr order_row \<Longrightarrow> order_status now raw = Inr order_row"
  unfolding exact_owned_order_def Let_def by (auto simp: res_bind_eq_Inr simp del: any_of.simps)

lemma terminal_parts:
  assumes "terminal_fill sha now (PDict answer) proof_dict = Inr fill"
  obtains execution order_row q cost state where "exact_owned_order now (PDict answer) proof_dict = Inr order_row"
    "dict_get answer ''execution'' = PDict execution" "number False (dict_get execution ''filledQuantity'') = Inr q"
    "execution_cost execution q = Inr cost" "fill = fill_json sha (PDict answer) order_row execution q cost"
    "dict_get order_row ''state'' = PStr state" "number False (dict_get order_row ''filled_quantity'') = Inr q"
    "(upper (py_str (dict_get answer ''status'')), state) \<in> {(''FILLED'', ''filled''), (''CANCELED'', ''canceled''), (''REJECTED'', ''rejected'')}"
proof -
  from assms obtain order_row execution q cost state
    where own: "exact_owned_order now (PDict answer) proof_dict = Inr order_row"
    and state: "dict_get order_row ''state'' = PStr state" "state \<in> {''filled'', ''canceled'', ''rejected''}"
    and q: "number False (dict_get order_row ''filled_quantity'') = Inr q"
    and ex: "dict_get order_row ''execution'' = PDict execution"
    and cost: "execution_cost execution q = Inr cost" "fill = fill_json sha (PDict answer) order_row execution q cost"
    by (auto simp: terminal_fill_def mapping_of_def split: pyval.splits)
  note status = owned_status [OF own]
  have answer: "dict_get answer ''execution'' = PDict execution" by (rule status_answer [OF status]) (use ex in auto)
  note parts = status_state [OF status answer]
  from parts(2) obtain q' where q': "number False (dict_get execution ''filledQuantity'') = Inr q'"
    "dict_get order_row ''filled_quantity'' = PStr (pd_text q')" by blast
  with q number_Inr(1) [OF q'(1)] have "q' = q" by (simp add: number_text)
  with that own answer q' cost state(1) q terminal_status [OF parts(1) [OF state(1)] state(2)] show thesis by blast
qed

text \<open>
  C39: Only the fill of the recorded order is booked. When \<open>terminal_fill\<close> accepts an answer of the broker
  for a recorded request, the answer is about the acknowledged order and its status is a terminal one;
  its symbol and side are the requested ones, its quantity and a requested limit price are numerically
  equal, no more than the ordered quantity was filled; the fill has the answer's filled quantity, currency
  and digest and the state of its status. The booked cost is known: nothing, and nothing reported, for an order that did
  not fill; otherwise the amount is the reported \<open>filledAmount\<close>, positive, the fee is the sum of the
  reported commission and tax (to 28 digits), none of the three is null, and the fill has a time with a zone.
\<close>

theorem toss_fill_owned:
  assumes "terminal_fill sha now raw (fill_proof request client (PStr oid) h) = Inr fill"
  shows "\<exists>answer execution state q ordered amount fee. raw = PDict answer \<and> dict_get answer ''execution'' = PDict execution
    \<and> py_str (dict_get answer ''orderId'') = oid \<and> dict_get fill ''orderId'' = PStr oid
    \<and> dict_get fill ''state'' = PStr state \<and> (upper (py_str (dict_get answer ''status'')), state)
         \<in> {(''FILLED'', ''filled''), (''CANCELED'', ''canceled''), (''REJECTED'', ''rejected'')}
    \<and> py_eq (dict_get fill ''symbol'') (dict_get request ''symbol'') \<and> py_eq (dict_get fill ''side'') (dict_get request ''side'')
    \<and> same_number_of (dict_get answer ''quantity'') (dict_get request ''quantity'')
    \<and> (dict_get request ''price'' \<noteq> PNone \<longrightarrow> same_number_of (dict_get answer ''price'') (dict_get request ''price''))
    \<and> number False (dict_get fill ''quantity'') = Inr q \<and> number False (dict_get answer ''quantity'') = Inr ordered
    \<and> number False (dict_get execution ''filledQuantity'') = Inr q \<and> dec_value q \<le> dec_value ordered
    \<and> dict_get fill ''currency'' = dict_get answer ''currency'' \<and> dict_get fill ''rawHash'' = PStr (sha raw)
    \<and> number False (dict_get fill ''amount'') = Inr amount \<and> number False (dict_get fill ''fee'') = Inr fee
    \<and> (if dec_value q = 0 then dec_value amount = 0 \<and> dec_value fee = 0 \<and> free_of_cost execution
       else known_cost execution amount fee)"
proof -
  from assms obtain first_row where "exact_owned_order now raw (fill_proof request client (PStr oid) h) = Inr first_row"
    by (auto simp: terminal_fill_def)
  then obtain answer where raw: "raw = PDict answer" by (rule owned_status [THEN status_answer])
  from terminal_parts [OF assms [unfolded raw]] obtain execution order_row q cost state
    where own: "exact_owned_order now (PDict answer) (fill_proof request client (PStr oid) h) = Inr order_row"
    and ex: "dict_get answer ''execution'' = PDict execution" "number False (dict_get execution ''filledQuantity'') = Inr q"
    and cost: "execution_cost execution q = Inr cost" and fill: "fill = fill_json sha (PDict answer) order_row execution q cost"
    and state: "dict_get order_row ''state'' = PStr state" and q: "number False (dict_get order_row ''filled_quantity'') = Inr q"
      "(upper (py_str (dict_get answer ''status'')), state) \<in> {(''FILLED'', ''filled''), (''CANCELED'', ''canceled''), (''REJECTED'', ''rejected'')}" .
  have json: "dict_get fill ''orderId'' = dict_get order_row ''broker_order_id''" "dict_get fill ''symbol'' = dict_get order_row ''symbol''"
    "dict_get fill ''side'' = dict_get order_row ''side''" "dict_get fill ''quantity'' = PStr (pd_text q)"
    "dict_get fill ''amount'' = PStr (pd_text (fc_amount cost))" "dict_get fill ''fee'' = PStr (pd_text (fc_fee cost))"
    "dict_get fill ''currency'' = dict_get order_row ''currency''" "dict_get fill ''state'' = PStr state"
    "dict_get fill ''rawHash'' = PStr (sha (PDict answer))"
    by (simp_all add: fill fill_json_def state Let_def)
  have signs: "0 \<le> dec_value q" "0 \<le> dec_value (fc_amount cost)" "0 \<le> dec_value (fc_fee cost)"
    using number_Inr(1) [OF ex(2)] cost_Inr [OF cost] by (auto split: if_splits)
  then have texts: "number False (dict_get fill ''quantity'') = Inr q" "number False (dict_get fill ''amount'') = Inr (fc_amount cost)"
    "number False (dict_get fill ''fee'') = Inr (fc_fee cost)"
    by (simp_all add: json number_text)
  from own show ?thesis
  proof (rule exact_owned_Inr)
    fix answer' filled ordered
    assume a: "PDict answer = PDict answer'" "py_str (dict_get answer' ''orderId'') = oid" "dict_get order_row ''broker_order_id'' = PStr oid"
      "dict_get order_row ''symbol'' = dict_get answer' ''symbol''" "dict_get order_row ''side'' = dict_get answer' ''side''"
      "py_eq (dict_get answer' ''symbol'') (dict_get request ''symbol'')" "py_eq (dict_get answer' ''side'') (dict_get request ''side'')"
      "same_number_of (dict_get answer' ''quantity'') (dict_get request ''quantity'')"
      "dict_get request ''price'' \<noteq> PNone \<Longrightarrow> same_number_of (dict_get answer' ''price'') (dict_get request ''price'')"
      "number False (dict_get order_row ''filled_quantity'') = Inr filled" "number False (dict_get answer' ''quantity'') = Inr ordered"
      "dec_value filled \<le> dec_value ordered" "dict_get order_row ''currency'' = dict_get answer' ''currency''"
    have same: "answer' = answer" "filled = q" using a(1,10) q(1) by simp_all
    note b = a(2-9,11-13) [unfolded same]
    have own_fields: "dict_get fill ''orderId'' = PStr oid" "dict_get fill ''currency'' = dict_get answer ''currency''"
      "py_eq (dict_get fill ''symbol'') (dict_get request ''symbol'')" "py_eq (dict_get fill ''side'') (dict_get request ''side'')"
      "dict_get fill ''rawHash'' = PStr (sha raw)"
      unfolding json b(2,3,4,11) raw by (rule refl b(5,6))+
    have price: "dict_get request ''price'' \<noteq> PNone \<longrightarrow> same_number_of (dict_get answer ''price'') (dict_get request ''price'')"
      by (rule impI) (rule b(8))
    show ?thesis
      by (rule exI [of _ answer], rule exI [of _ execution], rule exI [of _ state], rule exI [of _ q], rule exI [of _ ordered],
          rule exI [of _ "fc_amount cost"], rule exI [of _ "fc_fee cost"], intro conjI)
        (rule raw ex own_fields price b(1,7,9,10) json(8) q(2) texts cost_fields [OF cost])+
  qed
qed

subsection \<open>A small ledger\<close>

definition toss_owner :: string where
  "toss_owner = ''live-runtime:toss-a''"

definition toss_budgets :: pydict where
  "toss_budgets = [(''KRW'', PStr (pd_text (PyDec False 100 0)))]"

lemma dec_value_whole: "dec_value (PyDec False n 0) = of_nat n"
  by (simp add: dec_value_def signed_coeff_def)

definition toss_start :: toss_fact where
  "toss_start = new_fact seal toss_owner ''START'' (toss_owner @ '':start'') [(''scope'', PNone), (''budgets'', PDict toss_budgets)]"

lemma seal_hashes: "hashes_json seal"
  by (simp add: hashes_json_def seal_def canonical_json_def)

lemma toss_initialize: "initialize_owner seal toss_owner PNone toss_budgets db =
    append_fact seal toss_owner ''START'' (toss_owner @ '':start'') [(''scope'', PNone), (''budgets'', PDict toss_budgets)] db"
proof -
  have "starts_with toss_owner ''live-runtime:toss-''" by (simp add: starts_with_def toss_owner_def)
  moreover have "number True (PStr (pd_text (PyDec False 100 0))) = Inr (PyDec False 100 0)"
    by (simp add: number_text dec_value_whole)
  ultimately show ?thesis by (simp add: initialize_owner_def toss_budgets_def)
qed

lemma toss_first: "initialize_owner seal toss_owner PNone toss_budgets [] = Inr ([toss_start], True)"
  unfolding toss_initialize by (simp add: append_fact_def toss_start_def new_fact_def toss_budgets_def Let_def)

lemma toss_again: "initialize_owner seal toss_owner PNone toss_budgets [toss_start] = Inr ([toss_start], False)"
  unfolding toss_initialize by (simp add: append_fact_def toss_start_def new_fact_def toss_budgets_def Let_def)

theorem toss_facts_kept_witness:
  "facts seal toss_owner [toss_start] = Inr [toss_start] \<and> once_each [toss_start]"
proof -
  have "(toss_step seal)\<^sup>*\<^sup>* [] [toss_start]" by (rule r_into_rtranclp) (rule toss_step.initialize [OF toss_first])
  from toss_facts_kept [OF seal_hashes this rtranclp.rtrancl_refl, of toss_owner] show ?thesis
    by (simp add: toss_start_def new_fact_def)
qed

theorem toss_owner_never_recycled_witness:
  "\<exists>db again. initialize_owner seal toss_owner PNone toss_budgets [toss_start] = Inr (db, again) \<and> db = [toss_start] \<and> \<not> again"
  using toss_owner_never_recycled [OF seal_hashes rtranclp.rtrancl_refl toss_first rtranclp.rtrancl_refl toss_again] toss_again by blast

definition toss_request :: pydict where
  "toss_request = [(''symbol'', PStr ''005930''), (''side'', PStr ''BUY''), (''quantity'', PStr (pd_text (PyDec False 2 0)))]"

definition toss_execution :: pydict where
  "toss_execution = [(''filledQuantity'', PStr (pd_text (PyDec False 2 0))), (''filledAmount'', PStr (pd_text (PyDec False 100 0))),
     (''commission'', PStr (pd_text (PyDec False 1 0))), (''tax'', PStr (pd_text pd_zero)),
     (''filledAt'', PStr ''1970-01-01T00:00:00Z'')]"

definition toss_answer :: pydict where
  "toss_answer = [(''orderId'', PStr ''7''), (''status'', PStr ''FILLED''), (''symbol'', PStr ''005930''), (''side'', PStr ''BUY''),
     (''quantity'', PStr (pd_text (PyDec False 2 0))), (''currency'', PStr ''KRW''), (''orderType'', PStr ''LIMIT''),
     (''timeInForce'', PStr ''DAY''), (''execution'', PDict toss_execution)]"

lemma toss_time: "iso_parse ''1970-01-01T00:00:00Z'' = IsoAware 0"
  by code_simp

lemma toss_cost: "execution_cost toss_execution (PyDec False 2 0)
    = Inr \<lparr>fc_amount = PyDec False 100 0, fc_fee = pd_add (PyDec False 1 0) pd_zero\<rparr>"
  by (simp add: execution_cost_def toss_execution_def number_text dec_value_whole py_or_def toss_time Let_def)

lemma toss_answer_accepted:
  "\<exists>fill. terminal_fill seal PNone (PDict toss_answer) (fill_proof toss_request (PStr ''c'') (PStr ''7'') (PStr ''h'')) = Inr fill"
proof -
  let ?row = "dict_update toss_answer (status_fields toss_answer ''filled'' (PyDec False 2 0) PNone)"
  have numbers: "number False (PStr (pd_text pd_zero)) = Inr pd_zero" "number False (PStr (pd_text (PyDec False 2 0))) = Inr (PyDec False 2 0)"
    "number True (PStr (pd_text (PyDec False 2 0))) = Inr (PyDec False 2 0)"
    by (simp_all add: number_text dec_value_whole)
  have "map_of order_states (upper ''FILLED'') = Some ''filled''"
    by (simp add: order_states_def upper_def to_upper_def is_lower_def)
  then have status: "order_status PNone (PDict toss_answer) = Inr ?row"
    using numbers(2) by (simp add: order_status_def toss_answer_def toss_execution_def)
  have row: "dict_get ?row k = dict_get toss_answer k"
    if "k \<in> {''symbol'', ''side'', ''quantity'', ''currency'', ''orderType'', ''timeInForce'', ''execution''}" for k
    by (rule dict_get_update) (use that in \<open>auto simp: status_fields_def\<close>)
  have answer: "dict_get toss_answer ''symbol'' = PStr ''005930''"
    "dict_get toss_answer ''side'' = PStr ''BUY''"
    "dict_get toss_answer ''quantity'' = PStr (pd_text (PyDec False 2 0))"
    "dict_get toss_answer ''currency'' = PStr ''KRW''"
    "dict_get toss_answer ''orderType'' = PStr ''LIMIT''"
    "dict_get toss_answer ''timeInForce'' = PStr ''DAY''"
    "dict_get toss_answer ''execution'' = PDict toss_execution"
    by (simp_all add: toss_answer_def)
  have fields: "dict_get ?row ''symbol'' = PStr ''005930''"
    "dict_get ?row ''side'' = PStr ''BUY''"
    "dict_get ?row ''quantity'' = PStr (pd_text (PyDec False 2 0))"
    "dict_get ?row ''currency'' = PStr ''KRW''"
    "dict_get ?row ''orderType'' = PStr ''LIMIT''"
    "dict_get ?row ''timeInForce'' = PStr ''DAY''"
    "dict_get ?row ''execution'' = PDict toss_execution"
    by (simp_all add: row answer)
  have new: "dict_get ?row ''broker_order_id'' = PStr ''7''" "dict_get ?row ''state'' = PStr ''filled''"
    "dict_get ?row ''filled_quantity'' = PStr (pd_text (PyDec False 2 0))"
    by (simp_all add: status_fields_def dict_update_def dict_get_put toss_answer_def)
  have req: "dict_get toss_request ''symbol'' = PStr ''005930''" "dict_get toss_request ''side'' = PStr ''BUY''"
    "dict_get toss_request ''quantity'' = PStr (pd_text (PyDec False 2 0))" "dict_get toss_request ''currency'' = PNone"
    "dict_get toss_request ''price'' = PNone"
    by (simp_all add: toss_request_def)
  have "exact_owned_order PNone (PDict toss_answer) (fill_proof toss_request (PStr ''c'') (PStr ''7'') (PStr ''h'')) = Inr ?row"
    unfolding exact_owned_order_def Let_def proof_fields(2)
    by (simp add: proof_fields(1) req mapping_of_def py_or_def status fields new numbers number_unequal_def dec_value_whole)
  then show ?thesis by (simp add: terminal_fill_def new numbers fields mapping_of_def toss_cost)
qed

theorem toss_fill_owned_witness:
  "\<exists>fill amount fee. terminal_fill seal PNone (PDict toss_answer) (fill_proof toss_request (PStr ''c'') (PStr ''7'') (PStr ''h'')) = Inr fill
     \<and> number False (dict_get fill ''amount'') = Inr amount \<and> number False (dict_get fill ''fee'') = Inr fee
     \<and> known_cost toss_execution amount fee \<and> dec_value amount = 100"
proof -
  obtain fill where f: "terminal_fill seal PNone (PDict toss_answer) (fill_proof toss_request (PStr ''c'') (PStr ''7'') (PStr ''h'')) = Inr fill"
    using toss_answer_accepted by blast
  from toss_fill_owned [OF f] obtain execution q amount fee where p: "dict_get toss_answer ''execution'' = PDict execution"
    "number False (dict_get execution ''filledQuantity'') = Inr q"
    "number False (dict_get fill ''amount'') = Inr amount" "number False (dict_get fill ''fee'') = Inr fee"
    "if dec_value q = 0 then dec_value amount = 0 \<and> dec_value fee = 0 \<and> free_of_cost execution else known_cost execution amount fee"
    by (elim exE conjE) (simp only: pyval.inject)
  have e: "execution = toss_execution" using p(1) by (simp add: toss_answer_def)
  have "q = PyDec False 2 0" using p(2) by (simp add: e toss_execution_def number_text dec_value_whole)
  then have "dec_value q = 2" by (simp add: dec_value_whole)
  with p(5) have k: "known_cost toss_execution amount fee" by (simp add: e)
  then have "amount = PyDec False 100 0" by (simp add: known_cost_def toss_execution_def number_text dec_value_whole)
  then have "dec_value amount = 100" by (simp add: dec_value_whole)
  with f p(3,4) k show ?thesis by blast
qed

end
