(* ===== verification/Toss_Cash.thy ===== *)
theory Toss_Cash
  imports Toss_Laws
begin

section \<open>The Toss cash ledger: conservation\<close>

text \<open>
  The projected cash is the budget plus the cash flows of the recorded fills and the projected positions
  are the shares bought less the shares sold, none of them negative. The arithmetic of the ledger rounds
  to 28 digits; with amounts of at most eight decimals and less than \<open>10^20\<close> turned over in all it is
  exact (\<open>exact_ledger\<close>).
\<close>

subsection \<open>Amounts with eight decimals\<close>

definition eight_places :: "rat \<Rightarrow> bool" where
  "eight_places q \<longleftrightarrow> whole (q * 10 ^ 8)"

lemma eight_places_simps [simp]: "eight_places 0" "eight_places (- q) \<longleftrightarrow> eight_places q"
  by (simp_all add: eight_places_def)

lemma money_plus: "eight_places a \<Longrightarrow> eight_places b \<Longrightarrow> eight_places (a + b)" and money_diff: "eight_places a \<Longrightarrow> eight_places b \<Longrightarrow> eight_places (a - b)"
  by (simp_all add: eight_places_def distrib_right left_diff_distrib)

lemma money_exact:
  assumes "eight_places q" "\<bar>q\<bar> < 10 ^ 20"
  shows "ctx_round q = q"
proof -
  from assms(1) obtain m where m: "q * 10 ^ 8 = of_int m" unfolding eight_places_def by (rule wholeE)
  have "rat_of_int \<bar>m\<bar> = \<bar>q\<bar> * 10 ^ 8" by (simp add: m [symmetric] abs_mult)
  also have "\<dots> < 10 ^ 20 * 10 ^ 8" using assms(2) by (intro mult_strict_right_mono) simp_all
  finally have "rat_of_int \<bar>m\<bar> < rat_of_int (10 ^ 28)" by simp
  then have small: "\<bar>m\<bar> < 10 ^ 28" by (simp only: of_int_less_iff)
  have "q = of_int m * 10 powi (- 8)" by (simp add: m [symmetric] power_int_minus)
  then show ?thesis by (rule ctx_round_exact) (rule small)
qed

subsection \<open>Flows of a fill\<close>

definition cash_flow :: "string \<Rightarrow> booked_fill \<Rightarrow> rat" where
  "cash_flow c b =
     (if bf_currency b \<noteq> c then 0
      else if bf_buys b then - (dec_value (bf_amount b) + dec_value (bf_fee b))
      else dec_value (bf_amount b) - dec_value (bf_fee b))"

definition share_flow :: "pyval \<Rightarrow> booked_fill \<Rightarrow> rat" where
  "share_flow k b =
     (if bf_strategy b \<noteq> k then 0 else if bf_buys b then dec_value (bf_quantity b) else - dec_value (bf_quantity b))"

definition volume :: "booked_fill \<Rightarrow> rat" where
  "volume b = dec_value (bf_quantity b) + dec_value (bf_amount b) + dec_value (bf_fee b)"

definition exact_fill :: "booked_fill \<Rightarrow> bool" where
  "exact_fill b \<longleftrightarrow> eight_places (dec_value (bf_quantity b)) \<and> eight_places (dec_value (bf_amount b)) \<and> eight_places (dec_value (bf_fee b))"

definition cash_of :: "holdings \<Rightarrow> string \<Rightarrow> rat" where
  "cash_of h c = dec_value (assoc_get pd_zero (ho_cash h) c)"

definition shares_of :: "holdings \<Rightarrow> pyval \<Rightarrow> rat" where
  "shares_of h k = dec_value (assoc_get pd_zero (ho_positions h) k)"

lemma number_value: "number positive v = Inr a \<Longrightarrow> 0 \<le> dec_value a"
  by (auto simp: number_def split: option.splits if_splits)

lemma read_fill_Inr:
  assumes "read_fill cash p = Inr b"
  shows "0 \<le> dec_value (bf_quantity b)" "0 \<le> dec_value (bf_amount b)" "0 \<le> dec_value (bf_fee b)"
    "bf_currency b \<in> set (map fst cash)"
  using assms number_value by (auto simp: read_fill_def split: pyval.splits if_splits)

lemma read_fill_keys: "set (map fst cash) = set (map fst cash') \<Longrightarrow> read_fill cash p = read_fill cash' p"
  by (simp add: read_fill_def cong: pyval.case_cong)

lemma flow_bounds:
  assumes "read_fill cash p = Inr b"
  shows "\<bar>cash_flow c b\<bar> \<le> volume b" "\<bar>share_flow k b\<bar> \<le> volume b" "0 \<le> volume b"
  using read_fill_Inr(1-3) [OF assms] by (auto simp: cash_flow_def share_flow_def volume_def)

lemma flow_money: "exact_fill b \<Longrightarrow> eight_places (cash_flow c b)" "exact_fill b \<Longrightarrow> eight_places (share_flow k b)"
  by (auto simp: exact_fill_def cash_flow_def share_flow_def intro!: money_plus money_diff eight_places_simps(2) [THEN iffD2])

subsection \<open>Booking one fill\<close>

lemma book_fill_parts:
  assumes "book_fill h p = Inr h'"
  obtains b where "read_fill (ho_cash h) p = Inr b"
    "ho_cash h' = assoc_put (bf_currency b) (pd_add (assoc_get pd_zero (ho_cash h) (bf_currency b))
        (if bf_buys b then pd_sub (pd_minus (bf_amount b)) (bf_fee b) else pd_sub (bf_amount b) (bf_fee b))) (ho_cash h)"
    "ho_positions h' = assoc_put (bf_strategy b) (pd_add (assoc_get pd_zero (ho_positions h) (bf_strategy b))
        (if bf_buys b then bf_quantity b else pd_minus (bf_quantity b))) (ho_positions h)"
    "0 \<le> cash_of h' (bf_currency b)" "0 \<le> shares_of h' (bf_strategy b)"
  using assms by (auto simp: book_fill_def Let_def cash_of_def shares_of_def split: if_splits)

definition bounded :: "rat \<Rightarrow> holdings \<Rightarrow> bool" where
  "bounded V h \<longleftrightarrow> (\<forall>c. eight_places (cash_of h c) \<and> \<bar>cash_of h c\<bar> \<le> V) \<and> (\<forall>k. eight_places (shares_of h k) \<and> \<bar>shares_of h k\<bar> \<le> V)"

lemma book_exact:
  assumes h': "book_fill h p = Inr h'" and b: "read_fill (ho_cash h) p = Inr b" and exact: "exact_fill b"
    and bounded: "bounded V h" and room: "V + volume b < 10 ^ 20"
  shows "cash_of h' c = cash_of h c + cash_flow c b" "shares_of h' k = shares_of h k + share_flow k b"
proof -
  obtain V0: "0 \<le> V" using bounded by (auto simp: bounded_def intro: order_trans [OF abs_ge_zero])
  note vol = flow_bounds [OF b] and pos = read_fill_Inr(1-3) [OF b]
  have round: "ctx_round q = q" if "eight_places q" "\<bar>q\<bar> \<le> V + volume b" for q
    using money_exact [OF that(1)] that(2) room by simp
  have small: "\<bar>x\<bar> \<le> V + volume b" if "\<bar>x\<bar> \<le> volume b" for x using that V0 by simp
  have m: "eight_places (dec_value (bf_quantity b))" "eight_places (dec_value (bf_amount b))" "eight_places (dec_value (bf_fee b))"
    using exact by (simp_all add: exact_fill_def)
  have neg: "dec_neg x = - x" if "eight_places x" "\<bar>x\<bar> \<le> volume b" for x
    using round [of "- x"] that small [of "- x"] by (simp add: dec_neg_def)
  have sub: "dec_sub x y = x - y" if "eight_places x" "eight_places y" "\<bar>x - y\<bar> \<le> volume b" for x y
    using round [of "x - y"] that small [of "x - y"] money_diff by (simp add: dec_sub_def)
  have add: "dec_add x y = x + y" if "eight_places x" "eight_places y" "\<bar>x\<bar> \<le> V" "\<bar>y\<bar> \<le> volume b" for x y
    using round [of "x + y"] that money_plus by (simp add: dec_add_def)
  let ?cash = "if bf_buys b then dec_sub (dec_neg (dec_value (bf_amount b))) (dec_value (bf_fee b))
    else dec_sub (dec_value (bf_amount b)) (dec_value (bf_fee b))"
  have cash: "?cash = cash_flow (bf_currency b) b"
    using pos by (simp add: neg sub m volume_def cash_flow_def)
  let ?share = "if bf_buys b then dec_value (bf_quantity b) else dec_neg (dec_value (bf_quantity b))"
  have share: "?share = share_flow (bf_strategy b) b"
    using pos by (simp add: neg m volume_def share_flow_def)
  from h' show "cash_of h' c = cash_of h c + cash_flow c b"
  proof (rule book_fill_parts)
    fix b' assume "read_fill (ho_cash h) p = Inr b'"
      and ho: "ho_cash h' = assoc_put (bf_currency b') (pd_add (assoc_get pd_zero (ho_cash h) (bf_currency b'))
        (if bf_buys b' then pd_sub (pd_minus (bf_amount b')) (bf_fee b') else pd_sub (bf_amount b') (bf_fee b'))) (ho_cash h)"
    then have "b' = b" using b by simp
    show ?thesis
    proof (cases "c = bf_currency b")
      case True
      have "cash_of h' c = dec_add (cash_of h c) ?cash"
        unfolding cash_of_def ho \<open>b' = b\<close> True by simp
      also have "\<dots> = cash_of h c + cash_flow c b"
        unfolding cash True using bounded vol(1) flow_money(1) [OF exact] by (intro add) (auto simp: bounded_def)
      finally show ?thesis .
    next
      case False
      then show ?thesis by (simp add: cash_of_def ho \<open>b' = b\<close> cash_flow_def)
    qed
  qed
  from h' show "shares_of h' k = shares_of h k + share_flow k b"
  proof (rule book_fill_parts)
    fix b' assume "read_fill (ho_cash h) p = Inr b'"
      and ho: "ho_positions h' = assoc_put (bf_strategy b') (pd_add (assoc_get pd_zero (ho_positions h) (bf_strategy b'))
        (if bf_buys b' then bf_quantity b' else pd_minus (bf_quantity b'))) (ho_positions h)"
    then have "b' = b" using b by simp
    show ?thesis
    proof (cases "k = bf_strategy b")
      case True
      have "shares_of h' k = dec_add (shares_of h k) ?share"
        unfolding shares_of_def ho \<open>b' = b\<close> True by simp
      also have "\<dots> = shares_of h k + share_flow k b"
        unfolding share True using bounded vol(2) flow_money(2) [OF exact] by (intro add) (auto simp: bounded_def)
      finally show ?thesis .
    next
      case False
      then show ?thesis by (simp add: shares_of_def ho \<open>b' = b\<close> share_flow_def)
    qed
  qed
qed

lemma book_keys: "book_fill h p = Inr h' \<Longrightarrow> set (map fst (ho_cash h')) = set (map fst (ho_cash h))"
proof (erule book_fill_parts)
  fix b assume "read_fill (ho_cash h) p = Inr b"
    and "ho_cash h' = assoc_put (bf_currency b) (pd_add (assoc_get pd_zero (ho_cash h) (bf_currency b))
        (if bf_buys b then pd_sub (pd_minus (bf_amount b)) (bf_fee b) else pd_sub (bf_amount b) (bf_fee b))) (ho_cash h)"
  with read_fill_Inr(4) show ?thesis by (auto simp: map_fst_assoc_put)
qed

subsection \<open>Booking all fills\<close>

lemma res_map_member: "res_map f xs = Inr ys \<Longrightarrow> y \<in> set ys \<Longrightarrow> \<exists>x \<in> set xs. f x = Inr y"
  by (auto simp: res_map_Inr_iff list_all2_conv_all_nth in_set_conv_nth) (metis nth_mem)

lemma book_reads:
  "res_fold book_fill h ps = Inr h' \<Longrightarrow> \<exists>bs. res_map (read_fill (ho_cash h)) ps = Inr bs"
proof (induction ps arbitrary: h)
  case (Cons p ps)
  then obtain h1 where h1: "book_fill h p = Inr h1" "res_fold book_fill h1 ps = Inr h'" by auto
  obtain b where b: "read_fill (ho_cash h) p = Inr b" using h1(1) by (rule book_fill_parts)
  have "read_fill (ho_cash h1) = read_fill (ho_cash h)" using read_fill_keys [OF book_keys [OF h1(1)]] by blast
  with Cons.IH [OF h1(2)] b show ?case by auto
qed simp

lemma book_run:
  assumes "res_fold book_fill h ps = Inr h'" "res_map (read_fill (ho_cash h)) ps = Inr bs" "list_all exact_fill bs"
    and "bounded V h" "V + sum_list (map volume bs) < 10 ^ 20"
  shows "cash_of h' c = cash_of h c + sum_list (map (cash_flow c) bs)
    \<and> shares_of h' k = shares_of h k + sum_list (map (share_flow k) bs)"
  using assms
proof (induction ps arbitrary: h bs V)
  case (Cons p ps)
  from Cons.prems(1) obtain h1 where h1: "book_fill h p = Inr h1" "res_fold book_fill h1 ps = Inr h'" by auto
  from Cons.prems(2) obtain b bs' where b: "read_fill (ho_cash h) p = Inr b" "res_map (read_fill (ho_cash h)) ps = Inr bs'" "bs = b # bs'"
    by auto
  have reads: "read_fill (ho_cash h1) = read_fill (ho_cash h)" using read_fill_keys [OF book_keys [OF h1(1)]] by blast
  have exact: "exact_fill b" "list_all exact_fill bs'" using Cons.prems(3) b(3) by simp_all
  have later: "0 \<le> sum_list (map volume bs')"
  proof (rule sum_list_nonneg)
    fix x assume "x \<in> set (map volume bs')"
    then obtain b' where b': "b' \<in> set bs'" "x = volume b'" by auto
    with res_map_member [OF b(2)] obtain p' where "read_fill (ho_cash h) p' = Inr b'" by blast
    with flow_bounds(3) b'(2) show "0 \<le> x" by simp
  qed
  have room: "V + volume b < 10 ^ 20" using Cons.prems(5) b(3) later by simp
  note step = book_exact [OF h1(1) b(1) exact(1) Cons.prems(4) room]
  have "bounded (V + volume b) h1"
    unfolding bounded_def step
  proof (intro conjI allI)
    fix c k
    show "eight_places (cash_of h c + cash_flow c b)" "eight_places (shares_of h k + share_flow k b)"
      using Cons.prems(4) flow_money [OF exact(1)] by (auto simp: bounded_def intro: money_plus)
    have "\<bar>cash_of h c\<bar> \<le> V" "\<bar>shares_of h k\<bar> \<le> V" using Cons.prems(4) by (auto simp: bounded_def)
    with flow_bounds(1) [OF b(1), of c] flow_bounds(2) [OF b(1), of k]
    show "\<bar>cash_of h c + cash_flow c b\<bar> \<le> V + volume b" "\<bar>shares_of h k + share_flow k b\<bar> \<le> V + volume b"
      by linarith+
  qed
  from Cons.IH [OF h1(2) _ exact(2) this] b(2,3) reads Cons.prems(5) step show ?case by (simp add: add.assoc)
qed simp

text \<open>No balance is negative at any point.\<close>

lemma book_moves:
  assumes "book_fill h p = Inr h'"
  shows "\<exists>c k x y. ho_cash h' = assoc_put c x (ho_cash h) \<and> ho_positions h' = assoc_put k y (ho_positions h)
    \<and> 0 \<le> dec_value x \<and> 0 \<le> dec_value y"
  using assms
proof (rule book_fill_parts)
  fix b
  let ?x = "pd_add (assoc_get pd_zero (ho_cash h) (bf_currency b))
      (if bf_buys b then pd_sub (pd_minus (bf_amount b)) (bf_fee b) else pd_sub (bf_amount b) (bf_fee b))"
  let ?y = "pd_add (assoc_get pd_zero (ho_positions h) (bf_strategy b))
      (if bf_buys b then bf_quantity b else pd_minus (bf_quantity b))"
  assume moves: "ho_cash h' = assoc_put (bf_currency b) ?x (ho_cash h)"
    "ho_positions h' = assoc_put (bf_strategy b) ?y (ho_positions h)"
    and nonneg: "0 \<le> cash_of h' (bf_currency b)" "0 \<le> shares_of h' (bf_strategy b)"
  have "0 \<le> dec_value ?x" "0 \<le> dec_value ?y"
    using nonneg unfolding cash_of_def shares_of_def moves assoc_get_put by simp_all
  with moves show ?thesis by blast
qed

lemma book_nonneg:
  assumes "book_fill h p = Inr h'" "\<And>c. 0 \<le> cash_of h c" "\<And>k. 0 \<le> shares_of h k"
  shows "0 \<le> cash_of h' c \<and> 0 \<le> shares_of h' k"
proof -
  from book_moves [OF assms(1)] obtain c' k' x y where moves:
    "ho_cash h' = assoc_put c' x (ho_cash h)" "ho_positions h' = assoc_put k' y (ho_positions h)" "0 \<le> dec_value x" "0 \<le> dec_value y"
    by blast
  with assms(2) [of c] assms(3) [of k] show ?thesis by (simp add: cash_of_def shares_of_def)
qed

lemma run_nonneg:
  "res_fold book_fill h ps = Inr h' \<Longrightarrow> (\<And>c. 0 \<le> cash_of h c) \<Longrightarrow> (\<And>k. 0 \<le> shares_of h k)
    \<Longrightarrow> 0 \<le> cash_of h' c \<and> 0 \<le> shares_of h' k"
proof (induction ps arbitrary: h)
  case (Cons p ps)
  then obtain h1 where h1: "book_fill h p = Inr h1" "res_fold book_fill h1 ps = Inr h'" by auto
  have "0 \<le> cash_of h1 c" "0 \<le> shares_of h1 k" for c k using book_nonneg [OF h1(1) Cons.prems(2,3)] by blast+
  then show ?case by (rule Cons.IH [OF h1(2)])
qed simp

lemma run_keys: "res_fold book_fill h ps = Inr h' \<Longrightarrow> set (map fst (ho_cash h')) = set (map fst (ho_cash h))"
proof (induction ps arbitrary: h)
  case (Cons p ps)
  then obtain h1 where h1: "book_fill h p = Inr h1" "res_fold book_fill h1 ps = Inr h'" by auto
  from Cons.IH [OF h1(2)] book_keys [OF h1(1)] show ?case by simp
qed simp

subsection \<open>The projection\<close>

text \<open>The budget and the fills recorded for an owner.\<close>

definition ledger_fills ::
  "(pyval \<Rightarrow> string) \<Rightarrow> string \<Rightarrow> toss_table \<Rightarrow> ((string \<times> pydec) list \<times> booked_fill list) res" where
  "ledger_fills sha owner db =
     res_bind (facts sha owner db) (\<lambda>table_rows.
     case map tf_payload (filter (\<lambda>f. tf_kind f = ''START'') table_rows) of
       [start] \<Rightarrow>
         res_bind (starting_cash start) (\<lambda>cash.
         res_bind (res_map (read_fill cash) (map tf_payload (filter (\<lambda>f. tf_kind f = ''TERMINAL'') table_rows))) (\<lambda>bs.
         Inr (cash, bs)))
     | _ \<Rightarrow> Inl (ValueError ''TOSS_OWNED_PRINCIPAL_MISSING''))"

definition exact_ledger :: "(string \<times> pydec) list \<Rightarrow> booked_fill list \<Rightarrow> bool" where
  "exact_ledger cash bs \<longleftrightarrow> list_all (\<lambda>(c, a). eight_places (dec_value a)) cash \<and> list_all exact_fill bs
     \<and> sum_list (map (\<lambda>(c, a). dec_value a) cash) + sum_list (map volume bs) < 10 ^ 20"

lemma starting_nonneg:
  assumes "starting_cash start = Inr cash" "(c, a) \<in> set cash"
  shows "0 \<le> dec_value a"
proof -
  from assms(1) obtain d where "res_map (\<lambda>(c, v). res_bind (number False v) (\<lambda>a. Inr (c, a))) d = Inr cash"
    by (auto simp: starting_cash_def)
  from res_map_member [OF this assms(2)] show ?thesis by (auto dest: number_value)
qed

text \<open>What the texts of a projection say.\<close>

definition cash_balance :: "projection \<Rightarrow> string \<Rightarrow> rat option" where
  "cash_balance p c = Option.bind (map_of (pj_cash p) c) dec_parse"

definition share_balance :: "projection \<Rightarrow> pyval \<Rightarrow> rat" where
  "share_balance p k = (case map_of (pj_positions p) k of None \<Rightarrow> 0 | Some t \<Rightarrow> the (dec_parse t))"

lemma project_parts:
  assumes "project sha owner db = Inr p"
  obtains cash h bs ps where "ledger_fills sha owner db = Inr (cash, bs)" "\<forall>(c, a) \<in> set cash. 0 \<le> dec_value a"
    "res_fold book_fill \<lparr>ho_cash = cash, ho_positions = []\<rparr> ps = Inr h" "res_map (read_fill cash) ps = Inr bs"
    "pj_cash p = map (\<lambda>(c, a). (c, pd_text a)) (ho_cash h)" "pj_positions p = map (\<lambda>(k, a). (k, pd_text a)) (ho_positions h)"
proof -
  from assms obtain table_rows where table_rows: "facts sha owner db = Inr table_rows" unfolding project_def by auto
  define ps where "ps = map tf_payload (filter (\<lambda>f. tf_kind f = ''TERMINAL'') table_rows)"
  from assms table_rows obtain start where start: "map tf_payload (filter (\<lambda>f. tf_kind f = ''START'') table_rows) = [start]"
    unfolding project_def by (auto split: list.splits)
  from assms obtain cash h where
    c: "starting_cash start = Inr cash" and h: "res_fold book_fill \<lparr>ho_cash = cash, ho_positions = []\<rparr> ps = Inr h"
    and p: "pj_cash p = map (\<lambda>(c, a). (c, pd_text a)) (ho_cash h)" "pj_positions p = map (\<lambda>(k, a). (k, pd_text a)) (ho_positions h)"
    unfolding project_def table_rows res_bind_Inr start list.case ps_def by auto
  from book_reads [OF h] obtain bs where bs: "res_map (read_fill cash) ps = Inr bs" by auto
  have "ledger_fills sha owner db = Inr (cash, bs)"
    unfolding ledger_fills_def table_rows res_bind_Inr start list.case c using bs by (simp add: ps_def)
  moreover have "\<forall>(c, a) \<in> set cash. 0 \<le> dec_value a" using starting_nonneg [OF c] by blast
  ultimately show thesis using that [OF _ _ h bs p] by blast
qed

lemma assoc_bound:
  assumes "\<forall>(c, a) \<in> set cash. 0 \<le> dec_value a"
  shows "0 \<le> dec_value (assoc_get pd_zero cash c) \<and> dec_value (assoc_get pd_zero cash c) \<le> sum_list (map (\<lambda>(c, a). dec_value a) cash)"
  using assms
proof (induction cash)
  case (Cons e cash)
  obtain c' a where e: "e = (c', a)" by (cases e)
  from Cons.prems have "0 \<le> dec_value a" and rest: "\<forall>(c, a) \<in> set cash. 0 \<le> dec_value a" using e by auto
  moreover have "0 \<le> sum_list (map (\<lambda>(c, a). dec_value a) cash)" using rest by (intro sum_list_nonneg) auto
  ultimately show ?case using Cons.IH e by auto
qed simp

lemma assoc_money: "list_all (\<lambda>(c, a). eight_places (dec_value a)) cash \<Longrightarrow> eight_places (dec_value (assoc_get pd_zero cash c))"
  by (induction cash) auto

lemma balance_texts:
  assumes "pj_cash p = map (\<lambda>(c, a). (c, pd_text a)) (ho_cash h)" "pj_positions p = map (\<lambda>(k, a). (k, pd_text a)) (ho_positions h)"
  shows "cash_balance p c = (if c \<in> set (map fst (ho_cash h)) then Some (cash_of h c) else None)" "share_balance p k = shares_of h k"
proof -
  have get: "assoc_get pd_zero xs x = (case map_of xs x of None \<Rightarrow> pd_zero | Some a \<Rightarrow> a)" for xs :: "('x \<times> pydec) list" and x
    by (simp add: assoc_get_def)
  show "cash_balance p c = (if c \<in> set (map fst (ho_cash h)) then Some (cash_of h c) else None)"
    using map_of_eq_None_iff [of "ho_cash h" c]
    by (auto simp: cash_balance_def assms(1) map_of_map cash_of_def get split: option.split)
  show "share_balance p k = shares_of h k"
    by (simp add: share_balance_def assms(2) map_of_map shares_of_def get split: option.split)
qed

text \<open>
  C37: The projection conserves the cash and the shares. When \<open>project\<close> returns, no cash balance and no
  position is negative, and, as long as the recorded amounts have at most eight decimals and add up to less
  than \<open>10^20\<close>, every balance is exactly the budget of its currency less the amounts and fees of the
  purchases plus the proceeds net of fees of the sales, and every position is exactly the shares bought
  less the shares sold by its strategy.
\<close>

theorem toss_cash_conserved:
  assumes "project sha owner db = Inr p"
  shows "\<exists>cash bs. ledger_fills sha owner db = Inr (cash, bs)
    \<and> (\<forall>x. cash_balance p c = Some x \<longrightarrow> 0 \<le> x) \<and> 0 \<le> share_balance p k
    \<and> (exact_ledger cash bs \<longrightarrow>
         cash_balance p c = (if c \<in> set (map fst cash)
           then Some (dec_value (assoc_get pd_zero cash c) + sum_list (map (cash_flow c) bs)) else None)
         \<and> share_balance p k = sum_list (map (share_flow k) bs))"
proof -
  from assms obtain cash h bs ps where l: "ledger_fills sha owner db = Inr (cash, bs)"
    and signs: "\<forall>(c, a) \<in> set cash. 0 \<le> dec_value a"
    and run: "res_fold book_fill \<lparr>ho_cash = cash, ho_positions = []\<rparr> ps = Inr h" "res_map (read_fill cash) ps = Inr bs"
    and p: "pj_cash p = map (\<lambda>(c, a). (c, pd_text a)) (ho_cash h)" "pj_positions p = map (\<lambda>(k, a). (k, pd_text a)) (ho_positions h)"
    by (rule project_parts)
  let ?h0 = "\<lparr>ho_cash = cash, ho_positions = []\<rparr>"
  have start: "cash_of ?h0 c = dec_value (assoc_get pd_zero cash c)" "shares_of ?h0 k = 0" for c k
    by (simp_all add: cash_of_def shares_of_def)
  have "0 \<le> cash_of h c \<and> 0 \<le> shares_of h k"
    by (rule run_nonneg [OF run(1)]) (use assoc_bound [OF signs] in \<open>simp_all add: start\<close>)
  moreover have "cash_of h c = dec_value (assoc_get pd_zero cash c) + sum_list (map (cash_flow c) bs)
      \<and> shares_of h k = sum_list (map (share_flow k) bs)" if exact: "exact_ledger cash bs"
  proof -
    let ?V = "sum_list (map (\<lambda>(c, a). dec_value a) cash)"
    have V: "0 \<le> ?V" using assoc_bound [OF signs] by (meson order_trans)
    have "bounded ?V ?h0"
      unfolding bounded_def start using assoc_bound [OF signs] assoc_money exact V by (auto simp: exact_ledger_def)
    from book_run [OF run(1) _ _ this] run(2) exact show ?thesis by (auto simp: exact_ledger_def start)
  qed
  moreover have "set (map fst (ho_cash h)) = set (map fst cash)" using run_keys [OF run(1)] by simp
  ultimately show ?thesis using l unfolding balance_texts [OF p] by auto
qed

subsection \<open>A ledger with one purchase\<close>

definition toss_purchase :: pydict where
  "toss_purchase = [(''orderId'', PStr ''7''), (''strategyInstanceId'', PStr ''s''), (''quantity'', PStr (pd_text (PyDec False 2 0))),
     (''amount'', PStr (pd_text (PyDec False 30 0))), (''fee'', PStr (pd_text (PyDec False 1 0))), (''currency'', PStr ''KRW''),
     (''side'', PStr ''BUY'')]"

definition bought_table :: toss_table where
  "bought_table = [toss_start, new_fact seal toss_owner ''TERMINAL'' (toss_owner @ '':terminal:7'') toss_purchase]"

definition bought_fill :: booked_fill where
  "bought_fill = \<lparr>bf_strategy = PStr ''s'', bf_buys = True, bf_currency = ''KRW'', bf_quantity = PyDec False 2 0,
     bf_amount = PyDec False 30 0, bf_fee = PyDec False 1 0\<rparr>"

lemma small_money: "eight_places (of_nat n)"
  using whole_of_int [of "int n * 10 ^ 8"] by (simp add: eight_places_def)

lemma bought_facts: "facts seal toss_owner bought_table = Inr bought_table"
proof -
  have "seal (canon v) = seal v" for v using seal_hashes by (simp add: hashes_json_def)
  then show ?thesis
    by (simp add: facts_def bought_table_def toss_start_def new_fact_def read_fact_def toss_owner_def del: canon.simps)
qed

lemma bought_start: "starting_cash (tf_payload toss_start) = Inr [(''KRW'', PyDec False 100 0)]"
  "entry (tf_payload toss_start) ''scope'' = Inr PNone" "\<exists>v. entry (tf_payload toss_start) ''budgets'' = Inr v"
proof -
  have "entry (tf_payload toss_start) ''budgets'' = Inr (PDict toss_budgets)"
    by (simp add: toss_start_def new_fact_def entry_canon del: canon.simps) (simp add: toss_budgets_def)
  then show "starting_cash (tf_payload toss_start) = Inr [(''KRW'', PyDec False 100 0)]" "\<exists>v. entry (tf_payload toss_start) ''budgets'' = Inr v"
    by (simp_all add: starting_cash_def mapping_of_def toss_budgets_def number_text dec_value_whole)
  show "entry (tf_payload toss_start) ''scope'' = Inr PNone"
    by (simp add: toss_start_def new_fact_def entry_canon del: canon.simps) simp
qed

lemma purchase_entries:
  "entry (canon (PDict toss_purchase)) ''strategyInstanceId'' = Inr (PStr ''s'')"
  "entry (canon (PDict toss_purchase)) ''orderId'' = Inr (PStr ''7'')"
  "entry (canon (PDict toss_purchase)) ''quantity'' = Inr (PStr (pd_text (PyDec False 2 0)))"
  "entry (canon (PDict toss_purchase)) ''amount'' = Inr (PStr (pd_text (PyDec False 30 0)))"
  "entry (canon (PDict toss_purchase)) ''fee'' = Inr (PStr (pd_text (PyDec False 1 0)))"
  "entry (canon (PDict toss_purchase)) ''currency'' = Inr (PStr ''KRW'')"
  "entry (canon (PDict toss_purchase)) ''side'' = Inr (PStr ''BUY'')"
  unfolding entry_canon by (simp_all add: toss_purchase_def)

lemma bought_read: "''KRW'' \<in> set (map fst cash) \<Longrightarrow> read_fill cash (canon (PDict toss_purchase)) = Inr bought_fill"
  by (simp add: read_fill_def purchase_entries number_text dec_value_whole bought_fill_def del: canon.simps)

lemma bought_kinds:
  "filter (\<lambda>f. tf_kind f = ''START'') bought_table = [toss_start]"
  "map tf_payload (filter (\<lambda>f. tf_kind f = ''TERMINAL'') bought_table) = [canon (PDict toss_purchase)]"
  "filter (\<lambda>f. tf_kind f = ''ACK'') bought_table = []" "filter (\<lambda>f. tf_kind f = ''INTENT'') bought_table = []"
  by (simp_all add: bought_table_def toss_start_def new_fact_def del: canon.simps)

lemma bought_projects: "\<exists>p. project seal toss_owner bought_table = Inr p"
proof -
  let ?h0 = "\<lparr>ho_cash = [(''KRW'', PyDec False 100 0)], ho_positions = []\<rparr>"
  have small: "ctx_round (of_int n) = of_int n" if "\<bar>n\<bar> < 10 ^ 20" for n
    by (rule ctx_round_whole) (use that in \<open>simp_all flip: of_int_abs\<close>)
  have flows: "dec_neg 30 = - 30" "dec_sub (- 30) 1 = - 31" "dec_add 100 (- 31) = 69" "dec_add 0 2 = 2"
    using small [of "- 30"] small [of "- 31"] small [of 69] small [of 2] by (simp_all add: dec_neg_def dec_sub_def dec_add_def)
  have "\<exists>h. book_fill ?h0 (canon (PDict toss_purchase)) = Inr h"
    by (simp add: book_fill_def bought_read bought_fill_def Let_def dec_value_whole flows del: canon.simps)
  then obtain h where h: "res_fold book_fill ?h0 [canon (PDict toss_purchase)] = Inr h" by (auto simp del: canon.simps)
  have terminals: "index_facts ''TERMINAL'' ''orderId'' bought_table = Inr [(PStr ''7'', canon (PDict toss_purchase))]"
    using bought_kinds(2) by (auto simp: index_facts_def purchase_entries simp del: canon.simps)
  have "toss_orders seal toss_owner bought_table = Inr []"
    by (simp add: toss_orders_def bought_facts terminals bought_kinds index_facts_def [of "''ACK''"])
  then show ?thesis
    using h bought_start by (auto simp: project_def bought_facts bought_kinds count_fills_def simp del: canon.simps)
qed

theorem toss_cash_conserved_witness:
  "\<exists>p. project seal toss_owner bought_table = Inr p \<and> cash_balance p ''KRW'' = Some 69 \<and> share_balance p (PStr ''s'') = 2"
proof -
  obtain p where p: "project seal toss_owner bought_table = Inr p" using bought_projects by blast
  have l: "ledger_fills seal toss_owner bought_table = Inr ([(''KRW'', PyDec False 100 0)], [bought_fill])"
    by (simp add: ledger_fills_def bought_facts bought_kinds bought_start bought_read del: canon.simps)
  have "exact_ledger [(''KRW'', PyDec False 100 0)] [bought_fill]"
    using small_money [of 100] small_money [of 2] small_money [of 30] small_money [of 1]
    by (simp add: exact_ledger_def exact_fill_def bought_fill_def volume_def dec_value_whole)
  with toss_cash_conserved [OF p, of "''KRW''" "PStr ''s''"] l p show ?thesis
    by (auto simp: cash_flow_def share_flow_def bought_fill_def dec_value_whole)
qed

end
