(* ===== verification/Toss_Types.thy ===== *)
theory Toss_Types
  imports Toss_Cash
begin

section \<open>The Toss cash ledger: types of the facts\<close>

text \<open>
  Every kind of fact has a type, the operations only record facts of it, and on typed facts the readers
  get every field they ask for: a projection of a ledger written through its operations ends with a result or with
  one of the refusals of \<open>project\<close>, never with a missing key or an amount it cannot read.
\<close>

definition typed_start :: "pyval \<Rightarrow> bool" where
  "typed_start v \<longleftrightarrow> (\<exists>scope d. entry v ''scope'' = Inr scope \<and> entry v ''budgets'' = Inr (PDict d)
     \<and> (\<forall>(c, w) \<in> set d. \<exists>a. number False w = Inr a))"

definition number_field :: "pyval \<Rightarrow> string \<Rightarrow> bool" where
  "number_field v k \<longleftrightarrow> (\<exists>w a. entry v k = Inr w \<and> number False w = Inr a)"

definition typed_terminal :: "pyval \<Rightarrow> bool" where
  "typed_terminal v \<longleftrightarrow> list_all (number_field v) [''quantity'', ''amount'', ''fee'']
     \<and> entry v ''currency'' \<in> {Inr (PStr ''KRW''), Inr (PStr ''USD'')} \<and> (\<exists>oid. entry v ''orderId'' = Inr (PStr oid))
     \<and> (\<exists>side. entry v ''side'' = Inr side) \<and> (\<exists>strategy. entry v ''strategyInstanceId'' = Inr strategy)"

definition typed_client :: "pyval \<Rightarrow> bool" where
  "typed_client v \<longleftrightarrow> (\<exists>c. entry v ''clientOrderId'' = Inr (PStr c))"

definition typed_fact :: "toss_fact \<Rightarrow> bool" where
  "typed_fact f \<longleftrightarrow>
     (tf_kind f = ''START'' \<longrightarrow> typed_start (tf_payload f))
     \<and> (tf_kind f \<in> {''INTENT'', ''ACK''} \<longrightarrow> typed_client (tf_payload f))
     \<and> (tf_kind f = ''ACK'' \<longrightarrow> (\<exists>oid. entry (tf_payload f) ''orderId'' = Inr oid))
     \<and> (tf_kind f = ''TERMINAL'' \<longrightarrow> typed_terminal (tf_payload f))"

text \<open>The order ids of acknowledgements and the strategy ids of fills, used as keys of dicts.\<close>

definition hashable_ids :: "toss_table \<Rightarrow> bool" where
  "hashable_ids db \<longleftrightarrow> (\<forall>f \<in> set db. \<forall>v.
     (tf_kind f = ''ACK'' \<and> entry (tf_payload f) ''orderId'' = Inr v
      \<or> tf_kind f = ''TERMINAL'' \<and> entry (tf_payload f) ''strategyInstanceId'' = Inr v) \<longrightarrow> hashable v)"

subsection \<open>The operations record typed facts\<close>

lemma number_canon_text: "0 \<le> dec_value a \<Longrightarrow> number False (canon (PStr (pd_text a))) = Inr a"
  by (simp add: number_text)

lemma canon_entries_mem: "(c, w) \<in> set (canon_entries d) \<Longrightarrow> \<exists>v. (c, v) \<in> set d \<and> w = canon v"
proof (induction d)
  case (Cons kv d)
  then show ?case by (cases kv) (auto simp: set_insort_key)
qed simp

lemma typed_budgets:
  assumes "res_map (\<lambda>(c, v). res_bind (number True v) (\<lambda>a. Inr (c, PStr (pd_text a)))) budgets = Inr amounts"
  shows "typed_start (canon (PDict [(''scope'', scope), (''budgets'', PDict amounts)]))"
proof -
  have "\<exists>a. number False w = Inr a" if cw: "(c, w) \<in> set (canon_entries amounts)" for c w
  proof -
    from canon_entries_mem [OF cw] obtain v where v: "(c, v) \<in> set amounts" "w = canon v" by blast
    from res_map_member [OF assms v(1)] obtain a where "v = PStr (pd_text a)" "0 < dec_value a"
      by (auto dest: number_Inr(2))
    with v(2) number_canon_text [of a] show ?thesis by auto
  qed
  then show ?thesis unfolding typed_start_def entry_canon by auto
qed

lemma terminal_typed:
  assumes "terminal_fill sha now raw (fill_proof request client (PStr oid) h) = Inr fill"
  shows "typed_terminal (canon (PDict (dict_update fill [(''strategyInstanceId'', spec_id)])))"
proof -
  from assms obtain order_row execution q cost
    where own: "exact_owned_order now raw (fill_proof request client (PStr oid) h) = Inr order_row"
    and q: "number False (dict_get order_row ''filled_quantity'') = Inr q" and cost: "execution_cost execution q = Inr cost"
    and fill: "fill = fill_json sha raw order_row execution q cost"
    by (auto simp: terminal_fill_def)
  have signs: "0 \<le> dec_value q" "0 \<le> dec_value (fc_amount cost)" "0 \<le> dec_value (fc_fee cost)"
    using number_Inr(1) [OF q] cost_Inr [OF cost] by (auto split: if_splits)
  have currency: "dict_get order_row ''currency'' \<in> {PStr ''KRW'', PStr ''USD''}"
    using own unfolding exact_owned_order_def Let_def by auto
  let ?d = "dict_update fill [(''strategyInstanceId'', spec_id)]"
  have keys: "set (map fst fill) \<union> {''strategyInstanceId''} \<subseteq> set (map fst ?d)"
    by (auto simp: dict_update_def)
  have json: "{''orderId'', ''side'', ''currency'', ''quantity'', ''amount'', ''fee''} \<subseteq> set (map fst fill)"
    by (simp add: fill fill_json_def Let_def)
  have get: "dict_get ?d k = dict_get fill k" if "k \<noteq> ''strategyInstanceId''" for k
    using that by (simp add: dict_update_def dict_get_put)
  have fields: "dict_get fill ''currency'' = dict_get order_row ''currency''" "dict_get fill ''quantity'' = PStr (pd_text q)"
    "dict_get fill ''amount'' = PStr (pd_text (fc_amount cost))" "dict_get fill ''fee'' = PStr (pd_text (fc_fee cost))"
    by (simp_all add: fill fill_json_def Let_def)
  have entries: "entry (canon (PDict ?d)) k = Inr (canon (dict_get fill k))"
    if "k \<in> {''orderId'', ''side'', ''currency'', ''quantity'', ''amount'', ''fee''}" for k
    using that keys json get [of k] unfolding entry_canon by auto
  have "\<exists>v. entry (canon (PDict ?d)) ''strategyInstanceId'' = Inr v" using keys unfolding entry_canon by auto
  moreover have "list_all (number_field (canon (PDict ?d))) [''quantity'', ''amount'', ''fee'']"
    unfolding number_field_def
    using entries [of "''quantity''"] entries [of "''amount''"] entries [of "''fee''"] number_canon_text signs
    by (simp add: fields del: canon.simps(7))
  moreover have "entry (canon (PDict ?d)) ''currency'' \<in> {Inr (PStr ''KRW''), Inr (PStr ''USD'')}"
    using entries [of "''currency''"] currency by (auto simp: fields)
  moreover have "entry (canon (PDict ?d)) ''orderId'' = Inr (PStr oid)"
    using entries [of "''orderId''"] fill_order_id(1) [OF assms] by simp
  moreover have "entry (canon (PDict ?d)) ''side'' = Inr (canon (dict_get fill ''side''))"
    by (rule entries) simp
  ultimately show ?thesis unfolding typed_terminal_def by blast
qed

lemma append_typed:
  assumes "append_fact sha owner kind key content db = Inr (db', b)" "typed_fact (new_fact sha owner kind key content)"
    and "\<forall>f \<in> set db. typed_fact f"
  shows "\<forall>f \<in> set db'. typed_fact f"
  using append_Inr [OF assms(1)] assms(2,3) by (cases b) auto

lemma step_typed:
  assumes "toss_step sha db db'" "\<forall>f \<in> set db. typed_fact f"
  shows "\<forall>f \<in> set db'. typed_fact f"
  using assms(1)
proof cases
  case (initialize owner scope budgets b)
  then obtain amounts where "res_map (\<lambda>(c, v). res_bind (number True v) (\<lambda>a. Inr (c, PStr (pd_text a)))) budgets = Inr amounts"
    "append_fact sha owner ''START'' (owner @ '':start'') [(''scope'', scope), (''budgets'', PDict amounts)] db = Inr (db', b)"
    unfolding initialize_owner_def by auto
  from append_typed [OF this(2) _ assms(2)] typed_budgets [OF this(1)] show ?thesis
    by (simp add: typed_fact_def new_fact_def del: canon.simps)
next
  case (register owner client request spec_id b)
  from append_typed [OF this [unfolded register_intent_def] _ assms(2)] show ?thesis
    unfolding typed_fact_def new_fact_def by (simp add: typed_client_def entry_canon del: canon.simps) simp
next
  case (acknowledge owner client response b)
  then obtain oid h where "append_fact sha owner ''ACK'' (owner @ '':ack:'' @ client)
      [(''clientOrderId'', PStr client), (''orderId'', oid), (''rawHash'', h)] db = Inr (db', b)"
    unfolding acknowledge_def by auto
  from append_typed [OF this _ assms(2)] show ?thesis
    unfolding typed_fact_def new_fact_def by (simp add: typed_client_def entry_canon del: canon.simps) simp
next
  case (reconcile now owner ord raw b)
  then obtain request client oid raw_hash fill spec_id where
    fill: "terminal_fill sha now raw (fill_proof request client (PStr oid) raw_hash) = Inr fill"
    and app: "append_fact sha owner ''TERMINAL'' (owner @ '':terminal:'' @ oid)
      (dict_update fill [(''strategyInstanceId'', spec_id)]) db = Inr (db', b)"
    by (auto simp: reconcile_order_def split: pyval.splits)
  from append_typed [OF app _ assms(2)] terminal_typed [OF fill] show ?thesis
    by (simp add: typed_fact_def new_fact_def del: canon.simps)
next
  case (other owner kind key content b)
  from append_typed [OF this(1) _ assms(2)] this(2) show ?thesis by (auto simp: typed_fact_def new_fact_def)
qed

lemma steps_typed: "(toss_step sha)\<^sup>*\<^sup>* [] db \<Longrightarrow> \<forall>f \<in> set db. typed_fact f"
  by (induction rule: rtranclp_induct) (auto dest: step_typed)

subsection \<open>Readers of typed facts\<close>

lemma res_map_error: "res_map f xs = Inl e \<Longrightarrow> \<exists>x \<in> set xs. f x = Inl e"
  by (induction xs) (auto simp: res_bind_eq_Inl)

lemma res_fold_error: "res_fold f s xs = Inl e \<Longrightarrow> \<exists>x \<in> set xs. \<exists>s. f s x = Inl e"
  by (induction xs arbitrary: s) (auto simp: res_bind_eq_Inl)

definition no_key :: "toss_table \<Rightarrow> py_error \<Rightarrow> bool" where
  "no_key db e \<longleftrightarrow> e = TypeError ''unhashable type'' \<and> \<not> hashable_ids db"

lemma as_key_error: "as_key v = Inl e \<longleftrightarrow> e = TypeError ''unhashable type'' \<and> \<not> hashable v"
  by (auto simp: as_key_def)

lemma start_read:
  assumes "typed_start v"
  obtains cash scope budgets where "starting_cash v = Inr cash" "entry v ''scope'' = Inr scope" "entry v ''budgets'' = Inr budgets"
proof -
  from assms obtain scope d where v: "entry v ''scope'' = Inr scope" "entry v ''budgets'' = Inr (PDict d)"
    and amounts: "\<forall>(c, w) \<in> set d. \<exists>a. number False w = Inr a"
    unfolding typed_start_def by blast
  have "\<exists>cash. starting_cash v = Inr cash"
  proof (cases "starting_cash v")
    case (Inl e)
    then obtain c w where "(c, w) \<in> set d" "number False w = Inl e"
      using v(2) by (auto simp: starting_cash_def mapping_of_def res_bind_eq_Inl dest!: res_map_error)
    with amounts show ?thesis by fastforce
  qed simp
  with v that show ?thesis by blast
qed

lemma fill_error:
  assumes "f \<in> set db" "tf_kind f = ''TERMINAL''" "typed_fact f" "book_fill h (tf_payload f) = Inl e"
  shows "e \<in> {ValueError ''TOSS_FILL_CURRENCY_OUTSIDE_BUDGET'', ValueError ''TOSS_OWNED_OVERSPEND_OR_OVERSELL''} \<or> no_key db e"
proof -
  from assms(2,3) have typed: "typed_terminal (tf_payload f)" by (simp add: typed_fact_def)
  then obtain strategy side q a fee currency where
    reads: "entry (tf_payload f) ''strategyInstanceId'' = Inr strategy" "entry (tf_payload f) ''side'' = Inr side"
      "entry (tf_payload f) ''currency'' = Inr (PStr currency)"
      "res_bind (entry (tf_payload f) ''quantity'') (number False) = Inr q"
      "res_bind (entry (tf_payload f) ''amount'') (number False) = Inr a"
      "res_bind (entry (tf_payload f) ''fee'') (number False) = Inr fee"
    unfolding typed_terminal_def number_field_def by fastforce
  show ?thesis
  proof (cases "hashable strategy")
    case True
    then show ?thesis using assms(4) unfolding book_fill_def read_fill_def reads
      by (auto simp: Let_def res_bind_eq_Inl as_key_error split: if_splits)
  next
    case False
    then have "no_key db (TypeError ''unhashable type'')"
      using assms(1,2) reads(1) unfolding no_key_def hashable_ids_def by blast
    then show ?thesis using assms(4) False unfolding book_fill_def read_fill_def reads
      by (auto simp: Let_def res_bind_eq_Inl as_key_error split: if_splits)
  qed
qed

lemma index_members:
  assumes "index_facts kind k table_rows = Inr index" "map_of index key = Some v"
  shows "\<exists>f \<in> set table_rows. tf_kind f = kind \<and> v = tf_payload f"
proof -
  let ?P = "\<lambda>index. \<forall>key v. map_of index key = Some v \<longrightarrow> (\<exists>f \<in> set table_rows. tf_kind f = kind \<and> v = tf_payload f)"
  have "?P index"
    by (rule res_fold_invariant [OF assms(1) [unfolded index_facts_def]]) (auto split: if_splits)
  with assms(2) show ?thesis by blast
qed

lemma index_error:
  assumes "index_facts kind k table_rows = Inl e"
    and typed: "\<And>f. f \<in> set table_rows \<Longrightarrow> tf_kind f = kind \<Longrightarrow> \<exists>s. entry (tf_payload f) k = Inr (PStr s)"
  shows False
proof -
  from res_fold_error [OF assms(1) [unfolded index_facts_def]] obtain f index where
    "f \<in> set table_rows" "tf_kind f = kind" "res_bind (res_bind (entry (tf_payload f) k) as_key) (\<lambda>v. Inr (assoc_put v (tf_payload f) index)) = Inl e"
    by auto
  with typed [of f] show False by (auto simp: res_bind_eq_Inl as_key_error hashable_def)
qed

text \<open>The kept facts of an owner are all that its readers see.\<close>

lemma orders_error:
  assumes facts: "facts sha owner db = Inr table_rows" "set table_rows \<subseteq> set db"
    and typed: "\<forall>f \<in> set db. typed_fact f"
    and err: "toss_orders sha owner db = Inl e"
  shows "no_key db e"
proof -
  have clients: "\<exists>s. entry (tf_payload f) ''clientOrderId'' = Inr (PStr s)" if "f \<in> set table_rows" "tf_kind f \<in> {''INTENT'', ''ACK''}" for f
    using that facts(2) typed unfolding typed_fact_def typed_client_def by blast
  have ids: "\<exists>s. entry (tf_payload f) ''orderId'' = Inr (PStr s)" if "f \<in> set table_rows" "tf_kind f = ''TERMINAL''" for f
    using that facts(2) typed unfolding typed_fact_def typed_terminal_def by blast
  obtain acks where acks: "index_facts ''ACK'' ''clientOrderId'' table_rows = Inr acks"
    by (cases "index_facts ''ACK'' ''clientOrderId'' table_rows") (use index_error [OF _ clients] in auto)
  obtain fills where fills: "index_facts ''TERMINAL'' ''orderId'' table_rows = Inr fills"
    by (cases "index_facts ''TERMINAL'' ''orderId'' table_rows") (use index_error [OF _ ids] in auto)
  from err have "res_map (order_of acks fills) (filter (\<lambda>f. tf_kind f = ''INTENT'') table_rows) = Inl e"
    by (simp add: toss_orders_def facts(1) acks fills)
  from res_map_error [OF this] obtain f where f: "f \<in> set table_rows" "tf_kind f = ''INTENT''" "order_of acks fills f = Inl e"
    by auto
  from clients [OF f(1)] f(2) obtain client where client: "entry (tf_payload f) ''clientOrderId'' = Inr (PStr client)" by auto
  let ?ack = "assoc_get PNone acks (PStr client)"
  from f(3) have truthy: "truthy ?ack" and bad: "res_bind (entry ?ack ''orderId'') as_key = Inl e"
    by (auto simp: order_of_def client Let_def res_bind_eq_Inl split: if_splits)
  from truthy have "map_of acks (PStr client) = Some ?ack"
    by (auto simp: assoc_get_def split: option.splits)
  from index_members [OF acks this] obtain g where g: "g \<in> set table_rows" "tf_kind g = ''ACK''" "?ack = tf_payload g" by blast
  then have "g \<in> set db" "typed_fact g" using facts(2) typed by auto
  with g(2,3) obtain oid where oid: "entry ?ack ''orderId'' = Inr oid" unfolding typed_fact_def by auto
  with bad have "e = TypeError ''unhashable type''" "\<not> hashable oid" by (simp_all add: as_key_error)
  with \<open>g \<in> set db\<close> g(2,3) oid show ?thesis unfolding no_key_def hashable_ids_def by metis
qed

lemma orders_terminals:
  assumes "facts sha owner db = Inr table_rows" "toss_orders sha owner db = Inr orders" "ord \<in> set orders" "truthy (to_terminal ord)"
  shows "\<exists>f \<in> set table_rows. tf_kind f = ''TERMINAL'' \<and> to_terminal ord = tf_payload f"
proof -
  from assms(1,2) obtain acks fills where fills: "index_facts ''TERMINAL'' ''orderId'' table_rows = Inr fills"
    and os: "res_map (order_of acks fills) (filter (\<lambda>f. tf_kind f = ''INTENT'') table_rows) = Inr orders"
    by (auto simp: toss_orders_def)
  from res_map_member [OF os assms(3)] obtain f where "order_of acks fills f = Inr ord" by blast
  then have "\<exists>id. to_terminal ord = PNone \<or> to_terminal ord = assoc_get PNone fills id"
    by (auto simp: order_of_def Let_def split: if_splits)
  then obtain id where "to_terminal ord = PNone \<or> to_terminal ord = assoc_get PNone fills id" by blast
  with assms(4) have "map_of fills id = Some (to_terminal ord)"
    by (auto simp: assoc_get_def split: option.splits)
  from index_members [OF fills this] show ?thesis .
qed

lemma fills_counted:
  assumes "\<forall>ord \<in> set orders. truthy (to_terminal ord) \<longrightarrow> typed_terminal (to_terminal ord)"
  shows "\<exists>n. count_fills orders = Inr n"
proof (cases "count_fills orders")
  case (Inl e)
  from res_fold_error [OF this [unfolded count_fills_def]] obtain ord where "ord \<in> set orders" "truthy (to_terminal ord)"
    "res_bind (entry (to_terminal ord) ''quantity'') (number False) = Inl e"
    by (auto simp: res_bind_eq_Inl split: if_splits)
  with assms show ?thesis by (auto simp: typed_terminal_def number_field_def)
qed simp

text \<open>
  C40: A projection never meets a fact it cannot read. In every ledger written through its operations a
  projection either returns or is refused by one of the three checks of \<open>project\<close>: no single start of
  the owner, a fill in a currency without budget, or a negative balance. No key is missing, no amount unreadable and
  no digest wrong; the one other error is a list or dict passed as an order id or a strategy id.
\<close>

theorem toss_projection_typed:
  assumes "hashes_json sha" "(toss_step sha)\<^sup>*\<^sup>* [] db" "project sha owner db = Inl e"
  shows "e \<in> {ValueError ''TOSS_OWNED_PRINCIPAL_MISSING'', ValueError ''TOSS_FILL_CURRENCY_OUTSIDE_BUDGET'',
      ValueError ''TOSS_OWNED_OVERSPEND_OR_OVERSELL''} \<or> (e = TypeError ''unhashable type'' \<and> \<not> hashable_ids db)"
proof -
  have "table_kept sha []" by (simp add: table_kept_def)
  from steps_kept [OF assms(2,1) this] have "table_kept sha db" by simp
  from kept_facts [OF this, of owner] obtain table_rows where facts: "facts sha owner db = Inr table_rows" "set table_rows \<subseteq> set db"
    by (auto split: if_splits)
  have typed: "\<forall>f \<in> set db. typed_fact f" by (rule steps_typed [OF assms(2)])
  show ?thesis
  proof (cases "\<exists>start. map tf_payload (filter (\<lambda>f. tf_kind f = ''START'') table_rows) = [start]")
    case False
    then show ?thesis using assms(3) by (auto simp: project_def facts split: list.splits)
  next
    case True
    then obtain start where start: "map tf_payload (filter (\<lambda>f. tf_kind f = ''START'') table_rows) = [start]" by (rule exE)
    then have "start \<in> set (map tf_payload (filter (\<lambda>f. tf_kind f = ''START'') table_rows))" by simp
    then have "typed_start start" using typed facts(2) unfolding typed_fact_def by auto
    then obtain cash scope budgets where
      s: "starting_cash start = Inr cash" "entry start ''scope'' = Inr scope" "entry start ''budgets'' = Inr budgets"
      by (rule start_read)
    let ?ps = "map tf_payload (filter (\<lambda>f. tf_kind f = ''TERMINAL'') table_rows)"
    let ?h0 = "\<lparr>ho_cash = cash, ho_positions = []\<rparr>"
    show ?thesis
    proof (cases "res_fold book_fill ?h0 ?ps")
      case (Inl e')
      then have "e' = e" using assms(3) unfolding project_def facts(1) res_bind_Inr start list.case s by simp
      from res_fold_error [OF Inl] obtain f h where "f \<in> set table_rows" "tf_kind f = ''TERMINAL''" "book_fill h (tf_payload f) = Inl e'"
        by auto
      with fill_error [of f db h e'] facts(2) typed \<open>e' = e\<close> show ?thesis by (auto simp: no_key_def)
    next
      case (Inr h)
      have run: "res_bind (toss_orders sha owner db) (\<lambda>orders. res_bind (count_fills orders) (\<lambda>fills. Inr ())) = Inl e"
        using assms(3) unfolding project_def facts(1) res_bind_Inr start list.case s Inr by (auto simp: res_bind_eq_Inl)
      show ?thesis
      proof (cases "toss_orders sha owner db")
        case (Inl e')
        with orders_error [OF facts typed Inl] run show ?thesis by (simp add: no_key_def)
      next
        case (Inr orders)
        have "\<forall>ord \<in> set orders. truthy (to_terminal ord) \<longrightarrow> typed_terminal (to_terminal ord)"
          using orders_terminals [OF facts(1) Inr] facts(2) typed unfolding typed_fact_def by fastforce
        from fills_counted [OF this] run Inr show ?thesis by auto
      qed
    qed
  qed
qed

text \<open>A ledger without the asked owner.\<close>

theorem toss_projection_typed_witness:
  "\<exists>e. project seal ''live-runtime:toss-b'' [toss_start] = Inl e \<and> e = ValueError ''TOSS_OWNED_PRINCIPAL_MISSING''"
proof -
  have r: "(toss_step seal)\<^sup>*\<^sup>* [] [toss_start]" by (rule r_into_rtranclp) (rule toss_step.initialize [OF toss_first])
  have p: "project seal ''live-runtime:toss-b'' [toss_start] = Inl (ValueError ''TOSS_OWNED_PRINCIPAL_MISSING'')"
    by (simp add: project_def facts_def toss_start_def new_fact_def toss_owner_def del: canon.simps)
  have "hashable_ids [toss_start]" by (simp add: hashable_ids_def toss_start_def new_fact_def del: canon.simps)
  with toss_projection_typed [OF seal_hashes r p] p show ?thesis by blast
qed

end
