(* ===== verification/Py_Float.thy ===== *)
theory Py_Float
  imports Py_Decimal
begin

section \<open>Binary floating point sums\<close>

text \<open>
  A finite \<open>float\<close> is its value, a rational. \<open>float_add\<close> is the IEEE sum: the exact sum rounded to 53
  bits, half to even. Sums below \<open>2 ^ (- 1022)\<close>, which lose bits, and overflows are left out: the values are
  clock readings. The rounding moves a value by at most its \<open>2 ^ 53\<close>-th part (\<open>bin_round_error\<close>).
\<close>

function nbits :: "int \<Rightarrow> nat" where
  "nbits n = (if n < 2 then 1 else Suc (nbits (n div 2)))"
  by pat_completeness auto
termination
  by (relation "measure nat") auto

declare nbits.simps [simp del]

definition bin_exp :: "rat \<Rightarrow> int" where
  "bin_exp q = (case quotient_of q of (n, d) \<Rightarrow>
     let e = int (nbits n) - int (nbits d) in if 2 powi e \<le> q then e else e - 1)"

definition bin_round :: "rat \<Rightarrow> rat" where
  "bin_round q =
     (if q = 0 then 0
      else let k = bin_exp \<bar>q\<bar> - 52 in of_int (round_half_even (q / 2 powi k)) * 2 powi k)"

definition float_add :: "rat \<Rightarrow> rat \<Rightarrow> rat" where
  "float_add a b = bin_round (a + b)"

lemma nbits_pos [simp]: "0 < nbits n"
  by (subst nbits.simps) simp

lemma nbits_bounds:
  assumes "1 \<le> n"
  shows "2 ^ (nbits n - 1) \<le> n" "n < 2 ^ nbits n"
proof -
  have "2 ^ (nbits n - 1) \<le> n \<and> n < 2 ^ nbits n"
    using assms
  proof (induction n rule: nbits.induct)
    case (1 n)
    show ?case
    proof (cases "n < 2")
      case True
      with 1 show ?thesis by (simp add: nbits.simps [of n])
    next
      case False
      then have "1 \<le> n div 2" by linarith
      with 1(1) False have IH: "2 ^ (nbits (n div 2) - 1) \<le> n div 2" "n div 2 < 2 ^ nbits (n div 2)" by simp_all
      obtain m where m: "nbits (n div 2) = Suc m" using nbits_pos [of "n div 2"] by (cases "nbits (n div 2)") auto
      have "2 * (n div 2) \<le> n" "n < 2 * (n div 2) + 2" by linarith+
      with IH have "2 * 2 ^ m \<le> n" "n < 4 * 2 ^ m" unfolding m by auto
      with False show ?thesis by (simp add: nbits.simps [of n] m)
    qed
  qed
  then show "2 ^ (nbits n - 1) \<le> n" "n < 2 ^ nbits n" by simp_all
qed

lemma bin_exp_le:
  assumes "0 < q"
  shows "2 powi bin_exp q \<le> q"
proof -
  obtain n d where nd: "quotient_of q = (n, d)" by (cases "quotient_of q")
  have d: "0 < d" by (rule quotient_of_denom_pos [OF nd])
  have q: "q = of_int n / of_int d" by (rule quotient_of_div [OF nd])
  have n: "0 < n" using assms d by (simp add: q zero_less_divide_iff)
  let ?e = "int (nbits n) - int (nbits d)"
  have low: "rat_of_int (2 ^ (nbits n - 1)) \<le> of_int n" unfolding of_int_le_iff using nbits_bounds(1) n by simp
  have high: "rat_of_int d \<le> of_int (2 ^ nbits d)" unfolding of_int_le_iff using nbits_bounds(2) [of d] d by simp
  have "(2 :: rat) powi (?e - 1) = 2 ^ (nbits n - 1) / 2 ^ nbits d"
    by (simp add: power_int_diff power_diff Suc_leI)
  also have "\<dots> \<le> of_int n / 2 ^ nbits d"
    using low by (intro divide_right_mono) simp_all
  also have "\<dots> \<le> of_int n / of_int d"
    using high d n by (intro divide_left_mono) simp_all
  finally have "2 powi (?e - 1) \<le> q" by (simp add: q)
  then show ?thesis by (simp add: bin_exp_def nd Let_def)
qed

lemma bin_round_error: "\<bar>bin_round q - q\<bar> \<le> \<bar>q\<bar> / 2 ^ 53"
proof (cases "q = 0")
  case False
  let ?k = "bin_exp \<bar>q\<bar> - 52"
  have p: "(0 :: rat) < 2 powi ?k" by simp
  have "bin_round q - q = (of_int (round_half_even (q / 2 powi ?k)) - q / 2 powi ?k) * 2 powi ?k"
    using False p by (simp add: bin_round_def Let_def left_diff_distrib)
  then have "\<bar>bin_round q - q\<bar> = \<bar>of_int (round_half_even (q / 2 powi ?k)) - q / 2 powi ?k\<bar> * 2 powi ?k"
    by (simp add: abs_mult)
  also have "\<dots> \<le> 1 / 2 * 2 powi ?k"
    using round_half_even_error p by (intro mult_right_mono) simp_all
  also have "1 / 2 * 2 powi ?k = (2 :: rat) powi bin_exp \<bar>q\<bar> / 2 ^ 53"
    by (simp add: power_int_diff)
  also have "\<dots> \<le> \<bar>q\<bar> / 2 ^ 53"
    using bin_exp_le [of "\<bar>q\<bar>"] False by (intro divide_right_mono) simp_all
  finally show ?thesis .
qed (simp add: bin_round_def)

end
