(* ===== verification/Confirm_Store.thy ===== *)
theory Confirm_Store
  imports Route_Authority Py_Float Route_Laws
begin

section \<open>Safety confirmations\<close>

text \<open>
  \<open>SafetyConfirmationStore\<close> of \<open>safety_confirmation.py\<close>: before a dangerous action the operator gets a
  challenge and returns its token with the typed phrase. The store keeps digests only, each challenge
  until it is tried once or expires. The clock's answer (a float) and the texts of \<open>secrets\<close> are arguments; the lock makes
  issuing and consuming one step each, since only the store's own operations touch the records. The
  digested context is finite JSON.
\<close>

record challenge =
  ch_action :: string
  ch_context :: string
  ch_token :: string
  ch_phrase :: string
  ch_issued :: rat
  ch_expires :: rat

type_synonym confirmations = "(string \<times> challenge) list"

definition default_ttl :: int where "default_ttl = 90"

definition confirm_ttl :: "int \<Rightarrow> int" where
  "confirm_ttl seconds = max 60 (min 120 seconds)"

definition secret_digest :: "pyval \<Rightarrow> string" where
  "secret_digest v = sha256_hex (py_str (py_or v (PStr [])))"

text \<open>\<open>datetime.fromtimestamp(epoch, tz=timezone.utc).isoformat()\<close> from the nearest microsecond.\<close>

definition challenge_iso :: "rat \<Rightarrow> string res" where
  "challenge_iso epoch = instant_text (round_half_even (epoch * 1000000))"

text \<open>\<open>str(value or "").strip()\<close> is \<open>plain_text\<close>.\<close>

definition confirm_action :: "pyval \<Rightarrow> string" where
  "confirm_action action = upper (plain_text action)"

definition confirm_refusal :: "string \<Rightarrow> pydict" where
  "confirm_refusal reason = [(''ok'', PBool False), (''reason'', PStr reason)]"

definition purge_expired :: "rat \<Rightarrow> confirmations \<Rightarrow> confirmations" where
  "purge_expired now st = filter (\<lambda>(_, ch). \<not> ch_expires ch < now) st"

definition new_challenge :: "int \<Rightarrow> string \<Rightarrow> pydict \<Rightarrow> string \<Rightarrow> rat \<Rightarrow> string \<Rightarrow> challenge" where
  "new_challenge ttl action context phrase now token =
     \<lparr>ch_action = action, ch_context = seal (PDict context), ch_token = secret_digest (PStr token),
      ch_phrase = secret_digest (PStr phrase), ch_issued = now, ch_expires = float_add now (of_int (confirm_ttl ttl))\<rparr>"

definition issue_challenge ::
  "int \<Rightarrow> pyval \<Rightarrow> pydict \<Rightarrow> pyval \<Rightarrow> pydict \<Rightarrow> rat \<Rightarrow> string \<Rightarrow> string \<Rightarrow> confirmations
     \<Rightarrow> confirmations \<times> pydict res" where
  "issue_challenge ttl action context expected_phrase display now challenge_id token st =
     (let normalized = confirm_action action; phrase = plain_text expected_phrase in
      if normalized = [] \<or> phrase = [] then (st, Inr (confirm_refusal ''safety-confirmation-context-invalid''))
      else let row = new_challenge ttl normalized context phrase now token in
        (assoc_put challenge_id row (purge_expired now st),
         res_bind (challenge_iso (ch_expires row)) (\<lambda>expires.
         let shown = [(''challengeId'', PStr challenge_id), (''token'', PStr token), (''expectedPhrase'', PStr phrase),
           (''expiresAt'', PStr expires), (''displayContext'', PDict display)] in
         Inr ((''ok'', PBool True) # shown @ [(''challenge'', PDict shown)]))))"

definition forget :: "string \<Rightarrow> confirmations \<Rightarrow> confirmations" where
  "forget challenge_id st = filter (\<lambda>(k, _). k \<noteq> challenge_id) st"

text \<open>The checks of a popped record.\<close>

definition check_challenge ::
  "challenge \<Rightarrow> pyval \<Rightarrow> pydict \<Rightarrow> string \<Rightarrow> string \<Rightarrow> rat \<Rightarrow> pydict res" where
  "check_challenge row action context token typed now =
     (if ch_expires row < now then Inr (confirm_refusal ''safety-confirmation-expired'')
      else
        res_bind (compare_digest (ch_action row) (confirm_action action)) (\<lambda>same.
        if \<not> same then Inr (confirm_refusal ''safety-confirmation-action-changed'') else
        res_bind (compare_digest (ch_context row) (seal (PDict context))) (\<lambda>same.
        if \<not> same then Inr (confirm_refusal ''safety-confirmation-context-changed'') else
        res_bind (compare_digest (ch_token row) (secret_digest (PStr token))) (\<lambda>same.
        if \<not> same then Inr (confirm_refusal ''safety-confirmation-token-invalid'') else
        res_bind (compare_digest (ch_phrase row) (secret_digest (PStr typed))) (\<lambda>same.
        if \<not> same then Inr (confirm_refusal ''safety-confirmation-phrase-invalid'')
        else Inr [(''ok'', PBool True), (''reason'', PStr ''safety-confirmation-consumed'')])))))"

definition given_id :: "pyval \<Rightarrow> string" where
  "given_id confirmation = plain_text (dict_get (as_dict confirmation) ''challengeId'')"

definition given_token :: "pyval \<Rightarrow> string" where
  "given_token confirmation = py_str (py_or (dict_get (as_dict confirmation) ''token'') (PStr []))"

definition given_phrase :: "pyval \<Rightarrow> string" where
  "given_phrase confirmation = plain_text (dict_get (as_dict confirmation) ''typedPhrase'')"

definition consume_challenge ::
  "pyval \<Rightarrow> pydict \<Rightarrow> pyval \<Rightarrow> rat \<Rightarrow> confirmations \<Rightarrow> confirmations \<times> pydict res" where
  "consume_challenge action context confirmation now st =
     (if given_id confirmation = [] \<or> given_token confirmation = [] \<or> given_phrase confirmation = []
      then (st, Inr (confirm_refusal ''safety-confirmation-required''))
      else case map_of st (given_id confirmation) of
          None \<Rightarrow> (st, Inr (confirm_refusal ''safety-confirmation-missing-or-used''))
        | Some row \<Rightarrow> (forget (given_id confirmation) st,
            check_challenge row action context (given_token confirmation) (given_phrase confirmation) now))"

definition pending_count :: "confirmations \<Rightarrow> nat" where
  "pending_count st = length st"

subsection \<open>Accepted confirmations\<close>

definition accepted :: "pydict res \<Rightarrow> bool" where
  "accepted r \<longleftrightarrow> (\<exists>d. r = Inr d \<and> dict_get d ''ok'' = PBool True)"

lemma refusal_not_accepted [simp]: "\<not> accepted (Inr (confirm_refusal reason))"
  by (simp add: accepted_def confirm_refusal_def)

lemma error_not_accepted [simp]: "\<not> accepted (Inl e)"
  by (simp add: accepted_def)

lemma compare_digest_Inr: "compare_digest a b = Inr same \<Longrightarrow> same \<longleftrightarrow> a = b"
  by (auto simp: compare_digest_def split: if_splits)

lemma check_accepted:
  assumes "accepted (check_challenge row action context token typed now)"
  shows "now \<le> ch_expires row \<and> ch_action row = confirm_action action \<and> ch_context row = seal (PDict context)
    \<and> ch_token row = secret_digest (PStr token) \<and> ch_phrase row = secret_digest (PStr typed)"
proof -
  from assms obtain d where d: "check_challenge row action context token typed now = Inr d" "dict_get d ''ok'' = PBool True"
    unfolding accepted_def by blast
  have no: "dict_get (confirm_refusal r) ''ok'' \<noteq> PBool True" for r by (simp add: confirm_refusal_def)
  show ?thesis
    using d no unfolding check_challenge_def
    by (auto simp: res_bind_eq_Inr dest!: compare_digest_Inr split: if_splits)
qed

lemma map_of_forget [simp]: "map_of (forget c st) k = (if k = c then None else map_of st k)"
  by (induction st) (auto simp: forget_def)

lemma purge_member: "map_of (purge_expired now st) k = Some ch \<Longrightarrow> (k, ch) \<in> set st"
  by (auto simp: purge_expired_def dest!: map_of_SomeD)

lemma purge_missing: "map_of st k = None \<Longrightarrow> map_of (purge_expired now st) k = None"
  by (auto simp: purge_expired_def map_of_eq_None_iff)

section \<open>Safety confirmations: laws\<close>

text \<open>
  An accepted confirmation answers one issued challenge exactly, in time, and once, whatever challenges
  and confirmations came in between.
\<close>

text \<open>What was asked for when a challenge was issued.\<close>

record issued =
  is_id :: string
  is_action :: pyval
  is_context :: pydict
  is_phrase :: pyval
  is_token :: string
  is_time :: rat
  is_ttl :: int

inductive confirm_run :: "issued list \<Rightarrow> confirmations \<Rightarrow> bool" where
  start: "confirm_run [] []"
| issue: "confirm_run h st \<Longrightarrow> issue_challenge (is_ttl i) (is_action i) (is_context i) (is_phrase i) display
      (is_time i) (is_id i) (is_token i) st = (st', r) \<Longrightarrow> confirm_run (h @ [i]) st'"
| consume: "confirm_run h st \<Longrightarrow> consume_challenge action context confirmation now st = (st', r) \<Longrightarrow> confirm_run h st'"

definition record_of :: "issued \<Rightarrow> challenge" where
  "record_of i = new_challenge (is_ttl i) (confirm_action (is_action i)) (is_context i) (plain_text (is_phrase i)) (is_time i) (is_token i)"

definition from_history :: "issued list \<Rightarrow> confirmations \<Rightarrow> bool" where
  "from_history h st \<longleftrightarrow> (\<forall>(k, ch) \<in> set st. \<exists>i \<in> set h. is_id i = k \<and> ch = record_of i)"

lemma run_history: "confirm_run h st \<Longrightarrow> from_history h st"
proof (induction rule: confirm_run.induct)
  case start
  show ?case by (simp add: from_history_def)
next
  case (issue h st i display st' r)
  from issue.hyps(2) have "st' = st \<or> st' = assoc_put (is_id i) (record_of i) (purge_expired (is_time i) st)"
    by (auto simp: issue_challenge_def Let_def record_of_def split: if_splits)
  then have "set st' \<subseteq> insert (is_id i, record_of i) (set st)"
    using set_assoc_put [of "is_id i" "record_of i" "purge_expired (is_time i) st"] by (auto simp: purge_expired_def)
  with issue.IH show ?case unfolding from_history_def by fastforce
next
  case (consume h st action scope confirmation now st' r)
  then have "set st' \<subseteq> set st" by (auto simp: consume_challenge_def forget_def split: if_splits option.splits)
  with consume.IH show ?case unfolding from_history_def by blast
qed

text \<open>The texts whose digests are compared.\<close>

definition confirm_texts :: "issued list \<Rightarrow> pydict \<Rightarrow> pyval \<Rightarrow> string set" where
  "confirm_texts h context confirmation =
     {canonical_json (PDict context), given_token confirmation, given_phrase confirmation}
     \<union> (\<Union>i \<in> set h. {canonical_json (PDict (is_context i)), is_token i, plain_text (is_phrase i)})"

lemma secret_digest_text: "secret_digest (PStr s) = sha256_hex s"
  by (simp add: secret_digest_def py_or_def)

definition answers :: "issued \<Rightarrow> pyval \<Rightarrow> pydict \<Rightarrow> pyval \<Rightarrow> bool" where
  "answers i action context confirmation \<longleftrightarrow> is_id i = given_id confirmation
     \<and> confirm_action (is_action i) = confirm_action action
     \<and> canonical_json (PDict (is_context i)) = canonical_json (PDict context)
     \<and> is_token i = given_token confirmation \<and> plain_text (is_phrase i) = given_phrase confirmation"

text \<open>
  C35: A dangerous action needs its own confirmation. Whatever challenges were issued and tried before, a
  confirmation is accepted only if a challenge of that identity was issued for the same action and the same
  context (as canonical JSON), the token is the issued one and the phrase the expected one, and not
  later than the sum of the time of issue and the store's bound, at most 120 seconds up to the
  rounding of the clock's floats; provided the compared texts do not collide under SHA-256.
\<close>

theorem confirmation_exact:
  assumes "confirm_run h st" "accepted (snd (consume_challenge action context confirmation now st))"
    and "inj_on sha256_hex (confirm_texts h context confirmation)"
  shows "\<exists>i \<in> set h. answers i action context confirmation \<and> now \<le> float_add (is_time i) (of_int (confirm_ttl (is_ttl i)))
    \<and> (0 \<le> is_time i \<longrightarrow> now \<le> (is_time i + 120) * (1 + 1 / 2 ^ 53))"
proof -
  from assms(2) obtain row where row: "map_of st (given_id confirmation) = Some row"
    and ok: "accepted (check_challenge row action context (given_token confirmation) (given_phrase confirmation) now)"
    by (auto simp: consume_challenge_def split: if_splits option.splits)
  from run_history [OF assms(1)] map_of_SomeD [OF row] obtain i where i: "i \<in> set h" "is_id i = given_id confirmation" "row = record_of i"
    unfolding from_history_def by blast
  from check_accepted [OF ok] have c: "now \<le> float_add (is_time i) (of_int (confirm_ttl (is_ttl i)))"
    "confirm_action (is_action i) = confirm_action action" "seal (PDict (is_context i)) = seal (PDict context)"
    "sha256_hex (is_token i) = sha256_hex (given_token confirmation)"
    "sha256_hex (plain_text (is_phrase i)) = sha256_hex (given_phrase confirmation)"
    by (simp_all add: i(3) record_of_def new_challenge_def secret_digest_text)
  have "answers i action context confirmation"
    unfolding answers_def using i(1,2) c(2-5) unfolding seal_def
    by (auto dest!: inj_onD [OF assms(3)] simp: confirm_texts_def)
  moreover have "now \<le> (is_time i + 120) * (1 + 1 / 2 ^ 53)" if "0 \<le> is_time i"
  proof -
    let ?t = "is_time i + of_int (confirm_ttl (is_ttl i))"
    have t: "0 \<le> ?t" "?t \<le> is_time i + 120" using that by (simp_all add: confirm_ttl_def)
    have "bin_round ?t - ?t \<le> \<bar>?t\<bar> / 2 ^ 53" by (rule abs_le_D1) (rule bin_round_error)
    then have "now \<le> ?t + ?t / 2 ^ 53" using c(1) t(1) unfolding float_add_def by linarith
    also have "\<dots> = ?t * (1 + 1 / 2 ^ 53)" by (simp add: distrib_left)
    also have "\<dots> \<le> (is_time i + 120) * (1 + 1 / 2 ^ 53)" using t(2) by (intro mult_right_mono) simp_all
    finally show ?thesis .
  qed
  ultimately show ?thesis using i(1) c(1) by blast
qed

text \<open>Every operation of the store but issuing a challenge of the given identity.\<close>

inductive confirm_step :: "string \<Rightarrow> confirmations \<Rightarrow> confirmations \<Rightarrow> bool" for used where
  issue: "challenge_id \<noteq> used \<Longrightarrow> confirm_step used st
     (fst (issue_challenge ttl action context phrase display now challenge_id token st))"
| consume: "confirm_step used st (fst (consume_challenge action context confirmation now st))"

lemma step_missing: "confirm_step used st st' \<Longrightarrow> map_of st used = None \<Longrightarrow> map_of st' used = None"
  by (induction rule: confirm_step.induct)
    (auto simp: issue_challenge_def consume_challenge_def Let_def purge_missing split: option.splits)

lemma steps_missing: "(confirm_step used)\<^sup>*\<^sup>* st st' \<Longrightarrow> map_of st used = None \<Longrightarrow> map_of st' used = None"
  by (induction rule: rtranclp_induct) (auto dest: step_missing)

text \<open>
  C36: A confirmation is used up by the first try. Once a complete confirmation for a challenge was submitted,
  accepted or not, every later one for the same challenge is refused, whatever happens in between,
  unless \<open>secrets\<close> repeats the identity.
\<close>

theorem confirmation_once:
  assumes "consume_challenge action context confirmation now st = (st1, r)"
    and "given_id confirmation \<noteq> []" "given_token confirmation \<noteq> []" "given_phrase confirmation \<noteq> []"
    and "(confirm_step (given_id confirmation))\<^sup>*\<^sup>* st1 st2" "given_id again = given_id confirmation"
  shows "\<exists>reason. consume_challenge action' context' again now' st2 = (st2, Inr (confirm_refusal reason))
    \<and> reason \<in> {''safety-confirmation-required'', ''safety-confirmation-missing-or-used''}"
proof -
  have "map_of st1 (given_id confirmation) = None"
    using assms(1-4) by (auto simp: consume_challenge_def split: option.splits)
  from steps_missing [OF assms(5) this] have "map_of st2 (given_id again) = None" by (simp add: assms(6))
  then show ?thesis by (auto simp: consume_challenge_def)
qed

subsection \<open>A confirmation that is accepted\<close>

lemma digest_again: "compare_digest (sha256_hex s) (sha256_hex s) = Inr True"
proof -
  have "list_all (\<lambda>c. code c < 128) (sha256_hex s)"
    using sha256_hex_pattern [of s] by (auto simp: sha_pattern_def list_all_iff is_hex_digit_def is_digit_def)
  then show ?thesis by (simp add: compare_digest_def)
qed

lemma check_succeeds:
  assumes "now \<le> ch_expires (record_of i)" "list_all (\<lambda>c. code c < 128) (confirm_action (is_action i))"
  shows "check_challenge (record_of i) (is_action i) (is_context i) (is_token i) (plain_text (is_phrase i)) now
    = Inr [(''ok'', PBool True), (''reason'', PStr ''safety-confirmation-consumed'')]"
proof -
  have "compare_digest (confirm_action (is_action i)) (confirm_action (is_action i)) = Inr True"
    using assms(2) by (simp add: compare_digest_def)
  then show ?thesis
    using assms(1) by (simp add: check_challenge_def record_of_def new_challenge_def seal_def secret_digest_text digest_again)
qed

definition stop_request :: issued where
  "stop_request = \<lparr>is_id = ''c1'', is_action = PStr ''START'', is_context = [], is_phrase = PStr ''{}'', is_token = ''{}'',
     is_time = 1000, is_ttl = 90\<rparr>"

definition stop_answer :: pyval where
  "stop_answer = PDict [(''challengeId'', PStr ''c1''), (''token'', PStr ''{}''), (''typedPhrase'', PStr ''{}'')]"

definition asked :: confirmations where
  "asked = [(''c1'', record_of stop_request)]"

lemma stop_texts [simp]:
  "plain_text (PStr ''START'') = ''START''" "plain_text (PStr ''{}'') = ''{}''" "plain_text (PStr ''c1'') = ''c1''"
  "confirm_action (PStr ''START'') = ''START''"
  by (simp_all add: confirm_action_def plain_text_def py_or_def strip_def is_space_def upper_def to_upper_def is_lower_def)

lemma answer_fields [simp]: "given_id stop_answer = ''c1''" "given_token stop_answer = ''{}''" "given_phrase stop_answer = ''{}''"
  by (simp_all add: stop_answer_def given_id_def given_token_def given_phrase_def py_or_def)

lemma asked_run: "confirm_run [stop_request] asked"
proof -
  have "issue_challenge 90 (PStr ''START'') [] (PStr ''{}'') [] 1000 ''c1'' ''{}'' [] = (asked, r)" if
    "r = snd (issue_challenge 90 (PStr ''START'') [] (PStr ''{}'') [] 1000 ''c1'' ''{}'' [])" for r
    unfolding that by (simp add: issue_challenge_def Let_def asked_def record_of_def stop_request_def purge_expired_def)
  with confirm_run.issue [OF confirm_run.start, of stop_request "[]" asked] show ?thesis
    by (simp add: stop_request_def)
qed

lemma answer_accepted:
  "consume_challenge (PStr ''START'') [] stop_answer 1050 asked
    = ([], Inr [(''ok'', PBool True), (''reason'', PStr ''safety-confirmation-consumed'')])"
proof -
  have "- (bin_round 1090 - 1090) \<le> \<bar>1090\<bar> / 2 ^ 53" by (rule abs_le_D2) (rule bin_round_error)
  then have "1050 \<le> bin_round 1090" by simp
  then have "1050 \<le> ch_expires (record_of stop_request)"
    by (simp add: record_of_def new_challenge_def stop_request_def confirm_ttl_def float_add_def)
  from check_succeeds [OF this] show ?thesis
    by (simp add: consume_challenge_def asked_def forget_def stop_request_def)
qed

theorem confirmation_exact_witness:
  "accepted (snd (consume_challenge (PStr ''START'') [] stop_answer 1050 asked)) \<and> answers stop_request (PStr ''START'') [] stop_answer"
proof -
  have ok: "accepted (snd (consume_challenge (PStr ''START'') [] stop_answer 1050 asked))"
    unfolding answer_accepted by (simp add: accepted_def)
  have "inj_on sha256_hex (confirm_texts [stop_request] [] stop_answer)"
    by (simp add: confirm_texts_def stop_request_def canonical_json_def)
  from confirmation_exact [OF asked_run ok this] ok show ?thesis by simp
qed

theorem confirmation_once_witness:
  "\<exists>reason. consume_challenge (PStr ''START'') [] stop_answer 1060 [] = ([], Inr (confirm_refusal reason))
    \<and> reason \<in> {''safety-confirmation-required'', ''safety-confirmation-missing-or-used''}"
  by (rule confirmation_once [OF answer_accepted]) simp_all

end
