(* ===== verification/Intent_Journal.thy ===== *)
theory Intent_Journal
  imports Gov_Fields Py_Compare
begin

section \<open>The journal of continuous intents\<close>

text \<open>
  \<open>continuous_dispatch.py\<close>: an order intent of a live cycle is written to a SQLite journal under the control
  generation it was made in, and may be claimed once, by the process that wrote it, while that
  generation lasts and nothing is unresolved. An intent is the dict of its dataclass (\<open>asdict\<close>; the dataclass itself
  is external). The payload column is represented by the value its canonical text decodes to, the result
  column by its value; a file is missing, or has a version and perhaps the table. The random tokens of
  \<open>secrets\<close> and the clock's texts are arguments.
\<close>

definition dispatch_key :: string where "dispatch_key = ''continuous_dispatch''"
definition max_payload :: nat where "max_payload = 128 * 1024"

definition control_names :: "string list" where
  "control_names = [''apply_watchdog_fail_closed'', ''set_mode'', ''set_flag'',
     ''save_environment_settings'', ''promote_strategy_to_live'',
     ''set_strategy_lifecycle_status'', ''set_automation_profile'',
     ''set_risk_setting'', ''start_continuous_runtime'', ''start_functional_test_runtime'',
     ''start_upbit_functional_backend_state'', ''start_binance_spot_functional_backend_state'',
     ''recover_upbit_functional_backend_state'', ''recover_binance_spot_functional_backend_state'',
     ''start_binance_futures_fill_soak'', ''run_recovery_drill'',
     ''seed_program_ledger_from_broker_snapshot'']"

definition canonical_strict :: "pydict \<Rightarrow> string res" where
  "canonical_strict d =
     (if strict_entries d then Inr (canonical_json (PDict d))
      else Inl (ValueError ''Out of range float values are not JSON compliant''))"

subsection \<open>Control generations\<close>

text \<open>\<open>_CONTROLS\<close> and \<open>_AUTHORITY\<close>: the running controls, the generation and whether it blocks.\<close>

record control_state =
  ct_controls :: "string set"
  ct_epoch :: string
  ct_blocked :: bool

definition begin_control :: "string \<Rightarrow> string \<Rightarrow> control_state \<Rightarrow> control_state" where
  "begin_control token epoch c =
     c\<lparr>ct_controls := insert token (ct_controls c), ct_epoch := epoch, ct_blocked := True\<rparr>"

definition end_control :: "string \<Rightarrow> string \<Rightarrow> control_state \<Rightarrow> control_state" where
  "end_control token epoch c =
     (let rest = ct_controls c - {token}
      in c\<lparr>ct_controls := rest, ct_epoch := epoch, ct_blocked := (rest \<noteq> {})\<rparr>)"

definition enter_control :: "string \<Rightarrow> string \<Rightarrow> string \<Rightarrow> control_state \<Rightarrow> control_state \<times> string" where
  "enter_control name token epoch c =
     (if name \<in> set control_names then (begin_control token epoch c, token) else (c, []))"

definition leave_control :: "string \<Rightarrow> string \<Rightarrow> control_state \<Rightarrow> control_state" where
  "leave_control token epoch c = (if token \<noteq> [] then end_control token epoch c else c)"

subsection \<open>May this intent be sent?\<close>

definition derived_keys :: "string list" where
  "derived_keys = [''trace_id'', ''traceId'', ''risk_reducing'', ''risk_reducing_claim_rejected'', ''capital_rollout'',
     ''functional_test_reservation_id'', dispatch_key]"

definition recomputed_keys :: "string list" where
  "recomputed_keys = [''risk_reducing'', ''risk_reducing_claim_rejected'']"

text \<open>\<open>original.get("metadata", {})\<close>, used as a dict\<close>

definition metadata_entries :: "py_error \<Rightarrow> pydict \<Rightarrow> pydict res" where
  "metadata_entries e original =
     (if ''metadata'' \<notin> set (map fst original) then Inr []
      else case dict_get original ''metadata'' of PDict d \<Rightarrow> Inr d | _ \<Rightarrow> Inl e)"

definition dispatch_allowed :: "control_state \<Rightarrow> (pydict \<times> pydict) option \<Rightarrow> pydict \<Rightarrow> (bool \<times> string) res" where
  "dispatch_allowed c held intent =
     (let metadata = as_dict (dict_get intent ''metadata''); mark = dict_get metadata dispatch_key in
      if mark = PNone then Inr (True, [])
      else case (mark, held) of
          (PDict sealed, Some (expected, original)) \<Rightarrow>
            if \<not> py_eq mark (PDict expected) then Inr (False, ''continuous-dispatch-capability-missing'')
            else if ct_blocked c \<or> dict_get sealed ''epoch'' \<noteq> PStr (ct_epoch c)
            then Inr (False, ''continuous-dispatch-control-generation-changed'')
            else res_bind (metadata_entries (TypeError ''object is not iterable'') original) (\<lambda>kept.
              if list_ex (\<lambda>(k, _). k \<notin> set (map fst kept) \<and> k \<notin> set derived_keys) metadata
              then Inr (False, ''continuous-dispatch-metadata-key-added'')
              else if list_ex (\<lambda>(k, v). k \<noteq> ''metadata'' \<and> \<not> py_eq (dict_get intent k) v) original
              then Inr (False, ''continuous-dispatch-intent-changed'')
              else if list_ex (\<lambda>(k, v). k \<notin> set recomputed_keys \<and> \<not> py_eq (dict_get metadata k) v) kept
              then Inr (False, ''continuous-dispatch-metadata-changed'')
              else Inr (True, []))
        | _ \<Rightarrow> Inr (False, ''continuous-dispatch-capability-missing''))"

subsection \<open>Rows\<close>

record intent_row =
  in_command :: string
  in_owner :: string
  in_epoch :: string
  in_payload :: pydict
  in_hash :: string
  in_state :: string
  in_created :: string
  in_updated :: string
  in_result :: pydict

text \<open>What \<open>enqueue\<close> checks and derives before it opens the journal.\<close>

definition intent_identity :: "string \<Rightarrow> pydict \<Rightarrow> pydict \<Rightarrow> pydict" where
  "intent_identity evaluation payload metadata =
     [(''evaluation'', PStr evaluation), (''strategy'', dict_get payload ''strategy_id''),
      (''broker'', dict_get metadata ''broker_id''), (''symbol'', dict_get payload ''symbol''),
      (''side'', dict_get payload ''side''), (''deployment'', dict_get metadata ''deployment_id''),
      (''portfolio'', dict_get metadata ''portfolio_id'')]"

definition prepare_intent :: "pydict \<Rightarrow> (string \<times> string) res" where
  "prepare_intent payload =
     (case py_or (dict_get payload ''metadata'') (PDict []) of
        PDict metadata \<Rightarrow>
          res_bind (require (dispatch_key \<notin> set (map fst metadata))
            (ValueError ''continuous-dispatch-seal-cannot-be-inherited'')) (\<lambda>_.
          let evaluation = plain_text (dict_get metadata ''runtime_evaluation_key'') in
          res_bind (require (evaluation \<noteq> [] \<and> dict_get payload ''mode'' \<in> {PStr ''SMALL_LIVE'', PStr ''FULL_LIVE''})
            (ValueError ''continuous-intent-evaluation-and-live-mode-required'')) (\<lambda>_.
          res_bind (canonical_strict payload) (\<lambda>serialized.
          res_bind (require (length serialized \<le> max_payload) (ValueError ''continuous-intent-payload-too-large'')) (\<lambda>_.
          res_bind (canonical_strict (intent_identity evaluation payload metadata)) (\<lambda>identity.
          Inr (sha256_hex identity, sha256_hex serialized))))))
      | _ \<Rightarrow> Inl (AttributeError ''object has no attribute get''))"

definition intent_unresolved :: "string \<Rightarrow> intent_row list \<Rightarrow> bool" where
  "intent_unresolved owner intents =
     list_ex (\<lambda>r. in_state r = ''UNKNOWN'' \<or> (in_state r = ''DISPATCHING'' \<and> in_owner r \<noteq> owner)) intents"

definition new_intent :: "string \<Rightarrow> control_state \<Rightarrow> string \<times> string \<Rightarrow> pydict \<Rightarrow> bool \<Rightarrow> string \<Rightarrow> string \<Rightarrow> intent_row" where
  "new_intent owner c ids payload held created updated =
     \<lparr>in_command = fst ids, in_owner = owner, in_epoch = ct_epoch c, in_payload = as_dict (canon (PDict payload)),
      in_hash = snd ids, in_state = (if ct_blocked c \<or> held then ''BLOCKED'' else ''QUEUED''),
      in_created = created, in_updated = updated, in_result = []\<rparr>"

text \<open>\<open>INSERT OR IGNORE\<close>: the stored row and whether it is new.\<close>

definition enqueue_rows ::
  "string \<Rightarrow> control_state \<Rightarrow> string \<times> string \<Rightarrow> pydict \<Rightarrow> string \<Rightarrow> string \<Rightarrow> intent_row list
     \<Rightarrow> (intent_row list \<times> intent_row \<times> bool) res" where
  "enqueue_rows owner c ids payload created updated intents =
     (case find (\<lambda>r. in_command r = fst ids) intents of
        Some r \<Rightarrow> Inr (intents, r, False)
      | None \<Rightarrow> let r = new_intent owner c ids payload (intent_unresolved owner intents) created updated
                in Inr (intents @ [r], r, True))"

definition set_state :: "string \<Rightarrow> string \<Rightarrow> string \<Rightarrow> intent_row list \<Rightarrow> intent_row list" where
  "set_state command state now intents =
     map (\<lambda>r. if in_command r = command then r\<lparr>in_state := state, in_updated := now\<rparr> else r) intents"

text \<open>A claimed row is returned as it was before its update.\<close>

definition claim_rows ::
  "string \<Rightarrow> control_state \<Rightarrow> string \<Rightarrow> string \<Rightarrow> intent_row list \<Rightarrow> (intent_row list \<times> intent_row option) res" where
  "claim_rows owner c command now intents =
     (case find (\<lambda>r. in_command r = command) intents of
        None \<Rightarrow> Inr (intents, None)
      | Some r \<Rightarrow>
          if in_owner r \<noteq> owner \<or> in_state r \<noteq> ''QUEUED'' then Inr (intents, None)
          else if ct_blocked c \<or> in_epoch r \<noteq> ct_epoch c \<or> intent_unresolved owner intents
          then Inr (set_state command ''BLOCKED'' now intents, None)
          else if sha256_hex (canonical_json (PDict (in_payload r))) \<noteq> in_hash r
          then Inl (ValueError ''continuous-intent-journal-hash-mismatch'')
          else Inr (set_state command ''DISPATCHING'' now intents, Some r))"

text \<open>\<open>(result or {}).get("order") or {}\<close>\<close>

definition result_order :: "pydict \<Rightarrow> pydict res" where
  "result_order answer =
     (case py_or (dict_get answer ''order'') (PDict []) of PDict d \<Rightarrow> Inr d
      | _ \<Rightarrow> Inl (AttributeError ''object has no attribute get''))"

definition result_summary :: "pydict \<Rightarrow> pydict res" where
  "result_summary answer =
     res_bind (result_order answer) (\<lambda>order.
     Inr [(''ok'', PBool (dict_get answer ''ok'' = PBool True)),
          (''orderId'', PStr (py_str (py_or (dict_get order ''order_id'') (PStr [])))),
          (''orderState'', PStr (py_str (py_or (dict_get order ''state'') (PStr []))))])"

definition finish_rows ::
  "string \<Rightarrow> string \<Rightarrow> string \<Rightarrow> pydict \<Rightarrow> string \<Rightarrow> intent_row list \<Rightarrow> (intent_row list \<times> unit) res" where
  "finish_rows owner command status summary now intents =
     (let open_row = (\<lambda>r. in_command r = command \<and> in_owner r = owner \<and> in_state r \<in> {''QUEUED'', ''DISPATCHING''}) in
      res_bind (require (length (filter open_row intents) = 1) (RuntimeError ''continuous-intent-outcome-cas-failed'')) (\<lambda>_.
      Inr (map (\<lambda>r. if open_row r then r\<lparr>in_state := status, in_result := summary, in_updated := now\<rparr> else r) intents, ())))"

subsection \<open>Reconciling with recorded orders\<close>

definition known_states :: "string list" where
  "known_states = [''acknowledged'', ''partially_filled'', ''filled'', ''cancelled'', ''canceled'', ''rejected'',
     ''risk_blocked'', ''adapter_blocked'']"

definition row_seal :: "intent_row \<Rightarrow> pydict" where
  "row_seal r = [(''commandId'', PStr (in_command r)), (''owner'', PStr (in_owner r)), (''epoch'', PStr (in_epoch r)),
     (''payloadHash'', PStr (in_hash r))]"

text \<open>Is the order evidence for the outcome of this row?\<close>

definition resolves :: "string \<Rightarrow> pydict \<Rightarrow> intent_row \<Rightarrow> bool res" where
  "resolves owner order r =
     (let od = dict_get order in
      if in_state r \<notin> {''UNKNOWN'', ''DISPATCHING''} \<or> (in_state r = ''DISPATCHING'' \<and> in_owner r = owner)
         \<or> \<not> py_eq (od dispatch_key) (PDict (row_seal r))
         \<or> sha256_hex (canonical_json (PDict (in_payload r))) \<noteq> in_hash r
         \<or> (od ''state'' \<in> {PStr ''acknowledged'', PStr ''partially_filled'', PStr ''filled''}
            \<and> plain_text (od ''broker_order_id'') \<in> {[], ''-''})
      then Inr False
      else if \<not> py_eq (od ''symbol'') (dict_get (in_payload r) ''symbol'') then Inr False
      else res_bind (metadata_entries (AttributeError ''object has no attribute get'') (in_payload r)) (\<lambda>metadata.
        Inr (py_eq (od ''broker_id'') (dict_get metadata ''broker_id'')
          \<and> py_eq (dict_get metadata ''portfolio_execution'') (od ''portfolio_execution''))))"

definition reconcile_one ::
  "string \<Rightarrow> (nat \<Rightarrow> string) \<Rightarrow> intent_row list \<times> nat \<Rightarrow> pydict \<Rightarrow> (intent_row list \<times> nat) res" where
  "reconcile_one owner now = (\<lambda>(intents, resolved) order.
     (case dict_get order dispatch_key of
        PDict sealed \<Rightarrow>
          if dict_get order ''state'' \<notin> PStr ` set known_states then Inr (intents, resolved)
          else (case find (\<lambda>r. in_command r = py_str (py_or (dict_get sealed ''commandId'') (PStr []))) intents of
              None \<Rightarrow> Inr (intents, resolved)
            | Some r \<Rightarrow>
                res_bind (resolves owner order r) (\<lambda>evidence.
                Inr (if evidence then (set_state (in_command r) ''RESOLVED'' (now resolved) intents, Suc resolved)
                     else (intents, resolved))))
      | _ \<Rightarrow> Inr (intents, resolved)))"

definition reconcile_rows ::
  "string \<Rightarrow> (nat \<Rightarrow> string) \<Rightarrow> pydict list \<Rightarrow> intent_row list \<Rightarrow> (intent_row list \<times> nat) res" where
  "reconcile_rows owner now dispatch_rows intents = res_fold (reconcile_one owner now) (intents, 0) dispatch_rows"

text \<open>Another owner's open rows are shown as interrupted or unknown.\<close>

definition shown_state :: "string \<Rightarrow> intent_row \<Rightarrow> string" where
  "shown_state owner r =
     (if in_owner r = owner then in_state r
      else if in_state r = ''QUEUED'' then ''INTERRUPTED'' else if in_state r = ''DISPATCHING'' then ''UNKNOWN'' else in_state r)"

definition shown_rows :: "string \<Rightarrow> intent_row list \<Rightarrow> pydict list" where
  "shown_rows owner intents =
     map (\<lambda>r. [(''command_id'', PStr (in_command r)), (''state'', PStr (shown_state owner r)), (''created_at'', PStr (in_created r)),
         (''updated_at'', PStr (in_updated r)), (''result'', PDict (in_result r))])
       (take 100 (rev (sort_key in_created intents)))"

subsection \<open>The journal file\<close>

record journal_file =
  jf_version :: int
  jf_rows :: "intent_row list option"

record journal =
  jn_owner :: string
  jn_initialized :: bool

type_synonym journal_world = "journal \<times> journal_file option"

text \<open>\<open>connection\<close>: the file is created when missing, the table by the journal's first use.\<close>

definition with_journal ::
  "(intent_row list \<Rightarrow> (intent_row list \<times> 'a) res) \<Rightarrow> journal_world \<Rightarrow> journal_world \<times> 'a res" where
  "with_journal body w =
     (let jn = fst w; f = (case snd w of None \<Rightarrow> \<lparr>jf_version = 0, jf_rows = None\<rparr> | Some f \<Rightarrow> f) in
      if jf_version f \<notin> {0, 1}
      then ((jn, Some f), Inl (ValueError ''continuous-intent-journal-version-unsupported''))
      else let jn1 = jn\<lparr>jn_initialized := True\<rparr>;
               f1 = (if jn_initialized jn then f
                     else \<lparr>jf_version = 1, jf_rows = Some (case jf_rows f of None \<Rightarrow> [] | Some intents \<Rightarrow> intents)\<rparr>)
        in case jf_rows f1 of
             None \<Rightarrow> ((jn1, Some f1), Inl (CustomError ''OperationalError'' ''no such table: continuous_intents''))
           | Some intents \<Rightarrow> (case body intents of
                 Inl e \<Rightarrow> ((jn1, Some f1), Inl e)
               | Inr (intents', a) \<Rightarrow> ((jn1, Some (f1\<lparr>jf_rows := Some intents'\<rparr>)), Inr a)))"

definition enqueue ::
  "control_state \<Rightarrow> pydict \<Rightarrow> string \<Rightarrow> string \<Rightarrow> journal_world \<Rightarrow> journal_world \<times> (intent_row \<times> bool) res" where
  "enqueue c payload created updated w =
     (case prepare_intent payload of
        Inl e \<Rightarrow> (w, Inl e)
      | Inr ids \<Rightarrow> with_journal (enqueue_rows (jn_owner (fst w)) c ids payload created updated) w)"

definition claim ::
  "control_state \<Rightarrow> string \<Rightarrow> string \<Rightarrow> journal_world \<Rightarrow> journal_world \<times> intent_row option res" where
  "claim c command now w = with_journal (claim_rows (jn_owner (fst w)) c command now) w"

definition finish ::
  "string \<Rightarrow> string \<Rightarrow> pydict \<Rightarrow> string \<Rightarrow> journal_world \<Rightarrow> journal_world \<times> unit res" where
  "finish command status answer now w =
     (if status \<notin> {''COMPLETED'', ''BLOCKED'', ''UNKNOWN'', ''ABORTED''}
      then (w, Inl (ValueError ''continuous-intent-invalid-outcome''))
      else case result_summary answer of
          Inl e \<Rightarrow> (w, Inl e)
        | Inr summary \<Rightarrow> with_journal (finish_rows (jn_owner (fst w)) command status summary now) w)"

definition reconciliation_required :: "journal_world \<Rightarrow> journal_world \<times> bool res" where
  "reconciliation_required w =
     (if snd w = None
      then (w, if jn_initialized (fst w) then Inl (CustomError ''OSError'' ''continuous-intent-journal-disappeared'') else Inr False)
      else with_journal (\<lambda>intents. Inr (intents, intent_unresolved (jn_owner (fst w)) intents)) w)"

definition reconcile :: "pydict list \<Rightarrow> (nat \<Rightarrow> string) \<Rightarrow> journal_world \<Rightarrow> journal_world \<times> nat res" where
  "reconcile dispatch_rows now w =
     (if snd w = None then (w, Inr 0) else with_journal (reconcile_rows (jn_owner (fst w)) now dispatch_rows) w)"

definition journal_rows :: "journal_world \<Rightarrow> journal_world \<times> pydict list res" where
  "journal_rows w =
     (if snd w = None then (w, Inr []) else with_journal (\<lambda>intents. Inr (intents, shown_rows (jn_owner (fst w)) intents)) w)"

end
