(* ===== verification/Intent_Dispatch.thy ===== *)
theory Intent_Dispatch
  imports Intent_Journal
begin

section \<open>The dispatcher of continuous intents\<close>

text \<open>
  \<open>ContinuousDispatcher\<close> of \<open>continuous_dispatch.py\<close>: during a cycle of the supervisor lock intents are only
  enqueued; when the outermost cycle ends and the thread holds the lock no longer, each is claimed and sent
  once. Whether the thread owns the lock, \<open>submit\<close> and the callback are arguments. While an order is being submitted other
  processes may use the journal file, and the control generation may change. The observers and the failure
  hook only report.
\<close>

definition error_type :: "py_error \<Rightarrow> string" where
  "error_type e = (case e of
       ValueError _ \<Rightarrow> ''ValueError'' | RuntimeError _ \<Rightarrow> ''RuntimeError'' | TypeError _ \<Rightarrow> ''TypeError''
     | KeyError _ \<Rightarrow> ''KeyError'' | AttributeError _ \<Rightarrow> ''AttributeError'' | OverflowError _ \<Rightarrow> ''OverflowError''
     | IntegrityError _ \<Rightarrow> ''IntegrityError'' | InvalidOperation _ \<Rightarrow> ''InvalidOperation''
     | CodedError _ \<Rightarrow> ''ValueError'' | CustomError kind _ \<Rightarrow> kind)"

definition outcome_unknown :: "py_error \<Rightarrow> pydict" where
  "outcome_unknown e = [(''ok'', PBool False), (''reason'', PStr ''continuous-dispatch-outcome-unknown''),
     (''errorType'', PStr (error_type e))]"

definition refused :: "string \<Rightarrow> pydict" where
  "refused reason = [(''ok'', PBool False), (''reason'', PStr reason)]"

text \<open>The intent of a claimed row, with the capability of this dispatch in its metadata.\<close>

definition dispatch_seal :: "string \<Rightarrow> string \<Rightarrow> intent_row \<Rightarrow> pydict" where
  "dispatch_seal owner command r =
     [(''commandId'', PStr command), (''epoch'', PStr (in_epoch r)), (''payloadHash'', PStr (in_hash r)), (''owner'', PStr owner)]"

definition sealed_intent :: "string \<Rightarrow> string \<Rightarrow> intent_row \<Rightarrow> pydict res" where
  "sealed_intent owner command r =
     (case dict_get (in_payload r) ''metadata'' of
        PDict metadata \<Rightarrow> Inr (assoc_put ''metadata''
          (PDict (assoc_put dispatch_key (PDict (dispatch_seal owner command r)) metadata)) (in_payload r))
      | _ \<Rightarrow> Inl (TypeError ''object is not a mapping''))"

definition outcome_status :: "pydict \<Rightarrow> string res" where
  "outcome_status answer =
     res_bind (result_order answer) (\<lambda>order.
     let order_state = py_str (py_or (dict_get order ''state'') (PStr []))
     in Inr (if order_state \<in> {''unknown'', ''dispatch_pending''} then ''UNKNOWN''
             else if dict_get answer ''ok'' = PBool True then ''COMPLETED'' else ''BLOCKED''))"

text \<open>From the claim to the broker's answer.\<close>

definition attempt ::
  "control_state \<Rightarrow> (pydict \<Rightarrow> pydict res) \<Rightarrow> (pydict \<Rightarrow> pydict \<Rightarrow> unit res) \<Rightarrow> string \<Rightarrow> string \<Rightarrow> intent_row \<Rightarrow> pydict res" where
  "attempt c submit callback owner command r =
     res_bind (sealed_intent owner command r) (\<lambda>intent.
     res_bind (dispatch_allowed c (Some (dispatch_seal owner command r, in_payload r)) intent) (\<lambda>(allowed, reason).
     res_bind (if allowed then submit intent else Inr (refused reason)) (\<lambda>answer.
     res_bind (callback intent answer) (\<lambda>_. Inr answer))))"

definition dispatch_serialized ::
  "control_state \<Rightarrow> control_state \<Rightarrow> (pydict \<Rightarrow> pydict res) \<Rightarrow> (pydict \<Rightarrow> pydict \<Rightarrow> unit res)
     \<Rightarrow> (journal_file option \<Rightarrow> journal_file option) \<Rightarrow> string \<Rightarrow> string \<Rightarrow> journal_world \<Rightarrow> journal_world \<times> pydict" where
  "dispatch_serialized c1 c2 submit callback meanwhile now command w =
     (case claim c1 command now w of
        (w1, Inl e) \<Rightarrow> (w1, outcome_unknown e)
      | (w1, Inr None) \<Rightarrow> (w1, refused ''continuous-intent-not-claimable'')
      | (w1, Inr (Some r)) \<Rightarrow>
          (let w2 = (fst w1, meanwhile (snd w1));
               ended = res_bind (attempt c2 submit callback (jn_owner (fst w)) command r) (\<lambda>answer.
                 res_bind (outcome_status answer) (\<lambda>status. Inr (answer, status)))
           in case ended of
                Inl e \<Rightarrow> (fst (finish command ''UNKNOWN'' [] now w2), outcome_unknown e)
              | Inr (answer, status) \<Rightarrow>
                  (case finish command status answer now w2 of
                     (w3, Inl e) \<Rightarrow> (fst (finish command ''UNKNOWN'' [] now w3), outcome_unknown e)
                   | (w3, Inr _) \<Rightarrow> (w3, answer))))"

definition dispatch_command ::
  "bool \<Rightarrow> control_state \<Rightarrow> control_state \<Rightarrow> (pydict \<Rightarrow> pydict res) \<Rightarrow> (pydict \<Rightarrow> pydict \<Rightarrow> unit res)
     \<Rightarrow> (journal_file option \<Rightarrow> journal_file option) \<Rightarrow> string \<Rightarrow> string \<Rightarrow> journal_world \<Rightarrow> journal_world \<times> pydict res" where
  "dispatch_command lock_owned c1 c2 submit callback meanwhile now command w =
     (if lock_owned then (w, Inl (RuntimeError ''continuous-dispatch-cycle-lock-owned''))
      else case dispatch_serialized c1 c2 submit callback meanwhile now command w of (w', answer) \<Rightarrow> (w', Inr answer))"

subsection \<open>Cycles of a thread\<close>

record cycle =
  cy_depth :: nat
  cy_batch :: "string list"

definition enter_cycle :: "cycle \<Rightarrow> cycle" where
  "enter_cycle cy = \<lparr>cy_depth = Suc (cy_depth cy), cy_batch = (if cy_depth cy = 0 then [] else cy_batch cy)\<rparr>"

definition queued_answer :: "string \<Rightarrow> pydict" where
  "queued_answer command = [(''ok'', PBool True), (''reason'', PStr ''continuous-intent-durably-queued''),
     (''deferred'', PBool True), (''commandId'', PStr command)]"

definition held_answer :: "bool \<Rightarrow> string \<Rightarrow> pydict" where
  "held_answer duplicate command = [(''ok'', PBool False), (''reason'', PStr ''continuous-intent-duplicate-or-control-blocked''),
     (''duplicate'', PBool duplicate), (''commandId'', PStr command)]"

definition defer_intent ::
  "bool \<Rightarrow> control_state \<Rightarrow> pydict \<Rightarrow> string \<Rightarrow> string \<Rightarrow> cycle \<times> journal_world \<Rightarrow> (cycle \<times> journal_world) \<times> pydict res" where
  "defer_intent lock_owned c payload created updated = (\<lambda>(cy, w).
     if \<not> lock_owned \<or> cy_depth cy = 0
     then ((cy, w), Inl (RuntimeError ''continuous-intent-requires-cycle-boundary''))
     else case enqueue c payload created updated w of
         (w', Inl e) \<Rightarrow> ((cy, w'), Inl e)
       | (w', Inr (r, fresh)) \<Rightarrow>
           if fresh \<and> in_state r = ''QUEUED''
           then ((cy\<lparr>cy_batch := cy_batch cy @ [in_command r]\<rparr>, w'), Inr (queued_answer (in_command r)))
           else ((cy, w'), Inr (held_answer (\<not> fresh) (in_command r))))"

text \<open>Leaving returns what is to be dispatched: nothing inside an outer cycle, and nothing, with every intent
  aborted, when the cycle raised or the thread still owns the lock after its release.\<close>

definition abort_batch :: "string \<Rightarrow> string list \<Rightarrow> journal_world \<Rightarrow> journal_world" where
  "abort_batch now batch w = fold (\<lambda>command w. fst (finish command ''ABORTED'' [] now w)) batch w"

definition exit_cycle ::
  "bool \<Rightarrow> bool \<Rightarrow> string \<Rightarrow> cycle \<times> journal_world \<Rightarrow> (cycle \<times> journal_world) \<times> string list" where
  "exit_cycle raised lock_owned now = (\<lambda>(cy, w).
     let depth = cy_depth cy - 1; batch = (if depth = 0 then cy_batch cy else []);
         cy' = \<lparr>cy_depth = depth, cy_batch = (if depth = 0 then [] else cy_batch cy)\<rparr>
     in if raised \<or> lock_owned then ((cy', abort_batch now batch w), []) else ((cy', w), batch))"

end
