(* ===== verification/Intent_Laws.thy ===== *)
theory Intent_Laws
  imports Intent_Dispatch
begin

section \<open>The journal of continuous intents: laws\<close>

text \<open>
  Rows are never removed and keep their identity; their states only move forward. Whatever processes
  share the file, an intent is claimed at most once, an unknown outcome stops every claim until a recorded order
  proves it, and an answer that says ok is the broker's answer to the journalled intent.
\<close>

definition file_rows :: "journal_file option \<Rightarrow> intent_row list" where
  "file_rows file = (case file of None \<Rightarrow> [] | Some f \<Rightarrow> (case jf_rows f of None \<Rightarrow> [] | Some intents \<Rightarrow> intents))"

lemma with_journal_effect:
  assumes "with_journal body w = (w', r)"
  shows "jn_owner (fst w') = jn_owner (fst w)
    \<and> (case r of Inl _ \<Rightarrow> file_rows (snd w') = file_rows (snd w)
        | Inr a \<Rightarrow> body (file_rows (snd w)) = Inr (file_rows (snd w'), a))"
  using assms unfolding with_journal_def Let_def
  by (auto simp: file_rows_def split: if_splits option.splits sum.splits)

subsection \<open>How a row moves\<close>

definition row_moves :: "intent_row \<Rightarrow> intent_row \<Rightarrow> bool" where
  "row_moves r r' \<longleftrightarrow> (in_command r', in_owner r', in_epoch r', in_payload r', in_hash r', in_created r')
       = (in_command r, in_owner r, in_epoch r, in_payload r, in_hash r, in_created r)
     \<and> (r' = r
        \<or> (in_state r = ''QUEUED'' \<and> in_state r' \<in> {''BLOCKED'', ''DISPATCHING'', ''COMPLETED'', ''UNKNOWN'', ''ABORTED''})
        \<or> (in_state r = ''DISPATCHING'' \<and> in_state r' \<in> {''COMPLETED'', ''BLOCKED'', ''UNKNOWN'', ''ABORTED''}))"

lemma row_stays [simp]: "row_moves r r"
  by (simp add: row_moves_def)

text \<open>An operation moves rows in place and may add one new intent.\<close>

definition rows_move :: "intent_row list \<Rightarrow> intent_row list \<Rightarrow> bool" where
  "rows_move intents intents' \<longleftrightarrow> (\<exists>moved extra. intents' = moved @ extra \<and> list_all2 row_moves intents moved
     \<and> (extra = [] \<or> (\<exists>r. extra = [r] \<and> in_command r \<notin> set (map in_command intents)
          \<and> in_state r \<in> {''QUEUED'', ''BLOCKED''})))"

lemma moved_rows: "list_all2 row_moves intents moved \<Longrightarrow> rows_move intents moved"
  unfolding rows_move_def by (intro exI [of _ moved] exI [of _ "[]"]) simp

lemma added_row:
  "in_command r \<notin> set (map in_command intents) \<Longrightarrow> in_state r \<in> {''QUEUED'', ''BLOCKED''} \<Longrightarrow> rows_move intents (intents @ [r])"
  unfolding rows_move_def
  by (rule exI [of _ intents], rule exI [of _ "[r]"]) (blast intro: list_all2_refl row_stays)

lemma rows_stay [simp]: "rows_move intents intents"
  by (rule moved_rows) (simp add: list_all2_refl)

lemma rows_in_place: "(\<And>r. r \<in> set intents \<Longrightarrow> row_moves r (f r)) \<Longrightarrow> rows_move intents (map f intents)"
  by (rule moved_rows) (auto simp: list_all2_conv_all_nth)

lemma moves_commands:
  assumes "rows_move intents intents'"
  shows "set (map in_command intents) \<subseteq> set (map in_command intents')"
    "distinct (map in_command intents) \<Longrightarrow> distinct (map in_command intents')"
proof -
  from assms obtain moved extra where m: "intents' = moved @ extra" "list_all2 row_moves intents moved"
    "extra = [] \<or> (\<exists>r. extra = [r] \<and> in_command r \<notin> set (map in_command intents))"
    unfolding rows_move_def by blast
  have "map in_command moved = map in_command intents"
    using m(2) by (induction rule: list_all2_induct) (simp_all add: row_moves_def)
  with m(1,3) show "set (map in_command intents) \<subseteq> set (map in_command intents')"
    "distinct (map in_command intents) \<Longrightarrow> distinct (map in_command intents')"
    by (auto simp flip: set_map)
qed

lemma moves_row:
  assumes "rows_move intents intents'" "r \<in> set intents"
  shows "\<exists>r' \<in> set intents'. row_moves r r'"
proof -
  from assms(1) obtain moved extra where m: "intents' = moved @ extra" "list_all2 row_moves intents moved"
    unfolding rows_move_def by blast
  from assms(2) obtain i where "i < length intents" "r = intents ! i" by (auto simp: in_set_conv_nth)
  with m(2) have "row_moves r (moved ! i)" "moved ! i \<in> set moved" by (auto simp: list_all2_conv_all_nth)
  with m(1) show ?thesis by auto
qed

lemma find_row: "find P xs = Some r \<Longrightarrow> r \<in> set xs \<and> P r"
  by (auto simp: find_Some_iff)

lemma same_row: "distinct (map in_command intents) \<Longrightarrow> r \<in> set intents \<Longrightarrow> r' \<in> set intents \<Longrightarrow> in_command r = in_command r' \<Longrightarrow> r = r'"
  by (auto simp: distinct_map inj_on_def)

lemma state_moves:
  assumes "distinct (map in_command intents)" "r \<in> set intents"
    and "row_moves r (r\<lparr>in_state := state, in_updated := now\<rparr>)"
  shows "rows_move intents (set_state (in_command r) state now intents)"
  unfolding set_state_def
proof (rule rows_in_place)
  fix r' assume "r' \<in> set intents"
  with same_row [OF assms(1) this assms(2)] assms(3)
  show "row_moves r' (if in_command r' = in_command r then r'\<lparr>in_state := state, in_updated := now\<rparr> else r')" by auto
qed

lemma enqueue_moves: "enqueue_rows owner c ids payload created updated intents = Inr (intents', a) \<Longrightarrow> rows_move intents intents'"
proof (cases "find (\<lambda>r. in_command r = fst ids) intents")
  case None
  let ?r = "new_intent owner c ids payload (intent_unresolved owner intents) created updated"
  assume "enqueue_rows owner c ids payload created updated intents = Inr (intents', a)"
  with None have "intents' = intents @ [?r]" by (auto simp: enqueue_rows_def Let_def)
  moreover have "in_command ?r \<notin> set (map in_command intents)" "in_state ?r \<in> {''QUEUED'', ''BLOCKED''}"
    using None by (auto simp: new_intent_def find_None_iff)
  ultimately show ?thesis using added_row by blast
qed (simp add: enqueue_rows_def)

lemma claim_moves:
  assumes "claim_rows owner c command now intents = Inr (intents', a)" "distinct (map in_command intents)"
  shows "rows_move intents intents'"
proof (cases "find (\<lambda>r. in_command r = command) intents")
  case (Some r)
  then have r: "r \<in> set intents" "in_command r = command" using find_row by fastforce+
  have moves: "rows_move intents (set_state (in_command r) state now intents)"
    if "in_state r = ''QUEUED''" "state \<in> {''BLOCKED'', ''DISPATCHING''}" for state
    by (rule state_moves [OF assms(2) r(1)]) (use that in \<open>auto simp: row_moves_def\<close>)
  from assms(1) Some r(2) moves show ?thesis by (auto simp: claim_rows_def split: if_splits)
qed (use assms(1) in \<open>simp add: claim_rows_def\<close>)

lemma finish_moves:
  assumes "finish_rows owner command status summary now intents = Inr (intents', a)"
    and "status \<in> {''COMPLETED'', ''BLOCKED'', ''UNKNOWN'', ''ABORTED''}"
  shows "rows_move intents intents'"
proof -
  let ?open = "\<lambda>r. in_command r = command \<and> in_owner r = owner \<and> in_state r \<in> {''QUEUED'', ''DISPATCHING''}"
  have "intents' = map (\<lambda>r. if ?open r then r\<lparr>in_state := status, in_result := summary, in_updated := now\<rparr> else r) intents"
    using assms(1) by (auto simp: finish_rows_def Let_def)
  moreover have "rows_move intents \<dots>"
    by (rule rows_in_place) (use assms(2) in \<open>auto simp: row_moves_def\<close>)
  ultimately show ?thesis by simp
qed

lemma resolves_state: "resolves owner order r = Inr True \<Longrightarrow> in_state r \<in> {''UNKNOWN'', ''DISPATCHING''}"
  by (auto simp: resolves_def Let_def split: if_splits)

lemma resolves_seal: "resolves owner order r = Inr True \<Longrightarrow> py_eq (dict_get order dispatch_key) (PDict (row_seal r))"
  by (auto simp: resolves_def Let_def split: if_splits)

text \<open>One recorded order resolves at most the row it carries the seal of.\<close>

definition carries_seal :: "pydict \<Rightarrow> intent_row \<Rightarrow> bool" where
  "carries_seal order r \<longleftrightarrow> py_eq (dict_get order dispatch_key) (PDict (row_seal r))"

inductive resolve_row :: "pydict list \<Rightarrow> intent_row list \<Rightarrow> intent_row list \<Rightarrow> bool" for orders where
  "order \<in> set orders \<Longrightarrow> r \<in> set intents \<Longrightarrow> in_state r \<in> {''UNKNOWN'', ''DISPATCHING''} \<Longrightarrow> carries_seal order r
    \<Longrightarrow> resolve_row orders intents (set_state (in_command r) ''RESOLVED'' now intents)"

lemma reconcile_one_effect:
  assumes "reconcile_one owner now (intents, n) order = Inr (intents', n')" "order \<in> set orders"
  shows "intents' = intents \<or> resolve_row orders intents intents'"
proof (cases "intents' = intents")
  case False
  with assms(1) obtain command r where r: "find (\<lambda>r. in_command r = command) intents = Some r" "resolves owner order r = Inr True"
    and i: "intents' = set_state (in_command r) ''RESOLVED'' (now n) intents"
    by (auto simp: reconcile_one_def res_bind_eq_Inr split: pyval.splits if_splits option.splits)
  have "resolve_row orders intents (set_state (in_command r) ''RESOLVED'' (now n) intents)"
    by (rule resolve_row.intros [OF assms(2)])
      (use find_row [OF r(1)] resolves_state [OF r(2)] resolves_seal [OF r(2)] in \<open>auto simp: carries_seal_def\<close>)
  then show ?thesis by (simp add: i)
qed simp

lemma reconcile_effect:
  assumes "reconcile_rows owner now orders intents = Inr (intents', n)"
  shows "(resolve_row orders)\<^sup>*\<^sup>* intents intents'"
proof -
  have "(resolve_row orders)\<^sup>*\<^sup>* intents (fst (intents', n))"
  proof (rule res_fold_invariant [OF assms [unfolded reconcile_rows_def], of "\<lambda>s. (resolve_row orders)\<^sup>*\<^sup>* intents (fst s)"])
    fix s order s'
    assume o: "order \<in> set orders" and run: "(resolve_row orders)\<^sup>*\<^sup>* intents (fst s)" and "reconcile_one owner now s order = Inr s'"
    then have "fst s' = fst s \<or> resolve_row orders (fst s) (fst s')"
      using reconcile_one_effect [of owner now "fst s" "snd s" order "fst s'" "snd s'" orders] by simp
    with run show "(resolve_row orders)\<^sup>*\<^sup>* intents (fst s')" by (auto intro: rtranclp.rtrancl_into_rtrancl)
  qed simp
  then show ?thesis by simp
qed

lemma resolve_commands: "resolve_row orders intents intents' \<Longrightarrow> map in_command intents' = map in_command intents"
  by (induction rule: resolve_row.induct) (auto simp: set_state_def)

subsection \<open>Runs of the journal\<close>

text \<open>One operation of any process: the claims it made and the orders it reconciled with.\<close>

inductive journal_step ::
  "journal_file option \<Rightarrow> (string \<times> string) list \<Rightarrow> pydict list \<Rightarrow> journal_file option \<Rightarrow> bool" where
  enqueued: "enqueue c payload created updated (jn, f) = ((jn', f'), r) \<Longrightarrow> journal_step f [] [] f'"
| claimed: "claim c command now (jn, f) = ((jn', f'), Inr (Some row)) \<Longrightarrow> journal_step f [(jn_owner jn, command)] [] f'"
| unclaimed: "claim c command now (jn, f) = ((jn', f'), r) \<Longrightarrow> (\<nexists>row. r = Inr (Some row)) \<Longrightarrow> journal_step f [] [] f'"
| finished: "finish command status answer now (jn, f) = ((jn', f'), r) \<Longrightarrow> journal_step f [] [] f'"
| reconciled: "reconcile orders stamps (jn, f) = ((jn', f'), r) \<Longrightarrow> journal_step f [] orders f'"
| asked: "reconciliation_required (jn, f) = ((jn', f'), r) \<Longrightarrow> journal_step f [] [] f'"
| shown: "journal_rows (jn, f) = ((jn', f'), r) \<Longrightarrow> journal_step f [] [] f'"

inductive journal_run ::
  "journal_file option \<Rightarrow> (string \<times> string) list \<Rightarrow> pydict list \<Rightarrow> journal_file option \<Rightarrow> bool" for f where
  start: "journal_run f [] [] f"
| step: "journal_run f claims orders g \<Longrightarrow> journal_step g claims' orders' h \<Longrightarrow> journal_run f (claims @ claims') (orders @ orders') h"

text \<open>A claim takes a queued row of its own process, in its generation, with nothing unresolved.\<close>

definition claimable :: "string \<Rightarrow> control_state \<Rightarrow> string \<Rightarrow> intent_row list \<Rightarrow> intent_row \<Rightarrow> bool" where
  "claimable owner c command intents r \<longleftrightarrow> r \<in> set intents \<and> in_command r = command \<and> in_owner r = owner
     \<and> in_state r = ''QUEUED'' \<and> in_epoch r = ct_epoch c \<and> \<not> ct_blocked c \<and> \<not> intent_unresolved owner intents
     \<and> in_hash r = sha256_hex (canonical_json (PDict (in_payload r)))"

lemma claim_effect:
  assumes "claim c command now (jn, f) = ((jn', f'), Inr (Some r))"
  shows "claimable (jn_owner jn) c command (file_rows f) r" "jn_owner jn' = jn_owner jn"
    "file_rows f' = set_state command ''DISPATCHING'' now (file_rows f)"
proof -
  from with_journal_effect [OF assms [unfolded claim_def]]
  have o: "jn_owner jn' = jn_owner jn"
    and c: "claim_rows (jn_owner jn) c command now (file_rows f) = Inr (file_rows f', Some r)" by simp_all
  from c obtain r' where f: "find (\<lambda>r. in_command r = command) (file_rows f) = Some r'"
    by (auto simp: claim_rows_def split: option.splits)
  from c f have "r' = r" "in_owner r = jn_owner jn" "in_state r = ''QUEUED''" "in_epoch r = ct_epoch c" "\<not> ct_blocked c"
    "\<not> intent_unresolved (jn_owner jn) (file_rows f)" "in_hash r = sha256_hex (canonical_json (PDict (in_payload r)))"
    and s: "file_rows f' = set_state command ''DISPATCHING'' now (file_rows f)"
    by (auto simp: claim_rows_def split: if_splits)
  with find_row [OF f] o s show "claimable (jn_owner jn) c command (file_rows f) r" "jn_owner jn' = jn_owner jn"
    "file_rows f' = set_state command ''DISPATCHING'' now (file_rows f)"
    by (simp_all add: claimable_def)
qed

text \<open>What a step does to the rows, apart from the errors that leave them.\<close>

lemma step_rows:
  assumes "journal_step f claims orders g" "distinct (map in_command (file_rows f))"
  shows "(claims = [] \<and> rows_move (file_rows f) (file_rows g))
    \<or> (\<exists>owner c command r now. claims = [(owner, command)] \<and> claimable owner c command (file_rows f) r
         \<and> file_rows g = set_state command ''DISPATCHING'' now (file_rows f))
    \<or> (claims = [] \<and> (resolve_row orders)\<^sup>*\<^sup>* (file_rows f) (file_rows g))"
  using assms(1)
proof cases
  case (enqueued c payload created updated jn jn' r)
  then have "rows_move (file_rows f) (file_rows g)"
    using enqueue_moves
    by (auto simp: enqueue_def dest!: with_journal_effect split: sum.splits)
  with enqueued show ?thesis by blast
next
  case (claimed c command now jn jn' row)
  from claim_effect [OF this(3)] claimed(1) show ?thesis by blast
next
  case (unclaimed c command now jn jn' r)
  from with_journal_effect [OF unclaimed(3) [unfolded claim_def]]
  have "rows_move (file_rows f) (file_rows g)"
    using claim_moves [OF _ assms(2)] by (cases r) fastforce+
  with unclaimed show ?thesis by blast
next
  case (finished command status answer now jn jn' r)
  have "rows_move (file_rows f) (file_rows g)"
  proof (cases "status \<in> {''COMPLETED'', ''BLOCKED'', ''UNKNOWN'', ''ABORTED''}")
    case True
    show ?thesis
    proof (cases "result_summary answer")
      case (Inr summary)
      with finished(3) True have "with_journal (finish_rows (jn_owner jn) command status summary now) (jn, f) = ((jn', g), r)"
        by (auto simp: finish_def)
      from with_journal_effect [OF this] show ?thesis
        using finish_moves [OF _ True] by (cases r) fastforce+
    qed (use finished(3) True in \<open>auto simp: finish_def\<close>)
  qed (use finished(3) in \<open>auto simp: finish_def\<close>)
  with finished show ?thesis by blast
next
  case (reconciled stamps jn jn' r)
  have "(resolve_row orders)\<^sup>*\<^sup>* (file_rows f) (file_rows g)"
  proof (cases "f = None")
    case False
    with reconciled have "with_journal (reconcile_rows (jn_owner jn) stamps orders) (jn, f) = ((jn', g), r)"
      by (simp add: reconcile_def)
    from with_journal_effect [OF this] show ?thesis using reconcile_effect by (cases r) fastforce+
  qed (use reconciled in \<open>simp add: reconcile_def\<close>)
  with reconciled show ?thesis by blast
next
  case (asked jn jn' r)
  then have "file_rows g = file_rows f"
    by (auto simp: reconciliation_required_def split: if_splits sum.splits dest!: with_journal_effect)
  with asked show ?thesis by simp
next
  case (shown jn jn' r)
  then have "file_rows g = file_rows f"
    by (auto simp: journal_rows_def split: if_splits sum.splits dest!: with_journal_effect)
  with shown show ?thesis by simp
qed

text \<open>Every claim left its mark, and no row is there twice.\<close>

definition claims_marked :: "(string \<times> string) list \<Rightarrow> intent_row list \<Rightarrow> bool" where
  "claims_marked claims intents \<longleftrightarrow> (\<forall>(owner, command) \<in> set claims. \<exists>r \<in> set intents.
     in_command r = command \<and> in_owner r = owner \<and> in_state r \<noteq> ''QUEUED'')"

lemma moves_marked: "rows_move intents intents' \<Longrightarrow> claims_marked claims intents \<Longrightarrow> claims_marked claims intents'"
  unfolding claims_marked_def by (fastforce dest: moves_row simp: row_moves_def)

lemma state_member: "r \<in> set intents \<Longrightarrow> (if in_command r = command then r\<lparr>in_state := state, in_updated := now\<rparr> else r)
    \<in> set (set_state command state now intents)"
  by (auto simp: set_state_def)

lemma state_mark:
  assumes "r \<in> set intents" "state \<noteq> ''QUEUED''" "in_state r \<noteq> ''QUEUED'' \<or> in_command r = command"
  shows "\<exists>r' \<in> set (set_state command state now intents).
    in_command r' = in_command r \<and> in_owner r' = in_owner r \<and> in_state r' \<noteq> ''QUEUED''"
  by (rule bexI [OF _ state_member [OF assms(1)]]) (use assms(2,3) in auto)

lemma state_marked:
  assumes "state \<noteq> ''QUEUED''" "claims_marked claims intents"
  shows "claims_marked claims (set_state command state now intents)"
  unfolding claims_marked_def
proof (intro ballI, clarify)
  fix owner k
  assume "(owner, k) \<in> set claims"
  with assms(2) have "\<exists>r \<in> set intents. in_command r = k \<and> in_owner r = owner \<and> in_state r \<noteq> ''QUEUED''"
    unfolding claims_marked_def by fast
  then obtain r where "r \<in> set intents" "in_command r = k" "in_owner r = owner" "in_state r \<noteq> ''QUEUED''" by (elim bexE conjE)
  with state_mark [of r intents state command now] assms(1)
  show "\<exists>r \<in> set (set_state command state now intents). in_command r = k \<and> in_owner r = owner \<and> in_state r \<noteq> ''QUEUED''"
    by simp
qed

lemma resolve_marked: "resolve_row orders intents intents' \<Longrightarrow> claims_marked claims intents \<Longrightarrow> claims_marked claims intents'"
  by (induction rule: resolve_row.induct) (simp add: state_marked)

lemma resolves_marked:
  "(resolve_row orders)\<^sup>*\<^sup>* intents intents' \<Longrightarrow> claims_marked claims intents
    \<Longrightarrow> claims_marked claims intents' \<and> map in_command intents' = map in_command intents"
  by (induction rule: rtranclp_induct) (auto dest: resolve_marked resolve_commands)

definition run_ok :: "(string \<times> string) list \<Rightarrow> intent_row list \<Rightarrow> bool" where
  "run_ok claims intents \<longleftrightarrow> distinct (map in_command intents) \<and> distinct (map snd claims) \<and> claims_marked claims intents"

lemma step_ok:
  assumes "journal_step f claims' orders g" "run_ok claims (file_rows f)"
  shows "run_ok (claims @ claims') (file_rows g)"
proof -
  have ok: "distinct (map in_command (file_rows f))" "distinct (map snd claims)" "claims_marked claims (file_rows f)"
    using assms(2) by (simp_all add: run_ok_def)
  from step_rows [OF assms(1) ok(1)] show ?thesis
  proof (elim disjE)
    assume m: "claims' = [] \<and> rows_move (file_rows f) (file_rows g)"
    with moves_commands(2) [of "file_rows f" "file_rows g"] moves_marked ok show ?thesis by (auto simp: run_ok_def)
  next
    assume "claims' = [] \<and> (resolve_row orders)\<^sup>*\<^sup>* (file_rows f) (file_rows g)"
    with resolves_marked ok show ?thesis by (fastforce simp: run_ok_def)
  next
    assume "\<exists>owner c command r now. claims' = [(owner, command)] \<and> claimable owner c command (file_rows f) r
         \<and> file_rows g = set_state command ''DISPATCHING'' now (file_rows f)"
    then obtain owner c command r now where c: "claims' = [(owner, command)]" "claimable owner c command (file_rows f) r"
      "file_rows g = set_state command ''DISPATCHING'' now (file_rows f)" by blast
    then have r: "r \<in> set (file_rows f)" "in_command r = command" "in_owner r = owner" "in_state r = ''QUEUED''"
      by (simp_all add: claimable_def)
    have "command \<notin> set (map snd claims)"
      using ok(3) r same_row [OF ok(1)] unfolding claims_marked_def by fastforce
    moreover have "claims_marked claims (file_rows g)" unfolding c(3) by (rule state_marked) (use ok(3) in simp_all)
    moreover have "claims_marked claims' (file_rows g)"
      using state_mark [OF r(1), of "''DISPATCHING''" command now] r(2,3) unfolding c claims_marked_def by simp
    moreover have "map in_command (file_rows g) = map in_command (file_rows f)" unfolding c(3) by (simp add: set_state_def)
    ultimately show ?thesis using ok(1,2) c(1) unfolding run_ok_def claims_marked_def by auto
  qed
qed

lemma run_keeps: "journal_run f claims orders g \<Longrightarrow> run_ok [] (file_rows f) \<Longrightarrow> run_ok claims (file_rows g)"
  by (induction rule: journal_run.induct) (auto intro: step_ok)

end
