(* ===== verification/Intent_Safety.thy ===== *)
theory Intent_Safety
  imports Intent_Laws
begin

section \<open>The journal of continuous intents: the properties\<close>

lemma no_file_ok: "run_ok [] (file_rows None)"
  by (simp add: run_ok_def file_rows_def claims_marked_def)

text \<open>
  C32: An intent is attempted at most once. Whatever processes share a journal and whatever they do, no
  intent is claimed twice, by no two processes and not again after a restart; a claimed intent belongs to the process that
  claimed it and is never queued again, and no two rows are about one intent.
\<close>

theorem intent_attempted_once:
  assumes "journal_run None claims orders f"
  shows "distinct (map snd claims) \<and> distinct (map in_command (file_rows f))
    \<and> (\<forall>(owner, command) \<in> set claims. \<exists>r \<in> set (file_rows f).
         in_command r = command \<and> in_owner r = owner \<and> in_state r \<noteq> ''QUEUED'')"
  using run_keeps [OF assms no_file_ok] by (simp add: run_ok_def claims_marked_def)

subsection \<open>Unknown outcomes\<close>

lemma moves_unknown:
  assumes "rows_move intents intents'" "r \<in> set intents" "in_state r = ''UNKNOWN''"
  shows "r \<in> set intents'"
  using moves_row [OF assms(1,2)] assms(3) by (auto simp: row_moves_def)

lemma resolve_unknown:
  assumes "resolve_row orders intents intents'" "r \<in> set intents" "distinct (map in_command intents)"
    and "\<forall>order \<in> set orders. \<not> carries_seal order r"
  shows "r \<in> set intents'"
  using assms(1)
proof cases
  case (1 order r' now)
  with assms(4) have "r' \<noteq> r" by blast
  with same_row [OF assms(3) 1(3) assms(2)] have "in_command r \<noteq> in_command r'" by auto
  then have "(if in_command r = in_command r' then r\<lparr>in_state := ''RESOLVED'', in_updated := now\<rparr> else r) = r" by simp
  with state_member [OF assms(2), of "in_command r'" now "''RESOLVED''"] show ?thesis unfolding 1(1) by simp
qed

lemma resolves_unknown:
  "(resolve_row orders)\<^sup>*\<^sup>* intents intents' \<Longrightarrow> r \<in> set intents \<Longrightarrow> distinct (map in_command intents)
    \<Longrightarrow> \<forall>order \<in> set orders. \<not> carries_seal order r \<Longrightarrow> r \<in> set intents' \<and> distinct (map in_command intents')"
  by (induction rule: rtranclp_induct) (auto dest: resolve_unknown resolve_commands simp flip: list.set_map)

lemma step_unknown:
  assumes "journal_step f claims orders g" "distinct (map in_command (file_rows f))"
    and r: "r \<in> set (file_rows f)" "in_state r = ''UNKNOWN''" and "\<forall>order \<in> set orders. \<not> carries_seal order r"
  shows "claims = [] \<and> r \<in> set (file_rows g)"
proof -
  have "intent_unresolved owner (file_rows f)" for owner
    using r by (auto simp: intent_unresolved_def list_ex_iff)
  then have "\<not> claimable owner c command (file_rows f) r'" for owner c command r' by (simp add: claimable_def)
  with step_rows [OF assms(1,2)] moves_unknown [OF _ r] resolves_unknown [OF _ r(1) assms(2,5)] show ?thesis by blast
qed

text \<open>
  C33: An unknown outcome holds every intent. While the outcome of one dispatch is unknown, no process claims
  anything, whatever they do in between, and the row stays as it is, until a process reconciles with a recorded order
  that carries the exact seal of that row (command, process, generation, payload digest).
\<close>

theorem unknown_holds_dispatch:
  assumes "journal_run None claims0 orders0 f" "r \<in> set (file_rows f)" "in_state r = ''UNKNOWN''"
    and "journal_run f claims orders g" "\<forall>order \<in> set orders. \<not> carries_seal order r"
  shows "claims = [] \<and> r \<in> set (file_rows g)"
  using assms(4,5)
proof (induction rule: journal_run.induct)
  case start
  show ?case using assms(2) by simp
next
  case (step claims orders g claims' orders' h)
  from step have IH: "claims = []" "r \<in> set (file_rows g)" by simp_all
  have "run_ok claims0 (file_rows f)" by (rule run_keeps [OF assms(1) no_file_ok])
  then have "run_ok [] (file_rows f)" by (simp add: run_ok_def claims_marked_def)
  from run_keeps [OF step.hyps(1) this] have "distinct (map in_command (file_rows g))" by (simp add: run_ok_def)
  from step_unknown [OF step.hyps(2) this IH(2) assms(3)] step.prems IH(1) show ?case by simp
qed

subsection \<open>What is sent\<close>

lemma allowed_generation:
  assumes "sealed_intent owner command r = Inr intent"
    and "dispatch_allowed c (Some (dispatch_seal owner command r, in_payload r)) intent = Inr (True, reason)"
  shows "\<not> ct_blocked c \<and> ct_epoch c = in_epoch r"
proof -
  from assms(1) obtain metadata where
    "dict_get intent ''metadata'' = PDict (assoc_put dispatch_key (PDict (dispatch_seal owner command r)) metadata)"
    by (auto simp: sealed_intent_def dict_get_put split: pyval.splits)
  then have "dict_get (as_dict (dict_get intent ''metadata'')) dispatch_key = PDict (dispatch_seal owner command r)"
    by (simp add: dict_get_put)
  moreover have "dict_get (dispatch_seal owner command r) ''epoch'' = PStr (in_epoch r)" by (simp add: dispatch_seal_def)
  ultimately show ?thesis using assms(2) by (auto simp: dispatch_allowed_def Let_def split: if_splits)
qed

lemma finish_effect:
  assumes "finish command status answer now w = (w', Inr ())"
  shows "\<exists>r \<in> set (file_rows (snd w')). in_command r = command \<and> in_owner r = jn_owner (fst w) \<and> in_state r = status"
proof -
  from assms obtain summary where "with_journal (finish_rows (jn_owner (fst w)) command status summary now) w = (w', Inr ())"
    by (auto simp: finish_def split: if_splits sum.splits)
  from with_journal_effect [OF this] have f: "finish_rows (jn_owner (fst w)) command status summary now (file_rows (snd w))
      = Inr (file_rows (snd w'), ())" by simp
  let ?open = "\<lambda>r. in_command r = command \<and> in_owner r = jn_owner (fst w) \<and> in_state r \<in> {''QUEUED'', ''DISPATCHING''}"
  let ?settle = "\<lambda>r. if ?open r then r\<lparr>in_state := status, in_result := summary, in_updated := now\<rparr> else r"
  from f have one: "length (filter ?open (file_rows (snd w))) = 1" and rows: "file_rows (snd w') = map ?settle (file_rows (snd w))"
    by (auto simp: finish_rows_def Let_def)
  from one have "filter ?open (file_rows (snd w)) \<noteq> []" by auto
  then obtain r where "r \<in> set (file_rows (snd w))" "?open r" by (auto simp: filter_empty_conv)
  moreover from this have "?settle r \<in> set (file_rows (snd w'))" unfolding rows by auto
  ultimately show ?thesis by (intro bexI [of _ "?settle r"]) auto
qed

text \<open>
  C34: An answer that says ok comes from the broker and is about the journalled intent. When a dispatch
  answers ok, the intent was this process's own queued row of the control generation that held at the claim
  and at the check before sending, not blocked, with nothing unresolved and its payload intact; the answer is that of \<open>submit\<close> to
  this payload with the dispatch's own seal and nothing else changed; and the row ended as completed or
  unknown.
\<close>

theorem dispatch_ok_sent:
  assumes "dispatch_serialized c1 c2 submit callback meanwhile now command (jn, f) = (w', answer)"
    and "dict_get answer ''ok'' = PBool True"
  shows "\<exists>r intent. claimable (jn_owner jn) c1 command (file_rows f) r \<and> ct_epoch c2 = in_epoch r \<and> \<not> ct_blocked c2
    \<and> sealed_intent (jn_owner jn) command r = Inr intent \<and> submit intent = Inr answer
    \<and> (\<exists>r' \<in> set (file_rows (snd w')). in_command r' = command \<and> in_owner r' = jn_owner jn
         \<and> in_state r' \<in> {''COMPLETED'', ''UNKNOWN''})"
proof -
  have no: "dict_get (outcome_unknown e) ''ok'' \<noteq> PBool True" "dict_get (refused reason) ''ok'' \<noteq> PBool True" for e reason
    by (simp_all add: outcome_unknown_def refused_def)
  obtain jn1 f1 claimed where claim: "claim c1 command now (jn, f) = ((jn1, f1), claimed)" by (metis prod.exhaust)
  with assms no obtain r where "claimed = Inr (Some r)"
    by (auto simp: dispatch_serialized_def split: sum.splits option.splits)
  note claim = claim [unfolded this]
  note effect = claim_effect [OF claim]
  let ?w2 = "(jn1, meanwhile f1)"
  from assms claim no obtain answer' status where ended: "attempt c2 submit callback (jn_owner jn) command r = Inr answer'"
      "outcome_status answer' = Inr status"
    and fin: "(case finish command status answer' now ?w2 of
        (w3, Inl e) \<Rightarrow> (fst (finish command ''UNKNOWN'' [] now w3), outcome_unknown e) | (w3, Inr _) \<Rightarrow> (w3, answer')) = (w', answer)"
    by (auto simp: dispatch_serialized_def Let_def res_bind_eq_Inr res_bind_eq_Inl split: sum.splits)
  from fin no assms(2) have same: "answer' = answer" "finish command status answer now ?w2 = (w', Inr ())"
    by (auto split: prod.splits sum.splits)
  from ended(1) no assms(2) same(1) obtain intent reason where intent: "sealed_intent (jn_owner jn) command r = Inr intent"
    "dispatch_allowed c2 (Some (dispatch_seal (jn_owner jn) command r, in_payload r)) intent = Inr (True, reason)" "submit intent = Inr answer"
    by (auto simp: attempt_def res_bind_eq_Inr split: if_splits)
  have "status \<in> {''COMPLETED'', ''UNKNOWN''}"
    using ended(2) same(1) assms(2) by (auto simp: outcome_status_def Let_def split: if_splits)
  with finish_effect [OF same(2)] effect(1,2) intent allowed_generation [OF intent(1,2)] show ?thesis by auto
qed

text \<open>When sending or its callback raises, the row is left unknown, and so holds every later claim.\<close>

lemma dispatch_error_unknown:
  assumes "dispatch_serialized c1 c2 submit callback meanwhile now command (jn, f) = (w', answer)"
    and "claim c1 command now (jn, f) = ((jn1, f1), Inr (Some r))" "attempt c2 submit callback (jn_owner jn) command r = Inl e"
    and "finish command ''UNKNOWN'' [] now (jn1, meanwhile f1) = (w2, Inr ())"
  shows "answer = outcome_unknown e \<and> intent_unresolved owner (file_rows (snd w'))"
proof -
  from assms have "answer = outcome_unknown e" "w' = w2" by (auto simp: dispatch_serialized_def Let_def)
  moreover have "intent_unresolved owner (file_rows (snd w2))"
    using finish_effect [OF assms(4)] unfolding intent_unresolved_def list_ex_iff by blast
  ultimately show ?thesis by simp
qed

subsection \<open>One intent\<close>

definition sample_payload :: pydict where
  "sample_payload = [(''metadata'', PDict [(''runtime_evaluation_key'', PStr ''e'')]), (''mode'', PStr ''SMALL_LIVE'')]"

definition sample_command :: string where
  "sample_command = sha256_hex (canonical_json (PDict (intent_identity ''e'' sample_payload [(''runtime_evaluation_key'', PStr ''e'')])))"

definition sample_control :: control_state where
  "sample_control = \<lparr>ct_controls = {}, ct_epoch = ''g'', ct_blocked = False\<rparr>"

definition sample_intent :: intent_row where
  "sample_intent = \<lparr>in_command = sample_command, in_owner = ''o'', in_epoch = ''g'', in_payload = sample_payload,
     in_hash = sha256_hex (canonical_json (PDict sample_payload)), in_state = ''QUEUED'', in_created = ''t'', in_updated = ''t'',
     in_result = []\<rparr>"

definition sample_file :: "intent_row \<Rightarrow> journal_file option" where
  "sample_file r = Some \<lparr>jf_version = 1, jf_rows = Some [r]\<rparr>"

lemma sample_canon: "as_dict (canon (PDict sample_payload)) = sample_payload"
  by (simp add: sample_payload_def)

lemma sample_prepared: "prepare_intent sample_payload = Inr (sample_command, sha256_hex (canonical_json (PDict sample_payload)))"
proof -
  have "plain_text (PStr ''e'') = ''e''" by (simp add: plain_text_def py_or_def strip_def is_space_def)
  moreover have "length (canonical_json (PDict sample_payload)) \<le> max_payload"
    by (simp add: sample_payload_def canonical_json_def max_payload_def json_quote_def json_escape_def)
  ultimately show ?thesis
    by (simp add: prepare_intent_def canonical_strict_def sample_payload_def dispatch_key_def sample_command_def Let_def
        intent_identity_def py_or_def)
qed

lemma sample_enqueued:
  "enqueue sample_control sample_payload ''t'' ''t'' (\<lparr>jn_owner = ''o'', jn_initialized = False\<rparr>, None)
    = ((\<lparr>jn_owner = ''o'', jn_initialized = True\<rparr>, sample_file sample_intent), Inr (sample_intent, True))"
  by (simp add: enqueue_def sample_prepared with_journal_def enqueue_rows_def new_intent_def sample_control_def
      intent_unresolved_def sample_file_def sample_intent_def sample_canon Let_def del: canon.simps)

definition sample_claimed :: intent_row where
  "sample_claimed = sample_intent\<lparr>in_state := ''DISPATCHING'', in_updated := ''t''\<rparr>"

lemma sample_claim:
  "claim sample_control sample_command ''t'' (\<lparr>jn_owner = ''o'', jn_initialized = True\<rparr>, sample_file sample_intent)
    = ((\<lparr>jn_owner = ''o'', jn_initialized = True\<rparr>, sample_file sample_claimed), Inr (Some sample_intent))"
  by (simp add: claim_def with_journal_def claim_rows_def sample_control_def intent_unresolved_def sample_file_def sample_claimed_def
      sample_intent_def set_state_def)

definition sample_unknown :: intent_row where
  "sample_unknown = sample_claimed\<lparr>in_state := ''UNKNOWN'',
     in_result := [(''ok'', PBool False), (''orderId'', PStr []), (''orderState'', PStr [])]\<rparr>"

lemma sample_finish:
  "finish sample_command ''UNKNOWN'' [] ''t'' (\<lparr>jn_owner = ''o'', jn_initialized = True\<rparr>, sample_file sample_claimed)
    = ((\<lparr>jn_owner = ''o'', jn_initialized = True\<rparr>, sample_file sample_unknown), Inr ())"
  by (simp add: finish_def result_summary_def result_order_def py_or_def with_journal_def finish_rows_def Let_def sample_file_def
      sample_unknown_def sample_claimed_def sample_intent_def)

lemma sample_run: "journal_run None [(''o'', sample_command)] [] (sample_file sample_claimed)"
proof -
  have "journal_run None [] [] None" by (rule journal_run.start)
  from journal_run.step [OF this journal_step.enqueued [OF sample_enqueued]]
  have "journal_run None [] [] (sample_file sample_intent)" by simp
  from journal_run.step [OF this journal_step.claimed [OF sample_claim]] show ?thesis by simp
qed

theorem intent_attempted_once_witness:
  "distinct (map snd [(''o'', sample_command)])
    \<and> (\<exists>r \<in> set (file_rows (sample_file sample_claimed)). in_command r = sample_command \<and> in_owner r = ''o'' \<and> in_state r \<noteq> ''QUEUED'')"
  using intent_attempted_once [OF sample_run] by simp

theorem unknown_holds_dispatch_witness:
  "\<exists>claims. journal_run (sample_file sample_unknown) claims [] (sample_file sample_unknown) \<and> claims = []
    \<and> sample_unknown \<in> set (file_rows (sample_file sample_unknown))"
proof -
  have run: "journal_run None [(''o'', sample_command)] [] (sample_file sample_unknown)"
    using journal_run.step [OF sample_run journal_step.finished [OF sample_finish]] by simp
  have r: "sample_unknown \<in> set (file_rows (sample_file sample_unknown))" "in_state sample_unknown = ''UNKNOWN''"
    by (simp_all add: file_rows_def sample_file_def sample_unknown_def)
  have again: "journal_run (sample_file sample_unknown) [] [] (sample_file sample_unknown)" by (rule journal_run.start)
  from unknown_holds_dispatch [OF run r again] again show ?thesis by simp
qed

definition sample_sealed :: pydict where
  "sample_sealed = [(''metadata'', PDict [(''runtime_evaluation_key'', PStr ''e''),
       (dispatch_key, PDict (dispatch_seal ''o'' sample_command sample_intent))]), (''mode'', PStr ''SMALL_LIVE'')]"

lemma sample_seal: "sealed_intent ''o'' sample_command sample_intent = Inr sample_sealed"
  by (simp add: sealed_intent_def sample_intent_def sample_payload_def sample_sealed_def dispatch_key_def)

lemma sample_allowed:
  "dispatch_allowed sample_control (Some (dispatch_seal ''o'' sample_command sample_intent, in_payload sample_intent)) sample_sealed
    = Inr (True, [])"
proof -
  have "as_dict (dict_get sample_sealed ''metadata'') = [(''runtime_evaluation_key'', PStr ''e''),
       (dispatch_key, PDict (dispatch_seal ''o'' sample_command sample_intent))]" by (simp add: sample_sealed_def)
  moreover have "dict_get (dispatch_seal ''o'' sample_command sample_intent) ''epoch'' = PStr ''g''"
    by (simp add: dispatch_seal_def sample_intent_def)
  ultimately show ?thesis
    by (simp add: dispatch_allowed_def Let_def dispatch_key_def sample_control_def metadata_entries_def sample_intent_def
        sample_payload_def derived_keys_def recomputed_keys_def sample_sealed_def)
qed

lemma sample_sent:
  "\<exists>w. dispatch_serialized sample_control sample_control (\<lambda>_. Inr [(''ok'', PBool True)]) (\<lambda>_ _. Inr ()) (\<lambda>f. f) ''t'' sample_command
      (\<lparr>jn_owner = ''o'', jn_initialized = True\<rparr>, sample_file sample_intent) = (w, [(''ok'', PBool True)])"
proof -
  have "attempt sample_control (\<lambda>_. Inr [(''ok'', PBool True)]) (\<lambda>_ _. Inr ()) ''o'' sample_command sample_intent = Inr [(''ok'', PBool True)]"
    by (simp add: attempt_def sample_seal sample_allowed)
  moreover have "outcome_status [(''ok'', PBool True)] = Inr ''COMPLETED''"
    by (simp add: outcome_status_def result_order_def py_or_def Let_def)
  moreover obtain w3 where "finish sample_command ''COMPLETED'' [(''ok'', PBool True)] ''t''
      (\<lparr>jn_owner = ''o'', jn_initialized = True\<rparr>, sample_file sample_claimed) = (w3, Inr ())"
    by (simp add: finish_def result_summary_def result_order_def py_or_def with_journal_def finish_rows_def Let_def sample_file_def
        sample_claimed_def sample_intent_def)
  ultimately show ?thesis by (simp add: dispatch_serialized_def sample_claim)
qed

theorem dispatch_ok_sent_witness:
  "\<exists>r intent. claimable ''o'' sample_control sample_command (file_rows (sample_file sample_intent)) r
    \<and> sealed_intent ''o'' sample_command r = Inr intent"
proof -
  obtain w where "dispatch_serialized sample_control sample_control (\<lambda>_. Inr [(''ok'', PBool True)]) (\<lambda>_ _. Inr ()) (\<lambda>f. f) ''t'' sample_command
      (\<lparr>jn_owner = ''o'', jn_initialized = True\<rparr>, sample_file sample_intent) = (w, [(''ok'', PBool True)])"
    using sample_sent by blast
  from dispatch_ok_sent [OF this] show ?thesis by auto
qed

end
