(* ===== verification/Kis_Bridge.thy ===== *)
theory Kis_Bridge
  imports Py_Dec_Text Py_Float Krw_Reservation Py_Access
begin

section \<open>Owned capital: amounts\<close>

text \<open>
  \<open>decimal_value\<close> of \<open>native_spot_quantity.py\<close>, \<open>text\<close> of \<open>kis_equity_execution.py\<close>, \<open>Decimal(v)\<close> on a
  decoded value, and the arithmetic of \<open>kis_owned_capital.py\<close> under \<open>localcontext\<close> with a precision of
  2048 digits (\<open>wide_add\<close>, \<open>wide_mul\<close>, \<open>wide_hundredth\<close>), which is exact as long as the coefficient fits.
\<close>

text \<open>The texts \<open>Decimal\<close> reads as infinities and NaNs.\<close>

definition special_number :: "string \<Rightarrow> bool" where
  "special_number text =
     (let t = lower (filter (\<lambda>c. c \<noteq> CHR ''_'') (strip text));
          body = (case t of [] \<Rightarrow> [] | c # cs \<Rightarrow> if c \<in> {CHR ''+'', CHR ''-''} then cs else t)
      in body \<in> {''inf'', ''infinity''}
         \<or> (starts_with body ''nan'' \<and> list_all is_digit (drop 3 body))
         \<or> (starts_with body ''snan'' \<and> list_all is_digit (drop 4 body)))"

definition decimal_value :: "string \<Rightarrow> bool \<Rightarrow> pyval \<Rightarrow> pydec res" where
  "decimal_value label positive v =
     (if v = PNone \<or> v \<in> {PBool True, PBool False} then Inl (ValueError (label @ '': finite decimal required''))
      else case dec_read (py_str v) of
          None \<Rightarrow>
            Inl (ValueError (label @ (if special_number (py_str v) then '': finite nonnegative decimal required''
                                      else '': finite decimal required'')))
        | Some a \<Rightarrow>
            if 256 < ndigits (int (pd_coeff a)) \<or> 256 < \<bar>pd_exp a\<bar>
            then Inl (ValueError (label @ '': decimal exceeds explicit 256-digit/exponent bound''))
            else if dec_value a < 0 \<or> (positive \<and> dec_value a \<le> 0)
            then Inl (ValueError (label @ '': finite nonnegative decimal required''))
            else Inr a)"

definition plain_text :: "pydec \<Rightarrow> string" where
  "plain_text a =
     (let out = pd_fixed a
      in if CHR ''.'' \<in> set out
         then rev (dropWhile (\<lambda>c. c = CHR ''.'') (dropWhile (\<lambda>c. c = CHR ''0'') (rev out))) else out)"

text \<open>\<open>Decimal(v)\<close>; nothing where the result is not finite. A float is converted exactly.\<close>

definition float_decimal :: "rat \<Rightarrow> pydec" where
  "float_decimal q =
     (case quotient_of (bin_round q) of (n, d) \<Rightarrow>
        let k = nbits d - 1 in PyDec (n < 0) (nat \<bar>n\<bar> * 5 ^ k) (- int k))"

definition decimal_of :: "pyval \<Rightarrow> pydec option res" where
  "decimal_of v =
     (case v of
        PStr s \<Rightarrow>
          (case dec_read s of Some a \<Rightarrow> Inr (Some a)
           | None \<Rightarrow> if special_number s then Inr None else Inl (InvalidOperation ''ConversionSyntax''))
      | PInt i \<Rightarrow> Inr (Some (PyDec (i < 0) (nat \<bar>i\<bar>) 0))
      | PBool b \<Rightarrow> Inr (Some (PyDec False (if b then 1 else 0) 0))
      | PFloat r \<Rightarrow> Inr (map_option float_decimal (dec_parse r))
      | PList _ \<Rightarrow> Inl (ValueError ''coefficient must be a tuple of digits'')
      | _ \<Rightarrow> Inl (TypeError ''conversion to Decimal is not supported''))"

subsection \<open>Wide arithmetic\<close>

definition wide_fix :: "pydec \<Rightarrow> pydec" where
  "wide_fix a =
     (let n = ndigits (int (pd_coeff a))
      in if n \<le> 2048 then a
         else let c = nat (round_half_even (rat_of_nat (pd_coeff a) / 10 ^ (n - 2048)))
              in if c = 10 ^ 2048 then PyDec (pd_neg a) (10 ^ 2047) (pd_exp a + int (n - 2048) + 1)
                 else PyDec (pd_neg a) c (pd_exp a + int (n - 2048)))"

definition wide_add :: "pydec \<Rightarrow> pydec \<Rightarrow> pydec" where
  "wide_add a b =
     (let e = min (pd_exp a) (pd_exp b); s = coeff_at e a + coeff_at e b
      in wide_fix (PyDec (if s = 0 then pd_neg a \<and> pd_neg b else s < 0) (nat \<bar>s\<bar>) e))"

definition wide_sub :: "pydec \<Rightarrow> pydec \<Rightarrow> pydec" where
  "wide_sub a b = wide_add a (pd_flip b)"

definition wide_minus :: "pydec \<Rightarrow> pydec" where
  "wide_minus a = wide_fix (if pd_coeff a = 0 then PyDec False 0 (pd_exp a) else pd_flip a)"

definition wide_mul :: "pydec \<Rightarrow> pydec \<Rightarrow> pydec" where
  "wide_mul a b = wide_fix (PyDec (pd_neg a \<noteq> pd_neg b) (pd_coeff a * pd_coeff b) (pd_exp a + pd_exp b))"

text \<open>\<open>a / 100\<close>: an exact quotient keeps the exponent of \<open>a\<close> where it can.\<close>

definition wide_hundredth :: "pydec \<Rightarrow> pydec" where
  "wide_hundredth a =
     (let c = pd_coeff a
      in wide_fix (if c mod 100 = 0 then PyDec (pd_neg a) (c div 100) (pd_exp a)
           else if c mod 10 = 0 then PyDec (pd_neg a) (c div 10) (pd_exp a - 1)
           else PyDec (pd_neg a) c (pd_exp a - 2)))"

section \<open>The bridge between the KRW budget and owned capital\<close>

text \<open>
  \<open>kis_shared_krw_bridge.py\<close>: a reviewed allocation becomes a policy and a request bound to one sealed
  scope, an allocation covers the principal of a book only when its whole-won request is at least the
  principal rounded up, and before money moves every book an account already has must be covered by its own
  reservation. \<open>stable_sha256\<close> of the external package is the argument \<open>sha\<close>; \<open>canonical_hash\<close> is that of
  the reservation module. A pool is the result of \<open>_inspect\<close>, nothing where it is unknown.
\<close>

definition kis_require :: "bool \<Rightarrow> string \<Rightarrow> unit res" where
  "kis_require b c = require b (ValueError c)"

lemma kis_require_Inr [simp]: "kis_require b c = Inr u \<longleftrightarrow> b"
  by (simp add: kis_require_def)

lemma kis_require_True [simp]: "kis_require True c = Inr ()"
  by (simp add: kis_require_def)

definition input_schema :: string where
  "input_schema = ''kis-shared-krw-reviewed-allocation-input-v1''"

subsection \<open>Reviewed allocations\<close>

definition whole_won :: "pyval \<Rightarrow> bool" where
  "whole_won v =
     (case v of PStr s \<Rightarrow> s \<noteq> [] \<and> length s \<le> 24 \<and> list_all is_digit s \<and> hd s \<noteq> CHR ''0'' | _ \<Rightarrow> False)"

definition account_changed :: "pydict \<Rightarrow> pydict \<Rightarrow> bool" where
  "account_changed policy account \<longleftrightarrow>
     list_ex (\<lambda>(k, source). \<not> py_eq (dict_get policy k) (dict_get account source))
       [(''accountFingerprint'', ''accountFingerprint''), (''accountProfileId'', ''profileId''),
        (''credentialConfigurationHash'', ''credentialConfigurationHash'')]"

definition validate_reviewed_allocation_input :: "pyval \<Rightarrow> pydict option \<Rightarrow> pydict res" where
  "validate_reviewed_allocation_input value account =
     (let d = as_dict value; refusal = ''KIS_SHARED_KRW_REVIEWED_ALLOCATION_REQUIRED'' in
      res_bind (kis_require (is_dict value \<and> has_keys d [''schemaVersion'', ''policy'', ''allocationKrw'', ''inputHash'']
        \<and> dict_get d ''schemaVersion'' = PStr input_schema) refusal) (\<lambda>_.
      res_bind (canonical_hash (PDict (without ''inputHash'' d))) (\<lambda>digest.
      res_bind (kis_require (dict_get d ''inputHash'' = PStr digest) refusal) (\<lambda>_.
      res_bind (validate_policy (dict_get d ''policy'')) (\<lambda>policy.
      res_bind (kis_require (whole_won (dict_get d ''allocationKrw'')) ''KIS_SHARED_KRW_REVIEWED_WHOLE_WON_REQUIRED'') (\<lambda>_.
      res_bind (krw_money (dict_get d ''allocationKrw'')) (\<lambda>amount.
      res_bind (krw_money (dict_get policy ''capKrw'')) (\<lambda>cap.
      res_bind (kis_require (amount \<le> cap) ''KIS_SHARED_KRW_REVIEWED_ALLOCATION_EXCEEDS_CAP'') (\<lambda>_.
      res_bind (kis_require (case account of None \<Rightarrow> True | Some a \<Rightarrow> \<not> account_changed policy a)
        ''KIS_SHARED_KRW_REVIEWED_ACCOUNT_CHANGED'') (\<lambda>_.
      Inr [(''schemaVersion'', PStr input_schema), (''policy'', PDict policy),
           (''allocationKrw'', dict_get d ''allocationKrw''), (''inputHash'', dict_get d ''inputHash'')]))))))))))"

subsection \<open>Allocations bound to a scope\<close>

definition scope_sealed :: "(pyval \<Rightarrow> string) \<Rightarrow> pyval \<Rightarrow> bool" where
  "scope_sealed sha scope \<longleftrightarrow>
     is_dict scope \<and> dict_get (as_dict scope) ''scopeHash'' = PStr (sha (PDict (without ''scopeHash'' (as_dict scope))))"

definition scope_changed :: "pydict \<Rightarrow> pydict \<Rightarrow> bool" where
  "scope_changed request scope \<longleftrightarrow>
     list_ex (\<lambda>(k, source). \<not> py_eq (dict_get request k) (dict_get scope source))
       [(''deploymentId'', ''deploymentId''), (''scopeHash'', ''scopeHash''),
        (''accountFingerprint'', ''accountFingerprint''), (''accountProfileId'', ''accountProfileId''),
        (''credentialConfigurationHash'', ''credentialConfigurationHash''), (''nativeCurrency'', ''quoteCurrency'')]"

text \<open>The principal, where one is given: a finite decimal or one that is not finite.\<close>

definition covers_principal :: "pydict \<Rightarrow> pydict \<Rightarrow> pydec option \<Rightarrow> unit res" where
  "covers_principal scope request wanted =
     res_bind (kis_require (dict_get scope ''quoteCurrency'' = PStr ''KRW'')
       ''KIS_SHARED_KRW_NATIVE_FUNDING_PRODUCER_UNAVAILABLE'') (\<lambda>_.
     case wanted of
       None \<Rightarrow> Inl (ValueError ''KIS_SHARED_KRW_NATIVE_PRINCIPAL_INVALID'')
     | Some a \<Rightarrow>
         res_bind (kis_require (0 < dec_value a) ''KIS_SHARED_KRW_NATIVE_PRINCIPAL_INVALID'') (\<lambda>_.
         res_bind (krw_money (dict_get request ''requestedKrw'')) (\<lambda>amount.
         kis_require (\<lceil>dec_value a\<rceil> \<le> amount) ''KIS_SHARED_KRW_RESERVATION_BELOW_NATIVE_PRINCIPAL'')))"

definition validate_shared_allocation ::
  "(pyval \<Rightarrow> string) \<Rightarrow> pyval \<Rightarrow> pyval \<Rightarrow> pydec option option \<Rightarrow> (pydict \<times> pydict) res" where
  "validate_shared_allocation sha scope bundle wanted =
     (let d = as_dict bundle in
      res_bind (kis_require (scope_sealed sha scope) ''KIS_SHARED_KRW_EXACT_OWNED_SCOPE_REQUIRED'') (\<lambda>_.
      res_bind (kis_require (is_dict bundle \<and> has_keys d [''policy'', ''request''])
        ''KIS_SHARED_KRW_REVIEWED_ALLOCATION_REQUIRED'') (\<lambda>_.
      res_bind (validate_policy (dict_get d ''policy'')) (\<lambda>policy.
      res_bind (validate_request (dict_get d ''request'')) (\<lambda>request.
      res_bind (kis_require (\<not> scope_changed request (as_dict scope)) ''KIS_SHARED_KRW_ALLOCATION_SCOPE_CHANGED'') (\<lambda>_.
      res_bind (kis_require (same_binding request policy) ''KIS_SHARED_KRW_ALLOCATION_POLICY_CHANGED'') (\<lambda>_.
      res_bind (case wanted of None \<Rightarrow> Inr () | Some p \<Rightarrow> covers_principal (as_dict scope) request p) (\<lambda>_.
      Inr (policy, request)))))))))"

definition bundle_of :: "pyval \<Rightarrow> pyval \<Rightarrow> pyval" where
  "bundle_of policy request = PDict [(''policy'', policy), (''request'', request)]"

text \<open>The fields a plan copies from the scope, in the order they are read.\<close>

definition plan_policy :: "pydict \<Rightarrow> pyval \<Rightarrow> pyval \<Rightarrow> pydict res" where
  "plan_policy scope cap review =
     res_bind (entry (PDict scope) ''accountFingerprint'') (\<lambda>account.
     res_bind (entry (PDict scope) ''accountProfileId'') (\<lambda>profile.
     res_bind (entry (PDict scope) ''credentialConfigurationHash'') (\<lambda>credentials.
     let base = [(''schemaVersion'', PStr krw_policy_schema), (''accountFingerprint'', account),
           (''accountProfileId'', profile), (''credentialConfigurationHash'', credentials),
           (''capKrw'', cap), (''reviewBindingHash'', review)] in
     res_bind (canonical_hash (PDict base)) (\<lambda>digest. Inr (base @ [(''policyHash'', PStr digest)])))))"

definition plan_request :: "pydict \<Rightarrow> pyval \<Rightarrow> pyval \<Rightarrow> pydict \<Rightarrow> pydict res" where
  "plan_request scope allocation basis policy =
     res_bind (entry (PDict scope) ''deploymentId'') (\<lambda>deployment.
     res_bind (canonical_hash (PDict [(''deploymentId'', deployment),
       (''accountFingerprint'', dict_get policy ''accountFingerprint'')])) (\<lambda>allocation_id.
     res_bind (entry (PDict scope) ''scopeHash'') (\<lambda>scope_hash.
     res_bind (entry (PDict scope) ''quoteCurrency'') (\<lambda>currency.
     let base = [(''schemaVersion'', PStr krw_request_schema), (''reservationId'', PStr (''allocation:'' @ allocation_id)),
           (''deploymentId'', deployment), (''scopeHash'', scope_hash),
           (''accountFingerprint'', dict_get policy ''accountFingerprint''),
           (''accountProfileId'', dict_get policy ''accountProfileId''),
           (''credentialConfigurationHash'', dict_get policy ''credentialConfigurationHash''),
           (''requestedKrw'', allocation), (''basisHash'', basis), (''nativeCurrency'', currency),
           (''policyHash'', dict_get policy ''policyHash'')] in
     res_bind (canonical_hash (PDict base)) (\<lambda>digest. Inr (base @ [(''requestHash'', PStr digest)]))))))"

definition prepare_local_shared_plan ::
  "(pyval \<Rightarrow> string) \<Rightarrow> pydict \<Rightarrow> pyval \<Rightarrow> pyval \<Rightarrow> pyval \<Rightarrow> pyval \<Rightarrow> (pydict \<times> pydict) res" where
  "prepare_local_shared_plan sha scope cap allocation review basis =
     res_bind (plan_policy scope cap review) (\<lambda>policy.
     res_bind (plan_request scope allocation basis policy) (\<lambda>request.
     validate_shared_allocation sha (PDict scope) (bundle_of (PDict policy) (PDict request)) None))"

definition shared_plan_from_reviewed_input ::
  "(pyval \<Rightarrow> string) \<Rightarrow> pydict \<Rightarrow> pyval \<Rightarrow> (pydict \<times> pydict) res" where
  "shared_plan_from_reviewed_input sha scope value =
     res_bind (validate_reviewed_allocation_input value None) (\<lambda>review.
     let policy = as_dict (dict_get review ''policy'') in
     res_bind (entry (PDict scope) ''scopeHash'') (\<lambda>scope_hash.
     res_bind (canonical_hash (PDict [(''scopeHash'', scope_hash),
       (''liveReviewBindingHash'', dict_get scope ''reviewBindingHash''),
       (''reviewedAllocationInputHash'', dict_get review ''inputHash'')])) (\<lambda>basis.
     res_bind (prepare_local_shared_plan sha scope (dict_get policy ''capKrw'') (dict_get review ''allocationKrw'')
       (dict_get policy ''reviewBindingHash'') (PStr basis)) (\<lambda>plan.
     res_bind (kis_require (py_eq (PDict (fst plan)) (PDict policy)) ''KIS_SHARED_KRW_REVIEWED_POLICY_CHANGED'') (\<lambda>_.
     Inr plan)))))"

subsection \<open>Books and their coverage\<close>

text \<open>
  A stored JSON text: its length in characters, what \<open>json.loads\<close> makes of it, and whether a key is
  repeated or a constant such as NaN occurs, which the bridge's own reader refuses.
\<close>

record book_text =
  bt_chars :: nat
  bt_value :: "pyval res"
  bt_repeats :: bool

record book_row =
  bo_deployment :: string
  bo_key :: string
  bo_text :: book_text
  bo_hash :: string

definition strict_body :: "book_text \<Rightarrow> pyval res" where
  "strict_body t =
     (if bt_repeats t then Inl (ValueError ''KIS_SHARED_KRW_EXISTING_PRINCIPAL_INVALID_JSON'') else bt_value t)"

text \<open>SQLite's \<open>LIKE\<close>: \<open>%\<close> and \<open>_\<close> are wildcards, ASCII letters match in either case.\<close>

fun sql_like :: "string \<Rightarrow> string \<Rightarrow> bool" where
  "sql_like [] s = (s = [])"
| "sql_like (p # ps) [] = (p = CHR ''%'' \<and> sql_like ps [])"
| "sql_like (p # ps) (c # s) =
     (if p = CHR ''%'' then sql_like ps (c # s) \<or> sql_like (p # ps) s
      else (p = CHR ''_'' \<or> to_lower p = to_lower c) \<and> sql_like ps s)"

definition request_of :: "krw_pool \<Rightarrow> string \<Rightarrow> pyval option" where
  "request_of b deployment =
     map_of (rev (map (\<lambda>r. (request_field r ''deploymentId'', dict_get r ''request'')) (kb_receipts b)))
       (PStr deployment)"

definition book_bound :: "string \<Rightarrow> book_row \<Rightarrow> pydict \<Rightarrow> bool" where
  "book_bound account row scope \<longleftrightarrow>
     dict_get scope ''deploymentId'' = PStr (bo_deployment row)
     \<and> dict_get scope ''accountFingerprint'' = PStr account
     \<and> bo_key row = account @ '':'' @ py_str (dict_get scope ''quoteCurrency'')"

definition book_covered :: "(pyval \<Rightarrow> string) \<Rightarrow> string \<Rightarrow> krw_pool option \<Rightarrow> book_row \<Rightarrow> unit res" where
  "book_covered sha account pool row =
     res_bind (kis_require (bt_chars (bo_text row) \<le> 65536) ''KIS_SHARED_KRW_EXISTING_PRINCIPAL_BOUND_EXCEEDED'') (\<lambda>_.
     res_bind (strict_body (bo_text row)) (\<lambda>body.
     let d = as_dict body; scope = dict_get d ''scope'' in
     res_bind (kis_require (is_dict body \<and> has_keys d [''scope'', ''principal'', ''occurredAt''] \<and> sha body = bo_hash row)
       ''KIS_SHARED_KRW_EXISTING_PRINCIPAL_SEAL_INVALID'') (\<lambda>_.
     res_bind (kis_require (is_dict scope \<and> book_bound account row (as_dict scope))
       ''KIS_SHARED_KRW_EXISTING_PRINCIPAL_ACCOUNT_CHANGED'') (\<lambda>_.
     case pool of
       None \<Rightarrow> Inl (ValueError ''KIS_SHARED_KRW_EXISTING_BOOK_REVIEWED_MIGRATION_REQUIRED'')
     | Some b \<Rightarrow>
         (case request_of b (bo_deployment row) of
            None \<Rightarrow> Inl (ValueError ''KIS_SHARED_KRW_EXISTING_BOOK_REVIEWED_MIGRATION_REQUIRED'')
          | Some request \<Rightarrow>
              res_bind (decimal_of (dict_get d ''principal'')) (\<lambda>wanted.
              res_bind (validate_shared_allocation sha scope (bundle_of (PDict (kb_policy b)) request) (Some wanted)) (\<lambda>_.
              Inr ())))))))"

definition account_books :: "string \<Rightarrow> book_row list \<Rightarrow> book_row list" where
  "account_books account books = filter (\<lambda>r. sql_like (account @ '':%'') (bo_key r)) books"

definition assert_owned_books_covered ::
  "(pyval \<Rightarrow> string) \<Rightarrow> string \<Rightarrow> krw_pool option \<Rightarrow> book_row list \<Rightarrow> unit res" where
  "assert_owned_books_covered sha account pool books =
     res_bind (res_fold (\<lambda>n row.
         res_bind (kis_require (Suc n \<le> 10000) ''KIS_SHARED_KRW_EXISTING_PRINCIPAL_BOUND_EXCEEDED'') (\<lambda>_.
         res_bind (book_covered sha account pool row) (\<lambda>_. Inr (Suc n)))) 0
       (take 10001 (account_books account books))) (\<lambda>_. Inr ())"

definition reservation_for_scope :: "(pyval \<Rightarrow> string) \<Rightarrow> pydict \<Rightarrow> krw_pool option \<Rightarrow> pydict res" where
  "reservation_for_scope sha scope pool =
     (case pool of
        None \<Rightarrow> Inl (ValueError ''KIS_SHARED_KRW_LOCAL_POOL_NOT_INITIALIZED'')
      | Some b \<Rightarrow>
          res_bind (if kb_receipts b = [] then Inr PNone else entry (PDict scope) ''deploymentId'') (\<lambda>deployment.
          case filter (\<lambda>r. py_eq (request_field r ''deploymentId'') deployment) (kb_receipts b) of
            [receipt] \<Rightarrow>
              res_bind (validate_shared_allocation sha (PDict scope)
                (bundle_of (PDict (kb_policy b)) (dict_get receipt ''request'')) None) (\<lambda>_. Inr receipt)
          | _ \<Rightarrow> Inl (ValueError ''KIS_SHARED_KRW_EXACT_LOCAL_RESERVATION_REQUIRED'')))"

end
