(* ===== verification/Kis_Books.thy ===== *)
theory Kis_Books
  imports Kis_Bridge Short_Authority
begin

section \<open>Owned capital books\<close>

text \<open>
  \<open>KisOwnedCapitalStore\<close> of \<open>kis_owned_capital.py\<close>: one SQLite file with the append-only tables of
  principals and terminal receipts and the two tables of the KRW budget. An operation runs in one
  transaction: an error leaves the file as it was. The caller's \<open>commit_guard\<close> is \<open>guard\<close>, its answer at
  the first, second and third call; the clock is \<open>now\<close>, in UTC; \<open>stable_sha256\<close> is \<open>sha\<close>. The text of a row is
  \<open>json.dumps(v, sort_keys=True)\<close>. Ids and keys that go into SQL are texts, as the scopes of the runtime
  have them; another value is refused as SQLite refuses what it cannot bind.
\<close>

fun spaced_text :: "pyval \<Rightarrow> string"
  and spaced_items :: "pyval list \<Rightarrow> string"
  and spaced_entries :: "pydict \<Rightarrow> string" where
  "spaced_text (PStr s) = ascii_quote s"
| "spaced_text (PList xs) = ''['' @ spaced_items xs @ '']''"
| "spaced_text (PDict kvs) = ''{'' @ spaced_entries kvs @ ''}''"
| "spaced_text v = json_text v"
| "spaced_items [] = []"
| "spaced_items (x # xs) = spaced_text x @ (if xs = [] then [] else '', '' @ spaced_items xs)"
| "spaced_entries [] = []"
| "spaced_entries ((k, v) # kvs) =
     ascii_quote k @ '': '' @ spaced_text v @ (if kvs = [] then [] else '', '' @ spaced_entries kvs)"

definition book_json :: "pyval \<Rightarrow> book_text" where
  "book_json v = \<lparr>bt_chars = length (spaced_text (canon v)), bt_value = Inr (canon v), bt_repeats = \<not> strict_json v\<rparr>"

record fill_row =
  fr_key :: string
  fr_deployment :: string
  fr_text :: book_text
  fr_hash :: string

record books =
  bk_krw :: krw_db
  bk_principals :: "book_row list"
  bk_fills :: "fill_row list"

definition in_begun :: "books \<Rightarrow> books" where
  "in_begun db = db\<lparr>bk_krw := (bk_krw db)\<lparr>kd_transaction := True\<rparr>\<rparr>"

definition committed :: "books \<Rightarrow> books" where
  "committed db = db\<lparr>bk_krw := (bk_krw db)\<lparr>kd_transaction := False\<rparr>\<rparr>"

subsection \<open>Projection\<close>

definition find_book :: "string \<Rightarrow> books \<Rightarrow> book_row option" where
  "find_book deployment db = find (\<lambda>r. bo_deployment r = deployment) (bk_principals db)"

record kis_holdings =
  kh_gross :: pydec
  kh_holdback :: pydec
  kh_cash :: pydec
  kh_positions :: "(pyval \<times> pydec) list"

definition read_member :: "pyval \<Rightarrow> pyval res" where
  "read_member m = res_bind (entry m ''strategyInstanceId'') as_key"

definition project_fill :: "(pyval \<Rightarrow> string) \<Rightarrow> kis_holdings \<Rightarrow> fill_row \<Rightarrow> kis_holdings res" where
  "project_fill sha h row =
     res_bind (bt_value (fr_text row)) (\<lambda>receipt.
     res_bind (kis_require (sha receipt = fr_hash row) ''KIS_OWNED_RECEIPT_SEAL_INVALID'') (\<lambda>_.
     res_bind (res_bind (entry receipt ''quantity'') (decimal_value ''fill quantity'' False)) (\<lambda>quantity.
     res_bind (res_bind (entry receipt ''filledNotional'') (decimal_value ''fill notional'' False)) (\<lambda>notional.
     res_bind (res_bind (entry receipt ''costReserve'') (decimal_value ''cost holdback'' False)) (\<lambda>reserve.
     res_bind (entry receipt ''strategyInstanceId'') (\<lambda>strategy.
     res_bind (entry receipt ''side'') (\<lambda>side.
     let gross = wide_add (kh_gross h) (if side = PStr ''SELL'' then notional else wide_minus notional);
         holdback = wide_add (kh_holdback h) reserve;
         cash = wide_sub gross holdback in
     res_bind (as_key strategy) (\<lambda>sid.
     case map_of (kh_positions h) sid of
       None \<Rightarrow> Inl (KeyError ''strategyInstanceId'')
     | Some held \<Rightarrow>
         let held' = wide_add held (if side = PStr ''BUY'' then quantity else wide_minus quantity) in
         if dec_value cash < 0 \<or> dec_value held' < 0
         then Inl (ValueError ''KIS_OWNED_OVERSPEND_OR_OVERSELL_RECONCILIATION_REQUIRED'')
         else Inr \<lparr>kh_gross = gross, kh_holdback = holdback, kh_cash = cash,
                   kh_positions = assoc_put sid held' (kh_positions h)\<rparr>))))))))"

text \<open>The equity: none as soon as a held position has no mark.\<close>

definition add_mark :: "pydict \<Rightarrow> pydec option \<Rightarrow> pyval \<times> pydec \<Rightarrow> pydec option res" where
  "add_mark marks equity position =
     (case equity of
        None \<Rightarrow> Inr None
      | Some e \<Rightarrow>
          if pd_coeff (snd position) = 0 then Inr (Some e)
          else case fst position of
              PStr s \<Rightarrow>
                if s \<in> set (map fst marks)
                then res_bind (decimal_value ''current owned mark'' True (dict_get marks s)) (\<lambda>mark.
                     Inr (Some (wide_add e (wide_mul (snd position) mark))))
                else Inr None
            | _ \<Rightarrow> Inr None)"

record kis_projection =
  kp_equity :: "pydec option"
  kp_owned :: kis_holdings
  kp_scope_hash :: pyval
  kp_fills :: nat

definition project_rows :: "(pyval \<Rightarrow> string) \<Rightarrow> pydict \<Rightarrow> pyval \<Rightarrow> fill_row list \<Rightarrow> kis_holdings res" where
  "project_rows sha scope wanted rows =
     res_bind (decimal_value ''principal'' False wanted) (\<lambda>cash.
     res_bind (entry (PDict scope) ''members'') (\<lambda>members.
     res_bind (case members of PList ms \<Rightarrow> res_map read_member ms | _ \<Rightarrow> Inl (TypeError ''object is not iterable'')) (\<lambda>ids.
     res_fold (project_fill sha)
       \<lparr>kh_gross = cash, kh_holdback = pd_zero, kh_cash = cash,
        kh_positions = fold (\<lambda>k. assoc_put k pd_zero) ids []\<rparr> rows)))"

definition kis_project :: "(pyval \<Rightarrow> string) \<Rightarrow> pydict \<Rightarrow> pydict \<Rightarrow> books option \<Rightarrow> kis_projection res" where
  "kis_project sha scope marks file =
     (case file of
        None \<Rightarrow> Inl (ValueError ''KIS_OWNED_PRINCIPAL_NOT_INITIALIZED'')
      | Some db \<Rightarrow>
          res_bind (res_bind (entry (PDict scope) ''deploymentId'') need_text) (\<lambda>deployment.
          let rows = filter (\<lambda>r. fr_deployment r = deployment) (bk_fills db) in
          case find_book deployment db of
            None \<Rightarrow> Inl (ValueError ''KIS_OWNED_PRINCIPAL_NOT_INITIALIZED'')
          | Some row \<Rightarrow>
              res_bind (bt_value (bo_text row)) (\<lambda>body.
              res_bind (entry body ''scope'') (\<lambda>stored.
              res_bind (kis_require (py_eq stored (PDict scope) \<and> sha body = bo_hash row)
                ''KIS_OWNED_PRINCIPAL_CHANGED'') (\<lambda>_.
              res_bind (entry body ''principal'') (\<lambda>wanted.
              res_bind (project_rows sha scope wanted rows) (\<lambda>h.
              res_bind (res_fold (add_mark marks) (Some (kh_cash h)) (kh_positions h)) (\<lambda>equity.
              res_bind (entry (PDict scope) ''scopeHash'') (\<lambda>scope_hash.
              Inr \<lparr>kp_equity = equity, kp_owned = h, kp_scope_hash = scope_hash, kp_fills = length rows\<rparr>)))))))))"

text \<open>The dictionary that \<open>project\<close> returns.\<close>

definition projection_dict :: "kis_projection \<Rightarrow> pydict" where
  "projection_dict p =
     (let h = kp_owned p in
      [(''equityScope'', PStr ''OWNED_DEPLOYMENT_ONLY''), (''capitalAccounting'', PStr ''OWNED_CONSERVATIVE_COST_RESERVE''),
       (''deploymentEquity'', case kp_equity p of None \<Rightarrow> PNone | Some e \<Rightarrow> PStr (plain_text e)),
       (''ownedCash'', PStr (plain_text (kh_cash h))), (''grossCash'', PStr (plain_text (kh_gross h))),
       (''costReserveOutstanding'', PStr (plain_text (kh_holdback h))),
       (''ownedPositions'', PDict (map (\<lambda>(k, a). (py_str k, PStr (plain_text a))) (kh_positions h))),
       (''capitalScopeHash'', kp_scope_hash p), (''fillCount'', PInt (int (kp_fills p))),
       (''actualFeesReconciled'', PBool False),
       (''netPerformanceStatus'', PStr ''ESTIMATED_UNTIL_ACTUAL_COST_RECONCILIATION''),
       (''orderAuthorityGranted'', PBool False)])"

subsection \<open>Initializing a book\<close>

definition kis_timestamp :: "pyval \<Rightarrow> instant res" where
  "kis_timestamp v =
     (case iso_parse (py_str v) of
        IsoBad \<Rightarrow> Inl (ValueError ''Invalid isoformat string'')
      | IsoNaive \<Rightarrow> Inl (ValueError ''KIS_V2_TIMEZONE_REQUIRED'')
      | IsoAware t \<Rightarrow> Inr t)"

definition differs_from :: "pydict \<Rightarrow> string \<Rightarrow> pyval \<Rightarrow> unit \<Rightarrow> bool res" where
  "differs_from scope k v _ = res_bind (entry (PDict scope) k) (\<lambda>w. Inr (\<not> py_eq w v))"

definition stale_observation :: "instant \<Rightarrow> pyval \<Rightarrow> unit \<Rightarrow> bool res" where
  "stale_observation now v _ =
     res_bind (kis_timestamp v) (\<lambda>t. Inr (\<not> (0 \<le> now - t \<and> now - t \<le> 15 * 1000000)))"

definition fresh_scope :: "instant \<Rightarrow> pydict \<Rightarrow> pydict \<Rightarrow> unit res" where
  "fresh_scope now scope observation =
     (let ob = dict_get observation in
      res_bind (any_of
        [differs_from scope ''quoteCurrency'' (ob ''currency''),
         differs_from scope ''accountProfileId'' (ob ''profileId''),
         differs_from scope ''accountFingerprint'' (ob ''accountFingerprint''),
         differs_from scope ''credentialConfigurationHash'' (ob ''credentialConfigurationHash''),
         \<lambda>_. Inr (ob ''openOrders'' \<noteq> PStr ''NONE_OBSERVED_COMPLETE_ACCOUNT_CURRENCY_SCOPE''),
         stale_observation now (ob ''asOf'')]) (\<lambda>bad.
      kis_require (\<not> bad) ''KIS_OWNED_FRESH_EXACT_ACCOUNT_SCOPE_REQUIRED''))"

definition book_time :: "instant \<Rightarrow> string" where
  "book_time now = butlast (iso_text now) @ ''+00:00''"

text \<open>What is to be opened: cash observed, principal wanted, the key and the body to store.\<close>

record book_opening =
  op_cash :: pydec
  op_principal :: pydec
  op_account :: pyval
  op_key :: string
  op_body :: pyval

definition prepare_opening :: "instant \<Rightarrow> pydict \<Rightarrow> pydict \<Rightarrow> book_opening res" where
  "prepare_opening now scope observation =
     res_bind (fresh_scope now scope observation) (\<lambda>_.
     res_bind (decimal_value ''available cash'' True (dict_get observation ''availableCash'')) (\<lambda>cash.
     res_bind (res_bind (entry (PDict scope) ''capitalPercent'') (decimal_value ''capital percent'' True)) (\<lambda>percent.
     let wanted = wide_hundredth (wide_mul cash percent) in
     res_bind (res_bind (entry (PDict scope) ''accountFingerprint'') need_text) (\<lambda>account.
     res_bind (res_bind (entry (PDict scope) ''quoteCurrency'') need_text) (\<lambda>currency.
     Inr \<lparr>op_cash = cash, op_principal = wanted, op_account = PStr account, op_key = account @ '':'' @ currency,
          op_body = PDict [(''scope'', PDict scope), (''principal'', PStr (plain_text wanted)),
            (''occurredAt'', PStr (book_time now))]\<rparr>)))))"

definition stored_principal :: "(pyval \<Rightarrow> string) \<Rightarrow> pydict \<Rightarrow> book_row \<Rightarrow> pydec res" where
  "stored_principal sha scope row =
     res_bind (bt_value (bo_text row)) (\<lambda>old.
     res_bind (kis_require (sha old = bo_hash row) ''KIS_OWNED_SCOPE_CHANGED'') (\<lambda>_.
     res_bind (mapping_of old) (\<lambda>d.
     res_bind (kis_require (py_eq (dict_get d ''scope'') (PDict scope)) ''KIS_OWNED_SCOPE_CHANGED'') (\<lambda>_.
     res_bind (entry old ''principal'') (decimal_value ''existing principal'' True)))))"

text \<open>What other books of the account and currency hold, added up with the default 28 digits.\<close>

definition add_reserved :: "(pyval \<Rightarrow> string) \<Rightarrow> pydec \<Rightarrow> book_row \<Rightarrow> pydec res" where
  "add_reserved sha held_sum row =
     res_bind (bt_value (bo_text row)) (\<lambda>item.
     res_bind (kis_require (sha item = bo_hash row) ''KIS_OWNED_RESERVATION_SEAL_INVALID'') (\<lambda>_.
     res_bind (res_bind (entry item ''principal'') (decimal_value ''existing reserved principal'' False)) (\<lambda>amount.
     Inr (pd_add held_sum amount))))"

definition insert_book :: "(pyval \<Rightarrow> string) \<Rightarrow> string \<Rightarrow> book_opening \<Rightarrow> books \<Rightarrow> books res" where
  "insert_book sha deployment plan db =
     res_bind (res_fold (add_reserved sha) pd_zero (filter (\<lambda>r. bo_key r = op_key plan) (bk_principals db))) (\<lambda>held_sum.
     res_bind (kis_require (dec_value (pd_add held_sum (op_principal plan)) \<le> dec_value (op_cash plan))
       ''KIS_OWNED_CAPITAL_ALREADY_RESERVED'') (\<lambda>_.
     Inr (db\<lparr>bk_principals := bk_principals db @ [\<lparr>bo_deployment = deployment, bo_key = op_key plan,
            bo_text = book_json (op_body plan), bo_hash = sha (op_body plan)\<rparr>]\<rparr>)))"

text \<open>The reservation of a book: the allocation is checked again, the schema created, the request recorded.\<close>

definition reserve_book ::
  "(pyval \<Rightarrow> string) \<Rightarrow> pydict \<Rightarrow> (pydict \<times> pydict) option \<Rightarrow> pydec \<Rightarrow> books \<Rightarrow> books res" where
  "reserve_book sha scope shared wanted db =
     (case shared of
        None \<Rightarrow> Inr db
      | Some (policy, request) \<Rightarrow>
          res_bind (validate_shared_allocation sha (PDict scope) (bundle_of (PDict policy) (PDict request))
            (Some (Some wanted))) (\<lambda>_.
          res_bind (krw_ensure_schema (bk_krw db)) (\<lambda>krw.
          res_bind (reserve_in_transaction krw (PDict policy) (PDict request)) (\<lambda>(krw', _).
          Inr (db\<lparr>bk_krw := krw'\<rparr>)))))"

definition assert_covered :: "(pyval \<Rightarrow> string) \<Rightarrow> pyval \<Rightarrow> books \<Rightarrow> unit res" where
  "assert_covered sha account db =
     res_bind (inspect_in_transaction (bk_krw db) account) (\<lambda>pool.
     assert_owned_books_covered sha (py_str account) pool (bk_principals db))"

text \<open>The transaction of \<open>initialize\<close>.\<close>

definition open_book ::
  "(pyval \<Rightarrow> string) \<Rightarrow> (nat \<Rightarrow> unit res) \<Rightarrow> pydict \<Rightarrow> (pydict \<times> pydict) option \<Rightarrow> book_opening \<Rightarrow> books \<Rightarrow> books res" where
  "open_book sha guard scope shared plan db =
     res_bind (guard 1) (\<lambda>_.
     res_bind (inspect_in_transaction (bk_krw db) (op_account plan)) (\<lambda>pool.
     res_bind (kis_require (shared \<noteq> None \<or> pool = None)
       ''KIS_SHARED_KRW_EXISTING_POOL_REQUIRES_EXACT_RESERVATION'') (\<lambda>_.
     res_bind (if shared = None then Inr ()
       else assert_owned_books_covered sha (py_str (op_account plan)) pool (bk_principals db)) (\<lambda>_.
     res_bind (res_bind (entry (PDict scope) ''deploymentId'') need_text) (\<lambda>deployment.
     let prior = find_book deployment db in
     res_bind (case prior of None \<Rightarrow> Inr (op_principal plan) | Some row \<Rightarrow> stored_principal sha scope row) (\<lambda>wanted.
     res_bind (reserve_book sha scope shared wanted db) (\<lambda>db1.
     res_bind (if prior = None then insert_book sha deployment plan db1 else Inr db1) (\<lambda>db2.
     res_bind (if shared = None then Inr () else assert_covered sha (op_account plan) db2) (\<lambda>_.
     res_bind (guard 2) (\<lambda>_. Inr db2))))))))))"

definition initialize_book ::
  "(pyval \<Rightarrow> string) \<Rightarrow> (nat \<Rightarrow> unit res) \<Rightarrow> instant \<Rightarrow> pydict \<Rightarrow> pydict \<Rightarrow> pyval option \<Rightarrow> books
     \<Rightarrow> books \<times> kis_projection res" where
  "initialize_book sha guard now scope observation reservation db =
     (case res_bind (guard 0) (\<lambda>_.
           res_bind (prepare_opening now scope observation) (\<lambda>plan.
           res_bind (case reservation of
               None \<Rightarrow> Inr None
             | Some bundle \<Rightarrow> res_bind (validate_shared_allocation sha (PDict scope) bundle (Some (Some (op_principal plan)))) (\<lambda>p. Inr (Some p)))
             (\<lambda>shared. open_book sha guard scope shared plan (in_begun db)))) of
        Inl e \<Rightarrow> (db, Inl e)
      | Inr db' \<Rightarrow> (committed db', kis_project sha scope [] (Some (committed db'))))"

subsection \<open>The other operations\<close>

definition reserve_shared_krw_budget ::
  "(pyval \<Rightarrow> string) \<Rightarrow> (nat \<Rightarrow> unit res) \<Rightarrow> pyval \<Rightarrow> pyval \<Rightarrow> books \<Rightarrow> (books \<times> krw_result) res" where
  "reserve_shared_krw_budget sha guard policy_value request_value db =
     res_bind (validate_policy policy_value) (\<lambda>policy.
     res_bind (validate_request request_value) (\<lambda>request.
     res_bind (kis_require (same_binding request policy) ''KIS_SHARED_KRW_CURRENT_POLICY_REQUEST_BINDING_MISMATCH'') (\<lambda>_.
     res_bind (guard 0) (\<lambda>_.
     res_bind (guard 1) (\<lambda>_.
     res_bind (assert_covered sha (dict_get policy ''accountFingerprint'') (in_begun db)) (\<lambda>_.
     res_bind (krw_ensure_schema (bk_krw (in_begun db))) (\<lambda>krw.
     res_bind (reserve_in_transaction krw (PDict policy) (PDict request)) (\<lambda>(krw', result).
     res_bind (guard 2) (\<lambda>_.
     Inr (committed (db\<lparr>bk_krw := krw'\<rparr>), result))))))))))"

definition receipt_scoped :: "pydict \<Rightarrow> pydict \<Rightarrow> unit res" where
  "receipt_scoped scope receipt =
     (let rc = dict_get receipt in
      res_bind (any_of
        [differs_from scope ''deploymentId'' (rc ''deploymentId''),
         differs_from scope ''accountFingerprint'' (rc ''accountFingerprint''),
         differs_from scope ''quoteCurrency'' (rc ''currency''),
         \<lambda>_. Inr (rc ''actualFeeObserved'' \<noteq> PBool False),
         \<lambda>_. Inr (rc ''costAccounting'' \<noteq> PStr ''CONSERVATIVE_RESERVE_NOT_ACTUAL_FEE''),
         \<lambda>_. Inr (rc ''terminalVerified'' \<noteq> PBool True),
         \<lambda>_. res_bind (as_key (rc ''side'')) (\<lambda>side. Inr (side \<notin> {PStr ''BUY'', PStr ''SELL''}))]) (\<lambda>bad.
      kis_require (\<not> bad) ''KIS_OWNED_TERMINAL_RECEIPT_SCOPE_REQUIRED''))"

definition receipt_member :: "pydict \<Rightarrow> pydict \<Rightarrow> unit res" where
  "receipt_member scope receipt =
     res_bind (entry (PDict scope) ''members'') (\<lambda>members.
     res_bind (case members of
         PList ms \<Rightarrow> res_map (\<lambda>m. res_bind (entry m ''strategyInstanceId'') (\<lambda>s. Inr (m, s))) ms
       | _ \<Rightarrow> Inl (TypeError ''object is not iterable'')) (\<lambda>ids.
     case filter (\<lambda>(m, s). py_eq s (dict_get receipt ''strategyInstanceId'')) ids of
       [(m, _)] \<Rightarrow>
         res_bind (entry m ''symbol'') (\<lambda>symbol.
         kis_require (py_eq symbol (dict_get receipt ''symbol'')) ''KIS_OWNED_MEMBER_SCOPE_CHANGED'')
     | _ \<Rightarrow> Inl (ValueError ''KIS_OWNED_MEMBER_SCOPE_CHANGED'')))"

definition receipt_amounts :: "pydict \<Rightarrow> unit res" where
  "receipt_amounts receipt =
     res_bind (decimal_value ''terminal fill quantity'' True (dict_get receipt ''quantity'')) (\<lambda>quantity.
     res_bind (kis_require (whole (dec_value quantity)) ''KIS_OWNED_WHOLE_SHARES_REQUIRED'') (\<lambda>_.
     res_bind (decimal_value ''actual fill notional'' True (dict_get receipt ''filledNotional'')) (\<lambda>_.
     res_bind (decimal_value ''estimated cost holdback'' True (dict_get receipt ''costReserve'')) (\<lambda>_. Inr ()))))"

definition principal_bound :: "(pyval \<Rightarrow> string) \<Rightarrow> pydict \<Rightarrow> book_row option \<Rightarrow> unit res" where
  "principal_bound sha scope found =
     (case found of
        None \<Rightarrow> Inl (ValueError ''KIS_OWNED_PRINCIPAL_BINDING_INVALID'')
      | Some row \<Rightarrow>
          res_bind (res_bind (bt_value (bo_text row)) mapping_of) (\<lambda>d.
          res_bind (kis_require (py_eq (dict_get d ''scope'') (PDict scope)) ''KIS_OWNED_PRINCIPAL_BINDING_INVALID'') (\<lambda>_.
          kis_require (sha (PDict d) = bo_hash row) ''KIS_OWNED_PRINCIPAL_BINDING_INVALID'')))"

definition append_terminal_receipt ::
  "(pyval \<Rightarrow> string) \<Rightarrow> pydict \<Rightarrow> pydict \<Rightarrow> books \<Rightarrow> (books \<times> bool) res" where
  "append_terminal_receipt sha scope receipt db =
     res_bind (receipt_scoped scope receipt) (\<lambda>_.
     res_bind (receipt_member scope receipt) (\<lambda>_.
     res_bind (receipt_amounts receipt) (\<lambda>_.
     let digest = sha (PDict receipt) in
     res_bind (res_bind (entry (PDict scope) ''deploymentId'') need_text) (\<lambda>deployment.
     res_bind (principal_bound sha scope (find_book deployment db)) (\<lambda>_.
     res_bind (res_bind (entry (PDict receipt) ''eventKey'') need_text) (\<lambda>key.
     case find (\<lambda>r. fr_key r = key) (bk_fills db) of
       Some old \<Rightarrow>
         res_bind (kis_require (fr_hash old = digest) ''KIS_OWNED_TERMINAL_RECEIPT_CHANGED'') (\<lambda>_. Inr (db, False))
     | None \<Rightarrow>
         Inr (db\<lparr>bk_fills := bk_fills db @ [\<lparr>fr_key = key, fr_deployment = deployment,
                fr_text = book_json (PDict receipt), fr_hash = digest\<rparr>]\<rparr>, True)))))))"

text \<open>Reading without creating a file. \<open>ordinary\<close> is the check of the file before and after, which needs its bytes.\<close>

definition shared_krw_budget ::
  "(nat \<Rightarrow> unit res) \<Rightarrow> pyval \<Rightarrow> books option \<Rightarrow> krw_pool option res" where
  "shared_krw_budget ordinary account file =
     (case file of
        None \<Rightarrow> Inl (ValueError ''KIS_SHARED_KRW_LOCAL_POOL_NOT_INITIALIZED'')
      | Some db \<Rightarrow>
          res_bind (ordinary 0) (\<lambda>_.
          res_bind (inspect_in_transaction (bk_krw (in_begun db)) account) (\<lambda>pool.
          res_bind (ordinary 1) (\<lambda>_. Inr pool))))"

definition shared_krw_reservation ::
  "(pyval \<Rightarrow> string) \<Rightarrow> (nat \<Rightarrow> unit res) \<Rightarrow> pydict \<Rightarrow> books option \<Rightarrow> pydict res" where
  "shared_krw_reservation sha ordinary scope file =
     (case file of
        None \<Rightarrow> Inl (ValueError ''KIS_SHARED_KRW_LOCAL_POOL_NOT_INITIALIZED'')
      | Some db \<Rightarrow>
          res_bind (ordinary 0) (\<lambda>_.
          res_bind (entry (PDict scope) ''accountFingerprint'') (\<lambda>account.
          res_bind (inspect_in_transaction (bk_krw (in_begun db)) account) (\<lambda>pool.
          res_bind (assert_owned_books_covered sha (py_str account) pool (bk_principals db)) (\<lambda>_.
          res_bind (reservation_for_scope sha scope pool) (\<lambda>receipt.
          res_bind (ordinary 1) (\<lambda>_. Inr receipt)))))))"

text \<open>Across the books of the account and currency, with the default 28 digits.\<close>

definition add_symbol :: "pyval list \<Rightarrow> (pyval \<times> pydec) list \<Rightarrow> pyval \<times> pydec \<Rightarrow> (pyval \<times> pydec) list res" where
  "add_symbol members totals position =
     res_bind (case find (\<lambda>m. read_member m = Inr (fst position)) (rev members) of
         None \<Rightarrow> Inl (KeyError ''strategyInstanceId'')
       | Some m \<Rightarrow> res_bind (entry m ''symbol'') as_key) (\<lambda>symbol.
     res_bind (decimal_value ''owned account position'' False (PStr (plain_text (snd position)))) (\<lambda>a.
     Inr (assoc_put symbol (pd_add (assoc_get pd_zero totals symbol) a) totals)))"

definition need_dict :: "pyval \<Rightarrow> pydict res" where
  "need_dict v = (case v of PDict d \<Rightarrow> Inr d | _ \<Rightarrow> Inl (TypeError ''object is not subscriptable''))"

definition add_book ::
  "(pyval \<Rightarrow> string) \<Rightarrow> books \<Rightarrow> pydec \<times> (pyval \<times> pydec) list \<Rightarrow> book_row \<Rightarrow> (pydec \<times> (pyval \<times> pydec) list) res" where
  "add_book sha db acc row =
     res_bind (bt_value (bo_text row)) (\<lambda>body.
     res_bind (kis_require (sha body = bo_hash row) ''KIS_OWNED_ACCOUNT_PRINCIPAL_SEAL_INVALID'') (\<lambda>_.
     res_bind (res_bind (entry body ''scope'') need_dict) (\<lambda>current.
     res_bind (kis_project sha current [] (Some db)) (\<lambda>p.
     res_bind (decimal_value ''owned account cash'' False (PStr (plain_text (kh_cash (kp_owned p))))) (\<lambda>cash.
     res_bind (entry (PDict current) ''members'') (\<lambda>members.
     res_bind (res_fold (add_symbol (case members of PList ms \<Rightarrow> ms | _ \<Rightarrow> [])) (snd acc)
       (kh_positions (kp_owned p))) (\<lambda>totals.
     Inr (pd_add (fst acc) cash, totals))))))))"

definition account_owned_totals ::
  "(pyval \<Rightarrow> string) \<Rightarrow> pydict \<Rightarrow> books \<Rightarrow> (pydec \<times> (pyval \<times> pydec) list) res" where
  "account_owned_totals sha scope db =
     res_bind (res_bind (entry (PDict scope) ''accountFingerprint'') need_text) (\<lambda>account.
     res_bind (res_bind (entry (PDict scope) ''quoteCurrency'') need_text) (\<lambda>currency.
     res_fold (add_book sha db) (pd_zero, [])
       (filter (\<lambda>r. bo_key r = account @ '':'' @ currency) (bk_principals db))))"

end
