(* ===== verification/Kis_Laws.thy ===== *)
theory Kis_Laws
  imports Kis_Books Krw_Laws
begin

section \<open>Owned capital: books and the shared budget\<close>

text \<open>
  What the coverage check says of a book, what the transactions do to books and budget, and the invariant
  they keep: every book of an account with a budget is covered by its own reservation. So the principals of
  such an account add up to no more than what is reserved, and that to no more than the reviewed cap.
\<close>

subsection \<open>Covered books\<close>

definition book_principal :: "book_row \<Rightarrow> rat" where
  "book_principal row =
     (case bt_value (bo_text row) of
        Inl _ \<Rightarrow> 0
      | Inr body \<Rightarrow> (case decimal_of (dict_get (as_dict body) ''principal'') of Inr (Some a) \<Rightarrow> dec_value a | _ \<Rightarrow> 0))"

lemma strict_body_Inr: "strict_body t = Inr v \<longleftrightarrow> \<not> bt_repeats t \<and> bt_value t = Inr v"
  by (simp add: strict_body_def)

lemma covers_principal_Inr:
  "covers_principal scope request wanted = Inr () \<longleftrightarrow> dict_get scope ''quoteCurrency'' = PStr ''KRW''
     \<and> (\<exists>a n. wanted = Some a \<and> 0 < dec_value a \<and> krw_money (dict_get request ''requestedKrw'') = Inr n \<and> \<lceil>dec_value a\<rceil> \<le> n)"
  by (cases wanted) (auto simp: covers_principal_def res_bind_eq_Inr)

lemma validated_allocation:
  assumes "validate_shared_allocation sha scope (bundle_of pv rv) wanted = Inr (policy, request)"
  shows "validate_policy pv = Inr policy" "validate_request rv = Inr request"
    "\<not> scope_changed request (as_dict scope)" "same_binding request policy"
    "\<And>p. wanted = Some p \<Longrightarrow> covers_principal (as_dict scope) request p = Inr ()"
  using assms by (auto simp: validate_shared_allocation_def bundle_of_def Let_def res_bind_eq_Inr)

lemma request_of_Some:
  assumes "request_of b deployment = Some q"
  shows "\<exists>r \<in> set (kb_receipts b). request_field r ''deploymentId'' = PStr deployment \<and> dict_get r ''request'' = q"
  using map_of_SomeD [OF assms [unfolded request_of_def]] by auto

lemma book_covered_facts:
  assumes "book_covered sha account (Some b) row = Inr ()"
  shows "\<exists>r \<in> set (kb_receipts b). receipt_deployment r = bo_deployment row \<and> 0 < book_principal row
    \<and> \<lceil>book_principal row\<rceil> \<le> receipt_amount r \<and> bo_key row = account @ '':KRW''"
proof -
  from assms obtain body scope q wanted p policy request where
    body: "bt_value (bo_text row) = Inr body" and scope: "scope = as_dict (dict_get (as_dict body) ''scope'')"
    and bound: "book_bound account row scope" and q: "request_of b (bo_deployment row) = Some q"
    and wanted: "decimal_of (dict_get (as_dict body) ''principal'') = Inr wanted"
    and v: "validate_shared_allocation sha (dict_get (as_dict body) ''scope'') (bundle_of (PDict (kb_policy b)) q) (Some wanted)
      = Inr (policy, request)"
    by (auto simp: book_covered_def Let_def res_bind_eq_Inr strict_body_Inr split: option.splits)
  note val = validated_allocation [OF v]
  from val(5) [OF refl] obtain a n where c: "dict_get scope ''quoteCurrency'' = PStr ''KRW''" "wanted = Some a" "0 < dec_value a"
    "krw_money (dict_get request ''requestedKrw'') = Inr n" "\<lceil>dec_value a\<rceil> \<le> n"
    by (auto simp: covers_principal_Inr scope)
  from request_of_Some [OF q] obtain r where r: "r \<in> set (kb_receipts b)"
    "request_field r ''deploymentId'' = PStr (bo_deployment row)" "dict_get r ''request'' = q" by blast
  have "q = PDict request" using validate_request_Inr [OF val(2)] by blast
  with r(3) c(4) have "receipt_amount r = n" by (simp add: receipt_amount_def request_field_def)
  moreover have "book_principal row = dec_value a" using body wanted c(2) by (simp add: book_principal_def)
  moreover have "receipt_deployment r = bo_deployment row" using r(2) by (simp add: receipt_deployment_def)
  moreover have "bo_key row = account @ '':KRW''" using bound c(1) by (simp add: book_bound_def)
  ultimately show ?thesis using r(1) c(3,5) by auto
qed

lemma book_covered_again:
  assumes "book_covered sha account (Some b) row = Inr ()" "kb_policy b' = kb_policy b"
    and "\<And>q. request_of b (bo_deployment row) = Some q \<Longrightarrow> request_of b' (bo_deployment row) = Some q"
  shows "book_covered sha account (Some b') row = Inr ()"
proof -
  from assms(1) obtain q where q: "request_of b (bo_deployment row) = Some q"
    by (auto simp: book_covered_def Let_def res_bind_eq_Inr split: option.splits)
  with assms show ?thesis by (simp add: book_covered_def)
qed

lemma count_fold:
  "res_fold (\<lambda>n row. res_bind (kis_require (Suc n \<le> m) c) (\<lambda>_. res_bind (f row) (\<lambda>_. Inr (Suc n)))) k rows = Inr k'
   \<longleftrightarrow> k' = k + length rows \<and> (rows \<noteq> [] \<longrightarrow> k' \<le> m) \<and> list_all (\<lambda>row. f row = Inr ()) rows"
proof (induction rows arbitrary: k)
  case (Cons row rows)
  show ?case by (auto simp: res_bind_eq_Inr Cons.IH)
qed auto

lemma books_covered_iff:
  "assert_owned_books_covered sha account pool rows = Inr () \<longleftrightarrow>
     length (account_books account rows) \<le> 10000
     \<and> list_all (\<lambda>row. book_covered sha account pool row = Inr ()) (account_books account rows)"
proof -
  let ?rows = "account_books account rows"
  have "length (take 10001 ?rows) \<le> 10000 \<longleftrightarrow> length ?rows \<le> 10000" by (simp add: min_def)
  moreover have "length ?rows \<le> 10000 \<Longrightarrow> take 10001 ?rows = ?rows" by simp
  ultimately show ?thesis
    unfolding assert_owned_books_covered_def res_bind_eq_Inr count_fold
    by (auto simp del: take_all_iff)
qed

subsection \<open>Keys of an account\<close>

lemma like_same_length:
  assumes "length a = length s" "\<forall>c \<in> set a. c \<noteq> CHR ''%'' \<and> c \<noteq> CHR ''_''" "sql_like (a @ p) (s @ t)"
  shows "map to_lower a = map to_lower s"
  using assms by (induction a s rule: list_induct2) auto

lemma hex_digit_lower: "is_hex_digit c \<Longrightarrow> to_lower c = c"
  by (auto simp: is_hex_digit_def is_digit_def to_lower_def is_upper_def)

lemma sha_text_facts:
  assumes "is_sha (PStr s)"
  shows "length s = 64" "map to_lower s = s" "\<forall>c \<in> set s. c \<noteq> CHR ''%'' \<and> c \<noteq> CHR ''_''"
  using assms by (auto simp: is_sha_def sha_pattern_def list_all_iff hex_digit_lower is_hex_digit_def is_digit_def intro!: map_idI)

lemma like_account:
  assumes "is_sha (PStr a)" "is_sha (PStr s)" "sql_like (a @ '':%'') (s @ t)"
  shows "a = s"
  using like_same_length [of a s "'':%''" t] assms sha_text_facts by metis

lemma account_books_snoc:
  "account_books account (rows @ [row]) = account_books account rows @ (if sql_like (account @ '':%'') (bo_key row) then [row] else [])"
  by (simp add: account_books_def)

subsection \<open>The budget within a transaction\<close>

lemma inspect_begun [simp]: "krw_inspect (k\<lparr>kd_transaction := t\<rparr>) account = krw_inspect k account"
  by (rule same_account_inspect) (simp add: same_account_def account_rows_def)

definition krw_tables :: "krw_db \<Rightarrow> bool" where
  "krw_tables k \<longleftrightarrow> list_ex (\<lambda>r. sm_name r \<in> {pool_table, reservation_table}) (kd_master k)"

text \<open>Without its tables a database holds no budget.\<close>

definition krw_sane :: "krw_db \<Rightarrow> bool" where
  "krw_sane k \<longleftrightarrow> krw_tables k \<or> (kd_pools k = [] \<and> kd_reservations k = [])"

lemma present_tables: "schema_present (kd_master k) = Inr True \<Longrightarrow> krw_tables k"
  by (auto simp: schema_present_def krw_tables_def list_ex_iff Let_def filter_empty_conv split: if_splits)

lemma no_pools_inspect: "kd_pools k = [] \<Longrightarrow> krw_inspect k account \<noteq> Inr (Some b)"
  by (auto simp: krw_inspect_def res_bind_eq_Inr split: if_splits)

lemma ensure_schema_effect:
  assumes "krw_ensure_schema k = Inr k'" "krw_sane k"
  shows "krw_sane k'" "krw_inspect k' account = Inr (Some b) \<Longrightarrow> krw_inspect k account = Inr (Some b)"
    "krw_inspect k' account = Inr None \<or> krw_inspect k' account = krw_inspect k account"
proof -
  have cases: "k' = k \<or> (kd_pools k' = [] \<and> kd_reservations k' = [] \<and> schema_present (kd_master k') = Inr True)"
    using assms by (auto simp: krw_ensure_schema_def krw_sane_def krw_tables_def res_bind_eq_Inr Let_def split: if_splits)
  then show "krw_sane k'" using assms(2) by (auto simp: krw_sane_def)
  show "krw_inspect k' account = Inr (Some b) \<Longrightarrow> krw_inspect k account = Inr (Some b)"
    using cases no_pools_inspect by blast
  show "krw_inspect k' account = Inr None \<or> krw_inspect k' account = krw_inspect k account"
    using cases by (auto simp: krw_inspect_def account_rows_def)
qed

lemma inspect_in_transaction_Inr:
  assumes "inspect_in_transaction k v = Inr pool"
  shows "is_sha v" "krw_inspect k (py_str v) = Inr pool"
  using assms by (auto simp: inspect_in_transaction_def res_bind_eq_Inr)

lemma request_of_append:
  assumes "kb_receipts b' = kb_receipts b @ new" "distinct (map receipt_deployment (kb_receipts b'))"
    and "request_of b deployment = Some q" "\<forall>r \<in> set (kb_receipts b'). request_field r ''deploymentId'' = PStr (receipt_deployment r)"
  shows "request_of b' deployment = Some q"
proof -
  from request_of_Some [OF assms(3)] obtain r where r: "r \<in> set (kb_receipts b)" "request_field r ''deploymentId'' = PStr deployment" by blast
  have "receipt_deployment s \<noteq> deployment" if "s \<in> set new" for s
    using assms(1,2) r that by (auto simp: receipt_deployment_def)
  then have "PStr deployment \<notin> (\<lambda>r. request_field r ''deploymentId'') ` set new"
    using assms(1,4) by force
  then have "map_of (rev (map (\<lambda>r. (request_field r ''deploymentId'', dict_get r ''request'')) new)) (PStr deployment) = None"
    by (auto simp: map_of_eq_None_iff)
  with assms(3) show ?thesis by (simp add: request_of_def assms(1) map_add_def)
qed

lemma accepted_deployments:
  assumes "accepted_pool account b"
  shows "\<forall>r \<in> set (kb_receipts b). request_field r ''deploymentId'' = PStr (receipt_deployment r)"
  using assms unfolding accepted_pool_def list_all_iff accepted_receipt_def
  by (auto simp: request_field_def receipt_deployment_def)

text \<open>A reservation leaves every covered book covered.\<close>

lemma reserve_keeps_covered:
  assumes "reserve_in_transaction k (PDict policy) rv = Inr (k', x)"
    and "krw_inspect k' account = Inr (Some b')"
    and "\<And>b. krw_inspect k account = Inr (Some b) \<Longrightarrow> assert_owned_books_covered sha account (Some b) rows = Inr ()"
    and "py_str (dict_get policy ''accountFingerprint'') = account \<Longrightarrow> krw_inspect k account = Inr None \<Longrightarrow> account_books account rows = []"
  shows "assert_owned_books_covered sha account (Some b') rows = Inr ()"
  using assms(1)
proof (cases rule: reserve_cases)
  case (1 policy' request b)
  with assms(2,3) show ?thesis by simp
next
  case (2 policy' request amount pool b row)
  have p: "policy' = policy" using validate_policy_Inr [OF 2(1)] by simp
  show ?thesis
  proof (cases "account = py_str (dict_get policy' ''accountFingerprint'')")
    case False
    with same_account_inspect [OF 2(11)] assms(2,3) show ?thesis by simp
  next
    case True
    with 2(5) assms(2) have b: "b' = b" by simp
    show ?thesis
    proof (cases pool)
      case None
      with assms(4) True 2(4) p have "account_books account rows = []" by simp
      then show ?thesis by (simp add: books_covered_iff)
    next
      case (Some a)
      with 2(4) True have a: "krw_inspect k account = Inr (Some a)" by simp
      note old = assms(3) [OF a, unfolded books_covered_iff]
      have acc: "accepted_pool account b'" by (rule inspect_accepted [OF assms(2)])
      have "request_of b' d = Some q" if "request_of a d = Some q" for d q
        by (rule request_of_append [OF _ _ that accepted_deployments [OF acc]])
          (use 2(8) Some b acc in \<open>simp_all add: pool_receipts_def accepted_pool_def\<close>)
      moreover have "kb_policy b' = kb_policy a" using 2(15) Some b by simp
      ultimately have "book_covered sha account (Some b') row = Inr ()"
        if "book_covered sha account (Some a) row = Inr ()" for row
        using book_covered_again [OF that] by blast
      with old show ?thesis unfolding books_covered_iff list_all_iff by blast
    qed
  qed
qed

lemma reserve_tables: "reserve_in_transaction k pv rv = Inr (k', x) \<Longrightarrow> krw_tables k'"
  by (erule reserve_cases) (auto intro!: present_tables dest: recorded_inspect)

end
