(* ===== verification/Kis_Budget.thy ===== *)
theory Kis_Budget
  imports Kis_Laws Krw_Demo
begin

section \<open>Owned capital: one book\<close>

text \<open>
  A store with the schema of the budget and no rows, in which a book of 40 percent of 1,000 won is opened
  under the small policy and request of \<open>Krw_Demo\<close>: the concrete input at which the theorems about books
  are exercised. The digests of books are constant.
\<close>

definition one_sha :: "pyval \<Rightarrow> string" where "one_sha v = replicate 64 (CHR ''e'')"

definition one_scope :: pydict where
  "one_scope =
     [(''deploymentId'', PStr ''alpha''), (''scopeHash'', hex_id CHR ''e''), (''accountFingerprint'', hex_id CHR ''a''),
      (''accountProfileId'', hex_id CHR ''b''), (''credentialConfigurationHash'', hex_id CHR ''c''),
      (''quoteCurrency'', PStr ''KRW''), (''capitalPercent'', PStr ''40''), (''members'', PList [])]"

definition one_observation :: pydict where
  "one_observation =
     [(''currency'', PStr ''KRW''), (''profileId'', hex_id CHR ''b''), (''accountFingerprint'', hex_id CHR ''a''),
      (''credentialConfigurationHash'', hex_id CHR ''c''),
      (''openOrders'', PStr ''NONE_OBSERVED_COMPLETE_ACCOUNT_CURRENCY_SCOPE''),
      (''asOf'', PStr ''1970-01-01T00:00:00Z''), (''availableCash'', PStr ''1000'')]"

definition one_body :: pyval where
  "one_body = PDict [(''scope'', PDict one_scope), (''principal'', PStr ''400''), (''occurredAt'', PStr (book_time 0))]"

definition no_books :: books where
  "no_books = \<lparr>bk_krw = krw_empty\<lparr>kd_transaction := False\<rparr>, bk_principals = [], bk_fills = []\<rparr>"

abbreviation one_request :: pydict where "one_request \<equiv> demo_krw_request ''first'' ''alpha''"

lemma one_numbers:
  "dec_read ''1000'' = Some (PyDec False 1000 0)" "dec_read ''40'' = Some (PyDec False 40 0)"
  "dec_read ''400'' = Some (PyDec False 400 0)" "plain_text (PyDec False 400 0) = ''400''"
  by code_simp+

lemma one_digits: "ndigits 1000 = 4" "ndigits 40 = 2" "ndigits 400 = 3" "ndigits 40000 = 5" "ndigits 0 = 1"
  by (simp_all add: ndigits.simps)

lemma one_time: "iso_parse ''1970-01-01T00:00:00Z'' = IsoAware 0"
  by code_simp

lemma one_prepared:
  "prepare_opening 0 one_scope one_observation
   = Inr \<lparr>op_cash = PyDec False 1000 0, op_principal = PyDec False 400 0, op_account = hex_id CHR ''a'',
          op_key = demo_krw_account @ '':KRW'', op_body = one_body\<rparr>"
proof -
  have "fresh_scope 0 one_scope one_observation = Inr ()"
    by (simp add: fresh_scope_def differs_from_def stale_observation_def kis_timestamp_def entry_def
      one_scope_def one_observation_def one_time hex_id_def py_str_def)
  moreover have "decimal_value ''available cash'' True (PStr ''1000'') = Inr (PyDec False 1000 0)"
    by (simp add: decimal_value_def py_str_def one_numbers one_digits dec_value_def signed_coeff_def)
  moreover have "decimal_value ''capital percent'' True (PStr ''40'') = Inr (PyDec False 40 0)"
    by (simp add: decimal_value_def py_str_def one_numbers one_digits dec_value_def signed_coeff_def)
  moreover have "wide_hundredth (wide_mul (PyDec False 1000 0) (PyDec False 40 0)) = PyDec False 400 0"
    by (simp add: wide_hundredth_def wide_mul_def wide_fix_def one_digits)
  moreover have "dict_get one_observation ''availableCash'' = PStr ''1000''" by (simp add: one_observation_def)
  moreover have "entry (PDict one_scope) ''capitalPercent'' = Inr (PStr ''40'')"
    "entry (PDict one_scope) ''accountFingerprint'' = Inr (hex_id CHR ''a'')"
    "entry (PDict one_scope) ''quoteCurrency'' = Inr (PStr ''KRW'')"
    by (simp_all add: entry_def one_scope_def)
  ultimately show ?thesis
    by (simp add: prepare_opening_def Let_def hex_id_def one_numbers one_body_def)
qed

lemma one_allocation:
  assumes "valid_policy policy cap" "valid_request request 400"
    and "canon (PDict policy) = canon (PDict demo_krw_policy)" "canon (PDict request) = canon (PDict one_request)"
    and "canon (PDict scope) = canon (PDict one_scope)" "dec_value a = 400"
  shows "validate_shared_allocation one_sha (PDict scope) (bundle_of (PDict policy) (PDict request)) (Some (Some a))
    = Inr (policy, request)"
proof -
  have s: "canon (dict_get scope k) = canon (dict_get one_scope k)" for k by (rule canon_dict_get [OF assms(5)])
  have q: "canon (dict_get request k) = canon (dict_get one_request k)" for k by (rule canon_dict_get [OF assms(4)])
  have p: "canon (dict_get policy k) = canon (dict_get demo_krw_policy k)" for k by (rule canon_dict_get [OF assms(3)])
  have is_text: "v = PStr t" if "canon v = PStr t" for v t using that by (cases v) auto
  have "dict_get scope ''scopeHash'' = PStr (one_sha w)" for w
    by (rule is_text) (simp add: s one_scope_def one_sha_def hex_id_def)
  moreover have krw: "dict_get scope ''quoteCurrency'' = PStr ''KRW''"
    by (rule is_text) (simp add: s one_scope_def)
  moreover have "\<not> scope_changed request scope"
    by (simp add: scope_changed_def py_eq_def q s demo_request_fields one_scope_def)
  moreover have "same_binding request policy"
    by (simp add: same_binding_def binding_keys_def p q demo_request_fields demo_policy_fields)
  moreover have "krw_money (dict_get request ''requestedKrw'') = Inr 400" using assms(2) by (simp add: valid_request_def)
  ultimately show ?thesis
    using valid_policy_accepted [OF assms(1)] valid_request_accepted [OF assms(2)]
    by (auto simp: validate_shared_allocation_def bundle_of_def Let_def scope_sealed_def has_keys_def
      covers_principal_def assms(6))
qed

lemma one_value: "dec_value (PyDec False 400 0) = 400"
  by (simp add: dec_value_def signed_coeff_def)

lemma spaced_entries_length:
  "length (spaced_entries d) \<le> (\<Sum>(k, v)\<leftarrow>d. length (ascii_quote k) + 4 + length (spaced_text v))"
  by (induction d) auto

lemma sum_insort: "sum_list (map f (insort_key g x xs)) = f x + (sum_list (map f xs) :: nat)"
  by (induction xs) auto

lemma spaced_canon_length:
  "length (spaced_text (canon (PDict d))) \<le> 2 + (\<Sum>(k, v)\<leftarrow>d. length (ascii_quote k) + 4 + length (spaced_text (canon v)))"
proof -
  have "(\<Sum>(k, v)\<leftarrow>canon_entries d. length (ascii_quote k) + 4 + length (spaced_text v))
    = (\<Sum>(k, v)\<leftarrow>d. length (ascii_quote k) + 4 + length (spaced_text (canon v)))"
    by (induction d) (auto simp: sum_insort)
  with spaced_entries_length [of "canon_entries d"] show ?thesis by simp
qed

lemma one_quotes:
  "length (ascii_quote ''1970-01-01T00:00:00+00:00'') = 27" "length (ascii_quote ''scope'') = 7"
  "length (ascii_quote ''principal'') = 11" "length (ascii_quote ''occurredAt'') = 12" "length (ascii_quote ''deploymentId'') = 14"
  "length (ascii_quote ''scopeHash'') = 11" "length (ascii_quote ''accountFingerprint'') = 20"
  "length (ascii_quote ''accountProfileId'') = 18" "length (ascii_quote ''credentialConfigurationHash'') = 29"
  "length (ascii_quote ''quoteCurrency'') = 15" "length (ascii_quote ''capitalPercent'') = 16" "length (ascii_quote ''members'') = 9"
  "length (ascii_quote ''alpha'') = 7" "length (ascii_quote ''KRW'') = 5" "length (ascii_quote ''40'') = 4" "length (ascii_quote ''400'') = 5"
  by code_simp+

lemma one_ids:
  "length (ascii_quote (replicate 64 CHR ''a'')) = 66" "length (ascii_quote (replicate 64 CHR ''b'')) = 66"
  "length (ascii_quote (replicate 64 CHR ''c'')) = 66" "length (ascii_quote (replicate 64 CHR ''e'')) = 66"
  by code_simp+

lemma one_book_time: "book_time 0 = ''1970-01-01T00:00:00+00:00''"
  by code_simp

lemma one_text: "length (spaced_text (canon one_body)) \<le> 65536" "strict_json one_body"
proof -
  have "length (spaced_text (canon (PDict one_scope))) \<le> 1000"
    using spaced_canon_length [of one_scope] by (simp add: one_scope_def hex_id_def one_quotes one_ids del: canon.simps(2))
  with spaced_canon_length [of "[(''scope'', PDict one_scope), (''principal'', PStr ''400''), (''occurredAt'', PStr (book_time 0))]"]
  show "length (spaced_text (canon one_body)) \<le> 65536"
    unfolding one_body_def by (simp add: one_quotes one_book_time del: canon.simps(2))
  show "strict_json one_body" by (rule plain_strict) (simp add: one_body_def one_scope_def hex_id_def)
qed

text \<open>The book that is stored, and that it is covered by the recorded request.\<close>

definition one_book :: book_row where
  "one_book = \<lparr>bo_deployment = ''alpha'', bo_key = demo_krw_account @ '':KRW'', bo_text = book_json one_body,
     bo_hash = one_sha one_body\<rparr>"

lemma one_book_covered:
  assumes "krw_inspect k demo_krw_account = Inr (Some b)" "canon (PDict (kb_policy b)) = canon (PDict demo_krw_policy)"
    and "kb_receipts b = [canon_entries r]" "dict_get r ''request'' = PDict one_request"
  shows "book_covered one_sha demo_krw_account (Some b) one_book = Inr ()"
proof -
  have policy: "valid_policy (kb_policy b) (kb_cap b)"
    using inspect_accepted [OF assms(1)] by (simp add: accepted_pool_def)
  have request: "valid_request (canon_entries one_request) 400"
    by (rule valid_request_canon [OF demo_request_valid [OF demo_krw_ids(1,3)]])
  have "request_of b ''alpha'' = Some (PDict (canon_entries one_request))"
    by (simp add: request_of_def assms(3,4) request_field_def demo_request_fields)
  moreover have "decimal_of (PStr ''400'') = Inr (Some (PyDec False 400 0))" by (simp add: decimal_of_def one_numbers)
  moreover have "validate_shared_allocation one_sha (PDict (canon_entries one_scope))
      (bundle_of (PDict (kb_policy b)) (PDict (canon_entries one_request))) (Some (Some (PyDec False 400 0)))
      = Inr (kb_policy b, canon_entries one_request)"
    by (rule one_allocation [OF policy request assms(2)]) (simp_all add: one_value)
  moreover have "book_bound demo_krw_account one_book (canon_entries one_scope)"
    by (simp add: book_bound_def one_book_def one_scope_def hex_id_def py_str_def)
  moreover obtain d where d: "canon one_body = PDict d" "has_keys d [''scope'', ''principal'', ''occurredAt'']"
    "dict_get d ''scope'' = PDict (canon_entries one_scope)" "dict_get d ''principal'' = PStr ''400''"
  proof
    show "canon one_body = PDict (canon_entries [(''scope'', PDict one_scope), (''principal'', PStr ''400''), (''occurredAt'', PStr (book_time 0))])"
      by (simp add: one_body_def)
    show "has_keys (canon_entries [(''scope'', PDict one_scope), (''principal'', PStr ''400''), (''occurredAt'', PStr (book_time 0))])
      [''scope'', ''principal'', ''occurredAt'']" by (rule has_keys_canon) (simp add: has_keys_def)
  qed (simp_all only: dict_get_canon, simp_all)
  ultimately show ?thesis
    using one_text by (simp add: book_covered_def Let_def one_book_def book_json_def strict_body_def one_sha_def)
qed

lemma one_book_opened:
  "\<exists>db b answer. initialize_book one_sha (\<lambda>_. Inr ()) 0 one_scope one_observation
       (Some (bundle_of (PDict demo_krw_policy) (PDict one_request))) no_books = (db, answer)
     \<and> krw_inspect (bk_krw db) demo_krw_account = Inr (Some b) \<and> kb_reserved b = 400
     \<and> bk_principals db = [one_book] \<and> book_principal one_book = 400"
proof -
  obtain k :: krw_db and x :: krw_result where
    x: "reserve_in_transaction krw_empty (PDict demo_krw_policy) (PDict one_request) = Inr (k, x)" "\<not> kx_idempotent x"
      "kd_transaction k" "krw_inspect k demo_krw_account = Inr (Some (kx_pool x))"
      "kb_receipts (kx_pool x) = [canon_entries (kx_receipt x)]" "kb_reserved (kx_pool x) = 400"
    using demo_reserved by blast
  have more: "dict_get (kx_receipt x) ''request'' = PDict one_request
    \<and> canon (PDict (kb_policy (kx_pool x))) = canon (PDict demo_krw_policy)"
    using x(1)
  proof (cases rule: reserve_cases)
    case (2 policy request amount pool b row)
    have "policy = demo_krw_policy" "request = one_request"
      using validate_policy_Inr [OF 2(1)] validate_request_Inr [OF 2(2)] by simp_all
    with 2 show ?thesis by simp
  qed (use x(2) in simp)
  have covered: "book_covered one_sha demo_krw_account (Some (kx_pool x)) one_book = Inr ()"
    by (rule one_book_covered [OF x(4) more [THEN conjunct2] x(5) more [THEN conjunct1]])
  have like: "sql_like (demo_krw_account @ '':%'') (demo_krw_account @ '':KRW'')" by code_simp
  have alloc: "validate_shared_allocation one_sha (PDict one_scope) (bundle_of (PDict demo_krw_policy) (PDict one_request))
      (Some (Some (PyDec False 400 0))) = Inr (demo_krw_policy, one_request)"
    by (rule one_allocation [OF demo_policy_valid demo_request_valid [OF demo_krw_ids(1,3)]]) (simp_all add: one_value)
  have schema: "krw_ensure_schema krw_empty = Inr krw_empty"
    using present_tables [of krw_empty] demo_schema
    by (simp add: krw_ensure_schema_def in_transaction_def krw_empty_def krw_tables_def)
  have begun: "in_begun no_books = no_books\<lparr>bk_krw := krw_empty\<rparr>"
    by (simp add: in_begun_def no_books_def krw_empty_def)
  have rows: "bk_principals (in_begun no_books) = []" by (simp add: in_begun_def no_books_def)
  have reserved: "reserve_book one_sha one_scope (Some (demo_krw_policy, one_request)) (PyDec False 400 0) (in_begun no_books)
      = Inr (no_books\<lparr>bk_krw := k\<rparr>)"
    by (simp add: reserve_book_def alloc begun schema x(1))
  let ?plan = "\<lparr>op_cash = PyDec False 1000 0, op_principal = PyDec False 400 0, op_account = hex_id CHR ''a'',
          op_key = demo_krw_account @ '':KRW'', op_body = one_body\<rparr>"
  let ?db = "no_books\<lparr>bk_krw := k, bk_principals := [one_book]\<rparr>"
  have inserted: "insert_book one_sha ''alpha'' ?plan (no_books\<lparr>bk_krw := k\<rparr>) = Inr ?db"
    by (simp add: insert_book_def no_books_def pd_add_def pd_zero_def coeff_at_def signed_coeff_def pd_fix_def one_digits
      dec_value_def one_book_def)
  have "assert_covered one_sha (hex_id CHR ''a'') ?db = Inr ()"
    using x(3,4) hex_ids(1) covered like
    by (simp add: assert_covered_def inspect_in_transaction_def in_transaction_def hex_id_def py_str_def books_covered_iff
      account_books_def one_book_def)
  moreover have "inspect_in_transaction (bk_krw (in_begun no_books)) (hex_id CHR ''a'') = Inr None"
    using krw_empty_inspected hex_ids(1)
    by (simp add: inspect_in_transaction_def in_transaction_def begun hex_id_def py_str_def) (simp add: krw_empty_def)
  moreover have "assert_owned_books_covered one_sha (py_str (hex_id CHR ''a'')) None (bk_principals (in_begun no_books)) = Inr ()"
    by (simp add: rows books_covered_iff account_books_def)
  moreover have "entry (PDict one_scope) ''deploymentId'' = Inr (PStr ''alpha'')" by (simp add: entry_def one_scope_def)
  moreover have "find_book ''alpha'' (in_begun no_books) = None" by (simp add: rows find_book_def)
  ultimately have opened: "open_book one_sha (\<lambda>_. Inr ()) one_scope (Some (demo_krw_policy, one_request)) ?plan (in_begun no_books) = Inr ?db"
    using inserted reserved by (simp add: open_book_def)
  have "book_principal one_book = 400"
    by (simp add: book_principal_def one_book_def book_json_def one_body_def decimal_of_def one_numbers one_value)
  with x(4,6) opened show ?thesis
    by (simp add: initialize_book_def one_prepared alloc committed_def)
qed

section \<open>Owned capital stays within the reviewed budget\<close>

text \<open>
  The reachable stores, the invariant that ties the books of an account to its budget, and the bound that
  follows: the principals of the books add up to no more than the reservations, and these to no more than
  the cap a person reviewed.
\<close>

definition fresh_books :: "books \<Rightarrow> bool" where
  "fresh_books db \<longleftrightarrow> bk_principals db = [] \<and> bk_fills db = [] \<and> kd_pools (bk_krw db) = [] \<and> kd_reservations (bk_krw db) = []"

inductive kis_step :: "(pyval \<Rightarrow> string) \<Rightarrow> books \<Rightarrow> books \<Rightarrow> bool" for sha where
  opened: "initialize_book sha guard now scope observation reservation db = (db', answer) \<Longrightarrow> kis_step sha db db'"
| reserved: "reserve_shared_krw_budget sha guard pv rv db = Inr (db', result) \<Longrightarrow> kis_step sha db db'"
| filled: "append_terminal_receipt sha scope receipt db = Inr (db', added) \<Longrightarrow> kis_step sha db db'"

definition books_sound :: "(pyval \<Rightarrow> string) \<Rightarrow> books \<Rightarrow> bool" where
  "books_sound sha db \<longleftrightarrow> distinct (map bo_deployment (bk_principals db)) \<and> krw_sane (bk_krw db)
     \<and> (\<forall>account b. krw_inspect (bk_krw db) account = Inr (Some b)
          \<longrightarrow> assert_owned_books_covered sha account (Some b) (bk_principals db) = Inr ())"

lemma fresh_sound: "fresh_books db \<Longrightarrow> books_sound sha db"
  by (auto simp: fresh_books_def books_sound_def krw_sane_def no_pools_inspect)

lemma sound_krw: "books_sound sha db \<Longrightarrow> krw_inspect (bk_krw db) account = Inr (Some b)
    \<Longrightarrow> assert_owned_books_covered sha account (Some b) (bk_principals db) = Inr ()"
  by (simp add: books_sound_def)

lemma sane_begun [simp]: "krw_sane (k\<lparr>kd_transaction := t\<rparr>) = krw_sane k"
  by (simp add: krw_sane_def krw_tables_def)

lemma sound_begun [simp]: "books_sound sha (in_begun db) = books_sound sha db" "books_sound sha (committed db) = books_sound sha db"
  by (simp_all add: books_sound_def in_begun_def committed_def)

lemma uncovered_none:
  "assert_owned_books_covered sha account None rows = Inr () \<Longrightarrow> account_books account rows = []"
  by (cases "account_books account rows")
    (auto simp: books_covered_iff book_covered_def Let_def res_bind_eq_Inr)

subsection \<open>Reservations\<close>

lemma reserve_sound:
  assumes "books_sound sha db" "krw_ensure_schema (bk_krw db) = Inr k"
    and "reserve_in_transaction k (PDict policy) rv = Inr (k', x)"
    and "assert_covered sha (dict_get policy ''accountFingerprint'') db = Inr ()"
  shows "books_sound sha (db\<lparr>bk_krw := k'\<rparr>)"
proof -
  let ?account = "py_str (dict_get policy ''accountFingerprint'')"
  have sane: "krw_sane (bk_krw db)" using assms(1) by (simp add: books_sound_def)
  from assms(4) obtain pool where pool: "krw_inspect (bk_krw db) ?account = Inr pool"
    "assert_owned_books_covered sha ?account pool (bk_principals db) = Inr ()"
    by (auto simp: assert_covered_def res_bind_eq_Inr dest: inspect_in_transaction_Inr)
  have "assert_owned_books_covered sha account (Some b') (bk_principals db) = Inr ()"
    if "krw_inspect k' account = Inr (Some b')" for account b'
  proof (rule reserve_keeps_covered [OF assms(3) that])
    show "assert_owned_books_covered sha account (Some b) (bk_principals db) = Inr ()"
      if "krw_inspect k account = Inr (Some b)" for b
      using ensure_schema_effect(2) [OF assms(2) sane that] sound_krw [OF assms(1)] by blast
    show "account_books account (bk_principals db) = []" if "?account = account" "krw_inspect k account = Inr None"
    proof (cases pool)
      case None
      with uncovered_none pool(2) that(1) show ?thesis by blast
    next
      case (Some a)
      \<comment> \<open>the schema was there, so nothing changed\<close>
      have "krw_tables (bk_krw db)"
        using present_tables recorded_inspect pool(1) Some by blast
      then have "k = bk_krw db" using assms(2) by (auto simp: krw_ensure_schema_def krw_tables_def res_bind_eq_Inr)
      with that pool(1) Some show ?thesis by simp
    qed
  qed
  with assms(1) reserve_tables [OF assms(3)] show ?thesis by (auto simp: books_sound_def krw_sane_def)
qed

subsection \<open>Opening a book\<close>

lemma insert_book_Inr:
  assumes "insert_book sha deployment plan db = Inr db'"
  shows "db' = db\<lparr>bk_principals := bk_principals db @ [\<lparr>bo_deployment = deployment, bo_key = op_key plan,
            bo_text = book_json (op_body plan), bo_hash = sha (op_body plan)\<rparr>]\<rparr>"
  using assms by (auto simp: insert_book_def res_bind_eq_Inr)

lemma find_book_None: "find_book deployment db = None \<longleftrightarrow> deployment \<notin> set (map bo_deployment (bk_principals db))"
  by (auto simp: find_book_def find_None_iff)

lemma prepared_opening:
  assumes "prepare_opening now scope observation = Inr plan"
  shows "\<exists>account currency. op_account plan = PStr account \<and> op_key plan = account @ '':'' @ currency
    \<and> dict_get scope ''accountFingerprint'' = PStr account"
  using assms by (auto simp: prepare_opening_def Let_def res_bind_eq_Inr entry_Inr)

lemma allocation_account:
  assumes "validate_shared_allocation sha (PDict scope) (bundle_of (PDict policy) (PDict request)) wanted = Inr (policy, request)"
  shows "dict_get policy ''accountFingerprint'' = dict_get scope ''accountFingerprint''"
proof -
  note v = validated_allocation [OF assms]
  from validate_policy_Inr [OF v(1)] validate_request_Inr [OF v(2)] obtain s t where
    "dict_get policy ''accountFingerprint'' = PStr s" "dict_get request ''accountFingerprint'' = PStr t"
    by (auto simp: valid_policy_def valid_request_def is_sha_def split: pyval.splits)
  with v(3,4) show ?thesis by (auto simp: scope_changed_def same_binding_def binding_keys_def)
qed

lemma validated_pair:
  assumes "validate_shared_allocation sha scope (bundle_of (PDict policy) (PDict request)) wanted = Inr p"
  shows "p = (policy, request)"
  using assms validate_policy_Inr validate_request_Inr
  by (fastforce simp: validate_shared_allocation_def bundle_of_def Let_def res_bind_eq_Inr)

lemma reserve_book_sound:
  assumes "books_sound sha db" "reserve_book sha scope shared wanted db = Inr db'"
    and "shared \<noteq> None \<Longrightarrow> assert_covered sha (dict_get scope ''accountFingerprint'') db = Inr ()"
  shows "books_sound sha db' \<and> bk_principals db' = bk_principals db \<and> (shared = None \<longrightarrow> db' = db)"
proof (cases shared)
  case None
  with assms show ?thesis by (simp add: reserve_book_def)
next
  case (Some pair)
  obtain policy request where pair: "pair = (policy, request)" by (cases pair)
  from assms(2) Some pair obtain p k k' x where
    v: "validate_shared_allocation sha (PDict scope) (bundle_of (PDict policy) (PDict request)) (Some (Some wanted)) = Inr p"
    and k: "krw_ensure_schema (bk_krw db) = Inr k" "reserve_in_transaction k (PDict policy) (PDict request) = Inr (k', x)"
    and db': "db' = db\<lparr>bk_krw := k'\<rparr>"
    by (auto simp: reserve_book_def res_bind_eq_Inr)
  from validated_pair [OF v] v have "dict_get policy ''accountFingerprint'' = dict_get scope ''accountFingerprint''"
    using allocation_account by blast
  with reserve_sound [OF assms(1) k] assms(3) Some db' show ?thesis by simp
qed

lemma open_book_sound:
  assumes "books_sound sha db" "open_book sha guard scope shared plan db = Inr db'"
    and "op_account plan = PStr account" "op_key plan = account @ '':'' @ currency"
    and "dict_get scope ''accountFingerprint'' = PStr account"
  shows "books_sound sha db'"
proof -
  from assms(2) obtain pool deployment wanted db1 where
    pool: "inspect_in_transaction (bk_krw db) (PStr account) = Inr pool"
    and free: "kis_require (shared \<noteq> None \<or> pool = None) ''KIS_SHARED_KRW_EXISTING_POOL_REQUIRES_EXACT_RESERVATION'' = Inr ()"
    and covered: "(if shared = None then Inr ()
       else assert_owned_books_covered sha (py_str (PStr account)) pool (bk_principals db)) = Inr ()"
    and db1: "reserve_book sha scope shared wanted db = Inr db1"
    and db': "(if find_book deployment db = None then insert_book sha deployment plan db1 else Inr db1) = Inr db'"
    and after: "(if shared = None then Inr () else assert_covered sha (PStr account) db') = Inr ()"
    unfolding open_book_def Let_def res_bind_eq_Inr assms(3) by auto
  note insp = inspect_in_transaction_Inr [OF pool, simplified]
  have "shared \<noteq> None \<Longrightarrow> assert_covered sha (PStr account) db = Inr ()"
    using pool covered by (simp add: assert_covered_def split: if_splits)
  with reserve_book_sound [OF assms(1) db1] assms(5) have s: "books_sound sha db1" "bk_principals db1 = bk_principals db"
    "shared = None \<Longrightarrow> db1 = db" by auto
  show ?thesis
  proof (cases "find_book deployment db")
    case (Some row)
    with db' s(1) show ?thesis by simp
  next
    case None
    define row where "row = \<lparr>bo_deployment = deployment, bo_key = op_key plan, bo_text = book_json (op_body plan),
        bo_hash = sha (op_body plan)\<rparr>"
    from None db' have "insert_book sha deployment plan db1 = Inr db'" by simp
    from insert_book_Inr [OF this] have new: "bk_krw db' = bk_krw db1" "bk_principals db' = bk_principals db @ [row]"
      by (simp_all add: row_def s(2))
    have "distinct (map bo_deployment (bk_principals db'))"
      using s(1,2) None by (auto simp: books_sound_def new find_book_None row_def)
    moreover have "krw_sane (bk_krw db')" using s(1) by (simp add: books_sound_def new)
    moreover have "assert_owned_books_covered sha a (Some b) (bk_principals db') = Inr ()"
      if b: "krw_inspect (bk_krw db') a = Inr (Some b)" for a b
    proof (cases "a = account")
      case True
      have "shared \<noteq> None"
      proof
        assume none: "shared = None"
        then have "krw_inspect (bk_krw db) account = Inr (Some b)" using b True new(1) s(3) by simp
        with insp(2) free none show False by simp
      qed
      with after b True show ?thesis
        by (auto simp: assert_covered_def res_bind_eq_Inr dest: inspect_in_transaction_Inr)
    next
      case False
      have old: "assert_owned_books_covered sha a (Some b) (bk_principals db) = Inr ()"
        using sound_krw [OF s(1)] b by (simp add: new(1) s(2))
      have "is_sha (PStr a)"
        using inspect_accepted [OF b] by (auto simp: accepted_pool_def valid_policy_def)
      with False insp(1) like_account [of a account] have "\<not> sql_like (a @ '':%'') (bo_key row)"
        by (auto simp: row_def assms(4))
      with old show ?thesis by (simp add: books_covered_iff new(2) account_books_snoc)
    qed
    ultimately show ?thesis by (simp add: books_sound_def)
  qed
qed

subsection \<open>Every reachable store\<close>

lemma step_sound:
  assumes "kis_step sha db db'" "books_sound sha db"
  shows "books_sound sha db'"
  using assms(1)
proof cases
  case (opened guard now scope observation reservation answer)
  show ?thesis
  proof (cases "db' = db")
    case False
    with opened obtain plan shared db2 where p: "prepare_opening now scope observation = Inr plan"
      "open_book sha guard scope shared plan (in_begun db) = Inr db2" "db' = committed db2"
      by (auto simp: initialize_book_def res_bind_eq_Inr split: sum.splits)
    from prepared_opening [OF p(1)] open_book_sound [OF _ p(2)] p(3) assms(2) show ?thesis by auto
  qed (use assms(2) in simp)
next
  case (reserved guard pv rv result)
  then obtain policy request k k' where
    c: "assert_covered sha (dict_get policy ''accountFingerprint'') (in_begun db) = Inr ()"
    "krw_ensure_schema (bk_krw (in_begun db)) = Inr k" "reserve_in_transaction k (PDict policy) (PDict request) = Inr (k', result)"
    "db' = committed (db\<lparr>bk_krw := k'\<rparr>)"
    by (auto simp: reserve_shared_krw_budget_def res_bind_eq_Inr)
  have "books_sound sha ((in_begun db)\<lparr>bk_krw := k'\<rparr>)"
    by (rule reserve_sound [OF _ c(2,3,1)]) (use assms(2) in simp)
  then show ?thesis by (simp add: c(4) in_begun_def books_sound_def committed_def)
next
  case (filled scope receipt added)
  then have "bk_principals db' = bk_principals db" "bk_krw db' = bk_krw db"
    by (auto simp: append_terminal_receipt_def Let_def res_bind_eq_Inr split: option.splits)
  with assms(2) show ?thesis by (simp add: books_sound_def)
qed

lemma steps_sound: "(kis_step sha)\<^sup>*\<^sup>* db db' \<Longrightarrow> books_sound sha db \<Longrightarrow> books_sound sha db'"
  by (induction rule: rtranclp_induct) (auto intro: step_sound)

text \<open>A sum over rows that each take a different receipt is at most the sum over the receipts.\<close>

lemma sum_by_receipts:
  fixes f :: "'a \<Rightarrow> 'c :: ordered_ab_group_add"
  assumes "distinct (map d rows)" "distinct (map e rs)" "\<forall>r \<in> set rs. 0 \<le> g r"
    and "\<forall>row \<in> set rows. \<exists>r \<in> set rs. e r = d row \<and> f row \<le> g r"
  shows "sum_list (map f rows) \<le> sum_list (map g rs)"
  using assms
proof (induction rows arbitrary: rs)
  case Nil
  then show ?case by (auto intro!: sum_list_nonneg)
next
  case (Cons row rows)
  then obtain r where r: "r \<in> set rs" "e r = d row" "f row \<le> g r" by auto
  have dist: "distinct rs" using Cons.prems(2) by (simp add: distinct_map)
  have "sum_list (map f rows) \<le> sum_list (map g (remove1 r rs))"
  proof (rule Cons.IH)
    show "distinct (map e (remove1 r rs))" using Cons.prems(2) by (auto simp: distinct_map inj_on_def dist)
    show "\<forall>x \<in> set rows. \<exists>s \<in> set (remove1 r rs). e s = d x \<and> f x \<le> g s"
    proof
      fix x assume x: "x \<in> set rows"
      with Cons.prems(4) obtain s where s: "s \<in> set rs" "e s = d x" "f x \<le> g s" by auto
      have "d row \<notin> d ` set rows" using Cons.prems(1) by simp
      with x have "d x \<noteq> d row" by (metis imageI)
      with s r dist show "\<exists>s \<in> set (remove1 r rs). e s = d x \<and> f x \<le> g s" by (intro bexI [of _ s]) auto
    qed
  qed (use Cons.prems dist in \<open>auto dest: notin_set_remove1\<close>)
  with r show ?case by (simp add: sum_list_map_remove1 [OF r(1)] add_mono)
qed

text \<open>
  C21: The owned capital of an account stays within its reviewed budget. In every store reached from an empty
  one, whatever guards, clocks and inputs, if the budget of an account reads as a pool then every book of the
  account is in won, has a positive principal that its own reservation covers, rounded up to whole won, and
  the principals together are at most the reserved total, which is at most the reviewed cap.
\<close>

theorem owned_books_within_cap:
  assumes "fresh_books start" "(kis_step sha)\<^sup>*\<^sup>* start db" "krw_inspect (bk_krw db) account = Inr (Some b)"
  shows "sum_list (map book_principal (account_books account (bk_principals db))) \<le> of_int (kb_reserved b)
    \<and> kb_reserved b \<le> kb_cap b
    \<and> (\<forall>row \<in> set (account_books account (bk_principals db)). bo_key row = account @ '':KRW'' \<and> 0 < book_principal row
         \<and> (\<exists>r \<in> set (kb_receipts b). receipt_deployment r = bo_deployment row \<and> \<lceil>book_principal row\<rceil> \<le> receipt_amount r))"
proof -
  have sound: "books_sound sha db" by (rule steps_sound [OF assms(2) fresh_sound [OF assms(1)]])
  let ?books = "account_books account (bk_principals db)"
  have covered: "\<forall>row \<in> set ?books. book_covered sha account (Some b) row = Inr ()"
    using sound_krw [OF sound assms(3)] by (simp add: books_covered_iff list_all_iff)
  note acc = inspect_accepted [OF assms(3)]
  have "sum_list (map book_principal ?books) \<le> sum_list (map (\<lambda>r. rat_of_int (receipt_amount r)) (kb_receipts b))"
  proof (rule sum_by_receipts [where d = bo_deployment and e = receipt_deployment])
    show "distinct (map bo_deployment ?books)"
      using sound by (simp add: books_sound_def account_books_def distinct_map_filter)
    show "distinct (map receipt_deployment (kb_receipts b))" using acc by (simp add: accepted_pool_def)
    show "\<forall>r \<in> set (kb_receipts b). 0 \<le> rat_of_int (receipt_amount r)"
      using acc accepted_fields(3) unfolding accepted_pool_def list_all_iff by fastforce
    show "\<forall>row \<in> set ?books. \<exists>r \<in> set (kb_receipts b). receipt_deployment r = bo_deployment row
        \<and> book_principal row \<le> rat_of_int (receipt_amount r)"
      using covered book_covered_facts ceiling_le_iff by blast
  qed
  also have "\<dots> = of_int (kb_reserved b)"
    using acc by (simp add: accepted_pool_def sum_list_of_int [symmetric] comp_def)
  finally show ?thesis using covered book_covered_facts inspect_cap [OF assms(3)] by blast
qed

theorem owned_books_within_cap_witness:
  "\<exists>db b. (kis_step one_sha)\<^sup>*\<^sup>* no_books db \<and> krw_inspect (bk_krw db) demo_krw_account = Inr (Some b)
     \<and> sum_list (map book_principal (account_books demo_krw_account (bk_principals db))) = 400
     \<and> (400::rat) \<le> of_int (kb_reserved b) \<and> kb_reserved b \<le> kb_cap b"
proof -
  obtain db :: books and b :: krw_pool and answer where o: "initialize_book one_sha (\<lambda>_. Inr ()) 0 one_scope one_observation
       (Some (bundle_of (PDict demo_krw_policy) (PDict (demo_krw_request ''first'' ''alpha'')))) no_books = (db, answer)"
     "krw_inspect (bk_krw db) demo_krw_account = Inr (Some b)" "bk_principals db = [one_book]" "book_principal one_book = 400"
    using one_book_opened by blast
  from kis_step.opened [OF o(1)] have reach: "(kis_step one_sha)\<^sup>*\<^sup>* no_books db" by (rule r_into_rtranclp)
  have fresh: "fresh_books no_books" by (simp add: fresh_books_def no_books_def krw_empty_def)
  have like: "sql_like (demo_krw_account @ '':%'') (demo_krw_account @ '':KRW'')" by code_simp
  then have books: "account_books demo_krw_account (bk_principals db) = [one_book]"
    by (simp add: account_books_def o(3)) (simp add: one_book_def)
  have sum: "sum_list (map book_principal (account_books demo_krw_account (bk_principals db))) = 400"
    by (simp add: books o(4))
  with owned_books_within_cap [OF fresh reach o(2)] reach o(2) show ?thesis by metis
qed

end
