(* ===== verification/Kis_Projection.thy ===== *)
theory Kis_Projection
  imports Kis_Books
begin

section \<open>Owned capital: projections are exact\<close>

text \<open>
  Under 2048 digits the sums of \<open>project\<close> never round: a number that \<open>decimal_value\<close> accepts has at most 256
  digits and an exponent between -256 and 256, so it is an integer multiple of \<open>10 ^ (- 256)\<close> below
  \<open>10 ^ 512\<close>, and up to \<open>10 ^ 1000\<close> of them add up to fewer than 2048 digits (\<open>bounded\<close>).
\<close>

definition ten :: "nat \<Rightarrow> rat" where "ten n = 10 ^ n"

lemma ten_simps: "ten m * ten n = ten (m + n)" "0 < ten n" "0 \<le> ten n"
  by (simp_all add: ten_def power_add)

lemma ten_mono: "m \<le> n \<Longrightarrow> ten m \<le> ten n"
  by (simp add: ten_def power_increasing)

lemma ten_strict: "m < n \<Longrightarrow> ten m < ten n"
  by (simp add: ten_def power_strict_increasing)

definition bounded :: "rat \<Rightarrow> pydec \<Rightarrow> bool" where
  "bounded k a \<longleftrightarrow> - 256 \<le> pd_exp a \<and> \<bar>dec_value a\<bar> \<le> k * ten 512"

lemma ten_int: "rat_of_int c < ten n \<longleftrightarrow> c < 10 ^ n" "rat_of_int c \<le> ten n \<longleftrightarrow> c \<le> 10 ^ n"
  by (metis of_int_less_iff of_int_numeral of_int_power ten_def) (metis of_int_le_iff of_int_numeral of_int_power ten_def)

lemma ndigits_le:
  assumes "0 \<le> c" "c < 10 ^ n" "0 < n"
  shows "ndigits c \<le> n"
proof (cases "c = 0")
  case False
  with assms(1) have "10 ^ (ndigits c - 1) \<le> c" using ndigits_bounds [of c] by simp
  then have "(10::int) ^ (ndigits c - 1) < 10 ^ n" using assms(2) by (rule le_less_trans)
  then have "ndigits c - 1 < n" by (rule power_less_imp_less_exp [rotated]) simp
  then show ?thesis by simp
qed (use assms(3) in \<open>simp add: ndigits.simps\<close>)

lemma digits_bound:
  assumes "ndigits (int c) \<le> n"
  shows "rat_of_nat c \<le> ten n"
proof (cases "c = 0")
  case False
  then have "int c < 10 ^ ndigits (int c)" using ndigits_bounds [of "int c"] by linarith
  then have "rat_of_int (int c) < ten (ndigits (int c))" by (simp only: ten_int)
  with ten_mono [OF assms] show ?thesis by simp
qed (simp add: ten_simps)

lemma wide_fix_exact: "rat_of_nat (pd_coeff a) < ten 2048 \<Longrightarrow> wide_fix a = a"
proof -
  assume "rat_of_nat (pd_coeff a) < ten 2048"
  then have "rat_of_int (int (pd_coeff a)) < ten 2048" by simp
  then have "int (pd_coeff a) < 10 ^ 2048" by (simp only: ten_int)
  then have "ndigits (int (pd_coeff a)) \<le> 2048" by (rule ndigits_le [OF of_nat_0_le_iff]) simp
  then show ?thesis by (simp add: wide_fix_def)
qed

lemma powi_256: "- 256 \<le> e \<Longrightarrow> 1 \<le> 10 powi e * ten 256"
proof -
  assume "- 256 \<le> e"
  then have "(10::rat) powi (- int 256) \<le> 10 powi e" by (intro power_int_increasing) simp_all
  then have "(10::rat) powi (- int 256) * ten 256 \<le> 10 powi e * ten 256"
    using ten_simps(3) by (rule mult_right_mono)
  moreover have "(10::rat) powi (- int n) * ten n = 1" for n by (simp add: power_int_minus ten_def)
  ultimately show ?thesis by metis
qed

text \<open>The coefficient of a bounded value at a small enough exponent fits.\<close>

lemma coeff_fits:
  assumes "of_int s * 10 powi e = v" "- 256 \<le> e" "\<bar>v\<bar> \<le> k * ten 512" "k \<le> ten 1200"
  shows "rat_of_int \<bar>s\<bar> < ten 2048"
proof -
  have "rat_of_int \<bar>s\<bar> * 1 \<le> rat_of_int \<bar>s\<bar> * (10 powi e * ten 256)"
    using powi_256 [OF assms(2)] by (intro mult_left_mono) simp_all
  also have "\<dots> = \<bar>v\<bar> * ten 256" by (simp add: assms(1) [symmetric] abs_mult)
  also have "\<dots> \<le> k * ten 512 * ten 256" using assms(3) ten_simps(3) by (rule mult_right_mono)
  also have "\<dots> \<le> ten 1200 * ten 512 * ten 256" using assms(4) ten_simps(3) by (intro mult_right_mono)
  also have "\<dots> < ten 2048" by (simp add: ten_simps(1) ten_strict)
  finally show ?thesis by simp
qed

lemma nat_abs_rat: "rat_of_nat (nat \<bar>s\<bar>) = rat_of_int \<bar>s\<bar>"
  by simp

lemma wide_add_exact:
  assumes "bounded j a" "bounded k b" "j + k \<le> ten 1200"
  shows "dec_value (wide_add a b) = dec_value a + dec_value b \<and> bounded (j + k) (wide_add a b)"
proof -
  define e where "e = min (pd_exp a) (pd_exp b)"
  define s where "s = coeff_at e a + coeff_at e b"
  define r where "r = PyDec (if s = 0 then pd_neg a \<and> pd_neg b else s < 0) (nat \<bar>s\<bar>) e"
  have e: "- 256 \<le> e" using assms(1,2) by (simp add: bounded_def e_def)
  have v: "of_int s * 10 powi e = dec_value a + dec_value b"
    using value_coeff_at [of e a] value_coeff_at [of e b] by (simp add: s_def e_def distrib_right)
  have "\<bar>dec_value a\<bar> \<le> j * ten 512" "\<bar>dec_value b\<bar> \<le> k * ten 512" using assms(1,2) by (simp_all add: bounded_def)
  then have small: "\<bar>dec_value a + dec_value b\<bar> \<le> (j + k) * ten 512" by (simp only: distrib_right)
  have "wide_fix r = r"
    using coeff_fits [OF v e small assms(3)] by (intro wide_fix_exact) (simp only: r_def pydec.sel nat_abs_rat)
  moreover have "wide_add a b = wide_fix r" unfolding wide_add_def Let_def r_def s_def e_def by (rule refl)
  ultimately have sum: "wide_add a b = r" by simp
  have "signed_coeff r = s" by (auto simp: signed_coeff_def r_def)
  then have r: "dec_value r = dec_value a + dec_value b" using v by (simp add: dec_value_def r_def)
  have "pd_exp r = e" by (simp add: r_def)
  with small e show ?thesis by (simp add: sum r bounded_def)
qed

lemma bounded_flip [simp]: "bounded k (pd_flip a) = bounded k a"
  unfolding bounded_def dec_value_flip by (simp add: pd_flip_def)

lemma wide_sub_exact:
  assumes "bounded j a" "bounded k b" "j + k \<le> ten 1200"
  shows "dec_value (wide_sub a b) = dec_value a - dec_value b \<and> bounded (j + k) (wide_sub a b)"
  using wide_add_exact [of j a k "pd_flip b"] assms by (simp add: wide_sub_def)

lemma wide_minus_exact:
  assumes "bounded k a" "k \<le> ten 1200"
  shows "dec_value (wide_minus a) = - dec_value a \<and> bounded k (wide_minus a)"
proof -
  define r where "r = (if pd_coeff a = 0 then PyDec False 0 (pd_exp a) else pd_flip a)"
  have v: "of_int (signed_coeff a) * 10 powi pd_exp a = dec_value a" by (simp add: dec_value_def)
  have a: "- 256 \<le> pd_exp a" "\<bar>dec_value a\<bar> \<le> k * ten 512" using assms(1) by (simp_all add: bounded_def)
  have "rat_of_nat (pd_coeff r) = rat_of_int \<bar>signed_coeff a\<bar>" by (simp add: r_def signed_coeff_def pd_flip_def)
  with coeff_fits [OF v a assms(2)] have "wide_fix r = r" by (intro wide_fix_exact) simp
  then have eq: "wide_minus a = r" by (simp add: wide_minus_def r_def)
  have "dec_value r = - dec_value a" by (simp add: r_def dec_value_def signed_coeff_def pd_flip_def)
  moreover have "pd_exp r = pd_exp a" by (simp add: r_def pd_flip_def)
  ultimately show ?thesis using a by (simp add: eq bounded_def)
qed

lemma bounded_mono: "bounded j a \<Longrightarrow> j \<le> k \<Longrightarrow> bounded k a"
  unfolding bounded_def by (meson mult_right_mono order_trans ten_simps(3))

lemma bounded_zero: "0 \<le> k \<Longrightarrow> bounded k pd_zero"
  unfolding bounded_def dec_value_zero by (simp add: pd_zero_def ten_simps)

lemma decimal_value_Inr:
  assumes "decimal_value label positive v = Inr a"
  shows "dec_read (py_str v) = Some a" "0 \<le> dec_value a" "positive \<Longrightarrow> 0 < dec_value a" "bounded 1 a"
proof -
  from assms show "dec_read (py_str v) = Some a" "0 \<le> dec_value a" "positive \<Longrightarrow> 0 < dec_value a"
    by (auto simp: decimal_value_def split: option.splits if_splits)
  from assms have d: "ndigits (int (pd_coeff a)) \<le> 256" "\<bar>pd_exp a\<bar> \<le> 256"
    by (auto simp: decimal_value_def split: option.splits if_splits)
  have "\<bar>rat_of_int (signed_coeff a)\<bar> = rat_of_nat (pd_coeff a)" by (simp add: signed_coeff_def)
  with digits_bound [OF d(1)] have c: "\<bar>rat_of_int (signed_coeff a)\<bar> \<le> ten 256" by simp
  have "(10::rat) powi pd_exp a \<le> 10 powi (int 256)" using d(2) by (intro power_int_increasing) simp_all
  moreover have "(10::rat) powi (int n) = ten n" for n by (simp add: ten_def)
  ultimately have "(10::rat) powi pd_exp a \<le> ten 256" by metis
  then have "\<bar>rat_of_int (signed_coeff a)\<bar> * \<bar>10 powi pd_exp a\<bar> \<le> ten 256 * ten 256"
    using c ten_simps(3) by (intro mult_mono) simp_all
  then have "\<bar>dec_value a\<bar> \<le> ten 512" by (simp only: dec_value_def abs_mult ten_simps(1)) simp
  with d(2) show "bounded 1 a" by (simp add: bounded_def)
qed

subsection \<open>What the receipts say\<close>

definition receipt_body :: "fill_row \<Rightarrow> pyval" where
  "receipt_body row = (case bt_value (fr_text row) of Inr v \<Rightarrow> v | Inl _ \<Rightarrow> PNone)"

definition receipt_value :: "string \<Rightarrow> fill_row \<Rightarrow> pyval" where
  "receipt_value k row = dict_get (as_dict (receipt_body row)) k"

definition receipt_number :: "string \<Rightarrow> fill_row \<Rightarrow> rat" where
  "receipt_number k row = (case dec_read (py_str (receipt_value k row)) of Some a \<Rightarrow> dec_value a | None \<Rightarrow> 0)"

text \<open>What a receipt moves: money in or out, and the shares of its strategy.\<close>

definition traded :: "fill_row \<Rightarrow> rat" where
  "traded row = (if receipt_value ''side'' row = PStr ''SELL'' then receipt_number ''filledNotional'' row
                 else - receipt_number ''filledNotional'' row)"

definition shares_of :: "pyval \<Rightarrow> fill_row \<Rightarrow> rat" where
  "shares_of sid row =
     (if receipt_value ''strategyInstanceId'' row \<noteq> sid then 0
      else if receipt_value ''side'' row = PStr ''BUY'' then receipt_number ''quantity'' row
      else - receipt_number ''quantity'' row)"

lemma read_amount:
  assumes "bt_value (fr_text row) = Inr receipt" "entry receipt k = Inr v" "decimal_value label positive v = Inr a"
  shows "receipt_number k row = dec_value a"
  using assms decimal_value_Inr(1) [OF assms(3)]
  by (auto simp: receipt_number_def receipt_value_def receipt_body_def entry_Inr)

lemma read_value:
  assumes "bt_value (fr_text row) = Inr receipt" "entry receipt k = Inr v"
  shows "receipt_value k row = v"
  using assms by (auto simp: receipt_value_def receipt_body_def entry_Inr)

lemma project_fill_Inr:
  assumes "project_fill sha h row = Inr h'"
  obtains paid reserve moved sid held where
    "bounded 1 paid" "bounded 1 reserve" "bounded 1 moved" "dec_value paid = traded row"
    "dec_value reserve = receipt_number ''costReserve'' row" "receipt_value ''strategyInstanceId'' row = sid"
    "dec_value moved = shares_of sid row" "map_of (kh_positions h) sid = Some held"
    "kh_gross h' = wide_add (kh_gross h) paid" "kh_holdback h' = wide_add (kh_holdback h) reserve"
    "kh_cash h' = wide_sub (kh_gross h') (kh_holdback h')"
    "kh_positions h' = assoc_put sid (wide_add held moved) (kh_positions h)"
    "0 \<le> dec_value (kh_cash h')" "0 \<le> dec_value (wide_add held moved)"
proof -
  from assms obtain receipt qv quantity nv notional rv reserve strategy side sid where
    b: "bt_value (fr_text row) = Inr receipt"
    and q: "entry receipt ''quantity'' = Inr qv" "decimal_value ''fill quantity'' False qv = Inr quantity"
    and n: "entry receipt ''filledNotional'' = Inr nv" "decimal_value ''fill notional'' False nv = Inr notional"
    and r: "entry receipt ''costReserve'' = Inr rv" "decimal_value ''cost holdback'' False rv = Inr reserve"
    and s: "entry receipt ''strategyInstanceId'' = Inr strategy" "entry receipt ''side'' = Inr side"
    and key: "as_key strategy = Inr sid"
    and rest: "(case map_of (kh_positions h) sid of
         None \<Rightarrow> Inl (KeyError ''strategyInstanceId'')
       | Some held \<Rightarrow>
           (let paid = (if side = PStr ''SELL'' then notional else wide_minus notional);
                moved = (if side = PStr ''BUY'' then quantity else wide_minus quantity);
                gross = wide_add (kh_gross h) paid; holdback = wide_add (kh_holdback h) reserve;
                cash = wide_sub gross holdback; held' = wide_add held moved in
            if dec_value cash < 0 \<or> dec_value held' < 0
            then Inl (ValueError ''KIS_OWNED_OVERSPEND_OR_OVERSELL_RECONCILIATION_REQUIRED'')
            else Inr \<lparr>kh_gross = gross, kh_holdback = holdback, kh_cash = cash,
                      kh_positions = assoc_put sid held' (kh_positions h)\<rparr>)) = Inr h'"
    unfolding project_fill_def Let_def by (elim res_bindE) blast
  define paid where "paid = (if side = PStr ''SELL'' then notional else wide_minus notional)"
  define moved where "moved = (if side = PStr ''BUY'' then quantity else wide_minus quantity)"
  note rest = rest [unfolded Let_def, folded paid_def moved_def]
  have sid: "sid = strategy" using key by simp
  from rest sid obtain held where held: "map_of (kh_positions h) strategy = Some held"
    by (auto simp: res_bind_eq_Inr split: option.splits)
  from rest held sid have ok: "0 \<le> dec_value (wide_sub (wide_add (kh_gross h) paid) (wide_add (kh_holdback h) reserve))"
    "0 \<le> dec_value (wide_add held moved)"
    "h' = \<lparr>kh_gross = wide_add (kh_gross h) paid, kh_holdback = wide_add (kh_holdback h) reserve,
        kh_cash = wide_sub (wide_add (kh_gross h) paid) (wide_add (kh_holdback h) reserve),
        kh_positions = assoc_put strategy (wide_add held moved) (kh_positions h)\<rparr>"
    by (auto simp: res_bind_eq_Inr split: if_splits)
  have one: "1 \<le> ten 1200" using ten_mono [of 0 1200] by (simp add: ten_def [of 0])
  note v = read_amount [OF b q] read_amount [OF b n] read_amount [OF b r] read_value [OF b s(1)] read_value [OF b s(2)]
  have "bounded 1 paid \<and> dec_value paid = traded row"
    using decimal_value_Inr(4) [OF n(2)] wide_minus_exact [OF decimal_value_Inr(4) [OF n(2)] one]
    by (simp add: paid_def traded_def v)
  moreover have "bounded 1 moved \<and> dec_value moved = shares_of strategy row"
    using decimal_value_Inr(4) [OF q(2)] wide_minus_exact [OF decimal_value_Inr(4) [OF q(2)] one]
    by (simp add: moved_def shares_of_def v)
  ultimately show thesis
    using that [of paid reserve moved strategy held] decimal_value_Inr(4) [OF r(2)] v(3,4) held ok by simp
qed

subsection \<open>The fold\<close>

definition holds_exactly :: "rat \<Rightarrow> kis_holdings \<Rightarrow> fill_row list \<Rightarrow> kis_holdings \<Rightarrow> bool" where
  "holds_exactly k start rows h \<longleftrightarrow>
     dec_value (kh_gross h) = dec_value (kh_gross start) + sum_list (map traded rows) \<and> bounded k (kh_gross h)
     \<and> dec_value (kh_holdback h) = sum_list (map (receipt_number ''costReserve'') rows) \<and> bounded k (kh_holdback h)
     \<and> dec_value (kh_cash h) = dec_value (kh_gross h) - dec_value (kh_holdback h) \<and> 0 \<le> dec_value (kh_cash h)
     \<and> map fst (kh_positions h) = map fst (kh_positions start)
     \<and> (\<forall>sid held. map_of (kh_positions h) sid = Some held \<longrightarrow>
          dec_value held = sum_list (map (shares_of sid) rows) \<and> bounded k held \<and> 0 \<le> dec_value held)"

lemma holds_step:
  assumes "holds_exactly k start rows h" "project_fill sha h row = Inr h'" "1 \<le> k" "2 * (k + 1) \<le> ten 1200"
  shows "holds_exactly (k + 1) start (rows @ [row]) h'"
proof -
  from project_fill_Inr [OF assms(2)] obtain paid reserve moved sid held where
    b: "bounded 1 paid" "bounded 1 reserve" "bounded 1 moved"
    and v: "dec_value paid = traded row" "dec_value reserve = receipt_number ''costReserve'' row"
      "receipt_value ''strategyInstanceId'' row = sid" "dec_value moved = shares_of sid row"
    and h: "map_of (kh_positions h) sid = Some held"
    and g: "kh_gross h' = wide_add (kh_gross h) paid" "kh_holdback h' = wide_add (kh_holdback h) reserve"
      "kh_cash h' = wide_sub (kh_gross h') (kh_holdback h')"
      "kh_positions h' = assoc_put sid (wide_add held moved) (kh_positions h)"
      "0 \<le> dec_value (kh_cash h')" "0 \<le> dec_value (wide_add held moved)" .
  have k: "k + 1 \<le> ten 1200" "(k + 1) + (k + 1) \<le> ten 1200" using assms(3,4) by simp_all
  have old: "dec_value (kh_gross h) = dec_value (kh_gross start) + sum_list (map traded rows)" "bounded k (kh_gross h)"
    "dec_value (kh_holdback h) = sum_list (map (receipt_number ''costReserve'') rows)" "bounded k (kh_holdback h)"
    "map fst (kh_positions h) = map fst (kh_positions start)"
    using assms(1) by (simp_all add: holds_exactly_def)
  have pos: "dec_value a = sum_list (map (shares_of s) rows) \<and> bounded k a \<and> 0 \<le> dec_value a"
    if "map_of (kh_positions h) s = Some a" for s a
    using assms(1) that unfolding holds_exactly_def by blast
  note gross = wide_add_exact [OF old(2) b(1) k(1), folded g(1)]
  note holdback = wide_add_exact [OF old(4) b(2) k(1), folded g(2)]
  have cash: "dec_value (kh_cash h') = dec_value (kh_gross h') - dec_value (kh_holdback h')"
    unfolding g(3) using wide_sub_exact [OF gross [THEN conjunct2] holdback [THEN conjunct2] k(2)] by (rule conjunct1)
  have held: "dec_value (wide_add held moved) = dec_value held + dec_value moved \<and> bounded (k + 1) (wide_add held moved)"
    by (rule wide_add_exact [OF _ b(3) k(1)]) (use pos [OF h] in blast)
  have others: "shares_of s row = 0" if "s \<noteq> sid" for s using that v(3) by (simp add: shares_of_def)
  have keys: "map fst (kh_positions h') = map fst (kh_positions h)"
    using h map_of_SomeD [OF h] by (force simp: g(4) map_fst_assoc_put)
  have positions: "dec_value a = sum_list (map (shares_of s) (rows @ [row])) \<and> bounded (k + 1) a \<and> 0 \<le> dec_value a"
    if a: "map_of (kh_positions h') s = Some a" for s a
  proof (cases "s = sid")
    case True
    with a have "a = wide_add held moved" by (simp add: g(4))
    with held g(6) pos [OF h] v(4) True show ?thesis by simp
  next
    case False
    with a have "map_of (kh_positions h) s = Some a" by (simp add: g(4))
    from pos [OF this] others [OF False] bounded_mono [of k a "k + 1"] show ?thesis by simp
  qed
  have "dec_value (kh_gross h') = dec_value (kh_gross start) + sum_list (map traded (rows @ [row]))"
    using gross old(1) v(1) by simp
  moreover have "dec_value (kh_holdback h') = sum_list (map (receipt_number ''costReserve'') (rows @ [row]))"
    using holdback old(3) v(2) by simp
  ultimately show ?thesis
    unfolding holds_exactly_def
    using gross [THEN conjunct2] holdback [THEN conjunct2] cash g(5) keys [unfolded old(5)] positions by blast
qed

lemma holds_fold:
  assumes "res_fold (project_fill sha) start rows = Inr h" "holds_exactly 1 start [] start"
    and "rat_of_nat (length rows) \<le> ten 1000"
  shows "holds_exactly (1 + rat_of_nat (length rows)) start rows h"
  using assms(1,3)
proof (induction rows arbitrary: h rule: rev_induct)
  case Nil
  with assms(2) show ?case by simp
next
  case (snoc row rows)
  from snoc.prems(1) obtain m where m: "res_fold (project_fill sha) start rows = Inr m" "project_fill sha m row = Inr h"
    by (auto simp: res_fold_append res_bind_eq_Inr)
  have len: "rat_of_nat (length rows) + 1 \<le> ten 1000" using snoc.prems(2) by simp
  have "2 * (1 + rat_of_nat (length rows) + 1) \<le> ten 1200"
  proof -
    have "2 * (1 + rat_of_nat (length rows) + 1) \<le> 4 * ten 1000" using len ten_mono [of 0 1000] by (simp add: ten_def [of 0])
    also have "4 \<le> ten 1" by (simp add: ten_def)
    then have "4 * ten 1000 \<le> ten 1 * ten 1000" using ten_simps(3) by (rule mult_right_mono)
    also have "\<dots> \<le> ten 1200" unfolding ten_simps(1) by (rule ten_mono) simp
    finally show ?thesis .
  qed
  from holds_step [OF snoc.IH [OF m(1)] m(2) _ this] len show ?case by (simp add: add.commute)
qed

lemma starts_exactly:
  assumes "bounded 1 cash" "0 \<le> dec_value cash"
    and "start = \<lparr>kh_gross = cash, kh_holdback = pd_zero, kh_cash = cash, kh_positions = fold (\<lambda>k. assoc_put k pd_zero) ids []\<rparr>"
  shows "holds_exactly 1 start [] start"
proof -
  have zero: "held = pd_zero" if "map_of (fold (\<lambda>k. assoc_put k pd_zero) ids kvs) sid = Some held"
    "\<forall>s a. map_of kvs s = Some a \<longrightarrow> a = pd_zero" for sid held kvs
    using that by (induction ids arbitrary: kvs) auto
  have "held = pd_zero" if "map_of (kh_positions start) sid = Some held" for sid held
    using zero [of "[]" sid held] that assms(3) by simp
  then have "dec_value held = sum_list (map (shares_of sid) []) \<and> bounded 1 held \<and> 0 \<le> dec_value held"
    if "map_of (kh_positions start) sid = Some held" for sid held
    using that bounded_zero [of 1] by fastforce
  moreover have "kh_gross start = cash" "kh_holdback start = pd_zero" "kh_cash start = cash" by (simp_all add: assms(3))
  ultimately show ?thesis using assms(1,2) by (simp add: holds_exactly_def bounded_zero)
qed

lemma fold_take:
  assumes "res_fold f s rows = Inr h"
  obtains m where "res_fold f s (take n rows) = Inr m"
  using assms res_fold_append [of f s "take n rows" "drop n rows"]
  by (cases "res_fold f s (take n rows)") auto

lemma fold_sealed: "res_fold (project_fill sha) h rows = Inr h' \<Longrightarrow> \<forall>row \<in> set rows. sha (receipt_body row) = fr_hash row"
proof (induction rows arbitrary: h)
  case (Cons row rows)
  then obtain m where m: "project_fill sha h row = Inr m" "res_fold (project_fill sha) m rows = Inr h'" by auto
  from m(1) have "sha (receipt_body row) = fr_hash row"
    by (auto simp: project_fill_def res_bind_eq_Inr receipt_body_def)
  with Cons.IH [OF m(2)] show ?case by simp
qed simp

text \<open>The principal of a book as \<open>project\<close> reads it.\<close>

definition opening_cash :: "book_row \<Rightarrow> rat" where
  "opening_cash row =
     (case bt_value (bo_text row) of
        Inl _ \<Rightarrow> 0
      | Inr body \<Rightarrow>
          (case dec_read (py_str (dict_get (as_dict body) ''principal'')) of Some a \<Rightarrow> dec_value a | None \<Rightarrow> 0))"

definition deployment_fills :: "string \<Rightarrow> books \<Rightarrow> fill_row list" where
  "deployment_fills deployment db = filter (\<lambda>r. fr_deployment r = deployment) (bk_fills db)"

lemma kis_project_parts:
  assumes "kis_project sha scope marks (Some db) = Inr p"
  obtains deployment row cash ids where "dict_get scope ''deploymentId'' = PStr deployment"
    "find_book deployment db = Some row" "bounded 1 cash" "0 \<le> dec_value cash" "dec_value cash = opening_cash row"
    "res_fold (project_fill sha) \<lparr>kh_gross = cash, kh_holdback = pd_zero, kh_cash = cash,
        kh_positions = fold (\<lambda>k. assoc_put k pd_zero) ids []\<rparr> (deployment_fills deployment db) = Inr (kp_owned p)"
    "kp_fills p = length (deployment_fills deployment db)"
proof -
  from assms obtain deployment row body v h where
    e: "entry (PDict scope) ''deploymentId'' = Inr (PStr deployment)"
    and d: "find_book deployment db = Some row" "bt_value (bo_text row) = Inr body" "entry body ''principal'' = Inr v"
      "project_rows sha scope v (deployment_fills deployment db) = Inr h" "kp_owned p = h"
      "kp_fills p = length (deployment_fills deployment db)"
    unfolding kis_project_def deployment_fills_def [symmetric] option.case Let_def
    by (auto simp: res_bind_eq_Inr split: option.splits)
  from d(4) obtain cash members ids where c: "decimal_value ''principal'' False v = Inr cash"
    "res_fold (project_fill sha) \<lparr>kh_gross = cash, kh_holdback = pd_zero, kh_cash = cash,
        kh_positions = fold (\<lambda>k. assoc_put k pd_zero) ids []\<rparr> (deployment_fills deployment db) = Inr h"
    by (auto simp: project_rows_def res_bind_eq_Inr)
  note v = decimal_value_Inr [OF c(1)]
  have "dec_value cash = opening_cash row" using d(2,3) v(1) by (auto simp: opening_cash_def entry_Inr)
  moreover have "dict_get scope ''deploymentId'' = PStr deployment" using e by (simp add: entry_Inr)
  ultimately show thesis using that d v c by blast
qed

text \<open>
  C22: A projection is exact and never in the red. When the capital of a deployment projects, the cash it
  reports is its book's principal plus what its recorded sales brought, less what its purchases cost, less the
  holdbacks for costs, without any rounding; each position is the shares bought less those sold; after every
  single receipt, in the order recorded, cash and positions were not negative; and every receipt still has the
  digest it was stored with. Up to \<open>10 ^ 1000\<close> receipts.
\<close>

theorem owned_projection_exact:
  assumes "kis_project sha scope marks (Some db) = Inr p" "rat_of_nat (length (bk_fills db)) \<le> 10 ^ 1000"
  shows "\<exists>deployment row. dict_get scope ''deploymentId'' = PStr deployment \<and> find_book deployment db = Some row
    \<and> (let rows = deployment_fills deployment db;
           cash = (\<lambda>rs. opening_cash row + sum_list (map traded rs) - sum_list (map (receipt_number ''costReserve'') rs))
       in dec_value (kh_cash (kp_owned p)) = cash rows \<and> (\<forall>n. 0 \<le> cash (take n rows))
        \<and> (\<forall>sid held. map_of (kh_positions (kp_owned p)) sid = Some held \<longrightarrow>
              dec_value held = sum_list (map (shares_of sid) rows) \<and> (\<forall>n. 0 \<le> sum_list (map (shares_of sid) (take n rows))))
        \<and> (\<forall>r \<in> set rows. sha (receipt_body r) = fr_hash r) \<and> kp_fills p = length rows)"
proof -
  from kis_project_parts [OF assms(1)] obtain deployment row cash ids where
    d: "dict_get scope ''deploymentId'' = PStr deployment" "find_book deployment db = Some row"
    and c: "bounded 1 cash" "0 \<le> dec_value cash" "dec_value cash = opening_cash row"
    and run: "res_fold (project_fill sha) \<lparr>kh_gross = cash, kh_holdback = pd_zero, kh_cash = cash,
        kh_positions = fold (\<lambda>k. assoc_put k pd_zero) ids []\<rparr> (deployment_fills deployment db) = Inr (kp_owned p)"
    and n: "kp_fills p = length (deployment_fills deployment db)" .
  let ?rows = "deployment_fills deployment db"
  define start where "start = \<lparr>kh_gross = cash, kh_holdback = pd_zero, kh_cash = cash,
        kh_positions = fold (\<lambda>k. assoc_put k pd_zero) ids []\<rparr>"
  note run = run [folded start_def]
  note st = starts_exactly [OF c(1,2) start_def]
  have gross: "dec_value (kh_gross start) = opening_cash row" by (simp add: start_def c(3))
  have "rat_of_nat (length ?rows) \<le> rat_of_nat (length (bk_fills db))"
    by (simp add: deployment_fills_def)
  from order_trans [OF this assms(2)] have few: "rat_of_nat (length ?rows) \<le> ten 1000" by (simp only: ten_def)
  have every: "\<exists>m. holds_exactly (1 + rat_of_nat (length (take n ?rows))) start (take n ?rows) m" for n
  proof -
    obtain m where m: "res_fold (project_fill sha) start (take n ?rows) = Inr m" by (rule fold_take [OF run])
    have "rat_of_nat (length (take n ?rows)) \<le> rat_of_nat (length ?rows)" by simp
    then have "rat_of_nat (length (take n ?rows)) \<le> ten 1000" using few by (rule order_trans)
    from holds_fold [OF m st this] show ?thesis by blast
  qed
  note final = holds_fold [OF run st few, unfolded holds_exactly_def gross]
  have cash: "0 \<le> opening_cash row + sum_list (map traded (take n ?rows))
      - sum_list (map (receipt_number ''costReserve'') (take n ?rows))" for n
    using every [of n] unfolding holds_exactly_def gross by auto
  have shares: "0 \<le> sum_list (map (shares_of sid) (take n ?rows))"
    if "map_of (kh_positions (kp_owned p)) sid = Some held" for sid held n
  proof -
    from every [of n] obtain m where m: "holds_exactly (1 + rat_of_nat (length (take n ?rows))) start (take n ?rows) m" ..
    have "map fst (kh_positions m) = map fst (kh_positions start)" using m unfolding holds_exactly_def by (elim conjE)
    moreover have "map fst (kh_positions (kp_owned p)) = map fst (kh_positions start)" using final by (elim conjE)
    moreover have "sid \<in> set (map fst (kh_positions (kp_owned p)))" using map_of_SomeD [OF that] by force
    ultimately have "sid \<in> fst ` set (kh_positions m)" by (simp only: list.set_map [symmetric])
    then have "map_of (kh_positions m) sid \<noteq> None" by (simp add: map_of_eq_None_iff)
    then obtain a where "map_of (kh_positions m) sid = Some a" by blast
    with m show ?thesis unfolding holds_exactly_def by metis
  qed
  have total: "dec_value (kh_cash (kp_owned p)) = opening_cash row + sum_list (map traded ?rows)
      - sum_list (map (receipt_number ''costReserve'') ?rows)"
    using final by (elim conjE) (simp only:)
  have held: "\<forall>sid held. map_of (kh_positions (kp_owned p)) sid = Some held \<longrightarrow> dec_value held = sum_list (map (shares_of sid) ?rows)"
    using final by blast
  show ?thesis
    unfolding Let_def
    by (intro exI [of _ deployment] exI [of _ row] conjI allI impI d n fold_sealed [OF run] total cash
        held [rule_format] shares)
qed

subsection \<open>One purchase\<close>

definition held_sha :: "pyval \<Rightarrow> string" where "held_sha v = ''digest''"

definition held_scope :: pydict where
  "held_scope =
     [(''deploymentId'', PStr ''alpha''), (''scopeHash'', PStr ''digest''),
      (''members'', PList [PDict [(''strategyInstanceId'', PStr ''trend''), (''symbol'', PStr ''005930'')]])]"

definition held_book :: book_row where
  "held_book = \<lparr>bo_deployment = ''alpha'', bo_key = ''account:KRW'',
     bo_text = book_json (PDict [(''scope'', PDict held_scope), (''principal'', PStr ''400'')]), bo_hash = ''digest''\<rparr>"

definition held_fill :: fill_row where
  "held_fill = \<lparr>fr_key = ''kis:account:KRX:first'', fr_deployment = ''alpha'',
     fr_text = book_json (PDict [(''strategyInstanceId'', PStr ''trend''), (''side'', PStr ''BUY''), (''quantity'', PStr ''2''),
        (''filledNotional'', PStr ''100''), (''costReserve'', PStr ''1'')]), fr_hash = ''digest''\<rparr>"

definition held_books :: books where
  "held_books = \<lparr>bk_krw = \<lparr>kd_transaction = False, kd_master = [], kd_pools = [], kd_reservations = []\<rparr>,
     bk_principals = [held_book], bk_fills = [held_fill]\<rparr>"

lemma held_numbers:
  "dec_read ''400'' = Some (PyDec False 400 0)" "dec_read ''100'' = Some (PyDec False 100 0)"
  "dec_read ''2'' = Some (PyDec False 2 0)" "dec_read ''1'' = Some (PyDec False 1 0)"
  by code_simp+

lemma held_digits: "ndigits 400 = 3" "ndigits 300 = 3" "ndigits 299 = 3" "ndigits 100 = 3" "ndigits 2 = 1" "ndigits 1 = 1" "ndigits 0 = 1"
  by (simp_all add: ndigits.simps)

lemma held_value: "decimal_value label False (PStr ''400'') = Inr (PyDec False 400 0)"
  "decimal_value label False (PStr ''100'') = Inr (PyDec False 100 0)"
  "decimal_value label False (PStr ''2'') = Inr (PyDec False 2 0)" "decimal_value label False (PStr ''1'') = Inr (PyDec False 1 0)"
  by (simp_all add: decimal_value_def py_str_def held_numbers held_digits dec_value_def signed_coeff_def)

lemma held_entry: "k \<in> set (map fst d) \<Longrightarrow> entry (canon (PDict d)) k = Inr (canon (dict_get d k))"
  by (simp only: entry_canon if_True)

lemma held_projects:
  "\<exists>p. kis_project held_sha held_scope [] (Some held_books) = Inr p \<and> dec_value (kh_cash (kp_owned p)) = 299"
proof -
  let ?start = "\<lparr>kh_gross = PyDec False 400 0, kh_holdback = pd_zero, kh_cash = PyDec False 400 0,
      kh_positions = [(PStr ''trend'', pd_zero)]\<rparr>"
  let ?after = "\<lparr>kh_gross = PyDec False 300 0, kh_holdback = PyDec False 1 0, kh_cash = PyDec False 299 0,
      kh_positions = [(PStr ''trend'', PyDec False 2 0)]\<rparr>"
  have "wide_minus (PyDec False 100 0) = PyDec True 100 0"
    "wide_add (PyDec False 400 0) (PyDec True 100 0) = PyDec False 300 0"
    "wide_add pd_zero (PyDec False 1 0) = PyDec False 1 0" "wide_sub (PyDec False 300 0) (PyDec False 1 0) = PyDec False 299 0"
    "wide_add pd_zero (PyDec False 2 0) = PyDec False 2 0"
    by (simp_all add: wide_minus_def wide_add_def wide_sub_def wide_fix_def pd_flip_def coeff_at_def signed_coeff_def pd_zero_def
      held_digits)
  then have fill: "project_fill held_sha ?start held_fill = Inr ?after"
    by (simp add: project_fill_def held_fill_def book_json_def held_sha_def held_entry held_value Let_def dec_value_def
      signed_coeff_def del: canon.simps(2))
  have rows: "project_rows held_sha held_scope (PStr ''400'') [held_fill] = Inr ?after"
    using fill by (simp add: project_rows_def held_value entry_def read_member_def held_scope_def)
  have body: "bt_value (bo_text held_book) = Inr (canon (PDict [(''scope'', PDict held_scope), (''principal'', PStr ''400'')]))"
    by (simp add: held_book_def book_json_def)
  have "kis_project held_sha held_scope [] (Some held_books)
      = Inr \<lparr>kp_equity = None, kp_owned = ?after, kp_scope_hash = PStr ''digest'', kp_fills = 1\<rparr>"
  proof -
    have "find_book ''alpha'' held_books = Some held_book" by (simp add: find_book_def held_books_def held_book_def)
    moreover have "filter (\<lambda>r. fr_deployment r = ''alpha'') (bk_fills held_books) = [held_fill]"
      by (simp add: held_books_def held_fill_def)
    moreover have "entry (PDict held_scope) ''deploymentId'' = Inr (PStr ''alpha'')"
      "entry (PDict held_scope) ''scopeHash'' = Inr (PStr ''digest'')" by (simp_all add: entry_def held_scope_def)
    moreover have "py_eq (canon (PDict held_scope)) (PDict held_scope)" by (simp add: py_eq_def del: canon.simps(2))
    moreover have "held_sha v = bo_hash held_book" for v by (simp add: held_sha_def held_book_def)
    moreover have "res_fold (add_mark []) (Some (kh_cash ?after)) (kh_positions ?after) = Inr None"
      by (simp add: add_mark_def)
    ultimately show ?thesis
      using rows by (simp add: kis_project_def body held_entry del: canon.simps(2))
  qed
  then show ?thesis by (simp add: dec_value_def signed_coeff_def)
qed

theorem owned_projection_exact_witness:
  "\<exists>p. kis_project held_sha held_scope [] (Some held_books) = Inr p \<and> dec_value (kh_cash (kp_owned p)) = 299
     \<and> opening_cash held_book + sum_list (map traded (deployment_fills ''alpha'' held_books))
         - sum_list (map (receipt_number ''costReserve'') (deployment_fills ''alpha'' held_books)) = 299"
proof -
  obtain p where p: "kis_project held_sha held_scope [] (Some held_books) = Inr p" "dec_value (kh_cash (kp_owned p)) = 299"
    using held_projects by blast
  have one: "rat_of_nat (length (bk_fills held_books)) = 1" by (simp add: held_books_def)
  have "ten 0 \<le> ten 1000" by (rule ten_mono) simp
  then have "rat_of_nat (length (bk_fills held_books)) \<le> 10 ^ 1000" by (simp only: one ten_def power_0)
  from owned_projection_exact [OF p(1) this] obtain deployment row where
    e: "dict_get held_scope ''deploymentId'' = PStr deployment" "find_book deployment held_books = Some row"
    "dec_value (kh_cash (kp_owned p)) = opening_cash row + sum_list (map traded (deployment_fills deployment held_books))
       - sum_list (map (receipt_number ''costReserve'') (deployment_fills deployment held_books))"
    unfolding Let_def by blast
  have "deployment = ''alpha''" using e(1) by (simp add: held_scope_def)
  moreover from this e(2) have "row = held_book" by (simp add: find_book_def held_books_def held_book_def)
  ultimately show ?thesis using p e(3) by metis
qed

end
