(* ===== verification/Spec2Isabelle.thy ===== *)
theory Spec2Isabelle
  imports Portfolio_Fee_Laws Portfolio_Plan_Laws Portfolio_Ledger_Laws Gov_Edge_Cases Gov_Integrity_Laws Krw_Budget Wire_Laws Futures_Transport Owned_Lock Toss_Types Confirm_Store Intent_Safety Kis_Budget Kis_Projection
begin

text \<open>
  Live trader: its ledgers, its governance store and its order authority.

  The program trades real accounts at KIS, Upbit, Binance and Toss. Most of its code is orchestration
  (HTTP server, broker clients, threads, lane coordinators). The decisions that must not be wrong are
  taken by a few modules that keep durable state and are called by everything else. These are modelled,
  function by function, from \<open>src/live_trader\<close>:

  \<^item> \<open>portfolio_execution.py\<close>: several strategy sleeves share one broker account. Their targets become one
    net order with a sealed plan; its executions are distributed over the sleeves; everything is recorded
    in an append-only, hash-chained SQLite ledger. Theories \<open>Portfolio_Plan\<close> (plans and their
    metadata), \<open>Portfolio_Fill\<close> (quantities and fees), \<open>Portfolio_Ledger\<close> (scopes, accepted orders,
    events), \<open>Portfolio_Sync\<close> (executions) and \<open>Portfolio_Views\<close> (chain check, holdings, balances,
    reconciliation after a restart).
  \<^item> \<open>operational_governance.py\<close>: deployment manifests, preflights, runtime sessions and incidents in an
    event-sourced store, and \<open>runtime_authorization\<close>, which every live order asks. Theories \<open>Gov_Fields\<close>,
    \<open>Gov_Records\<close>, \<open>Gov_Store\<close>, \<open>Gov_Runtime\<close>, \<open>Gov_Incident\<close>, \<open>Gov_Views\<close>, in the order of the file.
  \<^item> \<open>kis_shared_krw_reservations.py\<close>: one reviewed KRW cap of an account, divided among deployments by
    chained receipts. Theories \<open>Krw_Fields\<close>, \<open>Krw_Reservation\<close>.
  \<^item> \<open>kis_shared_krw_bridge.py\<close> with the amounts of \<open>native_spot_quantity.py\<close>: reviewed allocations of that cap and the
    plans bound to a deployment's scope (\<open>Kis_Bridge\<close>); \<open>kis_owned_capital.py\<close>: the append-only books of
    principals and terminal receipts beside the cap's tables, and the cash and positions projected from them
    (\<open>Kis_Books\<close>).
  \<^item> \<open>emergency_stop.py\<close>, \<open>short_live_order_authority.py\<close>, \<open>binance_order_authority.py\<close>,
    \<open>upbit_order_authority.py\<close>: what an order passes right before it is sent: the Kill latch
    (\<open>Stop_Latch\<close>), the session that owns the route and the exact dispatched order (\<open>Short_Authority\<close>,
    \<open>Short_Wire\<close>), the final boundaries and the owned lock (\<open>Route_Authority\<close>).
  \<^item> \<open>futures_protection_transport.py\<close>: conditional stop orders (\<open>Futures_Native\<close>, \<open>Futures_Transport\<close>);
    the dispatch of \<open>Short_Authority\<close> checks its native commands.
  \<^item> \<open>toss_cash_ledger.py\<close> with the order checks of \<open>toss_adapter.py\<close>: the append-only facts of a cash
    operation and the cash and positions projected from them (\<open>Toss_Ledger\<close>).
  \<^item> \<open>continuous_dispatch.py\<close>: the durable journal of the intents of a live cycle and their one-attempt
    dispatch (\<open>Intent_Journal\<close>, \<open>Intent_Dispatch\<close>).
  \<^item> \<open>safety_confirmation.py\<close>: the one-shot confirmations of dangerous actions (\<open>Confirm_Store\<close>).

  How code and model correspond. A function is a definition of its name (with a suffix or a prefix where
  HOL or another module has the name), its early returns and exceptions are the branches, an exception is
  the left side of a sum (\<open>py_error\<close>, \<open>res\<close> in \<open>Prelude\<close>). A class with tables is a record of row lists in
  insertion order; a method takes the tables and returns them updated. A method runs in one SQLite
  transaction, so when it raises the tables are what they were. Database constraints and triggers are
  checks of the inserting definitions. The clock, random digits, readers, routers and the file system's
  answers are arguments. A run that may not return is \<open>partial_function (option)\<close>: the remainder loop of a
  fill distribution is one, and \<open>fill_distribution_fair\<close> proves that it returns.

  Below the components are theories of the language: \<open>Py_Text\<close> (strings as UTF-8 bytes), \<open>Py_Value\<close> (dynamic
  values, dicts, canonical JSON and its injectivity), \<open>Py_Canon\<close>, \<open>Py_Access\<close> (subscripts and keys), \<open>Py_Compare\<close> (\<open>==\<close>), \<open>Py_Number\<close> (\<open>int\<close>),
  \<open>Py_Decimal\<close> (values with the context's rounding), \<open>Py_Dec_Text\<close> (sign, coefficient and exponent, where
  the code prints them), \<open>Py_Time\<close> (calendar and ISO texts), \<open>Py_Hash\<close> (SHA-256 over 32-bit words),
  \<open>Py_Float\<close> (IEEE sums, for clocks).

  Interfaces. \<open>Hash_Chain\<close> states as locales what a hash-chained log (\<open>sealed_rows\<close>) and a store of such
  logs (\<open>sealed_store\<close>) promise, the same theory extends them to numbered logs of entities driven by the steps of a store
  (\<open>event_log\<close>); their clients' facts (well-kept logs stay well-kept, heads commit to contents, histories only grow) are
  proved there once. The interpretations are \<open>portfolio_log\<close> (\<open>Portfolio_Chain\<close>), \<open>runtime_log\<close> and
  \<open>incident_log\<close> (\<open>Gov_Chain\<close>), \<open>manifest_log\<close> (\<open>Gov_Manifest_Chain\<close>) and \<open>receipt_log\<close> (\<open>Krw_Chain\<close>).
  \<open>ledger_invariant\<close> carries a property of the portfolio tables through every operation.

  What the lemmas show.

  \<^item> Plans and fills (\<open>Portfolio_Plan_Laws\<close>, \<open>Portfolio_Fee_Laws\<close>): a built plan conserves every sleeve's target,
    nets in one direction and survives its metadata; validated metadata is as sound; fills and fees are
    distributed completely, in whole units, with the right sign.
  \<^item> Ledger (\<open>Portfolio_Ledger_Laws\<close>): replays are absorbed whatever ran in between, reused identities are
    refused, every reachable chain verifies, and the verified head commits to all events.
  \<^item> Governance (\<open>Gov_Log_Laws\<close>, \<open>Gov_Scope_Laws\<close>, \<open>Gov_Auth_Laws\<close>, \<open>Gov_Gate_Laws\<close>, \<open>Gov_Integrity_Laws\<close>): logs are
    numbered, chained and follow the transition tables; the store refines an abstract session machine;
    a live session has a passing preflight; a granted authorization means every condition holds; the
    integrity check accepts exactly what the operations produce, and its acceptance is tamper-evident.
  \<^item> KRW budget (\<open>Krw_Budget\<close>): whenever a pool is reported its cap holds, whatever the database contains;
    reservations take effect once, replay for ever, and succeed when they fit.
  \<^item> Owned capital (\<open>Kis_Laws\<close>, \<open>Kis_Budget\<close>, \<open>Kis_Projection\<close>): in every reachable store the books of an account
    are covered by its own reservations, so principals, reservations and cap are ordered; a projection
    is exact and was not negative after any receipt.
  \<^item> Orders (\<open>Stop_Laws\<close>, \<open>Route_Laws\<close>, \<open>Route_Orders\<close>, \<open>Wire_Laws\<close>, \<open>Owned_Lock\<close>): the latch fails closed and
    stays, and opens only by a release written to disk; for all interleavings no order passes a boundary while it is ON or while another session owns
    the exchange; a dispatched request is the reserved order, once.
  \<^item> Stop orders (\<open>Futures_Transport\<close>): one attempt per reservation, whatever the router answers.
  \<^item> Toss (\<open>Toss_Laws\<close>, \<open>Toss_Cash\<close>, \<open>Toss_Types\<close>): facts are kept and unique, a fill belongs to its order, the
    projection conserves cash and shares and never meets a fact it cannot read.
  \<^item> Intents (\<open>Intent_Laws\<close>, \<open>Intent_Safety\<close>): whatever processes share a journal, an intent is attempted at most
    once, an unknown outcome stops everything until it is proved, and ok means sent as journalled.
  \<^item> Confirmations (\<open>Confirm_Store\<close>): accepted once, in time, for exactly the confirmed action.
  \<^item> Where the code departs from its intent there is a lemma with the counterexample: \<open>Gov_Edge_Cases\<close> (an
    unreserved event type, "newest" by text), \<open>Portfolio_Fee_Laws.fill_increment_reverses\<close> (a purchase booked
    as a sale), \<open>Stop_Laws.unencodable_kill_lost\<close> (a Kill whose reason cannot be encoded).

  Bounds. Decimal arithmetic rounds to 28 digits, half to even; plans and fills are exact for whole
  quantities below \<open>10^28\<close>, the Toss projection for amounts of at most eight decimals and a turnover below
  \<open>10^20\<close> (the theorems name these as hypotheses, and say what holds beyond them). Owned capital is added with 2048
  digits, which is exact for up to \<open>10^1000\<close> receipts. SQLite integers are
  64 bits. A KRW column has at most 16384 characters and 8 MiB. Hash arguments are "up to a collision":
  the statements exhibit the two texts with one digest. \<open>stable_sha256\<close> of the external package
  \<open>trading_runtime\<close> is the argument \<open>sha\<close> of the definitions of owned capital and of Toss, there with the hypothesis \<open>hashes_json\<close> that
  it hashes the canonical JSON of a value; the witnesses take the SHA-256 of that text.

  The journal's theorems range over any processes, generations and tokens; random identities and tokens are not
  assumed to be fresh except where a statement says that they are not repeated.

  Limits of the model. Case mappings, \<open>isalnum\<close> and \<open>strip\<close> are those of ASCII. Floats are their \<open>repr\<close>;
  NaN is compared by it. Numbers inside error messages are printed as the ledger prints them. Exponents beyond the
  decimal context, JSON integers of more than 4300 digits, ISO formats newer interpreters accept, dict keys that are
  not texts, recursion limits, the order SQLite gives to ties, its index rows in
  \<open>sqlite_master\<close>, and \<open>json_extract\<close> on routes that are not texts are left out. A list or dict where a
  set or dict takes a key raises in the Toss theories, the stop-order transport and the ledger; elsewhere such a value is
  merely not a member. URL splitting checks brackets for balance only and keeps percent-encoded bytes as they are. In the request checks of
  \<open>Short_Wire\<close> a missing entry of the order reads as \<open>None\<close>, where Python raises: the model accepts no less.

  Not modelled, and why. The helpers of \<open>kis_owned_capital.py\<close> outside its store, which recover identities from the KIS
  lanes' records, belong to those lanes; in front of its transactions the check of the SQLite file's header is an argument, and so
  is the caller's guard. The server, desktop and daemon (\<open>state.py\<close>, \<open>server.py\<close>) are wiring of threads and
  sockets; the broker clients (\<open>brokers.py\<close>, \<open>live_adapters.py\<close> but for \<open>PreparedRequest\<close>, the account reads of
  \<open>toss_adapter.py\<close>) are I/O; \<open>order_coordination.py\<close> and \<open>toss_cash_operation.py\<close> rest on the package
  \<open>trading_runtime\<close>, which is not part of the repository; \<open>account_risk.py\<close>, \<open>futures_risk.py\<close> and
  \<open>capital_rollout.py\<close> compute with binary floats, which a value given by its \<open>repr\<close> does not support; the
  functional lanes and the continuous coordinators of Upbit, Binance and KIS call the modelled boundaries and
  are protocols of their own, larger than all of the above together.
\<close>

end
